(* ===== verification/CM_Prelude.thy ===== *)
theory CM_Prelude
  imports Complex_Main "HOL-Library.List_Lexorder" "HOL-Library.Char_ord" "HOL-Library.Multiset"
begin

text \<open>
  Shared vocabulary of the development: identifiers, issue paths, JavaScript's collection idioms
  (\<open>forEach\<close> with an index, \<open>Set\<close>, \<open>Map\<close>, default \<open>sort\<close>) as total functions, and the generic
  facts about them. A JavaScript string is a \<open>string\<close> whose characters are its code units
  restricted to U+0000..U+00FF, so that the order of code units is the order of characters.
\<close>

named_theorems issue_simps \<open>when a validator reports no issue\<close>
named_theorems lookup_simps \<open>what the indexes built from a list return\<close>

type_synonym ident = string

text \<open>A path of a contract issue, before its segments are joined with dots.\<close>

datatype pseg = K string | I nat

type_synonym path = "pseg list"

section \<open>Loops that report issues\<close>

text \<open>\<open>xs.forEach((x, index) => ... issues.push(..))\<close>: the issues of every element in order.\<close>

fun forEachFrom :: "nat \<Rightarrow> (nat \<Rightarrow> 'a \<Rightarrow> 'b list) \<Rightarrow> 'a list \<Rightarrow> 'b list" where
  "forEachFrom n f [] = []"
| "forEachFrom n f (x # xs) = f n x @ forEachFrom (Suc n) f xs"

abbreviation forEach :: "(nat \<Rightarrow> 'a \<Rightarrow> 'b list) \<Rightarrow> 'a list \<Rightarrow> 'b list" where
  "forEach \<equiv> forEachFrom 0"

lemma forEachFrom_Nil_iff:
  "forEachFrom n f xs = [] \<longleftrightarrow> (\<forall>i < length xs. f (n + i) (xs ! i) = [])"
proof (induction xs arbitrary: n)
  case Nil
  then show ?case by simp
next
  case (Cons x xs)
  have "(\<forall>i < length (x # xs). f (n + i) ((x # xs) ! i) = []) \<longleftrightarrow>
        f n x = [] \<and> (\<forall>i < length xs. f (Suc n + i) (xs ! i) = [])"
    by (auto simp: less_Suc_eq_0_disj)
  with Cons.IH [of "Suc n"] show ?case by simp
qed

lemma forEach_Nil_iff [issue_simps]:
  "forEach f xs = [] \<longleftrightarrow> (\<forall>i < length xs. f i (xs ! i) = [])"
  by (simp add: forEachFrom_Nil_iff)

lemma forEach_Nil_ball:
  "(\<And>i x. f i x = [] \<longleftrightarrow> P x) \<Longrightarrow> forEach f xs = [] \<longleftrightarrow> (\<forall>x \<in> set xs. P x)"
  by (simp add: forEach_Nil_iff all_set_conv_all_nth)

text \<open>\<open>if (cond) issues.push(issue)\<close>\<close>

abbreviation report :: "bool \<Rightarrow> 'i \<Rightarrow> 'i list" where
  "report b i \<equiv> (if b then [i] else [])"

lemma report_Nil_iff [issue_simps]: "report b i = [] \<longleftrightarrow> \<not> b"
  by simp

section \<open>JavaScript sets and maps\<close>

text \<open>A \<open>Set\<close> keeps insertion order: a distinct list.\<close>

definition setAdd :: "'a \<Rightarrow> 'a list \<Rightarrow> 'a list" where
  "setAdd x s = (if x \<in> set s then s else s @ [x])"

definition setAddAll :: "'a list \<Rightarrow> 'a list \<Rightarrow> 'a list" where
  "setAddAll xs s = fold setAdd xs s"

lemma set_setAdd [simp]: "set (setAdd x s) = insert x (set s)"
  by (auto simp: setAdd_def)

lemma distinct_setAdd [simp]: "distinct (setAdd x s) = distinct s"
  by (auto simp: setAdd_def)

lemma set_setAddAll [simp]: "set (setAddAll xs s) = set xs \<union> set s"
  unfolding setAddAll_def by (induction xs arbitrary: s) auto

lemma distinct_setAddAll [simp]: "distinct (setAddAll xs s) = distinct s"
  unfolding setAddAll_def by (induction xs arbitrary: s) auto

text \<open>\<open>new Map(xs.map(x => [key(x), x]))\<close>: a later entry overwrites an earlier one.\<close>

definition mapFrom :: "('a \<Rightarrow> 'k) \<Rightarrow> 'a list \<Rightarrow> 'k \<rightharpoonup> 'a" where
  "mapFrom key xs = fold (\<lambda>x m. m(key x \<mapsto> x)) xs Map.empty"

lemma fold_upd_lookup:
  "fold (\<lambda>x m. m(key x \<mapsto> x)) xs m k =
     (case find (\<lambda>x. key x = k) (rev xs) of None \<Rightarrow> m k | Some x \<Rightarrow> Some x)"
proof (induction xs arbitrary: m)
  case Nil
  then show ?case by simp
next
  case (Cons x xs)
  have "find P (ys @ [y]) = (case find P ys of None \<Rightarrow> if P y then Some y else None | Some z \<Rightarrow> Some z)"
    for P :: "'a \<Rightarrow> bool" and ys y
    by (induction ys) auto
  then show ?case using Cons.IH by (auto split: option.splits)
qed

lemma mapFrom_lookup: "mapFrom key xs k = find (\<lambda>x. key x = k) (rev xs)"
  by (auto simp: mapFrom_def fold_upd_lookup split: option.splits)

lemma mapFrom_SomeD: "mapFrom key xs k = Some x \<Longrightarrow> x \<in> set xs \<and> key x = k"
  by (auto simp: mapFrom_lookup find_Some_iff in_set_conv_nth)
     (metis diff_less length_greater_0_conv less_nat_zero_code list.size(3) rev_nth
        add_leE diff_Suc_less)

lemma mapFrom_None_iff [lookup_simps]: "mapFrom key xs k = None \<longleftrightarrow> k \<notin> key ` set xs"
  by (auto simp: mapFrom_lookup find_None_iff)

lemma mapFrom_distinct:
  assumes "distinct (map key xs)" and "x \<in> set xs"
  shows "mapFrom key xs (key x) = Some x"
proof -
  obtain y where y: "mapFrom key xs (key x) = Some y"
    using assms(2) mapFrom_None_iff [of key xs "key x"] by (cases "mapFrom key xs (key x)") auto
  then have "y \<in> set xs" and "key y = key x" by (auto dest: mapFrom_SomeD)
  with assms have "y = x" by (metis distinct_map inj_onD)
  with y show ?thesis by simp
qed

text \<open>\<open>const xs = m.get(k) ?? []; xs.push(v); m.set(k, xs)\<close>\<close>

definition pushTo :: "'k \<Rightarrow> 'v \<Rightarrow> ('k \<rightharpoonup> 'v list) \<Rightarrow> ('k \<rightharpoonup> 'v list)" where
  "pushTo k v m = m(k \<mapsto> (case m k of None \<Rightarrow> [] | Some vs \<Rightarrow> vs) @ [v])"

definition groupBy :: "('a \<Rightarrow> 'k) \<Rightarrow> 'a list \<Rightarrow> 'k \<rightharpoonup> 'a list" where
  "groupBy key xs = fold (\<lambda>x. pushTo (key x) x) xs Map.empty"

definition getOrEmpty :: "('k \<rightharpoonup> 'v list) \<Rightarrow> 'k \<Rightarrow> 'v list" where
  "getOrEmpty m k = (case m k of None \<Rightarrow> [] | Some vs \<Rightarrow> vs)"

lemma getOrEmpty_fold_push:
  "getOrEmpty (fold (\<lambda>x. pushTo (key x) x) xs m) k = getOrEmpty m k @ filter (\<lambda>x. key x = k) xs"
  by (induction xs arbitrary: m) (auto simp: getOrEmpty_def pushTo_def)

lemma getOrEmpty_groupBy [lookup_simps]:
  "getOrEmpty (groupBy key xs) k = filter (\<lambda>x. key x = k) xs"
  by (simp add: groupBy_def getOrEmpty_fold_push) (simp add: getOrEmpty_def)

lemma groupBy_SomeD: "groupBy key xs k = Some ys \<Longrightarrow> ys = filter (\<lambda>x. key x = k) xs"
  using getOrEmpty_groupBy [of key xs k] by (simp add: getOrEmpty_def)

lemma fold_push_None:
  "fold (\<lambda>x. pushTo (key x) x) xs m k = None \<longleftrightarrow> m k = None \<and> k \<notin> key ` set xs"
  by (induction xs arbitrary: m) (auto simp: pushTo_def)

lemma groupBy_None_iff [lookup_simps]: "groupBy key xs k = None \<longleftrightarrow> k \<notin> key ` set xs"
  by (simp add: groupBy_def fold_push_None)

section \<open>Composite keys\<close>

text \<open>\<open>`${a}\u0000${b}`\<close>: unambiguous as long as the first part has no NUL.\<close>

definition nul :: char where "nul = CHR 0x00"

definition nulKey :: "string \<Rightarrow> string \<Rightarrow> string" where
  "nulKey a b = a @ nul # b"

lemma append_sep_inject:
  assumes "a @ z # b = c @ z # d" and "z \<notin> set a" and "z \<notin> set c"
  shows "a = c \<and> b = d"
  using assms
proof (induction a arbitrary: c)
  case Nil
  then show ?case by (cases c) auto
next
  case (Cons x a)
  then show ?case by (cases c) auto
qed

lemma nulKey_inject:
  "nulKey a b = nulKey c d \<Longrightarrow> nul \<notin> set a \<Longrightarrow> nul \<notin> set c \<Longrightarrow> a = c \<and> b = d"
  unfolding nulKey_def by (rule append_sep_inject)

section \<open>Sorted lists of ids\<close>

lemma sort_of_same_set:
  "distinct xs \<Longrightarrow> distinct ys \<Longrightarrow> set xs = set ys \<Longrightarrow> sort xs = (sort ys :: 'a::linorder list)"
  by (metis properties_for_sort set_eq_iff_mset_eq_distinct mset_sort sorted_sort)

section \<open>Errors\<close>

text \<open>A computation that may throw, and what follows it when it does not.\<close>

fun onward :: "'e + 'a \<Rightarrow> ('a \<Rightarrow> 'e + 'b) \<Rightarrow> 'e + 'b" where
  "onward (Inl e) f = Inl e"
| "onward (Inr a) f = f a"

lemma onward_Inr_iff: "onward m f = Inr b \<longleftrightarrow> (\<exists>a. m = Inr a \<and> f a = Inr b)"
  by (cases m) simp_all

lemma onward_InrE:
  assumes "onward m f = Inr b"
  obtains a where "m = Inr a" and "f a = Inr b"
  using assms by (auto simp: onward_Inr_iff)

section \<open>Step systems\<close>

text \<open>
  A state that changes in steps, and a property that the steps keep: what holds at the start and is
  kept by every step holds in every state that can be reached.
\<close>

locale step_invariant =
  fixes start :: 's
    and step :: "'s \<Rightarrow> 's \<Rightarrow> bool"
    and inv :: "'s \<Rightarrow> bool"
  assumes start_inv: "inv start"
    and step_inv: "inv s \<Longrightarrow> step s s' \<Longrightarrow> inv s'"
begin

lemma steps_inv:
  assumes "step\<^sup>*\<^sup>* s t" and "inv s"
  shows "inv t"
  using assms by (induction rule: rtranclp_induct) (auto intro: step_inv)

lemma reachable_inv: "step\<^sup>*\<^sup>* start s \<Longrightarrow> inv s"
  by (rule steps_inv [OF _ start_inv])

end

text \<open>A quantity of the state that the steps never change back once it is set.\<close>

locale step_stable =
  fixes step :: "'s \<Rightarrow> 's \<Rightarrow> bool"
    and fact :: "'s \<Rightarrow> bool"
  assumes step_fact: "fact s \<Longrightarrow> step s s' \<Longrightarrow> fact s'"
begin

lemma steps_fact: "step\<^sup>*\<^sup>* s t \<Longrightarrow> fact s \<Longrightarrow> fact t"
  by (induction rule: rtranclp_induct) (auto intro: step_fact)

end

end
