(* ===== verification/CM_Contracts.thy ===== *)
theory CM_Contracts
  imports CM_Prelude
begin

text \<open>
  The data of the decision contract, version 1 (packages/contracts/src/decision/v1/index.ts): one
  record or datatype per exported type, with the source's field names (\<open>candidate.decisionTaskId\<close>
  is the field of \<open>CandidateV1\<close>). Fields whose type is a single literal (\<open>contractType\<close>,
  \<open>contractVersion\<close>, \<open>currency\<close>, \<open>market\<close>, \<open>synthetic\<close>, \<open>algorithm\<close>, \<open>terminal\<close>) carry no
  information and are left out; unions discriminated by a literal are datatypes. JavaScript
  numbers that the schemas require to be integers are \<open>int\<close>, other numbers (finite doubles, only
  ever compared) are \<open>rat\<close>. Chinese literals are written in English.
\<close>

section \<open>Issues\<close>

datatype contract_issue = Issue (issuePath: path) (issueMessage: string)

section \<open>Requirements\<close>

record quantity =
  amount :: rat
  unitName :: string

datatype constraint_operator = AT_LEAST | AT_MOST | EQUALS

record requirement_constraint =
  key :: ident
  operator :: constraint_operator
  required :: quantity

record requirement_budget =
  confirmed :: bool
  hard :: bool
  maxAmountMinor :: int

record requirement_revision =
  requirementRevisionId :: ident
  decisionTaskId :: ident
  revision :: int
  submittedText :: string
  intendedUses :: "string list"
  budget :: "requirement_budget option"
  mustHaves :: "requirement_constraint list"
  niceToHaves :: "string list"
  mustNotHaves :: "string list"
  unknowns :: "string list"

record execute_command =
  executionRequestId :: ident
  requirementRevision :: requirement_revision

section \<open>Task states and snapshots\<close>

datatype paused_state = PAUSED_USER | PAUSED_PERMISSION | PAUSED_SOURCE_LOGIN | PAUSED_LIMIT

datatype decision_task_state =
    CREATED | UNDERSTANDING | PLANNING | RESEARCHING | VERIFYING | GAP_RESEARCH
  | COMPARING | CRITIQUING | GENERATING | PAUSED paused_state | COMPLETED | FAILED | CANCELLED

datatype snapshot_state =
    ACCEPTED | RUNNING | FAILED_RETRYABLE | FAILED_FINAL | PARTIAL | CANCELLED
  | PAUSED paused_state ident \<comment> \<open>with the \<open>runtimeSnapshotId\<close>\<close>

record task_snapshot =
  executionRequestId :: ident
  decisionTaskId :: ident
  agentRunId :: ident
  state :: snapshot_state
  terminal :: bool
  updatedAt :: string

section \<open>Candidates, claims and evidence\<close>

record candidate_identity =
  model :: string
  sku :: string
  configuration :: string

record observed_price =
  amountMinor :: int
  observedAt :: string

record candidate =
  candidateId :: ident
  decisionTaskId :: ident
  displayName :: string
  identity :: candidate_identity
  observedPrice :: observed_price

datatype claim_value = MONEY int | QUANTITY quantity | BOOLEAN bool | TEXT string

datatype claim_kind = FACT_ASSERTION | SOURCE_OPINION | SYSTEM_INFERENCE

datatype evidence_state = SUPPORTED | REFUTED | CONFLICTED | INSUFFICIENT

record claim =
  claimId :: ident
  decisionTaskId :: ident
  subjectId :: ident
  predicate :: string
  claimValue :: claim_value
  claimKind :: claim_kind

record raw_artifact =
  digest :: string
  objectKey :: string

datatype evidence_origin =
    SYNTHETIC (sourceId: ident) (title: string)
  | PUBLIC_WEB (sourceId: ident) (title: string) (url: string) (excerptDigest: string)
      (parserVersion: string) (rawArtifact: raw_artifact)

record evidence =
  evidenceId :: ident
  decisionTaskId :: ident
  capturedAt :: string
  locatorSection :: string
  locatorField :: string
  excerpt :: string
  validUntil :: string
  origin :: evidence_origin

datatype link_direction = SUPPORTS | REFUTES

record claim_evidence_link =
  linkId :: ident
  decisionTaskId :: ident
  claimId :: ident
  evidenceId :: ident
  direction :: link_direction

record claim_assessment =
  claimId :: ident
  evidenceState :: evidence_state
  supportingEvidenceIds :: "ident list"
  refutingEvidenceIds :: "ident list"

section \<open>Decisions\<close>

datatype decision_condition =
    MAX_PRICE (conditionId: ident) (conditionCandidateId: ident) (maxAmount: int) (verification: string)
  | OFFICIAL_WARRANTY (conditionId: ident) (conditionCandidateId: ident) (verification: string)

record candidate_disposition =
  dispositionId :: ident
  candidateId :: ident
  requirementKey :: ident
  reason :: string
  evidenceIds :: "ident list"

record decision_risk =
  riskId :: ident
  candidateId :: ident
  statementClaimId :: ident
  riskVerification :: string

datatype gap_resolution = VERIFY_CONDITION ident | PROVIDE_REQUIREMENT ident

record critical_gap =
  gapId :: ident
  key :: ident
  question :: string
  resolution :: gap_resolution

datatype next_step =
    PROVIDE_REQUIREMENT ident (instruction: string)
  | VERIFY_CONDITION ident (instruction: string)
  | VERIFY_RISK ident (instruction: string)

datatype decision_status =
    BUY_NOW | BUY_IF_PRICE | WAIT | KEEP_CURRENT | NEED_MORE_INFO | NO_MATCH | REFUSE_RISK

record decision_revision =
  decisionRevisionId :: ident
  decisionTaskId :: ident
  requirementRevisionId :: ident
  revision :: int
  status :: decision_status
  summary :: string
  selectedCandidateId :: "ident option"
  conditions :: "decision_condition list"
  candidateDispositions :: "candidate_disposition list"
  risks :: "decision_risk list"
  evidenceIds :: "ident list"
  criticalGaps :: "critical_gap list"
  assumptions :: "string list"
  validFrom :: string
  validUntil :: string
  nextSteps :: "next_step list"

section \<open>Run events\<close>

datatype event_type = TASK_STATE_CHANGED | RUNTIME_SUCCEEDED | RUNTIME_FAILED

record run_event =
  eventId :: ident
  decisionTaskId :: ident
  agentRunId :: ident
  sequence :: int
  occurredAt :: string
  eventType :: event_type
  taskState :: decision_task_state
  summary :: string

record persisted_run_event =
  cursor :: string
  event :: run_event

section \<open>Runtime recovery\<close>

record checkpoint_ref =
  checkpointId :: ident
  decisionTaskId :: ident
  agentRunId :: ident
  sequence :: int
  persistedAt :: string

record runtime_snapshot =
  snapshotId :: ident
  decisionTaskId :: ident
  agentRunId :: ident
  taskState :: decision_task_state
  resumable :: bool
  rawSnapshot :: raw_artifact
  checkpoint :: checkpoint_ref
  capturedAt :: string

record effect_result_ref =
  digest :: string
  objectKey :: string
  decisionTaskId :: ident
  agentRunId :: ident
  checkpointId :: ident
  effectId :: ident

datatype receipt_state = not_started | started | unknown | committed effect_result_ref

record effect_receipt =
  effectReceiptId :: ident
  decisionTaskId :: ident
  agentRunId :: ident
  checkpointId :: ident
  effectId :: ident
  recordedAt :: string
  state :: receipt_state

datatype recovery_decision = RESUME_ALLOWED | RESUME_DENIED | MANUAL_VERIFICATION_REQUIRED

datatype recovery_reason =
    SAFE_TO_RESUME | TASK_NOT_PAUSED | SNAPSHOT_NOT_RESUMABLE | EFFECT_STATUS_UNSAFE
  | EFFECT_RESULT_UNAVAILABLE | EFFECT_RESULT_INVALID | RECOVERY_FACTS_INVALID

record recovery_permission =
  decisionTaskId :: ident
  agentRunId :: ident
  snapshotId :: ident
  decision :: recovery_decision
  permissionReason :: recovery_reason

record paused_outcome =
  state :: paused_state
  summary :: string
  snapshot :: runtime_snapshot
  effectReceipts :: "effect_receipt list"
  runEvents :: "run_event list"

record resume_request =
  controlRequestId :: ident
  runtimeSnapshotId :: ident

record cancel_request =
  controlRequestId :: ident
  cancellationId :: ident

datatype control_error_code =
    RUNTIME_SNAPSHOT_INVALID | RUNTIME_PROTOCOL_UNSUPPORTED | RUNTIME_RESUME_DENIED
  | RUNTIME_RESUME_IN_PROGRESS | RUNTIME_FAILED_CODE | RUNTIME_CANCEL_RACE
  | CONTROL_PERSISTENCE_UNAVAILABLE | RUNTIME_RESULT_UNAVAILABLE

record control_error =
  code :: control_error_code
  message :: string

datatype control_action = RESUME | CANCEL

datatype control_request_state = ACCEPTED | RUNNING | COMPLETED | FAILED

record control_status =
  controlRequestId :: ident
  decisionTaskId :: ident
  agentRunId :: ident
  action :: control_action
  state :: control_request_state
  error :: "control_error option"
  updatedAt :: string

section \<open>Task results\<close>

record completed_status =
  decisionTaskId :: ident
  agentRunId :: ident
  latestEventSequence :: int
  decisionRevisionId :: ident
  updatedAt :: string

record failed_status =
  decisionTaskId :: ident
  agentRunId :: ident
  latestEventSequence :: int
  errorId :: ident
  updatedAt :: string

datatype retry_mode = NO_RETRY | SAME_EXECUTION_ONLY | NEW_EXECUTION_ALLOWED

datatype error_code =
    CONTRACT_INVALID | CONTRACT_VERSION_UNSUPPORTED | AGENT_RUNTIME_FAILED
  | DECISION_EXECUTION_STATUS_UNKNOWN | DECISION_TASK_NOT_FOUND | IDEMPOTENCY_CONFLICT
  | PERSISTENCE_UNAVAILABLE

datatype error_category = VALIDATION | VERSION | RUNTIME | TRANSPORT | RESOURCE | STORAGE

record choice_mind_error =
  errorId :: ident
  code :: error_code
  category :: error_category
  message :: string
  retryMode :: retry_mode
  issues :: "contract_issue list"
  occurredAt :: string

record bundle_draft =
  requirementRevision :: requirement_revision
  candidates :: "candidate list"
  claims :: "claim list"
  evidence :: "evidence list"
  claimEvidenceLinks :: "claim_evidence_link list"
  decision :: decision_revision

record decision_bundle = bundle_draft +
  claimAssessments :: "claim_assessment list"

datatype decision_task_result =
    Succeeded completed_status "run_event list" decision_bundle
  | Failed failed_status "run_event list" choice_mind_error
  | Rejected choice_mind_error

end
