(* ===== verification/CM_Json.thy ===== *)
theory CM_Json
  imports CM_Prelude
begin

text \<open>
  Untyped JavaScript values as the contracts package receives them (\<open>unknown\<close>), and the three
  routines that work on them before any schema is applied: the version scan
  \<open>findUnsupportedVersion\<close> (index.ts), the canonical serialisation \<open>canonicalizeJsonV1\<close>
  (canonical-json.ts) and the cursor test \<open>isPersistedRunEventCursorV1\<close> (cursor.ts).
\<close>

datatype json =
    JUndefined
  | JNull
  | JBool bool
  | JNum rat
  | JStr string
  | JArr "json list"
  | JObj "(string \<times> json) list"

section \<open>Records\<close>

definition isRecord :: "json \<Rightarrow> bool" where
  "isRecord v = (case v of JObj _ \<Rightarrow> True | _ \<Rightarrow> False)"

text \<open>Property access: \<open>undefined\<close> when the key is absent.\<close>

definition jget :: "json \<Rightarrow> string \<Rightarrow> json" where
  "jget v k = (case v of
      JObj kvs \<Rightarrow> (case map_of kvs k of None \<Rightarrow> JUndefined | Some w \<Rightarrow> w)
    | _ \<Rightarrow> JUndefined)"

definition jhas :: "json \<Rightarrow> string \<Rightarrow> bool" where
  "jhas v k = (case v of JObj kvs \<Rightarrow> k \<in> fst ` set kvs | _ \<Rightarrow> False)"

section \<open>The version scan\<close>

record scan_item =
  scanValue :: json
  scanPath :: path
  scanDepth :: nat

definition MAX_CONTRACT_VERSION_SCAN_DEPTH :: nat where
  "MAX_CONTRACT_VERSION_SCAN_DEPTH = 32"

fun indexedFrom :: "nat \<Rightarrow> json list \<Rightarrow> (pseg \<times> json) list" where
  "indexedFrom n [] = []"
| "indexedFrom n (v # vs) = (I n, v) # indexedFrom (Suc n) vs"

text \<open>The entries the loop collects: array elements by index, own properties in order.\<close>

definition scanEntries :: "json \<Rightarrow> (pseg \<times> json) list" where
  "scanEntries v = (case v of
      JArr vs \<Rightarrow> indexedFrom 0 vs
    | JObj kvs \<Rightarrow> map (\<lambda>(k, w). (K k, w)) kvs
    | _ \<Rightarrow> [])"

definition badVersion :: "json \<Rightarrow> bool" where
  "badVersion v \<longleftrightarrow>
     isRecord v \<and> jhas v ''contractType'' \<and> jget v ''contractVersion'' \<noteq> JStr ''1.0''"

text \<open>
  The stack \<open>pending\<close> has its top at the head of the list; pushing the entries from the last to
  the first leaves the first on top.
\<close>

definition pushEntries :: "scan_item \<Rightarrow> (pseg \<times> json) list \<Rightarrow> scan_item list \<Rightarrow> scan_item list" where
  "pushEntries cur entries pending =
     foldr (\<lambda>(s, w) st.
       \<lparr>scanValue = w, scanPath = scanPath cur @ [s], scanDepth = Suc (scanDepth cur)\<rparr> # st)
       entries pending"

lemma sum_indexedFrom:
  "sum_list (map (\<lambda>e. f (snd e)) (indexedFrom n vs)) = sum_list (map f vs)"
  by (induction vs arbitrary: n) auto

lemma size_entries_less:
  "sum_list (map (\<lambda>e. Suc (size (snd e))) (scanEntries v)) < Suc (size v)"
proof -
  have arr: "sum_list (map (\<lambda>x. Suc (size x)) vs) \<le> size_list size vs" for vs :: "json list"
    by (induction vs) auto
  have obj: "sum_list (map (\<lambda>e. Suc (size (snd e))) (map (\<lambda>(k, w). (K k, w)) kvs))
        \<le> size_list (size_prod (\<lambda>x. 0) size) kvs" for kvs :: "(string \<times> json) list"
    by (induction kvs) auto
  show ?thesis
  proof (cases v)
    case (JArr vs)
    with arr [of vs] show ?thesis
      using sum_indexedFrom [of "\<lambda>x. Suc (size x)" 0 vs] by (simp add: scanEntries_def)
  next
    case (JObj kvs)
    with obj [of kvs] show ?thesis by (simp add: scanEntries_def)
  qed (simp_all add: scanEntries_def)
qed

lemma pushEntries_measure:
  "sum_list (map (\<lambda>i. Suc (size (scanValue i))) (pushEntries cur es st)) =
   sum_list (map (\<lambda>e. Suc (size (snd e))) es) + sum_list (map (\<lambda>i. Suc (size (scanValue i))) st)"
  by (induction es) (auto simp: pushEntries_def split: prod.splits)

lemma pushEntries_shrinks:
  "sum_list (map (\<lambda>i. Suc (size (scanValue i))) (pushEntries cur (scanEntries (scanValue cur)) st))
   < Suc (size (scanValue cur)) + sum_list (map (\<lambda>i. Suc (size (scanValue i))) st)"
  using size_entries_less [of "scanValue cur"] by (simp only: pushEntries_measure)

function scanLoop :: "scan_item list \<Rightarrow> path option" where
  "scanLoop [] = None"
| "scanLoop (cur # pending) =
     (if badVersion (scanValue cur) then Some (scanPath cur @ [K ''contractVersion''])
      else if scanDepth cur \<ge> MAX_CONTRACT_VERSION_SCAN_DEPTH then scanLoop pending
      else scanLoop (pushEntries cur (scanEntries (scanValue cur)) pending))"
  by pat_completeness auto
termination
proof (relation "measure (\<lambda>st. sum_list (map (\<lambda>i. Suc (size (scanValue i))) st))")
  fix cur :: scan_item and pending
  show "(pushEntries cur (scanEntries (scanValue cur)) pending, cur # pending)
        \<in> measure (\<lambda>st. sum_list (map (\<lambda>i. Suc (size (scanValue i))) st))"
    using pushEntries_shrinks [of cur pending] by simp
qed auto

definition findUnsupportedVersion :: "json \<Rightarrow> path option" where
  "findUnsupportedVersion input = scanLoop [\<lparr>scanValue = input, scanPath = [], scanDepth = 0\<rparr>]"

subsection \<open>The scan is a depth-first search in document order\<close>

text \<open>
  What the loop computes, without the stack: the first offending record in pre-order, with
  \<open>fuel\<close> levels still to descend.
\<close>

fun firstUnsupported :: "nat \<Rightarrow> path \<Rightarrow> json \<Rightarrow> path option"
  and firstInEntries :: "nat \<Rightarrow> path \<Rightarrow> (pseg \<times> json) list \<Rightarrow> path option" where
  "firstUnsupported fuel p v =
     (if badVersion v then Some (p @ [K ''contractVersion''])
      else case fuel of 0 \<Rightarrow> None | Suc n \<Rightarrow> firstInEntries n p (scanEntries v))"
| "firstInEntries n p [] = None"
| "firstInEntries n p ((s, w) # es) =
     (case firstUnsupported n (p @ [s]) w of
        Some q \<Rightarrow> Some q
      | None \<Rightarrow> firstInEntries n p es)"

declare firstUnsupported.simps [simp del]

definition orElse :: "'a option \<Rightarrow> 'a option \<Rightarrow> 'a option" where
  "orElse a b = (case a of Some x \<Rightarrow> Some x | None \<Rightarrow> b)"

lemma orElse_simps [simp]:
  "orElse None b = b" "orElse (Some x) b = Some x" "orElse a None = a"
  by (auto simp: orElse_def split: option.splits)

lemma orElse_assoc: "orElse (orElse a b) c = orElse a (orElse b c)"
  by (cases a) auto

lemma firstInEntries_Cons:
  "firstInEntries n p ((s, w) # es) = orElse (firstUnsupported n (p @ [s]) w) (firstInEntries n p es)"
  by (auto simp: orElse_def split: option.splits)

definition itemResult :: "scan_item \<Rightarrow> path option" where
  "itemResult i = firstUnsupported (MAX_CONTRACT_VERSION_SCAN_DEPTH - scanDepth i) (scanPath i) (scanValue i)"

fun stackResult :: "scan_item list \<Rightarrow> path option" where
  "stackResult [] = None"
| "stackResult (i # st) = orElse (itemResult i) (stackResult st)"

lemma stackResult_push:
  "scanDepth cur < MAX_CONTRACT_VERSION_SCAN_DEPTH \<Longrightarrow>
   stackResult (pushEntries cur es st) =
     orElse (firstInEntries (MAX_CONTRACT_VERSION_SCAN_DEPTH - Suc (scanDepth cur)) (scanPath cur) es)
       (stackResult st)"
proof (induction es)
  case Nil
  then show ?case by (simp add: pushEntries_def)
next
  case (Cons e es)
  obtain s w where e: "e = (s, w)" by (cases e)
  from Cons show ?case
    by (simp add: e pushEntries_def itemResult_def firstInEntries_Cons orElse_assoc
        del: firstInEntries.simps)
qed

lemma scanLoop_stackResult: "scanLoop st = stackResult st"
proof (induction st rule: scanLoop.induct)
  case 1
  show ?case by simp
next
  case (2 cur pending)
  show ?case
  proof (cases "badVersion (scanValue cur) \<or> scanDepth cur \<ge> MAX_CONTRACT_VERSION_SCAN_DEPTH")
    case True
    with "2.IH" show ?thesis by (auto simp: itemResult_def firstUnsupported.simps)
  next
    case False
    then have fuel: "MAX_CONTRACT_VERSION_SCAN_DEPTH - scanDepth cur =
        Suc (MAX_CONTRACT_VERSION_SCAN_DEPTH - Suc (scanDepth cur))"
      by (simp add: Suc_diff_Suc)
    from False "2.IH"(2) show ?thesis
      by (simp add: stackResult_push itemResult_def firstUnsupported.simps [of "Suc _"] fuel)
  qed
qed

text \<open>
  The iterative scan with an explicit stack returns the first record in document order, down
  to depth 32, that carries a \<open>contractType\<close> without \<open>contractVersion\<close> "1.0".
\<close>

theorem findUnsupportedVersion_preorder:
  "findUnsupportedVersion input =
     firstUnsupported MAX_CONTRACT_VERSION_SCAN_DEPTH [] input"
  by (simp add: findUnsupportedVersion_def scanLoop_stackResult itemResult_def)

text \<open>The records the scan can see.\<close>

inductive visible :: "nat \<Rightarrow> json \<Rightarrow> json \<Rightarrow> bool" where
  self: "visible n v v"
| child: "(s, w) \<in> set (scanEntries v) \<Longrightarrow> visible n w u \<Longrightarrow> visible (Suc n) v u"

inductive_cases visible_0E: "visible 0 v u"
inductive_cases visible_SucE: "visible (Suc n) v u"

lemma firstInEntries_None_iff:
  "firstInEntries n p es = None \<longleftrightarrow> (\<forall>(s, w) \<in> set es. firstUnsupported n (p @ [s]) w = None)"
  by (induction es) (auto split: option.splits)

lemma firstUnsupported_None_iff:
  "firstUnsupported n p v = None \<longleftrightarrow> (\<forall>u. visible n v u \<longrightarrow> \<not> badVersion u)"
proof (induction n arbitrary: p v)
  case 0
  show ?case
    by (auto simp: firstUnsupported.simps elim: visible_0E intro: visible.intros)
next
  case (Suc n)
  have "firstUnsupported (Suc n) p v = None \<longleftrightarrow>
      \<not> badVersion v \<and> (\<forall>(s, w) \<in> set (scanEntries v). \<forall>u. visible n w u \<longrightarrow> \<not> badVersion u)"
    by (simp add: firstUnsupported.simps [of "Suc n"] firstInEntries_None_iff Suc.IH)
  also have "\<dots> \<longleftrightarrow> (\<forall>u. visible (Suc n) v u \<longrightarrow> \<not> badVersion u)"
    by (fastforce elim!: visible_SucE intro: visible.intros)
  finally show ?case .
qed

lemma findUnsupportedVersion_None_iff:
  "findUnsupportedVersion input = None \<longleftrightarrow>
     (\<forall>u. visible MAX_CONTRACT_VERSION_SCAN_DEPTH input u \<longrightarrow> \<not> badVersion u)"
  unfolding findUnsupportedVersion_def
  by (simp add: scanLoop_stackResult itemResult_def firstUnsupported_None_iff)

end
