(* ===== verification/CM_Canonical.thy ===== *)
theory CM_Canonical
  imports CM_Json
begin

text \<open>
  Canonical serialisation of a JSON value (canonical-json.ts), on which command fingerprints and
  object digests are computed, and the decimal event cursor (cursor.ts). \<open>JSON.stringify\<close> of a
  primitive value is the argument \<open>str\<close>: the result does not depend on how it prints them.
\<close>

section \<open>Canonical JSON\<close>

fun joinComma :: "string list \<Rightarrow> string" where
  "joinComma [] = ''''"
| "joinComma [s] = s"
| "joinComma (s # ss) = s @ '','' @ joinComma ss"

text \<open>\<open>None\<close> is the \<open>TypeError\<close> for a value that is not JSON.\<close>

fun canonicalizeJsonV1 :: "(json \<Rightarrow> string) \<Rightarrow> json \<Rightarrow> string option" where
  "canonicalizeJsonV1 str (JArr vs) =
     map_option (\<lambda>ss. ''['' @ joinComma ss @ '']'') (those (map (canonicalizeJsonV1 str) vs))"
| "canonicalizeJsonV1 str (JObj kvs) =
     map_option (\<lambda>ss. ''{'' @ joinComma ss @ ''}'')
       (those (map (\<lambda>(k, w). map_option (\<lambda>s. str (JStr k) @ '':'' @ s) (canonicalizeJsonV1 str w))
          (sort_key fst (filter (\<lambda>(k, w). w \<noteq> JUndefined) kvs))))"
| "canonicalizeJsonV1 str JUndefined = None"
| "canonicalizeJsonV1 str v = Some (str v)"

text \<open>Two values that differ only in the order of object properties, at any depth.\<close>

inductive reordered :: "json \<Rightarrow> json \<Rightarrow> bool" where
  same: "reordered v v"
| arr: "list_all2 reordered vs ws \<Longrightarrow> reordered (JArr vs) (JArr ws)"
| obj: "distinct (map fst kvs) \<Longrightarrow>
    list_all2 (\<lambda>x y. fst x = fst y \<and> reordered (snd x) (snd y)) kvs mid \<Longrightarrow>
    mset mid = mset lws \<Longrightarrow> reordered (JObj kvs) (JObj lws)"

lemma reordered_undefined: "reordered v w \<Longrightarrow> v = JUndefined \<longleftrightarrow> w = JUndefined"
  by (induction rule: reordered.induct) auto

lemma insort_key_list_all2:
  assumes "list_all2 (\<lambda>x y. fst x = fst y \<and> R x y) xs ys" and "fst x = fst y" and "R x y"
  shows "list_all2 (\<lambda>x y. fst x = fst y \<and> R x y) (insort_key fst x xs) (insort_key fst y ys)"
  using assms by (induction xs ys rule: list_all2_induct) auto

lemma sort_key_list_all2:
  "list_all2 (\<lambda>x y. fst x = fst y \<and> R x y) xs ys \<Longrightarrow>
   list_all2 (\<lambda>x y. fst x = fst y \<and> R x y) (sort_key fst xs) (sort_key fst ys)"
  unfolding sort_key_def
  by (induction xs ys rule: list_all2_induct) (auto intro: insort_key_list_all2)

lemma filter_list_all2:
  "list_all2 (\<lambda>x y. R x y \<and> (P x \<longleftrightarrow> P y)) xs ys \<Longrightarrow> list_all2 R (filter P xs) (filter P ys)"
  by (induction xs ys rule: list_all2_induct) auto

lemma sort_key_fst_perm:
  assumes "mset xs = mset ys" and "distinct (map fst xs)"
  shows "sort_key fst xs = sort_key fst ys"
proof -
  have "inj_on fst (set xs)" using assms(2) by (simp add: distinct_map)
  then show ?thesis
    using assms(1) by (intro sort_key_inj_key_eq) auto
qed

lemma map_eq_of_list_all2: "list_all2 (\<lambda>x y. f x = g y) xs ys \<Longrightarrow> map f xs = map g ys"
  by (induction xs ys rule: list_all2_induct) auto

lemma map_fst_of_list_all2:
  "list_all2 (\<lambda>x y. fst x = fst y \<and> R x y) xs ys \<Longrightarrow> map fst xs = map fst ys"
  by (induction xs ys rule: list_all2_induct) auto

text \<open>
  The canonical serialisation, and so every fingerprint and digest taken over it, does not
  depend on the order in which the properties of any nested object were written.
\<close>

theorem canonicalizeJsonV1_key_order:
  "reordered v w \<Longrightarrow> canonicalizeJsonV1 str v = canonicalizeJsonV1 str w"
proof (induction rule: reordered.induct)
  case (same v)
  show ?case ..
next
  case (arr vs ws)
  then have "map (canonicalizeJsonV1 str) vs = map (canonicalizeJsonV1 str) ws"
    by (intro map_eq_of_list_all2) (auto elim: list_all2_mono)
  then show ?case by simp
next
  case (obj kvs mid lws)
  let ?P = "\<lambda>(k :: string, w). w \<noteq> JUndefined"
  let ?f = "\<lambda>(k, w). map_option (\<lambda>s. str (JStr k) @ '':'' @ s) (canonicalizeJsonV1 str w)"
  let ?R = "\<lambda>x y. canonicalizeJsonV1 str (snd x) = canonicalizeJsonV1 str (snd y)"
  have "list_all2 (\<lambda>x y. (fst x = fst y \<and> ?R x y) \<and> (?P x \<longleftrightarrow> ?P y)) kvs mid"
    using obj.IH by (rule list_all2_mono) (auto dest: reordered_undefined)
  then have "list_all2 (\<lambda>x y. fst x = fst y \<and> ?R x y) (filter ?P kvs) (filter ?P mid)"
    by (rule filter_list_all2)
  then have "list_all2 (\<lambda>x y. fst x = fst y \<and> ?R x y)
      (sort_key fst (filter ?P kvs)) (sort_key fst (filter ?P mid))"
    by (rule sort_key_list_all2)
  then have maps: "map ?f (sort_key fst (filter ?P kvs)) = map ?f (sort_key fst (filter ?P mid))"
    by (intro map_eq_of_list_all2) (auto elim!: list_all2_mono)
  have "distinct (map fst mid)"
    using obj.hyps(1) obj.IH map_fst_of_list_all2 [OF obj.IH] by simp
  then have "sort_key fst (filter ?P mid) = sort_key fst (filter ?P lws)"
    using obj.hyps(2) by (intro sort_key_fst_perm) (auto intro: distinct_map_filter)
  with maps show ?case by simp
qed

theorem canonicalizeJsonV1_key_order_witness:
  "let str = (\<lambda>v. case v of JStr s \<Rightarrow> CHR 0x22 # s @ [CHR 0x22] | _ \<Rightarrow> ''1'') in
   canonicalizeJsonV1 str (JObj [(''b'', JNum 1), (''a'', JArr [JNull])]) =
   canonicalizeJsonV1 str (JObj [(''a'', JArr [JNull]), (''b'', JNum 1)])"
  unfolding Let_def
proof (rule canonicalizeJsonV1_key_order)
  let ?kvs = "[(''b'', JNum 1), (''a'', JArr [JNull])]"
  have "distinct (map fst ?kvs)" by simp
  moreover have "list_all2 (\<lambda>x y. fst x = fst y \<and> reordered (snd x) (snd y)) ?kvs ?kvs"
    by (auto intro: reordered.same)
  moreover have "mset ?kvs = mset [(''a'', JArr [JNull]), (''b'', JNum 1)]" by simp
  ultimately show "reordered (JObj ?kvs) (JObj [(''a'', JArr [JNull]), (''b'', JNum 1)])"
    by (rule reordered.obj)
qed

section \<open>Cursors\<close>

definition POSTGRES_BIGINT_MAX :: nat where
  "POSTGRES_BIGINT_MAX = 9223372036854775807"

definition isDigit :: "char \<Rightarrow> bool" where
  "isDigit c \<longleftrightarrow> 48 \<le> (of_char c :: nat) \<and> (of_char c :: nat) \<le> 57"

definition digitVal :: "char \<Rightarrow> nat" where
  "digitVal c = of_char c - 48"

definition BigInt :: "string \<Rightarrow> nat" where
  "BigInt s = foldl (\<lambda>n c. 10 * n + digitVal c) 0 s"

text \<open>The regular expression \<open>[1-9][0-9]*\<close>, anchored at both ends.\<close>

definition cursorShape :: "string \<Rightarrow> bool" where
  "cursorShape s = (case s of [] \<Rightarrow> False
     | c # cs \<Rightarrow> isDigit c \<and> digitVal c \<noteq> 0 \<and> list_all isDigit cs)"

definition isPersistedRunEventCursorV1 :: "json \<Rightarrow> bool" where
  "isPersistedRunEventCursorV1 v = (case v of
      JStr s \<Rightarrow> cursorShape s \<and> BigInt s \<le> POSTGRES_BIGINT_MAX
    | _ \<Rightarrow> False)"

text \<open>\<open>cursor::text\<close>: the decimal form of a positive \<open>bigint\<close>.\<close>

definition digitChar :: "nat \<Rightarrow> char" where
  "digitChar d = char_of (48 + d)"

fun decimal :: "nat \<Rightarrow> string" where
  "decimal n = (if n < 10 then [digitChar n] else decimal (n div 10) @ [digitChar (n mod 10)])"

declare decimal.simps [simp del]

lemma digitChar_digit: "d < 10 \<Longrightarrow> isDigit (digitChar d) \<and> digitVal (digitChar d) = d"
  by (simp add: isDigit_def digitVal_def digitChar_def)

lemma digitVal_char: "isDigit c \<Longrightarrow> digitChar (digitVal c) = c \<and> digitVal c < 10"
  unfolding isDigit_def digitVal_def digitChar_def by (rule conjI, simp) arith

lemma BigInt_snoc [simp]: "BigInt (s @ [c]) = 10 * BigInt s + digitVal c"
  by (simp add: BigInt_def)

lemma BigInt_single: "BigInt [c] = digitVal c"
  by (simp add: BigInt_def)

lemma BigInt_decimal: "BigInt (decimal n) = n"
proof (induction n rule: decimal.induct)
  case (1 n)
  then show ?case
    by (subst decimal.simps) (auto simp: BigInt_single digitChar_digit)
qed

lemma cursorShape_decimal: "0 < n \<Longrightarrow> cursorShape (decimal n)"
proof (induction n rule: decimal.induct)
  case (1 n)
  show ?case
  proof (cases "n < 10")
    case True
    with "1.prems" show ?thesis
      by (subst decimal.simps) (simp add: cursorShape_def digitChar_digit)
  next
    case False
    with "1.IH" have "cursorShape (decimal (n div 10))" by simp
    with False show ?thesis
      by (subst decimal.simps) (auto simp: cursorShape_def digitChar_digit split: list.splits)
  qed
qed

lemma cursorShape_single: "cursorShape [c] \<longleftrightarrow> isDigit c \<and> digitVal c \<noteq> 0"
  by (simp add: cursorShape_def)

lemma cursorShape_snoc:
  "cursorShape (s @ [c]) \<longleftrightarrow> (if s = [] then isDigit c \<and> digitVal c \<noteq> 0 else cursorShape s \<and> isDigit c)"
  by (cases s) (auto simp: cursorShape_def)

lemma cursorShape_value:
  "cursorShape s \<Longrightarrow> 0 < BigInt s \<and> decimal (BigInt s) = s"
proof (induction s rule: rev_induct)
  case Nil
  then show ?case by (simp add: cursorShape_def)
next
  case (snoc c s)
  show ?case
  proof (cases "s = []")
    case True
    with snoc.prems have "isDigit c" and "digitVal c \<noteq> 0" by (auto simp: cursorShape_single)
    with True show ?thesis
      using digitVal_char [of c] by (subst decimal.simps) (simp add: BigInt_single)
  next
    case False
    with snoc.prems have c: "isDigit c" and "cursorShape s" by (auto simp: cursorShape_snoc)
    with snoc.IH have "0 < BigInt s" and "decimal (BigInt s) = s" by auto
    then show ?thesis
      using digitVal_char [OF c] by (subst decimal.simps) simp
  qed
qed

text \<open>
  A value is accepted as an event cursor exactly when it is the decimal form of an integer
  between 1 and the largest Postgres \<open>bigint\<close>: the cursors the database hands out, and no others.
\<close>

theorem isPersistedRunEventCursorV1_iff:
  "isPersistedRunEventCursorV1 v \<longleftrightarrow>
     (\<exists>n. 1 \<le> n \<and> n \<le> POSTGRES_BIGINT_MAX \<and> v = JStr (decimal n))"
proof
  assume "isPersistedRunEventCursorV1 v"
  then obtain s where "v = JStr s" and "cursorShape s" and "BigInt s \<le> POSTGRES_BIGINT_MAX"
    by (auto simp: isPersistedRunEventCursorV1_def split: json.splits)
  moreover from this have "0 < BigInt s" and "s = decimal (BigInt s)"
    using cursorShape_value by auto
  ultimately show "\<exists>n. 1 \<le> n \<and> n \<le> POSTGRES_BIGINT_MAX \<and> v = JStr (decimal n)"
    by (metis One_nat_def Suc_leI)
next
  assume "\<exists>n. 1 \<le> n \<and> n \<le> POSTGRES_BIGINT_MAX \<and> v = JStr (decimal n)"
  then show "isPersistedRunEventCursorV1 v"
    by (auto simp: isPersistedRunEventCursorV1_def BigInt_decimal cursorShape_decimal)
qed

end
