(* ===== verification/CM_Schemas.thy ===== *)
theory CM_Schemas
  imports CM_Contracts CM_Canonical
begin

text \<open>
  The schemas of packages/contracts/src/decision/v1/schemas.ts, one predicate per schema. The
  source proves at compile time (\<open>schemaContractConsistency\<close>) that the output type of each schema
  is exactly the contract type, so on a value of the contract type a schema decides its refinements
  only: non-empty ids, meaningful text, integer ranges, digests, object keys and the \<open>superRefine\<close>
  conditions. Two of zod's own string formats cannot be read from the repository and are the
  parameters of the model collected in \<open>zod_formats\<close>.
\<close>

record zod_formats =
  isoDatetime :: "string \<Rightarrow> bool" \<comment> \<open>\<open>z.iso.datetime({ offset: false })\<close>\<close>
  zodUrl :: "string \<Rightarrow> bool" \<comment> \<open>\<open>z.url()\<close>\<close>


section \<open>Text and digests\<close>

definition isWhitespace :: "char \<Rightarrow> bool" where
  "isWhitespace c \<longleftrightarrow> (let n = (of_char c :: nat) in (9 \<le> n \<and> n \<le> 13) \<or> n = 32 \<or> n = 160)"

text \<open>\<open>value.trim().length > 0\<close>\<close>

definition meaningfulTextSchema :: "string \<Rightarrow> bool" where
  "meaningfulTextSchema s \<longleftrightarrow> list_ex (\<lambda>c. \<not> isWhitespace c) s"

text \<open>\<open>String.prototype.trim\<close>\<close>

definition trim :: "string \<Rightarrow> string" where
  "trim s = rev (dropWhile isWhitespace (rev (dropWhile isWhitespace s)))"

definition idSchema :: "ident \<Rightarrow> bool" where
  "idSchema s \<longleftrightarrow> s \<noteq> []"

definition hexDigit :: "char \<Rightarrow> bool" where
  "hexDigit c \<longleftrightarrow> (let n = (of_char c :: nat) in (48 \<le> n \<and> n \<le> 57) \<or> (97 \<le> n \<and> n \<le> 102))"

definition sha256DigestSchema :: "string \<Rightarrow> bool" where
  "sha256DigestSchema s \<longleftrightarrow> length s = 64 \<and> list_all hexDigit s"

section \<open>Requirements\<close>

definition quantitySchema :: "quantity \<Rightarrow> bool" where
  "quantitySchema q \<longleftrightarrow> 0 < amount q \<and> idSchema (unitName q)"

definition requirementConstraintSchema :: "requirement_constraint \<Rightarrow> bool" where
  "requirementConstraintSchema c \<longleftrightarrow>
     idSchema (requirement_constraint.key c) \<and> quantitySchema (required c)"

text \<open>The \<open>superRefine\<close>: an issue for each must-have whose key was seen before.\<close>

fun duplicateKeyIndexes :: "nat \<Rightarrow> ident list \<Rightarrow> requirement_constraint list \<Rightarrow> nat list" where
  "duplicateKeyIndexes n seen [] = []"
| "duplicateKeyIndexes n seen (c # cs) =
     (if requirement_constraint.key c \<in> set seen then [n] else [])
     @ duplicateKeyIndexes (Suc n) (setAdd (requirement_constraint.key c) seen) cs"

definition requirementRevisionSchema :: "requirement_revision \<Rightarrow> bool" where
  "requirementRevisionSchema r \<longleftrightarrow>
     idSchema (requirement_revision.requirementRevisionId r)
     \<and> idSchema (requirement_revision.decisionTaskId r)
     \<and> 0 < requirement_revision.revision r
     \<and> meaningfulTextSchema (submittedText r)
     \<and> intendedUses r \<noteq> [] \<and> list_all meaningfulTextSchema (intendedUses r)
     \<and> (case budget r of None \<Rightarrow> True | Some bud \<Rightarrow> 0 \<le> maxAmountMinor bud)
     \<and> list_all requirementConstraintSchema (mustHaves r)
     \<and> list_all meaningfulTextSchema (niceToHaves r)
     \<and> list_all meaningfulTextSchema (mustNotHaves r)
     \<and> list_all meaningfulTextSchema (unknowns r)
     \<and> duplicateKeyIndexes 0 [] (mustHaves r) = []"

definition executeDecisionTaskCommandSchema :: "execute_command \<Rightarrow> bool" where
  "executeDecisionTaskCommandSchema c \<longleftrightarrow>
     idSchema (execute_command.executionRequestId c)
     \<and> requirementRevisionSchema (execute_command.requirementRevision c)"

lemma duplicateKeyIndexes_Nil_iff:
  "duplicateKeyIndexes n seen cs = [] \<longleftrightarrow>
     distinct (map requirement_constraint.key cs) \<and> requirement_constraint.key ` set cs \<inter> set seen = {}"
  by (induction cs arbitrary: n seen) auto

section \<open>Candidates, claims and evidence\<close>

definition candidateSchema :: "zod_formats \<Rightarrow> candidate \<Rightarrow> bool" where
  "candidateSchema z c \<longleftrightarrow>
     idSchema (candidate.candidateId c) \<and> idSchema (candidate.decisionTaskId c)
     \<and> meaningfulTextSchema (displayName c)
     \<and> idSchema (model (identity c)) \<and> idSchema (sku (identity c))
     \<and> meaningfulTextSchema (configuration (identity c))
     \<and> 0 \<le> amountMinor (observedPrice c) \<and> isoDatetime z (observedAt (observedPrice c))"

definition claimValueSchema :: "claim_value \<Rightarrow> bool" where
  "claimValueSchema v = (case v of
      MONEY n \<Rightarrow> 0 \<le> n
    | QUANTITY q \<Rightarrow> 0 \<le> amount q \<and> idSchema (unitName q)
    | BOOLEAN _ \<Rightarrow> True
    | TEXT s \<Rightarrow> meaningfulTextSchema s)"

definition claimSchema :: "claim \<Rightarrow> bool" where
  "claimSchema c \<longleftrightarrow>
     idSchema (claim.claimId c) \<and> idSchema (claim.decisionTaskId c) \<and> idSchema (subjectId c)
     \<and> idSchema (predicate c) \<and> claimValueSchema (claimValue c)"

definition rawArtifactSchema :: "string \<Rightarrow> raw_artifact \<Rightarrow> bool" where
  "rawArtifactSchema prefix a \<longleftrightarrow>
     sha256DigestSchema (raw_artifact.digest a) \<and> idSchema (raw_artifact.objectKey a)
     \<and> raw_artifact.objectKey a = prefix @ raw_artifact.digest a"

definition evidenceOriginSchema :: "zod_formats \<Rightarrow> evidence_origin \<Rightarrow> bool" where
  "evidenceOriginSchema z src = (case src of
      SYNTHETIC sid ttl \<Rightarrow> idSchema sid \<and> meaningfulTextSchema ttl
    | PUBLIC_WEB sid ttl u exd pv raw \<Rightarrow>
        idSchema sid \<and> meaningfulTextSchema ttl \<and> zodUrl z u \<and> sha256DigestSchema exd
        \<and> meaningfulTextSchema pv \<and> rawArtifactSchema ''evidence-raw/sha256/'' raw)"

definition evidenceSchema :: "zod_formats \<Rightarrow> evidence \<Rightarrow> bool" where
  "evidenceSchema z e \<longleftrightarrow>
     idSchema (evidence.evidenceId e) \<and> idSchema (evidence.decisionTaskId e)
     \<and> isoDatetime z (evidence.capturedAt e)
     \<and> meaningfulTextSchema (locatorSection e) \<and> meaningfulTextSchema (locatorField e)
     \<and> meaningfulTextSchema (excerpt e) \<and> isoDatetime z (evidence.validUntil e)
     \<and> evidenceOriginSchema z (origin e)"

definition claimEvidenceLinkSchema :: "claim_evidence_link \<Rightarrow> bool" where
  "claimEvidenceLinkSchema l \<longleftrightarrow>
     idSchema (linkId l) \<and> idSchema (claim_evidence_link.decisionTaskId l)
     \<and> idSchema (claim_evidence_link.claimId l) \<and> idSchema (claim_evidence_link.evidenceId l)"

definition claimAssessmentSchema :: "claim_assessment \<Rightarrow> bool" where
  "claimAssessmentSchema a \<longleftrightarrow>
     idSchema (claim_assessment.claimId a) \<and> list_all idSchema (supportingEvidenceIds a)
     \<and> list_all idSchema (refutingEvidenceIds a)"

section \<open>Decisions\<close>

definition decisionConditionSchema :: "decision_condition \<Rightarrow> bool" where
  "decisionConditionSchema c = (case c of
      MAX_PRICE cid cand n ver \<Rightarrow>
        idSchema cid \<and> idSchema cand \<and> 0 \<le> n \<and> meaningfulTextSchema ver
    | OFFICIAL_WARRANTY cid cand ver \<Rightarrow>
        idSchema cid \<and> idSchema cand \<and> meaningfulTextSchema ver)"

definition candidateDispositionSchema :: "candidate_disposition \<Rightarrow> bool" where
  "candidateDispositionSchema d \<longleftrightarrow>
     idSchema (dispositionId d) \<and> idSchema (candidate_disposition.candidateId d)
     \<and> idSchema (requirementKey d) \<and> meaningfulTextSchema (reason d)
     \<and> candidate_disposition.evidenceIds d \<noteq> []
     \<and> list_all idSchema (candidate_disposition.evidenceIds d)"

definition decisionRiskSchema :: "decision_risk \<Rightarrow> bool" where
  "decisionRiskSchema r \<longleftrightarrow>
     idSchema (riskId r) \<and> idSchema (decision_risk.candidateId r) \<and> idSchema (statementClaimId r)
     \<and> meaningfulTextSchema (riskVerification r)"

definition criticalGapSchema :: "critical_gap \<Rightarrow> bool" where
  "criticalGapSchema g \<longleftrightarrow>
     idSchema (gapId g) \<and> idSchema (critical_gap.key g) \<and> meaningfulTextSchema (question g)
     \<and> (case resolution g of
          gap_resolution.VERIFY_CONDITION c \<Rightarrow> idSchema c
        | gap_resolution.PROVIDE_REQUIREMENT k \<Rightarrow> idSchema k)"

definition decisionNextStepSchema :: "next_step \<Rightarrow> bool" where
  "decisionNextStepSchema s = (case s of
      next_step.PROVIDE_REQUIREMENT k i \<Rightarrow> idSchema k \<and> meaningfulTextSchema i
    | next_step.VERIFY_CONDITION c i \<Rightarrow> idSchema c \<and> meaningfulTextSchema i
    | VERIFY_RISK r i \<Rightarrow> idSchema r \<and> meaningfulTextSchema i)"

definition decisionRevisionSchema :: "zod_formats \<Rightarrow> decision_revision \<Rightarrow> bool" where
  "decisionRevisionSchema z d \<longleftrightarrow>
     idSchema (decision_revision.decisionRevisionId d) \<and> idSchema (decision_revision.decisionTaskId d)
     \<and> idSchema (decision_revision.requirementRevisionId d) \<and> 0 < decision_revision.revision d
     \<and> meaningfulTextSchema (decision_revision.summary d)
     \<and> (case selectedCandidateId d of None \<Rightarrow> True | Some c \<Rightarrow> idSchema c)
     \<and> list_all decisionConditionSchema (conditions d)
     \<and> list_all candidateDispositionSchema (candidateDispositions d)
     \<and> list_all decisionRiskSchema (risks d)
     \<and> list_all idSchema (decision_revision.evidenceIds d)
     \<and> list_all criticalGapSchema (criticalGaps d)
     \<and> list_all meaningfulTextSchema (assumptions d)
     \<and> isoDatetime z (validFrom d) \<and> isoDatetime z (decision_revision.validUntil d)
     \<and> list_all decisionNextStepSchema (nextSteps d)"

section \<open>Run events\<close>

definition runEventSchema :: "zod_formats \<Rightarrow> run_event \<Rightarrow> bool" where
  "runEventSchema z e \<longleftrightarrow>
     idSchema (run_event.eventId e) \<and> idSchema (run_event.decisionTaskId e)
     \<and> idSchema (run_event.agentRunId e) \<and> 0 < run_event.sequence e
     \<and> isoDatetime z (run_event.occurredAt e) \<and> meaningfulTextSchema (run_event.summary e)"

definition persistedRunEventSchema :: "zod_formats \<Rightarrow> persisted_run_event \<Rightarrow> bool" where
  "persistedRunEventSchema z p \<longleftrightarrow>
     isPersistedRunEventCursorV1 (JStr (cursor p)) \<and> runEventSchema z (event p)"

section \<open>Runtime recovery\<close>

definition checkpointRefSchema :: "zod_formats \<Rightarrow> checkpoint_ref \<Rightarrow> bool" where
  "checkpointRefSchema z c \<longleftrightarrow>
     idSchema (checkpoint_ref.checkpointId c) \<and> idSchema (checkpoint_ref.decisionTaskId c)
     \<and> idSchema (checkpoint_ref.agentRunId c) \<and> 0 < checkpoint_ref.sequence c
     \<and> isoDatetime z (persistedAt c)"

definition runtimeSnapshotSchema :: "zod_formats \<Rightarrow> runtime_snapshot \<Rightarrow> bool" where
  "runtimeSnapshotSchema z s \<longleftrightarrow>
     idSchema (runtime_snapshot.snapshotId s) \<and> idSchema (runtime_snapshot.decisionTaskId s)
     \<and> idSchema (runtime_snapshot.agentRunId s)
     \<and> rawArtifactSchema ''runtime-snapshots/sha256/'' (rawSnapshot s)
     \<and> checkpointRefSchema z (checkpoint s) \<and> isoDatetime z (runtime_snapshot.capturedAt s)"

definition effectResultRefSchema :: "effect_result_ref \<Rightarrow> bool" where
  "effectResultRefSchema r \<longleftrightarrow>
     sha256DigestSchema (effect_result_ref.digest r) \<and> idSchema (effect_result_ref.objectKey r)
     \<and> idSchema (effect_result_ref.decisionTaskId r) \<and> idSchema (effect_result_ref.agentRunId r)
     \<and> idSchema (effect_result_ref.checkpointId r) \<and> idSchema (effect_result_ref.effectId r)
     \<and> effect_result_ref.objectKey r = ''effect-results/sha256/'' @ effect_result_ref.digest r"

definition effectReceiptSchema :: "zod_formats \<Rightarrow> effect_receipt \<Rightarrow> bool" where
  "effectReceiptSchema z r \<longleftrightarrow>
     idSchema (effectReceiptId r) \<and> idSchema (effect_receipt.decisionTaskId r)
     \<and> idSchema (effect_receipt.agentRunId r) \<and> idSchema (effect_receipt.checkpointId r)
     \<and> idSchema (effect_receipt.effectId r) \<and> isoDatetime z (recordedAt r)
     \<and> (case effect_receipt.state r of
          committed res \<Rightarrow> effectResultRefSchema res
            \<and> effect_result_ref.decisionTaskId res = effect_receipt.decisionTaskId r
            \<and> effect_result_ref.agentRunId res = effect_receipt.agentRunId r
            \<and> effect_result_ref.checkpointId res = effect_receipt.checkpointId r
            \<and> effect_result_ref.effectId res = effect_receipt.effectId r
        | _ \<Rightarrow> True)"

definition runtimeRecoveryPermissionSchema :: "recovery_permission \<Rightarrow> bool" where
  "runtimeRecoveryPermissionSchema p \<longleftrightarrow>
     idSchema (recovery_permission.decisionTaskId p) \<and> idSchema (recovery_permission.agentRunId p)
     \<and> idSchema (recovery_permission.snapshotId p)"

definition runtimePausedOutcomeSchema :: "zod_formats \<Rightarrow> paused_outcome \<Rightarrow> bool" where
  "runtimePausedOutcomeSchema z p \<longleftrightarrow>
     meaningfulTextSchema (paused_outcome.summary p)
     \<and> runtimeSnapshotSchema z (paused_outcome.snapshot p)
     \<and> list_all (effectReceiptSchema z) (paused_outcome.effectReceipts p)
     \<and> paused_outcome.runEvents p \<noteq> []
     \<and> list_all (runEventSchema z) (paused_outcome.runEvents p)"

definition runtimeResumeRequestSchema :: "resume_request \<Rightarrow> bool" where
  "runtimeResumeRequestSchema r \<longleftrightarrow>
     idSchema (resume_request.controlRequestId r) \<and> idSchema (resume_request.runtimeSnapshotId r)"

definition runtimeCancelRequestSchema :: "cancel_request \<Rightarrow> bool" where
  "runtimeCancelRequestSchema r \<longleftrightarrow>
     idSchema (cancel_request.controlRequestId r) \<and> idSchema (cancel_request.cancellationId r)"

definition runtimeControlStatusSchema :: "zod_formats \<Rightarrow> control_status \<Rightarrow> bool" where
  "runtimeControlStatusSchema z s \<longleftrightarrow>
     idSchema (control_status.controlRequestId s) \<and> idSchema (control_status.decisionTaskId s)
     \<and> idSchema (control_status.agentRunId s)
     \<and> (case control_status.error s of None \<Rightarrow> True
        | Some e \<Rightarrow> meaningfulTextSchema (control_error.message e))
     \<and> isoDatetime z (control_status.updatedAt s)"

section \<open>Task results\<close>

definition completedTaskStatusSchema :: "zod_formats \<Rightarrow> completed_status \<Rightarrow> bool" where
  "completedTaskStatusSchema z s \<longleftrightarrow>
     idSchema (completed_status.decisionTaskId s) \<and> idSchema (completed_status.agentRunId s)
     \<and> 0 < completed_status.latestEventSequence s
     \<and> idSchema (completed_status.decisionRevisionId s) \<and> isoDatetime z (completed_status.updatedAt s)"

definition failedTaskStatusSchema :: "zod_formats \<Rightarrow> failed_status \<Rightarrow> bool" where
  "failedTaskStatusSchema z s \<longleftrightarrow>
     idSchema (failed_status.decisionTaskId s) \<and> idSchema (failed_status.agentRunId s)
     \<and> 0 < failed_status.latestEventSequence s \<and> idSchema (failed_status.errorId s)
     \<and> isoDatetime z (failed_status.updatedAt s)"

definition choiceMindErrorSchema :: "zod_formats \<Rightarrow> choice_mind_error \<Rightarrow> bool" where
  "choiceMindErrorSchema z e \<longleftrightarrow>
     idSchema (choice_mind_error.errorId e) \<and> meaningfulTextSchema (choice_mind_error.message e)
     \<and> list_all (\<lambda>i. meaningfulTextSchema (issueMessage i)) (issues e)
     \<and> isoDatetime z (choice_mind_error.occurredAt e)"

definition decisionBundleDraftSchema :: "zod_formats \<Rightarrow> 'a bundle_draft_scheme \<Rightarrow> bool" where
  "decisionBundleDraftSchema z b \<longleftrightarrow>
     requirementRevisionSchema (bundle_draft.requirementRevision b)
     \<and> candidates b \<noteq> [] \<and> list_all (candidateSchema z) (candidates b)
     \<and> list_all claimSchema (claims b)
     \<and> list_all (evidenceSchema z) (bundle_draft.evidence b)
     \<and> list_all claimEvidenceLinkSchema (claimEvidenceLinks b)
     \<and> decisionRevisionSchema z (bundle_draft.decision b)"

definition decisionBundleSchema :: "zod_formats \<Rightarrow> decision_bundle \<Rightarrow> bool" where
  "decisionBundleSchema z b \<longleftrightarrow>
     decisionBundleDraftSchema z b \<and> list_all claimAssessmentSchema (claimAssessments b)"

definition runEventsSchema :: "zod_formats \<Rightarrow> run_event list \<Rightarrow> bool" where
  "runEventsSchema z es \<longleftrightarrow> es \<noteq> [] \<and> list_all (runEventSchema z) es"

definition successfulDecisionTaskResultDraftSchema ::
    "zod_formats \<Rightarrow> completed_status \<Rightarrow> run_event list \<Rightarrow> bundle_draft \<Rightarrow> bool" where
  "successfulDecisionTaskResultDraftSchema z st es b \<longleftrightarrow>
     completedTaskStatusSchema z st \<and> runEventsSchema z es \<and> decisionBundleDraftSchema z b"

definition decisionTaskResultSchema :: "zod_formats \<Rightarrow> decision_task_result \<Rightarrow> bool" where
  "decisionTaskResultSchema z r = (case r of
      Succeeded st es b \<Rightarrow>
        completedTaskStatusSchema z st \<and> runEventsSchema z es \<and> decisionBundleSchema z b
    | Failed st es e \<Rightarrow>
        failedTaskStatusSchema z st \<and> runEventsSchema z es \<and> choiceMindErrorSchema z e
    | Rejected e \<Rightarrow> choiceMindErrorSchema z e)"

text \<open>\<open>terminal\<close> is a literal of each variant of the snapshot union.\<close>

definition decisionTaskSnapshotSchema :: "zod_formats \<Rightarrow> task_snapshot \<Rightarrow> bool" where
  "decisionTaskSnapshotSchema z s \<longleftrightarrow>
     idSchema (task_snapshot.executionRequestId s) \<and> idSchema (task_snapshot.decisionTaskId s)
     \<and> idSchema (task_snapshot.agentRunId s) \<and> isoDatetime z (task_snapshot.updatedAt s)
     \<and> (case task_snapshot.state s of
          snapshot_state.FAILED_FINAL \<Rightarrow> terminal s
        | snapshot_state.CANCELLED \<Rightarrow> terminal s
        | snapshot_state.PAUSED _ sid \<Rightarrow> \<not> terminal s \<and> idSchema sid
        | _ \<Rightarrow> \<not> terminal s)"

end
