(* ===== verification/CM_Time.thy ===== *)
theory CM_Time
  imports CM_Canonical
begin

text \<open>
  What the contracts use of JavaScript dates: \<open>Date.parse\<close> on the UTC timestamps that the schemas
  admit (\<open>YYYY-MM-DDTHH:MM[:SS[.f+]]Z\<close>), \<open>Date.prototype.toISOString\<close>, and \<open>compareUtc\<close> of
  decision-basis.ts. Instants are milliseconds since 1970; \<open>NaN\<close> is \<open>None\<close>.
\<close>

section \<open>Calendar\<close>

definition isLeapYear :: "int \<Rightarrow> bool" where
  "isLeapYear y \<longleftrightarrow> y mod 4 = 0 \<and> (y mod 100 \<noteq> 0 \<or> y mod 400 = 0)"

definition daysInMonth :: "int \<Rightarrow> int \<Rightarrow> int" where
  "daysInMonth y m =
     (if m = 2 then (if isLeapYear y then 29 else 28)
      else if m = 4 \<or> m = 6 \<or> m = 9 \<or> m = 11 then 30 else 31)"

text \<open>Days since 1970-01-01 of a proleptic Gregorian date, and back.\<close>

definition daysFromCivil :: "int \<Rightarrow> int \<Rightarrow> int \<Rightarrow> int" where
  "daysFromCivil y m d =
     (let y' = (if m \<le> 2 then y - 1 else y);
          era = y' div 400;
          yoe = y' - era * 400;
          doy = (153 * (if m > 2 then m - 3 else m + 9) + 2) div 5 + d - 1;
          doe = yoe * 365 + yoe div 4 - yoe div 100 + doy
      in era * 146097 + doe - 719468)"

definition civilFromDays :: "int \<Rightarrow> int \<times> int \<times> int" where
  "civilFromDays days =
     (let z = days + 719468;
          era = z div 146097;
          doe = z - era * 146097;
          yoe = (doe - doe div 1460 + doe div 36524 - doe div 146096) div 365;
          doy = doe - (365 * yoe + yoe div 4 - yoe div 100);
          mp = (5 * doy + 2) div 153;
          d = doy - (153 * mp + 2) div 5 + 1;
          m = (if mp < 10 then mp + 3 else mp - 9)
      in (yoe + era * 400 + (if m \<le> 2 then 1 else 0), m, d))"

section \<open>Parsing and printing\<close>

definition numAt :: "nat \<Rightarrow> nat \<Rightarrow> string \<Rightarrow> int option" where
  "numAt i n s =
     (let t = take n (drop i s)
      in if length t = n \<and> list_all isDigit t then Some (int (BigInt t)) else None)"

definition charAt :: "nat \<Rightarrow> string \<Rightarrow> char option" where
  "charAt i s = (if i < length s then Some (s ! i) else None)"

definition fractionPart :: "string \<Rightarrow> int option" where
  "fractionPart u =
     (if u = ''Z'' then Some 0
      else if u \<noteq> [] \<and> hd u = CHR ''.'' \<and> last u = CHR ''Z'' \<and> 2 < length u
        \<and> list_all isDigit (butlast (tl u))
      then Some (int (BigInt (take 3 (butlast (tl u) @ ''00''))))
      else None)"

definition secondsPart :: "string \<Rightarrow> int option" where
  "secondsPart r =
     (if r = ''Z'' then Some 0
      else if charAt 0 r = Some (CHR '':'')
      then (case (numAt 1 2 r, fractionPart (drop 3 r)) of
          (Some sec, Some ms) \<Rightarrow> if sec \<le> 59 then Some (1000 * sec + ms) else None
        | _ \<Rightarrow> None)
      else None)"

definition dateParse :: "string \<Rightarrow> int option" where
  "dateParse s =
     (if charAt 4 s = Some (CHR ''-'') \<and> charAt 7 s = Some (CHR ''-'')
        \<and> charAt 10 s = Some (CHR ''T'') \<and> charAt 13 s = Some (CHR '':'')
      then (case (numAt 0 4 s, numAt 5 2 s, numAt 8 2 s, numAt 11 2 s, numAt 14 2 s,
                  secondsPart (drop 16 s)) of
          (Some y, Some m, Some d, Some h, Some mi, Some ms) \<Rightarrow>
            if 1 \<le> m \<and> m \<le> 12 \<and> 1 \<le> d \<and> d \<le> daysInMonth y m \<and> h \<le> 23 \<and> mi \<le> 59
            then Some (daysFromCivil y m d * 86400000 + h * 3600000 + mi * 60000 + ms)
            else None
        | _ \<Rightarrow> None)
      else None)"

definition padDecimal :: "nat \<Rightarrow> int \<Rightarrow> string" where
  "padDecimal n v = (let s = decimal (nat v) in replicate (n - length s) (CHR ''0'') @ s)"

text \<open>For the years 0 to 9999.\<close>

definition toISOString :: "int \<Rightarrow> string" where
  "toISOString t =
     (case civilFromDays (t div 86400000) of (y, m, d) \<Rightarrow>
        let ms = t mod 86400000 in
        padDecimal 4 y @ ''-'' @ padDecimal 2 m @ ''-'' @ padDecimal 2 d @ ''T''
        @ padDecimal 2 (ms div 3600000) @ '':'' @ padDecimal 2 (ms div 60000 mod 60) @ '':''
        @ padDecimal 2 (ms div 1000 mod 60) @ ''.'' @ padDecimal 3 (ms mod 1000) @ ''Z'')"

section \<open>Comparison\<close>

definition compareUtc :: "string \<Rightarrow> string \<Rightarrow> int option" where
  "compareUtc left right =
     (case (dateParse left, dateParse right) of
        (Some a, Some b) \<Rightarrow> Some (a - b)
      | _ \<Rightarrow> None)"

text \<open>\<open>compareUtc(l, r) < 0\<close> and \<open>> 0\<close>: false when either timestamp does not parse.\<close>

definition utcBefore :: "string \<Rightarrow> string \<Rightarrow> bool" where
  "utcBefore l r = (case compareUtc l r of None \<Rightarrow> False | Some d \<Rightarrow> d < 0)"

definition utcAfter :: "string \<Rightarrow> string \<Rightarrow> bool" where
  "utcAfter l r = (case compareUtc l r of None \<Rightarrow> False | Some d \<Rightarrow> 0 < d)"

lemma utcBefore_iff:
  "utcBefore l r \<longleftrightarrow> (\<exists>a b. dateParse l = Some a \<and> dateParse r = Some b \<and> a < b)"
  by (auto simp: utcBefore_def compareUtc_def split: option.splits)

lemma utcAfter_iff: "utcAfter l r \<longleftrightarrow> utcBefore r l"
  by (auto simp: utcBefore_def utcAfter_def compareUtc_def split: option.splits)

lemma utcBefore_irrefl [simp]: "\<not> utcBefore t t"
  by (auto simp: utcBefore_iff)

lemma utcBefore_trans: "utcBefore a b \<Longrightarrow> utcBefore b c \<Longrightarrow> utcBefore a c"
  by (fastforce simp: utcBefore_iff)

end
