(* ===== verification/CM_Decision_Basis.thy ===== *)
theory CM_Decision_Basis
  imports CM_Contracts CM_Time
begin

text \<open>
  The decision basis (packages/contracts/src/decision/v1/decision-basis.ts): the evidence graph of
  a bundle, the derivation of one claim assessment per claim, and the checks that the selected
  candidate, the eliminations, the risks and the cited evidence rest on it. Every \<open>issues.push\<close>
  of the source is an element of the returned list, in the source's order.
\<close>

section \<open>Unique ids\<close>

fun uniqueScan :: "(nat \<Rightarrow> contract_issue) \<Rightarrow> nat \<Rightarrow> ident list \<Rightarrow> ident list \<Rightarrow>
    contract_issue list \<times> ident list" where
  "uniqueScan mk n seen [] = ([], seen)"
| "uniqueScan mk n seen (x # xs) =
     (let rest = uniqueScan mk (Suc n) (setAdd x seen) xs
      in (report (x \<in> set seen) (mk n) @ fst rest, snd rest))"

definition collectUniqueIds ::
    "'a list \<Rightarrow> ('a \<Rightarrow> ident) \<Rightarrow> path \<Rightarrow> string \<Rightarrow> string \<Rightarrow> contract_issue list \<times> ident list" where
  "collectUniqueIds items getId collectionPath idField entityName =
     uniqueScan (\<lambda>i. Issue (collectionPath @ [I i, K idField])
         (entityName @ '' ids must be unique in the result''))
       0 [] (map getId items)"

section \<open>Claim assessments\<close>

fun assessLinks :: "(ident \<rightharpoonup> evidence) \<Rightarrow> string \<Rightarrow> claim_evidence_link list \<Rightarrow>
    ident list \<times> ident list \<Rightarrow> ident list \<times> ident list" where
  "assessLinks evidenceById from [] acc = acc"
| "assessLinks evidenceById from (l # ls) (spt, rft) =
     assessLinks evidenceById from ls
       (case evidenceById (claim_evidence_link.evidenceId l) of
          None \<Rightarrow> (spt, rft)
        | Some e \<Rightarrow>
            if utcBefore (evidence.validUntil e) from then (spt, rft)
            else if direction l = SUPPORTS then (setAdd (claim_evidence_link.evidenceId l) spt, rft)
            else (spt, setAdd (claim_evidence_link.evidenceId l) rft))"

definition deriveEvidenceState :: "ident list \<Rightarrow> ident list \<Rightarrow> evidence_state" where
  "deriveEvidenceState supporting refuting =
     (if supporting \<noteq> []
      then (if refuting \<noteq> [] then CONFLICTED else SUPPORTED)
      else (if refuting \<noteq> [] then REFUTED else INSUFFICIENT))"

definition deriveClaimAssessment ::
    "claim \<Rightarrow> claim_evidence_link list \<Rightarrow> (ident \<rightharpoonup> evidence) \<Rightarrow> string \<Rightarrow> claim_assessment" where
  "deriveClaimAssessment c links evidenceById from =
     (case assessLinks evidenceById from links ([], []) of
        (spt, rft) \<Rightarrow>
          let supporting = sort spt; refuting = sort rft in
          \<lparr>claim_assessment.claimId = claim.claimId c,
           evidenceState = deriveEvidenceState supporting refuting,
           supportingEvidenceIds = supporting,
           refutingEvidenceIds = refuting\<rparr>)"

section \<open>The evidence graph\<close>

record evidence_graph =
  candidatesById :: "ident \<rightharpoonup> candidate"
  claimsById :: "ident \<rightharpoonup> claim"
  evidenceById :: "ident \<rightharpoonup> evidence"
  linksByEvidenceId :: "ident \<rightharpoonup> claim_evidence_link list"
  claimAssessmentsById :: "ident \<rightharpoonup> claim_assessment"
  claimsByCandidateAndPredicate :: "string \<rightharpoonup> claim list"

record internal_evaluation =
  evalAssessments :: "claim_assessment list"
  evalGraph :: "evidence_graph option"
  evalIssues :: "contract_issue list"

definition claimIndexKey :: "ident \<Rightarrow> string \<Rightarrow> string" where
  "claimIndexKey cid pr = nulKey cid pr"

subsection \<open>Referential integrity\<close>

definition candidateOwnerIssues :: "ident \<Rightarrow> candidate list \<Rightarrow> contract_issue list" where
  "candidateOwnerIssues tid cs = forEach (\<lambda>i c.
     report (candidate.decisionTaskId c \<noteq> tid)
       (Issue [K ''bundle'', K ''candidates'', I i, K ''decisionTaskId'']
          ''Candidate must belong to the Decision Task of the result'')) cs"

definition claimSubjectIssues :: "ident \<Rightarrow> ident list \<Rightarrow> claim list \<Rightarrow> contract_issue list" where
  "claimSubjectIssues tid candidateIds cs = forEach (\<lambda>i c.
     report (claim.decisionTaskId c \<noteq> tid)
       (Issue [K ''bundle'', K ''claims'', I i, K ''decisionTaskId'']
          ''Claim must belong to the Decision Task of the result'')
     @ report (subjectId c \<notin> set candidateIds)
       (Issue [K ''bundle'', K ''claims'', I i, K ''subject'', K ''subjectId'']
          ''Claim must be about an existing Candidate'')) cs"

definition evidenceTimeIssues :: "ident \<Rightarrow> string \<Rightarrow> evidence list \<Rightarrow> contract_issue list" where
  "evidenceTimeIssues tid from es = forEach (\<lambda>i e.
     report (evidence.decisionTaskId e \<noteq> tid)
       (Issue [K ''bundle'', K ''evidence'', I i, K ''decisionTaskId'']
          ''Evidence must belong to the Decision Task of the result'')
     @ report (utcBefore (evidence.validUntil e) (evidence.capturedAt e))
       (Issue [K ''bundle'', K ''evidence'', I i, K ''validUntil'']
          ''Evidence must not expire before it was captured'')
     @ report (utcAfter (evidence.capturedAt e) from)
       (Issue [K ''bundle'', K ''evidence'', I i, K ''capturedAt'']
          ''Decision must not cite Evidence captured after it was formed'')) es"

fun linkIssuesFrom :: "ident \<Rightarrow> ident list \<Rightarrow> ident list \<Rightarrow> nat \<Rightarrow> string list \<Rightarrow>
    claim_evidence_link list \<Rightarrow> contract_issue list" where
  "linkIssuesFrom tid claimIds evIds n pairs [] = []"
| "linkIssuesFrom tid claimIds evIds n pairs (l # ls) =
     (let p = [K ''bundle'', K ''claimEvidenceLinks'', I n];
          pairKey = nulKey (claim_evidence_link.claimId l) (claim_evidence_link.evidenceId l)
      in report (claim_evidence_link.decisionTaskId l \<noteq> tid)
           (Issue (p @ [K ''decisionTaskId''])
              ''Claim-Evidence Link must belong to the Decision Task of the result'')
         @ report (claim_evidence_link.claimId l \<notin> set claimIds)
           (Issue (p @ [K ''claimId'']) ''Claim-Evidence Link must reference an existing Claim'')
         @ report (claim_evidence_link.evidenceId l \<notin> set evIds)
           (Issue (p @ [K ''evidenceId'']) ''Claim-Evidence Link must reference existing Evidence'')
         @ report (pairKey \<in> set pairs)
           (Issue (p @ [K ''evidenceId''])
              ''A Claim and a piece of Evidence may be linked in one direction only'')
         @ linkIssuesFrom tid claimIds evIds (Suc n) (setAdd pairKey pairs) ls)"

definition linkedEvidence :: "ident list \<Rightarrow> claim_evidence_link list \<Rightarrow> ident list" where
  "linkedEvidence evIds ls =
     setAddAll (filter (\<lambda>x. x \<in> set evIds) (map claim_evidence_link.evidenceId ls)) []"

definition unlinkedEvidenceIssues :: "ident list \<Rightarrow> evidence list \<Rightarrow> contract_issue list" where
  "unlinkedEvidenceIssues linked es = forEach (\<lambda>i e.
     report (evidence.evidenceId e \<notin> set linked)
       (Issue [K ''bundle'', K ''evidence'', I i, K ''evidenceId'']
          ''Every piece of Evidence must be linked to a Claim'')) es"

definition referenceIssues :: "ident \<Rightarrow> 'a bundle_draft_scheme \<Rightarrow> contract_issue list" where
  "referenceIssues tid b =
     (let candidateScan = collectUniqueIds (candidates b) candidate.candidateId
            [K ''bundle'', K ''candidates''] ''candidateId'' ''Candidate'';
          claimScan = collectUniqueIds (claims b) claim.claimId
            [K ''bundle'', K ''claims''] ''claimId'' ''Claim'';
          evidenceScan = collectUniqueIds (bundle_draft.evidence b) evidence.evidenceId
            [K ''bundle'', K ''evidence''] ''evidenceId'' ''Evidence'';
          linkScan = collectUniqueIds (claimEvidenceLinks b) linkId
            [K ''bundle'', K ''claimEvidenceLinks''] ''linkId'' ''Claim-Evidence Link'';
          d = bundle_draft.decision b
      in fst candidateScan @ fst claimScan @ fst evidenceScan @ fst linkScan
         @ candidateOwnerIssues tid (candidates b)
         @ claimSubjectIssues tid (snd candidateScan) (claims b)
         @ evidenceTimeIssues tid (validFrom d) (bundle_draft.evidence b)
         @ report (utcBefore (decision_revision.validUntil d) (validFrom d))
             (Issue [K ''bundle'', K ''decision'', K ''validUntil'']
                ''Decision must not expire before it takes effect'')
         @ linkIssuesFrom tid (snd claimScan) (snd evidenceScan) 0 [] (claimEvidenceLinks b)
         @ unlinkedEvidenceIssues (linkedEvidence (snd evidenceScan) (claimEvidenceLinks b))
             (bundle_draft.evidence b))"

subsection \<open>Building the graph\<close>

definition deriveAssessments :: "'a bundle_draft_scheme \<Rightarrow> claim_assessment list" where
  "deriveAssessments b =
     (let evById = mapFrom evidence.evidenceId (bundle_draft.evidence b);
          linksByClaimId = groupBy claim_evidence_link.claimId (claimEvidenceLinks b)
      in map (\<lambda>c. deriveClaimAssessment c (getOrEmpty linksByClaimId (claim.claimId c)) evById
              (validFrom (bundle_draft.decision b)))
           (sort_key claim.claimId (claims b)))"

definition buildGraph :: "'a bundle_draft_scheme \<Rightarrow> evidence_graph" where
  "buildGraph b =
     \<lparr>candidatesById = mapFrom candidate.candidateId (candidates b),
      claimsById = mapFrom claim.claimId (claims b),
      evidenceById = mapFrom evidence.evidenceId (bundle_draft.evidence b),
      linksByEvidenceId = groupBy claim_evidence_link.evidenceId (claimEvidenceLinks b),
      claimAssessmentsById = mapFrom claim_assessment.claimId (deriveAssessments b),
      claimsByCandidateAndPredicate =
        groupBy (\<lambda>c. claimIndexKey (subjectId c) (predicate c)) (claims b)\<rparr>"

definition evaluateDecisionBasisWithGraph :: "ident \<Rightarrow> 'a bundle_draft_scheme \<Rightarrow> internal_evaluation" where
  "evaluateDecisionBasisWithGraph tid b =
     (let is = referenceIssues tid b in
      if is \<noteq> [] then \<lparr>evalAssessments = [], evalGraph = None, evalIssues = is\<rparr>
      else \<lparr>evalAssessments = deriveAssessments b, evalGraph = Some (buildGraph b), evalIssues = is\<rparr>)"

definition evaluateDecisionBasisV1 ::
    "ident \<Rightarrow> 'a bundle_draft_scheme \<Rightarrow> claim_assessment list \<times> contract_issue list" where
  "evaluateDecisionBasisV1 tid b =
     (let ev = evaluateDecisionBasisWithGraph tid b in (evalAssessments ev, evalIssues ev))"

section \<open>Canonical assessments\<close>

definition isSameAssessment :: "claim_assessment \<Rightarrow> claim_assessment \<Rightarrow> bool" where
  "isSameAssessment l r \<longleftrightarrow>
     claim_assessment.claimId l = claim_assessment.claimId r
     \<and> evidenceState l = evidenceState r
     \<and> supportingEvidenceIds l = supportingEvidenceIds r
     \<and> refutingEvidenceIds l = refutingEvidenceIds r"

definition validateCanonicalAssessments ::
    "claim_assessment list \<Rightarrow> claim_assessment list \<Rightarrow> contract_issue list" where
  "validateCanonicalAssessments actual expected =
     fst (collectUniqueIds actual claim_assessment.claimId
       [K ''bundle'', K ''claimAssessments''] ''claimId'' ''Claim Assessment'')
     @ report (length actual \<noteq> length expected)
       (Issue [K ''bundle'', K ''claimAssessments'']
          ''Every Claim must have exactly one canonical Claim Assessment'')
     @ forEach (\<lambda>i (a, e).
         report (\<not> isSameAssessment a e)
           (Issue [K ''bundle'', K ''claimAssessments'', I i]
              ''Claim Assessment must equal the canonical result of the Decision Basis''))
         (zip actual expected)"

section \<open>Constraint assessment\<close>

datatype constraint_status = SATISFIED | VIOLATED | INDETERMINATE

record constraint_assessment =
  assessmentStatus :: constraint_status
  assessmentEvidenceIds :: "ident list"

definition createIndeterminateAssessment :: constraint_assessment where
  "createIndeterminateAssessment = \<lparr>assessmentStatus = INDETERMINATE, assessmentEvidenceIds = []\<rparr>"

fun trustLoop :: "evidence_graph \<Rightarrow> (claim \<Rightarrow> rat option) \<Rightarrow> claim list \<Rightarrow>
    rat list \<Rightarrow> ident list \<Rightarrow> (rat list \<times> ident list) option" where
  "trustLoop g readValue [] vals ids = Some (vals, ids)"
| "trustLoop g readValue (c # cs) vals ids =
     (case (claimAssessmentsById g (claim.claimId c), readValue c) of
        (Some a, Some v) \<Rightarrow>
          if evidenceState a \<noteq> SUPPORTED then None
          else trustLoop g readValue cs (setAdd v vals) (setAddAll (supportingEvidenceIds a) ids)
      | _ \<Rightarrow> None)"

definition collectTrustedClaimValues :: "ident \<Rightarrow> string \<Rightarrow> evidence_graph \<Rightarrow> (claim \<Rightarrow> rat option) \<Rightarrow>
    (rat list \<times> ident list) option" where
  "collectTrustedClaimValues cid pr g readValue =
     (case claimsByCandidateAndPredicate g (claimIndexKey cid pr) of
        None \<Rightarrow> None
      | Some relevant \<Rightarrow>
          let facts = filter (\<lambda>c. claimKind c = FACT_ASSERTION) relevant in
          if facts = [] then None else trustLoop g readValue facts [] [])"

definition getOnlyValue :: "rat list option \<Rightarrow> rat option" where
  "getOnlyValue vals = (case vals of Some [v] \<Rightarrow> Some v | _ \<Rightarrow> None)"

definition readMoney :: "claim \<Rightarrow> rat option" where
  "readMoney c = (case claimValue c of MONEY n \<Rightarrow> Some (of_int n) | _ \<Rightarrow> None)"

definition readQuantity :: "string \<Rightarrow> claim \<Rightarrow> rat option" where
  "readQuantity un c =
     (case claimValue c of QUANTITY q \<Rightarrow> if unitName q = un then Some (amount q) else None | _ \<Rightarrow> None)"

definition assessCandidateBudgetConstraint ::
    "candidate \<Rightarrow> requirement_budget \<Rightarrow> evidence_graph \<Rightarrow> constraint_assessment" where
  "assessCandidateBudgetConstraint c bud g =
     (let trusted = collectTrustedClaimValues (candidate.candidateId c) ''price.observed'' g readMoney in
      case getOnlyValue (map_option fst trusted) of
        None \<Rightarrow> createIndeterminateAssessment
      | Some v \<Rightarrow>
          if v \<noteq> of_int (amountMinor (observedPrice c)) then createIndeterminateAssessment
          else \<lparr>assessmentStatus = (if v \<le> of_int (maxAmountMinor bud) then SATISFIED else VIOLATED),
                assessmentEvidenceIds = (case trusted of None \<Rightarrow> [] | Some t \<Rightarrow> snd t)\<rparr>)"

definition satisfiesOperator :: "constraint_operator \<Rightarrow> rat \<Rightarrow> rat \<Rightarrow> bool" where
  "satisfiesOperator op v bound =
     (case op of AT_LEAST \<Rightarrow> v \<ge> bound | AT_MOST \<Rightarrow> v \<le> bound | EQUALS \<Rightarrow> v = bound)"

definition assessCandidateConstraint ::
    "ident \<Rightarrow> requirement_constraint \<Rightarrow> evidence_graph \<Rightarrow> constraint_assessment" where
  "assessCandidateConstraint cid con g =
     (let trusted = collectTrustedClaimValues cid (requirement_constraint.key con) g
            (readQuantity (unitName (required con))) in
      case getOnlyValue (map_option fst trusted) of
        None \<Rightarrow> createIndeterminateAssessment
      | Some v \<Rightarrow>
          \<lparr>assessmentStatus =
             (if satisfiesOperator (operator con) v (amount (required con)) then SATISFIED else VIOLATED),
           assessmentEvidenceIds = (case trusted of None \<Rightarrow> [] | Some t \<Rightarrow> snd t)\<rparr>)"

text \<open>\<open>budget?.confirmed === true && budget.hard\<close>\<close>

definition confirmedHardBudget :: "requirement_revision \<Rightarrow> requirement_budget option" where
  "confirmedHardBudget req =
     (case budget req of None \<Rightarrow> None
      | Some bud \<Rightarrow> if confirmed bud \<and> hard bud then Some bud else None)"

definition assessDispositionConstraint ::
    "ident \<Rightarrow> ident \<Rightarrow> requirement_revision \<Rightarrow> evidence_graph \<Rightarrow> constraint_assessment" where
  "assessDispositionConstraint cid rkey req g =
     (if rkey = ''budget.maxAmountMinor''
      then (case (candidatesById g cid, confirmedHardBudget req) of
              (Some c, Some bud) \<Rightarrow> assessCandidateBudgetConstraint c bud g
            | _ \<Rightarrow> createIndeterminateAssessment)
      else (case find (\<lambda>m. requirement_constraint.key m = rkey) (mustHaves req) of
              None \<Rightarrow> createIndeterminateAssessment
            | Some con \<Rightarrow> assessCandidateConstraint cid con g))"

section \<open>Validation against the graph\<close>

definition validateSelectedCandidateBasis ::
    "candidate option \<Rightarrow> requirement_revision \<Rightarrow> evidence_graph \<Rightarrow> contract_issue list" where
  "validateSelectedCandidateBasis sel req g =
     (case sel of None \<Rightarrow> []
      | Some c \<Rightarrow>
          (case confirmedHardBudget req of None \<Rightarrow> []
           | Some bud \<Rightarrow> report (assessmentStatus (assessCandidateBudgetConstraint c bud g) \<noteq> SATISFIED)
               (Issue [K ''bundle'', K ''decision'', K ''selectedCandidateId'']
                  ''The observed price of the selected Candidate must satisfy the confirmed hard budget''))
          @ report (\<not> list_all (\<lambda>con.
                assessmentStatus (assessCandidateConstraint (candidate.candidateId c) con g) = SATISFIED)
              (mustHaves req))
            (Issue [K ''bundle'', K ''decision'', K ''selectedCandidateId'']
               ''The selected Candidate must satisfy every must-have''))"

text \<open>The keys of the hard constraints: the must-haves, and the budget when it is hard.\<close>

definition hardConstraintKeys :: "requirement_revision \<Rightarrow> ident list" where
  "hardConstraintKeys req =
     (let ks = setAddAll (map requirement_constraint.key (mustHaves req)) [] in
      case confirmedHardBudget req of None \<Rightarrow> ks | Some _ \<Rightarrow> setAdd ''budget.maxAmountMinor'' ks)"

definition dispositionEvidenceIssues ::
    "path \<Rightarrow> candidate_disposition \<Rightarrow> evidence_graph \<Rightarrow> contract_issue list" where
  "dispositionEvidenceIssues p dsp g = forEach (\<lambda>j eid.
     case evidenceById g eid of
       None \<Rightarrow> [Issue (p @ [K ''evidenceIds'', I j])
                  ''Candidate Disposition references missing Evidence'']
     | Some _ \<Rightarrow>
         report (\<not> list_ex (\<lambda>l.
              map_option subjectId (claimsById g (claim_evidence_link.claimId l))
                = Some (candidate_disposition.candidateId dsp))
            (getOrEmpty (linksByEvidenceId g) eid))
           (Issue (p @ [K ''evidenceIds'', I j])
              ''Candidate Disposition Evidence must describe its Candidate''))
     (candidate_disposition.evidenceIds dsp)"

definition provesViolation ::
    "candidate_disposition \<Rightarrow> requirement_revision \<Rightarrow> evidence_graph \<Rightarrow> bool" where
  "provesViolation dsp req g =
     (let a = assessDispositionConstraint (candidate_disposition.candidateId dsp)
                (requirementKey dsp) req g in
      assessmentStatus a = VIOLATED
      \<and> list_ex (\<lambda>eid. eid \<in> set (assessmentEvidenceIds a)) (candidate_disposition.evidenceIds dsp))"

definition dispositionIssues ::
    "path \<Rightarrow> ident option \<Rightarrow> ident list \<Rightarrow> requirement_revision \<Rightarrow> evidence_graph \<Rightarrow>
     candidate_disposition \<Rightarrow> contract_issue list" where
  "dispositionIssues p selected seen req g dsp =
     (let cid = candidate_disposition.candidateId dsp in
      report (cid \<in> set seen)
        (Issue (p @ [K ''candidateId'']) ''A Candidate may have one Candidate Disposition only'')
      @ report (Some cid = selected)
        (Issue (p @ [K ''candidateId'']) ''The selected Candidate cannot have a Candidate Disposition'')
      @ report (candidatesById g cid = None)
        (Issue (p @ [K ''candidateId'']) ''Candidate Disposition must be about an existing Candidate'')
      @ dispositionEvidenceIssues p dsp g
      @ report (requirementKey dsp \<notin> set (hardConstraintKeys req))
        (Issue (p @ [K ''requirementKey''])
           ''ELIMINATED Disposition must reference a real Hard Constraint'')
      @ report (requirementKey dsp \<in> set (hardConstraintKeys req) \<and> \<not> provesViolation dsp req g)
        (Issue (p @ [K ''requirementKey''])
           ''ELIMINATED Evidence must prove that the Candidate violates the Hard Constraint''))"

fun eliminationLoop ::
    "nat \<Rightarrow> ident option \<Rightarrow> ident list \<Rightarrow> requirement_revision \<Rightarrow> evidence_graph \<Rightarrow>
     candidate_disposition list \<Rightarrow> contract_issue list \<times> ident list" where
  "eliminationLoop n selected seen req g [] = ([], seen)"
| "eliminationLoop n selected seen req g (dsp # ds) =
     (let rest = eliminationLoop (Suc n) selected
                   (setAdd (candidate_disposition.candidateId dsp) seen) req g ds
      in (dispositionIssues [K ''bundle'', K ''decision'', K ''candidateDispositions'', I n]
            selected seen req g dsp @ fst rest, snd rest))"

definition validateEliminations ::
    "'a bundle_draft_scheme \<Rightarrow> evidence_graph \<Rightarrow> contract_issue list" where
  "validateEliminations b g =
     (let d = bundle_draft.decision b;
          loop = eliminationLoop 0 (selectedCandidateId d) []
             (bundle_draft.requirementRevision b) g (candidateDispositions d)
      in fst loop @ (if decision_revision.status d \<noteq> NEED_MORE_INFO
               then forEach (\<lambda>i c.
                 report (Some (candidate.candidateId c) \<noteq> selectedCandidateId d
                         \<and> candidate.candidateId c \<notin> set (snd loop))
                   (Issue [K ''bundle'', K ''candidates'', I i, K ''candidateId'']
                      ''A Candidate that is not selected must have a Candidate Disposition''))
                 (candidates b)
               else []))"

definition riskClaimIssues ::
    "decision_revision \<Rightarrow> evidence_graph \<Rightarrow> nat \<Rightarrow> decision_risk \<Rightarrow> contract_issue list" where
  "riskClaimIssues d g i r =
     (let candidatePath = [K ''bundle'', K ''decision'', K ''risks'', I i, K ''candidateId''];
          claimPath = [K ''bundle'', K ''decision'', K ''risks'', I i, K ''statementClaimId'']
      in report (candidatesById g (decision_risk.candidateId r) = None)
           (Issue candidatePath ''Decision Risk must be about an existing Candidate'')
         @ report (Some (decision_risk.candidateId r) \<noteq> selectedCandidateId d)
           (Issue candidatePath ''Decision Risk must be about the selected Candidate'')
         @ (case claimsById g (statementClaimId r) of
              None \<Rightarrow> [Issue claimPath ''Decision Risk must reference an existing Claim'']
            | Some c \<Rightarrow>
                report (subjectId c \<noteq> decision_risk.candidateId r)
                  (Issue claimPath ''Decision Risk Claim must describe its Candidate'')
                @ (case claimAssessmentsById g (claim.claimId c) of
                     None \<Rightarrow> [Issue claimPath ''Decision Risk Claim must be assessed as SUPPORTED'']
                   | Some a \<Rightarrow>
                       if evidenceState a \<noteq> SUPPORTED
                       then [Issue claimPath ''Decision Risk Claim must be assessed as SUPPORTED'']
                       else if supportingEvidenceIds a = []
                       then [Issue claimPath ''Decision Risk Claim needs valid SUPPORTS Evidence'']
                       else report (\<not> list_ex (\<lambda>e. e \<in> set (decision_revision.evidenceIds d))
                                (supportingEvidenceIds a))
                         (Issue claimPath
                            ''The SUPPORTS Evidence of a Decision Risk must be Decision Evidence''))))"

definition validateRiskClaimBasis ::
    "'a bundle_draft_scheme \<Rightarrow> evidence_graph \<Rightarrow> contract_issue list" where
  "validateRiskClaimBasis b g =
     forEach (riskClaimIssues (bundle_draft.decision b) g) (risks (bundle_draft.decision b))"

definition selectedCandidateOf :: "'a bundle_draft_scheme \<Rightarrow> evidence_graph \<Rightarrow> candidate option" where
  "selectedCandidateOf b g =
     (case selectedCandidateId (bundle_draft.decision b) of None \<Rightarrow> None
      | Some cid \<Rightarrow> candidatesById g cid)"

text \<open>When the constraint is satisfied, all its evidence must be cited by the decision.\<close>

definition uncitedIssues :: "string \<Rightarrow> ident list \<Rightarrow> constraint_assessment \<Rightarrow> contract_issue list" where
  "uncitedIssues msg cited a =
     (if assessmentStatus a = SATISFIED
      then forEach (\<lambda>_ eid.
        report (eid \<notin> set cited) (Issue [K ''bundle'', K ''decision'', K ''evidenceIds''] msg))
        (assessmentEvidenceIds a)
      else [])"

definition validateDecisionEvidenceClosure ::
    "'a bundle_draft_scheme \<Rightarrow> evidence_graph \<Rightarrow> contract_issue list" where
  "validateDecisionEvidenceClosure b g =
     (let cited = decision_revision.evidenceIds (bundle_draft.decision b);
          req = bundle_draft.requirementRevision b
      in report (cited = [])
           (Issue [K ''bundle'', K ''decision'', K ''evidenceIds'']
              ''Decision must cite at least one piece of Evidence'')
         @ forEach (\<lambda>i eid. report (evidenceById g eid = None)
             (Issue [K ''bundle'', K ''decision'', K ''evidenceIds'', I i]
                ''Decision cites missing Evidence'')) cited
         @ (case selectedCandidateOf b g of None \<Rightarrow> []
            | Some c \<Rightarrow>
                (case confirmedHardBudget req of None \<Rightarrow> []
                 | Some bud \<Rightarrow> uncitedIssues
                     ''The budget Evidence of the selected Candidate must be Decision Evidence''
                     cited (assessCandidateBudgetConstraint c bud g))
                @ forEach (\<lambda>_ con. uncitedIssues
                    ''The must-have Evidence of the selected Candidate must be Decision Evidence''
                    cited (assessCandidateConstraint (candidate.candidateId c) con g)) (mustHaves req)))"

definition checkDecisionBasisV1 :: "ident \<Rightarrow> decision_bundle \<Rightarrow> contract_issue list" where
  "checkDecisionBasisV1 tid b =
     (let ev = evaluateDecisionBasisWithGraph tid b; d = bundle_draft.decision b in
      case evalGraph ev of
        None \<Rightarrow> evalIssues ev
      | Some g \<Rightarrow>
          evalIssues ev
          @ validateCanonicalAssessments (claimAssessments b) (evalAssessments ev)
          @ fst (collectUniqueIds (candidateDispositions d) dispositionId
              [K ''bundle'', K ''decision'', K ''candidateDispositions''] ''dispositionId''
              ''Candidate Disposition'')
          @ report (selectedCandidateId d \<noteq> None \<and> selectedCandidateOf b g = None)
              (Issue [K ''bundle'', K ''decision'', K ''selectedCandidateId'']
                 ''Decision must select a Candidate of the result'')
          @ validateSelectedCandidateBasis (selectedCandidateOf b g) (bundle_draft.requirementRevision b) g
          @ validateEliminations b g
          @ validateRiskClaimBasis b g
          @ validateDecisionEvidenceClosure b g)"

end
