(* ===== verification/CM_Invariants.thy ===== *)
theory CM_Invariants
  imports CM_Decision_Basis
begin

text \<open>
  The invariants of a decision task result (packages/contracts/src/decision/v1/invariants.ts):
  \<open>checkDecisionTaskResultInvariants\<close> split along its blocks, each returning its issues in order.
\<close>

section \<open>Fixed tables\<close>

definition authoritativeRunStates :: "decision_task_state list" where
  "authoritativeRunStates =
     [CREATED, UNDERSTANDING, PLANNING, RESEARCHING, VERIFYING, GAP_RESEARCH,
      COMPARING, CRITIQUING, GENERATING, decision_task_state.COMPLETED]"

text \<open>\<open>indexOf\<close> is -1 when the state is not in the list.\<close>

fun indexOfFrom :: "int \<Rightarrow> 'a \<Rightarrow> 'a list \<Rightarrow> int" where
  "indexOfFrom n x [] = -1"
| "indexOfFrom n x (y # ys) = (if x = y then n else indexOfFrom (n + 1) x ys)"

definition stateIndex :: "decision_task_state \<Rightarrow> int" where
  "stateIndex s = indexOfFrom 0 s authoritativeRunStates"

definition errorSemanticsByCode :: "error_code \<Rightarrow> error_category \<times> retry_mode" where
  "errorSemanticsByCode c = (case c of
      CONTRACT_INVALID \<Rightarrow> (VALIDATION, NO_RETRY)
    | CONTRACT_VERSION_UNSUPPORTED \<Rightarrow> (VERSION, NO_RETRY)
    | AGENT_RUNTIME_FAILED \<Rightarrow> (RUNTIME, NEW_EXECUTION_ALLOWED)
    | DECISION_EXECUTION_STATUS_UNKNOWN \<Rightarrow> (TRANSPORT, SAME_EXECUTION_ONLY)
    | DECISION_TASK_NOT_FOUND \<Rightarrow> (RESOURCE, NO_RETRY)
    | IDEMPOTENCY_CONFLICT \<Rightarrow> (VALIDATION, NO_RETRY)
    | PERSISTENCE_UNAVAILABLE \<Rightarrow> (STORAGE, SAME_EXECUTION_ONLY))"

section \<open>Run events\<close>

text \<open>\<open>events.at(-1)\<close>\<close>

definition lastOpt :: "'a list \<Rightarrow> 'a option" where
  "lastOpt xs = (if xs = [] then None else Some (last xs))"

definition runEventOwnerIssues :: "ident \<Rightarrow> ident \<Rightarrow> nat \<Rightarrow> run_event \<Rightarrow> contract_issue list" where
  "runEventOwnerIssues tid rid i ev =
     report (run_event.sequence ev \<noteq> int i + 1)
       (Issue [K ''runEvents'', I i, K ''sequence''] ''RunEvent sequences must increase strictly from 1'')
     @ report (run_event.decisionTaskId ev \<noteq> tid)
       (Issue [K ''runEvents'', I i, K ''decisionTaskId'']
          ''RunEvent must belong to the Decision Task of the result'')
     @ report (run_event.agentRunId ev \<noteq> rid)
       (Issue [K ''runEvents'', I i, K ''agentRunId'']
          ''RunEvent must belong to the Agent Run of the Task Status'')"

definition runEventIssues :: "ident \<Rightarrow> ident \<Rightarrow> int \<Rightarrow> string \<Rightarrow> run_event list \<Rightarrow> contract_issue list" where
  "runEventIssues tid rid latest updated evs =
     fst (collectUniqueIds evs eventId [K ''runEvents''] ''eventId'' ''RunEvent'')
     @ forEach (runEventOwnerIssues tid rid) evs
     @ report (Some latest \<noteq> map_option run_event.sequence (lastOpt evs))
       (Issue [K ''taskStatus'', K ''latestEventSequence'']
          ''Task Status must point to the last RunEvent'')
     @ report (Some updated \<noteq> map_option run_event.occurredAt (lastOpt evs))
       (Issue [K ''taskStatus'', K ''updatedAt'']
          ''Task Status must be updated at the time of the last RunEvent'')"

definition lastEventPath :: "run_event list \<Rightarrow> string \<Rightarrow> path" where
  "lastEventPath evs field = [K ''runEvents'', I (length evs - 1), K field]"

text \<open>The last event must be in the given state and of the given type.\<close>

definition finalEventIssues ::
    "decision_task_state \<Rightarrow> string \<Rightarrow> event_type \<Rightarrow> string \<Rightarrow> run_event list \<Rightarrow> contract_issue list" where
  "finalEventIssues st stateMsg ty typeMsg evs =
     report (map_option run_event.taskState (lastOpt evs) \<noteq> Some st)
       (Issue (lastEventPath evs ''taskState'') stateMsg)
     @ report (map_option eventType (lastOpt evs) \<noteq> Some ty)
       (Issue (lastEventPath evs ''eventType'') typeMsg)"

fun stageIssuesFrom :: "nat \<Rightarrow> int \<Rightarrow> run_event list \<Rightarrow> contract_issue list" where
  "stageIssuesFrom n prev [] = []"
| "stageIssuesFrom n prev (ev # evs) =
     (let cur = stateIndex (run_event.taskState ev) in
      report (cur = -1 \<or> cur \<le> prev)
        (Issue [K ''runEvents'', I n, K ''taskState'']
           ''RunEvents of a successful result must move forward through the stages'')
      @ stageIssuesFrom (Suc n) cur evs)"

definition successEventIssues :: "run_event list \<Rightarrow> contract_issue list" where
  "successEventIssues evs =
     finalEventIssues decision_task_state.COMPLETED
       ''The last event of a successful result must be COMPLETED''
       RUNTIME_SUCCEEDED ''The last event of a successful result must be RUNTIME_SUCCEEDED'' evs
     @ report ((case evs of [] \<Rightarrow> None | e # _ \<Rightarrow> Some (run_event.taskState e)) \<noteq> Some CREATED)
       (Issue [K ''runEvents'', I 0, K ''taskState'']
          ''RunEvents of a successful result must start from CREATED'')
     @ stageIssuesFrom 0 (-1) evs
     @ forEach (\<lambda>i e. report (eventType e \<noteq> TASK_STATE_CHANGED)
         (Issue [K ''runEvents'', I i, K ''eventType'']
            ''Intermediate RunEvents of a successful result must be state changes'')) (butlast evs)"

section \<open>Errors\<close>

definition errorSemanticsIssues :: "choice_mind_error \<Rightarrow> contract_issue list" where
  "errorSemanticsIssues e =
     report (category e \<noteq> fst (errorSemanticsByCode (choice_mind_error.code e)))
       (Issue [K ''error'', K ''category''] ''The error category must match the error code'')
     @ report (retryMode e \<noteq> snd (errorSemanticsByCode (choice_mind_error.code e)))
       (Issue [K ''error'', K ''retryMode''] ''The retry mode must match the error code'')"

definition failedResultIssues ::
    "failed_status \<Rightarrow> run_event list \<Rightarrow> choice_mind_error \<Rightarrow> contract_issue list" where
  "failedResultIssues s evs e =
     report (choice_mind_error.code e \<noteq> AGENT_RUNTIME_FAILED)
       (Issue [K ''error'', K ''code'']
          ''A failed result of a created task must use the Runtime error code'')
     @ report (failed_status.errorId s \<noteq> choice_mind_error.errorId e)
       (Issue [K ''taskStatus'', K ''errorId''] ''Task Status must point to the Error of the result'')
     @ finalEventIssues decision_task_state.FAILED ''The last event of a failed result must be FAILED''
         RUNTIME_FAILED ''The last event of a failed result must be RUNTIME_FAILED'' evs"

section \<open>Decision\<close>

definition asksRequirement :: "ident \<Rightarrow> decision_revision \<Rightarrow> bool" where
  "asksRequirement k d \<longleftrightarrow> list_ex (\<lambda>s.
     case s of next_step.PROVIDE_REQUIREMENT rk _ \<Rightarrow> rk = k | _ \<Rightarrow> False) (nextSteps d)"

definition asksCondition :: "ident \<Rightarrow> decision_revision \<Rightarrow> bool" where
  "asksCondition k d \<longleftrightarrow> list_ex (\<lambda>s.
     case s of next_step.VERIFY_CONDITION c _ \<Rightarrow> c = k | _ \<Rightarrow> False) (nextSteps d)"

definition asksRisk :: "ident \<Rightarrow> decision_revision \<Rightarrow> bool" where
  "asksRisk k d \<longleftrightarrow> list_ex (\<lambda>s. case s of VERIFY_RISK r _ \<Rightarrow> r = k | _ \<Rightarrow> False) (nextSteps d)"

definition hasCondition :: "ident \<Rightarrow> decision_revision \<Rightarrow> bool" where
  "hasCondition k d \<longleftrightarrow> list_ex (\<lambda>c. conditionId c = k) (conditions d)"

definition ownershipIssues :: "completed_status \<Rightarrow> 'a bundle_draft_scheme \<Rightarrow> contract_issue list" where
  "ownershipIssues s b =
     (let d = bundle_draft.decision b; r = bundle_draft.requirementRevision b;
          tid = completed_status.decisionTaskId s in
      report (completed_status.decisionRevisionId s \<noteq> decision_revision.decisionRevisionId d)
        (Issue [K ''taskStatus'', K ''decisionRevisionId'']
           ''Task Status must point to the Decision Revision of the result'')
      @ report (requirement_revision.decisionTaskId r \<noteq> tid)
        (Issue [K ''bundle'', K ''requirementRevision'', K ''decisionTaskId'']
           ''Requirement Revision must belong to the Decision Task of the result'')
      @ report (decision_revision.decisionTaskId d \<noteq> tid)
        (Issue [K ''bundle'', K ''decision'', K ''decisionTaskId'']
           ''Decision Revision must belong to the Decision Task of the result'')
      @ report (decision_revision.requirementRevisionId d \<noteq> requirement_revision.requirementRevisionId r)
        (Issue [K ''bundle'', K ''decision'', K ''requirementRevisionId'']
           ''Decision must reference the Requirement Revision of the result''))"

definition budgetNeedsConfirmation :: "requirement_revision \<Rightarrow> bool" where
  "budgetNeedsConfirmation r \<longleftrightarrow>
     (case budget r of None \<Rightarrow> True | Some bud \<Rightarrow> \<not> confirmed bud)
     \<or> ''budget.maxAmountMinor'' \<in> set (unknowns r)"

definition unconfirmedBudgetIssues :: "decision_revision \<Rightarrow> contract_issue list" where
  "unconfirmedBudgetIssues d =
     report (decision_revision.status d \<noteq> NEED_MORE_INFO)
       (Issue [K ''bundle'', K ''decision'', K ''status'']
          ''NEED_MORE_INFO is required while the budget is not confirmed'')
     @ report (selectedCandidateId d \<noteq> None)
       (Issue [K ''bundle'', K ''decision'', K ''selectedCandidateId'']
          ''No Candidate can be selected while the budget is not confirmed'')
     @ report (\<not> list_ex (\<lambda>g. critical_gap.key g = ''budget.maxAmountMinor'') (criticalGaps d))
       (Issue [K ''bundle'', K ''decision'', K ''criticalGaps'']
          ''The Critical Gap of the budget must be kept while it is not confirmed'')
     @ report (\<not> asksRequirement ''budget.maxAmountMinor'' d)
       (Issue [K ''bundle'', K ''decision'', K ''nextSteps'']
          ''The user must be asked for the budget while it is not confirmed'')"

definition needMoreInfoIssues :: "decision_revision \<Rightarrow> contract_issue list" where
  "needMoreInfoIssues d =
     report (criticalGaps d = [])
       (Issue [K ''bundle'', K ''decision'', K ''criticalGaps'']
          ''NEED_MORE_INFO must have at least one Critical Gap that can be answered'')
     @ report (selectedCandidateId d \<noteq> None)
       (Issue [K ''bundle'', K ''decision'', K ''selectedCandidateId'']
          ''NEED_MORE_INFO must not select a Candidate'')
     @ report (candidateDispositions d \<noteq> [])
       (Issue [K ''bundle'', K ''decision'', K ''candidateDispositions'']
          ''NEED_MORE_INFO must not form a Candidate Disposition'')
     @ forEach (\<lambda>i g. case resolution g of
           gap_resolution.VERIFY_CONDITION _ \<Rightarrow>
             [Issue [K ''bundle'', K ''decision'', K ''criticalGaps'', I i, K ''resolution'', K ''resolutionType'']
                ''A NEED_MORE_INFO Critical Gap must be closed by a requirement step'']
         | gap_resolution.PROVIDE_REQUIREMENT rk \<Rightarrow>
             report (rk \<noteq> critical_gap.key g \<or> \<not> asksRequirement rk d)
               (Issue [K ''bundle'', K ''decision'', K ''criticalGaps'', I i, K ''resolution'', K ''requirementKey'']
                  ''A NEED_MORE_INFO Critical Gap must be closed by a requirement step''))
       (criticalGaps d)"

text \<open>\<open>hardBudget?.confirmed === true && hardBudget.hard && condition.amountMinor > ...\<close>\<close>

definition exceedsHardBudget :: "requirement_revision \<Rightarrow> decision_condition \<Rightarrow> bool" where
  "exceedsHardBudget r c =
     (case c of OFFICIAL_WARRANTY _ _ _ \<Rightarrow> False
      | MAX_PRICE _ _ n _ \<Rightarrow> (case confirmedHardBudget r of None \<Rightarrow> False
           | Some bud \<Rightarrow> n > maxAmountMinor bud))"

definition conditionIssues :: "'a bundle_draft_scheme \<Rightarrow> nat \<Rightarrow> decision_condition \<Rightarrow> contract_issue list" where
  "conditionIssues b i c =
     (let d = bundle_draft.decision b; p = [K ''bundle'', K ''decision'', K ''conditions'', I i] in
      report (conditionCandidateId c \<notin> set (setAddAll (map candidate.candidateId (candidates b)) []))
        (Issue (p @ [K ''candidateId'']) ''Decision Condition must be about an existing Candidate'')
      @ report (Some (conditionCandidateId c) \<noteq> selectedCandidateId d)
        (Issue (p @ [K ''candidateId'']) ''Decision Condition must be about the selected Candidate'')
      @ report (exceedsHardBudget (bundle_draft.requirementRevision b) c)
        (Issue (p @ [K ''amountMinor'']) ''MAX_PRICE must not exceed the confirmed hard budget'')
      @ report (\<not> asksCondition (conditionId c) d)
        (Issue (p @ [K ''conditionId''])
           ''Every Decision Condition needs a VERIFY_CONDITION next step''))"

definition buyIfPriceGapIssues :: "decision_revision \<Rightarrow> contract_issue list" where
  "buyIfPriceGapIssues d = forEach (\<lambda>i g. case resolution g of
       gap_resolution.PROVIDE_REQUIREMENT _ \<Rightarrow>
         [Issue [K ''bundle'', K ''decision'', K ''criticalGaps'', I i, K ''resolution'', K ''resolutionType'']
            ''A BUY_IF_PRICE Critical Gap must be closed by a verifiable Decision Condition'']
     | gap_resolution.VERIFY_CONDITION cid \<Rightarrow>
         report (\<not> hasCondition cid d)
           (Issue [K ''bundle'', K ''decision'', K ''criticalGaps'', I i, K ''resolution'', K ''conditionId'']
              ''A BUY_IF_PRICE Critical Gap must be closed by a verifiable Decision Condition''))
     (criticalGaps d)"

definition nextStepIssues :: "decision_revision \<Rightarrow> nat \<Rightarrow> next_step \<Rightarrow> contract_issue list" where
  "nextStepIssues d i s = (case s of
       next_step.PROVIDE_REQUIREMENT _ _ \<Rightarrow> []
     | next_step.VERIFY_CONDITION c _ \<Rightarrow> report (\<not> hasCondition c d)
         (Issue [K ''bundle'', K ''decision'', K ''nextSteps'', I i, K ''conditionId'']
            ''VERIFY_CONDITION must reference an existing Decision Condition'')
     | VERIFY_RISK r _ \<Rightarrow> report (\<not> list_ex (\<lambda>x. riskId x = r) (risks d))
         (Issue [K ''bundle'', K ''decision'', K ''nextSteps'', I i, K ''riskId'']
            ''VERIFY_RISK must reference an existing Decision Risk''))"

definition decisionIssues :: "'a bundle_draft_scheme \<Rightarrow> contract_issue list" where
  "decisionIssues b =
     (let d = bundle_draft.decision b; r = bundle_draft.requirementRevision b; st = decision_revision.status d in
      (if budgetNeedsConfirmation r then unconfirmedBudgetIssues d else [])
      @ (if st = NEED_MORE_INFO then needMoreInfoIssues d else [])
      @ report (st = NO_MATCH \<and> selectedCandidateId d \<noteq> None)
          (Issue [K ''bundle'', K ''decision'', K ''selectedCandidateId''] ''NO_MATCH must not select a Candidate'')
      @ forEach (conditionIssues b) (conditions d)
      @ (if st = BUY_IF_PRICE then buyIfPriceGapIssues d else [])
      @ forEach (nextStepIssues d) (nextSteps d)
      @ forEach (\<lambda>i x. report (\<not> asksRisk (riskId x) d)
          (Issue [K ''bundle'', K ''decision'', K ''risks'', I i, K ''riskId'']
             ''Every Decision Risk needs a VERIFY_RISK next step'')) (risks d)
      @ report (st = BUY_IF_PRICE \<and> conditions d = [])
          (Issue [K ''bundle'', K ''decision'', K ''conditions'']
             ''BUY_IF_PRICE needs at least one verifiable condition'')
      @ report (st = BUY_NOW \<and> criticalGaps d \<noteq> [])
          (Issue [K ''bundle'', K ''decision'', K ''criticalGaps''] ''BUY_NOW is forbidden with a Critical Gap''))"

section \<open>The whole check\<close>

fun checkDecisionTaskResultInvariants :: "decision_task_result \<Rightarrow> contract_issue list" where
  "checkDecisionTaskResultInvariants (Rejected e) =
     errorSemanticsIssues e
     @ report (choice_mind_error.code e = AGENT_RUNTIME_FAILED)
         (Issue [K ''error'', K ''code'']
            ''AGENT_RUNTIME_FAILED must belong to a failed result of a created task'')"
| "checkDecisionTaskResultInvariants (Failed s evs e) =
     runEventIssues (failed_status.decisionTaskId s) (failed_status.agentRunId s)
       (failed_status.latestEventSequence s) (failed_status.updatedAt s) evs
     @ errorSemanticsIssues e
     @ failedResultIssues s evs e"
| "checkDecisionTaskResultInvariants (Succeeded s evs b) =
     runEventIssues (completed_status.decisionTaskId s) (completed_status.agentRunId s)
       (completed_status.latestEventSequence s) (completed_status.updatedAt s) evs
     @ successEventIssues evs
     @ report (decision_revision.status (bundle_draft.decision b) \<noteq> BUY_IF_PRICE
               \<and> decision_revision.status (bundle_draft.decision b) \<noteq> NEED_MORE_INFO)
         (Issue [K ''bundle'', K ''decision'', K ''status'']
            ''P0-03 opens BUY_IF_PRICE and NEED_MORE_INFO only'')
     @ ownershipIssues s b
     @ decisionIssues b
     @ checkDecisionBasisV1 (completed_status.decisionTaskId s) b"

end
