(* ===== verification/CM_Basis_Facts.thy ===== *)
theory CM_Basis_Facts
  imports CM_Decision_Basis
begin

text \<open>
  What the decision basis computes, without its loops: when a bundle is well linked, which pieces
  of evidence are live for a claim, when a claim is supported, which value is trusted for a
  candidate and a predicate. Each routine of the basis is shown to decide or compute the
  corresponding notion; the last section states what a bundle accepted by the basis guarantees.
\<close>

section \<open>Unique ids\<close>

lemma uniqueScan_ids: "snd (uniqueScan mk n seen xs) = setAddAll xs seen"
  by (induction xs arbitrary: n seen) (auto simp: setAddAll_def Let_def)

lemma uniqueScan_Nil_iff:
  "fst (uniqueScan mk n seen xs) = [] \<longleftrightarrow> distinct xs \<and> set xs \<inter> set seen = {}"
  by (induction xs arbitrary: n seen) (auto simp: Let_def)

lemma collectUniqueIds_Nil_iff [issue_simps]:
  "fst (collectUniqueIds items getId p f nm) = [] \<longleftrightarrow> distinct (map getId items)"
  by (simp add: collectUniqueIds_def uniqueScan_Nil_iff)

lemma set_collectUniqueIds: "set (snd (collectUniqueIds items getId p f nm)) = getId ` set items"
  by (simp add: collectUniqueIds_def uniqueScan_ids)

section \<open>Well-linked bundles\<close>

definition linkPair :: "claim_evidence_link \<Rightarrow> string" where
  "linkPair l = nulKey (claim_evidence_link.claimId l) (claim_evidence_link.evidenceId l)"

text \<open>Every record belongs to the task, every reference resolves, every date is in order.\<close>

definition wellLinked :: "ident \<Rightarrow> 'a bundle_draft_scheme \<Rightarrow> bool" where
  "wellLinked tid b \<longleftrightarrow>
     distinct (map candidate.candidateId (candidates b))
     \<and> distinct (map claim.claimId (claims b))
     \<and> distinct (map evidence.evidenceId (bundle_draft.evidence b))
     \<and> distinct (map linkId (claimEvidenceLinks b))
     \<and> (\<forall>c \<in> set (candidates b). candidate.decisionTaskId c = tid)
     \<and> (\<forall>c \<in> set (claims b). claim.decisionTaskId c = tid
          \<and> subjectId c \<in> candidate.candidateId ` set (candidates b))
     \<and> (\<forall>e \<in> set (bundle_draft.evidence b). evidence.decisionTaskId e = tid
          \<and> \<not> utcBefore (evidence.validUntil e) (evidence.capturedAt e)
          \<and> \<not> utcBefore (validFrom (bundle_draft.decision b)) (evidence.capturedAt e))
     \<and> \<not> utcBefore (decision_revision.validUntil (bundle_draft.decision b))
          (validFrom (bundle_draft.decision b))
     \<and> (\<forall>l \<in> set (claimEvidenceLinks b). claim_evidence_link.decisionTaskId l = tid
          \<and> claim_evidence_link.claimId l \<in> claim.claimId ` set (claims b)
          \<and> claim_evidence_link.evidenceId l \<in> evidence.evidenceId ` set (bundle_draft.evidence b))
     \<and> distinct (map linkPair (claimEvidenceLinks b))
     \<and> (\<forall>e \<in> set (bundle_draft.evidence b).
          evidence.evidenceId e \<in> claim_evidence_link.evidenceId ` set (claimEvidenceLinks b))"

lemma linkIssuesFrom_Nil_iff:
  "linkIssuesFrom tid cids eids n pairs ls = [] \<longleftrightarrow>
     (\<forall>l \<in> set ls. claim_evidence_link.decisionTaskId l = tid
        \<and> claim_evidence_link.claimId l \<in> set cids \<and> claim_evidence_link.evidenceId l \<in> set eids)
     \<and> distinct (map linkPair ls) \<and> linkPair ` set ls \<inter> set pairs = {}"
  by (induction ls arbitrary: n pairs) (auto simp: Let_def linkPair_def)

lemma set_linkedEvidence:
  "set (linkedEvidence eids ls) = set eids \<inter> claim_evidence_link.evidenceId ` set ls"
  by (auto simp: linkedEvidence_def)

lemma candidateOwnerIssues_Nil_iff [issue_simps]:
  "candidateOwnerIssues tid cs = [] \<longleftrightarrow> (\<forall>c \<in> set cs. candidate.decisionTaskId c = tid)"
  unfolding candidateOwnerIssues_def by (rule forEach_Nil_ball) simp

lemma claimSubjectIssues_Nil_iff [issue_simps]:
  "claimSubjectIssues tid cids cs = [] \<longleftrightarrow>
     (\<forall>c \<in> set cs. claim.decisionTaskId c = tid \<and> subjectId c \<in> set cids)"
  unfolding claimSubjectIssues_def by (rule forEach_Nil_ball) simp

lemma evidenceTimeIssues_Nil_iff [issue_simps]:
  "evidenceTimeIssues tid from es = [] \<longleftrightarrow>
     (\<forall>e \<in> set es. evidence.decisionTaskId e = tid
        \<and> \<not> utcBefore (evidence.validUntil e) (evidence.capturedAt e)
        \<and> \<not> utcBefore from (evidence.capturedAt e))"
  unfolding evidenceTimeIssues_def by (rule forEach_Nil_ball) (simp add: utcAfter_iff)

lemma unlinkedEvidenceIssues_Nil_iff [issue_simps]:
  "unlinkedEvidenceIssues linked es = [] \<longleftrightarrow> (\<forall>e \<in> set es. evidence.evidenceId e \<in> set linked)"
  unfolding unlinkedEvidenceIssues_def by (rule forEach_Nil_ball) simp

lemma referenceIssues_Nil_iff: "referenceIssues tid b = [] \<longleftrightarrow> wellLinked tid b"
  unfolding referenceIssues_def Let_def wellLinked_def append_is_Nil_conv collectUniqueIds_Nil_iff
    candidateOwnerIssues_Nil_iff evidenceTimeIssues_Nil_iff report_Nil_iff
    claimSubjectIssues_Nil_iff unlinkedEvidenceIssues_Nil_iff linkIssuesFrom_Nil_iff
    set_linkedEvidence set_collectUniqueIds
  by auto

text \<open>
  The decision basis accepts the facts of a bundle exactly when they are well linked: ids are
  unique, every record belongs to the decision task, claims are about listed candidates, links join
  listed claims to listed evidence at most once per pair, every piece of evidence is linked, and no
  evidence is captured after the decision took effect or expires before its capture.
\<close>

theorem evaluateDecisionBasisV1_accepts_iff: "snd (evaluateDecisionBasisV1 tid b) = [] \<longleftrightarrow> wellLinked tid b"
  by (simp add: evaluateDecisionBasisV1_def evaluateDecisionBasisWithGraph_def Let_def referenceIssues_Nil_iff)

section \<open>Live evidence and the state of a claim\<close>

text \<open>
  The evidence linked to a claim in a given direction that has not expired when the decision takes
  effect.
\<close>

definition liveEvidence :: "'a bundle_draft_scheme \<Rightarrow> ident \<Rightarrow> link_direction \<Rightarrow> ident set" where
  "liveEvidence b cid dir =
     {eid. \<exists>l \<in> set (claimEvidenceLinks b). \<exists>e \<in> set (bundle_draft.evidence b).
        claim_evidence_link.claimId l = cid \<and> direction l = dir
        \<and> claim_evidence_link.evidenceId l = eid \<and> evidence.evidenceId e = eid
        \<and> \<not> utcBefore (evidence.validUntil e) (validFrom (bundle_draft.decision b))}"

definition claimSupported :: "'a bundle_draft_scheme \<Rightarrow> claim \<Rightarrow> bool" where
  "claimSupported b c \<longleftrightarrow>
     liveEvidence b (claim.claimId c) SUPPORTS \<noteq> {} \<and> liveEvidence b (claim.claimId c) REFUTES = {}"

definition countsFor :: "(ident \<rightharpoonup> evidence) \<Rightarrow> string \<Rightarrow> link_direction \<Rightarrow> claim_evidence_link \<Rightarrow> bool" where
  "countsFor ev from dir l \<longleftrightarrow> direction l = dir \<and>
     (\<exists>e. ev (claim_evidence_link.evidenceId l) = Some e \<and> \<not> utcBefore (evidence.validUntil e) from)"

lemma assessLinks_sets:
  "set (fst (assessLinks ev from ls acc)) =
     set (fst acc) \<union> claim_evidence_link.evidenceId ` {l \<in> set ls. countsFor ev from SUPPORTS l}
   \<and> set (snd (assessLinks ev from ls acc)) =
     set (snd acc) \<union> claim_evidence_link.evidenceId ` {l \<in> set ls. countsFor ev from REFUTES l}"
proof (induction ls arbitrary: acc)
  case Nil
  then show ?case by (cases acc) simp
next
  case (Cons l ls)
  obtain s r where acc: "acc = (s, r)" by (cases acc)
  let ?one = "\<lambda>d. if countsFor ev from d l then {claim_evidence_link.evidenceId l} else {}"
  have step: "claim_evidence_link.evidenceId ` {m \<in> set (l # ls). countsFor ev from d m} =
      ?one d \<union> claim_evidence_link.evidenceId ` {m \<in> set ls. countsFor ev from d m}" for d
    by auto
  define acc' where "acc' = (case ev (claim_evidence_link.evidenceId l) of
      None \<Rightarrow> (s, r)
    | Some e \<Rightarrow>
        if utcBefore (evidence.validUntil e) from then (s, r)
        else if direction l = SUPPORTS then (setAdd (claim_evidence_link.evidenceId l) s, r)
        else (s, setAdd (claim_evidence_link.evidenceId l) r))"
  have acc': "set (fst acc') = ?one SUPPORTS \<union> set s" "set (snd acc') = ?one REFUTES \<union> set r"
    by (cases "direction l"; auto simp: acc'_def countsFor_def split: option.splits)+
  have "assessLinks ev from (l # ls) acc = assessLinks ev from ls acc'"
    by (simp add: acc acc'_def)
  with Cons.IH [of acc'] show ?case
    unfolding step acc' acc fst_conv snd_conv by (simp add: Un_ac)
qed

lemma assessLinks_distinct:
  "distinct (fst acc) \<and> distinct (snd acc) \<Longrightarrow>
   distinct (fst (assessLinks ev from ls acc)) \<and> distinct (snd (assessLinks ev from ls acc))"
proof (induction ls arbitrary: acc)
  case Nil
  then show ?case by (cases acc) simp
next
  case (Cons l ls)
  then show ?case by (cases acc) (simp split: option.splits)
qed

text \<open>The assessment of a claim, with its links taken from the bundle.\<close>

definition assessmentOf :: "'a bundle_draft_scheme \<Rightarrow> claim \<Rightarrow> claim_assessment" where
  "assessmentOf b c =
     deriveClaimAssessment c
       (filter (\<lambda>l. claim_evidence_link.claimId l = claim.claimId c) (claimEvidenceLinks b))
       (mapFrom evidence.evidenceId (bundle_draft.evidence b)) (validFrom (bundle_draft.decision b))"

lemma deriveAssessments_map:
  "deriveAssessments b = map (assessmentOf b) (sort_key claim.claimId (claims b))"
  by (simp add: deriveAssessments_def Let_def assessmentOf_def getOrEmpty_groupBy)

lemma claimId_assessmentOf [simp]: "claim_assessment.claimId (assessmentOf b c) = claim.claimId c"
  by (simp add: assessmentOf_def deriveClaimAssessment_def Let_def split: prod.splits)

lemma countsFor_live:
  assumes "distinct (map evidence.evidenceId (bundle_draft.evidence b))"
  shows "claim_evidence_link.evidenceId `
      {l \<in> set (filter (\<lambda>l. claim_evidence_link.claimId l = cid) (claimEvidenceLinks b)).
         countsFor (mapFrom evidence.evidenceId (bundle_draft.evidence b))
           (validFrom (bundle_draft.decision b)) dir l} = liveEvidence b cid dir"
  using mapFrom_distinct [OF assms]
  by (fastforce simp: liveEvidence_def countsFor_def dest: mapFrom_SomeD)

lemma assessmentOf_fields:
  "supportingEvidenceIds (assessmentOf b c) = sort (fst (assessLinks
     (mapFrom evidence.evidenceId (bundle_draft.evidence b)) (validFrom (bundle_draft.decision b))
     (filter (\<lambda>l. claim_evidence_link.claimId l = claim.claimId c) (claimEvidenceLinks b)) ([], [])))"
  "refutingEvidenceIds (assessmentOf b c) = sort (snd (assessLinks
     (mapFrom evidence.evidenceId (bundle_draft.evidence b)) (validFrom (bundle_draft.decision b))
     (filter (\<lambda>l. claim_evidence_link.claimId l = claim.claimId c) (claimEvidenceLinks b)) ([], [])))"
  "evidenceState (assessmentOf b c) =
     deriveEvidenceState (supportingEvidenceIds (assessmentOf b c)) (refutingEvidenceIds (assessmentOf b c))"
  by (simp_all add: assessmentOf_def deriveClaimAssessment_def Let_def split: prod.splits)

lemma assessmentOf_evidence:
  assumes "distinct (map evidence.evidenceId (bundle_draft.evidence b))"
  shows "set (supportingEvidenceIds (assessmentOf b c)) = liveEvidence b (claim.claimId c) SUPPORTS"
    and "set (refutingEvidenceIds (assessmentOf b c)) = liveEvidence b (claim.claimId c) REFUTES"
  unfolding assessmentOf_fields set_sort
  by (simp_all only: assessLinks_sets countsFor_live [OF assms] fst_conv snd_conv list.set Un_empty_left)

lemma assessmentOf_canonical:
  "sorted (supportingEvidenceIds (assessmentOf b c)) \<and> distinct (supportingEvidenceIds (assessmentOf b c))
   \<and> sorted (refutingEvidenceIds (assessmentOf b c)) \<and> distinct (refutingEvidenceIds (assessmentOf b c))"
  unfolding assessmentOf_fields by (simp add: assessLinks_distinct)

lemma assessmentOf_SUPPORTED_iff:
  assumes "distinct (map evidence.evidenceId (bundle_draft.evidence b))"
  shows "evidenceState (assessmentOf b c) = SUPPORTED \<longleftrightarrow> claimSupported b c"
  unfolding assessmentOf_fields(3) deriveEvidenceState_def claimSupported_def
    assessmentOf_evidence [OF assms, symmetric]
  by auto

lemma claimAssessmentsById_buildGraph:
  assumes "distinct (map claim.claimId (claims b))" and "c \<in> set (claims b)"
  shows "claimAssessmentsById (buildGraph b) (claim.claimId c) = Some (assessmentOf b c)"
proof -
  let ?as = "map (assessmentOf b) (sort_key claim.claimId (claims b))"
  have "distinct (map claim_assessment.claimId ?as)"
    using assms(1) by (simp add: comp_def distinct_map)
  moreover have "assessmentOf b c \<in> set ?as" using assms(2) by simp
  ultimately show ?thesis
    using mapFrom_distinct [of claim_assessment.claimId ?as "assessmentOf b c"]
    by (simp add: buildGraph_def deriveAssessments_map)
qed

text \<open>
  C15: on a well-linked bundle the basis derives exactly one assessment per claim, in ascending
  order of claim id, whose supporting and refuting lists are the ids of the live evidence of the
  claim in that direction, sorted and without repetition, and whose state is \<open>SUPPORTED\<close> exactly
  when there is live supporting evidence and none refuting.
\<close>

theorem evaluateDecisionBasisV1_assessments:
  assumes "wellLinked tid b"
  shows "snd (evaluateDecisionBasisV1 tid b) = []
    \<and> map claim_assessment.claimId (fst (evaluateDecisionBasisV1 tid b)) = sort (map claim.claimId (claims b))
    \<and> (\<forall>a \<in> set (fst (evaluateDecisionBasisV1 tid b)).
           set (supportingEvidenceIds a) = liveEvidence b (claim_assessment.claimId a) SUPPORTS
           \<and> set (refutingEvidenceIds a) = liveEvidence b (claim_assessment.claimId a) REFUTES
           \<and> sorted (supportingEvidenceIds a) \<and> distinct (supportingEvidenceIds a)
           \<and> sorted (refutingEvidenceIds a) \<and> distinct (refutingEvidenceIds a)
           \<and> (evidenceState a = SUPPORTED \<longleftrightarrow>
                liveEvidence b (claim_assessment.claimId a) SUPPORTS \<noteq> {}
                \<and> liveEvidence b (claim_assessment.claimId a) REFUTES = {}))"
proof -
  have dist: "distinct (map evidence.evidenceId (bundle_draft.evidence b))"
    using assms by (simp add: wellLinked_def)
  have ev: "evaluateDecisionBasisV1 tid b = (deriveAssessments b, [])"
    using assms referenceIssues_Nil_iff [of tid b]
    by (simp add: evaluateDecisionBasisV1_def evaluateDecisionBasisWithGraph_def Let_def)
  have "map claim.claimId (sort_key claim.claimId (claims b)) = sort (map claim.claimId (claims b))"
    by (rule properties_for_sort [symmetric]) simp_all
  then show ?thesis
    using assessmentOf_evidence [OF dist] assessmentOf_canonical [of b]
      assessmentOf_SUPPORTED_iff [OF dist]
    by (auto simp: ev deriveAssessments_map comp_def claimSupported_def)
qed

lemma assessmentOf_cong:
  assumes "distinct (map evidence.evidenceId (bundle_draft.evidence b))"
    and "distinct (map evidence.evidenceId (bundle_draft.evidence b'))"
    and "\<And>dir. liveEvidence b (claim.claimId c) dir = liveEvidence b' (claim.claimId c) dir"
  shows "assessmentOf b c = assessmentOf b' c"
proof -
  have sets: "supportingEvidenceIds (assessmentOf b c) = supportingEvidenceIds (assessmentOf b' c)"
      "refutingEvidenceIds (assessmentOf b c) = refutingEvidenceIds (assessmentOf b' c)"
    using assessmentOf_canonical assessmentOf_evidence [OF assms(1)] assessmentOf_evidence [OF assms(2)]
      assms(3) by (metis sorted_distinct_set_unique)+
  then show ?thesis
    by (intro claim_assessment.equality) (simp_all add: assessmentOf_fields(3))
qed

text \<open>
  The assessments are canonical: two well-linked bundles with the same claims, evidence and
  links, listed in any order, get the same assessments in the same order.
\<close>

theorem evaluateDecisionBasisV1_order_independent:
  assumes "wellLinked tid b" and "wellLinked tid b'"
    and "set (claims b) = set (claims b')"
    and "set (bundle_draft.evidence b) = set (bundle_draft.evidence b')"
    and "set (claimEvidenceLinks b) = set (claimEvidenceLinks b')"
    and "validFrom (bundle_draft.decision b) = validFrom (bundle_draft.decision b')"
  shows "evaluateDecisionBasisV1 tid b = evaluateDecisionBasisV1 tid b'"
proof -
  have live: "liveEvidence b cid dir = liveEvidence b' cid dir" for cid dir
    using assms(4-6) by (simp add: liveEvidence_def)
  have d: "distinct (map claim.claimId (claims b))" "distinct (map claim.claimId (claims b'))"
    using assms(1,2) by (simp_all add: wellLinked_def)
  then have "mset (claims b) = mset (claims b')"
    using assms(3) by (metis distinct_map set_eq_iff_mset_eq_distinct)
  then have "sort_key claim.claimId (claims b) = sort_key claim.claimId (claims b')"
    using d(1) by (intro sort_key_inj_key_eq) (simp_all add: distinct_map)
  moreover have "assessmentOf b c = assessmentOf b' c" for c
    using assms(1,2) live by (intro assessmentOf_cong) (simp_all add: wellLinked_def)
  ultimately have "deriveAssessments b = deriveAssessments b'"
    by (simp add: deriveAssessments_map)
  with assms(1,2) show ?thesis
    using referenceIssues_Nil_iff [of tid b] referenceIssues_Nil_iff [of tid b']
    by (simp add: evaluateDecisionBasisV1_def evaluateDecisionBasisWithGraph_def Let_def)
qed

section \<open>Trusted values\<close>

definition factClaims :: "'a bundle_draft_scheme \<Rightarrow> ident \<Rightarrow> string \<Rightarrow> claim list" where
  "factClaims b cid pr =
     filter (\<lambda>c. claimIndexKey (subjectId c) (predicate c) = claimIndexKey cid pr
                 \<and> claimKind c = FACT_ASSERTION) (claims b)"

text \<open>
  Every factual claim about the candidate and the predicate is supported and states the value \<open>v\<close>,
  and there is at least one.
\<close>

definition trustedFact ::
    "'a bundle_draft_scheme \<Rightarrow> ident \<Rightarrow> string \<Rightarrow> (claim \<Rightarrow> rat option) \<Rightarrow> rat \<Rightarrow> bool" where
  "trustedFact b cid pr rv v \<longleftrightarrow> factClaims b cid pr \<noteq> [] \<and>
     (\<forall>c \<in> set (factClaims b cid pr). claimSupported b c \<and> rv c = Some v)"

definition trustedEvidence :: "'a bundle_draft_scheme \<Rightarrow> ident \<Rightarrow> string \<Rightarrow> ident set" where
  "trustedEvidence b cid pr =
     (\<Union>c \<in> set (factClaims b cid pr). liveEvidence b (claim.claimId c) SUPPORTS)"

lemma trustLoop_Some_iff:
  "trustLoop g rv cs vals ids = Some (vs, es) \<longleftrightarrow>
     (\<forall>c \<in> set cs. rv c \<noteq> None \<and>
        (\<exists>a. claimAssessmentsById g (claim.claimId c) = Some a \<and> evidenceState a = SUPPORTED))
     \<and> vs = setAddAll (map (the \<circ> rv) cs) vals
     \<and> es = fold (\<lambda>c. setAddAll (supportingEvidenceIds (the (claimAssessmentsById g (claim.claimId c))))) cs ids"
  by (induction cs arbitrary: vals ids) (auto simp: setAddAll_def split: option.splits)

lemma set_fold_setAddAll:
  "set (fold (\<lambda>c. setAddAll (f c)) cs ids) = (\<Union>c \<in> set cs. set (f c)) \<union> set ids"
  by (induction cs arbitrary: ids) auto

lemma distinct_set_single:
  assumes "distinct xs" and "set xs = {v}"
  shows "xs = [v]"
proof -
  have "length xs = 1" using distinct_card [OF assms(1)] assms(2) by simp
  with assms(2) show ?thesis by (cases xs) auto
qed

lemma setAddAll_single: "setAddAll xs [] = [v] \<longleftrightarrow> xs \<noteq> [] \<and> set xs = {v}"
proof
  assume "setAddAll xs [] = [v]"
  then have "set (setAddAll xs []) = {v}" by simp
  then show "xs \<noteq> [] \<and> set xs = {v}" by auto
next
  assume "xs \<noteq> [] \<and> set xs = {v}"
  then have "set (setAddAll xs []) = {v}" and "distinct (setAddAll xs [])" by auto
  then show "setAddAll xs [] = [v]"
    by (auto intro: distinct_set_single)
qed

lemma collectTrusted_buildGraph:
  "collectTrustedClaimValues cid pr (buildGraph b) rv =
     (if factClaims b cid pr = [] then None else trustLoop (buildGraph b) rv (factClaims b cid pr) [] [])"
proof (cases "claimsByCandidateAndPredicate (buildGraph b) (claimIndexKey cid pr)")
  case None
  then have "claimIndexKey cid pr \<notin> (\<lambda>c. claimIndexKey (subjectId c) (predicate c)) ` set (claims b)"
    by (simp add: buildGraph_def groupBy_None_iff)
  then have "factClaims b cid pr = []"
    by (auto simp: factClaims_def filter_empty_conv image_iff)
  with None show ?thesis by (simp add: collectTrustedClaimValues_def)
next
  case (Some ys)
  then have "ys = filter (\<lambda>c. claimIndexKey (subjectId c) (predicate c) = claimIndexKey cid pr) (claims b)"
    by (auto simp: buildGraph_def dest: groupBy_SomeD)
  then have "filter (\<lambda>c. claimKind c = FACT_ASSERTION) ys = factClaims b cid pr"
    by (simp add: factClaims_def conj_commute)
  with Some show ?thesis by (simp add: collectTrustedClaimValues_def Let_def)
qed

lemma trustLoop_facts:
  assumes "wellLinked tid b" and "factClaims b cid pr \<noteq> []"
  shows "(\<exists>es. trustLoop (buildGraph b) rv (factClaims b cid pr) [] [] = Some ([v], es))
           \<longleftrightarrow> trustedFact b cid pr rv v"
proof -
  let ?fs = "factClaims b cid pr" and ?g = "buildGraph b"
  have d: "distinct (map claim.claimId (claims b))"
    and de: "distinct (map evidence.evidenceId (bundle_draft.evidence b))"
    using assms(1) by (simp_all add: wellLinked_def)
  have sub: "set ?fs \<subseteq> set (claims b)" by (auto simp: factClaims_def)
  have sup: "(\<exists>a. claimAssessmentsById ?g (claim.claimId c) = Some a \<and> evidenceState a = SUPPORTED)
      \<longleftrightarrow> claimSupported b c" if "c \<in> set ?fs" for c
    using claimAssessmentsById_buildGraph [OF d] that sub assessmentOf_SUPPORTED_iff [OF de, of c] by auto
  have "(\<exists>es. trustLoop ?g rv ?fs [] [] = Some ([v], es)) \<longleftrightarrow>
      (\<forall>c \<in> set ?fs. rv c \<noteq> None \<and>
        (\<exists>a. claimAssessmentsById ?g (claim.claimId c) = Some a \<and> evidenceState a = SUPPORTED))
      \<and> setAddAll (map (the \<circ> rv) ?fs) [] = [v]"
    by (simp add: trustLoop_Some_iff eq_commute [of "[v]"])
  also have "\<dots> \<longleftrightarrow>
      (\<forall>c \<in> set ?fs. rv c \<noteq> None \<and> claimSupported b c) \<and> set (map (the \<circ> rv) ?fs) = {v}"
    using assms(2) by (simp add: sup setAddAll_single cong: ball_cong)
  also have "\<dots> \<longleftrightarrow> trustedFact b cid pr rv v"
    using assms(2) by (cases ?fs) (force simp: trustedFact_def image_subset_iff)+
  finally show ?thesis .
qed

lemma trustLoop_evidence:
  assumes "wellLinked tid b" and "trustLoop (buildGraph b) rv (factClaims b cid pr) [] [] = Some (vs, es)"
  shows "set es = trustedEvidence b cid pr"
proof -
  have d: "distinct (map claim.claimId (claims b))"
    and de: "distinct (map evidence.evidenceId (bundle_draft.evidence b))"
    using assms(1) by (simp_all add: wellLinked_def)
  have "set es = (\<Union>c \<in> set (factClaims b cid pr).
      set (supportingEvidenceIds (the (claimAssessmentsById (buildGraph b) (claim.claimId c)))))"
    using assms(2) by (simp add: trustLoop_Some_iff set_fold_setAddAll)
  also have "\<dots> = trustedEvidence b cid pr"
    using claimAssessmentsById_buildGraph [OF d] assessmentOf_evidence(1) [OF de]
    by (auto simp: trustedEvidence_def factClaims_def)
  finally show ?thesis .
qed

lemma getOnlyValue_eq: "getOnlyValue (map_option fst t) = Some v \<longleftrightarrow> (\<exists>es. t = Some ([v], es))"
  by (cases t) (auto simp: getOnlyValue_def split: list.splits)

lemma onlyTrusted_iff:
  assumes "wellLinked tid b"
  shows "getOnlyValue (map_option fst (collectTrustedClaimValues cid pr (buildGraph b) rv)) = Some v
           \<longleftrightarrow> trustedFact b cid pr rv v"
  using trustLoop_facts [OF assms, of cid pr rv v]
  by (auto simp: getOnlyValue_eq collectTrusted_buildGraph trustedFact_def)

lemma trustedFact_collect:
  assumes "wellLinked tid b" and "trustedFact b cid pr rv v"
  obtains es where "collectTrustedClaimValues cid pr (buildGraph b) rv = Some ([v], es)"
    and "set es = trustedEvidence b cid pr"
proof -
  have ne: "factClaims b cid pr \<noteq> []" using assms(2) by (simp add: trustedFact_def)
  with assms trustLoop_facts [OF assms(1) ne] obtain es
    where "trustLoop (buildGraph b) rv (factClaims b cid pr) [] [] = Some ([v], es)" by blast
  with that ne show ?thesis
    using trustLoop_evidence [OF assms(1)] by (simp add: collectTrusted_buildGraph)
qed

text \<open>The status and the evidence of a budget or must-have assessment.\<close>

lemma budgetAssessment:
  fixes c bud b
  defines "a \<equiv> assessCandidateBudgetConstraint c bud (buildGraph b)"
    and "price \<equiv> amountMinor (observedPrice c)"
  assumes "wellLinked tid b"
  shows "assessmentStatus a =
      (if trustedFact b (candidate.candidateId c) ''price.observed'' readMoney (of_int price)
       then (if price \<le> maxAmountMinor bud then SATISFIED else VIOLATED) else INDETERMINATE)"
    and "set (assessmentEvidenceIds a) =
      (if trustedFact b (candidate.candidateId c) ''price.observed'' readMoney (of_int price)
       then trustedEvidence b (candidate.candidateId c) ''price.observed'' else {})"
proof -
  let ?t = "collectTrustedClaimValues (candidate.candidateId c) ''price.observed'' (buildGraph b) readMoney"
  let ?T = "trustedFact b (candidate.candidateId c) ''price.observed'' readMoney (of_int price)"
  have no: "\<not> ?T \<Longrightarrow> a = createIndeterminateAssessment"
    using onlyTrusted_iff [OF assms(3), of "candidate.candidateId c" "''price.observed''" readMoney]
    by (auto simp: a_def price_def assessCandidateBudgetConstraint_def Let_def split: option.splits)
  have yes: "assessmentStatus a = (if price \<le> maxAmountMinor bud then SATISFIED else VIOLATED)
      \<and> set (assessmentEvidenceIds a) = trustedEvidence b (candidate.candidateId c) ''price.observed''" if T: ?T
  proof -
    obtain es where "?t = Some ([of_int price], es)"
      and "set es = trustedEvidence b (candidate.candidateId c) ''price.observed''"
      using trustedFact_collect [OF assms(3) T] .
    then show ?thesis
      by (simp add: a_def price_def assessCandidateBudgetConstraint_def Let_def getOnlyValue_def)
  qed
  from no yes show "assessmentStatus a =
      (if ?T then (if price \<le> maxAmountMinor bud then SATISFIED else VIOLATED) else INDETERMINATE)"
    and "set (assessmentEvidenceIds a) =
      (if ?T then trustedEvidence b (candidate.candidateId c) ''price.observed'' else {})"
    by (auto simp: createIndeterminateAssessment_def)
qed

lemma mustHaveAssessment:
  fixes cid con b
  defines "a \<equiv> assessCandidateConstraint cid con (buildGraph b)"
    and "T \<equiv> trustedFact b cid (requirement_constraint.key con) (readQuantity (unitName (required con)))"
  assumes "wellLinked tid b"
  shows "assessmentStatus a = SATISFIED \<longleftrightarrow>
      (\<exists>v. T v \<and> satisfiesOperator (operator con) v (amount (required con)))"
    and "assessmentStatus a = VIOLATED \<longleftrightarrow>
      (\<exists>v. T v \<and> \<not> satisfiesOperator (operator con) v (amount (required con)))"
    and "set (assessmentEvidenceIds a) =
      (if \<exists>v. T v then trustedEvidence b cid (requirement_constraint.key con) else {})"
proof -
  let ?t = "collectTrustedClaimValues cid (requirement_constraint.key con) (buildGraph b)
     (readQuantity (unitName (required con)))"
  have unique: "T v \<Longrightarrow> T w \<Longrightarrow> v = w" for v w
    unfolding T_def trustedFact_def by (metis list.set_intros(1) neq_Nil_conv option.inject)
  have no: "a = createIndeterminateAssessment" if "\<not> (\<exists>v. T v)"
  proof -
    have "getOnlyValue (map_option fst ?t) = None"
      using that onlyTrusted_iff [OF assms(3)] unfolding T_def by (metis option.exhaust)
    then show ?thesis by (simp add: a_def assessCandidateConstraint_def Let_def)
  qed
  have yes: "assessmentStatus a =
        (if satisfiesOperator (operator con) v (amount (required con)) then SATISFIED else VIOLATED)
      \<and> set (assessmentEvidenceIds a) = trustedEvidence b cid (requirement_constraint.key con)" if T: "T v" for v
  proof -
    obtain es where "?t = Some ([v], es)"
      and "set es = trustedEvidence b cid (requirement_constraint.key con)"
      using trustedFact_collect [OF assms(3) T [unfolded T_def]] .
    then show ?thesis
      by (simp add: a_def assessCandidateConstraint_def Let_def getOnlyValue_def)
  qed
  show "assessmentStatus a = SATISFIED \<longleftrightarrow>
      (\<exists>v. T v \<and> satisfiesOperator (operator con) v (amount (required con)))"
    and "assessmentStatus a = VIOLATED \<longleftrightarrow>
      (\<exists>v. T v \<and> \<not> satisfiesOperator (operator con) v (amount (required con)))"
    and "set (assessmentEvidenceIds a) =
      (if \<exists>v. T v then trustedEvidence b cid (requirement_constraint.key con) else {})"
    using no yes unique
    by (cases "\<exists>v. T v"; force simp: createIndeterminateAssessment_def split: if_splits)+
qed

section \<open>What an accepted bundle guarantees\<close>

lemma checkDecisionBasisV1_NilD:
  assumes "checkDecisionBasisV1 tid b = []"
  shows "wellLinked tid b"
    and "validateSelectedCandidateBasis (selectedCandidateOf b (buildGraph b))
           (bundle_draft.requirementRevision b) (buildGraph b) = []"
    and "validateEliminations b (buildGraph b) = []"
    and "validateRiskClaimBasis b (buildGraph b) = []"
    and "validateDecisionEvidenceClosure b (buildGraph b) = []"
    and "validateCanonicalAssessments (claimAssessments b) (deriveAssessments b) = []"
    and "selectedCandidateId (bundle_draft.decision b) = None \<or> selectedCandidateOf b (buildGraph b) \<noteq> None"
proof -
  show wl: "wellLinked tid b"
    using assms referenceIssues_Nil_iff [of tid b]
    by (auto simp: checkDecisionBasisV1_def evaluateDecisionBasisWithGraph_def Let_def split: if_splits)
  then have "referenceIssues tid b = []" by (simp add: referenceIssues_Nil_iff)
  with assms show "validateSelectedCandidateBasis (selectedCandidateOf b (buildGraph b))
           (bundle_draft.requirementRevision b) (buildGraph b) = []"
    and "validateEliminations b (buildGraph b) = []"
    and "validateRiskClaimBasis b (buildGraph b) = []"
    and "validateDecisionEvidenceClosure b (buildGraph b) = []"
    and "validateCanonicalAssessments (claimAssessments b) (deriveAssessments b) = []"
    and "selectedCandidateId (bundle_draft.decision b) = None \<or> selectedCandidateOf b (buildGraph b) \<noteq> None"
    by (auto simp: checkDecisionBasisV1_def evaluateDecisionBasisWithGraph_def Let_def split: if_splits)
qed

lemma selectedCandidateOf_Some:
  "selectedCandidateOf b (buildGraph b) = Some c \<longleftrightarrow>
     (\<exists>cid. selectedCandidateId (bundle_draft.decision b) = Some cid
        \<and> mapFrom candidate.candidateId (candidates b) cid = Some c)"
  by (simp add: selectedCandidateOf_def buildGraph_def split: option.splits)

lemma uncitedIssues_Nil_iff [issue_simps]:
  "uncitedIssues msg cited a = [] \<longleftrightarrow>
     (assessmentStatus a = SATISFIED \<longrightarrow> set (assessmentEvidenceIds a) \<subseteq> set cited)"
proof -
  have "forEach (\<lambda>_ eid. report (eid \<notin> set cited) (Issue p msg)) (assessmentEvidenceIds a) = []
      \<longleftrightarrow> (\<forall>eid \<in> set (assessmentEvidenceIds a). eid \<in> set cited)" for p
    by (rule forEach_Nil_ball) simp
  then show ?thesis by (auto simp: uncitedIssues_def)
qed

text \<open>
  C1: if the decision basis accepts a bundle whose decision selects a candidate, then that
  candidate is listed; when the budget is confirmed and hard, every factual price claim about it is
  supported and states its observed price, which is within the budget; every must-have is satisfied
  by a value on which all factual claims agree and all of which are supported; and all the evidence
  supporting those claims is cited by the decision.
\<close>

theorem checkDecisionBasisV1_selection:
  assumes "checkDecisionBasisV1 tid b = []"
    and "selectedCandidateId (bundle_draft.decision b) = Some cid"
  shows "\<exists>c \<in> set (candidates b). candidate.candidateId c = cid
    \<and> (\<forall>bud. confirmedHardBudget (bundle_draft.requirementRevision b) = Some bud \<longrightarrow>
          amountMinor (observedPrice c) \<le> maxAmountMinor bud
          \<and> trustedFact b cid ''price.observed'' readMoney (of_int (amountMinor (observedPrice c)))
          \<and> trustedEvidence b cid ''price.observed'' \<subseteq> set (decision_revision.evidenceIds (bundle_draft.decision b)))
    \<and> (\<forall>con \<in> set (mustHaves (bundle_draft.requirementRevision b)). \<exists>v.
          trustedFact b cid (requirement_constraint.key con) (readQuantity (unitName (required con))) v
          \<and> satisfiesOperator (operator con) v (amount (required con))
          \<and> trustedEvidence b cid (requirement_constraint.key con)
              \<subseteq> set (decision_revision.evidenceIds (bundle_draft.decision b)))"
proof -
  note acc = checkDecisionBasisV1_NilD [OF assms(1)]
  obtain c where c: "selectedCandidateOf b (buildGraph b) = Some c" using acc(7) assms(2) by auto
  then have mem: "c \<in> set (candidates b)" and cid: "candidate.candidateId c = cid"
    using assms(2) by (auto simp: selectedCandidateOf_Some dest: mapFrom_SomeD)
  let ?cited = "set (decision_revision.evidenceIds (bundle_draft.decision b))"
  have "amountMinor (observedPrice c) \<le> maxAmountMinor bud
      \<and> trustedFact b cid ''price.observed'' readMoney (of_int (amountMinor (observedPrice c)))
      \<and> trustedEvidence b cid ''price.observed'' \<subseteq> ?cited"
    if "confirmedHardBudget (bundle_draft.requirementRevision b) = Some bud" for bud
    using acc(2,5) c cid that budgetAssessment [OF acc(1), of c bud]
    by (auto simp: validateSelectedCandidateBasis_def validateDecisionEvidenceClosure_def Let_def
        uncitedIssues_Nil_iff split: if_splits)
  moreover have "\<exists>v. trustedFact b cid (requirement_constraint.key con) (readQuantity (unitName (required con))) v
          \<and> satisfiesOperator (operator con) v (amount (required con))
          \<and> trustedEvidence b cid (requirement_constraint.key con) \<subseteq> ?cited"
    if con: "con \<in> set (mustHaves (bundle_draft.requirementRevision b))" for con
  proof -
    have sat: "assessmentStatus (assessCandidateConstraint cid con (buildGraph b)) = SATISFIED"
      using acc(2) c cid con
      by (auto simp: validateSelectedCandidateBasis_def list_all_iff split: if_splits)
    have "set (assessmentEvidenceIds (assessCandidateConstraint cid con (buildGraph b))) \<subseteq> ?cited"
      using acc(5) c cid con sat
      by (auto simp: validateDecisionEvidenceClosure_def Let_def forEach_Nil_ball [OF uncitedIssues_Nil_iff]
          split: if_splits)
    moreover obtain v where
      v: "trustedFact b cid (requirement_constraint.key con) (readQuantity (unitName (required con))) v"
      "satisfiesOperator (operator con) v (amount (required con))"
      using sat mustHaveAssessment(1) [OF acc(1), of cid con] by blast
    moreover from v(1) have "set (assessmentEvidenceIds (assessCandidateConstraint cid con (buildGraph b)))
        = trustedEvidence b cid (requirement_constraint.key con)"
      using mustHaveAssessment(3) [OF acc(1), of cid con] by metis
    ultimately show ?thesis by blast
  qed
  ultimately show ?thesis using mem cid by blast
qed

lemma eliminationLoop_snd: 
  "snd (eliminationLoop n selected seen req g ds) =
     setAddAll (map candidate_disposition.candidateId ds) seen"
  by (induction ds arbitrary: n seen) (auto simp: Let_def setAddAll_def)

lemma eliminationLoop_NilD:
  "fst (eliminationLoop n selected seen req g ds) = [] \<Longrightarrow>
   distinct (map candidate_disposition.candidateId ds)
   \<and> candidate_disposition.candidateId ` set ds \<inter> set seen = {}
   \<and> (\<forall>dsp \<in> set ds. \<exists>p sn. dispositionIssues p selected sn req g dsp = [])"
proof (induction ds arbitrary: n seen)
  case Nil
  then show ?case by simp
next
  case (Cons d ds)
  let ?cid = "candidate_disposition.candidateId d"
  from Cons.prems obtain p where here: "dispositionIssues p selected seen req g d = []"
    and rest: "fst (eliminationLoop (Suc n) selected (setAdd ?cid seen) req g ds) = []"
    by (auto simp: Let_def)
  from here have "?cid \<notin> set seen" by (auto simp: dispositionIssues_def Let_def split: if_splits)
  with Cons.IH [OF rest] here show ?case by auto
qed

lemma hardConstraintKeys_set:
  "set (hardConstraintKeys req) = requirement_constraint.key ` set (mustHaves req)
     \<union> (if confirmedHardBudget req = None then {} else {''budget.maxAmountMinor''})"
  by (auto simp: hardConstraintKeys_def Let_def split: option.splits)

lemma dispositionIssues_NilD:
  assumes "dispositionIssues p selected seen req g dsp = []"
  shows "Some (candidate_disposition.candidateId dsp) \<noteq> selected"
    and "candidatesById g (candidate_disposition.candidateId dsp) \<noteq> None"
    and "requirementKey dsp \<in> set (hardConstraintKeys req)"
    and "provesViolation dsp req g"
  using assms by (auto simp: dispositionIssues_def Let_def split: if_splits)

text \<open>What it means that a disposition is justified.\<close>

definition provenViolation :: "'a bundle_draft_scheme \<Rightarrow> candidate_disposition \<Rightarrow> bool" where
  "provenViolation b dsp \<longleftrightarrow>
     (let req = bundle_draft.requirementRevision b; cid = candidate_disposition.candidateId dsp in
      (requirementKey dsp = ''budget.maxAmountMinor''
        \<and> (\<exists>bud. confirmedHardBudget req = Some bud \<and> (\<exists>c \<in> set (candidates b).
             candidate.candidateId c = cid
             \<and> maxAmountMinor bud < amountMinor (observedPrice c)
             \<and> trustedFact b cid ''price.observed'' readMoney (of_int (amountMinor (observedPrice c)))
             \<and> set (candidate_disposition.evidenceIds dsp) \<inter> trustedEvidence b cid ''price.observed'' \<noteq> {})))
      \<or> (requirementKey dsp \<noteq> ''budget.maxAmountMinor''
        \<and> (\<exists>con \<in> set (mustHaves req). requirement_constraint.key con = requirementKey dsp
             \<and> (\<exists>v. trustedFact b cid (requirementKey dsp) (readQuantity (unitName (required con))) v
                  \<and> \<not> satisfiesOperator (operator con) v (amount (required con)))
             \<and> set (candidate_disposition.evidenceIds dsp) \<inter> trustedEvidence b cid (requirementKey dsp) \<noteq> {})))"

lemma provesViolation_proven:
  assumes "wellLinked tid b"
    and "provesViolation dsp (bundle_draft.requirementRevision b) (buildGraph b)"
  shows "provenViolation b dsp"
proof (cases "requirementKey dsp = ''budget.maxAmountMinor''")
  case True
  let ?cid = "candidate_disposition.candidateId dsp"
  obtain c bud where c: "candidatesById (buildGraph b) ?cid = Some c"
    and bud: "confirmedHardBudget (bundle_draft.requirementRevision b) = Some bud"
    using assms(2) True
    by (auto simp: provesViolation_def Let_def assessDispositionConstraint_def
        createIndeterminateAssessment_def split: option.splits)
  then have "c \<in> set (candidates b)" and "candidate.candidateId c = ?cid"
    by (auto simp: buildGraph_def dest: mapFrom_SomeD)
  then show ?thesis
    using assms(2) True c bud budgetAssessment [OF assms(1), of c bud]
    by (force simp: provenViolation_def Let_def provesViolation_def assessDispositionConstraint_def
        list_ex_iff split: if_splits)
next
  case False
  let ?req = "bundle_draft.requirementRevision b" and ?cid = "candidate_disposition.candidateId dsp"
  obtain con where con: "find (\<lambda>m. requirement_constraint.key m = requirementKey dsp) (mustHaves ?req) = Some con"
    using assms(2) False
    by (auto simp: provesViolation_def Let_def assessDispositionConstraint_def
        createIndeterminateAssessment_def split: option.splits)
  then have mem: "con \<in> set (mustHaves ?req)" "requirement_constraint.key con = requirementKey dsp"
    by (auto simp: find_Some_iff)
  have "assessmentStatus (assessCandidateConstraint ?cid con (buildGraph b)) = VIOLATED"
    and "set (candidate_disposition.evidenceIds dsp)
           \<inter> set (assessmentEvidenceIds (assessCandidateConstraint ?cid con (buildGraph b))) \<noteq> {}"
    using assms(2) False con
    by (auto simp: provesViolation_def Let_def assessDispositionConstraint_def list_ex_iff)
  then show ?thesis
    using mem False mustHaveAssessment(2,3) [OF assms(1), of ?cid con]
    by (auto simp: provenViolation_def Let_def split: if_splits)
qed

text \<open>
  C33: if the decision basis accepts a bundle, every eliminated candidate is listed, is not the
  selected one and is eliminated once, by a real hard constraint that trusted and cited evidence
  shows it to violate; and unless more information is asked for, every candidate that is not
  selected is eliminated.
\<close>

theorem checkDecisionBasisV1_eliminations:
  assumes "checkDecisionBasisV1 tid b = []"
  shows "distinct (map candidate_disposition.candidateId (candidateDispositions (bundle_draft.decision b)))
    \<and> (\<forall>dsp \<in> set (candidateDispositions (bundle_draft.decision b)).
         candidate_disposition.candidateId dsp \<in> candidate.candidateId ` set (candidates b)
         \<and> selectedCandidateId (bundle_draft.decision b) \<noteq> Some (candidate_disposition.candidateId dsp)
         \<and> provenViolation b dsp)
    \<and> (decision_revision.status (bundle_draft.decision b) = NEED_MORE_INFO
       \<or> (\<forall>c \<in> set (candidates b). selectedCandidateId (bundle_draft.decision b) = Some (candidate.candidateId c)
            \<or> candidate.candidateId c \<in> candidate_disposition.candidateId ` set (candidateDispositions (bundle_draft.decision b))))"
proof -
  note acc = checkDecisionBasisV1_NilD [OF assms]
  let ?d = "bundle_draft.decision b" and ?req = "bundle_draft.requirementRevision b"
  have loop: "fst (eliminationLoop 0 (selectedCandidateId ?d) [] ?req (buildGraph b) (candidateDispositions ?d)) = []"
    using acc(3) by (simp add: validateEliminations_def Let_def)
  note facts = eliminationLoop_NilD [OF loop]
  have one: "candidate_disposition.candidateId dsp \<in> candidate.candidateId ` set (candidates b)
       \<and> selectedCandidateId ?d \<noteq> Some (candidate_disposition.candidateId dsp) \<and> provenViolation b dsp"
    if mem: "dsp \<in> set (candidateDispositions ?d)" for dsp
  proof -
    obtain p sn where "dispositionIssues p (selectedCandidateId ?d) sn ?req (buildGraph b) dsp = []"
      using bspec [OF facts [THEN conjunct2, THEN conjunct2] mem] by blast
    note d = dispositionIssues_NilD [OF this]
    show ?thesis
      using d(1,2) mapFrom_None_iff [of candidate.candidateId "candidates b"]
        provesViolation_proven [OF acc(1) d(4)]
      by (auto simp: buildGraph_def)
  qed
  have "decision_revision.status ?d = NEED_MORE_INFO
       \<or> (\<forall>c \<in> set (candidates b). selectedCandidateId ?d = Some (candidate.candidateId c)
            \<or> candidate.candidateId c \<in> candidate_disposition.candidateId ` set (candidateDispositions ?d))"
  proof (cases "decision_revision.status ?d = NEED_MORE_INFO")
    case False
    let ?seen = "snd (eliminationLoop 0 (selectedCandidateId ?d) [] ?req (buildGraph b) (candidateDispositions ?d))"
    have "\<forall>c \<in> set (candidates b). \<not> (Some (candidate.candidateId c) \<noteq> selectedCandidateId ?d
        \<and> candidate.candidateId c \<notin> set ?seen)"
      using acc(3) False
      by (simp only: validateEliminations_def Let_def append_is_Nil_conv forEach_Nil_iff
          all_set_conv_all_nth report_Nil_iff if_True not_False_eq_True) blast
    then show ?thesis by (auto simp: eliminationLoop_snd)
  qed simp
  with facts one show ?thesis by blast
qed

text \<open>
  If the decision basis accepts a bundle, every risk is about the selected candidate and is
  stated by a listed claim about that candidate which is supported, and at least one of the live
  pieces of evidence supporting it is cited by the decision.
\<close>

theorem checkDecisionBasisV1_risks:
  assumes "checkDecisionBasisV1 tid b = []"
    and "r \<in> set (risks (bundle_draft.decision b))"
  shows "selectedCandidateId (bundle_draft.decision b) = Some (decision_risk.candidateId r)
    \<and> (\<exists>c \<in> set (claims b). claim.claimId c = statementClaimId r
         \<and> subjectId c = decision_risk.candidateId r \<and> claimSupported b c
         \<and> liveEvidence b (claim.claimId c) SUPPORTS
             \<inter> set (decision_revision.evidenceIds (bundle_draft.decision b)) \<noteq> {})"
proof -
  note acc = checkDecisionBasisV1_NilD [OF assms(1)]
  have d: "distinct (map claim.claimId (claims b))"
    and de: "distinct (map evidence.evidenceId (bundle_draft.evidence b))"
    using acc(1) by (simp_all add: wellLinked_def)
  obtain i where none: "riskClaimIssues (bundle_draft.decision b) (buildGraph b) i r = []"
    using acc(4) assms(2) by (auto simp: validateRiskClaimBasis_def forEach_Nil_iff in_set_conv_nth)
  then have sel: "selectedCandidateId (bundle_draft.decision b) = Some (decision_risk.candidateId r)"
    by (auto simp: riskClaimIssues_def Let_def split: if_splits)
  obtain c where c: "claimsById (buildGraph b) (statementClaimId r) = Some c"
    and subj: "subjectId c = decision_risk.candidateId r"
    using none by (auto simp: riskClaimIssues_def Let_def split: option.splits if_splits)
  from c have mem: "c \<in> set (claims b)" and cid: "claim.claimId c = statementClaimId r"
    by (auto simp: buildGraph_def dest: mapFrom_SomeD)
  have "claimAssessmentsById (buildGraph b) (claim.claimId c) = Some (assessmentOf b c)"
    using claimAssessmentsById_buildGraph [OF d mem] .
  with none c have "evidenceState (assessmentOf b c) = SUPPORTED"
    and "list_ex (\<lambda>e. e \<in> set (decision_revision.evidenceIds (bundle_draft.decision b)))
           (supportingEvidenceIds (assessmentOf b c))"
    by (auto simp: riskClaimIssues_def Let_def split: if_splits)
  then have "claimSupported b c" and "liveEvidence b (claim.claimId c) SUPPORTS
      \<inter> set (decision_revision.evidenceIds (bundle_draft.decision b)) \<noteq> {}"
    using assessmentOf_SUPPORTED_iff [OF de, of c] assessmentOf_evidence(1) [OF de, of c]
    by (auto simp: list_ex_iff)
  with sel mem cid subj show ?thesis by blast
qed

text \<open>
  The composite key under which claims are indexed keeps candidates apart: as long as no
  candidate id contains a NUL character, the factual claims that count for a candidate and a
  predicate are exactly the claims about that candidate with that predicate.
\<close>

lemma factClaims_of_candidate:
  assumes "wellLinked tid b"
    and "\<forall>c \<in> set (candidates b). nul \<notin> set (candidate.candidateId c)"
    and "cid \<in> candidate.candidateId ` set (candidates b)"
  shows "factClaims b cid pr =
    filter (\<lambda>c. subjectId c = cid \<and> predicate c = pr \<and> claimKind c = FACT_ASSERTION) (claims b)"
proof -
  have "claimIndexKey (subjectId c) (predicate c) = claimIndexKey cid pr
      \<longleftrightarrow> subjectId c = cid \<and> predicate c = pr" if "c \<in> set (claims b)" for c
  proof -
    have "subjectId c \<in> candidate.candidateId ` set (candidates b)"
      using assms(1) that by (auto simp: wellLinked_def)
    then have "nul \<notin> set (subjectId c)" and "nul \<notin> set cid" using assms(2,3) by auto
    then show ?thesis by (auto simp: claimIndexKey_def dest: nulKey_inject)
  qed
  then show ?thesis unfolding factClaims_def by (auto intro: filter_cong)
qed

lemma validateCanonicalAssessments_self:
  "distinct (map claim_assessment.claimId as) \<Longrightarrow> validateCanonicalAssessments as as = []"
  by (auto simp: validateCanonicalAssessments_def collectUniqueIds_Nil_iff forEach_Nil_iff isSameAssessment_def)

lemma validateCanonicalAssessments_NilD:
  assumes "validateCanonicalAssessments as es = []"
  shows "as = es"
proof (rule nth_equalityI)
  show len: "length as = length es"
    using assms by (auto simp: validateCanonicalAssessments_def split: if_splits)
  fix i
  assume "i < length as"
  with assms len have "isSameAssessment (as ! i) (es ! i)"
    by (auto simp: validateCanonicalAssessments_def forEach_Nil_iff split: if_splits)
  then show "as ! i = es ! i"
    by (intro claim_assessment.equality) (simp_all add: isSameAssessment_def)
qed

text \<open>
  If the decision basis accepts a bundle, the assessments it carries are exactly those the
  basis derives: no claim can be presented as supported by other evidence than its own.
\<close>

theorem checkDecisionBasisV1_canonical:
  "checkDecisionBasisV1 tid b = [] \<Longrightarrow>
   claimAssessments b = fst (evaluateDecisionBasisV1 tid b)"
  using checkDecisionBasisV1_NilD(1,6) [of tid b] referenceIssues_Nil_iff [of tid b]
    validateCanonicalAssessments_NilD [of "claimAssessments b" "deriveAssessments b"]
  by (simp add: evaluateDecisionBasisV1_def evaluateDecisionBasisWithGraph_def Let_def)

end
