(* ===== verification/CM_Result_Facts.thy ===== *)
theory CM_Result_Facts
  imports CM_Invariants CM_Basis_Facts "HOL-Library.Sublist"
begin

text \<open>
  What the invariants of a decision task result decide: the shape of the run history, the fixed
  semantics of errors, and what an accepted decision promises the user.
\<close>

section \<open>The run history\<close>

lemma lastOpt_Some_iff: "lastOpt xs = Some x \<longleftrightarrow> xs \<noteq> [] \<and> last xs = x"
  by (auto simp: lastOpt_def)

lemma numbered_iff:
  "map run_event.sequence evs = map int [1..<Suc (length evs)] \<longleftrightarrow>
     (\<forall>i < length evs. run_event.sequence (evs ! i) = int i + 1)"
proof -
  have e1: "map int [1..<Suc (length evs)] = map (\<lambda>i. int i + 1) [0..<length evs]"
    unfolding map_Suc_upt [symmetric] One_nat_def by simp
  have e2: "map run_event.sequence evs = map (\<lambda>i. run_event.sequence (evs ! i)) [0..<length evs]"
    using arg_cong [OF map_nth [of evs], of "map run_event.sequence"] by (simp add: comp_def)
  show ?thesis unfolding e1 e2 by auto
qed

text \<open>
  The run-event checks of a result pass exactly when its history is not empty, is numbered
  1, 2, 3, ... without gaps, uses every event id once, belongs as a whole to the task and the run of
  the status, and the status points to its last event and time.
\<close>

theorem runEventIssues_Nil_iff:
  "runEventIssues tid rid latest updated evs = [] \<longleftrightarrow>
     evs \<noteq> [] \<and> distinct (map eventId evs)
     \<and> map run_event.sequence evs = map int [1..<Suc (length evs)]
     \<and> run_event.decisionTaskId ` set evs = {tid} \<and> run_event.agentRunId ` set evs = {rid}
     \<and> latest = int (length evs) \<and> updated = run_event.occurredAt (last evs)"
proof (cases evs rule: rev_cases)
  case Nil
  then show ?thesis by (simp add: runEventIssues_def lastOpt_def)
next
  case (snoc es e)
  have owners: "forEach (runEventOwnerIssues tid rid) evs = [] \<longleftrightarrow>
      map run_event.sequence evs = map int [1..<Suc (length evs)]
      \<and> (\<forall>e \<in> set evs. run_event.decisionTaskId e = tid) \<and> (\<forall>e \<in> set evs. run_event.agentRunId e = rid)"
    unfolding numbered_iff all_set_conv_all_nth
    by (simp add: forEach_Nil_iff runEventOwnerIssues_def) blast
  have single: "(\<forall>e \<in> set evs. f e = x) \<longleftrightarrow> f ` set evs = {x}" for f :: "run_event \<Rightarrow> ident" and x
    using snoc by auto
  have len: "run_event.sequence e = int (length evs)"
    if "map run_event.sequence evs = map int [1..<Suc (length evs)]"
    using that snoc by (simp add: numbered_iff)
  show ?thesis
    unfolding runEventIssues_def append_is_Nil_conv report_Nil_iff collectUniqueIds_Nil_iff owners single
    using len snoc by (auto simp: lastOpt_def)
qed

lemma indexOfFrom_ge: "x \<in> set xs \<Longrightarrow> n \<le> indexOfFrom n x xs"
proof (induction xs arbitrary: n)
  case Nil
  then show ?case by simp
next
  case (Cons y ys)
  then have "x \<in> set ys \<Longrightarrow> n + 1 \<le> indexOfFrom (n + 1) x ys" by blast
  with Cons.prems show ?case by auto
qed

lemma indexOfFrom_notin: "x \<notin> set xs \<Longrightarrow> indexOfFrom n x xs = -1"
  by (induction xs arbitrary: n) auto

lemma indexOfFrom_eq_iff:
  "distinct xs \<Longrightarrow> 0 \<le> n \<Longrightarrow> indexOfFrom n x xs = n + int j \<longleftrightarrow> j < length xs \<and> xs ! j = x"
proof (induction xs arbitrary: n j)
  case Nil
  then show ?case by simp
next
  case (Cons y ys)
  show ?case
  proof (cases j)
    case 0
    have "indexOfFrom (n + 1) x ys \<noteq> n"
      using Cons.prems indexOfFrom_ge [of x ys "n + 1"] indexOfFrom_notin [of x ys "n + 1"]
      by (cases "x \<in> set ys") auto
    with 0 show ?thesis by auto
  next
    case (Suc i)
    have "indexOfFrom (n + 1) x ys = (n + 1) + int i \<longleftrightarrow> i < length ys \<and> ys ! i = x"
      using Cons by simp
    with Suc Cons.prems show ?thesis by (auto simp: in_set_conv_nth algebra_simps)
  qed
qed

lemma stateIndex_eq_iff:
  "stateIndex s = int j \<longleftrightarrow> j < length authoritativeRunStates \<and> authoritativeRunStates ! j = s"
  using indexOfFrom_eq_iff [of authoritativeRunStates 0 s j]
  by (simp add: stateIndex_def authoritativeRunStates_def)

lemma stateIndex_range: "stateIndex s = -1 \<or> (\<exists>j. stateIndex s = int j)"
proof (cases "s \<in> set authoritativeRunStates")
  case True
  then have "0 \<le> stateIndex s" unfolding stateIndex_def by (rule indexOfFrom_ge)
  then show ?thesis by (metis nonneg_int_cases)
next
  case False
  then show ?thesis by (simp add: stateIndex_def indexOfFrom_notin)
qed

text \<open>A subsequence that starts with \<open>s\<close> picks an occurrence of \<open>s\<close> and goes on behind it.\<close>

lemma subseq_Cons_iff:
  "subseq (s # ss) xs \<longleftrightarrow> (\<exists>j < length xs. xs ! j = s \<and> subseq ss (drop (Suc j) xs))"
proof
  assume "subseq (s # ss) xs"
  then obtain us v vs where "xs = us @ v # vs" and "s = v" and "subseq ss vs"
    by (auto dest: list_emb_ConsD)
  then show "\<exists>j < length xs. xs ! j = s \<and> subseq ss (drop (Suc j) xs)"
    by (intro exI [of _ "length us"]) simp
next
  assume "\<exists>j < length xs. xs ! j = s \<and> subseq ss (drop (Suc j) xs)"
  then obtain j where "j < length xs" and "xs ! j = s" and "subseq ss (drop (Suc j) xs)" by blast
  then have "subseq (s # ss) (drop j xs)" using Cons_nth_drop_Suc [of j xs] by (simp flip: Cons_nth_drop_Suc)
  then show "subseq (s # ss) xs"
    using suffix_drop suffix_imp_subseq subseq_order.order_trans by blast
qed

lemma subseq_stages_iff:
  "subseq (s # ss) (drop k authoritativeRunStates) \<longleftrightarrow>
     (\<exists>j \<ge> k. stateIndex s = int j \<and> subseq ss (drop (Suc j) authoritativeRunStates))"
proof
  assume "subseq (s # ss) (drop k authoritativeRunStates)"
  then obtain i where "i < length authoritativeRunStates - k" and "authoritativeRunStates ! (k + i) = s"
      and "subseq ss (drop (Suc (k + i)) authoritativeRunStates)"
    by (auto simp: subseq_Cons_iff [of s ss "drop _ _"] add.commute)
  then show "\<exists>j \<ge> k. stateIndex s = int j \<and> subseq ss (drop (Suc j) authoritativeRunStates)"
    using stateIndex_eq_iff [of s "k + i"] by (intro exI [of _ "k + i"]) simp
next
  assume "\<exists>j \<ge> k. stateIndex s = int j \<and> subseq ss (drop (Suc j) authoritativeRunStates)"
  then obtain j where "k \<le> j" and "j < length authoritativeRunStates" and "authoritativeRunStates ! j = s"
      and "subseq ss (drop (Suc j) authoritativeRunStates)"
    by (auto simp: stateIndex_eq_iff)
  then show "subseq (s # ss) (drop k authoritativeRunStates)"
    by (auto simp: subseq_Cons_iff [of s ss "drop _ _"] intro!: exI [of _ "j - k"])
qed

lemma stageIssuesFrom_Nil_iff:
  "prev = int k - 1 \<Longrightarrow> stageIssuesFrom n prev evs = [] \<longleftrightarrow>
     subseq (map run_event.taskState evs) (drop k authoritativeRunStates)"
proof (induction evs arbitrary: n prev k)
  case Nil
  then show ?case by simp
next
  case (Cons ev evs)
  show ?case
  proof (cases "\<exists>j \<ge> k. stateIndex (run_event.taskState ev) = int j")
    case True
    then obtain j where "k \<le> j" and "stateIndex (run_event.taskState ev) = int j" by blast
    then show ?thesis
      using Cons.prems Cons.IH [of "int j" "Suc j" "Suc n"] by (simp add: Let_def subseq_stages_iff)
  next
    case False
    then have "stateIndex (run_event.taskState ev) = -1 \<or> stateIndex (run_event.taskState ev) \<le> prev"
      using Cons.prems stateIndex_range [of "run_event.taskState ev"] by force
    with False show ?thesis by (auto simp: Let_def subseq_stages_iff)
  qed
qed

text \<open>
  The history of a successful result passes exactly when its states are a subsequence of the
  ten authoritative stages that starts with CREATED and ends with COMPLETED (so no stage repeats or
  goes back, and no paused, failed or cancelled state occurs), and its last event alone reports the
  success of the runtime.
\<close>

theorem successEventIssues_Nil_iff:
  "successEventIssues evs = [] \<longleftrightarrow>
     subseq (map run_event.taskState evs) authoritativeRunStates
     \<and> (\<exists>first es lst. evs = first # es @ [lst]
          \<and> run_event.taskState first = CREATED
          \<and> run_event.taskState lst = decision_task_state.COMPLETED
          \<and> map eventType evs = replicate (Suc (length es)) TASK_STATE_CHANGED @ [RUNTIME_SUCCEEDED])"
proof (cases evs rule: rev_cases)
  case Nil
  then show ?thesis by (simp add: successEventIssues_def finalEventIssues_def lastOpt_def)
next
  case (snoc es lst)
  have map_eq_replicate: "map eventType xs = replicate (length xs) TASK_STATE_CHANGED \<longleftrightarrow>
      (\<forall>e \<in> set xs. eventType e = TASK_STATE_CHANGED)" for xs
    by (induction xs) auto
  have changes: "forEach (\<lambda>i e. report (eventType e \<noteq> TASK_STATE_CHANGED) (g i)) (butlast evs) = [] \<longleftrightarrow>
      (\<forall>e \<in> set es. eventType e = TASK_STATE_CHANGED)" for g :: "nat \<Rightarrow> contract_issue"
    using snoc by (simp add: forEach_Nil_ball [where P = "\<lambda>e. eventType e = TASK_STATE_CHANGED"])
  show ?thesis
    unfolding successEventIssues_def finalEventIssues_def append_is_Nil_conv report_Nil_iff changes
      stageIssuesFrom_Nil_iff [of "-1" 0, simplified]
    using snoc
    by (cases es) (auto simp: lastOpt_def map_eq_replicate)
qed

section \<open>Errors\<close>

text \<open>
  The invariants accept a rejected or failed result exactly when its category and retry mode are
  the fixed ones of its code, AGENT_RUNTIME_FAILED is used for created tasks and only for them, and a
  created task's status, events and error agree that the runtime failed last.
\<close>

theorem checkDecisionTaskResultInvariants_errors:
  "(checkDecisionTaskResultInvariants (Rejected err) = [] \<longleftrightarrow>
      (category err, retryMode err) = errorSemanticsByCode (choice_mind_error.code err)
      \<and> choice_mind_error.code err \<noteq> AGENT_RUNTIME_FAILED)
   \<and> (checkDecisionTaskResultInvariants (Failed s evs err) = [] \<longleftrightarrow>
      runEventIssues (failed_status.decisionTaskId s) (failed_status.agentRunId s)
        (failed_status.latestEventSequence s) (failed_status.updatedAt s) evs = []
      \<and> choice_mind_error.code err = AGENT_RUNTIME_FAILED
      \<and> category err = RUNTIME \<and> retryMode err = NEW_EXECUTION_ALLOWED
      \<and> failed_status.errorId s = choice_mind_error.errorId err
      \<and> evs \<noteq> [] \<and> run_event.taskState (last evs) = decision_task_state.FAILED
      \<and> eventType (last evs) = RUNTIME_FAILED)"
proof -
  have sem: "errorSemanticsIssues err = [] \<longleftrightarrow>
      (category err, retryMode err) = errorSemanticsByCode (choice_mind_error.code err)"
    by (cases "errorSemanticsByCode (choice_mind_error.code err)") (simp add: errorSemanticsIssues_def)
  have rejected: "checkDecisionTaskResultInvariants (Rejected err) = [] \<longleftrightarrow>
      (category err, retryMode err) = errorSemanticsByCode (choice_mind_error.code err)
      \<and> choice_mind_error.code err \<noteq> AGENT_RUNTIME_FAILED"
    by (simp add: sem)
  have "failedResultIssues s evs err = [] \<longleftrightarrow>
      choice_mind_error.code err = AGENT_RUNTIME_FAILED
      \<and> failed_status.errorId s = choice_mind_error.errorId err
      \<and> evs \<noteq> [] \<and> run_event.taskState (last evs) = decision_task_state.FAILED
      \<and> eventType (last evs) = RUNTIME_FAILED"
    by (auto simp: failedResultIssues_def finalEventIssues_def lastOpt_def)
  then have "checkDecisionTaskResultInvariants (Failed s evs err) = [] \<longleftrightarrow>
      runEventIssues (failed_status.decisionTaskId s) (failed_status.agentRunId s)
        (failed_status.latestEventSequence s) (failed_status.updatedAt s) evs = []
      \<and> choice_mind_error.code err = AGENT_RUNTIME_FAILED
      \<and> category err = RUNTIME \<and> retryMode err = NEW_EXECUTION_ALLOWED
      \<and> failed_status.errorId s = choice_mind_error.errorId err
      \<and> evs \<noteq> [] \<and> run_event.taskState (last evs) = decision_task_state.FAILED
      \<and> eventType (last evs) = RUNTIME_FAILED"
    using sem by (auto simp: errorSemanticsByCode_def)
  with rejected show ?thesis by blast
qed

section \<open>Accepted decisions\<close>

lemma checkSucceeded_NilD:
  assumes "checkDecisionTaskResultInvariants (Succeeded s evs b) = []"
  shows "runEventIssues (completed_status.decisionTaskId s) (completed_status.agentRunId s)
      (completed_status.latestEventSequence s) (completed_status.updatedAt s) evs = []"
    and "successEventIssues evs = []"
    and "decision_revision.status (bundle_draft.decision b) \<in> {BUY_IF_PRICE, NEED_MORE_INFO}"
    and "ownershipIssues s b = []"
    and "decisionIssues b = []"
    and "checkDecisionBasisV1 (completed_status.decisionTaskId s) b = []"
  using assms by (auto split: if_splits)

lemma decisionIssues_NilD:
  assumes "decisionIssues b = []"
  shows "budgetNeedsConfirmation (bundle_draft.requirementRevision b) \<Longrightarrow>
      unconfirmedBudgetIssues (bundle_draft.decision b) = []"
    and "decision_revision.status (bundle_draft.decision b) = NEED_MORE_INFO \<Longrightarrow>
      needMoreInfoIssues (bundle_draft.decision b) = []"
    and "\<forall>i < length (conditions (bundle_draft.decision b)).
      conditionIssues b i (conditions (bundle_draft.decision b) ! i) = []"
    and "decision_revision.status (bundle_draft.decision b) = BUY_IF_PRICE \<Longrightarrow>
      buyIfPriceGapIssues (bundle_draft.decision b) = [] \<and> conditions (bundle_draft.decision b) \<noteq> []"
    and "\<forall>i < length (nextSteps (bundle_draft.decision b)).
      nextStepIssues (bundle_draft.decision b) i (nextSteps (bundle_draft.decision b) ! i) = []"
    and "\<forall>r \<in> set (risks (bundle_draft.decision b)). asksRisk (riskId r) (bundle_draft.decision b)"
  using assms
  unfolding decisionIssues_def Let_def append_is_Nil_conv report_Nil_iff forEach_Nil_iff
    all_set_conv_all_nth not_not
  by (elim conjE, simp)+

lemma asks_iff:
  "asksRequirement k d \<longleftrightarrow> (\<exists>t. next_step.PROVIDE_REQUIREMENT k t \<in> set (nextSteps d))"
  "asksCondition k d \<longleftrightarrow> (\<exists>t. next_step.VERIFY_CONDITION k t \<in> set (nextSteps d))"
  "asksRisk k d \<longleftrightarrow> (\<exists>t. VERIFY_RISK k t \<in> set (nextSteps d))"
proof -
  have pick: "list_ex P xs \<longleftrightarrow> (\<exists>t. mk t \<in> set xs)"
    if "\<And>x. P x \<longleftrightarrow> (\<exists>t. x = mk t)" for P and mk :: "string \<Rightarrow> next_step" and xs
    using that by (auto simp: list_ex_iff)
  show "asksRequirement k d \<longleftrightarrow> (\<exists>t. next_step.PROVIDE_REQUIREMENT k t \<in> set (nextSteps d))"
    unfolding asksRequirement_def by (rule pick) (auto split: next_step.splits)
  show "asksCondition k d \<longleftrightarrow> (\<exists>t. next_step.VERIFY_CONDITION k t \<in> set (nextSteps d))"
    unfolding asksCondition_def by (rule pick) (auto split: next_step.splits)
  show "asksRisk k d \<longleftrightarrow> (\<exists>t. VERIFY_RISK k t \<in> set (nextSteps d))"
    unfolding asksRisk_def by (rule pick) (auto split: next_step.splits)
qed

lemma needMoreInfoIssues_Nil_iff:
  "needMoreInfoIssues d = [] \<longleftrightarrow>
     criticalGaps d \<noteq> [] \<and> selectedCandidateId d = None \<and> candidateDispositions d = []
     \<and> (\<forall>g \<in> set (criticalGaps d). resolution g = gap_resolution.PROVIDE_REQUIREMENT (critical_gap.key g)
          \<and> asksRequirement (critical_gap.key g) d)"
  unfolding needMoreInfoIssues_def append_is_Nil_conv report_Nil_iff
  by (subst forEach_Nil_ball [where P = "\<lambda>g. resolution g = gap_resolution.PROVIDE_REQUIREMENT (critical_gap.key g)
          \<and> asksRequirement (critical_gap.key g) d"]) (auto split: gap_resolution.splits)

text \<open>
  A successful result that the invariants accept never tells the user to buy now. While the
  budget is missing, unconfirmed or listed as unknown, it asks for more information and for the
  budget in particular; whenever it asks for more information it selects and eliminates nobody, and
  every gap it names is closed by a next step asking for that very requirement.
\<close>

theorem accepted_need_more_info:
  assumes "checkDecisionTaskResultInvariants (Succeeded s evs b) = []"
  shows "(budgetNeedsConfirmation (bundle_draft.requirementRevision b) \<longrightarrow>
       decision_revision.status (bundle_draft.decision b) = NEED_MORE_INFO
       \<and> asksRequirement ''budget.maxAmountMinor'' (bundle_draft.decision b))
    \<and> (decision_revision.status (bundle_draft.decision b) = NEED_MORE_INFO \<longrightarrow>
       selectedCandidateId (bundle_draft.decision b) = None
       \<and> candidateDispositions (bundle_draft.decision b) = []
       \<and> conditions (bundle_draft.decision b) = [] \<and> risks (bundle_draft.decision b) = []
       \<and> criticalGaps (bundle_draft.decision b) \<noteq> []
       \<and> (\<forall>g \<in> set (criticalGaps (bundle_draft.decision b)).
            resolution g = gap_resolution.PROVIDE_REQUIREMENT (critical_gap.key g)
            \<and> asksRequirement (critical_gap.key g) (bundle_draft.decision b)))
    \<and> decision_revision.status (bundle_draft.decision b) \<in> {NEED_MORE_INFO, BUY_IF_PRICE}"
proof -
  let ?d = "bundle_draft.decision b"
  note acc = checkSucceeded_NilD [OF assms]
  note dec = decisionIssues_NilD [OF acc(5)]
  have unconfirmed: "decision_revision.status ?d = NEED_MORE_INFO \<and> asksRequirement ''budget.maxAmountMinor'' ?d"
    if "budgetNeedsConfirmation (bundle_draft.requirementRevision b)"
    using dec(1) [OF that] by (auto simp: unconfirmedBudgetIssues_def split: if_splits)
  have empty: "conditions ?d = [] \<and> risks ?d = []" if none: "selectedCandidateId ?d = None"
  proof
    show "conditions ?d = []"
    proof (rule ccontr)
      assume "conditions ?d \<noteq> []"
      with dec(3) have "conditionIssues b 0 (conditions ?d ! 0) = []" by blast
      with none show False by (simp add: conditionIssues_def Let_def)
    qed
    show "risks ?d = []"
      using checkDecisionBasisV1_NilD(4) [OF acc(6)] none
      by (cases "risks ?d") (auto simp: validateRiskClaimBasis_def riskClaimIssues_def Let_def)
  qed
  show ?thesis
    using unconfirmed empty dec(2) acc(3) by (auto simp: needMoreInfoIssues_Nil_iff)
qed

lemma buyIfPriceGapIssues_Nil_iff:
  "buyIfPriceGapIssues d = [] \<longleftrightarrow>
     (\<forall>g \<in> set (criticalGaps d). \<exists>cid. resolution g = gap_resolution.VERIFY_CONDITION cid \<and> hasCondition cid d)"
  unfolding buyIfPriceGapIssues_def
  by (subst forEach_Nil_ball [where P = "\<lambda>g. \<exists>cid. resolution g = gap_resolution.VERIFY_CONDITION cid \<and> hasCondition cid d"])
     (auto split: gap_resolution.splits)

lemma conditionIssues_Nil_iff:
  "conditionIssues b i c = [] \<longleftrightarrow>
     conditionCandidateId c \<in> candidate.candidateId ` set (candidates b)
     \<and> selectedCandidateId (bundle_draft.decision b) = Some (conditionCandidateId c)
     \<and> \<not> exceedsHardBudget (bundle_draft.requirementRevision b) c
     \<and> asksCondition (conditionId c) (bundle_draft.decision b)"
  by (auto simp: conditionIssues_def Let_def)

text \<open>
  C2: a successful result that the invariants accept with BUY_IF_PRICE selects a listed candidate
  under a confirmed budget; it attaches at least one condition, every condition is about that
  candidate, is followed by a step that verifies it and, when it caps the price under a hard budget,
  caps it within that budget; and every open gap is closed by one of those conditions.
\<close>

theorem accepted_buy_if_price:
  assumes "checkDecisionTaskResultInvariants (Succeeded s evs b) = []"
    and "decision_revision.status (bundle_draft.decision b) = BUY_IF_PRICE"
  shows "\<exists>c \<in> set (candidates b). \<exists>bud.
      selectedCandidateId (bundle_draft.decision b) = Some (candidate.candidateId c)
    \<and> budget (bundle_draft.requirementRevision b) = Some bud \<and> confirmed bud
    \<and> conditions (bundle_draft.decision b) \<noteq> []
    \<and> (\<forall>x \<in> set (conditions (bundle_draft.decision b)).
         conditionCandidateId x = candidate.candidateId c
         \<and> asksCondition (conditionId x) (bundle_draft.decision b)
         \<and> (\<forall>i k n v. x = MAX_PRICE i k n v \<and> hard bud \<longrightarrow> n \<le> maxAmountMinor bud))
    \<and> (\<forall>g \<in> set (criticalGaps (bundle_draft.decision b)). \<exists>x \<in> set (conditions (bundle_draft.decision b)).
         resolution g = gap_resolution.VERIFY_CONDITION (conditionId x))"
proof -
  let ?d = "bundle_draft.decision b"
  note acc = checkSucceeded_NilD [OF assms(1)]
  note dec = decisionIssues_NilD [OF acc(5)]
  have cond: "\<forall>x \<in> set (conditions ?d).
      conditionCandidateId x \<in> candidate.candidateId ` set (candidates b)
      \<and> selectedCandidateId ?d = Some (conditionCandidateId x)
      \<and> \<not> exceedsHardBudget (bundle_draft.requirementRevision b) x \<and> asksCondition (conditionId x) ?d"
    using dec(3) unfolding conditionIssues_Nil_iff by (simp add: all_set_conv_all_nth)
  have gaps: "buyIfPriceGapIssues ?d = []" and nonempty: "conditions ?d \<noteq> []"
    using dec(4) assms(2) by blast+
  from nonempty obtain x where "x \<in> set (conditions ?d)" by (cases "conditions ?d") auto
  with cond obtain c where c: "c \<in> set (candidates b)" "selectedCandidateId ?d = Some (candidate.candidateId c)"
    by fastforce
  have "\<not> budgetNeedsConfirmation (bundle_draft.requirementRevision b)"
    using dec(1) assms(2) by (auto simp: unconfirmedBudgetIssues_def split: if_splits)
  then obtain bud where bud: "budget (bundle_draft.requirementRevision b) = Some bud" "confirmed bud"
    by (auto simp: budgetNeedsConfirmation_def split: option.splits)
  have "n \<le> maxAmountMinor bud" if "MAX_PRICE i k n v \<in> set (conditions ?d)" and "hard bud" for i k n v
    using cond that bud by (auto simp: exceedsHardBudget_def confirmedHardBudget_def)
  moreover have "\<exists>x \<in> set (conditions ?d). resolution g = gap_resolution.VERIFY_CONDITION (conditionId x)"
    if "g \<in> set (criticalGaps ?d)" for g
    using gaps that by (auto simp: buyIfPriceGapIssues_Nil_iff hasCondition_def list_ex_iff)
  ultimately show ?thesis using c bud nonempty cond by (intro bexI [of _ c] exI [of _ bud]) auto
qed

text \<open>
  In a successful result that the invariants accept, the verification steps offered to the user
  match the conditions and the risks of the decision one to one by id: none is missing and none
  points to something the decision does not name.
\<close>

theorem accepted_steps_match:
  assumes "checkDecisionTaskResultInvariants (Succeeded s evs b) = []"
  shows "{i. \<exists>t. next_step.VERIFY_CONDITION i t \<in> set (nextSteps (bundle_draft.decision b))}
      = conditionId ` set (conditions (bundle_draft.decision b))
    \<and> {i. \<exists>t. VERIFY_RISK i t \<in> set (nextSteps (bundle_draft.decision b))}
      = riskId ` set (risks (bundle_draft.decision b))"
proof -
  let ?d = "bundle_draft.decision b"
  note dec = decisionIssues_NilD [OF checkSucceeded_NilD(5) [OF assms]]
  have steps: "\<forall>x \<in> set (nextSteps ?d). \<exists>i. nextStepIssues ?d i x = []"
    using dec(5) by (metis in_set_conv_nth)
  have cond: "\<forall>x \<in> set (conditions ?d). asksCondition (conditionId x) ?d"
    using dec(3) unfolding conditionIssues_Nil_iff by (metis in_set_conv_nth)
  have "hasCondition i ?d" if "next_step.VERIFY_CONDITION i t \<in> set (nextSteps ?d)" for i t
    using bspec [OF steps that] by (auto simp: nextStepIssues_def split: if_splits)
  moreover have "list_ex (\<lambda>x. riskId x = i) (risks ?d)" if "VERIFY_RISK i t \<in> set (nextSteps ?d)" for i t
    using bspec [OF steps that] by (auto simp: nextStepIssues_def split: if_splits)
  moreover have "\<exists>t. next_step.VERIFY_CONDITION (conditionId x) t \<in> set (nextSteps ?d)"
    if "x \<in> set (conditions ?d)" for x
    using bspec [OF cond that] by (simp add: asks_iff)
  moreover have "\<exists>t. VERIFY_RISK (riskId x) t \<in> set (nextSteps ?d)" if "x \<in> set (risks ?d)" for x
    using bspec [OF dec(6) that] by (simp add: asks_iff)
  ultimately show ?thesis by (force simp: hasCondition_def list_ex_iff)
qed

end
