(* ===== verification/CM_Decoders.thy ===== *)
theory CM_Decoders
  imports CM_Schemas CM_Result_Facts
begin

text \<open>
  The entry points of the decision contract (index.ts and errors.ts): decoding an unknown value into
  a contract type, finalising a successful result, the recovery permission, the HTTP status and the
  constructors of rejected results. A zod schema is modelled by what the repository says of it (the
  refinement predicate of \<open>CM_Schemas\<close>) behind a \<open>zod_shape\<close>: the typing of an untyped value and
  the issue paths zod reports, which are zod's and stay parameters.
\<close>

section \<open>Schemas as parsers\<close>

record 'a zod_shape =
  typedValue :: "json \<Rightarrow> path list + 'a"
  refinementPaths :: "'a \<Rightarrow> path list"

definition schemaSafeParse :: "'a zod_shape \<Rightarrow> ('a \<Rightarrow> bool) \<Rightarrow> json \<Rightarrow> path list + 'a" where
  "schemaSafeParse sh schema input =
     (case typedValue sh input of
        Inl ps \<Rightarrow> Inl ps
      | Inr v \<Rightarrow> if schema v then Inr v else Inl (refinementPaths sh v))"

lemma schemaSafeParse_Inr_iff:
  "schemaSafeParse sh schema input = Inr v \<longleftrightarrow> typedValue sh input = Inr v \<and> schema v"
  by (auto simp: schemaSafeParse_def split: sum.splits)

section \<open>Decode results\<close>

type_synonym 'a decoded = "(error_code \<times> contract_issue list) + 'a"

definition unsupportedVersionResult :: "path \<Rightarrow> 'a decoded" where
  "unsupportedVersionResult p =
     Inl (CONTRACT_VERSION_UNSUPPORTED, [Issue p ''Only contract version 1.0 is supported''])"

definition FIELD_INVALID :: string where
  "FIELD_INVALID = ''Field does not satisfy the contract''"

definition invalidContractResult :: "path list \<Rightarrow> 'a decoded" where
  "invalidContractResult ps = Inl (CONTRACT_INVALID, map (\<lambda>p. Issue p FIELD_INVALID) ps)"

definition decodeRuntimeControlContract :: "(json \<Rightarrow> path list + 'a) \<Rightarrow> json \<Rightarrow> 'a decoded" where
  "decodeRuntimeControlContract safeParse input =
     (case findUnsupportedVersion input of
        Some p \<Rightarrow> unsupportedVersionResult p
      | None \<Rightarrow> (case safeParse input of
            Inr v \<Rightarrow> Inr v
          | Inl ps \<Rightarrow> invalidContractResult ps))"

text \<open>Then a check on the typed value.\<close>

definition checked :: "('a \<Rightarrow> contract_issue list) \<Rightarrow> 'a decoded \<Rightarrow> 'a decoded" where
  "checked check r =
     (case r of Inl e \<Rightarrow> Inl e
      | Inr v \<Rightarrow> if check v = [] then Inr v else Inl (CONTRACT_INVALID, check v))"

lemma decodeRuntimeControlContract_Inr_iff:
  "decodeRuntimeControlContract p input = Inr v \<longleftrightarrow>
     findUnsupportedVersion input = None \<and> p input = Inr v"
  by (auto simp: decodeRuntimeControlContract_def unsupportedVersionResult_def
      invalidContractResult_def split: option.splits sum.splits)

lemma checked_Inr_iff: "checked check r = Inr v \<longleftrightarrow> r = Inr v \<and> check v = []"
  by (auto simp: checked_def split: sum.splits)

section \<open>Commands and snapshots\<close>

text \<open>The regular expression \<open>^requirementRevision\.mustHaves\.\d+\.key$\<close> on the joined path.\<close>

definition isMustHaveKeyPath :: "path \<Rightarrow> bool" where
  "isMustHaveKeyPath p =
     (case p of [K a, K b, I n, K c] \<Rightarrow>
        a = ''requirementRevision'' \<and> b = ''mustHaves'' \<and> c = ''key'' | _ \<Rightarrow> False)"

definition commandIssueMessage :: "path \<Rightarrow> string" where
  "commandIssueMessage p =
     (if p = [K ''requirementRevision'', K ''budget'', K ''maxAmountMinor'']
      then ''The amount must be a non-negative integer of fen''
      else if isMustHaveKeyPath p then ''must-have keys must be unique in the Requirement Revision''
      else FIELD_INVALID)"

definition decodeExecuteDecisionTaskCommandV1 ::
    "execute_command zod_shape \<Rightarrow> json \<Rightarrow> execute_command decoded" where
  "decodeExecuteDecisionTaskCommandV1 sh input =
     (case findUnsupportedVersion input of
        Some p \<Rightarrow> unsupportedVersionResult p
      | None \<Rightarrow> (case schemaSafeParse sh executeDecisionTaskCommandSchema input of
            Inr v \<Rightarrow> Inr v
          | Inl ps \<Rightarrow> Inl (CONTRACT_INVALID, map (\<lambda>p. Issue p (commandIssueMessage p)) ps)))"

definition decodeDecisionTaskSnapshotV1 ::
    "zod_formats \<Rightarrow> task_snapshot zod_shape \<Rightarrow> json \<Rightarrow> task_snapshot decoded" where
  "decodeDecisionTaskSnapshotV1 z sh =
     decodeRuntimeControlContract (schemaSafeParse sh (decisionTaskSnapshotSchema z))"

definition decodePersistedRunEventV1 ::
    "zod_formats \<Rightarrow> persisted_run_event zod_shape \<Rightarrow> json \<Rightarrow> persisted_run_event decoded" where
  "decodePersistedRunEventV1 z sh =
     decodeRuntimeControlContract (schemaSafeParse sh (persistedRunEventSchema z))"

section \<open>Results\<close>

definition decodeDecisionTaskResultV1 ::
    "zod_formats \<Rightarrow> decision_task_result zod_shape \<Rightarrow> json \<Rightarrow> decision_task_result decoded" where
  "decodeDecisionTaskResultV1 z sh input =
     checked checkDecisionTaskResultInvariants
       (decodeRuntimeControlContract (schemaSafeParse sh (decisionTaskResultSchema z)) input)"

record result_draft =
  draftStatus :: completed_status
  draftEvents :: "run_event list"
  draftBundle :: bundle_draft

text \<open>\<open>{ ...draft.bundle, claimAssessments }\<close>\<close>

definition withAssessments :: "bundle_draft \<Rightarrow> claim_assessment list \<Rightarrow> decision_bundle" where
  "withAssessments b as = bundle_draft.extend b (decision_bundle.fields as)"

text \<open>What \<open>finalizeSuccessfulDecisionTaskResultV1\<close> does with a parsed draft.\<close>

definition finalizeDraft :: "result_draft \<Rightarrow> decision_task_result decoded" where
  "finalizeDraft draft =
     (let ev = evaluateDecisionBasisV1 (completed_status.decisionTaskId (draftStatus draft)) (draftBundle draft) in
      if snd ev \<noteq> [] then Inl (CONTRACT_INVALID, snd ev)
      else (let v = Succeeded (draftStatus draft) (draftEvents draft)
                      (withAssessments (draftBundle draft) (fst ev));
                is = checkDecisionTaskResultInvariants v
            in if is \<noteq> [] then Inl (CONTRACT_INVALID, is) else Inr v))"

definition finalizeSuccessfulDecisionTaskResultV1 ::
    "zod_formats \<Rightarrow> result_draft zod_shape \<Rightarrow> json \<Rightarrow> decision_task_result decoded" where
  "finalizeSuccessfulDecisionTaskResultV1 z sh input =
     (case decodeRuntimeControlContract
         (schemaSafeParse sh (\<lambda>d. successfulDecisionTaskResultDraftSchema z
            (draftStatus d) (draftEvents d) (draftBundle d))) input of
        Inl e \<Rightarrow> Inl e
      | Inr draft \<Rightarrow> finalizeDraft draft)"

definition getDecisionTaskResultHttpStatusV1 :: "decision_task_result \<Rightarrow> nat" where
  "getDecisionTaskResultHttpStatusV1 r =
     (case r of
        Succeeded _ _ _ \<Rightarrow> 200
      | Failed _ _ _ \<Rightarrow> 502
      | Rejected e \<Rightarrow>
          if choice_mind_error.code e = CONTRACT_VERSION_UNSUPPORTED then 422
          else if choice_mind_error.code e = DECISION_EXECUTION_STATUS_UNKNOWN then 503
          else 400)"

section \<open>Runtime recovery\<close>

definition checkpointIssues :: "runtime_snapshot \<Rightarrow> contract_issue list" where
  "checkpointIssues s =
     report (checkpoint_ref.decisionTaskId (checkpoint s) \<noteq> runtime_snapshot.decisionTaskId s
             \<or> checkpoint_ref.agentRunId (checkpoint s) \<noteq> runtime_snapshot.agentRunId s)
       (Issue [K ''checkpoint''] ''Checkpoint must belong to the same Agent Run'')"

definition decodeRuntimeSnapshotV1 ::
    "zod_formats \<Rightarrow> runtime_snapshot zod_shape \<Rightarrow> json \<Rightarrow> runtime_snapshot decoded" where
  "decodeRuntimeSnapshotV1 z sh input =
     (case findUnsupportedVersion input of
        Some p \<Rightarrow> unsupportedVersionResult p
      | None \<Rightarrow>
          if isRecord input \<and> isRecord (jget input ''runtimeProtocol'')
             \<and> jget (jget input ''runtimeProtocol'') ''version'' \<noteq> JStr ''1''
          then Inl (CONTRACT_VERSION_UNSUPPORTED,
                 [Issue [K ''runtimeProtocol'', K ''version''] ''Runtime Protocol version is not supported''])
          else (case schemaSafeParse sh (runtimeSnapshotSchema z) input of
                  Inl ps \<Rightarrow> invalidContractResult ps
                | Inr v \<Rightarrow> checked checkpointIssues (Inr v)))"

definition decodeCheckpointRefV1 ::
    "zod_formats \<Rightarrow> checkpoint_ref zod_shape \<Rightarrow> json \<Rightarrow> checkpoint_ref decoded" where
  "decodeCheckpointRefV1 z sh =
     decodeRuntimeControlContract (schemaSafeParse sh (checkpointRefSchema z))"

definition decodeEffectReceiptV1 ::
    "zod_formats \<Rightarrow> effect_receipt zod_shape \<Rightarrow> json \<Rightarrow> effect_receipt decoded" where
  "decodeEffectReceiptV1 z sh =
     decodeRuntimeControlContract (schemaSafeParse sh (effectReceiptSchema z))"

definition decodeRuntimeRecoveryPermissionV1 ::
    "recovery_permission zod_shape \<Rightarrow> json \<Rightarrow> recovery_permission decoded" where
  "decodeRuntimeRecoveryPermissionV1 sh =
     decodeRuntimeControlContract (schemaSafeParse sh runtimeRecoveryPermissionSchema)"

definition isOk :: "'e + 'a \<Rightarrow> bool" where
  "isOk r = (case r of Inl _ \<Rightarrow> False | Inr _ \<Rightarrow> True)"

definition receiptBelongs :: "runtime_snapshot \<Rightarrow> effect_receipt \<Rightarrow> bool" where
  "receiptBelongs s r \<longleftrightarrow>
     effect_receipt.decisionTaskId r = runtime_snapshot.decisionTaskId s
     \<and> effect_receipt.agentRunId r = runtime_snapshot.agentRunId s
     \<and> effect_receipt.checkpointId r = checkpoint_ref.checkpointId (checkpoint s)"

text \<open>
  The decoder of a paused outcome feeds its typed snapshot and receipts to their decoders again,
  which take unknown values: \<open>snapshotJson\<close> and \<open>receiptJson\<close> are those values as JSON.
\<close>

record paused_codec =
  pausedShape :: "paused_outcome zod_shape"
  snapshotShape :: "runtime_snapshot zod_shape"
  receiptShape :: "effect_receipt zod_shape"
  snapshotJson :: "runtime_snapshot \<Rightarrow> json"
  receiptJson :: "effect_receipt \<Rightarrow> json"

definition pausedFactsIssues :: "paused_outcome \<Rightarrow> contract_issue list" where
  "pausedFactsIssues v =
     (let s = paused_outcome.snapshot v;
          allFactsBelongToRun = (case paused_outcome.runEvents v of [] \<Rightarrow> False
            | firstEvent # _ \<Rightarrow>
                runtime_snapshot.decisionTaskId s = run_event.decisionTaskId firstEvent
                \<and> runtime_snapshot.agentRunId s = run_event.agentRunId firstEvent
                \<and> list_all (receiptBelongs s) (paused_outcome.effectReceipts v))
      in report (decision_task_state.PAUSED (paused_outcome.state v) \<noteq> runtime_snapshot.taskState s
            \<or> map_option run_event.taskState (lastOpt (paused_outcome.runEvents v))
                \<noteq> Some (decision_task_state.PAUSED (paused_outcome.state v))
            \<or> \<not> allFactsBelongToRun)
          (Issue [] ''The recovery facts of a paused Outcome must belong to the same paused run''))"

definition decodeRuntimePausedOutcomeV1 ::
    "zod_formats \<Rightarrow> paused_codec \<Rightarrow> json \<Rightarrow> paused_outcome decoded" where
  "decodeRuntimePausedOutcomeV1 z cd input =
     (case decodeRuntimeControlContract
         (schemaSafeParse (pausedShape cd) (runtimePausedOutcomeSchema z)) input of
        Inl e \<Rightarrow> Inl e
      | Inr v \<Rightarrow>
          let ds = decodeRuntimeSnapshotV1 z (snapshotShape cd) (snapshotJson cd (paused_outcome.snapshot v));
              drs = map (\<lambda>r. decodeEffectReceiptV1 z (receiptShape cd) (receiptJson cd r))
                      (paused_outcome.effectReceipts v)
          in (case ds of
                Inl (c, is) \<Rightarrow>
                  Inl (if c = CONTRACT_VERSION_UNSUPPORTED then CONTRACT_VERSION_UNSUPPORTED else CONTRACT_INVALID,
                       map (\<lambda>i. Issue (K ''snapshot'' # issuePath i) (issueMessage i)) is)
              | Inr _ \<Rightarrow>
                  if list_ex (\<lambda>r. \<not> isOk r) drs
                  then Inl (CONTRACT_INVALID, [Issue [K ''effectReceipts''] ''Effect Receipt does not satisfy the contract''])
                  else checked pausedFactsIssues (Inr v)))"

definition decodeRuntimeResumeRequestV1 ::
    "resume_request zod_shape \<Rightarrow> json \<Rightarrow> resume_request decoded" where
  "decodeRuntimeResumeRequestV1 sh =
     decodeRuntimeControlContract (schemaSafeParse sh runtimeResumeRequestSchema)"

definition decodeRuntimeCancelRequestV1 ::
    "cancel_request zod_shape \<Rightarrow> json \<Rightarrow> cancel_request decoded" where
  "decodeRuntimeCancelRequestV1 sh =
     decodeRuntimeControlContract (schemaSafeParse sh runtimeCancelRequestSchema)"

definition decodeRuntimeControlStatusV1 ::
    "zod_formats \<Rightarrow> control_status zod_shape \<Rightarrow> json \<Rightarrow> control_status decoded" where
  "decodeRuntimeControlStatusV1 z sh input =
     checked (\<lambda>v. report
         ((control_status.state v = control_request_state.FAILED) \<noteq> (control_status.error v \<noteq> None))
         (Issue [K ''error''] ''FAILED must carry a control error, and only FAILED''))
       (decodeRuntimeControlContract (schemaSafeParse sh (runtimeControlStatusSchema z)) input)"

subsection \<open>The recovery permission\<close>

definition textOr :: "json \<Rightarrow> ident" where
  "textOr v = (case v of JStr s \<Rightarrow> s | _ \<Rightarrow> ''unknown'')"

definition recoveryIdentityFromUnknown :: "json \<Rightarrow> ident \<times> ident \<times> ident" where
  "recoveryIdentityFromUnknown input =
     (if \<not> isRecord input then (''unknown'', ''unknown'', ''unknown'')
      else (textOr (jget input ''decisionTaskId''), textOr (jget input ''agentRunId''),
            textOr (jget input ''snapshotId'')))"

definition identityOf :: "runtime_snapshot \<Rightarrow> ident \<times> ident \<times> ident" where
  "identityOf s = (runtime_snapshot.decisionTaskId s, runtime_snapshot.agentRunId s,
     runtime_snapshot.snapshotId s)"

definition buildRuntimeRecoveryPermission ::
    "ident \<times> ident \<times> ident \<Rightarrow> recovery_decision \<Rightarrow> recovery_reason \<Rightarrow> recovery_permission" where
  "buildRuntimeRecoveryPermission idn dec why =
     (case idn of (tid, rid, sid) \<Rightarrow>
        \<lparr>recovery_permission.decisionTaskId = tid, agentRunId = rid, snapshotId = sid,
         decision = dec, permissionReason = why\<rparr>)"

definition isPausedState :: "decision_task_state \<Rightarrow> bool" where
  "isPausedState s = (case s of decision_task_state.PAUSED _ \<Rightarrow> True | _ \<Rightarrow> False)"

definition evaluateRuntimeRecoveryPermissionV1 ::
    "zod_formats \<Rightarrow> runtime_snapshot zod_shape \<Rightarrow> effect_receipt zod_shape \<Rightarrow> json \<Rightarrow> json list
     \<Rightarrow> recovery_permission" where
  "evaluateRuntimeRecoveryPermissionV1 z ssh rsh snap receipts =
     (let ds = decodeRuntimeSnapshotV1 z ssh snap;
          drs = map (decodeEffectReceiptV1 z rsh) receipts
      in case ds of
           Inl _ \<Rightarrow> buildRuntimeRecoveryPermission (recoveryIdentityFromUnknown snap)
                      RESUME_DENIED RECOVERY_FACTS_INVALID
         | Inr s \<Rightarrow>
             if list_ex (\<lambda>r. \<not> isOk r) drs
                \<or> list_ex (\<lambda>r. case r of Inl _ \<Rightarrow> False | Inr v \<Rightarrow> \<not> receiptBelongs s v) drs
             then buildRuntimeRecoveryPermission (identityOf s) RESUME_DENIED RECOVERY_FACTS_INVALID
             else if \<not> isPausedState (runtime_snapshot.taskState s)
             then buildRuntimeRecoveryPermission (identityOf s) RESUME_DENIED TASK_NOT_PAUSED
             else if \<not> resumable s
             then buildRuntimeRecoveryPermission (identityOf s) RESUME_DENIED SNAPSHOT_NOT_RESUMABLE
             else if list_ex (\<lambda>r. case r of Inl _ \<Rightarrow> False
                   | Inr v \<Rightarrow> effect_receipt.state v = started \<or> effect_receipt.state v = unknown) drs
             then buildRuntimeRecoveryPermission (identityOf s) MANUAL_VERIFICATION_REQUIRED EFFECT_STATUS_UNSAFE
             else buildRuntimeRecoveryPermission (identityOf s) RESUME_ALLOWED SAFE_TO_RESUME)"

section \<open>Rejected results\<close>

definition createContractRejectedDecisionTaskResultV1 ::
    "ident \<Rightarrow> error_code \<Rightarrow> contract_issue list \<Rightarrow> string \<Rightarrow> decision_task_result" where
  "createContractRejectedDecisionTaskResultV1 eid c is at_time =
     (let versionError = (c = CONTRACT_VERSION_UNSUPPORTED) in
      Rejected \<lparr>choice_mind_error.errorId = eid, code = c,
        category = (if versionError then VERSION else VALIDATION),
        message = (if versionError then ''Contract version is not supported''
                   else ''The request does not satisfy the contract''),
        retryMode = NO_RETRY, issues = is, occurredAt = at_time\<rparr>)"

definition createUnknownDecisionExecutionResultV1 :: "ident \<Rightarrow> string \<Rightarrow> decision_task_result" where
  "createUnknownDecisionExecutionResultV1 eid at_time =
     Rejected \<lparr>choice_mind_error.errorId = eid, code = DECISION_EXECUTION_STATUS_UNKNOWN,
       category = TRANSPORT, message = ''The status of this execution cannot be confirmed for now'',
       retryMode = SAME_EXECUTION_ONLY, issues = [], occurredAt = at_time\<rparr>"

definition createDecisionTaskNotFoundResultV1 :: "ident \<Rightarrow> string \<Rightarrow> decision_task_result" where
  "createDecisionTaskNotFoundResultV1 eid at_time =
     Rejected \<lparr>choice_mind_error.errorId = eid, code = DECISION_TASK_NOT_FOUND,
       category = RESOURCE, message = ''The decision task does not exist'',
       retryMode = NO_RETRY, issues = [], occurredAt = at_time\<rparr>"

definition createIdempotencyConflictResultV1 :: "ident \<Rightarrow> string \<Rightarrow> decision_task_result" where
  "createIdempotencyConflictResultV1 eid at_time =
     Rejected \<lparr>choice_mind_error.errorId = eid, code = IDEMPOTENCY_CONFLICT,
       category = VALIDATION, message = ''The execution id does not match the original command'',
       retryMode = NO_RETRY,
       issues = [Issue [K ''executionRequestId''] ''One execution id cannot be bound to different commands''],
       occurredAt = at_time\<rparr>"

definition createPersistenceUnavailableResultV1 :: "ident \<Rightarrow> string \<Rightarrow> decision_task_result" where
  "createPersistenceUnavailableResultV1 eid at_time =
     Rejected \<lparr>choice_mind_error.errorId = eid, code = PERSISTENCE_UNAVAILABLE,
       category = STORAGE, message = ''The store of persistent tasks is not available for now'',
       retryMode = SAME_EXECUTION_ONLY, issues = [], occurredAt = at_time\<rparr>"

end
