(* ===== verification/CM_Decoder_Facts.thy ===== *)
theory CM_Decoder_Facts
  imports CM_Decoders
begin

text \<open>
  What the entry points of the contract guarantee. The contract of a decoder (a value comes out only
  if the version scan passed and the value is acceptable) is the locale \<open>contract_decoder\<close>, which
  every decoder of the package interprets with its own notion of acceptability.
\<close>

section \<open>The contract of a decoder\<close>

locale contract_decoder =
  fixes decode :: "json \<Rightarrow> 'a decoded"
    and typed :: "json \<Rightarrow> path list + 'a"
    and acceptable :: "'a \<Rightarrow> bool"
  assumes decode_Inr_iff:
    "decode input = Inr v \<longleftrightarrow> findUnsupportedVersion input = None \<and> typed input = Inr v \<and> acceptable v"
    and decode_version: "findUnsupportedVersion input = Some p \<Longrightarrow> decode input = unsupportedVersionResult p"
begin

lemma decoded_acceptable: "decode input = Inr v \<Longrightarrow> acceptable v"
  by (simp add: decode_Inr_iff)

lemma decoded_versions:
  "decode input = Inr v \<Longrightarrow> visible MAX_CONTRACT_VERSION_SCAN_DEPTH input u \<Longrightarrow> \<not> badVersion u"
  by (auto simp: decode_Inr_iff findUnsupportedVersion_None_iff)

lemma decode_injective: "decode input = Inr v \<Longrightarrow> decode input = Inr w \<Longrightarrow> v = w"
  by simp

end

lemma control_contract_version:
  "findUnsupportedVersion input = Some p \<Longrightarrow>
   decodeRuntimeControlContract safeParse input = unsupportedVersionResult p"
  by (simp add: decodeRuntimeControlContract_def)

lemma control_contract_decoder:
  "contract_decoder (decodeRuntimeControlContract (schemaSafeParse sh schema)) (typedValue sh) schema"
  by unfold_locales
    (simp_all add: decodeRuntimeControlContract_Inr_iff schemaSafeParse_Inr_iff control_contract_version)

lemma checked_Inl [simp]: "checked check (Inl e) = Inl e"
  by (simp add: checked_def)

lemma checked_contract_decoder:
  "contract_decoder (\<lambda>input. checked check (decodeRuntimeControlContract (schemaSafeParse sh schema) input))
     (typedValue sh) (\<lambda>v. schema v \<and> check v = [])"
  by unfold_locales
    (auto simp: checked_Inr_iff decodeRuntimeControlContract_Inr_iff schemaSafeParse_Inr_iff
       control_contract_version unsupportedVersionResult_def)

interpretation command_dec: contract_decoder "decodeExecuteDecisionTaskCommandV1 sh" "typedValue sh"
    executeDecisionTaskCommandSchema for sh
  by unfold_locales
    (auto simp: decodeExecuteDecisionTaskCommandV1_def unsupportedVersionResult_def
       schemaSafeParse_def split: option.splits sum.splits)

interpretation snapshot_dec: contract_decoder "decodeDecisionTaskSnapshotV1 z sh" "typedValue sh"
    "decisionTaskSnapshotSchema z" for z sh
  unfolding decodeDecisionTaskSnapshotV1_def by (rule control_contract_decoder)

interpretation event_dec: contract_decoder "decodePersistedRunEventV1 z sh" "typedValue sh"
    "persistedRunEventSchema z" for z sh
  unfolding decodePersistedRunEventV1_def by (rule control_contract_decoder)

interpretation result_dec: contract_decoder "decodeDecisionTaskResultV1 z sh" "typedValue sh"
    "\<lambda>r. decisionTaskResultSchema z r \<and> checkDecisionTaskResultInvariants r = []" for z sh
  using checked_contract_decoder [of checkDecisionTaskResultInvariants sh "decisionTaskResultSchema z"]
  by (simp add: decodeDecisionTaskResultV1_def contract_decoder_def)

interpretation runtime_snapshot_dec: contract_decoder "decodeRuntimeSnapshotV1 z sh"
    "\<lambda>input. if isRecord input \<and> isRecord (jget input ''runtimeProtocol'')
               \<and> jget (jget input ''runtimeProtocol'') ''version'' \<noteq> JStr ''1''
             then Inl [] else typedValue sh input"
    "\<lambda>s. runtimeSnapshotSchema z s \<and> checkpointIssues s = []" for z sh
  by unfold_locales
    (auto simp: decodeRuntimeSnapshotV1_def unsupportedVersionResult_def invalidContractResult_def
       checked_def schemaSafeParse_def split: option.splits sum.splits)

interpretation checkpoint_dec: contract_decoder "decodeCheckpointRefV1 z sh" "typedValue sh"
    "checkpointRefSchema z" for z sh
  unfolding decodeCheckpointRefV1_def by (rule control_contract_decoder)

interpretation receipt_dec: contract_decoder "decodeEffectReceiptV1 z sh" "typedValue sh"
    "effectReceiptSchema z" for z sh
  unfolding decodeEffectReceiptV1_def by (rule control_contract_decoder)

interpretation permission_dec: contract_decoder "decodeRuntimeRecoveryPermissionV1 sh" "typedValue sh"
    runtimeRecoveryPermissionSchema for sh
  unfolding decodeRuntimeRecoveryPermissionV1_def by (rule control_contract_decoder)

interpretation resume_dec: contract_decoder "decodeRuntimeResumeRequestV1 sh" "typedValue sh"
    runtimeResumeRequestSchema for sh
  unfolding decodeRuntimeResumeRequestV1_def by (rule control_contract_decoder)

interpretation cancel_dec: contract_decoder "decodeRuntimeCancelRequestV1 sh" "typedValue sh"
    runtimeCancelRequestSchema for sh
  unfolding decodeRuntimeCancelRequestV1_def by (rule control_contract_decoder)

interpretation control_status_dec: contract_decoder "decodeRuntimeControlStatusV1 z sh" "typedValue sh"
    "\<lambda>v. runtimeControlStatusSchema z v
       \<and> (control_status.state v = control_request_state.FAILED \<longleftrightarrow> control_status.error v \<noteq> None)" for z sh
  using checked_contract_decoder [of "\<lambda>v. report
         ((control_status.state v = control_request_state.FAILED) \<noteq> (control_status.error v \<noteq> None))
         (Issue [K ''error''] ''FAILED must carry a control error, and only FAILED'')" sh
       "runtimeControlStatusSchema z"]
  by (simp add: decodeRuntimeControlStatusV1_def contract_decoder_def)

section \<open>Results\<close>

text \<open>
  Decoding a decision task result yields a value exactly when no visible record declares another
  contract version, the value is typed as a result, its schema holds and the invariants report
  nothing; whatever else is wrong is an error with the issues found.
\<close>

theorem decodeDecisionTaskResultV1_Inr_iff:
  "decodeDecisionTaskResultV1 z sh input = Inr r \<longleftrightarrow>
     (\<forall>u. visible MAX_CONTRACT_VERSION_SCAN_DEPTH input u \<longrightarrow> \<not> badVersion u)
     \<and> typedValue sh input = Inr r \<and> decisionTaskResultSchema z r
     \<and> checkDecisionTaskResultInvariants r = []"
  unfolding result_dec.decode_Inr_iff findUnsupportedVersion_None_iff by blast

lemma withAssessments_simps [simp]:
  "bundle_draft.truncate (withAssessments b as) = b"
  "claimAssessments (withAssessments b as) = as"
  by (simp_all add: withAssessments_def bundle_draft.defs decision_bundle.defs)

lemma withAssessments_truncate [simp]:
  "withAssessments (bundle_draft.truncate b) (claimAssessments b) = b"
  by (simp add: withAssessments_def bundle_draft.defs decision_bundle.defs)

lemma referenceIssues_truncate [simp]:
  "referenceIssues tid (bundle_draft.truncate b) = referenceIssues tid b"
  by (simp add: referenceIssues_def bundle_draft.defs)

lemma deriveAssessments_truncate [simp]:
  "deriveAssessments (bundle_draft.truncate b) = deriveAssessments b"
  by (simp add: deriveAssessments_def bundle_draft.defs)

lemma evaluateDecisionBasisV1_truncate [simp]:
  "evaluateDecisionBasisV1 tid (bundle_draft.truncate b) = evaluateDecisionBasisV1 tid b"
  by (simp add: evaluateDecisionBasisV1_def evaluateDecisionBasisWithGraph_def Let_def)

lemma evaluateDecisionBasisV1_issues: "snd (evaluateDecisionBasisV1 tid b) = referenceIssues tid b"
  by (simp add: evaluateDecisionBasisV1_def evaluateDecisionBasisWithGraph_def Let_def)

text \<open>
  Finalising a draft succeeds exactly for the drafts of acceptable results, and what it returns is
  the one acceptable result with that draft: its claim assessments are determined by the draft, so
  finalising loses nothing and cannot be talked into other assessments.
\<close>

theorem finalizeDraft_Inr_iff:
  "finalizeDraft \<lparr>draftStatus = s, draftEvents = evs, draftBundle = b\<rparr> = Inr r \<longleftrightarrow>
     (\<exists>full. r = Succeeded s evs full \<and> bundle_draft.truncate full = b
        \<and> checkDecisionTaskResultInvariants r = [])"
proof
  assume "finalizeDraft \<lparr>draftStatus = s, draftEvents = evs, draftBundle = b\<rparr> = Inr r"
  then show "\<exists>full. r = Succeeded s evs full \<and> bundle_draft.truncate full = b
        \<and> checkDecisionTaskResultInvariants r = []"
    unfolding finalizeDraft_def Let_def
    by (intro exI [of _ "withAssessments b (fst (evaluateDecisionBasisV1 (completed_status.decisionTaskId s) b))"])
       (auto split: if_splits)
next
  assume "\<exists>full. r = Succeeded s evs full \<and> bundle_draft.truncate full = b
        \<and> checkDecisionTaskResultInvariants r = []"
  then obtain full where r: "r = Succeeded s evs full" and b: "bundle_draft.truncate full = b"
    and ok: "checkDecisionTaskResultInvariants (Succeeded s evs full) = []" by blast
  let ?tid = "completed_status.decisionTaskId s"
  have basis: "checkDecisionBasisV1 ?tid full = []" using checkSucceeded_NilD(6) [OF ok] .
  then have "claimAssessments full = fst (evaluateDecisionBasisV1 ?tid full)"
    using checkDecisionBasisV1_NilD(1,6) [OF basis] referenceIssues_Nil_iff [of ?tid full]
      validateCanonicalAssessments_NilD [of "claimAssessments full" "deriveAssessments full"]
    by (simp add: evaluateDecisionBasisV1_def evaluateDecisionBasisWithGraph_def Let_def)
  moreover have "snd (evaluateDecisionBasisV1 ?tid full) = []"
    using checkDecisionBasisV1_NilD(1) [OF basis]
    by (simp add: evaluateDecisionBasisV1_issues referenceIssues_Nil_iff)
  ultimately have "withAssessments b (fst (evaluateDecisionBasisV1 ?tid b)) = full"
      and "snd (evaluateDecisionBasisV1 ?tid b) = []"
    using withAssessments_truncate [of full] by (simp_all flip: b)
  with ok r show "finalizeDraft \<lparr>draftStatus = s, draftEvents = evs, draftBundle = b\<rparr> = Inr r"
    by (simp add: finalizeDraft_def Let_def)
qed

text \<open>
  Every rejected result that the package constructs satisfies the result invariants (for contract
  rejections, with either of the two codes it is called with), so it survives being decoded again; and
  none of them reports a runtime failure.
\<close>

lemma constructed_rejections_valid:
  "(\<forall>r \<in> {createContractRejectedDecisionTaskResultV1 eid CONTRACT_INVALID is t,
          createContractRejectedDecisionTaskResultV1 eid CONTRACT_VERSION_UNSUPPORTED is t,
          createUnknownDecisionExecutionResultV1 eid t,
          createDecisionTaskNotFoundResultV1 eid t,
          createIdempotencyConflictResultV1 eid t,
          createPersistenceUnavailableResultV1 eid t}.
      checkDecisionTaskResultInvariants r = [])"
  by (simp add: createContractRejectedDecisionTaskResultV1_def createUnknownDecisionExecutionResultV1_def
      createDecisionTaskNotFoundResultV1_def createIdempotencyConflictResultV1_def
      createPersistenceUnavailableResultV1_def errorSemanticsIssues_def errorSemanticsByCode_def Let_def)

section \<open>Runtime recovery\<close>

lemma checkpointIssues_Nil_iff:
  "checkpointIssues s = [] \<longleftrightarrow>
     checkpoint_ref.decisionTaskId (checkpoint s) = runtime_snapshot.decisionTaskId s
     \<and> checkpoint_ref.agentRunId (checkpoint s) = runtime_snapshot.agentRunId s"
  by (auto simp: checkpointIssues_def)

lemma not_list_ex_map: "\<not> list_ex P (map f xs) \<longleftrightarrow> (\<forall>x \<in> set xs. \<not> P (f x))"
  by (simp add: list_ex_iff)

text \<open>
  C14: resuming is allowed exactly when the snapshot decodes, is of a paused and resumable run, and
  every receipt decodes, belongs to that task, run and checkpoint, and records an effect that either
  never started or is committed; a paused, resumable run with sound facts but an effect that was
  started or is unknown is sent to manual verification, and everything else is denied.
\<close>

theorem evaluateRuntimeRecoveryPermissionV1_allowed_iff:
  "let p = evaluateRuntimeRecoveryPermissionV1 z ssh rsh snap receipts;
       sound = (\<lambda>s. decodeRuntimeSnapshotV1 z ssh snap = Inr s
         \<and> isPausedState (runtime_snapshot.taskState s) \<and> resumable s
         \<and> (\<forall>j \<in> set receipts. \<exists>v. decodeEffectReceiptV1 z rsh j = Inr v \<and> receiptBelongs s v));
       settled = (\<forall>j \<in> set receipts. \<forall>v. decodeEffectReceiptV1 z rsh j = Inr v \<longrightarrow>
         effect_receipt.state v = not_started \<or> (\<exists>res. effect_receipt.state v = committed res))
   in (recovery_permission.decision p = RESUME_ALLOWED \<longleftrightarrow> (\<exists>s. sound s) \<and> settled)
    \<and> (recovery_permission.decision p = MANUAL_VERIFICATION_REQUIRED \<longleftrightarrow> (\<exists>s. sound s) \<and> \<not> settled)"
proof (cases "decodeRuntimeSnapshotV1 z ssh snap")
  case (Inl e)
  then show ?thesis
    by (simp add: evaluateRuntimeRecoveryPermissionV1_def buildRuntimeRecoveryPermission_def split: prod.splits)
next
  case (Inr s)
  let ?dec = "decodeEffectReceiptV1 z rsh"
  have belongs: "\<not> \<not> isOk r \<and> \<not> (case r of Inl _ \<Rightarrow> False | Inr v \<Rightarrow> \<not> receiptBelongs s v)
      \<longleftrightarrow> (\<exists>v. r = Inr v \<and> receiptBelongs s v)" for r :: "effect_receipt decoded"
    by (cases r) (auto simp: isOk_def)
  have unsafe: "\<not> (case r of Inl _ \<Rightarrow> False | Inr v \<Rightarrow> effect_receipt.state v = started \<or> effect_receipt.state v = unknown)
      \<longleftrightarrow> (\<forall>v. r = Inr v \<longrightarrow> effect_receipt.state v = not_started \<or> (\<exists>res. effect_receipt.state v = committed res))"
    for r :: "effect_receipt decoded"
    by (cases r) (auto, metis receipt_state.exhaust)
  have all_belong: "\<not> (list_ex (\<lambda>r. \<not> isOk r) (map ?dec receipts)
        \<or> list_ex (\<lambda>r. case r of Inl _ \<Rightarrow> False | Inr v \<Rightarrow> \<not> receiptBelongs s v) (map ?dec receipts))
      \<longleftrightarrow> (\<forall>j \<in> set receipts. \<exists>v. ?dec j = Inr v \<and> receiptBelongs s v)"
    unfolding de_Morgan_disj not_list_ex_map ball_conj_distrib [symmetric] belongs ..
  have settled: "\<not> list_ex (\<lambda>r. case r of Inl _ \<Rightarrow> False
          | Inr v \<Rightarrow> effect_receipt.state v = started \<or> effect_receipt.state v = unknown) (map ?dec receipts)
      \<longleftrightarrow> (\<forall>j \<in> set receipts. \<forall>v. ?dec j = Inr v \<longrightarrow>
         effect_receipt.state v = not_started \<or> (\<exists>res. effect_receipt.state v = committed res))"
    unfolding not_list_ex_map unsafe ..
  have built: "recovery_permission.decision (buildRuntimeRecoveryPermission idn d why) = d" for idn d why
    by (cases idn) (simp add: buildRuntimeRecoveryPermission_def)
  have only: "(\<exists>s'. decodeRuntimeSnapshotV1 z ssh snap = Inr s' \<and> P s') \<longleftrightarrow> P s" for P
    by (simp add: Inr)
  define bad where "bad \<longleftrightarrow> list_ex (\<lambda>r. \<not> isOk r) (map ?dec receipts)
        \<or> list_ex (\<lambda>r. case r of Inl _ \<Rightarrow> False | Inr v \<Rightarrow> \<not> receiptBelongs s v) (map ?dec receipts)"
  define unsettled where "unsettled \<longleftrightarrow> list_ex (\<lambda>r. case r of Inl _ \<Rightarrow> False
          | Inr v \<Rightarrow> effect_receipt.state v = started \<or> effect_receipt.state v = unknown) (map ?dec receipts)"
  show ?thesis
    unfolding Let_def evaluateRuntimeRecoveryPermissionV1_def only
    unfolding Inr sum.case bad_def [symmetric] unsettled_def [symmetric]
      all_belong [folded bad_def, symmetric] settled [folded unsettled_def, symmetric]
    by (simp add: built)
qed

text \<open>
  A paused outcome that decodes is one consistent set of recovery facts: the snapshot is in the
  paused state of the outcome, which is also the state of the last event; the first event, the
  snapshot and its checkpoint are of one task and run, and all receipts are of that run and
  checkpoint.
\<close>

theorem decodeRuntimePausedOutcomeV1_consistent:
  assumes "decodeRuntimePausedOutcomeV1 z cd input = Inr v"
  shows "runtime_snapshot.taskState (paused_outcome.snapshot v) = decision_task_state.PAUSED (paused_outcome.state v)
    \<and> (\<exists>first rest. paused_outcome.runEvents v = first # rest
        \<and> run_event.decisionTaskId first = runtime_snapshot.decisionTaskId (paused_outcome.snapshot v)
        \<and> run_event.agentRunId first = runtime_snapshot.agentRunId (paused_outcome.snapshot v)
        \<and> run_event.taskState (last (first # rest)) = decision_task_state.PAUSED (paused_outcome.state v))
    \<and> list_all (receiptBelongs (paused_outcome.snapshot v)) (paused_outcome.effectReceipts v)"
proof -
  have "pausedFactsIssues v = []"
    using assms
    by (auto simp: decodeRuntimePausedOutcomeV1_def Let_def checked_Inr_iff split: sum.splits if_splits)
  then show ?thesis
    by (auto simp: pausedFactsIssues_def Let_def lastOpt_def split: if_splits list.splits)
qed

end
