(* ===== verification/CM_Fixture.thy ===== *)
theory CM_Fixture
  imports CM_Decoder_Facts
begin

text \<open>
  The deterministic runtime output for the two synthetic laptops
  (apps/orchestrator/src/runtime/synthetic-laptop-fixture.ts), which the synthetic runtime returns for
  every command, and the result the orchestrator builds from it. Its bundle for a confirmed hard budget
  is the concrete input on which the general properties are witnessed.
\<close>

section \<open>The fixture\<close>

record runtime_run_command =
  cmdDecisionTaskId :: ident
  cmdAgentRunId :: ident
  cmdRequirement :: requirement_revision

record runtime_run_output =
  outCandidates :: "candidate list"
  outClaims :: "claim list"
  outEvidence :: "evidence list"
  outLinks :: "claim_evidence_link list"
  outDecision :: decision_revision
  outRunEvents :: "run_event list"

definition observedAtFixture :: string where
  "observedAtFixture = ''2026-08-12T12:00:00.000Z''"

definition validUntilFixture :: string where
  "validUntilFixture = ''2026-08-19T12:00:00.000Z''"

definition buildEvidence :: "ident \<Rightarrow> ident \<Rightarrow> string \<Rightarrow> string \<Rightarrow> evidence" where
  "buildEvidence tid eid field text =
     \<lparr>evidence.evidenceId = eid, decisionTaskId = tid, capturedAt = observedAtFixture,
      locatorSection = ''synthetic-laptop'', locatorField = field, excerpt = text,
      validUntil = validUntilFixture,
      origin = SYNTHETIC ''source-synth-laptop-fixture'' ''ChoiceMind synthetic laptop test material''\<rparr>"

definition fixtureCandidate :: "ident \<Rightarrow> ident \<Rightarrow> string \<Rightarrow> string \<Rightarrow> string \<Rightarrow> int \<Rightarrow> candidate" where
  "fixtureCandidate tid cid nm mdl sk price =
     \<lparr>candidate.candidateId = cid, decisionTaskId = tid, displayName = nm,
      identity = \<lparr>model = mdl, sku = sk, configuration = ''32 GiB memory / 1 TiB storage''\<rparr>,
      observedPrice = \<lparr>amountMinor = price, observedAt = observedAtFixture\<rparr>\<rparr>"

definition fixtureCandidates :: "ident \<Rightarrow> candidate list" where
  "fixtureCandidates tid =
     [fixtureCandidate tid ''candidate-synth-a'' ''Synthetic laptop A'' ''CM-SYNTH-LAPTOP-A''
        ''CM-SYNTH-LAPTOP-A-32'' 769900,
      fixtureCandidate tid ''candidate-synth-b'' ''Synthetic laptop B'' ''CM-SYNTH-LAPTOP-B''
        ''CM-SYNTH-LAPTOP-B-32'' 839900]"

definition fixtureClaim :: "ident \<Rightarrow> ident \<Rightarrow> ident \<Rightarrow> string \<Rightarrow> claim_value \<Rightarrow> claim" where
  "fixtureClaim tid cid sid pr v =
     \<lparr>claim.claimId = cid, decisionTaskId = tid, subjectId = sid, predicate = pr,
      claimValue = v, claimKind = FACT_ASSERTION\<rparr>"

definition fixtureClaims :: "ident \<Rightarrow> claim list" where
  "fixtureClaims tid =
     [fixtureClaim tid ''claim-synth-a-price'' ''candidate-synth-a'' ''price.observed'' (MONEY 769900),
      fixtureClaim tid ''claim-synth-a-memory-upgradeable'' ''candidate-synth-a'' ''memory.upgradeable'' (BOOLEAN False),
      fixtureClaim tid ''claim-synth-a-memory-capacity'' ''candidate-synth-a'' ''memory.capacity''
        (QUANTITY \<lparr>amount = 32, unitName = ''GiB''\<rparr>),
      fixtureClaim tid ''claim-synth-a-storage-capacity'' ''candidate-synth-a'' ''storage.capacity''
        (QUANTITY \<lparr>amount = 1, unitName = ''TiB''\<rparr>),
      fixtureClaim tid ''claim-synth-b-price'' ''candidate-synth-b'' ''price.observed'' (MONEY 839900),
      fixtureClaim tid ''claim-synth-b-memory-capacity'' ''candidate-synth-b'' ''memory.capacity''
        (QUANTITY \<lparr>amount = 32, unitName = ''GiB''\<rparr>),
      fixtureClaim tid ''claim-synth-b-storage-capacity'' ''candidate-synth-b'' ''storage.capacity''
        (QUANTITY \<lparr>amount = 1, unitName = ''TiB''\<rparr>)]"

definition fixtureEvidence :: "ident \<Rightarrow> evidence list" where
  "fixtureEvidence tid =
     [buildEvidence tid ''evidence-synth-a-price'' ''price'' ''The synthetic observed price is 7699 yuan'',
      buildEvidence tid ''evidence-synth-a-memory-upgradeable'' ''memory.upgradeable''
        ''The synthetic specification says that the memory cannot be upgraded'',
      buildEvidence tid ''evidence-synth-a-memory-capacity'' ''memory.capacity'' ''The synthetic memory capacity is 32 GiB'',
      buildEvidence tid ''evidence-synth-a-storage-capacity'' ''storage.capacity'' ''The synthetic storage capacity is 1 TiB'',
      buildEvidence tid ''evidence-synth-b-price'' ''price'' ''The synthetic observed price is 8399 yuan'',
      buildEvidence tid ''evidence-synth-b-memory-capacity'' ''memory.capacity'' ''The synthetic memory capacity is 32 GiB'',
      buildEvidence tid ''evidence-synth-b-storage-capacity'' ''storage.capacity'' ''The synthetic storage capacity is 1 TiB'']"

text \<open>\<open>(pairs).map(([..], index) => ..)\<close> with the position in the array.\<close>

fun mapIndexed :: "nat \<Rightarrow> (nat \<Rightarrow> 'a \<Rightarrow> 'b) \<Rightarrow> 'a list \<Rightarrow> 'b list" where
  "mapIndexed n f [] = []"
| "mapIndexed n f (x # xs) = f n x # mapIndexed (Suc n) f xs"

definition fixtureLinks :: "ident \<Rightarrow> claim_evidence_link list" where
  "fixtureLinks tid = mapIndexed 0 (\<lambda>i (cid, eid).
     \<lparr>claim_evidence_link.linkId = ''link-synth-'' @ decimal (i + 1), decisionTaskId = tid,
      claimId = cid, evidenceId = eid, direction = SUPPORTS\<rparr>)
     [(''claim-synth-a-price'', ''evidence-synth-a-price''),
      (''claim-synth-a-memory-upgradeable'', ''evidence-synth-a-memory-upgradeable''),
      (''claim-synth-a-memory-capacity'', ''evidence-synth-a-memory-capacity''),
      (''claim-synth-a-storage-capacity'', ''evidence-synth-a-storage-capacity''),
      (''claim-synth-b-price'', ''evidence-synth-b-price''),
      (''claim-synth-b-memory-capacity'', ''evidence-synth-b-memory-capacity''),
      (''claim-synth-b-storage-capacity'', ''evidence-synth-b-storage-capacity'')]"

definition fixtureStates :: "(decision_task_state \<times> string) list" where
  "fixtureStates =
     [(CREATED, ''The synthetic decision task was created''),
      (UNDERSTANDING, ''Understanding the synthetic requirement''),
      (PLANNING, ''Planning the synthetic research''),
      (RESEARCHING, ''Reading the synthetic candidates''),
      (VERIFYING, ''Verifying the synthetic evidence''),
      (COMPARING, ''Comparing candidates and hard constraints''),
      (CRITIQUING, ''Checking risks and counterexamples''),
      (GENERATING, ''Forming the structured decision''),
      (decision_task_state.COMPLETED, ''The synthetic decision is complete'')]"

definition fixtureRunEvents :: "ident \<Rightarrow> ident \<Rightarrow> run_event list" where
  "fixtureRunEvents tid rid = mapIndexed 0 (\<lambda>i (st, sm).
     \<lparr>run_event.eventId = ''event-synth-'' @ decimal (i + 1), decisionTaskId = tid, agentRunId = rid,
      sequence = int i + 1, occurredAt = ''2026-08-12T12:00:0'' @ decimal i @ ''.000Z'',
      eventType = (if i = length fixtureStates - 1 then RUNTIME_SUCCEEDED else TASK_STATE_CHANGED),
      taskState = st, summary = sm\<rparr>) fixtureStates"

definition needsPreference :: "requirement_revision \<Rightarrow> bool" where
  "needsPreference r \<longleftrightarrow> \<not> budgetNeedsConfirmation r
     \<and> (case budget r of None \<Rightarrow> False | Some bud \<Rightarrow> hard bud \<and> 839900 \<le> maxAmountMinor bud)"

definition fixtureDecision :: "ident \<Rightarrow> requirement_revision \<Rightarrow> decision_revision" where
  "fixtureDecision tid r =
     (let needsBudget = budgetNeedsConfirmation r; needsPref = needsPreference r;
          open = needsBudget \<or> needsPref in
      \<lparr>decision_revision.decisionRevisionId = ''decision-'' @ tid @ ''-r1'',
       decisionTaskId = tid,
       requirementRevisionId = requirement_revision.requirementRevisionId r,
       revision = 1,
       status = (if open then NEED_MORE_INFO else BUY_IF_PRICE),
       summary = (if needsBudget then ''The budget is not confirmed, no safe conclusion can be formed.''
          else if needsPref then ''Both candidates satisfy the known hard constraints, a preference is needed.''
          else ''Candidate A satisfies the hard constraints; consider it only at or below 7800 yuan with official warranty.''),
       selectedCandidateId = (if open then None else Some ''candidate-synth-a''),
       conditions = (if open then [] else
         [MAX_PRICE ''condition-synth-max-price'' ''candidate-synth-a'' 780000
            ''The user checks the actual price in the sales channel'',
          OFFICIAL_WARRANTY ''condition-synth-official-warranty'' ''candidate-synth-a''
            ''The user confirms that the sales channel offers official warranty'']),
       candidateDispositions = (if open then [] else
         [\<lparr>candidate_disposition.dispositionId = ''disposition-synth-b-budget'',
           candidateId = ''candidate-synth-b'', requirementKey = ''budget.maxAmountMinor'',
           reason = ''The synthetic observed price of 8399 yuan exceeds the hard budget of 8000 yuan'',
           evidenceIds = [''evidence-synth-b-price'']\<rparr>]),
       risks = (if open then [] else
         [\<lparr>decision_risk.riskId = ''risk-synth-memory-upgradeable'', candidateId = ''candidate-synth-a'',
           statementClaimId = ''claim-synth-a-memory-upgradeable'',
           riskVerification = ''The user checks the official specification of the exact SKU before buying''\<rparr>]),
       evidenceIds = map evidence.evidenceId (fixtureEvidence tid),
       criticalGaps = (if needsBudget then
         [\<lparr>critical_gap.gapId = ''gap-synth-budget'', key = ''budget.maxAmountMinor'',
           question = ''What is your highest budget?'',
           resolution = gap_resolution.PROVIDE_REQUIREMENT ''budget.maxAmountMinor''\<rparr>]
         else if needsPref then
         [\<lparr>critical_gap.gapId = ''gap-synth-primary-preference'', key = ''preference.primary'',
           question = ''Both candidates satisfy the hard constraints, do you prefer a lower price or something else?'',
           resolution = gap_resolution.PROVIDE_REQUIREMENT ''preference.primary''\<rparr>]
         else []),
       assumptions = [],
       validFrom = observedAtFixture,
       validUntil = validUntilFixture,
       nextSteps = (if needsBudget then
         [next_step.PROVIDE_REQUIREMENT ''budget.maxAmountMinor'' ''Provide the highest budget and execute the decision again'']
         else if needsPref then
         [next_step.PROVIDE_REQUIREMENT ''preference.primary'' ''Say whether price, weight, battery or something else matters most'']
         else
         [next_step.VERIFY_CONDITION ''condition-synth-max-price'' ''Check the actual price'',
          next_step.VERIFY_CONDITION ''condition-synth-official-warranty'' ''Confirm that the sales channel offers official warranty'',
          VERIFY_RISK ''risk-synth-memory-upgradeable'' ''Check the memory specification of the exact SKU''])\<rparr>)"

definition buildSyntheticLaptopRunOutput :: "runtime_run_command \<Rightarrow> runtime_run_output" where
  "buildSyntheticLaptopRunOutput command =
     (let tid = cmdDecisionTaskId command in
      \<lparr>outCandidates = fixtureCandidates tid, outClaims = fixtureClaims tid,
       outEvidence = fixtureEvidence tid, outLinks = fixtureLinks tid,
       outDecision = fixtureDecision tid (cmdRequirement command),
       outRunEvents = fixtureRunEvents tid (cmdAgentRunId command)\<rparr>)"

section \<open>The result of a runtime output\<close>

text \<open>
  The draft that \<open>finalizeRuntimeOutput\<close> (executor.ts) builds from an output that has the shape of
  one, and the result it finalises to.
\<close>

definition draftOfOutput :: "requirement_revision \<Rightarrow> ident \<Rightarrow> runtime_run_output \<Rightarrow> result_draft" where
  "draftOfOutput r rid out =
     \<lparr>draftStatus = \<lparr>completed_status.decisionTaskId = requirement_revision.decisionTaskId r,
        agentRunId = rid, latestEventSequence = run_event.sequence (last (outRunEvents out)),
        decisionRevisionId = decision_revision.decisionRevisionId (outDecision out),
        updatedAt = run_event.occurredAt (last (outRunEvents out))\<rparr>,
      draftEvents = outRunEvents out,
      draftBundle = \<lparr>bundle_draft.requirementRevision = r, candidates = outCandidates out,
        claims = outClaims out, evidence = outEvidence out, claimEvidenceLinks = outLinks out,
        decision = outDecision out\<rparr>\<rparr>"

definition syntheticDraft :: "requirement_revision \<Rightarrow> ident \<Rightarrow> result_draft" where
  "syntheticDraft r rid = draftOfOutput r rid (buildSyntheticLaptopRunOutput
     \<lparr>cmdDecisionTaskId = requirement_revision.decisionTaskId r, cmdAgentRunId = rid, cmdRequirement = r\<rparr>)"

end
