(* ===== verification/CM_Executor.thy ===== *)
theory CM_Executor
  imports CM_Fixture
begin

text \<open>
  The decision task executor of the orchestrator (apps/orchestrator/src/decision-tasks/executor.ts).
  The runtime behind the port is a parameter: an execution receives its reply, a value of unknown
  shape or a thrown value. The executor's state is its map of receipts together with the promises
  it has created, which settle later in any order: two transitions, a call of \<open>executeAttempt\<close> and
  the settling of an attempt.
\<close>

section \<open>Outcomes\<close>

datatype explicit_state = FAILED_RETRYABLE | FAILED_FINAL | PARTIAL

datatype execution_outcome =
    OutcomeResult decision_task_result
  | OutcomePaused paused_outcome
  | OutcomeExplicit explicit_state string "control_error option"

record execution_attempt =
  attemptResult :: decision_task_result
  persistentOutcome :: execution_outcome

record execution_context =
  ctxAgentRunId :: ident
  ctxUserId :: "ident option"
  ctxOperationId :: "ident option"
  ctxCorrelationId :: "ident option"
  ctxEgressConfirmation :: "(ident \<times> ident) option" \<comment> \<open>operation id and user id\<close>

record runtime_security_context =
  secUserId :: ident
  secOperationId :: ident
  secCorrelationId :: ident
  secEgressConfirmation :: "ident \<times> ident"

definition toRuntimeSecurityContext :: "execution_context option \<Rightarrow> runtime_security_context option" where
  "toRuntimeSecurityContext ctx =
     (case ctx of None \<Rightarrow> None
      | Some c \<Rightarrow>
          (case (ctxUserId c, ctxOperationId c, ctxCorrelationId c, ctxEgressConfirmation c) of
             (Some u, Some oper, Some cor, Some egr) \<Rightarrow>
               Some \<lparr>secUserId = u, secOperationId = oper, secCorrelationId = cor, secEgressConfirmation = egr\<rparr>
           | _ \<Rightarrow> None))"

definition isRetryableOutcome :: "execution_outcome \<Rightarrow> bool" where
  "isRetryableOutcome out = (case out of OutcomeExplicit FAILED_RETRYABLE _ _ \<Rightarrow> True | _ \<Rightarrow> False)"

section \<open>Results of failures\<close>

definition createRuntimeFailedResult :: "ident \<Rightarrow> ident \<Rightarrow> retry_mode \<Rightarrow> decision_task_result" where
  "createRuntimeFailedResult tid rid mode =
     (let eid = ''error-synth-runtime-failure''; failedAt = ''2026-08-12T12:00:01.000Z'' in
      Failed
        \<lparr>failed_status.decisionTaskId = tid, agentRunId = rid, latestEventSequence = 2,
         errorId = eid, updatedAt = failedAt\<rparr>
        [\<lparr>run_event.eventId = ''event-synth-runtime-failure-1'', decisionTaskId = tid, agentRunId = rid,
          sequence = 1, occurredAt = ''2026-08-12T12:00:00.000Z'', eventType = TASK_STATE_CHANGED,
          taskState = CREATED, summary = ''The synthetic decision task was created''\<rparr>,
         \<lparr>run_event.eventId = ''event-synth-runtime-failure-2'', decisionTaskId = tid, agentRunId = rid,
          sequence = 2, occurredAt = failedAt, eventType = RUNTIME_FAILED,
          taskState = decision_task_state.FAILED, summary = ''The synthetic Runtime failed''\<rparr>]
        \<lparr>choice_mind_error.errorId = eid, code = AGENT_RUNTIME_FAILED, category = RUNTIME,
         message = ''The decision task failed'', retryMode = mode, issues = [], occurredAt = failedAt\<rparr>)"

definition createFailedExecutionAttempt :: "ident \<Rightarrow> ident \<Rightarrow> execution_attempt" where
  "createFailedExecutionAttempt tid rid =
     \<lparr>attemptResult = createRuntimeFailedResult tid rid NEW_EXECUTION_ALLOWED,
      persistentOutcome = OutcomeExplicit FAILED_FINAL ''The Agent Runtime formed no valid Decision'' None\<rparr>"

section \<open>Execution\<close>

text \<open>
  What the executor needs to know about untyped values: zod's shapes, the control error an explicit
  outcome may carry, and how \<open>JSON.stringify\<close> prints a primitive; and the command and requirement
  as untyped values.
\<close>

record executor_env =
  envFormats :: zod_formats
  envPaused :: paused_codec
  envDraft :: "result_draft zod_shape"
  envControlError :: "json \<Rightarrow> control_error option"
  envStringify :: "json \<Rightarrow> string"
  envCommandJson :: "execute_command \<Rightarrow> json"
  envRequirementJson :: "requirement_revision \<Rightarrow> json"

datatype runtime_reply = Returned json | Threw json

definition explicitState :: "json \<Rightarrow> explicit_state option" where
  "explicitState v =
     (if v = JStr ''FAILED_RETRYABLE'' then Some FAILED_RETRYABLE
      else if v = JStr ''FAILED_FINAL'' then Some FAILED_FINAL
      else if v = JStr ''PARTIAL'' then Some PARTIAL else None)"

text \<open>\<open>isExplicitRuntimeOutcome(value)\<close>, with the state and summary it establishes.\<close>

definition isExplicitRuntimeOutcome :: "json \<Rightarrow> (explicit_state \<times> string) option" where
  "isExplicitRuntimeOutcome v =
     (if isRecord v
      then (case (explicitState (jget v ''state''), jget v ''summary'') of
              (Some st, JStr sm) \<Rightarrow> if meaningfulTextSchema sm then Some (st, sm) else None
            | _ \<Rightarrow> None)
      else None)"

definition isPersistenceUnavailable :: "json \<Rightarrow> bool" where
  "isPersistenceUnavailable v \<longleftrightarrow> isRecord v \<and> jget v ''code'' = JStr ''PERSISTENCE_UNAVAILABLE''"

definition isArray :: "json \<Rightarrow> bool" where
  "isArray v = (case v of JArr _ \<Rightarrow> True | _ \<Rightarrow> False)"

definition lastElement :: "json \<Rightarrow> json" where
  "lastElement v = (case v of JArr vs \<Rightarrow> if vs = [] then JUndefined else last vs | _ \<Rightarrow> JUndefined)"

text \<open>The untyped result that \<open>finalizeRuntimeOutput\<close> assembles from the runtime's output.\<close>

definition assembledResult :: "json \<Rightarrow> ident \<Rightarrow> ident \<Rightarrow> json \<Rightarrow> json" where
  "assembledResult reqJson tid rid out =
     (let completedEvent = lastElement (jget out ''runEvents'') in
      JObj [(''contractType'', JStr ''decision-task-result''), (''contractVersion'', JStr ''1.0''), (''ok'', JBool True),
        (''taskStatus'', JObj [(''contractType'', JStr ''decision-task-status''), (''contractVersion'', JStr ''1.0''),
           (''decisionTaskId'', JStr tid), (''agentRunId'', JStr rid), (''state'', JStr ''COMPLETED''),
           (''terminal'', JBool True), (''latestEventSequence'', jget completedEvent ''sequence''),
           (''decisionRevisionId'', jget (jget out ''decision'') ''decisionRevisionId''),
           (''updatedAt'', jget completedEvent ''occurredAt'')]),
        (''runEvents'', jget out ''runEvents''),
        (''bundle'', JObj [(''requirementRevision'', reqJson), (''candidates'', jget out ''candidates''),
           (''claims'', jget out ''claims''), (''evidence'', jget out ''evidence''),
           (''claimEvidenceLinks'', jget out ''claimEvidenceLinks''), (''decision'', jget out ''decision'')])])"

definition finalizeRuntimeOutput ::
    "executor_env \<Rightarrow> execute_command \<Rightarrow> ident \<Rightarrow> json \<Rightarrow> execution_attempt" where
  "finalizeRuntimeOutput env cmd rid out =
     (let req = execute_command.requirementRevision cmd; tid = requirement_revision.decisionTaskId req in
      if \<not> isRecord out \<or> \<not> isArray (jget out ''runEvents'') \<or> \<not> isArray (jget out ''candidates'')
         \<or> \<not> isArray (jget out ''claims'') \<or> \<not> isArray (jget out ''evidence'')
         \<or> \<not> isArray (jget out ''claimEvidenceLinks'') \<or> \<not> isRecord (jget out ''decision'')
      then createFailedExecutionAttempt tid rid
      else if \<not> isRecord (lastElement (jget out ''runEvents''))
      then createFailedExecutionAttempt tid rid
      else (case finalizeSuccessfulDecisionTaskResultV1 (envFormats env) (envDraft env)
               (assembledResult (envRequirementJson env req) tid rid out) of
              Inr v \<Rightarrow> \<lparr>attemptResult = v, persistentOutcome = OutcomeResult v\<rparr>
            | Inl _ \<Rightarrow> createFailedExecutionAttempt tid rid))"

definition RECOVERY_NOT_PERSISTED :: string where
  "RECOVERY_NOT_PERSISTED = ''The Runtime recovery facts cannot be persisted for now''"

definition agentRunIdOf :: "execute_command \<Rightarrow> execution_context option \<Rightarrow> ident" where
  "agentRunIdOf cmd ctx = (case ctx of
      None \<Rightarrow> ''agent-run-'' @ execute_command.executionRequestId cmd
    | Some c \<Rightarrow> ctxAgentRunId c)"

text \<open>The body of \<open>executeOnce\<close> once the runtime has replied.\<close>

definition executeOnce ::
    "executor_env \<Rightarrow> execute_command \<Rightarrow> execution_context option \<Rightarrow> bool \<Rightarrow> runtime_reply \<Rightarrow> execution_attempt" where
  "executeOnce env cmd ctx forPersistence reply =
     (let rid = agentRunIdOf cmd ctx;
          tid = requirement_revision.decisionTaskId (execute_command.requirementRevision cmd)
      in case reply of
           Returned out \<Rightarrow>
             (case decodeRuntimePausedOutcomeV1 (envFormats env) (envPaused env) out of
                Inr p \<Rightarrow> \<lparr>attemptResult = createRuntimeFailedResult tid rid NEW_EXECUTION_ALLOWED,
                          persistentOutcome = OutcomePaused p\<rparr>
              | Inl _ \<Rightarrow>
                  (case isExplicitRuntimeOutcome out of
                     Some (st, sm) \<Rightarrow>
                       \<lparr>attemptResult = createRuntimeFailedResult tid rid
                          (if st = FAILED_RETRYABLE then SAME_EXECUTION_ONLY else NEW_EXECUTION_ALLOWED),
                        persistentOutcome = OutcomeExplicit st sm (envControlError env out)\<rparr>
                   | None \<Rightarrow> finalizeRuntimeOutput env cmd rid out))
         | Threw err \<Rightarrow>
             if forPersistence \<and> isPersistenceUnavailable err
             then \<lparr>attemptResult = createRuntimeFailedResult tid rid SAME_EXECUTION_ONLY,
                   persistentOutcome = OutcomeExplicit FAILED_RETRYABLE RECOVERY_NOT_PERSISTED None\<rparr>
             else createFailedExecutionAttempt tid rid)"

section \<open>Receipts\<close>

record receipt =
  fingerprint :: "string option"
  activeAttempt :: "nat option"

text \<open>A promise: the command it executes, and its value once it has settled.\<close>

record promise =
  promiseRequest :: ident
  promiseFingerprint :: "string option"
  promiseValue :: "execution_attempt option"

record executor_state =
  receipts :: "ident \<rightharpoonup> receipt"
  promises :: "promise list"

datatype attempt_answer =
    Pending nat \<comment> \<open>the promise with this index\<close>
  | Immediate execution_attempt

text \<open>
  The executor's own \<open>canonicalize\<close>. \<open>JSON.stringify(undefined)\<close> is \<open>undefined\<close> (\<open>None\<close>), which
  \<open>join\<close> prints as nothing and a template literal as the word undefined.
\<close>

fun canonicalize :: "(json \<Rightarrow> string) \<Rightarrow> json \<Rightarrow> string option" where
  "canonicalize str (JArr vs) =
     Some (''['' @ joinComma (map (\<lambda>v. case canonicalize str v of None \<Rightarrow> '''' | Some t \<Rightarrow> t) vs) @ '']'')"
| "canonicalize str (JObj kvs) =
     Some (''{'' @ joinComma (map snd (sort_key fst (map (\<lambda>(k, v).
        (k, str (JStr k) @ '':'' @ (case canonicalize str v of None \<Rightarrow> ''undefined'' | Some t \<Rightarrow> t))) kvs))) @ ''}'')"
| "canonicalize str JUndefined = None"
| "canonicalize str v = Some (str v)"

definition fingerprintOf :: "executor_env \<Rightarrow> execute_command \<Rightarrow> string option" where
  "fingerprintOf env cmd = canonicalize (envStringify env) (envCommandJson env cmd)"

definition conflictAttempt :: execution_attempt where
  "conflictAttempt =
     \<lparr>attemptResult = Rejected
        \<lparr>choice_mind_error.errorId = ''error-execution-request-conflict'', code = CONTRACT_INVALID,
         category = VALIDATION, message = ''The execution id does not match the original command'',
         retryMode = NO_RETRY,
         issues = [Issue [K ''executionRequestId''] ''One execution id cannot be bound to different commands''],
         occurredAt = ''2026-08-12T12:00:00.000Z''\<rparr>,
      persistentOutcome = OutcomeExplicit FAILED_FINAL ''The execution id does not match the original command'' None\<rparr>"

definition startAttempt :: "ident \<Rightarrow> string option \<Rightarrow> executor_state \<Rightarrow> attempt_answer \<times> executor_state" where
  "startAttempt reqId fp s =
     (let n = length (promises s) in
      (Pending n,
       s\<lparr>receipts := (receipts s)(reqId \<mapsto> \<lparr>fingerprint = fp, activeAttempt = Some n\<rparr>),
         promises := promises s @ [\<lparr>promiseRequest = reqId, promiseFingerprint = fp, promiseValue = None\<rparr>]\<rparr>))"

definition executeAttempt ::
    "executor_env \<Rightarrow> execute_command \<Rightarrow> executor_state \<Rightarrow> attempt_answer \<times> executor_state" where
  "executeAttempt env cmd s =
     (let reqId = execute_command.executionRequestId cmd; fp = fingerprintOf env cmd in
      case receipts s reqId of
        Some r \<Rightarrow>
          if fingerprint r = fp
          then (case activeAttempt r of
                  Some n \<Rightarrow> (Pending n, s)
                | None \<Rightarrow> startAttempt reqId fp s)
          else (Immediate conflictAttempt, s)
      | None \<Rightarrow> startAttempt reqId fp s)"

text \<open>
  Attempt \<open>n\<close> settles: its callback forgets the attempt when the outcome is retryable and the
  receipt is still the one it created.
\<close>

definition settleAttempt :: "nat \<Rightarrow> execution_attempt \<Rightarrow> executor_state \<Rightarrow> executor_state" where
  "settleAttempt n a s =
     (let p = promises s ! n;
          s' = s\<lparr>promises := (promises s)[n := p\<lparr>promiseValue := Some a\<rparr>]\<rparr>
      in case receipts s (promiseRequest p) of
           Some r \<Rightarrow>
             if isRetryableOutcome (persistentOutcome a) \<and> activeAttempt r = Some n
             then s'\<lparr>receipts := (receipts s)(promiseRequest p \<mapsto> r\<lparr>activeAttempt := None\<rparr>)\<rparr>
             else s'
         | None \<Rightarrow> s')"

inductive executor_step :: "executor_env \<Rightarrow> executor_state \<Rightarrow> executor_state \<Rightarrow> bool" for env where
  call: "executeAttempt env cmd s = (answer, s') \<Longrightarrow> executor_step env s s'"
| settle: "n < length (promises s) \<Longrightarrow> promiseValue (promises s ! n) = None \<Longrightarrow>
    executor_step env s (settleAttempt n a s)"

definition initialExecutor :: executor_state where
  "initialExecutor = \<lparr>receipts = Map.empty, promises = []\<rparr>"

inductive_cases executor_stepE: "executor_step env s s'"

section \<open>Resuming a paused run\<close>

datatype control_result =
    ControlOk (controlOutcome: "json option")
  | ControlFailed control_error_code string "recovery_permission option"

datatype resume_reply = Resumed control_result | ResumeThrew json

record recovery_facts =
  factsSnapshot :: runtime_snapshot
  factsReceipts :: "effect_receipt list"

definition recoveryReasonText :: "recovery_reason \<Rightarrow> string" where
  "recoveryReasonText w = (case w of
      SAFE_TO_RESUME \<Rightarrow> ''SAFE_TO_RESUME'' | TASK_NOT_PAUSED \<Rightarrow> ''TASK_NOT_PAUSED''
    | SNAPSHOT_NOT_RESUMABLE \<Rightarrow> ''SNAPSHOT_NOT_RESUMABLE'' | EFFECT_STATUS_UNSAFE \<Rightarrow> ''EFFECT_STATUS_UNSAFE''
    | EFFECT_RESULT_UNAVAILABLE \<Rightarrow> ''EFFECT_RESULT_UNAVAILABLE''
    | EFFECT_RESULT_INVALID \<Rightarrow> ''EFFECT_RESULT_INVALID'' | RECOVERY_FACTS_INVALID \<Rightarrow> ''RECOVERY_FACTS_INVALID'')"

text \<open>The paused outcome that asks for manual verification.\<close>

definition manualOutcome ::
    "ident \<Rightarrow> execution_context \<Rightarrow> recovery_facts \<Rightarrow> paused_state \<Rightarrow> string \<Rightarrow> recovery_reason \<Rightarrow> paused_outcome" where
  "manualOutcome tid ctx facts st msg why =
     (let snap = factsSnapshot facts in
      \<lparr>paused_outcome.state = st, summary = msg, snapshot = snap, effectReceipts = factsReceipts facts,
       runEvents = [\<lparr>run_event.eventId = ''event-runtime-manual-''
            @ (case ctxOperationId ctx of None \<Rightarrow> ctxAgentRunId ctx | Some oper \<Rightarrow> oper),
          decisionTaskId = tid, agentRunId = ctxAgentRunId ctx, sequence = 1,
          occurredAt = runtime_snapshot.capturedAt snap, eventType = TASK_STATE_CHANGED,
          taskState = decision_task_state.PAUSED st,
          summary = msg @ '' ('' @ recoveryReasonText why @ '')''\<rparr>]\<rparr>)"

definition resumeFailure ::
    "ident \<Rightarrow> execution_context \<Rightarrow> recovery_facts \<Rightarrow> control_error_code \<Rightarrow> string
     \<Rightarrow> recovery_permission option \<Rightarrow> execution_outcome" where
  "resumeFailure tid ctx facts c msg perm =
     (let explicit = OutcomeExplicit (if c = RUNTIME_RESUME_IN_PROGRESS then FAILED_RETRYABLE else FAILED_FINAL)
            msg (Some \<lparr>control_error.code = c, message = msg\<rparr>)
      in case (perm, runtime_snapshot.taskState (factsSnapshot facts)) of
           (Some p, decision_task_state.PAUSED st) \<Rightarrow>
             if recovery_permission.decision p = MANUAL_VERIFICATION_REQUIRED
             then OutcomePaused (manualOutcome tid ctx facts st msg (permissionReason p))
             else explicit
         | _ \<Rightarrow> explicit)"

definition resumePersistent ::
    "executor_env \<Rightarrow> bool \<Rightarrow> execute_command \<Rightarrow> recovery_facts \<Rightarrow> execution_context \<Rightarrow> resume_reply \<Rightarrow> execution_outcome" where
  "resumePersistent env supported cmd facts ctx reply =
     (if \<not> supported then OutcomeExplicit FAILED_FINAL ''The Agent Runtime does not support resuming'' None
      else case reply of
        Resumed (ControlFailed c msg perm) \<Rightarrow>
          resumeFailure (requirement_revision.decisionTaskId (execute_command.requirementRevision cmd))
            ctx facts c msg perm
      | Resumed (ControlOk None) \<Rightarrow>
          OutcomeExplicit FAILED_RETRYABLE ''The resumed Runtime has no outcome that can be persisted''
            (Some \<lparr>control_error.code = RUNTIME_RESULT_UNAVAILABLE,
                   message = ''The resumed Runtime has no outcome that can be persisted''\<rparr>)
      | Resumed (ControlOk (Some out)) \<Rightarrow>
          (case decodeRuntimePausedOutcomeV1 (envFormats env) (envPaused env) out of
             Inr p \<Rightarrow> OutcomePaused p
           | Inl _ \<Rightarrow> (case isExplicitRuntimeOutcome out of
               Some (st, sm) \<Rightarrow> OutcomeExplicit st sm (envControlError env out)
             | None \<Rightarrow> persistentOutcome (finalizeRuntimeOutput env cmd (ctxAgentRunId ctx) out)))
      | ResumeThrew err \<Rightarrow>
          if isPersistenceUnavailable err
          then OutcomeExplicit FAILED_RETRYABLE RECOVERY_NOT_PERSISTED
                 (Some \<lparr>control_error.code = CONTROL_PERSISTENCE_UNAVAILABLE, message = RECOVERY_NOT_PERSISTED\<rparr>)
          else OutcomeExplicit FAILED_RETRYABLE ''Resuming the Runtime failed for now''
                 (Some \<lparr>control_error.code = RUNTIME_FAILED_CODE, message = ''Resuming the Runtime failed for now''\<rparr>))"

section \<open>The internal route\<close>

text \<open>
  \<open>POST /internal/v1/decision-tasks:execute\<close> (routes.ts): the request body, and what the executor
  returns or throws, give the response's status and result.
\<close>

definition executeRoute ::
    "zod_formats \<Rightarrow> execute_command zod_shape \<Rightarrow> decision_task_result zod_shape \<Rightarrow>
     (execute_command \<Rightarrow> runtime_reply) \<Rightarrow> string \<Rightarrow> json \<Rightarrow> nat \<times> decision_task_result" where
  "executeRoute z csh rsh execute now body =
     (let unknownResult = createUnknownDecisionExecutionResultV1 ''error-orchestrator-execution-status-unknown'' now;
          answer = (\<lambda>r. (getDecisionTaskResultHttpStatusV1 r, r))
      in case decodeExecuteDecisionTaskCommandV1 csh body of
           Inl (c, is) \<Rightarrow>
             answer (createContractRejectedDecisionTaskResultV1
               (if c = CONTRACT_VERSION_UNSUPPORTED then ''error-contract-version'' else ''error-contract-invalid'')
               c is now)
         | Inr cmd \<Rightarrow>
             (case execute cmd of
                Threw _ \<Rightarrow> answer unknownResult
              | Returned out \<Rightarrow>
                  (case decodeDecisionTaskResultV1 z rsh out of
                     Inl _ \<Rightarrow> answer unknownResult
                   | Inr r \<Rightarrow> answer r)))"

end
