(* ===== verification/CM_Effects.thy ===== *)
theory CM_Effects
  imports CM_Prelude
begin

text \<open>
  Asynchronous code that calls ports which may fail: a computation takes the trace of what has been
  done so far and the number of port calls made so far, and gives a value or a thrown error. What the
  n-th call returns, or whether it throws, is decided by the environment (a parameter of each port),
  so a property of the trace holds however the ports behave.
\<close>

record 'e run =
  trace :: "'e list"
  calls :: nat

type_synonym ('e, 'x, 'a) io = "'e run \<Rightarrow> ('x + 'a) \<times> 'e run"

definition done_with :: "'a \<Rightarrow> ('e, 'x, 'a) io" where
  "done_with a = (\<lambda>s. (Inr a, s))"

definition throw :: "'x \<Rightarrow> ('e, 'x, 'a) io" where
  "throw x = (\<lambda>s. (Inl x, s))"

definition and_then :: "('e, 'x, 'a) io \<Rightarrow> ('a \<Rightarrow> ('e, 'x, 'b) io) \<Rightarrow> ('e, 'x, 'b) io" where
  "and_then m f = (\<lambda>s. case m s of (Inl x, s') \<Rightarrow> (Inl x, s') | (Inr a, s') \<Rightarrow> f a s')"

text \<open>\<open>try { m } catch { h }\<close>\<close>

definition catching :: "('e, 'x, 'a) io \<Rightarrow> ('x \<Rightarrow> ('e, 'x, 'a) io) \<Rightarrow> ('e, 'x, 'a) io" where
  "catching m h = (\<lambda>s. case m s of (Inl x, s') \<Rightarrow> h x s' | (Inr a, s') \<Rightarrow> (Inr a, s'))"

text \<open>
  A port call: the environment's answer to call number \<open>calls\<close>; \<open>None\<close> is a thrown error. What it
  did, when it succeeded, is recorded.
\<close>

definition call_port :: "(nat \<Rightarrow> 'a option) \<Rightarrow> ('a \<Rightarrow> 'e list) \<Rightarrow> 'x \<Rightarrow> ('e, 'x, 'a) io" where
  "call_port port ev x = (\<lambda>s. case port (calls s) of
       None \<Rightarrow> (Inl x, s\<lparr>calls := Suc (calls s)\<rparr>)
     | Some a \<Rightarrow> (Inr a, s\<lparr>trace := trace s @ ev a, calls := Suc (calls s)\<rparr>))"

text \<open>A port call whose effect may have happened even if it throws: the attempt is recorded.\<close>

definition attempt_port :: "(nat \<Rightarrow> 'a option) \<Rightarrow> 'e \<Rightarrow> 'x \<Rightarrow> ('e, 'x, 'a) io" where
  "attempt_port port e x = (\<lambda>s. (case port (calls s) of None \<Rightarrow> Inl x | Some a \<Rightarrow> Inr a,
       s\<lparr>trace := trace s @ [e], calls := Suc (calls s)\<rparr>))"

section \<open>Facts about traces\<close>

text \<open>Every \<open>effect\<close> in the trace comes after a \<open>permit\<close>.\<close>

definition guarded :: "('e \<Rightarrow> bool) \<Rightarrow> ('e \<Rightarrow> bool) \<Rightarrow> 'e list \<Rightarrow> bool" where
  "guarded permit effect es \<longleftrightarrow>
     (\<forall>i < length es. effect (es ! i) \<longrightarrow> (\<exists>j < i. permit (es ! j)))"

lemma guarded_Nil [simp]: "guarded permit effect []"
  by (simp add: guarded_def)

lemma guarded_snoc [simp]:
  "guarded permit effect (es @ [e]) \<longleftrightarrow>
     guarded permit effect es \<and> (effect e \<longrightarrow> (\<exists>d \<in> set es. permit d))"
proof -
  have before: "(\<exists>j < i. permit ((es @ [e]) ! j)) \<longleftrightarrow> (\<exists>j < i. permit (es ! j))" if "i \<le> length es" for i
    using that by (metis nth_append order_less_le_trans)
  have "(\<exists>j < length es. permit (es ! j)) \<longleftrightarrow> (\<exists>d \<in> set es. permit d)"
    by (metis in_set_conv_nth)
  then have last: "(\<exists>j < length es. permit ((es @ [e]) ! j)) \<longleftrightarrow> (\<exists>d \<in> set es. permit d)"
    using before [of "length es"] by simp
  have "guarded permit effect (es @ [e]) \<longleftrightarrow>
      (\<forall>i < length es. effect (es ! i) \<longrightarrow> (\<exists>j < i. permit ((es @ [e]) ! j)))
      \<and> (effect e \<longrightarrow> (\<exists>j < length es. permit ((es @ [e]) ! j)))"
    unfolding guarded_def length_append_singleton All_less_Suc by (auto simp: nth_append)
  then show ?thesis unfolding last guarded_def by (simp add: before)
qed

lemma guarded_short [simp]:
  "guarded permit effect [a] \<longleftrightarrow> \<not> effect a"
  "guarded permit effect [a, b] \<longleftrightarrow> \<not> effect a \<and> (effect b \<longrightarrow> permit a)"
  "guarded permit effect [a, b, c] \<longleftrightarrow>
     \<not> effect a \<and> (effect b \<longrightarrow> permit a) \<and> (effect c \<longrightarrow> permit a \<or> permit b)"
  "guarded permit effect [a, b, c, d] \<longleftrightarrow>
     \<not> effect a \<and> (effect b \<longrightarrow> permit a) \<and> (effect c \<longrightarrow> permit a \<or> permit b)
     \<and> (effect d \<longrightarrow> permit a \<or> permit b \<or> permit c)"
  using guarded_snoc [of permit effect "[]" a] guarded_snoc [of permit effect "[a]" b]
    guarded_snoc [of permit effect "[a, b]" c] guarded_snoc [of permit effect "[a, b, c]" d]
  by auto

lemma guarded_append:
  "guarded permit effect xs \<Longrightarrow> (\<exists>d \<in> set xs. permit d) \<or> (\<forall>e \<in> set ys. \<not> effect e) \<Longrightarrow>
   guarded permit effect (xs @ ys)"
proof (induction ys rule: rev_induct)
  case Nil
  then show ?case by simp
next
  case (snoc y ys)
  then show ?case by (auto simp flip: append_assoc)
qed

section \<open>Triples\<close>

text \<open>
  Started with a trace in \<open>P\<close>, the computation ends with a value and a trace in \<open>Q\<close> of that value,
  or throws and leaves a trace in \<open>R\<close>.
\<close>

definition triple ::
    "('e list \<Rightarrow> bool) \<Rightarrow> ('e, 'x, 'a) io \<Rightarrow> ('a \<Rightarrow> 'e list \<Rightarrow> bool) \<Rightarrow> ('e list \<Rightarrow> bool) \<Rightarrow> bool" where
  "triple P m Q R \<longleftrightarrow> (\<forall>s. P (trace s) \<longrightarrow>
     (case m s of (Inr a, s') \<Rightarrow> Q a (trace s') | (Inl x, s') \<Rightarrow> R (trace s')))"

lemma triple_done: "(\<And>es. P es \<Longrightarrow> Q a es) \<Longrightarrow> triple P (done_with a) Q R"
  by (simp add: triple_def done_with_def)

lemma triple_throw: "(\<And>es. P es \<Longrightarrow> R es) \<Longrightarrow> triple P (throw x) Q R"
  by (simp add: triple_def throw_def)

lemma triple_and_then:
  assumes "triple P m Q R" and "\<And>a. triple (Q a) (f a) S R"
  shows "triple P (and_then m f) S R"
  using assms by (fastforce simp: triple_def and_then_def split: prod.splits sum.splits)

lemma triple_catching:
  assumes "triple P m Q T" and "\<And>x. triple T (h x) Q R"
  shows "triple P (catching m h) Q R"
  using assms by (fastforce simp: triple_def catching_def split: prod.splits sum.splits)

lemma triple_call_port:
  assumes "\<And>es a. P es \<Longrightarrow> Q a (es @ ev a)" and "\<And>es. P es \<Longrightarrow> R es"
  shows "triple P (call_port port ev x) Q R"
  using assms by (auto simp: triple_def call_port_def split: option.splits)

lemma triple_attempt_port:
  assumes "\<And>es a. P es \<Longrightarrow> Q a (es @ [e])" and "\<And>es. P es \<Longrightarrow> R (es @ [e])"
  shows "triple P (attempt_port port e x) Q R"
  using assms by (auto simp: triple_def attempt_port_def split: option.splits)

lemma triple_weaken:
  "triple P m Q R \<Longrightarrow> (\<And>es. P' es \<Longrightarrow> P es) \<Longrightarrow> (\<And>a es. Q a es \<Longrightarrow> Q' a es) \<Longrightarrow> (\<And>es. R es \<Longrightarrow> R' es)
   \<Longrightarrow> triple P' m Q' R'"
  by (fastforce simp: triple_def split: prod.splits sum.splits)

lemma triple_state: "(\<And>s. triple P (f s) Q R) \<Longrightarrow> triple P (\<lambda>s. f s s) Q R"
  by (simp add: triple_def)

lemma tripleD: "triple P m (\<lambda>_. Q) Q \<Longrightarrow> P (trace s) \<Longrightarrow> Q (trace (snd (m s)))"
  unfolding triple_def by (cases "m s"; cases "fst (m s)") fastforce+

lemmas io_simps = done_with_def throw_def and_then_def catching_def call_port_def attempt_port_def

end
