(* ===== verification/CM_Security.thy ===== *)
theory CM_Security
  imports CM_Effects CM_Time
begin

text \<open>
  packages/security/src/index.ts: the credential vault (envelope encryption with audited access), the
  risk policy and the egress guard. AES-GCM, random bytes, the clock, the storage and audit ports and
  URL parsing are parameters; each port decides for every call whether it answers or throws.
\<close>

section \<open>Actors and records\<close>

datatype secret_type = PROVIDER_CREDENTIAL | SOURCE_CREDENTIAL

datatype security_role = USER | ADMIN | SUPERADMIN | SYSTEM

text \<open>\<open>actorObject\<close> is the identity of the JavaScript object, which \<open>===\<close> compares.\<close>

record security_actor =
  actorUserId :: ident
  actorRole :: security_role
  actorObject :: nat

record sealed =
  sealedText :: string
  sealedIv :: string
  sealedTag :: string

record encrypted_credential =
  credentialId :: ident
  ownerUserId :: ident
  secretType :: secret_type
  sealedSecret :: sealed
  sealedDataKey :: sealed

datatype access_action = USE | DELETE

record system_access =
  accessActor :: security_actor
  accessSecretType :: secret_type
  accessActions :: "access_action list"

datatype audit_action = CREDENTIAL_STORE | CREDENTIAL_USE | CREDENTIAL_DELETE

datatype audit_result = STARTED | ALLOWED | DENIED | FAILED

record credential_audit =
  auditActor :: security_actor
  auditAction :: audit_action
  auditObject :: ident
  auditResult :: audit_result
  auditCorrelationId :: ident
  auditOccurredAt :: string

datatype vault_error =
    CREDENTIAL_OWNER_MISMATCH | CREDENTIAL_STORE_FAILED | CREDENTIAL_NOT_FOUND | CREDENTIAL_USE_FAILED
  | SECRET_OPERATION_FAILED | CREDENTIAL_DELETE_FAILED | CREDENTIAL_DELETE_UNSUPPORTED | PORT_FAILED

text \<open>What happened at the ports: audits that were written, effects that were attempted.\<close>

datatype vault_event =
    Audited credential_audit
  | Saved encrypted_credential
  | Operated string \<comment> \<open>the caller's operation ran on this plaintext\<close>
  | Deleted ident ident

section \<open>The parameters of the vault\<close>

record aead =
  sealWith :: "string \<Rightarrow> string \<Rightarrow> string \<Rightarrow> string \<Rightarrow> sealed" \<comment> \<open>key, associated data, iv, plaintext\<close>
  openWith :: "string \<Rightarrow> string \<Rightarrow> sealed \<Rightarrow> string option"

record vault_options =
  cipher :: aead
  masterKey :: string
  systemAccess :: "system_access option"
  auditPort :: "nat \<Rightarrow> credential_audit \<Rightarrow> unit option"
  savePort :: "nat \<Rightarrow> encrypted_credential \<Rightarrow> unit option"
  loadPort :: "nat \<Rightarrow> ident \<Rightarrow> ident \<Rightarrow> encrypted_credential option option"
  deletePort :: "(nat \<Rightarrow> ident \<Rightarrow> ident \<Rightarrow> bool option) option"
  operationPort :: "nat \<Rightarrow> string \<Rightarrow> unit option"
  randomBytes :: "nat \<Rightarrow> nat \<Rightarrow> string" \<comment> \<open>call number and length\<close>
  clockPort :: "nat \<Rightarrow> int"

record credential_input =
  inputCredentialId :: ident
  inputOwnerUserId :: ident
  inputActor :: security_actor
  inputCorrelationId :: ident

type_synonym 'a vault_io = "(vault_event, vault_error, 'a) io"

section \<open>Helpers\<close>

definition secretTypeText :: "secret_type \<Rightarrow> string" where
  "secretTypeText t = (case t of PROVIDER_CREDENTIAL \<Rightarrow> ''PROVIDER_CREDENTIAL''
     | SOURCE_CREDENTIAL \<Rightarrow> ''SOURCE_CREDENTIAL'')"

definition credentialAad :: "ident \<Rightarrow> ident \<Rightarrow> secret_type \<Rightarrow> string" where
  "credentialAad cid owner t = nulKey cid (nulKey owner (secretTypeText t))"

definition allowsSystemAccess :: "system_access option \<Rightarrow> security_actor \<Rightarrow> access_action \<Rightarrow> bool" where
  "allowsSystemAccess access actor action \<longleftrightarrow>
     (case access of None \<Rightarrow> False
      | Some a \<Rightarrow> actorRole actor = SYSTEM \<and> actorObject actor = actorObject (accessActor a)
                 \<and> action \<in> set (accessActions a))"

definition appendCredentialAudit ::
    "vault_options \<Rightarrow> credential_input \<Rightarrow> audit_action \<Rightarrow> audit_result \<Rightarrow> unit vault_io" where
  "appendCredentialAudit opts inp action res = (\<lambda>s.
     let r = \<lparr>auditActor = inputActor inp, auditAction = action, auditObject = inputCredentialId inp,
              auditResult = res, auditCorrelationId = inputCorrelationId inp,
              auditOccurredAt = toISOString (clockPort opts (calls s))\<rparr>
     in call_port (\<lambda>n. auditPort opts n r) (\<lambda>_. [Audited r]) PORT_FAILED s)"

text \<open>Who may touch the credential at all: its owner, or the system actor where it was granted.\<close>

definition mayAccess :: "vault_options \<Rightarrow> credential_input \<Rightarrow> access_action \<Rightarrow> bool" where
  "mayAccess opts inp action \<longleftrightarrow>
     (if actorRole (inputActor inp) = SYSTEM
      then allowsSystemAccess (systemAccess opts) (inputActor inp) action
      else actorUserId (inputActor inp) = inputOwnerUserId inp)"

definition denied :: "vault_options \<Rightarrow> credential_input \<Rightarrow> audit_action \<Rightarrow> vault_error \<Rightarrow> 'a vault_io" where
  "denied opts inp action err =
     and_then (appendCredentialAudit opts inp action DENIED) (\<lambda>_. throw err)"

definition failed :: "vault_options \<Rightarrow> credential_input \<Rightarrow> audit_action \<Rightarrow> vault_error \<Rightarrow> 'a vault_io" where
  "failed opts inp action err =
     and_then (appendCredentialAudit opts inp action FAILED) (\<lambda>_. throw err)"

section \<open>The vault\<close>

definition sealCredential ::
    "vault_options \<Rightarrow> credential_input \<Rightarrow> secret_type \<Rightarrow> string \<Rightarrow> nat \<Rightarrow> encrypted_credential" where
  "sealCredential opts inp t secret n =
     (let dataKey = randomBytes opts n 32;
          aad = credentialAad (inputCredentialId inp) (inputOwnerUserId inp) t
      in \<lparr>credentialId = inputCredentialId inp, ownerUserId = inputOwnerUserId inp, secretType = t,
          sealedSecret = sealWith (cipher opts) dataKey aad (randomBytes opts (n + 1) 12) secret,
          sealedDataKey = sealWith (cipher opts) (masterKey opts) aad (randomBytes opts (n + 2) 12) dataKey\<rparr>)"

definition storeCredential ::
    "vault_options \<Rightarrow> credential_input \<Rightarrow> secret_type \<Rightarrow> string \<Rightarrow> ident vault_io" where
  "storeCredential opts inp t secret =
     (if actorRole (inputActor inp) = SYSTEM \<or> actorUserId (inputActor inp) \<noteq> inputOwnerUserId inp
      then denied opts inp CREDENTIAL_STORE CREDENTIAL_OWNER_MISMATCH
      else and_then (appendCredentialAudit opts inp CREDENTIAL_STORE STARTED) (\<lambda>_.
        and_then (catching
          (\<lambda>s. let r = sealCredential opts inp t secret (calls s)
               in attempt_port (\<lambda>n. savePort opts n r) (Saved r) PORT_FAILED s)
          (\<lambda>_. failed opts inp CREDENTIAL_STORE CREDENTIAL_STORE_FAILED)) (\<lambda>_.
        and_then (appendCredentialAudit opts inp CREDENTIAL_STORE ALLOWED) (\<lambda>_.
        done_with (inputCredentialId inp)))))"

definition loadCredential :: "vault_options \<Rightarrow> credential_input \<Rightarrow> encrypted_credential option vault_io" where
  "loadCredential opts inp =
     call_port (\<lambda>n. loadPort opts n (inputCredentialId inp) (inputOwnerUserId inp)) (\<lambda>_. []) PORT_FAILED"

text \<open>Decrypting the envelope of a stored record.\<close>

definition openCredential :: "vault_options \<Rightarrow> encrypted_credential \<Rightarrow> string option" where
  "openCredential opts r =
     (let aad = credentialAad (credentialId r) (ownerUserId r) (secretType r) in
      case openWith (cipher opts) (masterKey opts) aad (sealedDataKey r) of
        None \<Rightarrow> None
      | Some dataKey \<Rightarrow> openWith (cipher opts) dataKey aad (sealedSecret r))"

definition recordMatches :: "vault_options \<Rightarrow> credential_input \<Rightarrow> encrypted_credential \<Rightarrow> bool" where
  "recordMatches opts inp r \<longleftrightarrow>
     ownerUserId r = inputOwnerUserId inp \<and> credentialId r = inputCredentialId inp
     \<and> (actorRole (inputActor inp) = SYSTEM \<longrightarrow>
          map_option accessSecretType (systemAccess opts) = Some (secretType r))"

text \<open>The operation on the decrypted secret; \<open>None\<close> when it succeeded.\<close>

definition runOperation :: "vault_options \<Rightarrow> encrypted_credential \<Rightarrow> vault_error option vault_io" where
  "runOperation opts r =
     (case openCredential opts r of
        None \<Rightarrow> done_with (Some CREDENTIAL_USE_FAILED)
      | Some secret \<Rightarrow>
          catching
            (and_then (attempt_port (\<lambda>n. operationPort opts n secret) (Operated secret) PORT_FAILED)
              (\<lambda>_. done_with None))
            (\<lambda>_. done_with (Some SECRET_OPERATION_FAILED)))"

definition useCredential :: "vault_options \<Rightarrow> credential_input \<Rightarrow> unit vault_io" where
  "useCredential opts inp =
     (if \<not> mayAccess opts inp USE then denied opts inp CREDENTIAL_USE CREDENTIAL_NOT_FOUND
      else and_then (appendCredentialAudit opts inp CREDENTIAL_USE STARTED) (\<lambda>_.
        and_then (catching (loadCredential opts inp)
          (\<lambda>_. failed opts inp CREDENTIAL_USE CREDENTIAL_USE_FAILED)) (\<lambda>loaded.
        case loaded of
          None \<Rightarrow> denied opts inp CREDENTIAL_USE CREDENTIAL_NOT_FOUND
        | Some r \<Rightarrow>
            if \<not> recordMatches opts inp r then denied opts inp CREDENTIAL_USE CREDENTIAL_NOT_FOUND
            else and_then (runOperation opts r) (\<lambda>err.
              and_then (appendCredentialAudit opts inp CREDENTIAL_USE
                  (if err = None then ALLOWED else FAILED)) (\<lambda>_.
              case err of None \<Rightarrow> done_with () | Some e \<Rightarrow> throw e)))))"

text \<open>The check that a system actor deletes credentials of its secret type only.\<close>

definition checkSystemDelete :: "vault_options \<Rightarrow> credential_input \<Rightarrow> unit vault_io" where
  "checkSystemDelete opts inp =
     and_then (catching (loadCredential opts inp)
       (\<lambda>_. failed opts inp CREDENTIAL_DELETE CREDENTIAL_DELETE_FAILED)) (\<lambda>loaded.
     if map_option secretType loaded \<noteq> map_option accessSecretType (systemAccess opts)
     then denied opts inp CREDENTIAL_DELETE CREDENTIAL_NOT_FOUND
     else done_with ())"

definition deleteStored :: "vault_options \<Rightarrow> credential_input \<Rightarrow> bool vault_io" where
  "deleteStored opts inp =
     (case deletePort opts of
        None \<Rightarrow> throw CREDENTIAL_DELETE_UNSUPPORTED
      | Some del \<Rightarrow>
          attempt_port (\<lambda>n. del n (inputCredentialId inp) (inputOwnerUserId inp))
            (Deleted (inputCredentialId inp) (inputOwnerUserId inp)) PORT_FAILED)"

definition deleteCredential :: "vault_options \<Rightarrow> credential_input \<Rightarrow> bool vault_io" where
  "deleteCredential opts inp =
     (if \<not> mayAccess opts inp DELETE then denied opts inp CREDENTIAL_DELETE CREDENTIAL_NOT_FOUND
      else and_then
        (if actorRole (inputActor inp) = SYSTEM then checkSystemDelete opts inp else done_with ()) (\<lambda>_.
        and_then (appendCredentialAudit opts inp CREDENTIAL_DELETE STARTED) (\<lambda>_.
        catching
          (and_then (deleteStored opts inp) (\<lambda>d.
           and_then (appendCredentialAudit opts inp CREDENTIAL_DELETE ALLOWED) (\<lambda>_. done_with d)))
          (\<lambda>_. failed opts inp CREDENTIAL_DELETE CREDENTIAL_DELETE_FAILED))))"

section \<open>The risk policy\<close>

datatype risk_operation = READ_PUBLIC_SOURCE | READ_PRIVATE_SOURCE | INVOKE_PROVIDER | WRITE_EXTERNAL

datatype risk_decision = ALLOW | DENY | REQUIRE_CONFIRMATION

record risk_confirmation =
  confirmedOperationId :: ident
  confirmedUserId :: ident

definition evaluateRiskPolicy ::
    "risk_operation \<Rightarrow> ident \<Rightarrow> ident \<Rightarrow> risk_confirmation option \<Rightarrow> risk_decision" where
  "evaluateRiskPolicy oper operId uid conf =
     (if oper = WRITE_EXTERNAL then DENY
      else if oper = READ_PUBLIC_SOURCE then ALLOW
      else (case conf of None \<Rightarrow> REQUIRE_CONFIRMATION
            | Some c \<Rightarrow> if confirmedOperationId c = operId \<and> confirmedUserId c = uid
                        then ALLOW else REQUIRE_CONFIRMATION))"

section \<open>The egress guard\<close>

record egress_record =
  egressId :: ident
  egressUserId :: ident
  egressOperationId :: ident
  egressCorrelationId :: ident
  destinationOrigin :: string
  egressMethod :: string
  egressOccurredAt :: string

text \<open>What the guard records, and what the guarded request itself does.\<close>

datatype 'e egress_event = Recorded egress_record | Performed 'e

record egress_options =
  recordPort :: "nat \<Rightarrow> egress_record \<Rightarrow> unit option"
  urlOrigin :: "string \<Rightarrow> string option" \<comment> \<open>\<open>new URL(url).origin\<close>; \<open>None\<close> when the constructor throws\<close>
  nextId :: "nat \<Rightarrow> ident"
  egressClock :: "nat \<Rightarrow> int"

record egress_input =
  egUserId :: ident
  egOperationId :: ident
  egOperation :: risk_operation
  egConfirmation :: "risk_confirmation option"
  egCorrelationId :: ident
  egDestinationUrl :: string
  egMethod :: string

text \<open>\<open>toUpperCase\<close>; of the Latin-1 letters, the sharp s alone becomes two characters.\<close>

definition upperChar :: "char \<Rightarrow> string" where
  "upperChar c =
     (let n = (of_char c :: nat) in
      if (97 \<le> n \<and> n \<le> 122) \<or> (224 \<le> n \<and> n \<le> 254 \<and> n \<noteq> 247) then [char_of (n - 32)]
      else if n = 223 then ''SS'' else [c])"

definition toUpperCase :: "string \<Rightarrow> string" where
  "toUpperCase s = concat (map upperChar s)"

definition effectiveOperation :: "egress_input \<Rightarrow> risk_operation" where
  "effectiveOperation inp =
     (if toUpperCase (egMethod inp) \<noteq> ''GET'' \<and> toUpperCase (egMethod inp) \<noteq> ''HEAD''
         \<and> egOperation inp \<noteq> INVOKE_PROVIDER
      then WRITE_EXTERNAL else egOperation inp)"

datatype 'a egress_result = EgressCompleted 'a | EgressRefused risk_decision

type_synonym ('e, 'a) egress_io = "('e egress_event, unit, 'a) io"

definition recordEgress :: "egress_options \<Rightarrow> egress_input \<Rightarrow> string \<Rightarrow> ('e, unit) egress_io" where
  "recordEgress opts inp orig = (\<lambda>s.
     let r = \<lparr>egressId = nextId opts (calls s), egressUserId = egUserId inp,
              egressOperationId = egOperationId inp, egressCorrelationId = egCorrelationId inp,
              destinationOrigin = orig, egressMethod = toUpperCase (egMethod inp),
              egressOccurredAt = toISOString (egressClock opts (calls s))\<rparr>
     in call_port (\<lambda>n. recordPort opts n r) (\<lambda>_. [Recorded r]) () s)"

definition executeEgress ::
    "egress_options \<Rightarrow> egress_input \<Rightarrow> ('e, 'a) egress_io \<Rightarrow> ('e, 'a egress_result) egress_io" where
  "executeEgress opts inp perform =
     (let decision = evaluateRiskPolicy (effectiveOperation inp) (egOperationId inp) (egUserId inp) (egConfirmation inp) in
      if decision \<noteq> ALLOW then done_with (EgressRefused decision)
      else (case urlOrigin opts (egDestinationUrl inp) of
          None \<Rightarrow> throw ()
        | Some orig \<Rightarrow>
            and_then (recordEgress opts inp orig) (\<lambda>_.
            and_then perform (\<lambda>a. done_with (EgressCompleted a)))))"

end
