(* ===== verification/CM_Store.thy ===== *)
theory CM_Store
  imports CM_Executor CM_Security
begin

text \<open>
  The tables of the task store (packages/task-persistence/src/migration.ts) and what the operations of
  packages/task-persistence/src/index.ts share: transactions, inserting and loading run events, the
  snapshot of a task row. A table is the list of its rows in insertion order. A transaction either
  commits or leaves the database as it was; transactions lock the rows they decide on, so they are
  atomic here. The constraints of the schema that an insert can violate are checked where it happens.
  The clock (in milliseconds), the values of \<open>randomUUID\<close>, SHA-256 and the JSON of typed values are
  parameters.
\<close>

section \<open>Rows\<close>

datatype task_row_state =
    ACCEPTED | RUNNING | COMPLETED | FAILED_RETRYABLE | FAILED_FINAL | PARTIAL
  | PAUSED paused_state | CANCELLED

record submission =
  subRequestId :: ident
  subOwner :: ident
  subFingerprint :: string
  subTask :: ident
  subCommand :: json
  subCreatedAt :: int

record operation_row =
  opId :: ident
  opRun :: ident
  opRequestId :: ident
  opTask :: ident
  opState :: task_row_state
  opWorker :: "ident option"
  opLease :: "int option"
  opResult :: "json option"
  opCreatedAt :: int
  opUpdatedAt :: int

record agent_run =
  runId :: ident
  runOperation :: ident
  runAttempt :: nat
  runCreatedAt :: int

record event_row =
  evCursor :: nat
  evId :: ident
  evTask :: ident
  evRun :: ident
  evSequence :: int
  evPayload :: json
  evOccurredAt :: string
  evPersistedAt :: int

record notification_row =
  noteCursor :: nat
  noteTask :: ident
  noteAttempts :: nat
  noteNextAttempt :: int
  notePublishedAt :: "int option"
  noteCreatedAt :: int

record outbox_row =
  outMessage :: ident
  outOperation :: ident
  outAttempts :: nat
  outNextAttempt :: int
  outPublishedAt :: "int option"
  outCreatedAt :: int

datatype runtime_control_state = RUNNING | PAUSED paused_state | COMPLETED | CANCELLED | FAILED

record control_state_row =
  csRun :: ident
  csSnapshot :: "ident option"
  csState :: runtime_control_state
  csCancellation :: "ident option"
  csEvents :: json
  csController :: "ident option"
  csLease :: "int option"
  csUpdatedAt :: int

record control_request_row =
  crId :: ident
  crOperation :: ident
  crTask :: ident
  crRun :: ident
  crOwner :: ident
  crAction :: control_action
  crSnapshot :: "ident option"
  crCancellation :: "ident option"
  crCorrelation :: ident
  crConfirmation :: "(ident \<times> ident) option" \<comment> \<open>operation id and user id\<close>
  crState :: control_request_state
  crWorker :: "ident option"
  crLease :: "int option"
  crResult :: "json option"
  crCreatedAt :: int
  crUpdatedAt :: int

record object_row =
  objDigest :: string
  objKey :: string
  objPayload :: json
  objCreatedAt :: int

record effect_identity =
  effTask :: ident
  effRun :: ident
  effCheckpoint :: ident
  effId :: ident

record binding_row =
  bindIdentity :: effect_identity
  bindDigest :: string
  bindKey :: string
  bindCreatedAt :: int

record fact_row =
  factSnapshotId :: ident
  factTask :: ident
  factRun :: ident
  factDigest :: string
  factPayload :: json
  factCreatedAt :: int

record receipt_row =
  rcptId :: ident
  rcptSnapshotId :: ident
  rcptPayload :: json
  rcptCreatedAt :: int

record audit_row =
  auRecordId :: ident
  auPrincipal :: ident
  auUser :: ident
  auRole :: security_role
  auAction :: string
  auObjectType :: string
  auObjectId :: ident
  auResult :: string
  auCorrelation :: ident
  auOccurredAt :: int

record indexed_evidence =
  ixEvidence :: ident
  ixTask :: ident
  ixCapturedAt :: int
  ixValidUntil :: int
  ixSection :: string
  ixField :: string
  ixSourceId :: ident
  ixTitle :: string
  ixUrl :: string
  ixExcerptDigest :: string
  ixParserVersion :: string
  ixRawArtifact :: raw_artifact
  ixModel :: string
  ixVector :: "rat list"

text \<open>The columns of the tables that hold what the security package stores are its own records.\<close>

record database =
  submissions :: "submission list"
  operations :: "operation_row list"
  agentRuns :: "agent_run list"
  eventRows :: "event_row list"
  nextCursor :: nat
  notifications :: "notification_row list"
  outbox :: "outbox_row list"
  controlStates :: "control_state_row list"
  controlRequests :: "control_request_row list"
  snapshotObjects :: "object_row list"
  effectObjects :: "object_row list"
  effectBindings :: "binding_row list"
  recoveryFacts :: "fact_row list"
  effectReceiptRows :: "receipt_row list"
  auditRows :: "audit_row list"
  credentialRows :: "encrypted_credential list"
  egressRows :: "egress_record list"
  evidenceRows :: "indexed_evidence list"

definition emptyDatabase :: database where
  "emptyDatabase =
     \<lparr>submissions = [], operations = [], agentRuns = [], eventRows = [], nextCursor = 1,
      notifications = [], outbox = [], controlStates = [], controlRequests = [],
      snapshotObjects = [], effectObjects = [], effectBindings = [], recoveryFacts = [],
      effectReceiptRows = [], auditRows = [], credentialRows = [], egressRows = [], evidenceRows = []\<rparr>"

section \<open>Transactions\<close>

datatype store_error =
    PersistenceUnavailableError
  | IdempotencyConflictError ident
  | EffectResultIntegrityError
  | RuntimeControlRejectedError
  | RuntimeCancelRejectedError
  | TypeErrorThrown \<comment> \<open>of \<open>canonicalizeJsonV1\<close>, outside the \<open>try\<close>\<close>

type_synonym 'a tx = "database \<Rightarrow> store_error + ('a \<times> database)"

definition returns :: "'a \<Rightarrow> 'a tx" where
  "returns a = (\<lambda>d. Inr (a, d))"

definition aborts :: "store_error \<Rightarrow> 'a tx" where
  "aborts e = (\<lambda>d. Inl e)"

definition andThen :: "'a tx \<Rightarrow> ('a \<Rightarrow> 'b tx) \<Rightarrow> 'b tx" where
  "andThen m f = (\<lambda>d. case m d of Inl e \<Rightarrow> Inl e | Inr (a, d') \<Rightarrow> f a d')"

definition updating :: "(database \<Rightarrow> database) \<Rightarrow> unit tx" where
  "updating f = (\<lambda>d. Inr ((), f d))"

definition unavailable :: "'a tx" where
  "unavailable = aborts PersistenceUnavailableError"

text \<open>An insert that the schema accepts only when \<open>ok\<close> holds.\<close>

definition inserting :: "(database \<Rightarrow> bool) \<Rightarrow> (database \<Rightarrow> database) \<Rightarrow> unit tx" where
  "inserting ok f = (\<lambda>d. if ok d then Inr ((), f d) else Inl PersistenceUnavailableError)"

text \<open>\<open>COMMIT\<close>, or \<open>ROLLBACK\<close> and the error.\<close>

definition transact :: "'a tx \<Rightarrow> database \<Rightarrow> (store_error + 'a) \<times> database" where
  "transact m d = (case m d of Inl e \<Rightarrow> (Inl e, d) | Inr (a, d') \<Rightarrow> (Inr a, d'))"

fun forAll :: "('a \<Rightarrow> unit tx) \<Rightarrow> 'a list \<Rightarrow> unit tx" where
  "forAll f [] = returns ()"
| "forAll f (x # xs) = andThen (f x) (\<lambda>_. forAll f xs)"

section \<open>Parameters\<close>

text \<open>
  \<open>stJsonb v\<close> is what a jsonb column gives back for \<open>v\<close>; \<open>stCommandJson\<close> and the like are typed
  values as JSON.
\<close>

record store_env =
  stFormats :: zod_formats
  stCommand :: "execute_command zod_shape"
  stPaused :: paused_codec
  stResult :: "decision_task_result zod_shape"
  stEvent :: "persisted_run_event zod_shape"
  stCommandJson :: "execute_command \<Rightarrow> json"
  stEventJson :: "run_event \<Rightarrow> json"
  stPausedJson :: "paused_outcome \<Rightarrow> json"
  stResultJson :: "decision_task_result \<Rightarrow> json"
  stJsonb :: "json \<Rightarrow> json"
  stStringify :: "json \<Rightarrow> string"
  stSha256 :: "string \<Rightarrow> string"

definition decodeSnapshot :: "store_env \<Rightarrow> json \<Rightarrow> runtime_snapshot decoded" where
  "decodeSnapshot env = decodeRuntimeSnapshotV1 (stFormats env) (snapshotShape (stPaused env))"

definition decodeReceipt :: "store_env \<Rightarrow> json \<Rightarrow> effect_receipt decoded" where
  "decodeReceipt env = decodeEffectReceiptV1 (stFormats env) (receiptShape (stPaused env))"

definition decodePaused :: "store_env \<Rightarrow> json \<Rightarrow> paused_outcome decoded" where
  "decodePaused env = decodeRuntimePausedOutcomeV1 (stFormats env) (stPaused env)"

text \<open>All values decode, or there is an error.\<close>

fun decodeAll :: "('a \<Rightarrow> 'b decoded) \<Rightarrow> 'a list \<Rightarrow> 'b list option" where
  "decodeAll f [] = Some []"
| "decodeAll f (x # xs) = (case (f x, decodeAll f xs) of (Inr y, Some ys) \<Rightarrow> Some (y # ys) | _ \<Rightarrow> None)"

lemma decodeAll_length: "decodeAll f xs = Some ys \<Longrightarrow> length ys = length xs"
  by (induction xs arbitrary: ys) (auto split: sum.splits option.splits)

section \<open>Run events\<close>

definition runEventText :: "ident \<Rightarrow> ident \<Rightarrow> ident \<Rightarrow> int \<Rightarrow> int \<Rightarrow> event_type \<Rightarrow> decision_task_state \<Rightarrow> string \<Rightarrow> run_event" where
  "runEventText uuid tid rid n at_time ty st sm =
     \<lparr>run_event.eventId = ''event-persistent-'' @ uuid, decisionTaskId = tid, agentRunId = rid,
      sequence = n, occurredAt = toISOString at_time, eventType = ty, taskState = st, summary = sm\<rparr>"

text \<open>The row and its notification; the event id, and the sequence within the run, must be new.\<close>

definition insertRunEvent :: "store_env \<Rightarrow> run_event \<Rightarrow> int \<Rightarrow> unit tx" where
  "insertRunEvent env ev storedAt = inserting
     (\<lambda>d. run_event.eventId ev \<notin> evId ` set (eventRows d)
        \<and> (run_event.agentRunId ev, run_event.sequence ev) \<notin> (\<lambda>e. (evRun e, evSequence e)) ` set (eventRows d)
        \<and> run_event.agentRunId ev \<in> runId ` set (agentRuns d)
        \<and> run_event.sequence ev > 0)
     (\<lambda>d. d\<lparr>eventRows := eventRows d @ [\<lparr>evCursor = nextCursor d, evId = run_event.eventId ev,
               evTask = run_event.decisionTaskId ev, evRun = run_event.agentRunId ev,
               evSequence = run_event.sequence ev, evPayload = stJsonb env (stEventJson env ev),
               evOccurredAt = run_event.occurredAt ev, evPersistedAt = storedAt\<rparr>],
           nextCursor := Suc (nextCursor d),
           notifications := notifications d @ [\<lparr>noteCursor = nextCursor d, noteTask = run_event.decisionTaskId ev,
               noteAttempts = 0, noteNextAttempt = storedAt, notePublishedAt = None,
               noteCreatedAt = storedAt\<rparr>]\<rparr>)"

definition persistedEventJson :: "event_row \<Rightarrow> json" where
  "persistedEventJson e =
     JObj [(''contractType'', JStr ''persisted-run-event''), (''contractVersion'', JStr ''1.0''),
       (''cursor'', JStr (decimal (evCursor e))), (''event'', evPayload e)]"

definition decodeEventRow :: "store_env \<Rightarrow> event_row \<Rightarrow> persisted_run_event decoded" where
  "decodeEventRow env e = decodePersistedRunEventV1 (stFormats env) (stEvent env) (persistedEventJson e)"

definition loadRunEvents :: "store_env \<Rightarrow> ident \<Rightarrow> ident \<Rightarrow> run_event list tx" where
  "loadRunEvents env tid rid = (\<lambda>d.
     case decodeAll (decodeEventRow env)
       (sort_key evSequence (filter (\<lambda>e. evTask e = tid \<and> evRun e = rid) (eventRows d))) of
       None \<Rightarrow> Inl PersistenceUnavailableError
     | Some ps \<Rightarrow> Inr (map persisted_run_event.event ps, d))"

definition insertRunEvents :: "store_env \<Rightarrow> int \<Rightarrow> run_event list \<Rightarrow> unit tx" where
  "insertRunEvents env storedAt = forAll (\<lambda>ev. insertRunEvent env ev storedAt)"

section \<open>Joins\<close>

definition submissionOf :: "database \<Rightarrow> operation_row \<Rightarrow> submission option" where
  "submissionOf d oper = find (\<lambda>s. subRequestId s = opRequestId oper) (submissions d)"

definition ownedBy :: "database \<Rightarrow> ident \<Rightarrow> operation_row \<Rightarrow> bool" where
  "ownedBy d owner oper = (case submissionOf d oper of None \<Rightarrow> False | Some s \<Rightarrow> subOwner s = owner)"

text \<open>\<open>ORDER BY operation.created_at DESC LIMIT 1\<close>; of equal times the earlier row.\<close>

definition latestOf :: "operation_row list \<Rightarrow> operation_row option" where
  "latestOf ops = (case sort_key (\<lambda>oper. - opCreatedAt oper) ops of [] \<Rightarrow> None | oper # _ \<Rightarrow> Some oper)"

definition latestOperation :: "database \<Rightarrow> ident \<Rightarrow> ident \<Rightarrow> operation_row option" where
  "latestOperation d tid owner =
     latestOf (filter (\<lambda>oper. opTask oper = tid \<and> ownedBy d owner oper) (operations d))"

definition updateWhere :: "('r \<Rightarrow> bool) \<Rightarrow> ('r \<Rightarrow> 'r) \<Rightarrow> 'r list \<Rightarrow> 'r list" where
  "updateWhere p f = map (\<lambda>r. if p r then f r else r)"

section \<open>Snapshots of a task row\<close>

definition snapshotOfRow :: "operation_row \<Rightarrow> snapshot_state \<Rightarrow> task_snapshot" where
  "snapshotOfRow oper st =
     \<lparr>task_snapshot.executionRequestId = opRequestId oper, decisionTaskId = opTask oper,
      agentRunId = opRun oper, state = st,
      terminal = (opState oper = task_row_state.FAILED_FINAL \<or> opState oper = task_row_state.CANCELLED),
      updatedAt = toISOString (opUpdatedAt oper)\<rparr>"

text \<open>\<open>None\<close> is the \<open>PersistenceUnavailableError\<close>, also for a COMPLETED row.\<close>

definition toTaskSnapshot :: "store_env \<Rightarrow> operation_row \<Rightarrow> task_snapshot option" where
  "toTaskSnapshot env oper = (case opState oper of
      task_row_state.PAUSED p \<Rightarrow>
        (case opResult oper of
           None \<Rightarrow> None
         | Some payload \<Rightarrow>
             (case decodePaused env payload of
                Inl _ \<Rightarrow> None
              | Inr v \<Rightarrow>
                  if paused_outcome.state v \<noteq> p
                     \<or> runtime_snapshot.decisionTaskId (paused_outcome.snapshot v) \<noteq> opTask oper
                     \<or> runtime_snapshot.agentRunId (paused_outcome.snapshot v) \<noteq> opRun oper
                  then None
                  else Some (snapshotOfRow oper
                    (snapshot_state.PAUSED p (runtime_snapshot.snapshotId (paused_outcome.snapshot v))))))
    | task_row_state.ACCEPTED \<Rightarrow> Some (snapshotOfRow oper snapshot_state.ACCEPTED)
    | task_row_state.RUNNING \<Rightarrow> Some (snapshotOfRow oper snapshot_state.RUNNING)
    | task_row_state.FAILED_RETRYABLE \<Rightarrow> Some (snapshotOfRow oper snapshot_state.FAILED_RETRYABLE)
    | task_row_state.FAILED_FINAL \<Rightarrow> Some (snapshotOfRow oper snapshot_state.FAILED_FINAL)
    | task_row_state.PARTIAL \<Rightarrow> Some (snapshotOfRow oper snapshot_state.PARTIAL)
    | task_row_state.CANCELLED \<Rightarrow> Some (snapshotOfRow oper snapshot_state.CANCELLED)
    | task_row_state.COMPLETED \<Rightarrow> None)"

definition snapshotTx :: "store_env \<Rightarrow> operation_row \<Rightarrow> task_snapshot tx" where
  "snapshotTx env oper = (case toTaskSnapshot env oper of None \<Rightarrow> unavailable | Some s \<Rightarrow> returns s)"

text \<open>A decision result as stored: it must decode to a result of this task and run.\<close>

definition decodePersistedResult :: "store_env \<Rightarrow> json \<Rightarrow> operation_row \<Rightarrow> decision_task_result option" where
  "decodePersistedResult env v oper =
     (case decodeDecisionTaskResultV1 (stFormats env) (stResult env) v of
        Inl _ \<Rightarrow> None
      | Inr r \<Rightarrow>
          (case r of
             Succeeded s _ _ \<Rightarrow>
               if completed_status.agentRunId s = opRun oper \<and> completed_status.decisionTaskId s = opTask oper
               then Some r else None
           | Failed s _ _ \<Rightarrow>
               if failed_status.agentRunId s = opRun oper \<and> failed_status.decisionTaskId s = opTask oper
               then Some r else None
           | Rejected _ \<Rightarrow> None))"

end
