(* ===== verification/CM_Recovery_Store.thy ===== *)
theory CM_Recovery_Store
  imports CM_Store
begin

text \<open>
  \<open>openRuntimeRecoveryStore\<close> of packages/task-persistence/src/index.ts: content-addressed snapshots and
  effect results, recovery facts, and the control state of a run, by which at most one controller
  drives it. An operation that is not a transaction in the source commits each statement by itself.
\<close>

section \<open>Content-addressed objects\<close>

definition isHexDigit :: "char \<Rightarrow> bool" where
  "isHexDigit c \<longleftrightarrow> (CHR ''0'' \<le> c \<and> c \<le> CHR ''9'') \<or> (CHR ''a'' \<le> c \<and> c \<le> CHR ''f'')"

definition isSha256 :: "string \<Rightarrow> bool" where
  "isSha256 s \<longleftrightarrow> length s = 64 \<and> list_all isHexDigit s"

definition SNAPSHOT_PREFIX :: string where
  "SNAPSHOT_PREFIX = ''runtime-snapshots/sha256/''"

definition EFFECT_PREFIX :: string where
  "EFFECT_PREFIX = ''effect-results/sha256/''"

definition canonicalOf :: "store_env \<Rightarrow> json \<Rightarrow> string option" where
  "canonicalOf env = canonicalizeJsonV1 (stStringify env)"

text \<open>\<open>INSERT ... ON CONFLICT (digest) DO NOTHING\<close>; \<open>None\<close> when the schema rejects the row.\<close>

definition insertObject :: "store_env \<Rightarrow> string \<Rightarrow> string \<Rightarrow> json \<Rightarrow> int \<Rightarrow> object_row list \<Rightarrow> object_row list option" where
  "insertObject env area dig payload now rows =
     (if dig \<in> objDigest ` set rows then Some rows
      else if isSha256 dig \<and> area @ dig \<notin> objKey ` set rows
      then Some (rows @ [\<lparr>objDigest = dig, objKey = area @ dig, objPayload = stJsonb env payload,
                          objCreatedAt = now\<rparr>])
      else None)"

text \<open>The stored row is the one that was meant to be stored.\<close>

definition objectStored :: "store_env \<Rightarrow> string \<Rightarrow> string \<Rightarrow> string \<Rightarrow> object_row list \<Rightarrow> bool" where
  "objectStored env area dig canonical rows =
     (case find (\<lambda>r. objDigest r = dig) rows of
        None \<Rightarrow> False
      | Some r \<Rightarrow> objKey r = area @ dig \<and> canonicalOf env (objPayload r) = Some canonical)"

definition putRawSnapshot ::
    "store_env \<Rightarrow> int \<Rightarrow> json \<Rightarrow> database \<Rightarrow> (store_error + raw_artifact) \<times> database" where
  "putRawSnapshot env now payload d =
     (case canonicalOf env payload of
        None \<Rightarrow> (Inl TypeErrorThrown, d)
      | Some canonical \<Rightarrow>
          let dig = stSha256 env canonical in
          (case insertObject env SNAPSHOT_PREFIX dig payload now (snapshotObjects d) of
             None \<Rightarrow> (Inl PersistenceUnavailableError, d)
           | Some rows \<Rightarrow>
               (if objectStored env SNAPSHOT_PREFIX dig canonical rows
                then Inr \<lparr>raw_artifact.digest = dig, objectKey = SNAPSHOT_PREFIX @ dig\<rparr>
                else Inl PersistenceUnavailableError, d\<lparr>snapshotObjects := rows\<rparr>)))"

definition loadRawSnapshot :: "store_env \<Rightarrow> raw_artifact \<Rightarrow> database \<Rightarrow> store_error + json option" where
  "loadRawSnapshot env ref d =
     (let dig = raw_artifact.digest ref in
      if \<not> isSha256 dig \<or> raw_artifact.objectKey ref \<noteq> SNAPSHOT_PREFIX @ dig
      then Inl PersistenceUnavailableError
      else case find (\<lambda>r. objDigest r = dig \<and> objKey r = raw_artifact.objectKey ref) (snapshotObjects d) of
             None \<Rightarrow> Inr None
           | Some r \<Rightarrow>
               (case canonicalOf env (objPayload r) of
                  None \<Rightarrow> Inl PersistenceUnavailableError
                | Some c \<Rightarrow> if stSha256 env c \<noteq> dig then Inl PersistenceUnavailableError
                            else Inr (Some (objPayload r))))"

section \<open>Effect results\<close>

definition refOf :: "effect_identity \<Rightarrow> string \<Rightarrow> effect_result_ref" where
  "refOf idn dig = \<lparr>effect_result_ref.digest = dig, objectKey = EFFECT_PREFIX @ dig,
     decisionTaskId = effTask idn, agentRunId = effRun idn, checkpointId = effCheckpoint idn,
     effectId = effId idn\<rparr>"

definition identityOfRef :: "effect_result_ref \<Rightarrow> effect_identity" where
  "identityOfRef r = \<lparr>effTask = effect_result_ref.decisionTaskId r, effRun = effect_result_ref.agentRunId r,
     effCheckpoint = effect_result_ref.checkpointId r, effId = effect_result_ref.effectId r\<rparr>"

text \<open>\<open>ON CONFLICT (identity) DO NOTHING\<close>: the first binding of an effect stays.\<close>

definition insertBinding :: "effect_identity \<Rightarrow> string \<Rightarrow> int \<Rightarrow> binding_row list \<Rightarrow> binding_row list" where
  "insertBinding idn dig now rows =
     (if idn \<in> bindIdentity ` set rows then rows
      else rows @ [\<lparr>bindIdentity = idn, bindDigest = dig, bindKey = EFFECT_PREFIX @ dig, bindCreatedAt = now\<rparr>])"

definition bindingOf :: "effect_identity \<Rightarrow> binding_row list \<Rightarrow> (string \<times> string) option" where
  "bindingOf idn rows = map_option (\<lambda>b. (bindDigest b, bindKey b)) (find (\<lambda>b. bindIdentity b = idn) rows)"

definition putEffectTx :: "store_env \<Rightarrow> int \<Rightarrow> effect_identity \<Rightarrow> json \<Rightarrow> string \<Rightarrow> effect_result_ref tx" where
  "putEffectTx env now idn payload canonical = (\<lambda>d.
     let dig = stSha256 env canonical in
     case insertObject env EFFECT_PREFIX dig payload now (effectObjects d) of
       None \<Rightarrow> Inl PersistenceUnavailableError
     | Some rows \<Rightarrow>
         if \<not> objectStored env EFFECT_PREFIX dig canonical rows then Inl PersistenceUnavailableError
         else let bs = insertBinding idn dig now (effectBindings d) in
           if bindingOf idn bs \<noteq> Some (dig, EFFECT_PREFIX @ dig) then Inl PersistenceUnavailableError
           else Inr (refOf idn dig, d\<lparr>effectObjects := rows, effectBindings := bs\<rparr>))"

definition putEffectResult ::
    "store_env \<Rightarrow> int \<Rightarrow> effect_identity \<Rightarrow> json \<Rightarrow> database \<Rightarrow> (store_error + effect_result_ref) \<times> database" where
  "putEffectResult env now idn payload d =
     (if effTask idn = [] \<or> effRun idn = [] \<or> effCheckpoint idn = [] \<or> effId idn = []
      then (Inl PersistenceUnavailableError, d)
      else case canonicalOf env payload of
             None \<Rightarrow> (Inl TypeErrorThrown, d)
           | Some canonical \<Rightarrow> transact (putEffectTx env now idn payload canonical) d)"

definition loadEffectResult :: "store_env \<Rightarrow> effect_result_ref \<Rightarrow> database \<Rightarrow> store_error + json option" where
  "loadEffectResult env ref d =
     (let dig = effect_result_ref.digest ref; k = effect_result_ref.objectKey ref in
      if \<not> isSha256 dig \<or> k \<noteq> EFFECT_PREFIX @ dig then Inl PersistenceUnavailableError
      else if \<not> list_ex (\<lambda>b. bindIdentity b = identityOfRef ref \<and> bindDigest b = dig \<and> bindKey b = k)
                (effectBindings d) then Inr None
      else case find (\<lambda>r. objDigest r = dig \<and> objKey r = k) (effectObjects d) of
             None \<Rightarrow> Inr None
           | Some r \<Rightarrow>
               (case canonicalOf env (objPayload r) of
                  None \<Rightarrow> Inl PersistenceUnavailableError
                | Some c \<Rightarrow> if stSha256 env c \<noteq> dig then Inl EffectResultIntegrityError
                            else Inr (Some (objPayload r))))"

section \<open>Recovery facts\<close>

text \<open>The receipts' bindings exist and the receipts are inserted, the first under each id staying.\<close>

definition bindingPresent :: "effect_result_ref \<Rightarrow> database \<Rightarrow> bool" where
  "bindingPresent r d \<longleftrightarrow> list_ex (\<lambda>b. bindIdentity b = identityOfRef r
      \<and> bindDigest b = effect_result_ref.digest r \<and> bindKey b = effect_result_ref.objectKey r) (effectBindings d)"

definition insertReceipt :: "store_env \<Rightarrow> int \<Rightarrow> ident \<Rightarrow> effect_receipt \<Rightarrow> unit tx" where
  "insertReceipt env now sid r = (\<lambda>d.
     if (case effect_receipt.state r of committed ref \<Rightarrow> \<not> bindingPresent ref d | _ \<Rightarrow> False)
     then Inl PersistenceUnavailableError
     else Inr ((), if effectReceiptId r \<in> rcptId ` set (effectReceiptRows d) then d
        else d\<lparr>effectReceiptRows := effectReceiptRows d @ [\<lparr>rcptId = effectReceiptId r, rcptSnapshotId = sid,
                 rcptPayload = stJsonb env (receiptJson (stPaused env) r), rcptCreatedAt = now\<rparr>]\<rparr>))"

definition insertFact :: "store_env \<Rightarrow> int \<Rightarrow> runtime_snapshot \<Rightarrow> unit tx" where
  "insertFact env now s = (\<lambda>d.
     let sid = runtime_snapshot.snapshotId s; raw = runtime_snapshot.rawSnapshot s;
         payload = snapshotJson (stPaused env) s in
     if \<not> list_ex (\<lambda>r. objDigest r = raw_artifact.digest raw \<and> objKey r = raw_artifact.objectKey raw)
         (snapshotObjects d) then Inl PersistenceUnavailableError
     else let d' = (if sid \<in> factSnapshotId ` set (recoveryFacts d) then d
            else d\<lparr>recoveryFacts := recoveryFacts d @ [\<lparr>factSnapshotId = sid,
                factTask = runtime_snapshot.decisionTaskId s, factRun = runtime_snapshot.agentRunId s,
                factDigest = raw_artifact.digest raw, factPayload = stJsonb env payload, factCreatedAt = now\<rparr>]\<rparr>)
       in case find (\<lambda>f. factSnapshotId f = sid) (recoveryFacts d') of
            None \<Rightarrow> Inl PersistenceUnavailableError
          | Some f \<Rightarrow>
              if canonicalize (stStringify env) (factPayload f) \<noteq> canonicalize (stStringify env) payload
              then Inl PersistenceUnavailableError else Inr ((), d'))"

definition receiptRowsOf :: "ident \<Rightarrow> database \<Rightarrow> receipt_row list" where
  "receiptRowsOf sid d = sort_key rcptId (filter (\<lambda>r. rcptSnapshotId r = sid) (effectReceiptRows d))"

definition checkReceipts :: "store_env \<Rightarrow> ident \<Rightarrow> effect_receipt list \<Rightarrow> unit tx" where
  "checkReceipts env sid rs = (\<lambda>d.
     if map (\<lambda>r. canonicalize (stStringify env) (rcptPayload r)) (receiptRowsOf sid d)
        = map (\<lambda>r. canonicalize (stStringify env) (receiptJson (stPaused env) r)) (sort_key effectReceiptId rs)
     then Inr ((), d) else Inl PersistenceUnavailableError)"

text \<open>The control state a snapshot's task state stands for; the schema has no row for another one.\<close>

definition controlStateOf :: "decision_task_state \<Rightarrow> runtime_control_state option" where
  "controlStateOf st = (case st of
      decision_task_state.PAUSED p \<Rightarrow> Some (runtime_control_state.PAUSED p)
    | decision_task_state.COMPLETED \<Rightarrow> Some runtime_control_state.COMPLETED
    | decision_task_state.FAILED \<Rightarrow> Some runtime_control_state.FAILED
    | decision_task_state.CANCELLED \<Rightarrow> Some runtime_control_state.CANCELLED
    | _ \<Rightarrow> None)"

definition upsertControlState :: "int \<Rightarrow> runtime_snapshot \<Rightarrow> unit tx" where
  "upsertControlState now s = (\<lambda>d.
     let rid = runtime_snapshot.agentRunId s; sid = runtime_snapshot.snapshotId s in
     case controlStateOf (runtime_snapshot.taskState s) of
       None \<Rightarrow> Inl PersistenceUnavailableError
     | Some st \<Rightarrow>
         if rid \<notin> csRun ` set (controlStates d)
         then Inr ((), d\<lparr>controlStates := controlStates d @ [\<lparr>csRun = rid, csSnapshot = Some sid,
                csState = st, csCancellation = None, csEvents = JArr [], csController = None, csLease = None,
                csUpdatedAt = now\<rparr>]\<rparr>)
         else Inr ((), d\<lparr>controlStates := updateWhere
                (\<lambda>r. csRun r = rid \<and> csState r = runtime_control_state.RUNNING \<and> csSnapshot r = None)
                (\<lambda>r. r\<lparr>csSnapshot := Some sid, csUpdatedAt := now\<rparr>) (controlStates d)\<rparr>))"

definition saveRecoveryFacts ::
    "store_env \<Rightarrow> int \<Rightarrow> runtime_snapshot \<Rightarrow> effect_receipt list \<Rightarrow> database \<Rightarrow> (store_error + unit) \<times> database" where
  "saveRecoveryFacts env now s rs d =
     (if \<not> isOk (decodeSnapshot env (snapshotJson (stPaused env) s))
         \<or> list_ex (\<lambda>r. case decodeReceipt env (receiptJson (stPaused env) r) of
              Inl _ \<Rightarrow> True | Inr v \<Rightarrow> \<not> receiptBelongs s v) rs
      then (Inl PersistenceUnavailableError, d)
      else transact
        (andThen (insertFact env now s) (\<lambda>_.
         andThen (forAll (insertReceipt env now (runtime_snapshot.snapshotId s)) rs) (\<lambda>_.
         andThen (checkReceipts env (runtime_snapshot.snapshotId s) rs) (\<lambda>_.
         upsertControlState now s)))) d)"

definition loadRecoveryFacts :: "store_env \<Rightarrow> ident \<Rightarrow> database \<Rightarrow> store_error + recovery_facts option" where
  "loadRecoveryFacts env sid d =
     (case find (\<lambda>f. factSnapshotId f = sid) (recoveryFacts d) of
        None \<Rightarrow> Inr None
      | Some f \<Rightarrow>
          (case decodeSnapshot env (factPayload f) of
             Inl _ \<Rightarrow> Inl PersistenceUnavailableError
           | Inr s \<Rightarrow>
               (case decodeAll (\<lambda>r. decodeReceipt env (rcptPayload r)) (receiptRowsOf sid d) of
                  None \<Rightarrow> Inl PersistenceUnavailableError
                | Some rs \<Rightarrow> Inr (Some \<lparr>factsSnapshot = s, factsReceipts = rs\<rparr>))))"

section \<open>The control state of a run\<close>

datatype claim_status = ACQUIRED | UNCHANGED | BUSY | DENIED

record control_claim =
  claimStatus :: claim_status
  claimState :: runtime_control_state
  claimEvents :: json

definition controlRow :: "ident \<Rightarrow> database \<Rightarrow> control_state_row option" where
  "controlRow rid d = find (\<lambda>r. csRun r = rid) (controlStates d)"

definition setControlRow :: "ident \<Rightarrow> (control_state_row \<Rightarrow> control_state_row) \<Rightarrow> database \<Rightarrow> database" where
  "setControlRow rid f d = d\<lparr>controlStates := updateWhere (\<lambda>r. csRun r = rid) f (controlStates d)\<rparr>"

text \<open>\<open>updateRuntimeControlState\<close>: lock the row, decide, commit.\<close>

definition updateRuntimeControlState ::
    "ident \<Rightarrow> (control_state_row \<Rightarrow> control_claim tx) \<Rightarrow> database \<Rightarrow> (store_error + control_claim) \<times> database" where
  "updateRuntimeControlState rid update = transact (\<lambda>d.
     case controlRow rid d of None \<Rightarrow> Inl PersistenceUnavailableError | Some r \<Rightarrow> update r d)"

text \<open>Answer with the events of the row, which must be an array.\<close>

definition answerFromRow :: "claim_status \<Rightarrow> control_state_row \<Rightarrow> control_claim tx" where
  "answerFromRow st r =
     (if isArray (csEvents r)
      then returns \<lparr>claimStatus = st, claimState = csState r, claimEvents = csEvents r\<rparr>
      else unavailable)"

definition recordRuntimeRunning ::
    "int \<Rightarrow> ident \<Rightarrow> ident \<Rightarrow> int \<Rightarrow> database \<Rightarrow> (store_error + unit) \<times> database" where
  "recordRuntimeRunning now rid controller lease d =
     (case controlRow rid d of
        None \<Rightarrow> (Inr (), d\<lparr>controlStates := controlStates d @ [\<lparr>csRun = rid, csSnapshot = None,
            csState = runtime_control_state.RUNNING, csCancellation = None, csEvents = JArr [],
            csController = Some controller, csLease = Some (now + lease), csUpdatedAt = now\<rparr>]\<rparr>)
      | Some r \<Rightarrow>
          if csState r = runtime_control_state.RUNNING
             \<and> (csController r = Some controller
                \<or> csSnapshot r = None \<and> (case csLease r of None \<Rightarrow> False | Some l \<Rightarrow> l \<le> now))
          then (Inr (), setControlRow rid (\<lambda>r. r\<lparr>csController := Some controller,
                  csLease := Some (now + lease), csUpdatedAt := now\<rparr>) d)
          else (Inl PersistenceUnavailableError, d))"

definition claimRuntimeResume ::
    "int \<Rightarrow> ident \<Rightarrow> ident \<Rightarrow> ident \<Rightarrow> int \<Rightarrow> database \<Rightarrow> (store_error + control_claim) \<times> database" where
  "claimRuntimeResume now rid sid controller lease = updateRuntimeControlState rid (\<lambda>r.
     if csSnapshot r \<noteq> Some sid then answerFromRow DENIED r
     else if csState r = runtime_control_state.RUNNING \<and> csController r = Some controller
     then answerFromRow UNCHANGED r
     else if csState r = runtime_control_state.RUNNING
             \<and> (case csLease r of None \<Rightarrow> False | Some l \<Rightarrow> l > now) then answerFromRow BUSY r
     else if csState r = runtime_control_state.COMPLETED then answerFromRow UNCHANGED r
     else if csState r \<noteq> runtime_control_state.RUNNING
             \<and> (case csState r of runtime_control_state.PAUSED _ \<Rightarrow> False | _ \<Rightarrow> True)
     then answerFromRow DENIED r
     else andThen (updating (setControlRow rid (\<lambda>r. r\<lparr>csState := runtime_control_state.RUNNING,
            csEvents := JArr [], csController := Some controller, csLease := Some (now + lease),
            csUpdatedAt := now\<rparr>)))
          (\<lambda>_. returns \<lparr>claimStatus = ACQUIRED, claimState = runtime_control_state.RUNNING, claimEvents = JArr []\<rparr>))"

definition eventsJson :: "store_env \<Rightarrow> run_event list \<Rightarrow> json" where
  "eventsJson env evs = JArr (map (stEventJson env) evs)"

text \<open>The new snapshot of the row must exist; a completion that already happened is accepted again.\<close>

definition completeRuntimeControl ::
    "store_env \<Rightarrow> int \<Rightarrow> ident \<Rightarrow> ident \<Rightarrow> ident option \<Rightarrow> ident option \<Rightarrow> runtime_control_state
     \<Rightarrow> run_event list \<Rightarrow> database \<Rightarrow> (store_error + unit) \<times> database" where
  "completeRuntimeControl env now rid controller expected nxt st evs d =
     (case controlRow rid d of
        None \<Rightarrow> (Inl PersistenceUnavailableError, d)
      | Some r \<Rightarrow>
          if csSnapshot r = expected \<and> csState r = runtime_control_state.RUNNING \<and> csController r = Some controller
          then (if (case nxt of None \<Rightarrow> True | Some s \<Rightarrow> s \<in> factSnapshotId ` set (recoveryFacts d))
                then (Inr (), setControlRow rid (\<lambda>r. r\<lparr>csSnapshot := nxt, csState := st,
                        csEvents := stJsonb env (eventsJson env evs), csController := None, csLease := None,
                        csUpdatedAt := now\<rparr>) d)
                else (Inl PersistenceUnavailableError, d))
          else (if csSnapshot r = nxt \<and> csState r = st
                   \<and> canonicalOf env (csEvents r) \<noteq> None
                   \<and> canonicalOf env (csEvents r) = canonicalOf env (eventsJson env evs)
                then Inr () else Inl PersistenceUnavailableError, d))"

definition claimRuntimeCancel ::
    "store_env \<Rightarrow> int \<Rightarrow> ident \<Rightarrow> ident \<Rightarrow> run_event list \<Rightarrow> database \<Rightarrow> (store_error + control_claim) \<times> database" where
  "claimRuntimeCancel env now rid cancellation evs = updateRuntimeControlState rid (\<lambda>r.
     if csState r = runtime_control_state.CANCELLED then answerFromRow UNCHANGED r
     else if csState r = runtime_control_state.COMPLETED \<or> csState r = runtime_control_state.FAILED
     then answerFromRow DENIED r
     else andThen (updating (setControlRow rid (\<lambda>r. r\<lparr>csState := runtime_control_state.CANCELLED,
            csCancellation := Some cancellation, csEvents := stJsonb env (eventsJson env evs),
            csController := None, csLease := None, csUpdatedAt := now\<rparr>)))
          (\<lambda>_. returns \<lparr>claimStatus = ACQUIRED, claimState = runtime_control_state.CANCELLED,
                 claimEvents = eventsJson env evs\<rparr>))"

definition isRuntimeCancelled :: "ident \<Rightarrow> database \<Rightarrow> bool" where
  "isRuntimeCancelled rid d \<longleftrightarrow>
     list_ex (\<lambda>r. csRun r = rid \<and> csState r = runtime_control_state.CANCELLED) (controlStates d)"

end
