(* ===== verification/CM_Task_Store.thy ===== *)
theory CM_Task_Store
  imports CM_Recovery_Store
begin

text \<open>
  \<open>openPersistentDecisionTaskModule\<close> of packages/task-persistence/src/index.ts, as its callers in the API
  see it: submitting and reading tasks, resume and cancel requests, the owner's purge, and the audit,
  credential and egress tables. Workers' operations are in CM_Task_Worker.
\<close>

section \<open>Submitting\<close>

definition insertSubmission :: "store_env \<Rightarrow> (nat \<Rightarrow> string) \<Rightarrow> int \<Rightarrow> execute_command \<Rightarrow> ident \<Rightarrow> string \<Rightarrow> task_snapshot tx" where
  "insertSubmission env u now cmd owner fp =
     (let reqId = execute_command.executionRequestId cmd;
          tid = requirement_revision.decisionTaskId (execute_command.requirementRevision cmd);
          rid = ''agent-run-'' @ u 0; oid = u 1; mid = u 2
      in andThen (inserting (\<lambda>d. reqId \<notin> subRequestId ` set (submissions d))
           (\<lambda>d. d\<lparr>submissions := submissions d @ [\<lparr>subRequestId = reqId, subOwner = owner, subFingerprint = fp,
              subTask = tid, subCommand = stJsonb env (stCommandJson env cmd), subCreatedAt = now\<rparr>]\<rparr>)) (\<lambda>_.
         andThen (inserting (\<lambda>d. oid \<notin> opId ` set (operations d) \<and> rid \<notin> opRun ` set (operations d)
              \<and> reqId \<notin> opRequestId ` set (operations d))
           (\<lambda>d. d\<lparr>operations := operations d @ [\<lparr>opId = oid, opRun = rid, opRequestId = reqId, opTask = tid,
              opState = task_row_state.ACCEPTED, opWorker = None, opLease = None, opResult = None,
              opCreatedAt = now, opUpdatedAt = now\<rparr>]\<rparr>)) (\<lambda>_.
         andThen (inserting (\<lambda>d. rid \<notin> runId ` set (agentRuns d))
           (\<lambda>d. d\<lparr>agentRuns := agentRuns d @ [\<lparr>runId = rid, runOperation = oid, runAttempt = 1, runCreatedAt = now\<rparr>]\<rparr>)) (\<lambda>_.
         andThen (inserting (\<lambda>d. mid \<notin> outMessage ` set (outbox d) \<and> oid \<notin> outOperation ` set (outbox d))
           (\<lambda>d. d\<lparr>outbox := outbox d @ [\<lparr>outMessage = mid, outOperation = oid, outAttempts = 0, outNextAttempt = now,
              outPublishedAt = None, outCreatedAt = now\<rparr>]\<rparr>)) (\<lambda>_.
         andThen (insertRunEvent env (runEventText (u 3) tid rid 1 now TASK_STATE_CHANGED CREATED
              ''The decision task was accepted'') now) (\<lambda>_.
         returns \<lparr>task_snapshot.executionRequestId = reqId, decisionTaskId = tid, agentRunId = rid,
           state = snapshot_state.ACCEPTED, terminal = False, updatedAt = toISOString now\<rparr>))))))"

text \<open>\<open>SELECT ... FROM decision_task_submissions INNER JOIN agent_run_operations ...\<close>\<close>

definition existingSubmission :: "database \<Rightarrow> ident \<Rightarrow> (submission \<times> operation_row) option" where
  "existingSubmission d reqId =
     (case (find (\<lambda>s. subRequestId s = reqId) (submissions d), find (\<lambda>oper. opRequestId oper = reqId) (operations d)) of
        (Some s, Some oper) \<Rightarrow> Some (s, oper)
      | _ \<Rightarrow> None)"

definition submitInTransaction ::
    "store_env \<Rightarrow> (nat \<Rightarrow> string) \<Rightarrow> int \<Rightarrow> execute_command \<Rightarrow> ident \<Rightarrow> task_snapshot tx" where
  "submitInTransaction env u now cmd owner = (\<lambda>d.
     let reqId = execute_command.executionRequestId cmd in
     case canonicalize (stStringify env) (stCommandJson env cmd) of
       None \<Rightarrow> Inl PersistenceUnavailableError
     | Some text \<Rightarrow>
         let fp = stSha256 env text in
         (case existingSubmission d reqId of
            Some (s, oper) \<Rightarrow>
              if subOwner s \<noteq> owner \<or> subFingerprint s \<noteq> fp then Inl (IdempotencyConflictError reqId)
              else snapshotTx env oper d
          | None \<Rightarrow> insertSubmission env u now cmd owner fp d))"

definition submit ::
    "store_env \<Rightarrow> (nat \<Rightarrow> string) \<Rightarrow> int \<Rightarrow> execute_command \<Rightarrow> ident \<Rightarrow> database
     \<Rightarrow> (store_error + task_snapshot) \<times> database" where
  "submit env u now cmd owner = transact (submitInTransaction env u now cmd owner)"

section \<open>Reading\<close>

definition getTask :: "store_env \<Rightarrow> ident \<Rightarrow> ident \<Rightarrow> database \<Rightarrow> store_error + (task_snapshot + decision_task_result) option" where
  "getTask env tid owner d =
     (case latestOperation d tid owner of
        None \<Rightarrow> Inr None
      | Some oper \<Rightarrow>
          (case (opState oper, opResult oper) of
             (task_row_state.COMPLETED, Some payload) \<Rightarrow>
               (case decodePersistedResult env payload oper of
                  None \<Rightarrow> Inl PersistenceUnavailableError | Some r \<Rightarrow> Inr (Some (Inr r)))
           | _ \<Rightarrow> (case toTaskSnapshot env oper of
                  None \<Rightarrow> Inl PersistenceUnavailableError | Some s \<Rightarrow> Inr (Some (Inl s)))))"

text \<open>The owner of an event: that of the submission of the operation of its run.\<close>

definition eventOwnedBy :: "database \<Rightarrow> ident \<Rightarrow> event_row \<Rightarrow> bool" where
  "eventOwnedBy d owner e = list_ex (\<lambda>r. runId r = evRun e
      \<and> list_ex (\<lambda>oper. opId oper = runOperation r \<and> ownedBy d owner oper) (operations d)) (agentRuns d)"

definition listedRows :: "ident \<Rightarrow> ident \<Rightarrow> nat option \<Rightarrow> database \<Rightarrow> event_row list" where
  "listedRows tid owner after d = sort_key evCursor (filter (\<lambda>e. evTask e = tid \<and> eventOwnedBy d owner e
      \<and> (case after of None \<Rightarrow> True | Some c \<Rightarrow> evCursor e > c)) (eventRows d))"

definition listEvents ::
    "store_env \<Rightarrow> ident \<Rightarrow> ident \<Rightarrow> nat option \<Rightarrow> database \<Rightarrow> store_error + persisted_run_event list" where
  "listEvents env tid owner after d =
     (case decodeAll (decodeEventRow env) (listedRows tid owner after d) of
        None \<Rightarrow> Inl PersistenceUnavailableError | Some evs \<Rightarrow> Inr evs)"

section \<open>Control requests\<close>

definition controlErrorCodeText :: "control_error_code \<Rightarrow> string" where
  "controlErrorCodeText c = (case c of
      RUNTIME_SNAPSHOT_INVALID \<Rightarrow> ''RUNTIME_SNAPSHOT_INVALID''
    | RUNTIME_PROTOCOL_UNSUPPORTED \<Rightarrow> ''RUNTIME_PROTOCOL_UNSUPPORTED''
    | RUNTIME_RESUME_DENIED \<Rightarrow> ''RUNTIME_RESUME_DENIED''
    | RUNTIME_RESUME_IN_PROGRESS \<Rightarrow> ''RUNTIME_RESUME_IN_PROGRESS''
    | RUNTIME_FAILED_CODE \<Rightarrow> ''RUNTIME_FAILED''
    | RUNTIME_CANCEL_RACE \<Rightarrow> ''RUNTIME_CANCEL_RACE''
    | CONTROL_PERSISTENCE_UNAVAILABLE \<Rightarrow> ''PERSISTENCE_UNAVAILABLE''
    | RUNTIME_RESULT_UNAVAILABLE \<Rightarrow> ''RUNTIME_RESULT_UNAVAILABLE'')"

definition controlErrorCodes :: "control_error_code list" where
  "controlErrorCodes = [RUNTIME_SNAPSHOT_INVALID, RUNTIME_PROTOCOL_UNSUPPORTED, RUNTIME_RESUME_DENIED,
     RUNTIME_RESUME_IN_PROGRESS, RUNTIME_FAILED_CODE, RUNTIME_CANCEL_RACE, CONTROL_PERSISTENCE_UNAVAILABLE,
     RUNTIME_RESULT_UNAVAILABLE]"

definition controlErrorJson :: "control_error \<Rightarrow> json" where
  "controlErrorJson e = JObj [(''error'', JObj [(''code'', JStr (controlErrorCodeText (control_error.code e))),
     (''message'', JStr (control_error.message e))])]"

definition decodeRuntimeControlError :: "json \<Rightarrow> control_error option" where
  "decodeRuntimeControlError v =
     (if \<not> isRecord v \<or> \<not> isRecord (jget v ''error'') then None
      else case (jget (jget v ''error'') ''code'', jget (jget v ''error'') ''message'') of
             (JStr c, JStr msg) \<Rightarrow>
               if \<not> meaningfulTextSchema msg then None
               else map_option (\<lambda>cd. \<lparr>control_error.code = cd, message = msg\<rparr>)
                      (find (\<lambda>cd. controlErrorCodeText cd = c) controlErrorCodes)
           | _ \<Rightarrow> None)"

text \<open>\<open>None\<close>: a FAILED request without a readable error.\<close>

definition toRuntimeControlStatus :: "control_request_row \<Rightarrow> control_status option" where
  "toRuntimeControlStatus r =
     (let err = (if crState r = control_request_state.FAILED
                 then (case crResult r of None \<Rightarrow> None | Some v \<Rightarrow> decodeRuntimeControlError v) else None)
      in if crState r = control_request_state.FAILED \<and> err = None then None
         else Some \<lparr>control_status.controlRequestId = crId r, decisionTaskId = crTask r, agentRunId = crRun r,
           action = crAction r, state = crState r, error = err, updatedAt = toISOString (crUpdatedAt r)\<rparr>)"

definition statusTx :: "control_request_row \<Rightarrow> control_status option tx" where
  "statusTx r = (case toRuntimeControlStatus r of None \<Rightarrow> unavailable | Some s \<Rightarrow> returns (Some s))"

record resume_input =
  riControlRequest :: ident
  riTask :: ident
  riOwner :: ident
  riSnapshot :: ident
  riCorrelation :: ident
  riConfirmation :: "ident \<times> ident"

definition resumeRow :: "resume_input \<Rightarrow> operation_row \<Rightarrow> int \<Rightarrow> control_request_row" where
  "resumeRow inp oper now =
     \<lparr>crId = riControlRequest inp, crOperation = opId oper, crTask = riTask inp, crRun = opRun oper,
      crOwner = riOwner inp, crAction = RESUME, crSnapshot = Some (riSnapshot inp), crCancellation = None,
      crCorrelation = riCorrelation inp, crConfirmation = Some (riConfirmation inp),
      crState = control_request_state.ACCEPTED, crWorker = None, crLease = None, crResult = None,
      crCreatedAt = now, crUpdatedAt = now\<rparr>"

text \<open>The stored request is this very request.\<close>

definition sameResume :: "resume_input \<Rightarrow> operation_row \<Rightarrow> control_request_row \<Rightarrow> bool" where
  "sameResume inp oper r \<longleftrightarrow>
     crOperation r = opId oper \<and> crTask r = riTask inp \<and> crRun r = opRun oper \<and> crOwner r = riOwner inp
     \<and> crAction r = RESUME \<and> crSnapshot r = Some (riSnapshot inp) \<and> crCorrelation r = riCorrelation inp
     \<and> crConfirmation r = Some (riConfirmation inp)"

definition findRequest :: "ident \<Rightarrow> database \<Rightarrow> control_request_row option" where
  "findRequest cid d = find (\<lambda>r. crId r = cid) (controlRequests d)"

definition isPausedRow :: "operation_row \<Rightarrow> bool" where
  "isPausedRow oper = (case opState oper of task_row_state.PAUSED _ \<Rightarrow> True | _ \<Rightarrow> False)"

definition pausedOn :: "task_snapshot \<Rightarrow> ident \<Rightarrow> bool" where
  "pausedOn s sid = (case task_snapshot.state s of snapshot_state.PAUSED _ k \<Rightarrow> k = sid | _ \<Rightarrow> False)"

definition insertResume :: "resume_input \<Rightarrow> operation_row \<Rightarrow> int \<Rightarrow> unit tx" where
  "insertResume inp oper now = inserting
     (\<lambda>d. opRun oper \<in> runId ` set (agentRuns d) \<and> riSnapshot inp \<in> factSnapshotId ` set (recoveryFacts d))
     (\<lambda>d. d\<lparr>controlRequests := controlRequests d @ [resumeRow inp oper now]\<rparr>)"

text \<open>A new request: the task must be paused on this snapshot; the stored row is read back.\<close>

definition acceptResume :: "store_env \<Rightarrow> int \<Rightarrow> resume_input \<Rightarrow> operation_row \<Rightarrow> control_status option tx" where
  "acceptResume env now inp oper =
     andThen (snapshotTx env oper) (\<lambda>s.
       if \<not> isPausedRow oper \<or> \<not> pausedOn s (riSnapshot inp) then aborts RuntimeControlRejectedError
       else andThen (insertResume inp oper now) (\<lambda>_ d.
         case findRequest (riControlRequest inp) d of
           None \<Rightarrow> Inl (IdempotencyConflictError (riControlRequest inp))
         | Some r \<Rightarrow> if sameResume inp oper r then statusTx r d
                     else Inl (IdempotencyConflictError (riControlRequest inp))))"

definition requestRuntimeResume ::
    "store_env \<Rightarrow> int \<Rightarrow> resume_input \<Rightarrow> database \<Rightarrow> (store_error + control_status option) \<times> database" where
  "requestRuntimeResume env now inp d =
     (if riConfirmation inp \<noteq> (riControlRequest inp, riOwner inp) then (Inl RuntimeControlRejectedError, d)
      else transact (\<lambda>d.
        case latestOperation d (riTask inp) (riOwner inp) of
          None \<Rightarrow> returns None d
        | Some oper \<Rightarrow>
            (case findRequest (riControlRequest inp) d of
               Some r \<Rightarrow> if sameResume inp oper r then statusTx r d
                         else Inl (IdempotencyConflictError (riControlRequest inp))
             | None \<Rightarrow>
                 acceptResume env now inp oper d)) d)"

record cancel_input =
  ciControlRequest :: ident
  ciTask :: ident
  ciOwner :: ident
  ciCancellation :: ident
  ciCorrelation :: ident

definition sameCancel :: "cancel_input \<Rightarrow> operation_row \<Rightarrow> control_request_row \<Rightarrow> bool" where
  "sameCancel inp oper r \<longleftrightarrow>
     crOperation r = opId oper \<and> crTask r = ciTask inp \<and> crRun r = opRun oper \<and> crOwner r = ciOwner inp
     \<and> crAction r = CANCEL \<and> crCancellation r = Some (ciCancellation inp) \<and> crCorrelation r = ciCorrelation inp"

definition cancelledJson :: json where
  "cancelledJson = JObj [(''state'', JStr ''CANCELLED'')]"

definition cancelRow :: "store_env \<Rightarrow> cancel_input \<Rightarrow> operation_row \<Rightarrow> int \<Rightarrow> control_request_row" where
  "cancelRow env inp oper now =
     \<lparr>crId = ciControlRequest inp, crOperation = opId oper, crTask = ciTask inp, crRun = opRun oper,
      crOwner = ciOwner inp, crAction = CANCEL, crSnapshot = None, crCancellation = Some (ciCancellation inp),
      crCorrelation = ciCorrelation inp, crConfirmation = None, crState = control_request_state.COMPLETED,
      crWorker = None, crLease = None, crResult = Some (stJsonb env cancelledJson), crCreatedAt = now, crUpdatedAt = now\<rparr>"

definition isFinalRow :: "operation_row \<Rightarrow> bool" where
  "isFinalRow oper \<longleftrightarrow> opState oper = task_row_state.COMPLETED \<or> opState oper = task_row_state.FAILED_FINAL
     \<or> opState oper = task_row_state.CANCELLED"

definition cancelControlState :: "store_env \<Rightarrow> ident \<Rightarrow> ident \<Rightarrow> run_event \<Rightarrow> int \<Rightarrow> database \<Rightarrow> database" where
  "cancelControlState env rid cancellation ev now d =
     (let evs = stJsonb env (eventsJson env [ev]) in
      if rid \<notin> csRun ` set (controlStates d)
      then d\<lparr>controlStates := controlStates d @ [\<lparr>csRun = rid, csSnapshot = None,
             csState = runtime_control_state.CANCELLED, csCancellation = Some cancellation, csEvents = evs,
             csController = None, csLease = None, csUpdatedAt = now\<rparr>]\<rparr>
      else setControlRow rid (\<lambda>r. r\<lparr>csState := runtime_control_state.CANCELLED,
             csCancellation := Some cancellation, csEvents := evs, csController := None, csLease := None,
             csUpdatedAt := now\<rparr>) d)"

definition setOperation :: "ident \<Rightarrow> (operation_row \<Rightarrow> operation_row) \<Rightarrow> database \<Rightarrow> database" where
  "setOperation oid f d = d\<lparr>operations := updateWhere (\<lambda>oper. opId oper = oid) f (operations d)\<rparr>"

definition cancelOperationTx :: "store_env \<Rightarrow> (nat \<Rightarrow> string) \<Rightarrow> int \<Rightarrow> cancel_input \<Rightarrow> operation_row \<Rightarrow> control_status option tx" where
  "cancelOperationTx env u now inp oper =
     andThen (loadRunEvents env (opTask oper) (opRun oper)) (\<lambda>existing.
       let ev = runEventText (u 0) (opTask oper) (opRun oper) (int (length existing) + 1) now
                  TASK_STATE_CHANGED decision_task_state.CANCELLED ''The decision task was cancelled'' in
       andThen (inserting (\<lambda>d. opRun oper \<in> runId ` set (agentRuns d))
         (\<lambda>d. d\<lparr>controlRequests := controlRequests d @ [cancelRow env inp oper now]\<rparr>)) (\<lambda>_.
       andThen (updating (cancelControlState env (opRun oper) (ciCancellation inp) ev now)) (\<lambda>_.
       andThen (updating (setOperation (opId oper) (\<lambda>o'. o'\<lparr>opState := task_row_state.CANCELLED,
           opResult := Some (stJsonb env cancelledJson), opWorker := None, opLease := None, opUpdatedAt := now\<rparr>))) (\<lambda>_.
       andThen (insertRunEvent env ev now) (\<lambda>_.
       returns (Some \<lparr>control_status.controlRequestId = ciControlRequest inp, decisionTaskId = ciTask inp,
         agentRunId = opRun oper, action = CANCEL, state = control_request_state.COMPLETED, error = None,
         updatedAt = toISOString now\<rparr>))))))"

definition requestRuntimeCancel ::
    "store_env \<Rightarrow> (nat \<Rightarrow> string) \<Rightarrow> int \<Rightarrow> cancel_input \<Rightarrow> database
     \<Rightarrow> (store_error + control_status option) \<times> database" where
  "requestRuntimeCancel env u now inp = transact (\<lambda>d.
     case latestOperation d (ciTask inp) (ciOwner inp) of
       None \<Rightarrow> returns None d
     | Some oper \<Rightarrow>
         (case findRequest (ciControlRequest inp) d of
            Some r \<Rightarrow> if sameCancel inp oper r then statusTx r d
                      else Inl (IdempotencyConflictError (ciControlRequest inp))
          | None \<Rightarrow> if isFinalRow oper then Inl RuntimeCancelRejectedError
                    else cancelOperationTx env u now inp oper d))"

section \<open>The owner's lifecycle\<close>

definition activeTasks :: "database \<Rightarrow> ident \<Rightarrow> ident list" where
  "activeTasks d owner = sort (filter
     (\<lambda>t. case latestOperation d t owner of None \<Rightarrow> False | Some oper \<Rightarrow> \<not> isFinalRow oper)
     (remdups (map opTask (filter (ownedBy d owner) (operations d)))))"

text \<open>The ids and the time of each request of the loop are parameters.\<close>

fun cancelTasks ::
    "store_env \<Rightarrow> (nat \<Rightarrow> nat \<Rightarrow> string) \<Rightarrow> (nat \<Rightarrow> int) \<Rightarrow> ident \<Rightarrow> ident \<Rightarrow> nat \<Rightarrow> ident list \<Rightarrow> nat \<Rightarrow> database
     \<Rightarrow> (store_error + nat) \<times> database" where
  "cancelTasks env u now owner correlation i [] n d = (Inr n, d)"
| "cancelTasks env u now owner correlation i (t # ts) n d =
     (case requestRuntimeCancel env (\<lambda>k. u i (k + 2)) (now i)
         \<lparr>ciControlRequest = ''account-lifecycle-'' @ u i 0, ciTask = t, ciOwner = owner,
          ciCancellation = ''account-lifecycle-'' @ u i 1, ciCorrelation = correlation\<rparr> d of
        (Inr (Some _), d') \<Rightarrow> cancelTasks env u now owner correlation (Suc i) ts (Suc n) d'
      | (Inr None, d') \<Rightarrow> cancelTasks env u now owner correlation (Suc i) ts n d'
      | (Inl RuntimeCancelRejectedError, d') \<Rightarrow> cancelTasks env u now owner correlation (Suc i) ts n d'
      | (Inl e, d') \<Rightarrow> (Inl e, d'))"

definition cancelActiveTasksForOwner ::
    "store_env \<Rightarrow> (nat \<Rightarrow> nat \<Rightarrow> string) \<Rightarrow> (nat \<Rightarrow> int) \<Rightarrow> ident \<Rightarrow> ident \<Rightarrow> database \<Rightarrow> (store_error + nat) \<times> database" where
  "cancelActiveTasksForOwner env u now owner correlation d =
     cancelTasks env u now owner correlation 0 (activeTasks d owner) 0 d"

text \<open>The ids that \<open>purgePrivateDataForOwner\<close> collects first.\<close>

record purge_scope =
  pgTasks :: "ident list"
  pgOperations :: "ident list"
  pgRuns :: "ident list"
  pgSnapshots :: "ident list"
  pgSnapshotDigests :: "string list"
  pgEffectDigests :: "string list"
  pgCursors :: "nat list"
  pgCredentials :: "ident list"

definition purgeScope :: "ident \<Rightarrow> database \<Rightarrow> purge_scope" where
  "purgeScope owner d =
     (let subs = filter (\<lambda>s. subOwner s = owner) (submissions d);
          ops = filter (\<lambda>oper. opRequestId oper \<in> subRequestId ` set subs) (operations d);
          runs = map opRun ops;
          facts = filter (\<lambda>f. factRun f \<in> set runs) (recoveryFacts d)
      in \<lparr>pgTasks = map subTask subs, pgOperations = map opId ops, pgRuns = runs,
          pgSnapshots = map factSnapshotId facts, pgSnapshotDigests = map factDigest facts,
          pgEffectDigests = map bindDigest (filter (\<lambda>b. effRun (bindIdentity b) \<in> set runs) (effectBindings d)),
          pgCursors = map evCursor (filter (\<lambda>e. evRun e \<in> set runs) (eventRows d)),
          pgCredentials = map credentialId (filter (\<lambda>c. ownerUserId c = owner) (credentialRows d))\<rparr>)"

definition pseudonymOf :: "store_env \<Rightarrow> ident \<Rightarrow> ident" where
  "pseudonymOf env owner = ''deleted_'' @ take 16 (stSha256 env owner)"

definition purgeAudit :: "store_env \<Rightarrow> ident \<Rightarrow> purge_scope \<Rightarrow> database \<Rightarrow> database" where
  "purgeAudit env owner sc d =
     (let p = pseudonymOf env owner in
      d\<lparr>auditRows := updateWhere (\<lambda>a. auObjectId a \<in> set (pgTasks sc @ pgCredentials sc)) (\<lambda>a. a\<lparr>auObjectId := p\<rparr>)
          (updateWhere (\<lambda>a. auUser a = owner) (\<lambda>a. a\<lparr>auPrincipal := p, auUser := p\<rparr>) (auditRows d))\<rparr>)"

text \<open>The rows deleted before the first table whose rows others may still reference.\<close>

definition purgeRuntimeRows :: "purge_scope \<Rightarrow> database \<Rightarrow> database" where
  "purgeRuntimeRows sc d =
     d\<lparr>notifications := filter (\<lambda>n. noteCursor n \<notin> set (pgCursors sc)) (notifications d),
       controlRequests := filter (\<lambda>r. crOperation r \<notin> set (pgOperations sc)) (controlRequests d),
       controlStates := filter (\<lambda>r. csRun r \<notin> set (pgRuns sc)) (controlStates d),
       effectReceiptRows := filter (\<lambda>r. rcptSnapshotId r \<notin> set (pgSnapshots sc)) (effectReceiptRows d),
       effectBindings := filter (\<lambda>b. effRun (bindIdentity b) \<notin> set (pgRuns sc)) (effectBindings d),
       evidenceRows := filter (\<lambda>e. ixTask e \<notin> set (pgTasks sc)) (evidenceRows d),
       eventRows := filter (\<lambda>e. evRun e \<notin> set (pgRuns sc)) (eventRows d)\<rparr>"

text \<open>
  Foreign keys: control states and control requests reference recovery facts; run events and control
  requests reference agent runs. The referencing rows of the other deletions are gone before.
\<close>

definition deleteFacts :: "purge_scope \<Rightarrow> unit tx" where
  "deleteFacts sc = inserting
     (\<lambda>d. (\<forall>r \<in> set (controlStates d). \<forall>s. csSnapshot r = Some s \<longrightarrow> s \<notin> set (pgSnapshots sc))
        \<and> (\<forall>r \<in> set (controlRequests d). \<forall>s. crSnapshot r = Some s \<longrightarrow> s \<notin> set (pgSnapshots sc)))
     (\<lambda>d. d\<lparr>recoveryFacts := filter (\<lambda>f. factSnapshotId f \<notin> set (pgSnapshots sc)) (recoveryFacts d)\<rparr>)"

definition deleteRuns :: "purge_scope \<Rightarrow> unit tx" where
  "deleteRuns sc = inserting
     (\<lambda>d. (\<forall>r \<in> set (agentRuns d). runOperation r \<in> set (pgOperations sc) \<longrightarrow>
              runId r \<notin> evRun ` set (eventRows d) \<and> runId r \<notin> crRun ` set (controlRequests d)))
     (\<lambda>d. d\<lparr>agentRuns := filter (\<lambda>r. runOperation r \<notin> set (pgOperations sc)) (agentRuns d)\<rparr>)"

definition purgeRest :: "ident \<Rightarrow> purge_scope \<Rightarrow> database \<Rightarrow> database" where
  "purgeRest owner sc d =
     d\<lparr>outbox := filter (\<lambda>m. outOperation m \<notin> set (pgOperations sc)) (outbox d),
       operations := filter (\<lambda>oper. opId oper \<notin> set (pgOperations sc)) (operations d),
       submissions := filter (\<lambda>s. subOwner s \<noteq> owner) (submissions d),
       effectObjects := filter (\<lambda>x. objDigest x \<notin> set (pgEffectDigests sc)
          \<or> objDigest x \<in> bindDigest ` set (effectBindings d)) (effectObjects d),
       snapshotObjects := filter (\<lambda>x. objDigest x \<notin> set (pgSnapshotDigests sc)
          \<or> objDigest x \<in> factDigest ` set (recoveryFacts d)) (snapshotObjects d),
       egressRows := filter (\<lambda>e. egressUserId e \<noteq> owner) (egressRows d),
       credentialRows := filter (\<lambda>c. ownerUserId c \<noteq> owner) (credentialRows d)\<rparr>"

text \<open>The numbers of deleted credentials and tasks.\<close>

definition purgePrivateDataForOwner ::
    "store_env \<Rightarrow> ident \<Rightarrow> database \<Rightarrow> (store_error + nat \<times> nat) \<times> database" where
  "purgePrivateDataForOwner env owner = transact (\<lambda>d.
     let sc = purgeScope owner d in
     andThen (updating (purgeAudit env owner sc)) (\<lambda>_.
     andThen (updating (purgeRuntimeRows sc)) (\<lambda>_.
     andThen (deleteFacts sc) (\<lambda>_.
     andThen (deleteRuns sc) (\<lambda>_.
     andThen (updating (purgeRest owner sc)) (\<lambda>_.
     returns (length (pgCredentials sc), length (pgTasks sc))))))) d)"

section \<open>Audit, credentials, egress\<close>

record audit_input =
  aiPrincipal :: ident
  aiUser :: ident
  aiRole :: security_role
  aiAction :: string
  aiObjectType :: string
  aiObjectId :: ident
  aiResult :: string
  aiCorrelation :: ident

text \<open>The schema's \<open>CHECK (actor_role IN ('USER', 'ADMIN', 'SUPERADMIN'))\<close>.\<close>

definition auditRoleAllowed :: "security_role \<Rightarrow> bool" where
  "auditRoleAllowed r \<longleftrightarrow> r = USER \<or> r = ADMIN \<or> r = SUPERADMIN"

definition appendAuditRecord :: "string \<Rightarrow> int \<Rightarrow> audit_input \<Rightarrow> database \<Rightarrow> (store_error + unit) \<times> database" where
  "appendAuditRecord uuid now a = transact (inserting
     (\<lambda>d. uuid \<notin> auRecordId ` set (auditRows d) \<and> auditRoleAllowed (aiRole a))
     (\<lambda>d. d\<lparr>auditRows := auditRows d @ [\<lparr>auRecordId = uuid, auPrincipal = aiPrincipal a, auUser = aiUser a,
         auRole = aiRole a, auAction = aiAction a, auObjectType = aiObjectType a, auObjectId = aiObjectId a,
         auResult = aiResult a, auCorrelation = aiCorrelation a, auOccurredAt = now\<rparr>]\<rparr>))"

definition listAuditRecords :: "ident \<Rightarrow> database \<Rightarrow> audit_row list" where
  "listAuditRecords correlation d = sort_key auOccurredAt (sort_key auRecordId
     (filter (\<lambda>a. auCorrelation a = correlation) (auditRows d)))"

definition sameCredential :: "ident \<Rightarrow> ident \<Rightarrow> encrypted_credential \<Rightarrow> bool" where
  "sameCredential cid owner c \<longleftrightarrow> credentialId c = cid \<and> ownerUserId c = owner"

definition saveEncryptedCredential :: "encrypted_credential \<Rightarrow> database \<Rightarrow> database" where
  "saveEncryptedCredential c d =
     (if list_ex (sameCredential (credentialId c) (ownerUserId c)) (credentialRows d)
      then d\<lparr>credentialRows := updateWhere (sameCredential (credentialId c) (ownerUserId c)) (\<lambda>_. c) (credentialRows d)\<rparr>
      else d\<lparr>credentialRows := credentialRows d @ [c]\<rparr>)"

definition loadEncryptedCredential :: "ident \<Rightarrow> ident \<Rightarrow> database \<Rightarrow> encrypted_credential option" where
  "loadEncryptedCredential cid owner d = find (sameCredential cid owner) (credentialRows d)"

definition deleteEncryptedCredential :: "ident \<Rightarrow> ident \<Rightarrow> database \<Rightarrow> bool \<times> database" where
  "deleteEncryptedCredential cid owner d =
     (list_ex (sameCredential cid owner) (credentialRows d),
      d\<lparr>credentialRows := filter (\<lambda>c. \<not> sameCredential cid owner c) (credentialRows d)\<rparr>)"

definition appendEgressRecord :: "egress_record \<Rightarrow> database \<Rightarrow> (store_error + unit) \<times> database" where
  "appendEgressRecord e = transact (inserting
     (\<lambda>d. egressId e \<notin> egressId ` set (egressRows d) \<and> dateParse (egressOccurredAt e) \<noteq> None)
     (\<lambda>d. d\<lparr>egressRows := egressRows d @ [e]\<rparr>))"

definition egressTime :: "egress_record \<Rightarrow> int" where
  "egressTime e = (case dateParse (egressOccurredAt e) of None \<Rightarrow> 0 | Some t \<Rightarrow> t)"

definition listEgressRecords :: "ident \<Rightarrow> database \<Rightarrow> egress_record list" where
  "listEgressRecords correlation d =
     map (\<lambda>e. e\<lparr>egressOccurredAt := toISOString (egressTime e)\<rparr>)
       (sort_key egressTime (sort_key egressId
         (filter (\<lambda>e. egressCorrelationId e = correlation) (egressRows d))))"

end
