(* ===== verification/CM_Task_Worker.thy ===== *)
theory CM_Task_Worker
  imports CM_Task_Store
begin

text \<open>
  The workers' side of packages/task-persistence/src/index.ts: claiming control requests and operations
  under a lease, completing them, and \<open>runOnce\<close> of the worker. Messages come from a Redis stream and the
  executor is a callback; both, and what other processes do to the database meanwhile, are parameters.
\<close>

section \<open>Claiming control requests\<close>

record control_request_claim =
  rcControlRequest :: ident
  rcOperation :: ident
  rcTask :: ident
  rcRun :: ident
  rcOwner :: ident
  rcCorrelation :: ident
  rcConfirmation :: "ident \<times> ident"
  rcCommand :: execute_command
  rcSnapshot :: runtime_snapshot
  rcReceipts :: "effect_receipt list"

definition expired :: "int option \<Rightarrow> int \<Rightarrow> bool" where
  "expired lease now = (case lease of None \<Rightarrow> False | Some l \<Rightarrow> l < now)"

text \<open>The rows of the joined query, oldest first.\<close>

definition operationOf :: "database \<Rightarrow> ident \<Rightarrow> operation_row option" where
  "operationOf d oid = find (\<lambda>oper. opId oper = oid) (operations d)"

definition claimableRequest :: "int \<Rightarrow> database \<Rightarrow> control_request_row \<Rightarrow> bool" where
  "claimableRequest now d r \<longleftrightarrow>
     crAction r = RESUME
     \<and> (crState r = control_request_state.ACCEPTED
        \<or> crState r = control_request_state.RUNNING \<and> expired (crLease r) now)
     \<and> (case operationOf d (crOperation r) of None \<Rightarrow> False | Some oper \<Rightarrow> submissionOf d oper \<noteq> None)"

definition nextRequest :: "int \<Rightarrow> database \<Rightarrow> (control_request_row \<times> operation_row \<times> submission) option" where
  "nextRequest now d =
     (case sort_key crCreatedAt (sort_key crId (filter (claimableRequest now d) (controlRequests d))) of
        [] \<Rightarrow> None
      | r # _ \<Rightarrow>
          (case operationOf d (crOperation r) of
             None \<Rightarrow> None
           | Some oper \<Rightarrow> map_option (\<lambda>s. (r, oper, s)) (submissionOf d oper)))"

definition setRequest :: "ident \<Rightarrow> (control_request_row \<Rightarrow> control_request_row) \<Rightarrow> database \<Rightarrow> database" where
  "setRequest cid f d = d\<lparr>controlRequests := updateWhere (\<lambda>r. crId r = cid) f (controlRequests d)\<rparr>"

definition failRequest :: "store_env \<Rightarrow> ident \<Rightarrow> int \<Rightarrow> control_error \<Rightarrow> unit tx" where
  "failRequest env cid now e = updating (setRequest cid (\<lambda>r. r\<lparr>crState := control_request_state.FAILED,
     crWorker := None, crLease := None, crResult := Some (stJsonb env (controlErrorJson e)), crUpdatedAt := now\<rparr>))"

text \<open>The request still fits the operation it was accepted for.\<close>

definition requestFits :: "store_env \<Rightarrow> control_request_row \<Rightarrow> operation_row \<Rightarrow> paused_outcome decoded \<Rightarrow> bool" where
  "requestFits env r oper paused \<longleftrightarrow>
     (case paused of Inl _ \<Rightarrow> False
      | Inr v \<Rightarrow>
          Some (runtime_snapshot.snapshotId (paused_outcome.snapshot v)) = crSnapshot r
          \<and> runtime_snapshot.agentRunId (paused_outcome.snapshot v) = crRun r
          \<and> runtime_snapshot.decisionTaskId (paused_outcome.snapshot v) = crTask r)
     \<and> (if crState r = control_request_state.RUNNING then opState oper = task_row_state.RUNNING else isPausedRow oper)
     \<and> crConfirmation r = Some (crId r, crOwner r)"

definition storedFactPayload :: "database \<Rightarrow> ident option \<Rightarrow> json" where
  "storedFactPayload d sid = (case find (\<lambda>f. Some (factSnapshotId f) = sid) (recoveryFacts d) of
      None \<Rightarrow> JUndefined | Some f \<Rightarrow> factPayload f)"

definition storedReceipts :: "store_env \<Rightarrow> database \<Rightarrow> ident option \<Rightarrow> effect_receipt list option" where
  "storedReceipts env d sid = (case sid of
      None \<Rightarrow> Some []
    | Some s \<Rightarrow> decodeAll (\<lambda>r. decodeReceipt env (rcptPayload r)) (receiptRowsOf s d))"

definition recoveryPermissionOf :: "store_env \<Rightarrow> runtime_snapshot \<Rightarrow> effect_receipt list \<Rightarrow> recovery_permission" where
  "recoveryPermissionOf env s rs =
     evaluateRuntimeRecoveryPermissionV1 (stFormats env) (snapshotShape (stPaused env)) (receiptShape (stPaused env))
       (snapshotJson (stPaused env) s) (map (receiptJson (stPaused env)) rs)"

definition MANUAL_VERIFICATION :: string where
  "MANUAL_VERIFICATION = ''Side effect status needs manual verification''"

definition denyResume :: "store_env \<Rightarrow> (nat \<Rightarrow> string) \<Rightarrow> int \<Rightarrow> control_request_row \<Rightarrow> runtime_snapshot \<Rightarrow> recovery_decision \<Rightarrow> unit tx" where
  "denyResume env u now r s dec =
     andThen (failRequest env (crId r) now
       \<lparr>control_error.code = RUNTIME_RESUME_DENIED,
        message = (if dec = MANUAL_VERIFICATION_REQUIRED then MANUAL_VERIFICATION
                   else ''Runtime snapshot does not allow resuming in place'')\<rparr>) (\<lambda>_.
     if dec = MANUAL_VERIFICATION_REQUIRED
     then andThen (loadRunEvents env (crTask r) (crRun r)) (\<lambda>existing.
       insertRunEvent env (runEventText (u 0) (crTask r) (crRun r) (int (length existing) + 1) now TASK_STATE_CHANGED
         (runtime_snapshot.taskState s) MANUAL_VERIFICATION) now)
     else returns ())"

definition startResume ::
    "store_env \<Rightarrow> (nat \<Rightarrow> string) \<Rightarrow> int \<Rightarrow> ident \<Rightarrow> int \<Rightarrow> control_request_row \<Rightarrow> operation_row \<Rightarrow> unit tx" where
  "startResume env u now worker lease r oper =
     andThen (updating (setRequest (crId r) (\<lambda>q. q\<lparr>crState := control_request_state.RUNNING,
        crWorker := Some worker, crLease := Some (now + lease), crUpdatedAt := now\<rparr>))) (\<lambda>_.
     andThen (updating (setOperation (opId oper) (\<lambda>q. q\<lparr>opState := task_row_state.RUNNING,
        opWorker := Some worker, opLease := Some (now + lease), opUpdatedAt := now\<rparr>))) (\<lambda>_.
     if crState r = control_request_state.RUNNING then returns ()
     else andThen (loadRunEvents env (crTask r) (crRun r)) (\<lambda>existing.
       insertRunEvent env (runEventText (u 0) (crTask r) (crRun r) (int (length existing) + 1) now TASK_STATE_CHANGED
         UNDERSTANDING ''The decision task is resuming safely'') now)))"

text \<open>\<open>None\<close> is the EMPTY answer.\<close>

definition claimNextRuntimeControl ::
    "store_env \<Rightarrow> (nat \<Rightarrow> string) \<Rightarrow> int \<Rightarrow> ident \<Rightarrow> int \<Rightarrow> database
     \<Rightarrow> (store_error + control_request_claim option) \<times> database" where
  "claimNextRuntimeControl env u now worker lease = transact (\<lambda>d.
     case nextRequest now d of
       None \<Rightarrow> returns None d
     | Some (r, oper, sub) \<Rightarrow>
         (case decodeExecuteDecisionTaskCommandV1 (stCommand env) (subCommand sub) of
            Inl _ \<Rightarrow> andThen (failRequest env (crId r) now \<lparr>control_error.code = RUNTIME_SNAPSHOT_INVALID,
                message = ''The resume request does not match the authoritative task state''\<rparr>) (\<lambda>_. returns None) d
          | Inr cmd \<Rightarrow>
              if \<not> requestFits env r oper (decodePaused env (case opResult oper of None \<Rightarrow> JNull | Some v \<Rightarrow> v))
              then andThen (failRequest env (crId r) now \<lparr>control_error.code = RUNTIME_SNAPSHOT_INVALID,
                message = ''The resume request does not match the authoritative task state''\<rparr>) (\<lambda>_. returns None) d
              else (case (decodeSnapshot env (storedFactPayload d (crSnapshot r)), storedReceipts env d (crSnapshot r)) of
                  (Inr s, Some rs) \<Rightarrow>
                    let dec = recovery_permission.decision (recoveryPermissionOf env s rs) in
                    if dec \<noteq> RESUME_ALLOWED
                    then andThen (denyResume env u now r s dec) (\<lambda>_. returns None) d
                    else andThen (startResume env u now worker lease r oper) (\<lambda>_. returns (Some
                      \<lparr>rcControlRequest = crId r, rcOperation = crOperation r, rcTask = crTask r, rcRun = crRun r,
                       rcOwner = crOwner r, rcCorrelation = crCorrelation r,
                       rcConfirmation = (crId r, crOwner r), rcCommand = cmd, rcSnapshot = s, rcReceipts = rs\<rparr>)) d
                | _ \<Rightarrow> andThen (failRequest env (crId r) now \<lparr>control_error.code = CONTROL_PERSISTENCE_UNAVAILABLE,
                    message = ''The authoritative Runtime recovery facts are not available''\<rparr>) (\<lambda>_. returns None) d)))"

section \<open>Claiming operations\<close>

record task_claim =
  tcOperation :: ident
  tcRun :: ident
  tcOwner :: ident
  tcCommand :: execute_command

datatype claim_result = CLAIMED task_claim | DEFERRED | UNKNOWN | ALREADY_FINISHED

definition claimable :: "int \<Rightarrow> operation_row \<Rightarrow> bool" where
  "claimable now oper \<longleftrightarrow>
     opState oper = task_row_state.ACCEPTED \<or> opState oper = task_row_state.FAILED_RETRYABLE
     \<or> opState oper = task_row_state.RUNNING \<and> expired (opLease oper) now"

definition isFinishedRow :: "operation_row \<Rightarrow> bool" where
  "isFinishedRow oper \<longleftrightarrow> isFinalRow oper \<or> opState oper = task_row_state.PARTIAL"

text \<open>A failed attempt is retried under a new run, which starts its own history.\<close>

definition startRetry :: "store_env \<Rightarrow> (nat \<Rightarrow> string) \<Rightarrow> int \<Rightarrow> operation_row \<Rightarrow> ident tx" where
  "startRetry env u now oper =
     (let rid = ''agent-run-'' @ u 0 in
      andThen (inserting (\<lambda>d. rid \<notin> runId ` set (agentRuns d) \<and> rid \<notin> opRun ` set (operations d))
        (\<lambda>d. d\<lparr>agentRuns := agentRuns d @ [\<lparr>runId = rid, runOperation = opId oper,
            runAttempt = Suc (fold max (map runAttempt (filter (\<lambda>r. runOperation r = opId oper) (agentRuns d))) 0),
            runCreatedAt = now\<rparr>]\<rparr>)) (\<lambda>_.
      andThen (insertRunEvent env (runEventText (u 1) (opTask oper) rid 1 now TASK_STATE_CHANGED CREATED
        ''The decision task starts a new retry'') now) (\<lambda>_. returns rid)))"

definition appendRunningEvent :: "store_env \<Rightarrow> (nat \<Rightarrow> string) \<Rightarrow> int \<Rightarrow> ident \<Rightarrow> ident \<Rightarrow> unit tx" where
  "appendRunningEvent env u now tid rid =
     andThen (loadRunEvents env tid rid) (\<lambda>existing.
       if map_option run_event.taskState (lastOpt existing) \<noteq> Some UNDERSTANDING
       then insertRunEvent env (runEventText (u 2) tid rid (int (length existing) + 1) now TASK_STATE_CHANGED
              UNDERSTANDING ''The decision task started'') now
       else returns ())"

definition claimNext ::
    "store_env \<Rightarrow> (nat \<Rightarrow> string) \<Rightarrow> int \<Rightarrow> ident \<Rightarrow> ident \<Rightarrow> int \<Rightarrow> database
     \<Rightarrow> (store_error + claim_result) \<times> database" where
  "claimNext env u now oid worker lease = transact (\<lambda>d.
     case operationOf d oid of
       None \<Rightarrow> returns UNKNOWN d
     | Some oper \<Rightarrow>
         (case submissionOf d oper of
            None \<Rightarrow> returns UNKNOWN d
          | Some sub \<Rightarrow>
              if \<not> claimable now oper
              then returns (if isFinishedRow oper then ALREADY_FINISHED else DEFERRED) d
              else (case decodeExecuteDecisionTaskCommandV1 (stCommand env) (subCommand sub) of
                  Inl _ \<Rightarrow> Inl PersistenceUnavailableError
                | Inr cmd \<Rightarrow>
                    andThen (if opState oper = task_row_state.FAILED_RETRYABLE then startRetry env u now oper
                             else returns (opRun oper)) (\<lambda>rid.
                    andThen (updating (setOperation oid (\<lambda>q. q\<lparr>opRun := rid, opState := task_row_state.RUNNING,
                        opWorker := Some worker, opLease := Some (now + lease), opUpdatedAt := now\<rparr>))) (\<lambda>_.
                    andThen (appendRunningEvent env u now (opTask oper) rid) (\<lambda>_.
                    returns (CLAIMED \<lparr>tcOperation = oid, tcRun = rid, tcOwner = subOwner sub, tcCommand = cmd\<rparr>)))) d)))"

section \<open>Outcomes\<close>

definition explicitJson :: "explicit_state \<Rightarrow> string \<Rightarrow> control_error option \<Rightarrow> json" where
  "explicitJson st sm e =
     JObj ([(''state'', JStr (case st of explicit_state.FAILED_RETRYABLE \<Rightarrow> ''FAILED_RETRYABLE''
              | explicit_state.FAILED_FINAL \<Rightarrow> ''FAILED_FINAL'' | explicit_state.PARTIAL \<Rightarrow> ''PARTIAL'')),
            (''summary'', JStr sm)]
           @ (case e of None \<Rightarrow> []
              | Some x \<Rightarrow> [(''runtimeControlError'', JObj [(''code'', JStr (controlErrorCodeText (control_error.code x))),
                    (''message'', JStr (control_error.message x))])]))"

definition outcomeJson :: "store_env \<Rightarrow> execution_outcome \<Rightarrow> json" where
  "outcomeJson env out = (case out of
      OutcomeResult r \<Rightarrow> stResultJson env r
    | OutcomePaused p \<Rightarrow> stPausedJson env p
    | OutcomeExplicit st sm e \<Rightarrow> explicitJson st sm e)"

record decoded_outcome =
  doState :: task_row_state
  doPayload :: execution_outcome
  doRun :: "ident option"
  doTask :: "ident option"

definition explicitRowState :: "explicit_state \<Rightarrow> task_row_state" where
  "explicitRowState st = (case st of
      explicit_state.FAILED_RETRYABLE \<Rightarrow> task_row_state.FAILED_RETRYABLE
    | explicit_state.FAILED_FINAL \<Rightarrow> task_row_state.FAILED_FINAL
    | explicit_state.PARTIAL \<Rightarrow> task_row_state.PARTIAL)"

definition decodedResult :: "store_env \<Rightarrow> execution_outcome \<Rightarrow> decoded_outcome option" where
  "decodedResult env out =
     (case decodeDecisionTaskResultV1 (stFormats env) (stResult env) (outcomeJson env out) of
        Inr (Succeeded s evs b) \<Rightarrow> Some \<lparr>doState = task_row_state.COMPLETED, doPayload = OutcomeResult (Succeeded s evs b),
            doRun = Some (completed_status.agentRunId s), doTask = Some (completed_status.decisionTaskId s)\<rparr>
      | Inr (Failed s evs e) \<Rightarrow> Some \<lparr>doState = task_row_state.FAILED_FINAL, doPayload = OutcomeResult (Failed s evs e),
            doRun = Some (failed_status.agentRunId s), doTask = Some (failed_status.decisionTaskId s)\<rparr>
      | _ \<Rightarrow> None)"

definition decodePersistentOutcome :: "store_env \<Rightarrow> execution_outcome \<Rightarrow> decoded_outcome option" where
  "decodePersistentOutcome env out =
     (case decodePaused env (outcomeJson env out) of
        Inr v \<Rightarrow> Some \<lparr>doState = task_row_state.PAUSED (paused_outcome.state v), doPayload = OutcomePaused v,
            doRun = Some (runtime_snapshot.agentRunId (paused_outcome.snapshot v)),
            doTask = Some (runtime_snapshot.decisionTaskId (paused_outcome.snapshot v))\<rparr>
      | Inl _ \<Rightarrow>
          (case out of
             OutcomeExplicit st sm e \<Rightarrow>
               if meaningfulTextSchema sm
               then Some \<lparr>doState = explicitRowState st, doPayload = out, doRun = None, doTask = None\<rparr>
               else decodedResult env out
           | _ \<Rightarrow> decodedResult env out))"

definition isRuntimePausedOutcome :: "store_env \<Rightarrow> execution_outcome \<Rightarrow> bool" where
  "isRuntimePausedOutcome env out \<longleftrightarrow> isOk (decodePaused env (outcomeJson env out))"

definition runtimeControlErrorFromOutcome :: "store_env \<Rightarrow> execution_outcome \<Rightarrow> control_error option" where
  "runtimeControlErrorFromOutcome env out =
     (if isRuntimePausedOutcome env out
      then (case out of OutcomePaused p \<Rightarrow>
              Some \<lparr>control_error.code = RUNTIME_RESUME_DENIED, message = paused_outcome.summary p\<rparr>
            | _ \<Rightarrow> None)
      else case out of
        OutcomeExplicit st sm (Some e) \<Rightarrow> Some e
      | OutcomeExplicit explicit_state.PARTIAL sm None \<Rightarrow> None
      | OutcomeExplicit st sm None \<Rightarrow> Some \<lparr>control_error.code = RUNTIME_FAILED_CODE, message = sm\<rparr>
      | _ \<Rightarrow> None)"

definition getPublicOutcomeSummary :: "task_row_state \<Rightarrow> string" where
  "getPublicOutcomeSummary st =
     (if st = task_row_state.FAILED_RETRYABLE then ''The decision task failed for now and waits for a retry''
      else if st = task_row_state.FAILED_FINAL then ''The decision task failed and ended''
      else if st = task_row_state.PARTIAL then ''The decision task completed in part only''
      else ''The decision task completed'')"

definition publicTaskStateSummaries :: "decision_task_state \<Rightarrow> string" where
  "publicTaskStateSummaries st = (case st of
      CREATED \<Rightarrow> ''The decision task was created''
    | UNDERSTANDING \<Rightarrow> ''Understanding the requirement''
    | PLANNING \<Rightarrow> ''Planning the decision steps''
    | RESEARCHING \<Rightarrow> ''Collecting candidates and evidence''
    | VERIFYING \<Rightarrow> ''Verifying candidates and evidence''
    | GAP_RESEARCH \<Rightarrow> ''Closing evidence gaps''
    | COMPARING \<Rightarrow> ''Comparing the feasible candidates''
    | CRITIQUING \<Rightarrow> ''Checking risks and counterexamples''
    | GENERATING \<Rightarrow> ''Generating a reviewable decision''
    | decision_task_state.PAUSED p \<Rightarrow> (case p of
        PAUSED_USER \<Rightarrow> ''Waiting for information of the user''
      | PAUSED_PERMISSION \<Rightarrow> ''Waiting for a necessary permission''
      | PAUSED_SOURCE_LOGIN \<Rightarrow> ''Waiting for the login to a source''
      | PAUSED_LIMIT \<Rightarrow> ''Paused because of a resource limit'')
    | decision_task_state.COMPLETED \<Rightarrow> ''The decision task completed''
    | decision_task_state.FAILED \<Rightarrow> ''The decision task failed''
    | decision_task_state.CANCELLED \<Rightarrow> ''The decision task was cancelled'')"

definition approvedRuntimeSummaries :: "string list" where
  "approvedRuntimeSummaries =
     [''Runtime reused the authoritative side effect result and completed'',
      ''Side effect status needs manual verification (EFFECT_STATUS_UNSAFE)'',
      ''The authoritative result of a committed side effect is not available (EFFECT_RESULT_UNAVAILABLE)'',
      ''The integrity check of the result of a committed side effect failed (EFFECT_RESULT_INVALID)'',
      ''The result contract of a committed side effect is invalid (EFFECT_RESULT_INVALID)'',
      ''The recovery facts contain conflicting Decision draft results (EFFECT_RESULT_INVALID)'']"

definition publicRuntimeEventSummary :: "run_event \<Rightarrow> string" where
  "publicRuntimeEventSummary ev =
     (if run_event.summary ev \<in> set approvedRuntimeSummaries then run_event.summary ev
      else publicTaskStateSummaries (run_event.taskState ev))"

section \<open>Completing\<close>

text \<open>
  \<open>events.map((event, index, events) => ({...event, sequence: first + index, ...}))\<close>; \<open>stamp\<close> gives the
  time of an event from whether it is the last.
\<close>

fun renumber :: "(run_event \<Rightarrow> run_event) \<Rightarrow> (bool \<Rightarrow> run_event \<Rightarrow> string) \<Rightarrow> int \<Rightarrow> run_event list \<Rightarrow> run_event list" where
  "renumber f stamp n [] = []"
| "renumber f stamp n (ev # evs) =
     (f ev)\<lparr>run_event.sequence := n, run_event.summary := publicRuntimeEventSummary ev, run_event.occurredAt := stamp (evs = []) ev\<rparr>
       # renumber f stamp (n + 1) evs"

text \<open>The events get new ids, the row's task and run, and sequences after those that exist.\<close>

fun persistentIds :: "(nat \<Rightarrow> string) \<Rightarrow> nat \<Rightarrow> run_event list \<Rightarrow> run_event list" where
  "persistentIds u k [] = []"
| "persistentIds u k (ev # evs) = ev\<lparr>run_event.eventId := ''event-persistent-'' @ u k\<rparr> # persistentIds u (Suc k) evs"

definition rebased ::
    "(nat \<Rightarrow> string) \<Rightarrow> operation_row \<Rightarrow> (bool \<Rightarrow> run_event \<Rightarrow> string) \<Rightarrow> nat \<Rightarrow> run_event list \<Rightarrow> run_event list" where
  "rebased u oper stamp n evs =
     persistentIds u 0 (renumber (\<lambda>ev. ev\<lparr>run_event.decisionTaskId := opTask oper, run_event.agentRunId := opRun oper\<rparr>)
       stamp (int n + 1) evs)"

definition isPausedEvent :: "run_event \<Rightarrow> bool" where
  "isPausedEvent ev = (case run_event.taskState ev of decision_task_state.PAUSED _ \<Rightarrow> True | _ \<Rightarrow> False)"

definition lastStamp :: "int \<Rightarrow> bool \<Rightarrow> run_event \<Rightarrow> string" where
  "lastStamp now final ev = (if final then toISOString now else run_event.occurredAt ev)"

fun resultEvents :: "decision_task_result \<Rightarrow> run_event list" where
  "resultEvents (Succeeded s evs b) = evs"
| "resultEvents (Failed s evs e) = evs"
| "resultEvents (Rejected e) = []"

fun withEvents :: "decision_task_result \<Rightarrow> run_event list \<Rightarrow> run_event \<Rightarrow> decision_task_result" where
  "withEvents (Succeeded s evs b) evs' final =
     Succeeded (s\<lparr>completed_status.latestEventSequence := run_event.sequence final,
                  completed_status.updatedAt := run_event.occurredAt final\<rparr>) evs' b"
| "withEvents (Failed s evs e) evs' final =
     Failed (s\<lparr>failed_status.latestEventSequence := run_event.sequence final,
               failed_status.updatedAt := run_event.occurredAt final\<rparr>) evs' e"
| "withEvents (Rejected e) evs' final = Rejected e"

definition newResultEvents :: "(nat \<Rightarrow> string) \<Rightarrow> int \<Rightarrow> operation_row \<Rightarrow> run_event list \<Rightarrow> run_event list \<Rightarrow> run_event list" where
  "newResultEvents u now oper existing evs =
     (let recovered = list_ex isPausedEvent existing;
          eventsToPersist = (if recovered
            then filter (\<lambda>ev. run_event.taskState ev = decision_task_state.COMPLETED) evs else evs)
      in rebased u oper (lastStamp now) (length existing)
           (filter (\<lambda>ev. run_event.taskState ev \<notin> run_event.taskState ` set existing) eventsToPersist))"

definition persistResultRunEvents ::
    "store_env \<Rightarrow> (nat \<Rightarrow> string) \<Rightarrow> int \<Rightarrow> operation_row \<Rightarrow> decision_task_result \<Rightarrow> decision_task_result tx" where
  "persistResultRunEvents env u now oper r =
     andThen (loadRunEvents env (opTask oper) (opRun oper)) (\<lambda>existing.
       let news = newResultEvents u now oper existing (resultEvents r);
           resultRunEvents = (if list_ex isPausedEvent existing
             then renumber (\<lambda>ev. ev) (lastStamp now) 1 (resultEvents r) else existing @ news)
       in if existing @ news = [] then unavailable
          else andThen (insertRunEvents env now news) (\<lambda>_.
            if resultRunEvents = [] then unavailable
            else case decodePersistedResult env (stResultJson env (withEvents r resultRunEvents (last resultRunEvents))) oper of
                   None \<Rightarrow> unavailable
                 | Some r' \<Rightarrow> returns r'))"

definition newPausedEvents :: "(nat \<Rightarrow> string) \<Rightarrow> int \<Rightarrow> operation_row \<Rightarrow> run_event list \<Rightarrow> paused_outcome \<Rightarrow> run_event list" where
  "newPausedEvents u now oper existing p =
     (let news = rebased u oper (\<lambda>_ _. toISOString now) (length existing)
            (filter (\<lambda>ev. run_event.taskState ev \<notin> run_event.taskState ` set existing) (paused_outcome.runEvents p))
      in case (news, lastOpt (paused_outcome.runEvents p)) of
           ([], Some latest) \<Rightarrow>
             if map_option run_event.taskState (lastOpt existing) \<noteq> Some (decision_task_state.PAUSED (paused_outcome.state p))
                \<or> map_option run_event.summary (lastOpt existing) \<noteq> Some (publicRuntimeEventSummary latest)
             then [latest\<lparr>run_event.eventId := ''event-persistent-'' @ u 0, run_event.decisionTaskId := opTask oper,
                     run_event.agentRunId := opRun oper, run_event.sequence := int (length existing) + 1,
                     run_event.taskState := decision_task_state.PAUSED (paused_outcome.state p),
                     run_event.summary := publicRuntimeEventSummary latest, run_event.occurredAt := toISOString now\<rparr>]
             else []
         | _ \<Rightarrow> news)"

definition persistPausedRunEvents ::
    "store_env \<Rightarrow> (nat \<Rightarrow> string) \<Rightarrow> int \<Rightarrow> operation_row \<Rightarrow> paused_outcome \<Rightarrow> paused_outcome tx" where
  "persistPausedRunEvents env u now oper p =
     andThen (loadRunEvents env (opTask oper) (opRun oper)) (\<lambda>existing.
       let news = newPausedEvents u now oper existing p in
       andThen (insertRunEvents env now news) (\<lambda>_.
         case decodePaused env (stPausedJson env (p\<lparr>paused_outcome.runEvents := existing @ news\<rparr>)) of
           Inl _ \<Rightarrow> unavailable
         | Inr p' \<Rightarrow> returns p'))"

datatype completion = COMMITTED_RESULT decision_task_result | COMMITTED_SNAPSHOT task_snapshot | NOT_COMPLETABLE

text \<open>The rows the completing update selects: this worker's, running, with the lease not expired.\<close>

definition completable :: "int \<Rightarrow> ident \<Rightarrow> ident \<Rightarrow> decoded_outcome \<Rightarrow> database \<Rightarrow> operation_row \<Rightarrow> bool" where
  "completable now oid worker o' d oper \<longleftrightarrow>
     opId oper = oid \<and> opWorker oper = Some worker \<and> opState oper = task_row_state.RUNNING
     \<and> (case opLease oper of None \<Rightarrow> False | Some l \<Rightarrow> l \<ge> now)
     \<and> submissionOf d oper \<noteq> None
     \<and> (doRun o' = None \<or> doRun o' = Some (opRun oper))
     \<and> (doTask o' = None \<or> doTask o' = Some (opTask oper))"

definition completedRow :: "store_env \<Rightarrow> int \<Rightarrow> decoded_outcome \<Rightarrow> operation_row \<Rightarrow> operation_row" where
  "completedRow env now o' oper =
     oper\<lparr>opState := doState o', opResult := Some (stJsonb env (outcomeJson env (doPayload o'))),
          opUpdatedAt := now, opWorker := None, opLease := None\<rparr>"

text \<open>Store the outcome as persisted, with the time of its last event.\<close>

definition storeOutcome :: "store_env \<Rightarrow> ident \<Rightarrow> json \<Rightarrow> string \<Rightarrow> int tx" where
  "storeOutcome env oid payload at_time =
     (case dateParse at_time of
        None \<Rightarrow> unavailable
      | Some t \<Rightarrow> andThen (updating (setOperation oid (\<lambda>q. q\<lparr>opResult := Some (stJsonb env payload), opUpdatedAt := t\<rparr>)))
          (\<lambda>_. returns t))"

fun resultUpdatedAt :: "decision_task_result \<Rightarrow> string" where
  "resultUpdatedAt (Succeeded s evs b) = completed_status.updatedAt s"
| "resultUpdatedAt (Failed s evs e) = failed_status.updatedAt s"
| "resultUpdatedAt (Rejected e) = choice_mind_error.occurredAt e"

definition persistOutcome ::
    "store_env \<Rightarrow> (nat \<Rightarrow> string) \<Rightarrow> int \<Rightarrow> decoded_outcome \<Rightarrow> operation_row \<Rightarrow> completion tx" where
  "persistOutcome env u now o' row =
     (case doPayload o' of
        OutcomePaused p \<Rightarrow>
          if \<not> isRuntimePausedOutcome env (OutcomePaused p) then unavailable
          else andThen (persistPausedRunEvents env u now row p) (\<lambda>p'.
            case lastOpt (paused_outcome.runEvents p') of
              None \<Rightarrow> unavailable
            | Some ev \<Rightarrow>
                andThen (storeOutcome env (opId row) (stPausedJson env p') (run_event.occurredAt ev)) (\<lambda>t.
                andThen (snapshotTx env (row\<lparr>opResult := Some (stPausedJson env p'), opUpdatedAt := t\<rparr>))
                  (\<lambda>s. returns (COMMITTED_SNAPSHOT s))))
      | OutcomeResult r \<Rightarrow>
          andThen (persistResultRunEvents env u now row r) (\<lambda>r'.
          andThen (storeOutcome env (opId row) (stResultJson env r') (resultUpdatedAt r')) (\<lambda>_.
            if opState row = task_row_state.COMPLETED then returns (COMMITTED_RESULT r')
            else andThen (snapshotTx env row) (\<lambda>s. returns (COMMITTED_SNAPSHOT s))))
      | OutcomeExplicit st sm e \<Rightarrow>
          andThen (loadRunEvents env (opTask row) (opRun row)) (\<lambda>existing.
          andThen (insertRunEvent env (runEventText (u 0) (opTask row) (opRun row) (int (length existing) + 1) now
              (if opState row = task_row_state.COMPLETED then RUNTIME_SUCCEEDED else event_type.RUNTIME_FAILED)
              (if opState row = task_row_state.COMPLETED then decision_task_state.COMPLETED else decision_task_state.FAILED)
              (getPublicOutcomeSummary (opState row))) now) (\<lambda>_.
          andThen (snapshotTx env row) (\<lambda>s. returns (COMMITTED_SNAPSHOT s)))))"

definition completesRequest :: "ident \<Rightarrow> ident \<Rightarrow> ident \<Rightarrow> control_request_row \<Rightarrow> bool" where
  "completesRequest cid oid worker r \<longleftrightarrow> crId r = cid \<and> crOperation r = oid \<and> crWorker r = Some worker
     \<and> crState r = control_request_state.RUNNING"

definition completeRequest ::
    "store_env \<Rightarrow> int \<Rightarrow> ident \<Rightarrow> ident \<Rightarrow> ident \<Rightarrow> control_error option \<Rightarrow> database \<Rightarrow> database" where
  "completeRequest env now cid oid worker e d =
     d\<lparr>controlRequests := updateWhere (completesRequest cid oid worker) (\<lambda>r. r\<lparr>
        crState := (if e = None then control_request_state.COMPLETED else control_request_state.FAILED),
        crWorker := None, crLease := None,
        crResult := map_option (\<lambda>x. stJsonb env (controlErrorJson x)) e, crUpdatedAt := now\<rparr>) (controlRequests d)\<rparr>"

text \<open>Without a matching control request, everything is rolled back: the answer comes with the old database.\<close>

definition completeTx ::
    "store_env \<Rightarrow> (nat \<Rightarrow> string) \<Rightarrow> int \<Rightarrow> ident \<Rightarrow> ident \<Rightarrow> decoded_outcome \<Rightarrow> ident option \<Rightarrow> completion tx" where
  "completeTx env u now oid worker o' control = (\<lambda>d.
     case find (completable now oid worker o' d) (operations d) of
       None \<Rightarrow> returns NOT_COMPLETABLE d
     | Some oper \<Rightarrow>
         andThen (updating (setOperation oid (completedRow env now o'))) (\<lambda>_.
         andThen (persistOutcome env u now o' (completedRow env now o' oper)) (\<lambda>c d'.
           case control of
             None \<Rightarrow> returns c d'
           | Some cid \<Rightarrow>
               if list_ex (completesRequest cid oid worker) (controlRequests d')
               then returns c (completeRequest env now cid oid worker
                      (runtimeControlErrorFromOutcome env (doPayload o')) d')
               else returns NOT_COMPLETABLE d)) d)"

definition complete ::
    "store_env \<Rightarrow> (nat \<Rightarrow> string) \<Rightarrow> int \<Rightarrow> ident \<Rightarrow> ident \<Rightarrow> execution_outcome \<Rightarrow> ident option \<Rightarrow> database
     \<Rightarrow> (store_error + completion) \<times> database" where
  "complete env u now oid worker out control d =
     (case decodePersistentOutcome env out of
        None \<Rightarrow> (Inl PersistenceUnavailableError, d)
      | Some o' \<Rightarrow> transact (completeTx env u now oid worker o' control) d)"

end
