(* ===== verification/CM_Store_Facts.thy ===== *)
theory CM_Store_Facts
  imports CM_Task_Worker
begin

text \<open>
  How the task store may evolve. \<open>storeInv\<close> is what holds of every reachable database: run events have
  increasing cursors and, per run, the sequences 1, 2, ... without a gap; they belong to runs of existing
  operations. \<open>evolves d0 d\<close> adds how a database changes without a purge: the event log and the effect
  bindings are extended only, and the row of a finished operation stays as it is. The rules for
  transactions reduce each operation of the store to these.
\<close>

section \<open>Rules for transactions\<close>

text \<open>Started in \<open>P\<close>, the transaction aborts or ends with a value and a database in \<open>Q\<close>.\<close>

definition ensures :: "(database \<Rightarrow> bool) \<Rightarrow> 'a tx \<Rightarrow> ('a \<Rightarrow> database \<Rightarrow> bool) \<Rightarrow> bool" where
  "ensures P m Q \<longleftrightarrow> (\<forall>d. P d \<longrightarrow> (case m d of Inl _ \<Rightarrow> True | Inr (a, d') \<Rightarrow> Q a d'))"

lemma ensures_returns: "(\<And>d. P d \<Longrightarrow> Q a d) \<Longrightarrow> ensures P (returns a) Q"
  by (simp add: ensures_def returns_def)

lemma ensures_aborts [simp]: "ensures P (aborts e) Q" "ensures P unavailable Q"
  by (simp_all add: ensures_def aborts_def unavailable_def)

lemma ensures_andThen:
  "ensures P m R \<Longrightarrow> (\<And>a. ensures (R a) (f a) Q) \<Longrightarrow> ensures P (andThen m f) Q"
  by (fastforce simp: ensures_def andThen_def split: sum.splits prod.splits)

lemma ensures_updating: "(\<And>d. P d \<Longrightarrow> Q () (f d)) \<Longrightarrow> ensures P (updating f) Q"
  by (simp add: ensures_def updating_def)

lemma ensures_inserting: "(\<And>d. P d \<Longrightarrow> ok d \<Longrightarrow> Q () (f d)) \<Longrightarrow> ensures P (inserting ok f) Q"
  by (simp add: ensures_def inserting_def)

lemma ensures_forAll:
  "(\<And>x. ensures P (f x) (\<lambda>_. P)) \<Longrightarrow> ensures P (forAll f xs) (\<lambda>_. P)"
  by (induction xs) (auto intro: ensures_returns ensures_andThen)

lemma ensures_weaken:
  "ensures P m Q \<Longrightarrow> (\<And>d. P' d \<Longrightarrow> P d) \<Longrightarrow> (\<And>a d. Q a d \<Longrightarrow> Q' a d) \<Longrightarrow> ensures P' m Q'"
  by (fastforce simp: ensures_def split: sum.splits prod.splits)

lemma ensures_assume: "(\<And>d. P d \<Longrightarrow> C) \<Longrightarrow> (C \<Longrightarrow> ensures P m Q) \<Longrightarrow> ensures P m Q"
  by (auto simp: ensures_def)

lemma ensures_snapshotTx: "ensures P (snapshotTx env oper) (\<lambda>_. P)"
  by (auto simp: snapshotTx_def split: option.split intro: ensures_returns)

lemma ensures_statusTx: "ensures P (statusTx r) (\<lambda>_. P)"
  by (auto simp: statusTx_def split: option.split intro: ensures_returns)

lemma ensures_transact:
  "ensures (\<lambda>d. d = d0) m (\<lambda>_. P) \<Longrightarrow> P d0 \<Longrightarrow> P (snd (transact m d0))"
  by (auto simp: ensures_def transact_def split: sum.splits prod.splits)

lemmas ensures_rules = ensures_returns ensures_andThen ensures_updating ensures_inserting

section \<open>The invariant\<close>

definition opKeys :: "database \<Rightarrow> (ident \<times> ident) list" where
  "opKeys d = map (\<lambda>oper. (opId oper, opTask oper)) (operations d)"

definition requestKeys :: "database \<Rightarrow> (ident \<times> ident) list" where
  "requestKeys d = map (\<lambda>oper. (opId oper, opRequestId oper)) (operations d)"

definition runKeys :: "database \<Rightarrow> (ident \<times> ident) list" where
  "runKeys d = map (\<lambda>r. (runId r, runOperation r)) (agentRuns d)"

definition eventsOf :: "ident \<Rightarrow> event_row list \<Rightarrow> event_row list" where
  "eventsOf rid rows = filter (\<lambda>e. evRun e = rid) rows"

text \<open>The run belongs to an operation of the task.\<close>

definition runOfTask :: "database \<Rightarrow> ident \<Rightarrow> ident \<Rightarrow> bool" where
  "runOfTask d rid tid \<longleftrightarrow> (\<exists>oid. (rid, oid) \<in> set (runKeys d) \<and> (oid, tid) \<in> set (opKeys d))"

definition gapless :: "event_row list \<Rightarrow> bool" where
  "gapless rows \<longleftrightarrow> (\<forall>rid. map evSequence (eventsOf rid rows) = map int [1..<Suc (length (eventsOf rid rows))])"

definition cursorsIncrease :: "database \<Rightarrow> bool" where
  "cursorsIncrease d \<longleftrightarrow> sorted_wrt (<) (map evCursor (eventRows d))
     \<and> (\<forall>e \<in> set (eventRows d). evCursor e < nextCursor d)"

definition keysDistinct :: "database \<Rightarrow> bool" where
  "keysDistinct d \<longleftrightarrow> distinct (map fst (opKeys d)) \<and> distinct (map fst (runKeys d))"

definition eventsOwned :: "database \<Rightarrow> bool" where
  "eventsOwned d \<longleftrightarrow> (\<forall>e \<in> set (eventRows d). runOfTask d (evRun e) (evTask e))"

definition operationsHaveRuns :: "database \<Rightarrow> bool" where
  "operationsHaveRuns d \<longleftrightarrow> (\<forall>oper \<in> set (operations d). (opRun oper, opId oper) \<in> set (runKeys d))"

definition requestsOwned :: "database \<Rightarrow> bool" where
  "requestsOwned d \<longleftrightarrow> (\<forall>r \<in> set (controlRequests d).
     (crRun r, crOperation r) \<in> set (runKeys d) \<and> (crOperation r, crTask r) \<in> set (opKeys d))"

definition storeInv :: "database \<Rightarrow> bool" where
  "storeInv d \<longleftrightarrow> gapless (eventRows d) \<and> cursorsIncrease d \<and> keysDistinct d \<and> eventsOwned d
     \<and> operationsHaveRuns d \<and> requestsOwned d"

lemma storeInv_empty: "storeInv emptyDatabase"
  by (simp add: storeInv_def emptyDatabase_def gapless_def cursorsIncrease_def keysDistinct_def opKeys_def
      runKeys_def eventsOwned_def operationsHaveRuns_def requestsOwned_def eventsOf_def)

lemma runOfTask_unique:
  assumes "keysDistinct d" and "runOfTask d rid t" and "runOfTask d rid t'"
  shows "t = t'"
  using assms unfolding keysDistinct_def runOfTask_def by (metis eq_key_imp_eq_value)

text \<open>The invariant looks at some tables only.\<close>

lemma storeInv_cong:
  assumes "eventRows d' = eventRows d" "nextCursor d' = nextCursor d" "runKeys d' = runKeys d" "opKeys d' = opKeys d"
    and "map opRun (operations d') = map opRun (operations d)"
    and "map (\<lambda>r. (crRun r, crOperation r, crTask r)) (controlRequests d')
       = map (\<lambda>r. (crRun r, crOperation r, crTask r)) (controlRequests d)"
  shows "storeInv d' = storeInv d"
proof -
  have "operationsHaveRuns d' = operationsHaveRuns d"
  proof -
    have eq: "operationsHaveRuns e \<longleftrightarrow>
        set (zip (map opRun (operations e)) (map fst (opKeys e))) \<subseteq> set (runKeys e)" for e
      by (auto simp: operationsHaveRuns_def opKeys_def zip_map_map zip_same_conv_map comp_def)
    show ?thesis unfolding eq assms by simp
  qed
  moreover have "requestsOwned d' = requestsOwned d"
  proof -
    have eq: "requestsOwned e \<longleftrightarrow> (\<forall>(a, b, c) \<in> set (map (\<lambda>r. (crRun r, crOperation r, crTask r)) (controlRequests e)).
        (a, b) \<in> set (runKeys e) \<and> (b, c) \<in> set (opKeys e))" for e
      by (auto simp: requestsOwned_def)
    show ?thesis unfolding eq assms by (rule refl)
  qed
  ultimately show ?thesis
    unfolding storeInv_def cursorsIncrease_def keysDistinct_def eventsOwned_def runOfTask_def assms by simp
qed

section \<open>Evolution\<close>

definition evolves :: "database \<Rightarrow> database \<Rightarrow> bool" where
  "evolves d0 d \<longleftrightarrow> storeInv d
     \<and> (\<exists>es. eventRows d = eventRows d0 @ es) \<and> (\<exists>bs. effectBindings d = effectBindings d0 @ bs)
     \<and> (\<forall>oper \<in> set (operations d0). isFinalRow oper \<longrightarrow> oper \<in> set (operations d))
     \<and> set (opKeys d0) \<subseteq> set (opKeys d) \<and> set (runKeys d0) \<subseteq> set (runKeys d)
     \<and> (\<exists>ss. submissions d = submissions d0 @ ss) \<and> set (requestKeys d0) \<subseteq> set (requestKeys d)"

lemma evolves_refl: "storeInv d \<Longrightarrow> evolves d d"
  by (simp add: evolves_def)

lemma evolvesD: "evolves d0 d \<Longrightarrow> storeInv d"
  by (simp add: evolves_def)

lemma evolves_runOfTask: "evolves d0 d \<Longrightarrow> runOfTask d0 rid tid \<Longrightarrow> runOfTask d rid tid"
  unfolding evolves_def runOfTask_def by blast

text \<open>Tables that the invariant does not look at may change freely.\<close>

lemma evolves_cong:
  assumes "evolves d0 d" and "eventRows d' = eventRows d" "nextCursor d' = nextCursor d"
    "agentRuns d' = agentRuns d" "operations d' = operations d"
    "map (\<lambda>r. (crRun r, crOperation r, crTask r)) (controlRequests d')
       = map (\<lambda>r. (crRun r, crOperation r, crTask r)) (controlRequests d)"
    and "\<exists>bs. effectBindings d' = effectBindings d @ bs" and "\<exists>ss. submissions d' = submissions d @ ss"
  shows "evolves d0 d'"
proof -
  have keys: "runKeys d' = runKeys d" "opKeys d' = opKeys d" by (simp_all add: runKeys_def opKeys_def assms)
  moreover have "requestKeys d' = requestKeys d" by (simp add: requestKeys_def assms)
  moreover have "storeInv d'"
    using storeInv_cong [of d' d] assms keys by (simp add: evolves_def)
  ultimately show ?thesis using assms by (auto simp: evolves_def)
qed

lemma evolves_untouched [simp]:
  "evolves d0 d \<Longrightarrow> evolves d0 (d\<lparr>submissions := submissions d @ a\<rparr>)"
  "evolves d0 d \<Longrightarrow> evolves d0 (d\<lparr>notifications := b\<rparr>)"
  "evolves d0 d \<Longrightarrow> evolves d0 (d\<lparr>outbox := c\<rparr>)"
  "evolves d0 d \<Longrightarrow> evolves d0 (d\<lparr>controlStates := e\<rparr>)"
  "evolves d0 d \<Longrightarrow> evolves d0 (d\<lparr>snapshotObjects := f\<rparr>)"
  "evolves d0 d \<Longrightarrow> evolves d0 (d\<lparr>effectObjects := f\<rparr>)"
  "evolves d0 d \<Longrightarrow> evolves d0 (d\<lparr>recoveryFacts := g\<rparr>)"
  "evolves d0 d \<Longrightarrow> evolves d0 (d\<lparr>effectReceiptRows := h\<rparr>)"
  "evolves d0 d \<Longrightarrow> evolves d0 (d\<lparr>auditRows := i\<rparr>)"
  "evolves d0 d \<Longrightarrow> evolves d0 (d\<lparr>credentialRows := j\<rparr>)"
  "evolves d0 d \<Longrightarrow> evolves d0 (d\<lparr>egressRows := k\<rparr>)"
  "evolves d0 d \<Longrightarrow> evolves d0 (d\<lparr>evidenceRows := l\<rparr>)"
  by (erule evolves_cong; simp)+

lemma evolves_setRequest:
  assumes "evolves d0 d" and "\<And>r. (crRun (f r), crOperation (f r), crTask (f r)) = (crRun r, crOperation r, crTask r)"
  shows "evolves d0 (d\<lparr>controlRequests := updateWhere p f (controlRequests d)\<rparr>)"
  using assms(1) by (rule evolves_cong) (auto simp: updateWhere_def comp_def assms(2) simp del: prod.inject intro!: map_cong)

lemma evolves_addRequest:
  assumes "evolves d0 d" and "(crRun r, crOperation r) \<in> set (runKeys d)" and "(crOperation r, crTask r) \<in> set (opKeys d)"
  shows "evolves d0 (d\<lparr>controlRequests := controlRequests d @ [r]\<rparr>)"
  using assms
  by (auto simp: evolves_def storeInv_def cursorsIncrease_def keysDistinct_def eventsOwned_def runOfTask_def
      operationsHaveRuns_def requestsOwned_def runKeys_def opKeys_def requestKeys_def)

text \<open>An update of an operation that was not finished, and that stays the operation of its task.\<close>

definition openOperation :: "database \<Rightarrow> ident \<Rightarrow> bool" where
  "openOperation d oid \<longleftrightarrow> (\<forall>oper \<in> set (operations d). opId oper = oid \<longrightarrow> \<not> isFinalRow oper)"

lemma openOperationI:
  "storeInv d \<Longrightarrow> oper \<in> set (operations d) \<Longrightarrow> \<not> isFinalRow oper \<Longrightarrow> openOperation d (opId oper)"
  unfolding openOperation_def storeInv_def keysDistinct_def opKeys_def
  by (auto simp: distinct_map comp_def inj_on_def)

lemma updateWhere_keys:
  "(\<And>r. key (f r) = key r) \<Longrightarrow> map key (updateWhere p f rows) = map key rows"
  by (simp add: updateWhere_def comp_def)

lemma setOperation_keys:
  assumes "\<And>oper. opId (f oper) = opId oper" "\<And>oper. opTask (f oper) = opTask oper"
    "\<And>oper. opRequestId (f oper) = opRequestId oper"
  shows "runKeys (setOperation oid f d) = runKeys d" and "opKeys (setOperation oid f d) = opKeys d"
    and "requestKeys (setOperation oid f d) = requestKeys d"
    and "runOfTask (setOperation oid f d) rid tid = runOfTask d rid tid"
proof -
  show keys: "runKeys (setOperation oid f d) = runKeys d" "opKeys (setOperation oid f d) = opKeys d"
      "requestKeys (setOperation oid f d) = requestKeys d"
    by (auto simp: setOperation_def runKeys_def opKeys_def requestKeys_def updateWhere_def assms)
  show "runOfTask (setOperation oid f d) rid tid = runOfTask d rid tid" by (simp add: runOfTask_def keys)
qed

lemma evolves_setOperation:
  assumes "evolves d0 d" and "openOperation d0 oid"
    and same: "\<And>oper. opId (f oper) = opId oper" "\<And>oper. opTask (f oper) = opTask oper"
      "\<And>oper. opRequestId (f oper) = opRequestId oper"
    and run: "\<And>oper. oper \<in> set (operations d) \<Longrightarrow> opId oper = oid \<Longrightarrow> (opRun (f oper), oid) \<in> set (runKeys d)"
  shows "evolves d0 (setOperation oid f d)"
proof -
  let ?d = "setOperation oid f d"
  have keys: "runKeys ?d = runKeys d" "opKeys ?d = opKeys d" "requestKeys ?d = requestKeys d"
    by (simp_all add: setOperation_keys same)
  have "operationsHaveRuns ?d"
    using assms(1) run keys
    by (auto simp: setOperation_def updateWhere_def operationsHaveRuns_def evolves_def storeInv_def same runKeys_def)
  moreover have "oper \<in> set (operations ?d)" if "oper \<in> set (operations d0)" and "isFinalRow oper" for oper
  proof -
    from that assms(1) have "oper \<in> set (operations d)" by (simp add: evolves_def)
    moreover have "opId oper \<noteq> oid" using assms(2) that by (auto simp: openOperation_def)
    ultimately show ?thesis by (force simp: setOperation_def updateWhere_def)
  qed
  ultimately show ?thesis using assms(1) keys
    by (auto simp: evolves_def storeInv_def cursorsIncrease_def keysDistinct_def eventsOwned_def runOfTask_def
        requestsOwned_def setOperation_def)
qed

section \<open>Run events\<close>

lemma eventsOf_task:
  assumes "storeInv d" and "runOfTask d rid tid"
  shows "filter (\<lambda>e. evTask e = tid \<and> evRun e = rid) (eventRows d) = eventsOf rid (eventRows d)"
proof -
  have "evTask e = tid" if "e \<in> set (eventRows d)" and "evRun e = rid" for e
    using that assms runOfTask_unique [of d rid "evTask e" tid] by (auto simp: storeInv_def eventsOwned_def)
  then show ?thesis unfolding eventsOf_def by (intro filter_cong) auto
qed

text \<open>The run belongs to the task and has \<open>n\<close> events.\<close>

definition ready :: "database \<Rightarrow> ident \<Rightarrow> ident \<Rightarrow> nat \<Rightarrow> database \<Rightarrow> bool" where
  "ready d0 rid tid n d \<longleftrightarrow> evolves d0 d \<and> runOfTask d rid tid \<and> length (eventsOf rid (eventRows d)) = n"

lemma readyD: "ready d0 rid tid n d \<Longrightarrow> evolves d0 d"
  by (simp add: ready_def)

lemma ready_cong:
  "ready d0 rid tid n d \<Longrightarrow> (evolves d0 d \<Longrightarrow> evolves d0 d') \<Longrightarrow> eventRows d' = eventRows d \<Longrightarrow> runKeys d' = runKeys d \<Longrightarrow>
   opKeys d' = opKeys d \<Longrightarrow> ready d0 rid tid n d'"
  by (simp add: ready_def runOfTask_def)

lemma loadRunEvents_ensures:
  "ensures (\<lambda>d. evolves d0 d \<and> runOfTask d rid tid) (loadRunEvents env tid rid) (\<lambda>evs. ready d0 rid tid (length evs))"
  unfolding ensures_def loadRunEvents_def
  by (auto simp: eventsOf_task ready_def dest!: decodeAll_length evolvesD split: option.splits)

lemma gapless_snoc:
  "gapless rows \<Longrightarrow> evSequence e = int (length (eventsOf (evRun e) rows)) + 1 \<Longrightarrow> gapless (rows @ [e])"
  by (auto simp: gapless_def eventsOf_def)

text \<open>The next event of the run.\<close>

definition isNext :: "ident \<Rightarrow> ident \<Rightarrow> nat \<Rightarrow> run_event \<Rightarrow> bool" where
  "isNext rid tid n ev \<longleftrightarrow> run_event.agentRunId ev = rid \<and> run_event.decisionTaskId ev = tid
     \<and> run_event.sequence ev = int n + 1"

lemma insertRunEvent_ensures:
  assumes "isNext rid tid n ev"
  shows "ensures (ready d0 rid tid n) (insertRunEvent env ev now) (\<lambda>_. ready d0 rid tid (Suc n))"
  unfolding insertRunEvent_def
proof (rule ensures_inserting, goal_cases)
  case (1 d)
  let ?row = "\<lparr>evCursor = nextCursor d, evId = run_event.eventId ev, evTask = run_event.decisionTaskId ev,
     evRun = run_event.agentRunId ev, evSequence = run_event.sequence ev, evPayload = stJsonb env (stEventJson env ev),
     evOccurredAt = run_event.occurredAt ev, evPersistedAt = now\<rparr>"
  note P = 1(1) [unfolded ready_def] assms [unfolded isNext_def]
  have "gapless (eventRows d @ [?row])"
    using P by (intro gapless_snoc) (simp_all add: evolves_def storeInv_def)
  then show ?case using P
    by (auto simp: ready_def evolves_def storeInv_def cursorsIncrease_def keysDistinct_def eventsOwned_def runOfTask_def
        operationsHaveRuns_def requestsOwned_def runKeys_def opKeys_def requestKeys_def sorted_wrt_append eventsOf_def less_Suc_eq)
qed

text \<open>Events of one run that are numbered on from what is there.\<close>

fun numberedFrom :: "ident \<Rightarrow> ident \<Rightarrow> nat \<Rightarrow> run_event list \<Rightarrow> bool" where
  "numberedFrom rid tid n [] = True"
| "numberedFrom rid tid n (ev # evs) \<longleftrightarrow> isNext rid tid n ev \<and> numberedFrom rid tid (Suc n) evs"

lemma insertRunEvents_ensures:
  "numberedFrom rid tid n evs \<Longrightarrow>
   ensures (ready d0 rid tid n) (insertRunEvents env now evs) (\<lambda>_. evolves d0)"
proof (induction evs arbitrary: n)
  case Nil
  then show ?case by (auto simp: insertRunEvents_def readyD intro: ensures_returns)
next
  case (Cons ev evs)
  from Cons.prems have "isNext rid tid n ev" and rest: "numberedFrom rid tid (Suc n) evs" by simp_all
  from insertRunEvent_ensures [OF this(1)] Cons.IH [OF rest] show ?case
    unfolding insertRunEvents_def forAll.simps by (rule ensures_andThen)
qed

lemma isNext_text [simp]: "isNext rid tid n (runEventText u tid rid (int n + 1) a ty st sm)"
  by (simp add: isNext_def runEventText_def)

text \<open>Load the history of a run and append one event to it.\<close>

lemma append_event_ensures:
  assumes "\<And>evs. isNext rid tid (length evs) (ev evs)"
  shows "ensures (\<lambda>d. evolves d0 d \<and> runOfTask d rid tid)
    (andThen (loadRunEvents env tid rid) (\<lambda>evs. insertRunEvent env (ev evs) now)) (\<lambda>_. evolves d0)"
  using loadRunEvents_ensures
proof (rule ensures_andThen)
  show "ensures (ready d0 rid tid (length evs)) (insertRunEvent env (ev evs) now) (\<lambda>_. evolves d0)" for evs
    by (rule ensures_weaken [OF insertRunEvent_ensures [OF assms]]) (auto dest: readyD)
qed

lemma numberedFrom_rebased:
  "numberedFrom (opRun oper) (opTask oper) n (rebased u oper stamp n evs)"
proof -
  have "numberedFrom rid tid m (persistentIds u k (renumber (\<lambda>ev. ev\<lparr>run_event.decisionTaskId := tid,
      run_event.agentRunId := rid\<rparr>) stamp (int m + 1) evs))" for rid tid m k
  proof (induction evs arbitrary: m k)
    case (Cons ev evs)
    from Cons.IH [of "Suc m" "Suc k"] show ?case by (simp add: isNext_def add.commute)
  qed simp
  then show ?thesis by (simp add: rebased_def)
qed

section \<open>New runs and operations\<close>

lemma no_events_of_new_run:
  "storeInv d \<Longrightarrow> rid \<notin> runId ` set (agentRuns d) \<Longrightarrow> eventsOf rid (eventRows d) = []"
  by (fastforce simp: storeInv_def eventsOwned_def runOfTask_def runKeys_def eventsOf_def filter_empty_conv)

lemma evolves_newRun:
  assumes "evolves d0 d" and "runId r \<notin> runId ` set (agentRuns d)"
  shows "evolves d0 (d\<lparr>agentRuns := agentRuns d @ [r]\<rparr>)" (is "evolves d0 ?d")
proof -
  have keys: "runKeys ?d = runKeys d @ [(runId r, runOperation r)]" "opKeys ?d = opKeys d"
      "requestKeys ?d = requestKeys d"
    by (simp_all add: runKeys_def opKeys_def requestKeys_def)
  have "eventsOwned ?d" if "eventsOwned d"
    using that by (auto simp: eventsOwned_def runOfTask_def keys)
  moreover have "keysDistinct ?d" if "keysDistinct d"
    using that assms(2) by (auto simp: keysDistinct_def keys runKeys_def comp_def)
  ultimately show ?thesis using assms(1)
    by (auto simp: evolves_def storeInv_def cursorsIncrease_def operationsHaveRuns_def requestsOwned_def keys)
qed

lemma evolves_newOperation:
  assumes "evolves d0 d" and "opId oper \<notin> opId ` set (operations d)" and "runId r \<notin> runId ` set (agentRuns d)"
    and "opRun oper = runId r" and "runOperation r = opId oper"
  shows "evolves d0 (d\<lparr>operations := operations d @ [oper], agentRuns := agentRuns d @ [r]\<rparr>)" (is "evolves d0 ?d")
proof -
  have keys: "runKeys ?d = runKeys d @ [(runId r, runOperation r)]" "opKeys ?d = opKeys d @ [(opId oper, opTask oper)]"
      "requestKeys ?d = requestKeys d @ [(opId oper, opRequestId oper)]"
    by (simp_all add: runKeys_def opKeys_def requestKeys_def)
  have "eventsOwned ?d" if "eventsOwned d"
    using that by (auto simp: eventsOwned_def runOfTask_def keys)
  moreover have "keysDistinct ?d" if "keysDistinct d"
    using that assms(2,3) by (auto simp: keysDistinct_def keys runKeys_def opKeys_def comp_def)
  ultimately show ?thesis using assms(1,4,5)
    by (auto simp: evolves_def storeInv_def cursorsIncrease_def operationsHaveRuns_def requestsOwned_def keys)
qed

section \<open>Sequences of changes\<close>

lemma evolves_trans: "evolves d0 d1 \<Longrightarrow> evolves d1 d2 \<Longrightarrow> evolves d0 d2"
  unfolding evolves_def by (elim conjE exE) (intro conjI; fastforce)

lemma evolves_transact:
  "storeInv d \<Longrightarrow> (\<And>a d'. m d = Inr (a, d') \<Longrightarrow> evolves d d') \<Longrightarrow> evolves d (snd (transact m d))"
  by (auto simp: transact_def evolves_refl split: sum.splits prod.splits)

lemma ensuresD: "ensures P m Q \<Longrightarrow> P d \<Longrightarrow> m d = Inr (a, d') \<Longrightarrow> Q a d'"
  by (auto simp: ensures_def)

lemma evolvingD:
  "ensures (evolves d) m (\<lambda>_. evolves d) \<Longrightarrow> storeInv d \<Longrightarrow> m d = Inr (a, d') \<Longrightarrow> evolves d d'"
  by (drule ensuresD) (simp_all add: evolves_refl)

lemmas answer_simps = returns_def aborts_def unavailable_def snapshotTx_def statusTx_def

text \<open>The keys of an operation's row.\<close>

lemma inv_keys:
  assumes "storeInv d" and "oper \<in> set (operations d)"
  shows "(opRun oper, opId oper) \<in> set (runKeys d)" and "(opId oper, opTask oper) \<in> set (opKeys d)"
    and "runOfTask d (opRun oper) (opTask oper)"
  using assms by (auto simp: storeInv_def operationsHaveRuns_def opKeys_def runOfTask_def)

end
