(* ===== verification/CM_Task_Facts.thy ===== *)
theory CM_Task_Facts
  imports CM_Store_Facts
begin

text \<open>
  Every operation of the task store but the purge lets the database evolve: one lemma per operation,
  by the rules for transactions.
\<close>

section \<open>Submitting\<close>

lemma insertSubmission_evolves:
  "ensures (evolves d0) (insertSubmission env u now cmd owner fp) (\<lambda>_. evolves d0)"
proof -
  define reqId where "reqId = execute_command.executionRequestId cmd"
  define tid where "tid = requirement_revision.decisionTaskId (execute_command.requirementRevision cmd)"
  define rid where "rid = ''agent-run-'' @ u 0"
  define newOp where "newOp = \<lparr>opId = u 1, opRun = rid, opRequestId = reqId, opTask = tid,
      opState = task_row_state.ACCEPTED, opWorker = None, opLease = None, opResult = None,
      opCreatedAt = now, opUpdatedAt = now\<rparr>"
  let ?withOp = "\<lambda>d. \<exists>d1. evolves d0 d1 \<and> u 1 \<notin> opId ` set (operations d1)
      \<and> d = d1\<lparr>operations := operations d1 @ [newOp]\<rparr>"
  have run: "ready d0 rid tid 0 (d1\<lparr>operations := operations d1 @ [newOp], agentRuns := agentRuns d1 @
      [\<lparr>runId = rid, runOperation = u 1, runAttempt = 1, runCreatedAt = now\<rparr>]\<rparr>)"
    if "evolves d0 d1" and "u 1 \<notin> opId ` set (operations d1)" and "rid \<notin> runId ` set (agentRuns d1)" for d1
    using that evolves_newOperation [of d0 d1 newOp "\<lparr>runId = rid, runOperation = u 1, runAttempt = 1, runCreatedAt = now\<rparr>"]
      no_events_of_new_run [OF evolvesD, of d0 d1 rid]
    by (auto simp: ready_def newOp_def runOfTask_def runKeys_def opKeys_def)
  show ?thesis
    unfolding insertSubmission_def Let_def
    unfolding reqId_def [symmetric] tid_def [symmetric] rid_def [symmetric] newOp_def [symmetric]
    apply (rule ensures_andThen [where R = "\<lambda>_. evolves d0"])
     apply (rule ensures_inserting, simp)
    apply (rule ensures_andThen [where R = "\<lambda>_. ?withOp"])
     apply (rule ensures_inserting, blast)
    apply (rule ensures_andThen [where R = "\<lambda>_. ready d0 rid tid 0"])
     apply (rule ensures_inserting, use run in fastforce)
    apply (rule ensures_andThen [where R = "\<lambda>_. ready d0 rid tid 0"])
     apply (rule ensures_inserting, erule ready_cong; simp add: runKeys_def opKeys_def)
    apply (rule ensures_andThen [OF insertRunEvent_ensures])
     apply (simp add: isNext_def runEventText_def)
    apply (rule ensures_returns, simp add: readyD)
    done
qed

lemma submit_evolves: "storeInv d \<Longrightarrow> evolves d (snd (submit env u now cmd owner d))"
  unfolding submit_def
  by (rule evolves_transact)
    (auto simp: submitInTransaction_def Let_def answer_simps evolves_refl
      split: option.splits if_splits dest: evolvingD [OF insertSubmission_evolves])

section \<open>Control requests\<close>

lemma latestOf_mem: "latestOf ops = Some oper \<Longrightarrow> oper \<in> set ops"
  unfolding latestOf_def by (metis (no_types, lifting) list.set_intros(1) list.simps(4) list.simps(5) neq_Nil_conv option.inject option.simps(3) set_sort)

lemma latestOperationD:
  assumes "latestOperation d tid owner = Some oper"
  shows "oper \<in> set (operations d)" and "opTask oper = tid" and "ownedBy d owner oper"
  using latestOf_mem [OF assms [unfolded latestOperation_def]] by auto

lemma insertResume_evolves:
  assumes "storeInv d" and "oper \<in> set (operations d)" and "opTask oper = riTask inp"
  shows "ensures (evolves d) (insertResume inp oper now) (\<lambda>_. evolves d)"
  unfolding insertResume_def
proof (rule ensures_inserting)
  fix d' assume "evolves d d'"
  moreover from this have "(opRun oper, opId oper) \<in> set (runKeys d')" and "(opId oper, opTask oper) \<in> set (opKeys d')"
    using inv_keys [OF assms(1,2)] by (auto simp: evolves_def)
  ultimately show "evolves d (d'\<lparr>controlRequests := controlRequests d' @ [resumeRow inp oper now]\<rparr>)"
    using assms(3) by (intro evolves_addRequest) (simp_all add: resumeRow_def)
qed

lemma acceptResume_evolves:
  assumes "storeInv d" and "oper \<in> set (operations d)" and "opTask oper = riTask inp"
  shows "ensures (evolves d) (acceptResume env now inp oper) (\<lambda>_. evolves d)"
proof -
  have tail: "ensures (evolves d) (\<lambda>d'. case findRequest (riControlRequest inp) d' of
         None \<Rightarrow> Inl (IdempotencyConflictError (riControlRequest inp))
       | Some r \<Rightarrow> if sameResume inp oper r then statusTx r d'
                   else Inl (IdempotencyConflictError (riControlRequest inp))) (\<lambda>_. evolves d)"
    by (auto simp: ensures_def answer_simps split: option.splits)
  show ?thesis
    unfolding acceptResume_def using insertResume_evolves [OF assms] tail
    by (intro ensures_andThen [OF ensures_snapshotTx]) (auto intro!: ensures_andThen)
qed

lemma acceptResume_latest:
  assumes "storeInv d" and "latestOperation d (riTask inp) owner = Some oper" and "acceptResume env now inp oper d = Inr (a, d')"
  shows "evolves d d'"
  using evolvingD [OF acceptResume_evolves [OF assms(1) latestOperationD(1,2) [OF assms(2)]] assms(1,3)] .

lemma requestRuntimeResume_evolves:
  assumes "storeInv d"
  shows "evolves d (snd (requestRuntimeResume env now inp d))"
  unfolding requestRuntimeResume_def
  by (auto intro!: evolves_transact assms simp: evolves_refl assms answer_simps split: option.splits if_splits
      intro: acceptResume_latest [OF assms])

lemma cancelControlState_ready: "ready d0 rid tid n d \<Longrightarrow> ready d0 rid tid n (cancelControlState env r c ev now d)"
  by (erule ready_cong) (auto simp: cancelControlState_def Let_def setControlRow_def runKeys_def opKeys_def)

lemma setOperation_ready:
  assumes "ready d0 rid tid n d" and "openOperation d0 oid"
    and "\<And>oper. opId (f oper) = opId oper" "\<And>oper. opTask (f oper) = opTask oper"
      "\<And>oper. opRequestId (f oper) = opRequestId oper" "\<And>oper. opRun (f oper) = opRun oper"
  shows "ready d0 rid tid n (setOperation oid f d)"
proof (rule ready_cong [OF assms(1)])
  assume "evolves d0 d"
  then have "storeInv d" by (rule evolvesD)
  then show "evolves d0 (setOperation oid f d)"
    using assms inv_keys(1) [of d] by (intro evolves_setOperation) (auto simp: ready_def)
qed (auto simp: setOperation_def runKeys_def opKeys_def updateWhere_def assms)

lemma cancelOperation_evolves:
  assumes "storeInv d" and "oper \<in> set (operations d)" and "opTask oper = ciTask inp" and "\<not> isFinalRow oper"
  shows "ensures (evolves d) (cancelOperationTx env u now inp oper) (\<lambda>_. evolves d)"
  unfolding cancelOperationTx_def
proof (rule ensures_andThen)
  show "ensures (evolves d) (loadRunEvents env (opTask oper) (opRun oper))
      (\<lambda>evs. ready d (opRun oper) (opTask oper) (length evs))"
    by (rule ensures_weaken [OF loadRunEvents_ensures]) (auto intro: evolves_runOfTask inv_keys(3) [OF assms(1,2)])
next
  fix existing :: "run_event list"
  let ?n = "length existing"
  let ?ready = "ready d (opRun oper) (opTask oper) ?n"
  have request: "?ready (d'\<lparr>controlRequests := controlRequests d' @ [cancelRow env inp oper now]\<rparr>)" if "?ready d'" for d'
  proof (rule ready_cong [OF that])
    assume "evolves d d'"
    then show "evolves d (d'\<lparr>controlRequests := controlRequests d' @ [cancelRow env inp oper now]\<rparr>)"
      using inv_keys [OF assms(1,2)] assms(3)
      by (intro evolves_addRequest) (auto simp: cancelRow_def evolves_def)
  qed (simp_all add: runKeys_def opKeys_def)
  note opened = openOperationI [OF assms(1,2,4)]
  show "ensures ?ready (let ev = runEventText (u 0) (opTask oper) (opRun oper) (int ?n + 1) now
          TASK_STATE_CHANGED decision_task_state.CANCELLED ''The decision task was cancelled'' in
       andThen (inserting (\<lambda>d. opRun oper \<in> runId ` set (agentRuns d))
         (\<lambda>d. d\<lparr>controlRequests := controlRequests d @ [cancelRow env inp oper now]\<rparr>)) (\<lambda>_.
       andThen (updating (cancelControlState env (opRun oper) (ciCancellation inp) ev now)) (\<lambda>_.
       andThen (updating (setOperation (opId oper) (\<lambda>o'. o'\<lparr>opState := task_row_state.CANCELLED,
           opResult := Some (stJsonb env cancelledJson), opWorker := None, opLease := None, opUpdatedAt := now\<rparr>))) (\<lambda>_.
       andThen (insertRunEvent env ev now) (\<lambda>_.
       returns (Some \<lparr>control_status.controlRequestId = ciControlRequest inp, decisionTaskId = ciTask inp,
         agentRunId = opRun oper, action = CANCEL, state = control_request_state.COMPLETED, error = None,
         updatedAt = toISOString now\<rparr>)))))) (\<lambda>_. evolves d)"
    unfolding Let_def
    by (rule ensures_andThen [where R = "\<lambda>_. ?ready"], rule ensures_inserting, erule request,
        rule ensures_andThen [where R = "\<lambda>_. ?ready"], rule ensures_updating, erule cancelControlState_ready,
        rule ensures_andThen [where R = "\<lambda>_. ?ready"], rule ensures_updating, erule setOperation_ready [OF _ opened],
        simp_all, rule ensures_andThen [OF insertRunEvent_ensures [OF isNext_text]], rule ensures_returns, erule readyD)
qed

lemma cancelOperation_latest:
  assumes "storeInv d" and "latestOperation d (ciTask inp) owner = Some oper" and "\<not> isFinalRow oper"
    and "cancelOperationTx env u now inp oper d = Inr (a, d')"
  shows "evolves d d'"
  using evolvingD [OF cancelOperation_evolves [OF assms(1) latestOperationD(1,2) [OF assms(2)] assms(3)] assms(1,4)] .

lemma requestRuntimeCancel_evolves:
  assumes "storeInv d"
  shows "evolves d (snd (requestRuntimeCancel env u now inp d))"
  unfolding requestRuntimeCancel_def
  by (auto intro!: evolves_transact assms simp: evolves_refl assms answer_simps split: option.splits if_splits
      intro: cancelOperation_latest [OF assms])

lemma cancelTasks_evolves: "storeInv d \<Longrightarrow> evolves d (snd (cancelTasks env u now owner corr i ts n d))"
proof (induction ts arbitrary: i n d)
  case Nil
  then show ?case by (simp add: evolves_refl)
next
  case (Cons t ts)
  let ?r = "requestRuntimeCancel env (\<lambda>k. u i (k + 2)) (now i)
     \<lparr>ciControlRequest = ''account-lifecycle-'' @ u i 0, ciTask = t, ciOwner = owner,
      ciCancellation = ''account-lifecycle-'' @ u i 1, ciCorrelation = corr\<rparr> d"
  have first: "evolves d (snd ?r)" by (rule requestRuntimeCancel_evolves [OF Cons.prems])
  then have "evolves d (snd (cancelTasks env u now owner corr j ts m (snd ?r)))" for j m
    using Cons.IH [OF evolvesD [OF first]] by (rule evolves_trans)
  with first show ?case
    by (auto simp del: One_nat_def split: sum.splits prod.splits option.splits store_error.splits)
qed

end
