(* ===== verification/CM_Worker_Facts.thy ===== *)
theory CM_Worker_Facts
  imports CM_Task_Facts
begin

text \<open>
  The operations of workers, of the recovery store and of the audit, credential and egress tables let the
  database evolve.
\<close>

section \<open>Claiming control requests\<close>

lemma failRequest_ensures: "ensures (evolves d0) (failRequest env cid now e) (\<lambda>_. evolves d0)"
  unfolding failRequest_def setRequest_def
  by (rule ensures_updating) (auto intro: evolves_setRequest)

lemma failing_evolves: "ensures (evolves d0) (andThen (failRequest env cid now e) (\<lambda>_. returns x)) (\<lambda>_. evolves d0)"
  by (rule ensures_andThen [OF failRequest_ensures]) (rule ensures_returns)

lemma append_text_ensures:
  assumes "runOfTask d0 rid tid"
  shows "ensures (evolves d0) (andThen (loadRunEvents env tid rid) (\<lambda>existing.
      insertRunEvent env (runEventText v tid rid (int (length existing) + 1) a ty st sm) now)) (\<lambda>_. evolves d0)"
  by (rule ensures_weaken [OF append_event_ensures]) (auto intro: evolves_runOfTask assms)

lemma request_runOfTask: "storeInv d \<Longrightarrow> r \<in> set (controlRequests d) \<Longrightarrow> runOfTask d (crRun r) (crTask r)"
  by (auto simp: storeInv_def requestsOwned_def runOfTask_def)

lemma denyResume_evolves:
  assumes "runOfTask d0 (crRun r) (crTask r)"
  shows "ensures (evolves d0) (denyResume env u now r s dec) (\<lambda>_. evolves d0)"
  unfolding denyResume_def
  by (rule ensures_andThen [OF failRequest_ensures]) (auto intro: append_text_ensures [OF assms] ensures_returns)

lemma setRequest_evolves:
  "(\<And>r. (crRun (f r), crOperation (f r), crTask (f r)) = (crRun r, crOperation r, crTask r)) \<Longrightarrow>
   ensures (evolves d0) (updating (setRequest cid f)) (\<lambda>_. evolves d0)"
  unfolding setRequest_def by (rule ensures_updating) (rule evolves_setRequest)

lemma setOperation_evolves:
  assumes "openOperation d0 oid"
    and "\<And>oper. opId (f oper) = opId oper" "\<And>oper. opTask (f oper) = opTask oper"
      "\<And>oper. opRequestId (f oper) = opRequestId oper" "\<And>oper. opRun (f oper) = opRun oper"
  shows "ensures (evolves d0) (updating (setOperation oid f)) (\<lambda>_. evolves d0)"
  by (rule ensures_updating)
    (use assms inv_keys(1) evolvesD in \<open>auto intro!: evolves_setOperation\<close>)

lemma startResume_evolves:
  assumes "runOfTask d0 (crRun r) (crTask r)" and "openOperation d0 (opId oper)"
  shows "ensures (evolves d0) (startResume env u now worker lease r oper) (\<lambda>_. evolves d0)"
  unfolding startResume_def
  by (rule ensures_andThen [OF setRequest_evolves], simp, rule ensures_andThen [OF setOperation_evolves [OF assms(2)]])
    (auto intro: append_text_ensures [OF assms(1)] ensures_returns)

lemma nextRequestD:
  assumes "nextRequest now d = Some (r, oper, sub)"
  shows "r \<in> set (controlRequests d)" and "claimableRequest now d r"
    and "operationOf d (crOperation r) = Some oper" and "submissionOf d oper = Some sub"
proof -
  let ?rs = "sort_key crCreatedAt (sort_key crId (filter (claimableRequest now d) (controlRequests d)))"
  from assms obtain rs where rs: "?rs = r # rs"
    and rest: "operationOf d (crOperation r) = Some oper" "submissionOf d oper = Some sub"
    by (auto simp: nextRequest_def split: list.splits option.splits)
  have "r \<in> set ?rs" using rs by simp
  then show "r \<in> set (controlRequests d)" and "claimableRequest now d r" by auto
  from rest show "operationOf d (crOperation r) = Some oper" and "submissionOf d oper = Some sub" .
qed

lemma operationOfD: "operationOf d oid = Some oper \<Longrightarrow> oper \<in> set (operations d) \<and> opId oper = oid"
  by (auto simp: operationOf_def find_Some_iff)

lemma requestFits_open: "requestFits env r oper p \<Longrightarrow> \<not> isFinalRow oper"
  by (auto simp: requestFits_def isFinalRow_def isPausedRow_def split: if_splits sum.splits task_row_state.splits)

lemma claimNextRuntimeControl_evolves:
  assumes "storeInv d"
  shows "evolves d (snd (claimNextRuntimeControl env u now worker lease d))"
  unfolding claimNextRuntimeControl_def
proof (rule evolves_transact [OF assms], goal_cases)
  case (1 a d')
  show ?case
  proof (cases "nextRequest now d")
    case None
    with 1 assms show ?thesis by (auto simp: returns_def evolves_refl)
  next
    case (Some t)
    obtain r oper sub where t: "t = (r, oper, sub)" by (cases t)
    note D = nextRequestD [OF Some [unfolded t]]
    have run: "runOfTask d (crRun r) (crTask r)" by (rule request_runOfTask [OF assms D(1)])
    have opened: "openOperation d (opId oper)" if "requestFits env r oper p" for p
      using operationOfD [OF D(3)] requestFits_open [OF that] openOperationI [OF assms, of oper] by simp
    have deny: "ensures (evolves d) (andThen (denyResume env u now r s dec) (\<lambda>_. returns x)) (\<lambda>_. evolves d)" for s dec x
      by (rule ensures_andThen [OF denyResume_evolves [OF run]]) (rule ensures_returns)
    have start: "ensures (evolves d) (andThen (startResume env u now worker lease r oper) (\<lambda>_. returns x)) (\<lambda>_. evolves d)"
      if "requestFits env r oper p" for p x
      by (rule ensures_andThen [OF startResume_evolves [OF run opened [OF that]]]) (rule ensures_returns)
    from 1 show ?thesis
      by (auto simp: Some t Let_def split: sum.splits option.splits if_splits prod.splits
          dest: evolvingD [OF failing_evolves assms] evolvingD [OF deny assms] evolvingD [OF start assms])
  qed
qed

section \<open>Claiming operations\<close>

lemma startRetry_evolves:
  assumes "oper \<in> set (operations d0)" and "storeInv d0"
  shows "ensures (evolves d0) (startRetry env u now oper)
    (\<lambda>rid d. evolves d0 d \<and> (rid, opId oper) \<in> set (runKeys d) \<and> runOfTask d rid (opTask oper))"
proof -
  define rid where "rid = ''agent-run-'' @ u 0"
  let ?Q = "\<lambda>n d. ready d0 rid (opTask oper) n d \<and> (rid, opId oper) \<in> set (runKeys d)"
  have new: "?Q 0 (d\<lparr>agentRuns := agentRuns d @ [r]\<rparr>)"
    if "evolves d0 d" and "rid \<notin> runId ` set (agentRuns d)" and "runId r = rid" and "runOperation r = opId oper" for d r
  proof -
    have "evolves d0 (d\<lparr>agentRuns := agentRuns d @ [r]\<rparr>)" using that by (intro evolves_newRun) simp_all
    moreover have "(opId oper, opTask oper) \<in> set (opKeys d)"
      using that(1) inv_keys(2) [OF assms(2,1)] by (auto simp: evolves_def)
    moreover have "eventsOf rid (eventRows d) = []"
      using that by (intro no_events_of_new_run evolvesD)
    ultimately show ?thesis using that(3,4) by (auto simp: ready_def runOfTask_def runKeys_def opKeys_def)
  qed
  have insert: "ensures (?Q 0)
      (insertRunEvent env (runEventText (u 1) (opTask oper) rid 1 now TASK_STATE_CHANGED CREATED sm) now)
      (\<lambda>_. ?Q 1)" for sm
    using insertRunEvent_ensures [of rid "opTask oper" 0
        "runEventText (u 1) (opTask oper) rid 1 now TASK_STATE_CHANGED CREATED sm" d0 env now]
    by (auto simp: ensures_def isNext_def runEventText_def insertRunEvent_def inserting_def runKeys_def split: if_splits)
  show ?thesis
    unfolding startRetry_def Let_def rid_def [symmetric]
    apply (rule ensures_andThen [where R = "\<lambda>_. ?Q 0"])
     apply (rule ensures_inserting, rule new; simp)
    apply (rule ensures_andThen [OF insert])
    apply (rule ensures_returns, auto simp: ready_def)
    done
qed

lemma appendRunningEvent_evolves:
  "ensures (\<lambda>d. evolves d0 d \<and> runOfTask d rid tid) (appendRunningEvent env u now tid rid) (\<lambda>_. evolves d0)"
  unfolding appendRunningEvent_def
proof (rule ensures_andThen [OF loadRunEvents_ensures])
  fix evs :: "run_event list"
  show "ensures (ready d0 rid tid (length evs)) (if map_option run_event.taskState (lastOpt evs) \<noteq> Some UNDERSTANDING
       then insertRunEvent env (runEventText (u 2) tid rid (int (length evs) + 1) now TASK_STATE_CHANGED
              UNDERSTANDING ''The decision task started'') now
       else returns ()) (\<lambda>_. evolves d0)"
    by (auto intro: ensures_weaken [OF insertRunEvent_ensures [OF isNext_text]] ensures_returns dest: readyD)
qed

lemma claimNext_evolves:
  assumes "storeInv d"
  shows "evolves d (snd (claimNext env u now oid worker lease d))"
  unfolding claimNext_def
proof (rule evolves_transact [OF assms], goal_cases)
  case (1 a d')
  show ?case
  proof (cases "operationOf d oid")
    case None
    with 1 assms show ?thesis by (auto simp: returns_def evolves_refl)
  next
    case (Some oper)
    from operationOfD [OF Some] have oper: "oper \<in> set (operations d)" "opId oper = oid" by simp_all
    let ?Q = "\<lambda>rid d'. evolves d d' \<and> (rid, oid) \<in> set (runKeys d') \<and> runOfTask d' rid (opTask oper)"
    let ?f = "\<lambda>rid q. q\<lparr>opRun := rid, opState := task_row_state.RUNNING, opWorker := Some worker,
        opLease := Some (now + lease), opUpdatedAt := now\<rparr>"
    have run: "ensures (evolves d) (if opState oper = task_row_state.FAILED_RETRYABLE then startRetry env u now oper
        else returns (opRun oper)) ?Q"
    proof (cases "opState oper = task_row_state.FAILED_RETRYABLE")
      case True
      then show ?thesis using startRetry_evolves [OF oper(1) assms, of env u now] oper(2) by simp
    next
      case False
      have "?Q (opRun oper) d'" if "evolves d d'" for d'
        using that inv_keys(1) [OF assms oper(1)] oper(2) evolves_runOfTask [OF that inv_keys(3) [OF assms oper(1)]]
        by (simp add: evolves_def subset_iff)
      then show ?thesis using False by (simp add: ensures_returns)
    qed
    have set: "ensures (?Q rid) (updating (setOperation oid (?f rid))) (\<lambda>_ d'. evolves d d' \<and> runOfTask d' rid (opTask oper))"
      if "\<not> isFinalRow oper" for rid
    proof (rule ensures_updating, goal_cases)
      case (1 d')
      have "openOperation d oid" using openOperationI [OF assms oper(1) that] oper(2) by simp
      then have "evolves d (setOperation oid (?f rid) d')" using 1 by (intro evolves_setOperation) simp_all
      moreover have "runOfTask (setOperation oid (?f rid) d') rid (opTask oper)"
        using 1 by (simp add: setOperation_keys(4))
      ultimately show ?case ..
    qed
    have body: "ensures (evolves d) (andThen (if opState oper = task_row_state.FAILED_RETRYABLE then startRetry env u now oper
        else returns (opRun oper)) (\<lambda>rid.
        andThen (updating (setOperation oid (?f rid))) (\<lambda>_.
        andThen (appendRunningEvent env u now (opTask oper) rid) (\<lambda>_.
        returns (CLAIMED (c rid)))))) (\<lambda>_. evolves d)" if "claimable now oper" for c
    proof -
      have "\<not> isFinalRow oper" using that by (auto simp: claimable_def isFinalRow_def)
      then show ?thesis
        by (intro ensures_andThen [OF run] ensures_andThen [OF set] ensures_andThen [OF appendRunningEvent_evolves] ensures_returns)
    qed
    show ?thesis
    proof (cases "submissionOf d oper")
      case None
      with 1 Some assms show ?thesis by (auto simp: returns_def evolves_refl)
    next
      case (Some sub)
      show ?thesis
      proof (cases "claimable now oper")
        case False
        with 1 Some \<open>operationOf d oid = Some oper\<close> assms show ?thesis by (auto simp: returns_def evolves_refl)
      next
        case True
        show ?thesis
        proof (cases "decodeExecuteDecisionTaskCommandV1 (stCommand env) (subCommand sub)")
          case (Inl e)
          with 1 Some True \<open>operationOf d oid = Some oper\<close> show ?thesis by simp
        next
          case (Inr cmd)
          from 1 Some True Inr \<open>operationOf d oid = Some oper\<close> show ?thesis
            by (simp only: option.simps sum.simps not_True_eq_False if_False)
               (rule evolvingD [OF body [OF True] assms])
        qed
      qed
    qed
  qed
qed

section \<open>Completing\<close>

lemma persistResult_evolves:
  assumes "runOfTask d0 (opRun oper) (opTask oper)"
  shows "ensures (evolves d0) (persistResultRunEvents env u now oper r) (\<lambda>_. evolves d0)"
  unfolding persistResultRunEvents_def Let_def
proof (rule ensures_andThen)
  show "ensures (evolves d0) (loadRunEvents env (opTask oper) (opRun oper))
      (\<lambda>evs. ready d0 (opRun oper) (opTask oper) (length evs))"
    by (rule ensures_weaken [OF loadRunEvents_ensures]) (auto intro: evolves_runOfTask assms)
qed (auto intro!: ensures_andThen [OF insertRunEvents_ensures] ensures_returns
    simp: newResultEvents_def numberedFrom_rebased split: option.split)

lemma numberedFrom_paused: "numberedFrom (opRun oper) (opTask oper) (length existing) (newPausedEvents u now oper existing p)"
proof -
  let ?news = "rebased u oper (\<lambda>_ _. toISOString now) (length existing)
      (filter (\<lambda>ev. run_event.taskState ev \<notin> run_event.taskState ` set existing) (paused_outcome.runEvents p))"
  have "numberedFrom (opRun oper) (opTask oper) (length existing) ?news" by (rule numberedFrom_rebased)
  then show ?thesis
    by (cases ?news) (auto simp: newPausedEvents_def isNext_def Let_def split: option.splits)
qed

lemma persistPaused_evolves:
  assumes "runOfTask d0 (opRun oper) (opTask oper)"
  shows "ensures (evolves d0) (persistPausedRunEvents env u now oper p) (\<lambda>_. evolves d0)"
  unfolding persistPausedRunEvents_def Let_def
proof (rule ensures_andThen)
  show "ensures (evolves d0) (loadRunEvents env (opTask oper) (opRun oper))
      (\<lambda>evs. ready d0 (opRun oper) (opTask oper) (length evs))"
    by (rule ensures_weaken [OF loadRunEvents_ensures]) (auto intro: evolves_runOfTask assms)
qed (auto intro!: ensures_andThen [OF insertRunEvents_ensures [OF numberedFrom_paused]] ensures_returns split: sum.split)

lemma storeOutcome_evolves:
  "openOperation d0 oid \<Longrightarrow> ensures (evolves d0) (storeOutcome env oid payload t) (\<lambda>_. evolves d0)"
  unfolding storeOutcome_def
  by (auto intro!: ensures_andThen [OF setOperation_evolves] ensures_returns split: option.split)

lemma persistOutcome_evolves:
  assumes "runOfTask d0 (opRun row) (opTask row)" and "openOperation d0 (opId row)"
  shows "ensures (evolves d0) (persistOutcome env u now o' row) (\<lambda>_. evolves d0)"
proof (cases "doPayload o'")
  case (OutcomeResult r)
  then show ?thesis
    by (auto simp: persistOutcome_def intro!: ensures_andThen [OF persistResult_evolves [OF assms(1)]]
        ensures_andThen [OF storeOutcome_evolves [OF assms(2)]] ensures_andThen [OF ensures_snapshotTx] ensures_returns)
next
  case (OutcomePaused p)
  then show ?thesis
    by (auto simp: persistOutcome_def intro!: ensures_andThen [OF persistPaused_evolves [OF assms(1)]]
        ensures_andThen [OF storeOutcome_evolves [OF assms(2)]] ensures_andThen [OF ensures_snapshotTx] ensures_returns
        split: option.split)
next
  case (OutcomeExplicit st sm e)
  have append: "ensures (evolves d0) (andThen (loadRunEvents env (opTask row) (opRun row)) (\<lambda>existing.
      andThen (insertRunEvent env (runEventText v (opTask row) (opRun row) (int (length existing) + 1) now ty ts s) now) (\<lambda>_.
      andThen (snapshotTx env row) (\<lambda>s. returns (COMMITTED_SNAPSHOT s))))) (\<lambda>_. evolves d0)" for v ty ts s
  proof (rule ensures_andThen)
    show "ensures (evolves d0) (loadRunEvents env (opTask row) (opRun row))
        (\<lambda>evs. ready d0 (opRun row) (opTask row) (length evs))"
      by (rule ensures_weaken [OF loadRunEvents_ensures]) (auto intro: evolves_runOfTask assms)
  qed (intro ensures_andThen [OF insertRunEvent_ensures [OF isNext_text]] ensures_andThen [OF ensures_snapshotTx],
       auto intro!: ensures_returns dest: readyD)
  show ?thesis by (simp add: persistOutcome_def OutcomeExplicit append)
qed

lemma complete_evolves:
  assumes "storeInv d"
  shows "evolves d (snd (complete env u now oid worker out control d))"
proof (cases "decodePersistentOutcome env out")
  case None
  then show ?thesis by (simp add: complete_def evolves_refl assms)
next
  case (Some o')
  have "evolves d d'" if "completeTx env u now oid worker o' control d = Inr (a, d')" for a d'
  proof (cases "find (completable now oid worker o' d) (operations d)")
    case None
    with that assms show ?thesis by (auto simp: completeTx_def returns_def evolves_refl)
  next
    case (Some oper)
    then have oper: "oper \<in> set (operations d)" "completable now oid worker o' d oper" by (auto simp: find_Some_iff)
    then have "opId oper = oid" and "\<not> isFinalRow oper" by (auto simp: completable_def isFinalRow_def)
    then have opened: "openOperation d oid" using openOperationI [OF assms oper(1)] by simp
    let ?row = "completedRow env now o' oper"
    have row: "opId ?row = oid" "opRun ?row = opRun oper" "opTask ?row = opTask oper"
      using \<open>opId oper = oid\<close> by (simp_all add: completedRow_def)
    have first: "ensures (evolves d) (updating (setOperation oid (completedRow env now o'))) (\<lambda>_. evolves d)"
      by (rule setOperation_evolves [OF opened]) (simp_all add: completedRow_def)
    have second: "ensures (evolves d) (persistOutcome env u now o' ?row) (\<lambda>_. evolves d)"
      using persistOutcome_evolves [of d ?row] inv_keys(3) [OF assms oper(1)] opened row by simp
    have last: "ensures (evolves d) (\<lambda>d'. case control of
         None \<Rightarrow> returns c d'
       | Some cid \<Rightarrow>
           if list_ex (completesRequest cid oid worker) (controlRequests d')
           then returns c (completeRequest env now cid oid worker e d')
           else returns NOT_COMPLETABLE d) (\<lambda>_. evolves d)" for c e
      using evolves_refl [OF assms]
      by (auto simp: ensures_def returns_def completeRequest_def intro!: evolves_setRequest split: option.split)
    from that show ?thesis
      unfolding completeTx_def Some option.simps
      by (rule evolvingD [OF ensures_andThen [OF first ensures_andThen [OF second last]] assms])
  qed
  then show ?thesis by (auto simp: complete_def Some intro: evolves_transact assms)
qed

section \<open>The recovery store\<close>

lemma putRawSnapshot_evolves: "storeInv d \<Longrightarrow> evolves d (snd (putRawSnapshot env now payload d))"
  by (auto simp: putRawSnapshot_def Let_def evolves_refl split: option.split)

lemma insertBinding_extends: "\<exists>bs. insertBinding idn dig now rows = rows @ bs"
  by (auto simp: insertBinding_def)

lemma evolves_bindings:
  "evolves d0 d \<Longrightarrow> evolves d0 (d\<lparr>effectObjects := rows, effectBindings := insertBinding idn dig now (effectBindings d)\<rparr>)"
  by (erule evolves_cong) (simp_all add: insertBinding_extends)

lemma putEffectResult_evolves: "storeInv d \<Longrightarrow> evolves d (snd (putEffectResult env now idn payload d))"
  by (auto simp: putEffectResult_def putEffectTx_def Let_def evolves_refl intro!: evolves_transact evolves_bindings
      split: option.splits if_splits)

lemma saveRecoveryFacts_evolves:
  assumes "storeInv d"
  shows "evolves d (snd (saveRecoveryFacts env now s rs d))"
proof -
  have fact: "ensures (evolves d) (insertFact env now s) (\<lambda>_. evolves d)"
    by (auto simp: ensures_def insertFact_def Let_def split: option.splits if_splits)
  have receipts: "ensures (evolves d) (forAll (insertReceipt env now sid) rs) (\<lambda>_. evolves d)" for sid
    by (rule ensures_forAll) (auto simp: ensures_def insertReceipt_def)
  have check: "ensures (evolves d) (checkReceipts env sid rs) (\<lambda>_. evolves d)" for sid
    by (auto simp: ensures_def checkReceipts_def)
  have control: "ensures (evolves d) (upsertControlState now s) (\<lambda>_. evolves d)"
    by (auto simp: ensures_def upsertControlState_def Let_def split: option.splits)
  have all: "ensures (evolves d)
      (andThen (insertFact env now s) (\<lambda>_.
       andThen (forAll (insertReceipt env now (runtime_snapshot.snapshotId s)) rs) (\<lambda>_.
       andThen (checkReceipts env (runtime_snapshot.snapshotId s) rs) (\<lambda>_.
       upsertControlState now s)))) (\<lambda>_. evolves d)"
    by (intro ensures_andThen [OF fact] ensures_andThen [OF receipts] ensures_andThen [OF check] control)
  show ?thesis
    by (auto simp: saveRecoveryFacts_def evolves_refl assms intro!: evolves_transact assms dest: evolvingD [OF all assms])
qed

lemma evolves_setControlRow [simp]: "evolves d0 d \<Longrightarrow> evolves d0 (setControlRow rid f d)"
  by (simp add: setControlRow_def)

lemma updateRuntimeControlState_evolves:
  assumes "storeInv d" and "\<And>r. ensures (evolves d) (update r) (\<lambda>_. evolves d)"
  shows "evolves d (snd (updateRuntimeControlState rid update d))"
  unfolding updateRuntimeControlState_def
  by (rule evolves_transact [OF assms(1)]) (auto split: option.splits dest: evolvingD [OF assms(2) assms(1)])

lemma answerFromRow_ensures: "ensures P (answerFromRow st r) (\<lambda>_. P)"
  by (auto simp: answerFromRow_def intro: ensures_returns)

lemma control_state_evolves:
  assumes "storeInv d"
  shows "evolves d (snd (recordRuntimeRunning now rid controller lease d))"
    and "evolves d (snd (claimRuntimeResume now rid sid controller lease d))"
    and "evolves d (snd (completeRuntimeControl env now rid controller expected nxt st evs d))"
    and "evolves d (snd (claimRuntimeCancel env now rid cancellation evs d))"
proof -
  have set: "ensures (evolves d) (andThen (updating (setControlRow rid f)) (\<lambda>_. returns c)) (\<lambda>_. evolves d)" for f c
    by (rule ensures_andThen [where R = "\<lambda>_. evolves d"]) (auto intro: ensures_updating ensures_returns)
  show "evolves d (snd (recordRuntimeRunning now rid controller lease d))"
    by (auto simp: recordRuntimeRunning_def evolves_refl assms split: option.split)
  show "evolves d (snd (claimRuntimeResume now rid sid controller lease d))"
    unfolding claimRuntimeResume_def
    by (rule updateRuntimeControlState_evolves [OF assms])
      (auto intro!: answerFromRow_ensures set)
  show "evolves d (snd (completeRuntimeControl env now rid controller expected nxt st evs d))"
    by (auto simp: completeRuntimeControl_def evolves_refl assms split: option.split)
  show "evolves d (snd (claimRuntimeCancel env now rid cancellation evs d))"
    unfolding claimRuntimeCancel_def
    by (rule updateRuntimeControlState_evolves [OF assms])
      (auto intro!: answerFromRow_ensures set)
qed

section \<open>Audit, credentials, egress\<close>

lemma tables_evolve:
  assumes "storeInv d"
  shows "evolves d (snd (appendAuditRecord uuid now a d))"
    and "evolves d (saveEncryptedCredential c d)"
    and "evolves d (snd (deleteEncryptedCredential cid owner d))"
    and "evolves d (snd (appendEgressRecord e d))"
  using evolves_refl [OF assms]
  by (auto simp: appendAuditRecord_def saveEncryptedCredential_def deleteEncryptedCredential_def appendEgressRecord_def
      transact_def inserting_def)

end
