(* ===== verification/CM_Delivery.thy ===== *)
theory CM_Delivery
  imports CM_Task_Worker
begin

text \<open>
  How operations reach workers and events reach readers: the outbox publisher (publisher.ts), the
  notification publisher (event-publisher.ts), the worker's \<open>runOnce\<close> (index.ts) and the subscriber that
  wakes waiting readers (event-subscriber.ts) of packages/task-persistence/src. Redis is a parameter:
  whether the attempt to publish threw, which message the stream gives.
\<close>

section \<open>The outbox publisher\<close>

record publish_batch =
  attempted :: nat
  failedToPublish :: nat
  published :: nat

text \<open>The operation still has to be executed, so its message is published again and again.\<close>

definition awaitsExecution :: "int \<Rightarrow> operation_row \<Rightarrow> bool" where
  "awaitsExecution now oper \<longleftrightarrow>
     opState oper = task_row_state.ACCEPTED \<or> opState oper = task_row_state.FAILED_RETRYABLE
     \<or> opState oper = task_row_state.RUNNING \<and> expired (opLease oper) now"

definition duePublication :: "int \<Rightarrow> database \<Rightarrow> outbox_row \<Rightarrow> bool" where
  "duePublication now d m \<longleftrightarrow> outNextAttempt m \<le> now
     \<and> (case operationOf d (outOperation m) of
          None \<Rightarrow> False
        | Some oper \<Rightarrow> outPublishedAt m = None \<or> awaitsExecution now oper)"

definition pendingOutbox :: "int \<Rightarrow> database \<Rightarrow> outbox_row list" where
  "pendingOutbox now d = sort_key outCreatedAt (sort_key outMessage (filter (duePublication now d) (outbox d)))"

definition setOutbox :: "ident \<Rightarrow> (outbox_row \<Rightarrow> outbox_row) \<Rightarrow> database \<Rightarrow> database" where
  "setOutbox mid f d = d\<lparr>outbox := updateWhere (\<lambda>m. outMessage m = mid) f (outbox d)\<rparr>"

text \<open>\<open>delivered\<close>: the connection, \<open>xAdd\<close> and the update all succeeded.\<close>

definition publishNextOutbox ::
    "int \<Rightarrow> int \<Rightarrow> bool \<Rightarrow> int \<Rightarrow> database \<Rightarrow> publish_batch \<times> database" where
  "publishNextOutbox retryDelay republishDelay delivered now d =
     (case pendingOutbox now d of
        [] \<Rightarrow> (\<lparr>attempted = 0, failedToPublish = 0, published = 0\<rparr>, d)
      | m # _ \<Rightarrow>
          if delivered
          then (\<lparr>attempted = 1, failedToPublish = 0, published = 1\<rparr>,
                setOutbox (outMessage m) (\<lambda>r. r\<lparr>outPublishedAt := Some now,
                  outNextAttempt := now + republishDelay\<rparr>) d)
          else (\<lparr>attempted = 1, failedToPublish = 1, published = 0\<rparr>,
                setOutbox (outMessage m) (\<lambda>r. r\<lparr>outAttempts := Suc (outAttempts r),
                  outNextAttempt := now + retryDelay\<rparr>) d))"

section \<open>The notification publisher\<close>

definition dueNotification :: "int \<Rightarrow> notification_row \<Rightarrow> bool" where
  "dueNotification now n \<longleftrightarrow> notePublishedAt n = None \<and> noteNextAttempt n \<le> now"

definition publishNextNotification ::
    "int \<Rightarrow> bool \<Rightarrow> int \<Rightarrow> database \<Rightarrow> publish_batch \<times> database" where
  "publishNextNotification retryDelay delivered now d =
     (case sort_key noteCursor (filter (dueNotification now) (notifications d)) of
        [] \<Rightarrow> (\<lparr>attempted = 0, failedToPublish = 0, published = 0\<rparr>, d)
      | n # _ \<Rightarrow>
          if delivered
          then (\<lparr>attempted = 1, failedToPublish = 0, published = 1\<rparr>,
                d\<lparr>notifications := updateWhere (\<lambda>r. noteCursor r = noteCursor n)
                   (\<lambda>r. r\<lparr>notePublishedAt := Some now\<rparr>) (notifications d)\<rparr>)
          else (\<lparr>attempted = 1, failedToPublish = 1, published = 0\<rparr>,
                d\<lparr>notifications := updateWhere (\<lambda>r. noteCursor r = noteCursor n)
                   (\<lambda>r. r\<lparr>noteAttempts := Suc (noteAttempts r), noteNextAttempt := now + retryDelay\<rparr>)
                   (notifications d)\<rparr>))"

section \<open>The worker\<close>

text \<open>\<open>/^[0-9a-f]{8}-[0-9a-f]{4}-[0-9a-f]{4}-[0-9a-f]{4}-[0-9a-f]{12}$/i\<close>\<close>

definition isHexChar :: "char \<Rightarrow> bool" where
  "isHexChar c \<longleftrightarrow> isHexDigit c \<or> (CHR ''A'' \<le> c \<and> c \<le> CHR ''F'')"

definition isCanonicalUuid :: "string \<Rightarrow> bool" where
  "isCanonicalUuid s \<longleftrightarrow> length s = 36
     \<and> list_all (\<lambda>i. if i \<in> {8, 13, 18, 23} then s ! i = CHR ''-'' else isHexChar (s ! i)) [0..<36]"

text \<open>
  What the worker is given: its name and lease, the executors (\<open>None\<close>: they throw), the times and random
  values of its calls, and what others do to the database while an executor runs.
\<close>

record worker_options =
  woWorker :: ident
  woLease :: int
  woExecute :: "task_claim \<Rightarrow> execution_outcome option"
  woControl :: "(control_request_claim \<Rightarrow> execution_outcome option) option"
  woMeanwhile :: "database \<Rightarrow> database"
  woNow :: "nat \<Rightarrow> int"
  woUuid :: "nat \<Rightarrow> nat \<Rightarrow> string"

record worker_batch =
  acknowledged :: nat
  executed :: nat
  received :: nat

datatype worker_error = StoreFailed store_error | ExecutorThrew

definition batchOf :: "nat \<Rightarrow> nat \<Rightarrow> nat \<Rightarrow> worker_error + worker_batch" where
  "batchOf a e r = Inr \<lparr>acknowledged = a, executed = e, received = r\<rparr>"

text \<open>After the execution: the message is acknowledged unless it has to come again.\<close>

definition acknowledgesCompletion :: "completion \<Rightarrow> bool" where
  "acknowledgesCompletion c = (case c of
      NOT_COMPLETABLE \<Rightarrow> False
    | COMMITTED_SNAPSHOT s \<Rightarrow> task_snapshot.state s \<noteq> snapshot_state.FAILED_RETRYABLE
    | COMMITTED_RESULT r \<Rightarrow> True)"

definition handleClaim ::
    "store_env \<Rightarrow> worker_options \<Rightarrow> task_claim \<Rightarrow> database \<Rightarrow> (worker_error + worker_batch) \<times> database" where
  "handleClaim env wo c d =
     (let d1 = woMeanwhile wo d in
      case woExecute wo c of
        None \<Rightarrow> (Inl ExecutorThrew, d1)
      | Some out \<Rightarrow>
          (case complete env (woUuid wo 2) (woNow wo 2) (tcOperation c) (woWorker wo) out None d1 of
             (Inl e, d2) \<Rightarrow> (Inl (StoreFailed e), d2)
           | (Inr cpl, d2) \<Rightarrow> (batchOf (if acknowledgesCompletion cpl then 1 else 0) 1 1, d2)))"

definition handleMessage ::
    "store_env \<Rightarrow> worker_options \<Rightarrow> ident option \<Rightarrow> database \<Rightarrow> (worker_error + worker_batch) \<times> database" where
  "handleMessage env wo oid d =
     (case oid of
        None \<Rightarrow> (batchOf 1 0 1, d)
      | Some k \<Rightarrow>
          if \<not> isCanonicalUuid k then (batchOf 1 0 1, d)
          else (case claimNext env (woUuid wo 1) (woNow wo 1) k (woWorker wo) (woLease wo) d of
             (Inl e, d1) \<Rightarrow> (Inl (StoreFailed e), d1)
           | (Inr DEFERRED, d1) \<Rightarrow> (batchOf 0 0 1, d1)
           | (Inr ALREADY_FINISHED, d1) \<Rightarrow> (batchOf 1 0 1, d1)
           | (Inr UNKNOWN, d1) \<Rightarrow> (batchOf 1 0 1, d1)
           | (Inr (CLAIMED c), d1) \<Rightarrow> handleClaim env wo c d1))"

definition handleControl ::
    "store_env \<Rightarrow> worker_options \<Rightarrow> (control_request_claim \<Rightarrow> execution_outcome option) \<Rightarrow> control_request_claim
     \<Rightarrow> database \<Rightarrow> (worker_error + worker_batch) \<times> database" where
  "handleControl env wo f c d =
     (let d1 = woMeanwhile wo d in
      case f c of
        None \<Rightarrow> (Inl ExecutorThrew, d1)
      | Some out \<Rightarrow>
          (case complete env (woUuid wo 2) (woNow wo 2) (rcOperation c) (woWorker wo) out (Some (rcControlRequest c)) d1 of
             (Inl e, d2) \<Rightarrow> (Inl (StoreFailed e), d2)
           | (Inr cpl, d2) \<Rightarrow> (batchOf 0 1 0, d2)))"

text \<open>\<open>msg\<close>: what the stream gives, \<open>Some\<close> with the message's operation id if it has one.\<close>

definition readMessage ::
    "store_env \<Rightarrow> worker_options \<Rightarrow> ident option option \<Rightarrow> database \<Rightarrow> (worker_error + worker_batch) \<times> database" where
  "readMessage env wo msg d =
     (case msg of None \<Rightarrow> (batchOf 0 0 0, d) | Some oid \<Rightarrow> handleMessage env wo oid d)"

definition runOnce ::
    "store_env \<Rightarrow> worker_options \<Rightarrow> ident option option \<Rightarrow> database \<Rightarrow> (worker_error + worker_batch) \<times> database" where
  "runOnce env wo msg d =
     (case woControl wo of
        None \<Rightarrow> readMessage env wo msg d
      | Some f \<Rightarrow>
          (case claimNextRuntimeControl env (woUuid wo 0) (woNow wo 0) (woWorker wo) (woLease wo) d of
             (Inl e, d1) \<Rightarrow> (Inl (StoreFailed e), d1)
           | (Inr (Some c), d1) \<Rightarrow> handleControl env wo f c d1
           | (Inr None, d1) \<Rightarrow> readMessage env wo msg d1))"

section \<open>The subscriber\<close>

text \<open>
  Waiters are numbered; each is pending, finished or failed. The source keeps a set of pending waiters per
  task; a waiter leaves it when it settles.
\<close>

datatype waiter_state = Pending_Waiter | Finished | Failed_Waiter

record waiter =
  waiterTask :: ident
  waiterState :: waiter_state

record subscriber =
  waiters :: "waiter list"
  taskWaiters :: "ident \<Rightarrow> nat list"
  subscriberClosed :: bool

definition settleWaiter :: "waiter_state \<Rightarrow> nat \<Rightarrow> subscriber \<Rightarrow> subscriber" where
  "settleWaiter st n s =
     (let w = waiters s ! n in
      if n < length (waiters s) \<and> waiterState w = Pending_Waiter
      then s\<lparr>waiters := (waiters s)[n := w\<lparr>waiterState := st\<rparr>],
             taskWaiters := (taskWaiters s)(waiterTask w := removeAll n (taskWaiters s (waiterTask w)))\<rparr>
      else s)"

text \<open>A message of the channel: its task if it decodes.\<close>

definition decodeNotification :: "json option \<Rightarrow> ident option" where
  "decodeNotification m = (case m of
      None \<Rightarrow> None
    | Some v \<Rightarrow>
        if isRecord v \<and> isPersistedRunEventCursorV1 (jget v ''cursor'')
        then (case jget v ''decisionTaskId'' of JStr t \<Rightarrow> if t = [] then None else Some t | _ \<Rightarrow> None)
        else None)"

definition notified :: "json option \<Rightarrow> subscriber \<Rightarrow> subscriber" where
  "notified m s = (case decodeNotification m of
      None \<Rightarrow> s
    | Some t \<Rightarrow> fold (settleWaiter Finished) (taskWaiters s t) s)"

text \<open>\<open>None\<close>: the subscriber is closed. A signal that has already been aborted fails the waiter at once.\<close>

definition waitFor :: "ident \<Rightarrow> bool \<Rightarrow> subscriber \<Rightarrow> (nat \<times> subscriber) option" where
  "waitFor t aborted s =
     (if subscriberClosed s then None
      else let n = length (waiters s);
               s' = s\<lparr>waiters := waiters s @ [\<lparr>waiterTask = t, waiterState = Pending_Waiter\<rparr>],
                      taskWaiters := (taskWaiters s)(t := taskWaiters s t @ [n])\<rparr>
           in Some (n, if aborted then settleWaiter Failed_Waiter n s' else s'))"

definition abortWaiter :: "nat \<Rightarrow> subscriber \<Rightarrow> subscriber" where
  "abortWaiter = settleWaiter Failed_Waiter"

definition closeSubscriber :: "subscriber \<Rightarrow> subscriber" where
  "closeSubscriber s =
     (if subscriberClosed s then s
      else fold (settleWaiter Failed_Waiter)
        (concat (map (taskWaiters s) (remdups (map waiterTask (waiters s))))) (s\<lparr>subscriberClosed := True\<rparr>))"

inductive subscriber_step :: "subscriber \<Rightarrow> subscriber \<Rightarrow> bool" where
  wait: "waitFor t aborted s = Some (n, s') \<Longrightarrow> subscriber_step s s'"
| notify: "subscriber_step s (notified m s)"
| abort: "subscriber_step s (abortWaiter n s)"
| close: "subscriber_step s (closeSubscriber s)"

definition openedSubscriber :: subscriber where
  "openedSubscriber = \<lparr>waiters = [], taskWaiters = (\<lambda>_. []), subscriberClosed = False\<rparr>"

end
