(* ===== verification/CM_Evidence_Index.thy ===== *)
theory CM_Evidence_Index
  imports CM_Recovery_Store
begin

text \<open>
  The evidence index (packages/task-persistence/src/evidence-index.ts): public web evidence by id, and by
  the distance of its embedding. The distance of pgvector is a parameter; \<open>None\<close> in a vector is a
  number that is not finite.
\<close>

datatype index_error = EmbeddingInvalid | QueryInvalid | RowRejected

record embedding =
  embeddingModel :: string
  embeddingVector :: "rat option list"

definition assertEmbedding :: "embedding \<Rightarrow> bool" where
  "assertEmbedding e \<longleftrightarrow>
     \<not> (\<not> meaningfulTextSchema (embeddingModel e) \<or> embeddingVector e = [] \<or> list_ex (\<lambda>x. x = None) (embeddingVector e))"

record nearest_query =
  queryLimit :: int
  queryModel :: string
  queryVector :: "rat option list"

definition assertQuery :: "nearest_query \<Rightarrow> bool" where
  "assertQuery q \<longleftrightarrow>
     \<not> (queryLimit q > 9007199254740991 \<or> queryLimit q \<le> 0 \<or> \<not> meaningfulTextSchema (queryModel q) \<or> queryVector q = []
        \<or> list_ex (\<lambda>x. x = None) (queryVector q))"

definition EVIDENCE_PREFIX :: string where
  "EVIDENCE_PREFIX = ''evidence-raw/sha256/''"

text \<open>The row, if the timestamps are dates and the checks of the table hold.\<close>

definition indexRow :: "evidence \<Rightarrow> embedding \<Rightarrow> indexed_evidence option" where
  "indexRow ev em = (case (origin ev, dateParse (evidence.capturedAt ev), dateParse (evidence.validUntil ev)) of
      (PUBLIC_WEB sid ti ur ex pv raw, Some captured, Some valid) \<Rightarrow>
        if isSha256 ex \<and> isSha256 (raw_artifact.digest raw)
           \<and> raw_artifact.objectKey raw = EVIDENCE_PREFIX @ raw_artifact.digest raw
        then Some \<lparr>ixEvidence = evidence.evidenceId ev, ixTask = evidence.decisionTaskId ev,
               ixCapturedAt = captured, ixValidUntil = valid, ixSection = locatorSection ev, ixField = locatorField ev,
               ixSourceId = sid, ixTitle = ti, ixUrl = ur, ixExcerptDigest = ex, ixParserVersion = pv,
               ixRawArtifact = raw, ixModel = embeddingModel em, ixVector = List.map_filter id (embeddingVector em)\<rparr>
        else None
    | _ \<Rightarrow> None)"

definition saveEvidence :: "evidence \<Rightarrow> embedding \<Rightarrow> database \<Rightarrow> (index_error + unit) \<times> database" where
  "saveEvidence ev em d =
     (if \<not> assertEmbedding em then (Inl EmbeddingInvalid, d)
      else case indexRow ev em of
             None \<Rightarrow> (Inl RowRejected, d)
           | Some row \<Rightarrow> (Inr (), if ixEvidence row \<in> ixEvidence ` set (evidenceRows d) then d
               else d\<lparr>evidenceRows := evidenceRows d @ [row]\<rparr>))"

text \<open>The columns that \<open>toEvidenceIndexRecord\<close> gives back; the embedding as its model and dimensions.\<close>

record index_record =
  irEvidence :: ident
  irTask :: ident
  irCapturedAt :: string
  irValidUntil :: string
  irLocator :: "string \<times> string"
  irSource :: "ident \<times> string \<times> string"
  irExcerptDigest :: string
  irParserVersion :: string
  irRawArtifact :: raw_artifact
  irDimensions :: nat
  irModel :: string

definition toEvidenceIndexRecord :: "indexed_evidence \<Rightarrow> index_record" where
  "toEvidenceIndexRecord row =
     \<lparr>irEvidence = ixEvidence row, irTask = ixTask row, irCapturedAt = toISOString (ixCapturedAt row),
      irValidUntil = toISOString (ixValidUntil row), irLocator = (ixSection row, ixField row),
      irSource = (ixSourceId row, ixTitle row, ixUrl row), irExcerptDigest = ixExcerptDigest row,
      irParserVersion = ixParserVersion row, irRawArtifact = ixRawArtifact row,
      irDimensions = length (ixVector row), irModel = ixModel row\<rparr>"

definition getEvidence :: "ident \<Rightarrow> database \<Rightarrow> index_record option" where
  "getEvidence eid d = map_option toEvidenceIndexRecord (find (\<lambda>r. ixEvidence r = eid) (evidenceRows d))"

definition comparableRows :: "nearest_query \<Rightarrow> database \<Rightarrow> indexed_evidence list" where
  "comparableRows q d = filter (\<lambda>r. ixModel r = queryModel q \<and> length (ixVector r) = length (queryVector q)) (evidenceRows d)"

definition nearest ::
    "(rat list \<Rightarrow> rat list \<Rightarrow> rat) \<Rightarrow> nearest_query \<Rightarrow> database \<Rightarrow> index_error + (rat \<times> index_record) list" where
  "nearest distanceOf q d =
     (if \<not> assertQuery q then Inl QueryInvalid
      else let f = (\<lambda>r. distanceOf (ixVector r) (List.map_filter id (queryVector q)))
           in Inr (map (\<lambda>r. (f r, toEvidenceIndexRecord r))
                (take (nat (queryLimit q)) (sort_key f (sort_key ixEvidence (comparableRows q d))))))"

end
