(* ===== verification/CM_Task_System.thy ===== *)
theory CM_Task_System
  imports CM_Worker_Facts CM_Delivery CM_Evidence_Index
begin

text \<open>
  The task store as a system: every operation of its modules, in any order and with any arguments, is a
  step. \<open>task_step\<close> is an ordinary operation, \<open>store_step\<close> also the purge of an owner's data. Ordinary
  steps only let the database evolve; the purge keeps the invariant.
\<close>

section \<open>The publishers and the worker\<close>

lemma publishers_evolve:
  assumes "storeInv d"
  shows "evolves d (snd (publishNextOutbox retry again delivered now d))"
    and "evolves d (snd (publishNextNotification retry delivered now d))"
  using evolves_refl [OF assms]
  by (auto simp: publishNextOutbox_def publishNextNotification_def setOutbox_def split: list.split)

lemma saveEvidence_evolves: "storeInv d \<Longrightarrow> evolves d (snd (saveEvidence ev em d))"
  by (auto simp: saveEvidence_def evolves_refl split: option.split)

section \<open>The purge\<close>

text \<open>What the purge did when it succeeded.\<close>

lemma purge_Inr:
  assumes "purgePrivateDataForOwner env owner d = (Inr n, d')"
  defines "sc \<equiv> purgeScope owner d"
  shows "d' = purgeRest owner sc
      (let e = purgeRuntimeRows sc (purgeAudit env owner sc d) in
       e\<lparr>recoveryFacts := filter (\<lambda>f. factSnapshotId f \<notin> set (pgSnapshots sc)) (recoveryFacts e),
         agentRuns := filter (\<lambda>r. runOperation r \<notin> set (pgOperations sc)) (agentRuns e)\<rparr>)"
    and "\<forall>r \<in> set (agentRuns d). runOperation r \<in> set (pgOperations sc) \<longrightarrow>
      runId r \<in> set (pgRuns sc) \<or> runId r \<notin> evRun ` set (eventRows d)"
    and "n = (length (pgCredentials sc), length (pgTasks sc))"
  using assms
  by (auto simp: purgePrivateDataForOwner_def transact_def andThen_def updating_def returns_def deleteFacts_def
      deleteRuns_def inserting_def Let_def purgeRuntimeRows_def purgeAudit_def split: if_splits sum.splits)

lemma purge_unchanged:
  "purgePrivateDataForOwner env owner d = (Inl e, d') \<Longrightarrow> d' = d \<and> e = PersistenceUnavailableError"
  by (auto simp: purgePrivateDataForOwner_def transact_def andThen_def updating_def returns_def deleteFacts_def
      deleteRuns_def inserting_def Let_def split: if_splits sum.splits)

text \<open>The tables of the invariant after a purge.\<close>

lemma purge_tables:
  assumes "purgePrivateDataForOwner env owner d = (Inr n, d')"
  defines "sc \<equiv> purgeScope owner d"
  shows "eventRows d' = filter (\<lambda>e. evRun e \<notin> set (pgRuns sc)) (eventRows d)"
    and "nextCursor d' = nextCursor d"
    and "agentRuns d' = filter (\<lambda>r. runOperation r \<notin> set (pgOperations sc)) (agentRuns d)"
    and "operations d' = filter (\<lambda>oper. opId oper \<notin> set (pgOperations sc)) (operations d)"
    and "controlRequests d' = filter (\<lambda>r. crOperation r \<notin> set (pgOperations sc)) (controlRequests d)"
    and "submissions d' = filter (\<lambda>s. subOwner s \<noteq> owner) (submissions d)"
    and "credentialRows d' = filter (\<lambda>c. ownerUserId c \<noteq> owner) (credentialRows d)"
    and "egressRows d' = filter (\<lambda>e. egressUserId e \<noteq> owner) (egressRows d)"
    and "auditRows d' = auditRows (purgeAudit env owner sc d)"
    and "recoveryFacts d' = filter (\<lambda>f. factSnapshotId f \<notin> set (pgSnapshots sc)) (recoveryFacts d)"
    and "effectBindings d' = filter (\<lambda>b. effRun (bindIdentity b) \<notin> set (pgRuns sc)) (effectBindings d)"
  using purge_Inr(1) [OF assms(1)] unfolding sc_def
  by (simp_all add: purgeRest_def purgeRuntimeRows_def purgeAudit_def Let_def)

lemma gapless_filter: "gapless rows \<Longrightarrow> gapless (filter (\<lambda>e. evRun e \<notin> R) rows)"
proof -
  have "eventsOf rid (filter (\<lambda>e. evRun e \<notin> R) rows) = (if rid \<in> R then [] else eventsOf rid rows)" for rid
    unfolding eventsOf_def by (induction rows) auto
  then show "gapless rows \<Longrightarrow> ?thesis" by (simp add: gapless_def del: upt_Suc)
qed

lemma storeInv_purge:
  assumes "storeInv d" and "purgePrivateDataForOwner env owner d = (Inr n, d')"
  shows "storeInv d'"
proof -
  let ?sc = "purgeScope owner d"
  note tables = purge_tables [OF assms(2)]
  have keys: "runKeys d' = filter (\<lambda>(r, oid). oid \<notin> set (pgOperations ?sc)) (runKeys d)"
    "opKeys d' = filter (\<lambda>(oid, t). oid \<notin> set (pgOperations ?sc)) (opKeys d)"
    by (simp_all add: runKeys_def opKeys_def tables filter_map comp_def)
  have "gapless (eventRows d')" and "cursorsIncrease d'" and "keysDistinct d'" and "operationsHaveRuns d'" and "requestsOwned d'"
    using assms(1)
    by (auto simp: storeInv_def tables(1) gapless_filter cursorsIncrease_def tables sorted_wrt_map sorted_wrt_filter
        keysDistinct_def keys distinct_map_filter operationsHaveRuns_def requestsOwned_def)
  moreover have "eventsOwned d'"
    unfolding eventsOwned_def
  proof
    fix e assume "e \<in> set (eventRows d')"
    then have e: "e \<in> set (eventRows d)" "evRun e \<notin> set (pgRuns ?sc)" by (simp_all add: tables)
    then obtain oid where oid: "(evRun e, oid) \<in> set (runKeys d)" "(oid, evTask e) \<in> set (opKeys d)"
      using assms(1) by (auto simp: storeInv_def eventsOwned_def runOfTask_def)
    moreover have "oid \<notin> set (pgOperations ?sc)"
      using e oid(1) purge_Inr(2) [OF assms(2)] by (force simp: runKeys_def)
    ultimately show "runOfTask d' (evRun e) (evTask e)" by (auto simp: runOfTask_def keys)
  qed
  ultimately show ?thesis by (simp add: storeInv_def)
qed

lemma storeInv_after_purge: "storeInv d \<Longrightarrow> storeInv (snd (purgePrivateDataForOwner env owner d))"
  using storeInv_purge [of d env owner] purge_unchanged [of env owner d]
  by (metis prod.collapse sum.collapse(1) sum.exhaust_sel)

section \<open>Steps\<close>

inductive task_step :: "store_env \<Rightarrow> database \<Rightarrow> database \<Rightarrow> bool" for env where
  submits: "task_step env d (snd (submit env u now cmd owner d))"
| resumes: "task_step env d (snd (requestRuntimeResume env now rin d))"
| cancels: "task_step env d (snd (requestRuntimeCancel env u now cin d))"
| cancelsAll: "task_step env d (snd (cancelActiveTasksForOwner env us nows owner correlation d))"
| claimsControl: "task_step env d (snd (claimNextRuntimeControl env u now worker lease d))"
| claims: "task_step env d (snd (claimNext env u now oid worker lease d))"
| completes: "task_step env d (snd (complete env u now oid worker out control d))"
| putsSnapshot: "task_step env d (snd (putRawSnapshot env now payload d))"
| putsEffect: "task_step env d (snd (putEffectResult env now idn payload d))"
| savesFacts: "task_step env d (snd (saveRecoveryFacts env now s rs d))"
| recordsRunning: "task_step env d (snd (recordRuntimeRunning now rid controller lease d))"
| claimsResume: "task_step env d (snd (claimRuntimeResume now rid sid controller lease d))"
| completesControl: "task_step env d (snd (completeRuntimeControl env now rid controller expected nxt st evs d))"
| claimsCancel: "task_step env d (snd (claimRuntimeCancel env now rid cancellation evs d))"
| audits: "task_step env d (snd (appendAuditRecord uuid now a d))"
| savesCredential: "task_step env d (saveEncryptedCredential c d)"
| deletesCredential: "task_step env d (snd (deleteEncryptedCredential cid owner d))"
| recordsEgress: "task_step env d (snd (appendEgressRecord e d))"
| publishes: "task_step env d (snd (publishNextOutbox retry again delivered now d))"
| notifies: "task_step env d (snd (publishNextNotification retry delivered now d))"
| indexes: "task_step env d (snd (saveEvidence ev em d))"

inductive store_step :: "store_env \<Rightarrow> database \<Rightarrow> database \<Rightarrow> bool" for env where
  task: "task_step env d d' \<Longrightarrow> store_step env d d'"
| purges: "store_step env d (snd (purgePrivateDataForOwner env owner d))"

inductive_cases task_stepE: "task_step env d d'"
inductive_cases store_stepE: "store_step env d d'"

lemmas operations_evolve =
  submit_evolves requestRuntimeResume_evolves requestRuntimeCancel_evolves cancelTasks_evolves
  claimNextRuntimeControl_evolves claimNext_evolves complete_evolves putRawSnapshot_evolves
  putEffectResult_evolves saveRecoveryFacts_evolves control_state_evolves tables_evolve publishers_evolve saveEvidence_evolves

lemma task_step_evolves:
  assumes "task_step env d d'" and "storeInv d"
  shows "evolves d d'"
  using assms(1)
  by cases (simp_all add: operations_evolve assms(2) evolves_refl cancelActiveTasksForOwner_def)

lemma store_step_inv: "storeInv d \<Longrightarrow> store_step env d d' \<Longrightarrow> storeInv d'"
  by (auto elim!: store_stepE dest: task_step_evolves evolvesD storeInv_after_purge)

interpretation store: step_invariant emptyDatabase "store_step env" storeInv for env
  by unfold_locales (auto intro: storeInv_empty store_step_inv)

interpretation history: step_stable "task_step env" "evolves d0" for env d0
  by unfold_locales (blast intro: evolves_trans task_step_evolves evolvesD)

lemma task_steps_evolve: "(task_step env)\<^sup>*\<^sup>* d d' \<Longrightarrow> storeInv d \<Longrightarrow> evolves d d'"
  by (erule history.steps_fact) (rule evolves_refl)

lemma task_steps_store: "(task_step env)\<^sup>*\<^sup>* d d' \<Longrightarrow> (store_step env)\<^sup>*\<^sup>* d d'"
  by (induction rule: rtranclp_induct) (auto intro: rtranclp.rtrancl_into_rtrancl store_step.task)

section \<open>The worker's runs\<close>

text \<open>A run of the worker is a sequence of steps, if what others do meanwhile is.\<close>

locale meanwhile_steps =
  fixes env :: store_env and wo :: worker_options
  assumes meanwhile: "(task_step env)\<^sup>*\<^sup>* d (woMeanwhile wo d)"
begin

lemma then_step: "(task_step env)\<^sup>*\<^sup>* d d1 \<Longrightarrow> task_step env d1 d2 \<Longrightarrow> (task_step env)\<^sup>*\<^sup>* d d2"
  by (rule rtranclp.rtrancl_into_rtrancl)

lemma complete_steps:
  "complete env u now oid worker out control (woMeanwhile wo d) = (r, d2) \<Longrightarrow> (task_step env)\<^sup>*\<^sup>* d d2"
  by (metis completes meanwhile snd_conv then_step)

lemma handleClaim_steps: "(task_step env)\<^sup>*\<^sup>* d (snd (handleClaim env wo c d))"
  unfolding handleClaim_def Let_def
  by (auto simp: meanwhile split: option.split prod.split sum.split dest: complete_steps)

lemma handleMessage_steps: "(task_step env)\<^sup>*\<^sup>* d (snd (handleMessage env wo oid d))"
proof (cases oid)
  case (Some k)
  have "(task_step env)\<^sup>*\<^sup>* d d1" if "claimNext env (woUuid wo 1) (woNow wo 1) k (woWorker wo) (woLease wo) d = (r, d1)" for r d1
    using that by (metis claims r_into_rtranclp snd_conv)
  with Some handleClaim_steps show ?thesis
    by (auto simp: handleMessage_def split: prod.split sum.split claim_result.split intro: rtranclp_trans)
qed (simp add: handleMessage_def)

lemma handleControl_steps: "(task_step env)\<^sup>*\<^sup>* d (snd (handleControl env wo f c d))"
  unfolding handleControl_def Let_def
  by (auto simp: meanwhile split: option.split prod.split sum.split dest: complete_steps)

lemma readMessage_steps: "(task_step env)\<^sup>*\<^sup>* d (snd (readMessage env wo msg d))"
  by (auto simp: readMessage_def handleMessage_steps split: option.split)

lemma runOnce_steps: "(task_step env)\<^sup>*\<^sup>* d (snd (runOnce env wo msg d))"
proof (cases "woControl wo")
  case (Some f)
  have "(task_step env)\<^sup>*\<^sup>* d d1"
    if "claimNextRuntimeControl env (woUuid wo 0) (woNow wo 0) (woWorker wo) (woLease wo) d = (r, d1)" for r d1
    using that by (metis claimsControl r_into_rtranclp snd_conv)
  with Some handleControl_steps readMessage_steps show ?thesis
    by (auto simp: runOnce_def split: prod.split sum.split option.split intro: rtranclp_trans)
qed (simp add: runOnce_def readMessage_steps)

end

text \<open>A worker on its own, and one that a second worker interrupts.\<close>

interpretation alone: meanwhile_steps env "wo\<lparr>woMeanwhile := \<lambda>d. d\<rparr>" for env wo
  by unfold_locales simp

interpretation interrupted: meanwhile_steps env
    "wo\<lparr>woMeanwhile := \<lambda>d. snd (runOnce env (other\<lparr>woMeanwhile := \<lambda>d. d\<rparr>) msg d)\<rparr>" for env wo other msg
  by unfold_locales (simp add: alone.runOnce_steps)

end
