(* ===== verification/CM_Row_Types.thy ===== *)
theory CM_Row_Types
  imports CM_Task_System
begin

text \<open>
  The types of the rows of operations and control requests: which columns are set in which state. Every
  step of the store keeps them, so no update of a reachable database violates the table's checks.
\<close>

section \<open>Rows\<close>

definition opTyped :: "operation_row \<Rightarrow> bool" where
  "opTyped oper \<longleftrightarrow>
     (opState oper = task_row_state.RUNNING \<longleftrightarrow> opWorker oper \<noteq> None)
     \<and> (opWorker oper = None \<longleftrightarrow> opLease oper = None)
     \<and> (opState oper \<noteq> task_row_state.ACCEPTED \<and> opState oper \<noteq> task_row_state.RUNNING \<longrightarrow> opResult oper \<noteq> None)"

text \<open>The check of the table of control requests, and its lease.\<close>

definition crTyped :: "control_request_row \<Rightarrow> bool" where
  "crTyped r \<longleftrightarrow>
     (case crAction r of
        RESUME \<Rightarrow> crSnapshot r \<noteq> None \<and> crCancellation r = None \<and> crConfirmation r = Some (crId r, crOwner r)
      | CANCEL \<Rightarrow> crSnapshot r = None \<and> crCancellation r \<noteq> None \<and> crConfirmation r = None)
     \<and> (crState r = control_request_state.RUNNING \<longleftrightarrow> crWorker r \<noteq> None)
     \<and> (crWorker r = None \<longleftrightarrow> crLease r = None)
     \<and> (crState r = control_request_state.FAILED \<longrightarrow> crResult r \<noteq> None)"

definition rowsTyped :: "database \<Rightarrow> bool" where
  "rowsTyped d \<longleftrightarrow> (\<forall>oper \<in> set (operations d). opTyped oper) \<and> (\<forall>r \<in> set (controlRequests d). crTyped r)"

abbreviation keepsTypes :: "'a tx \<Rightarrow> bool" where
  "keepsTypes m \<equiv> ensures rowsTyped m (\<lambda>_. rowsTyped)"

lemma rowsTyped_untouched [simp]:
  "rowsTyped (d\<lparr>submissions := a\<rparr>) = rowsTyped d" "rowsTyped (d\<lparr>notifications := b\<rparr>) = rowsTyped d"
  "rowsTyped (d\<lparr>outbox := c\<rparr>) = rowsTyped d" "rowsTyped (d\<lparr>controlStates := e\<rparr>) = rowsTyped d"
  "rowsTyped (d\<lparr>snapshotObjects := f\<rparr>) = rowsTyped d" "rowsTyped (d\<lparr>effectObjects := f\<rparr>) = rowsTyped d"
  "rowsTyped (d\<lparr>recoveryFacts := g\<rparr>) = rowsTyped d" "rowsTyped (d\<lparr>effectReceiptRows := h\<rparr>) = rowsTyped d"
  "rowsTyped (d\<lparr>auditRows := i\<rparr>) = rowsTyped d" "rowsTyped (d\<lparr>credentialRows := j\<rparr>) = rowsTyped d"
  "rowsTyped (d\<lparr>egressRows := k\<rparr>) = rowsTyped d" "rowsTyped (d\<lparr>evidenceRows := l\<rparr>) = rowsTyped d"
  "rowsTyped (d\<lparr>effectBindings := m\<rparr>) = rowsTyped d" "rowsTyped (d\<lparr>agentRuns := n\<rparr>) = rowsTyped d"
  "rowsTyped (d\<lparr>eventRows := q\<rparr>) = rowsTyped d" "rowsTyped (d\<lparr>nextCursor := r\<rparr>) = rowsTyped d"
  by (simp_all add: rowsTyped_def)

lemma rowsTyped_new [simp]:
  "rowsTyped (d\<lparr>operations := operations d @ [oper]\<rparr>) \<longleftrightarrow> rowsTyped d \<and> opTyped oper"
  "rowsTyped (d\<lparr>controlRequests := controlRequests d @ [r]\<rparr>) \<longleftrightarrow> rowsTyped d \<and> crTyped r"
  by (auto simp: rowsTyped_def)

lemma rowsTyped_setOperation [intro]:
  "rowsTyped d \<Longrightarrow> (\<And>oper. opTyped oper \<Longrightarrow> opTyped (f oper)) \<Longrightarrow> rowsTyped (setOperation oid f d)"
  by (auto simp: rowsTyped_def setOperation_def updateWhere_def)

lemma rowsTyped_setRequest [intro]:
  "rowsTyped d \<Longrightarrow> (\<And>r. crTyped r \<Longrightarrow> crTyped (f r)) \<Longrightarrow>
   rowsTyped (d\<lparr>controlRequests := updateWhere p f (controlRequests d)\<rparr>)"
  by (auto simp: rowsTyped_def updateWhere_def)

lemma rowsTyped_setControlRow [simp]: "rowsTyped (setControlRow rid f d) = rowsTyped d"
  by (simp add: setControlRow_def)

lemma rowsTyped_empty: "rowsTyped emptyDatabase"
  by (simp add: rowsTyped_def emptyDatabase_def)

lemma keepsTypes_andThen: "keepsTypes m \<Longrightarrow> (\<And>a. keepsTypes (f a)) \<Longrightarrow> keepsTypes (andThen m f)"
  by (rule ensures_andThen)

lemma keepsTypes_transact: "keepsTypes m \<Longrightarrow> rowsTyped d \<Longrightarrow> rowsTyped (snd (transact m d))"
  by (auto simp: ensures_def transact_def split: sum.splits prod.splits)

lemma keepsTypes_loadRunEvents: "keepsTypes (loadRunEvents env tid rid)"
  by (auto simp: ensures_def loadRunEvents_def split: option.splits)

lemma keepsTypes_insertRunEvent: "keepsTypes (insertRunEvent env ev now)"
  unfolding insertRunEvent_def by (rule ensures_inserting) simp

lemma keepsTypes_insertRunEvents: "keepsTypes (insertRunEvents env now evs)"
  unfolding insertRunEvents_def by (rule ensures_forAll) (rule keepsTypes_insertRunEvent)

text \<open>A transaction that first looks at the database.\<close>

lemma keepsTypes_reading: "(\<And>d. rowsTyped d \<Longrightarrow> ensures (\<lambda>e. e = d) (m d) (\<lambda>_. rowsTyped)) \<Longrightarrow> keepsTypes (\<lambda>d. m d d)"
  by (auto simp: ensures_def)

lemma keepsTypes_at: "keepsTypes m \<Longrightarrow> rowsTyped d \<Longrightarrow> ensures (\<lambda>e. e = d) m (\<lambda>_. rowsTyped)"
  by (auto simp: ensures_def)

lemmas keepsTypes_rules = keepsTypes_andThen keepsTypes_loadRunEvents keepsTypes_insertRunEvent
  keepsTypes_insertRunEvents ensures_returns ensures_updating ensures_inserting ensures_aborts
  ensures_snapshotTx ensures_statusTx

section \<open>The operations\<close>

lemma typesD: "keepsTypes m \<Longrightarrow> rowsTyped d \<Longrightarrow> m d = Inr (a, d') \<Longrightarrow> rowsTyped d'"
  by (auto simp: ensures_def)

lemma transact_typed:
  "rowsTyped d \<Longrightarrow> (\<And>a d'. m d = Inr (a, d') \<Longrightarrow> rowsTyped d') \<Longrightarrow> rowsTyped (snd (transact m d))"
  by (auto simp: transact_def split: sum.splits prod.splits)

lemma submit_typed: "rowsTyped d \<Longrightarrow> rowsTyped (snd (submit env u now cmd owner d))"
proof -
  have ins: "keepsTypes (insertSubmission env u now cmd owner fp)" for fp
    unfolding insertSubmission_def Let_def
    by (intro keepsTypes_rules) (simp_all add: opTyped_def)
  show "rowsTyped d \<Longrightarrow> ?thesis"
    unfolding submit_def
    by (rule transact_typed) (auto simp: submitInTransaction_def Let_def answer_simps
        split: option.splits if_splits dest: typesD [OF ins])
qed

lemma requestRuntimeResume_typed: "rowsTyped d \<Longrightarrow> rowsTyped (snd (requestRuntimeResume env now inp d))"
proof -
  have ins: "keepsTypes (insertResume inp oper now)" if "riConfirmation inp = (riControlRequest inp, riOwner inp)" for oper
    unfolding insertResume_def using that
    by (intro keepsTypes_rules) (simp add: crTyped_def resumeRow_def)
  have acc: "keepsTypes (acceptResume env now inp oper)" if "riConfirmation inp = (riControlRequest inp, riOwner inp)" for oper
  proof -
    have check: "keepsTypes (\<lambda>d. case findRequest (riControlRequest inp) d of
           None \<Rightarrow> Inl (IdempotencyConflictError (riControlRequest inp))
         | Some r \<Rightarrow> if sameResume inp oper r then statusTx r d
                     else Inl (IdempotencyConflictError (riControlRequest inp)))"
      by (auto simp: ensures_def answer_simps split: option.splits)
    show ?thesis
      unfolding acceptResume_def
      by (rule keepsTypes_andThen [OF ensures_snapshotTx]) (auto intro: keepsTypes_andThen ins that check)
  qed
  show "rowsTyped d \<Longrightarrow> ?thesis"
    unfolding requestRuntimeResume_def
    by (auto intro!: transact_typed simp: answer_simps split: option.splits if_splits dest: typesD [OF acc])
qed


lemma requestRuntimeCancel_typed: "rowsTyped d \<Longrightarrow> rowsTyped (snd (requestRuntimeCancel env u now inp d))"
proof -
  have can: "keepsTypes (cancelOperationTx env u now inp oper)" for oper
    unfolding cancelOperationTx_def Let_def
    by (intro keepsTypes_rules) (auto simp: crTyped_def cancelRow_def opTyped_def cancelControlState_def Let_def)
  show "rowsTyped d \<Longrightarrow> ?thesis"
    unfolding requestRuntimeCancel_def
    by (auto intro!: transact_typed simp: answer_simps split: option.splits if_splits dest: typesD [OF can])
qed

lemma cancelTasks_typed: "rowsTyped d \<Longrightarrow> rowsTyped (snd (cancelTasks env u now owner corr i ts n d))"
proof (induction env u now owner corr i ts n d rule: cancelTasks.induct)
  case (2 env u now owner corr i t ts n d)
  let ?r = "requestRuntimeCancel env (\<lambda>k. u i (k + 2)) (now i)
         \<lparr>ciControlRequest = ''account-lifecycle-'' @ u i 0, ciTask = t, ciOwner = owner,
          ciCancellation = ''account-lifecycle-'' @ u i 1, ciCorrelation = corr\<rparr> d"
  have "rowsTyped (snd ?r)" using 2(4) by (rule requestRuntimeCancel_typed)
  with 2(1-3) show ?case
    by (cases ?r) (auto split: sum.split option.split store_error.split)
qed simp

lemma crTyped_updates:
  "crTyped r \<Longrightarrow> crTyped (r\<lparr>crState := control_request_state.FAILED, crWorker := None, crLease := None,
     crResult := Some v, crUpdatedAt := now\<rparr>)"
  "crTyped r \<Longrightarrow> crTyped (r\<lparr>crState := control_request_state.RUNNING, crWorker := Some w, crLease := Some l,
     crUpdatedAt := now\<rparr>)"
  by (auto simp: crTyped_def split: control_action.splits)

lemma failRequest_typed: "keepsTypes (failRequest env cid now e)"
  unfolding failRequest_def setRequest_def by (intro keepsTypes_rules rowsTyped_setRequest crTyped_updates)

lemma thenReturns_typed: "keepsTypes m \<Longrightarrow> keepsTypes (andThen m (\<lambda>_. returns x))"
  by (rule keepsTypes_andThen) (auto intro: ensures_returns)

lemma denyResume_typed: "keepsTypes (denyResume env u now r s dec)"
  unfolding denyResume_def by (auto intro!: keepsTypes_rules failRequest_typed)

lemma startResume_typed: "keepsTypes (startResume env u now worker lease r oper)"
  unfolding startResume_def setRequest_def
  by (auto intro!: keepsTypes_rules rowsTyped_setRequest crTyped_updates simp: opTyped_def)

lemma returns_apply: "returns a d = Inr (a, d)"
  by (simp add: returns_def)

lemma claimNextRuntimeControl_typed:
  assumes "rowsTyped d"
  shows "rowsTyped (snd (claimNextRuntimeControl env u now worker lease d))"
  unfolding claimNextRuntimeControl_def
proof (rule transact_typed [OF assms], goal_cases)
  case (1 a d')
  have "rowsTyped d'" if "andThen m (\<lambda>_. returns x) d = Inr (a, d')" and "keepsTypes m" for m x
    using that assms by (auto intro: typesD thenReturns_typed)
  note branch = this [OF _ failRequest_typed] this [OF _ denyResume_typed] this [OF _ startResume_typed]
  from 1 assms show ?case
    by (auto simp: returns_apply Let_def split: option.splits sum.splits if_splits dest: branch)
qed

lemma startRetry_typed: "keepsTypes (startRetry env u now oper)"
  unfolding startRetry_def Let_def by (intro keepsTypes_rules) simp_all

lemma appendRunningEvent_typed: "keepsTypes (appendRunningEvent env u now tid rid)"
  unfolding appendRunningEvent_def by (auto intro!: keepsTypes_rules)

lemma claimNext_typed:
  assumes "rowsTyped d"
  shows "rowsTyped (snd (claimNext env u now oid worker lease d))"
proof -
  have run: "keepsTypes (andThen (updating (setOperation oid (\<lambda>q. q\<lparr>opRun := rid, opState := task_row_state.RUNNING,
          opWorker := Some worker, opLease := Some (now + lease), opUpdatedAt := now\<rparr>))) (\<lambda>_.
        andThen (appendRunningEvent env u now t rid) (\<lambda>_. returns c)))" for rid t c
    by (auto intro!: keepsTypes_rules appendRunningEvent_typed simp: opTyped_def)
  have "rowsTyped d'" if "andThen m (\<lambda>rid. andThen (updating (setOperation oid (\<lambda>q. q\<lparr>opRun := rid,
          opState := task_row_state.RUNNING, opWorker := Some worker, opLease := Some (now + lease),
          opUpdatedAt := now\<rparr>))) (\<lambda>_. andThen (appendRunningEvent env u now t rid) (\<lambda>_. returns (c rid)))) d = Inr (a, d')"
      and "keepsTypes m" for m t c a d'
    by (rule typesD [OF keepsTypes_andThen [OF that(2) run] assms that(1)])
  note branch = this [OF _ startRetry_typed] this [OF _ ensures_returns]
  show ?thesis
    unfolding claimNext_def
    by (rule transact_typed [OF assms])
      (auto simp: returns_apply assms split: option.splits sum.splits if_splits dest: branch)
qed

text \<open>Completing: the first update gives the row its outcome.\<close>

lemma completedRow_typed:
  "doState o' \<noteq> task_row_state.RUNNING \<Longrightarrow> opTyped (completedRow env now o' oper)"
  by (simp add: opTyped_def completedRow_def)

lemma decodedOutcome_states:
  "decodePersistentOutcome env out = Some o' \<Longrightarrow> doState o' \<noteq> task_row_state.RUNNING"
  by (auto simp: decodePersistentOutcome_def decodedResult_def explicitRowState_def
      split: sum.splits execution_outcome.splits if_splits decision_task_result.splits explicit_state.splits)

lemma storeOutcome_typed: "keepsTypes (storeOutcome env oid payload t)"
  unfolding storeOutcome_def
  by (auto intro!: keepsTypes_rules rowsTyped_setOperation simp: opTyped_def split: option.split)

lemma persistOutcome_typed: "keepsTypes (persistOutcome env u now o' row)"
  unfolding persistOutcome_def persistPausedRunEvents_def persistResultRunEvents_def Let_def
  by (auto intro!: keepsTypes_rules storeOutcome_typed split: execution_outcome.split option.split sum.split)

lemma completeRequest_typed: "rowsTyped d \<Longrightarrow> rowsTyped (completeRequest env now cid oid worker e d)"
  unfolding completeRequest_def
  by (erule rowsTyped_setRequest) (auto simp: crTyped_def split: control_action.splits)

lemma complete_typed:
  assumes "rowsTyped d"
  shows "rowsTyped (snd (complete env u now oid worker out control d))"
proof (cases "decodePersistentOutcome env out")
  case (Some o')
  let ?first = "updating (setOperation oid (completedRow env now o'))"
  have first: "keepsTypes ?first"
    by (rule ensures_updating) (intro rowsTyped_setOperation completedRow_typed decodedOutcome_states [OF Some])
  have "rowsTyped d'"
    if "andThen ?first (\<lambda>_. andThen (persistOutcome env u now o' row) (\<lambda>c d'.
           case control of None \<Rightarrow> returns c d'
           | Some cid \<Rightarrow> if list_ex (completesRequest cid oid worker) (controlRequests d')
               then returns c (completeRequest env now cid oid worker (runtimeControlErrorFromOutcome env (doPayload o')) d')
               else returns NOT_COMPLETABLE d)) d = Inr (a, d')" for row a d'
  proof -
    have last: "keepsTypes (\<lambda>d'. case control of None \<Rightarrow> returns c d'
           | Some cid \<Rightarrow> if list_ex (completesRequest cid oid worker) (controlRequests d')
               then returns c (completeRequest env now cid oid worker (runtimeControlErrorFromOutcome env (doPayload o')) d')
               else returns NOT_COMPLETABLE d)" for c
      using assms by (auto simp: ensures_def returns_apply completeRequest_typed split: option.split)
    show ?thesis
      by (rule typesD [OF keepsTypes_andThen [OF first keepsTypes_andThen [OF persistOutcome_typed last]] assms that])
  qed
  with Some assms show ?thesis
    by (auto simp: complete_def completeTx_def returns_apply intro!: transact_typed split: option.splits)
qed (simp add: complete_def assms)

section \<open>The recovery store and the tables\<close>

lemma putSnapshot_typed: "rowsTyped d \<Longrightarrow> rowsTyped (snd (putRawSnapshot env now payload d))"
  by (simp add: putRawSnapshot_def Let_def split: option.split)

lemma putEffect_typed: "rowsTyped d \<Longrightarrow> rowsTyped (snd (putEffectResult env now idn payload d))"
  by (auto simp: putEffectResult_def putEffectTx_def Let_def intro!: transact_typed split: option.splits if_splits)

lemma saveFacts_typed: "rowsTyped d \<Longrightarrow> rowsTyped (snd (saveRecoveryFacts env now s rs d))"
proof -
  have fact: "keepsTypes (insertFact env now s)"
    by (auto simp: ensures_def insertFact_def Let_def split: option.splits if_splits)
  have receipts: "keepsTypes (forAll (insertReceipt env now sid) rs)" for sid
    by (rule ensures_forAll) (auto simp: ensures_def insertReceipt_def)
  have check: "keepsTypes (checkReceipts env sid rs)" for sid
    by (auto simp: ensures_def checkReceipts_def)
  have control: "keepsTypes (upsertControlState now s)"
    by (auto simp: ensures_def upsertControlState_def Let_def split: option.splits)
  show "rowsTyped d \<Longrightarrow> ?thesis"
    by (auto simp: saveRecoveryFacts_def
        intro!: keepsTypes_transact keepsTypes_andThen fact receipts check control)
qed

lemma control_typed:
  assumes "rowsTyped d"
  shows "rowsTyped (snd (recordRuntimeRunning now rid controller lease d))"
    and "rowsTyped (snd (claimRuntimeResume now rid sid controller lease d))"
    and "rowsTyped (snd (completeRuntimeControl env now rid controller expected nxt st evs d))"
    and "rowsTyped (snd (claimRuntimeCancel env now rid cancellation evs d))"
proof -
  have set: "keepsTypes (andThen (updating (setControlRow rid f)) (\<lambda>_. returns c))" for f c
    by (intro keepsTypes_rules) simp_all
  have update: "rowsTyped (snd (updateRuntimeControlState rid upd d))" if "\<And>r. keepsTypes (upd r)" for upd
    unfolding updateRuntimeControlState_def
    by (auto intro!: transact_typed assms split: option.splits dest: typesD [OF that assms])
  show "rowsTyped (snd (recordRuntimeRunning now rid controller lease d))"
    using assms by (auto simp: recordRuntimeRunning_def split: option.split)
  show "rowsTyped (snd (claimRuntimeResume now rid sid controller lease d))"
    unfolding claimRuntimeResume_def by (rule update) (auto intro!: answerFromRow_ensures set)
  show "rowsTyped (snd (completeRuntimeControl env now rid controller expected nxt st evs d))"
    using assms by (auto simp: completeRuntimeControl_def split: option.split)
  show "rowsTyped (snd (claimRuntimeCancel env now rid cancellation evs d))"
    unfolding claimRuntimeCancel_def by (rule update) (auto intro!: answerFromRow_ensures set)
qed

lemma tables_typed:
  assumes "rowsTyped d"
  shows "rowsTyped (snd (appendAuditRecord uuid now a d))" and "rowsTyped (saveEncryptedCredential c d)"
    and "rowsTyped (snd (deleteEncryptedCredential cid owner d))" and "rowsTyped (snd (appendEgressRecord e d))"
    and "rowsTyped (snd (publishNextOutbox retry again delivered now d))"
    and "rowsTyped (snd (publishNextNotification retry delivered now d))"
    and "rowsTyped (snd (saveEvidence ev em d))"
  using assms
  by (auto simp: appendAuditRecord_def saveEncryptedCredential_def deleteEncryptedCredential_def appendEgressRecord_def
      transact_def inserting_def publishNextOutbox_def publishNextNotification_def setOutbox_def saveEvidence_def
      split: list.split option.split)

lemma purge_typed: "rowsTyped d \<Longrightarrow> rowsTyped (snd (purgePrivateDataForOwner env owner d))"
proof (cases "fst (purgePrivateDataForOwner env owner d)")
  case (Inl e)
  then show "rowsTyped d \<Longrightarrow> ?thesis" by (metis prod.collapse purge_unchanged)
next
  case (Inr n)
  then have "purgePrivateDataForOwner env owner d = (Inr n, snd (purgePrivateDataForOwner env owner d))"
    by (metis prod.collapse)
  from purge_tables [OF this] show "rowsTyped d \<Longrightarrow> ?thesis" by (simp add: rowsTyped_def)
qed

lemmas operations_typed =
  submit_typed requestRuntimeResume_typed requestRuntimeCancel_typed cancelTasks_typed
  claimNextRuntimeControl_typed claimNext_typed complete_typed putSnapshot_typed putEffect_typed
  saveFacts_typed control_typed tables_typed

lemma store_step_typed:
  assumes "rowsTyped d" and "store_step env d d'"
  shows "rowsTyped d'"
  using assms(2)
proof cases
  case task
  then show ?thesis
    by cases (simp_all add: operations_typed assms(1) cancelActiveTasksForOwner_def)
next
  case (purges owner)
  then show ?thesis by (simp add: purge_typed assms(1))
qed

interpretation row_types: step_invariant emptyDatabase "store_step env" rowsTyped for env
  by unfold_locales (auto intro: rowsTyped_empty store_step_typed)

end
