(* ===== verification/CM_Task_Properties.thy ===== *)
theory CM_Task_Properties
  imports CM_Row_Types
begin

text \<open>
  What the task store promises in every database that it can reach: the history of events, the rows'
  types, and the purge of an owner's data.
\<close>

section \<open>The history\<close>

lemma reachable_storeInv: "(store_step env)\<^sup>*\<^sup>* emptyDatabase d \<Longrightarrow> storeInv d"
  by (rule store.reachable_inv)

text \<open>
  C6: in every database that operations and purges in any order lead to, event cursors strictly increase
  in the order of insertion, the events of each run are numbered 1, 2, 3, ... without a gap, and each event
  belongs to a run of an existing operation of its task.
\<close>

theorem reachable_history:
  assumes "(store_step env)\<^sup>*\<^sup>* emptyDatabase d"
  shows "sorted_wrt (<) (map evCursor (eventRows d))
    \<and> map evSequence (filter (\<lambda>e. evRun e = rid) (eventRows d))
       = map int [1..<Suc (length (filter (\<lambda>e. evRun e = rid) (eventRows d)))]
    \<and> (\<forall>e \<in> set (eventRows d). \<exists>r \<in> set (agentRuns d). \<exists>oper \<in> set (operations d).
       runId r = evRun e \<and> runOperation r = opId oper \<and> opTask oper = evTask e)"
  using reachable_storeInv [OF assms]
  by (auto simp: storeInv_def cursorsIncrease_def gapless_def eventsOf_def eventsOwned_def runOfTask_def
      runKeys_def opKeys_def simp del: upt_Suc) force


text \<open>
  C24: in every reachable database, an operation or control request has a worker and a lease exactly while it
  is running, a settled operation has a result and a failed request an error, and a request has the columns
  that its action needs: a resume its snapshot and the confirmation by its owner, a cancel its cancellation.
\<close>

theorem reachable_rows_typed:
  assumes "(store_step env)\<^sup>*\<^sup>* emptyDatabase d"
  shows "(\<forall>oper \<in> set (operations d). opTyped oper) \<and> (\<forall>r \<in> set (controlRequests d). crTyped r)"
  using row_types.reachable_inv [OF assms] by (simp_all add: rowsTyped_def)

section \<open>The owner of an operation\<close>

lemma find_mem: "find p xs = Some x \<Longrightarrow> x \<in> set xs \<and> p x"
  by (induction xs) (auto split: if_splits)

lemma ownedBy_submission:
  "ownedBy d owner oper \<Longrightarrow> \<exists>s \<in> set (submissions d). subRequestId s = opRequestId oper \<and> subOwner s = owner"
  by (auto simp: ownedBy_def submissionOf_def split: option.splits dest!: find_mem)

lemma find_append: "find p xs = Some x \<Longrightarrow> find p (xs @ ys) = Some x"
  by (induction xs) (auto split: if_splits)

text \<open>An operation keeps its owner.\<close>

lemma same_operation:
  assumes "keysDistinct d" and "oper \<in> set (operations d)" and "oper' \<in> set (operations d)" and "opId oper = opId oper'"
  shows "oper = oper'"
  using assms by (auto simp: keysDistinct_def opKeys_def distinct_map comp_def inj_on_def)

lemma evolves_owner:
  assumes "evolves d d'" and "oper \<in> set (operations d)" and "ownedBy d owner oper"
    and "oper' \<in> set (operations d')" and "opId oper' = opId oper"
  shows "ownedBy d' owner oper'"
proof -
  have "(opId oper, opRequestId oper) \<in> set (requestKeys d')"
    using assms(1,2) by (auto simp: evolves_def requestKeys_def)
  then obtain q where q: "q \<in> set (operations d')" "opId q = opId oper" "opRequestId q = opRequestId oper"
    by (auto simp: requestKeys_def)
  with assms have "oper' = q" by (intro same_operation [of d']) (auto simp: evolves_def storeInv_def)
  with assms(1,3) q show ?thesis
    by (auto simp: evolves_def ownedBy_def submissionOf_def find_append split: option.splits)
qed

lemma evolves_events:
  "evolves d d' \<Longrightarrow> eventsOf rid (eventRows d) \<noteq> [] \<Longrightarrow> eventsOf rid (eventRows d') \<noteq> []"
  by (auto simp: evolves_def eventsOf_def)

section \<open>Purging\<close>

lemma purge_two_runs:
  assumes "storeInv d" and "oper \<in> set (operations d)" and "ownedBy d owner oper"
    and runs: "(r1, opId oper) \<in> set (runKeys d)" "(r2, opId oper) \<in> set (runKeys d)" "r1 \<noteq> r2"
    and events: "eventsOf r1 (eventRows d) \<noteq> []" "eventsOf r2 (eventRows d) \<noteq> []"
  shows "purgePrivateDataForOwner env owner d = (Inl PersistenceUnavailableError, d)"
proof (cases "purgePrivateDataForOwner env owner d")
  case (Pair r d')
  show ?thesis
  proof (cases r)
    case (Inl e)
    with Pair purge_unchanged show ?thesis by metis
  next
    case (Inr n)
    let ?sc = "purgeScope owner d"
    have owned: "opId oper \<in> set (pgOperations ?sc)"
      using assms(2) ownedBy_submission [OF assms(3)] by (force simp: purgeScope_def Let_def)
    have only: "rid = opRun oper" if "(rid, opId oper) \<in> set (runKeys d)" and "eventsOf rid (eventRows d) \<noteq> []" for rid
    proof -
      from that obtain run where run: "run \<in> set (agentRuns d)" "runId run = rid" "runOperation run = opId oper"
        by (auto simp: runKeys_def)
      have "rid \<in> evRun ` set (eventRows d)" using that(2) by (auto simp: eventsOf_def filter_empty_conv)
      with run owned purge_Inr(2) [OF Pair [unfolded Inr]] have "rid \<in> set (pgRuns ?sc)" by auto
      then obtain q where q: "q \<in> set (operations d)" "rid = opRun q"
        by (auto simp: purgeScope_def Let_def)
      then have "(rid, opId q) \<in> set (runKeys d)" using inv_keys(1) [OF assms(1)] by simp
      then have "opId q = opId oper"
        using that(1) assms(1) by (auto simp: storeInv_def keysDistinct_def dest: eq_key_imp_eq_value)
      then have "q = oper" using q assms(1,2) by (intro same_operation [of d]) (auto simp: storeInv_def)
      with q show ?thesis by simp
    qed
    from only [OF runs(1) events(1)] only [OF runs(2) events(2)] runs(3) show ?thesis by simp
  qed
qed

text \<open>A retry starts a second run of its operation, with events of its own.\<close>

lemma claimNext_retry:
  assumes "operationOf d oid = Some oper" and "opState oper = task_row_state.FAILED_RETRYABLE"
    and "claimNext env u now oid worker lease d = (Inr (CLAIMED c), d1)"
  defines "rid \<equiv> ''agent-run-'' @ u 0"
  shows "rid \<notin> runId ` set (agentRuns d)" and "(rid, oid) \<in> set (runKeys d1)" and "eventsOf rid (eventRows d1) \<noteq> []"
proof -
  let ?P = "\<lambda>d'. (rid, oid) \<in> set (runKeys d') \<and> eventsOf rid (eventRows d') \<noteq> [] \<and> rid \<notin> runId ` set (agentRuns d)"
  have oid: "opId oper = oid" using assms(1) operationOfD by blast
  have retry: "ensures (\<lambda>e. e = d) (startRetry env u now oper) (\<lambda>r e. r = rid \<and> ?P e)"
    by (auto simp: ensures_def startRetry_def Let_def andThen_def inserting_def insertRunEvent_def returns_def
        runKeys_def eventsOf_def runEventText_def rid_def oid)
  have mono: "ensures ?P (insertRunEvent env ev now) (\<lambda>_. ?P)" for ev
    by (auto simp: ensures_def insertRunEvent_def inserting_def runKeys_def eventsOf_def)
  have load: "ensures ?P (loadRunEvents env t r) (\<lambda>_. ?P)" for t r
    by (auto simp: ensures_def loadRunEvents_def split: option.split)
  have running: "ensures ?P (appendRunningEvent env u now t r) (\<lambda>_. ?P)" for t r
    unfolding appendRunningEvent_def by (rule ensures_andThen [OF load]) (auto intro: mono ensures_returns)
  have set: "ensures ?P (updating (setOperation oid f)) (\<lambda>_. ?P)" for f
    by (auto simp: ensures_def updating_def setOperation_def runKeys_def)
  have all: "ensures (\<lambda>e. e = d) (andThen (startRetry env u now oper) (\<lambda>r.
      andThen (updating (setOperation oid (f r))) (\<lambda>_.
      andThen (appendRunningEvent env u now t r) (\<lambda>_. returns (k r))))) (\<lambda>_. ?P)" for f t k
    by (rule ensures_andThen [OF retry], rule ensures_assume [where C = True], simp,
        rule ensures_weaken [where P = ?P and Q = "\<lambda>_. ?P"],
        intro ensures_andThen [OF set] ensures_andThen [OF running] ensures_returns) auto
  have "?P d1"
    using assms(1-3) by (auto simp: claimNext_def transact_def returns_apply claimable_def dest!: ensuresD [OF all refl]
        split: option.splits sum.splits if_splits prod.splits)
  then show "rid \<notin> runId ` set (agentRuns d)" "(rid, oid) \<in> set (runKeys d1)" "eventsOf rid (eventRows d1) \<noteq> []"
    by simp_all
qed

text \<open>
  Once a failed attempt of a task has been retried, the owner's private data can never be
  purged again: whatever operations follow, every purge is rolled back with an error, because it leaves the
  events of the earlier run behind, which still reference their run.
\<close>

theorem retried_task_never_purged:
  assumes "(store_step env)\<^sup>*\<^sup>* emptyDatabase d" and "operationOf d oid = Some oper" and "ownedBy d owner oper"
    and "opState oper = task_row_state.FAILED_RETRYABLE" and "\<exists>e \<in> set (eventRows d). evRun e = opRun oper"
    and "claimNext env u now oid worker lease d = (Inr (CLAIMED c), d1)" and "(task_step env)\<^sup>*\<^sup>* d1 d2"
  shows "purgePrivateDataForOwner env' owner d2 = (Inl PersistenceUnavailableError, d2)"
proof -
  define new where "new = ''agent-run-'' @ u 0"
  note retry = claimNext_retry [OF assms(2,4,6), folded new_def]
  have inv: "storeInv d" using assms(1) by (rule reachable_storeInv)
  have oper: "oper \<in> set (operations d)" "opId oper = oid" using operationOfD [OF assms(2)] by simp_all
  have step: "evolves d d1" using claimNext_evolves [OF inv, of env u now oid worker lease] assms(6) by simp
  have later: "evolves d1 d2" using task_steps_evolve [OF assms(7) evolvesD [OF step]] .
  then have all: "evolves d d2" by (rule evolves_trans [OF step])
  have old: "(opRun oper, oid) \<in> set (runKeys d)" using inv_keys(1) [OF inv oper(1)] oper(2) by simp
  then have "opRun oper \<noteq> new" using retry(1) by (auto simp: runKeys_def)
  moreover have "(opRun oper, oid) \<in> set (runKeys d2)" "(new, oid) \<in> set (runKeys d2)"
    using old retry(2) all later by (auto simp: evolves_def)
  moreover have "eventsOf (opRun oper) (eventRows d2) \<noteq> []" "eventsOf new (eventRows d2) \<noteq> []"
    using assms(5) evolves_events [OF all] evolves_events [OF later retry(3)]
    by (auto simp: eventsOf_def filter_empty_conv)
  moreover obtain q where q: "q \<in> set (operations d2)" "opId q = oid"
    using all oper by (force simp: evolves_def opKeys_def)
  moreover have "ownedBy d2 owner q" using evolves_owner [OF all oper(1) assms(3) q(1)] q(2) oper(2) by simp
  ultimately show ?thesis using purge_two_runs [OF evolvesD [OF all]] by metis
qed


section \<open>Submitting again\<close>

lemma transact_Inr: "transact m d = (Inr a, d') \<longleftrightarrow> m d = Inr (a, d')"
  by (auto simp: transact_def split: sum.splits prod.splits)

text \<open>
  Submitting a request again, with the same command and by its owner, after its operation has
  completed is not answered with the task, as the repetition of an unfinished request is, but fails with
  the error that stands for an unavailable database.
\<close>

theorem completed_resubmission_unavailable:
  assumes "existingSubmission d (execute_command.executionRequestId cmd) = Some (s, oper)" and "subOwner s = owner"
    and "canonicalize (stStringify env) (stCommandJson env cmd) = Some text" and "subFingerprint s = stSha256 env text"
  shows "submit env u now cmd owner d = (case toTaskSnapshot env oper of
      Some t \<Rightarrow> (Inr t, d) | None \<Rightarrow> (Inl PersistenceUnavailableError, d))
    \<and> (opState oper = task_row_state.COMPLETED \<longrightarrow> submit env u now cmd owner d = (Inl PersistenceUnavailableError, d))"
  using assms
  by (auto simp: submit_def transact_def submitInTransaction_def answer_simps toTaskSnapshot_def split: option.split)

text \<open>The rows of a new submission.\<close>

lemma submit_new:
  assumes "submit env u now cmd owner d = (Inr t, d')"
    and "existingSubmission d (execute_command.executionRequestId cmd) = None"
    and "canonicalize (stStringify env) (stCommandJson env cmd) = Some text"
  shows "insertSubmission env u now cmd owner (stSha256 env text) d = Inr (t, d')"
  using assms by (simp add: submit_def transact_Inr submitInTransaction_def)

lemma insertRunEvent_tables:
  "insertRunEvent env ev now d = Inr (a, d') \<Longrightarrow> submissions d' = submissions d \<and> operations d' = operations d"
  by (auto simp: insertRunEvent_def inserting_def split: if_splits)

lemma submitted_rows:
  assumes "insertSubmission env u now cmd owner fp d = Inr (t, d')"
  defines "reqId \<equiv> execute_command.executionRequestId cmd"
  shows "\<exists>s oper. submissions d' = submissions d @ [s] \<and> subRequestId s = reqId \<and> subOwner s = owner \<and> subFingerprint s = fp
      \<and> operations d' = operations d @ [oper] \<and> opRequestId oper = reqId \<and> opState oper = task_row_state.ACCEPTED
      \<and> toTaskSnapshot env oper = Some t"
    and "reqId \<notin> subRequestId ` set (submissions d)" and "reqId \<notin> opRequestId ` set (operations d)"
  using assms
  by (auto simp: insertSubmission_def Let_def andThen_def inserting_def returns_def toTaskSnapshot_def snapshotOfRow_def
      split: if_splits sum.splits prod.splits dest!: insertRunEvent_tables)

lemma find_new: "(\<And>x. x \<in> set xs \<Longrightarrow> \<not> p x) \<Longrightarrow> p y \<Longrightarrow> find p (xs @ [y]) = Some y"
  by (induction xs) auto


end
