(* ===== verification/CM_Task_Leases.thy ===== *)
theory CM_Task_Leases
  imports CM_Task_Properties
begin

text \<open>
  Leases: an operation is executed by one worker at a time, a run is driven by one controller at a time,
  and a message is acknowledged only when its operation need not be executed again.
\<close>

section \<open>Claiming an operation\<close>

lemma find_updateWhere:
  "(\<And>x. p (f x) = p x) \<Longrightarrow> find p (updateWhere p f xs) = map_option f (find p xs)"
  by (induction xs) (auto simp: updateWhere_def)

lemma operations_kept:
  "insertRunEvent env ev now d = Inr (a, d') \<Longrightarrow> submissions d' = submissions d \<and> operations d' = operations d"
  "startRetry env u now oper d = Inr (b, d') \<Longrightarrow> submissions d' = submissions d \<and> operations d' = operations d"
  "appendRunningEvent env u now t r d = Inr (e, d') \<Longrightarrow> submissions d' = submissions d \<and> operations d' = operations d"
  by (auto simp: insertRunEvent_def startRetry_def appendRunningEvent_def loadRunEvents_def andThen_def inserting_def
      returns_def Let_def split: if_splits sum.splits prod.splits option.splits)

text \<open>What a claim does to the tables of operations and submissions.\<close>

definition claimedRow :: "ident \<Rightarrow> ident \<Rightarrow> int \<Rightarrow> int \<Rightarrow> operation_row \<Rightarrow> operation_row" where
  "claimedRow rid worker now lease = (\<lambda>q. q\<lparr>opRun := rid, opState := task_row_state.RUNNING, opWorker := Some worker,
     opLease := Some (now + lease), opUpdatedAt := now\<rparr>)"

lemma claimNext_claimed:
  assumes "claimNext env u now oid worker lease d = (Inr (CLAIMED c), d1)"
  obtains oper sub where "operationOf d oid = Some oper" and "submissionOf d oper = Some sub" and "claimable now oper"
    and "tcOwner c = subOwner sub" and "tcOperation c = oid"
    and "operations d1 = updateWhere (\<lambda>q. opId q = oid) (claimedRow (tcRun c) worker now lease) (operations d)"
    and "submissions d1 = submissions d"
proof -
  have "\<exists>oper sub. operationOf d oid = Some oper \<and> submissionOf d oper = Some sub \<and> claimable now oper
      \<and> tcOwner c = subOwner sub \<and> tcOperation c = oid
      \<and> operations d1 = updateWhere (\<lambda>q. opId q = oid) (claimedRow (tcRun c) worker now lease) (operations d)
      \<and> submissions d1 = submissions d"
    using assms
    by (auto simp: claimNext_def transact_Inr returns_def andThen_def updating_def setOperation_def claimedRow_def
        split: option.splits sum.splits if_splits prod.splits dest!: operations_kept)
  then show thesis using that by blast
qed

lemma operationOf_claimed:
  assumes "operations d1 = updateWhere (\<lambda>q. opId q = oid) (claimedRow rid worker now lease) (operations d)"
    and "operationOf d oid = Some oper"
  shows "operationOf d1 oid = Some (claimedRow rid worker now lease oper)"
  using assms by (simp add: operationOf_def find_updateWhere claimedRow_def)

lemma claimed_worker:
  assumes "q \<in> set (updateWhere (\<lambda>q. opId q = oid) (claimedRow rid worker now lease) ops)" and "opId q = oid"
  shows "opWorker q = Some worker"
proof -
  from assms(1) obtain r where "r \<in> set ops" and q: "q = (if opId r = oid then claimedRow rid worker now lease r else r)"
    by (auto simp: updateWhere_def)
  with assms(2) show ?thesis by (cases "opId r = oid") (simp_all add: claimedRow_def)
qed


lemma persisting_keeps_requests:
  "persistOutcome env u now o' row d = Inr (a, d') \<Longrightarrow> controlRequests d' = controlRequests d"
proof -
  let ?P = "\<lambda>e. controlRequests e = controlRequests d"
  have event: "ensures ?P (insertRunEvent env ev now) (\<lambda>_. ?P)" for ev
    by (auto simp: ensures_def insertRunEvent_def inserting_def)
  have events: "ensures ?P (insertRunEvents env now evs) (\<lambda>_. ?P)" for evs
    unfolding insertRunEvents_def by (rule ensures_forAll) (rule event)
  have load: "ensures ?P (loadRunEvents env t r) (\<lambda>_. ?P)" for t r
    by (auto simp: ensures_def loadRunEvents_def split: option.split)
  have update: "ensures ?P (updating (setOperation oid f)) (\<lambda>_. ?P)" for oid f
    by (auto simp: ensures_def updating_def setOperation_def)
  have store: "ensures ?P (storeOutcome env oid v t) (\<lambda>_. ?P)" for oid v t
    unfolding storeOutcome_def by (auto intro!: ensures_andThen [OF update] ensures_returns split: option.split)
  have result: "ensures ?P (persistResultRunEvents env u now row r) (\<lambda>_. ?P)" for r
    unfolding persistResultRunEvents_def Let_def
    by (rule ensures_andThen [OF load]) (auto intro!: ensures_andThen [OF events] ensures_returns split: option.split)
  have paused: "ensures ?P (persistPausedRunEvents env u now row p) (\<lambda>_. ?P)" for p
    unfolding persistPausedRunEvents_def Let_def
    by (rule ensures_andThen [OF load]) (auto intro!: ensures_andThen [OF events] ensures_returns split: sum.split)
  have "ensures ?P (persistOutcome env u now o' row) (\<lambda>_. ?P)"
    unfolding persistOutcome_def
    by (auto intro!: ensures_andThen [OF result] ensures_andThen [OF paused] ensures_andThen [OF store]
        ensures_andThen [OF load] ensures_andThen [OF event] ensures_andThen [OF ensures_snapshotTx] ensures_returns
        ensures_snapshotTx split: execution_outcome.split option.split)
  then show "persistOutcome env u now o' row d = Inr (a, d') \<Longrightarrow> ?thesis"
    by (rule ensuresD) simp
qed

text \<open>
  C19: only the worker that holds the unexpired lease of a running operation can complete it: whenever a
  completion changes anything, the operation was running for this worker, its lease had not expired, the
  outcome named its run and task or none, and the control request it names was this worker's.
\<close>

theorem complete_needs_lease:
  assumes "complete env u now oid worker out control d = (r, d')" and "d' \<noteq> d"
  shows "\<exists>oper \<in> set (operations d). \<exists>o' l. opId oper = oid \<and> opState oper = task_row_state.RUNNING
    \<and> opWorker oper = Some worker \<and> opLease oper = Some l \<and> now \<le> l
    \<and> decodePersistentOutcome env out = Some o' \<and> doRun o' \<in> {None, Some (opRun oper)} \<and> doTask o' \<in> {None, Some (opTask oper)}
    \<and> (case control of None \<Rightarrow> True | Some cid \<Rightarrow> \<exists>q \<in> set (controlRequests d). completesRequest cid oid worker q)"
proof -
  obtain o' where o': "decodePersistentOutcome env out = Some o'" and tx: "transact (completeTx env u now oid worker o' control) d = (r, d')"
    using assms by (auto simp: complete_def split: option.splits)
  obtain c where c: "completeTx env u now oid worker o' control d = Inr (c, d')"
    using tx assms(2) by (auto simp: transact_def split: sum.splits)
  obtain oper where oper: "find (completable now oid worker o' d) (operations d) = Some oper"
    using c assms(2) by (auto simp: completeTx_def returns_apply split: option.splits)
  have row: "oper \<in> set (operations d)" "completable now oid worker o' d oper" using find_mem [OF oper] by simp_all
  have "\<exists>q \<in> set (controlRequests d). completesRequest cid oid worker q" if "control = Some cid" for cid
  proof -
    from c oper that assms(2) obtain c' d1 where persisted:
        "persistOutcome env u now o' (completedRow env now o' oper) (setOperation oid (completedRow env now o') d) = Inr (c', d1)"
      and "list_ex (completesRequest cid oid worker) (controlRequests d1)"
      by (auto simp: completeTx_def andThen_def updating_def returns_apply split: sum.splits if_splits)
    then show ?thesis
      using persisting_keeps_requests [OF persisted] by (auto simp: list_ex_iff setOperation_def)
  qed
  then have "case control of None \<Rightarrow> True | Some cid \<Rightarrow> \<exists>q \<in> set (controlRequests d). completesRequest cid oid worker q"
    by (cases control) simp_all
  with row o' show ?thesis unfolding completable_def by (intro bexI [of _ oper]) (auto split: option.splits)
qed

section \<open>One controller\<close>

lemma controlRow_set:
  "(\<And>r. csRun (f r) = csRun r) \<Longrightarrow> controlRow rid (setControlRow rid f d) = map_option f (controlRow rid d)"
  by (simp add: controlRow_def setControlRow_def find_updateWhere)

text \<open>
  A run that a controller has acquired for resuming is its alone until the lease ends: another controller
  is told that the run is busy, or denied, cannot record it as its own, and cannot complete it.
\<close>

theorem one_controller:
  assumes "claimRuntimeResume now rid sid controller lease d = (Inr cl, d1)" and "claimStatus cl = ACQUIRED"
    and "controller' \<noteq> controller" and "now' < now + lease"
  shows "claimRuntimeResume now' rid sid' controller' lease' d1
      = (Inr \<lparr>claimStatus = (if sid' = sid then BUSY else DENIED), claimState = runtime_control_state.RUNNING,
              claimEvents = JArr []\<rparr>, d1)
    \<and> recordRuntimeRunning now' rid controller' lease' d1 = (Inl PersistenceUnavailableError, d1)
    \<and> snd (completeRuntimeControl env now' rid controller' expected nxt st evs d1) = d1"
proof -
  define f :: "control_state_row \<Rightarrow> control_state_row" where "f = (\<lambda>r. r\<lparr>csState := runtime_control_state.RUNNING, csEvents := JArr [], csController := Some controller,
     csLease := Some (now + lease), csUpdatedAt := now\<rparr>)"
  from assms(1,2) obtain r where r: "controlRow rid d = Some r" "csSnapshot r = Some sid" "d1 = setControlRow rid f d"
    by (auto simp: claimRuntimeResume_def updateRuntimeControlState_def transact_Inr answerFromRow_def answer_simps
        andThen_def updating_def f_def split: option.splits if_splits)
  then have row: "controlRow rid d1 = Some (f r)" by (simp add: controlRow_set f_def)
  have resume: "claimRuntimeResume now' rid sid' controller' lease' d1
      = (Inr \<lparr>claimStatus = (if sid' = sid then BUSY else DENIED), claimState = runtime_control_state.RUNNING,
              claimEvents = JArr []\<rparr>, d1)"
    using row r(2) assms(3,4)
    by (auto simp: claimRuntimeResume_def updateRuntimeControlState_def transact_Inr answerFromRow_def returns_apply f_def
        isArray_def)
  have "recordRuntimeRunning now' rid controller' lease' d1 = (Inl PersistenceUnavailableError, d1)"
    using row r(2) assms(3) by (auto simp: recordRuntimeRunning_def f_def)
  moreover have "snd (completeRuntimeControl env now' rid controller' expected nxt st evs d1) = d1"
    using row assms(3) by (auto simp: completeRuntimeControl_def f_def)
  ultimately show ?thesis using resume by blast
qed

section \<open>Acknowledging\<close>



end
