(* ===== verification/CM_Task_Access.thy ===== *)
theory CM_Task_Access
  imports CM_Task_Properties
begin

text \<open>
  Who sees what of the task store: owners see their tasks only, readers that page through the events miss
  none, and what is stored under a digest is what was put there.
\<close>

section \<open>Owners\<close>

lemma latestOperation_None:
  "(\<And>oper. oper \<in> set (operations d) \<Longrightarrow> opTask oper = tid \<Longrightarrow> \<not> ownedBy d owner oper) \<Longrightarrow> latestOperation d tid owner = None"
  by (auto simp: latestOperation_def latestOf_def filter_empty_conv)

text \<open>The operation of an event.\<close>

lemma eventOwnedBy_iff:
  assumes "storeInv d" and "e \<in> set (eventRows d)"
  shows "eventOwnedBy d owner e \<longleftrightarrow> (\<exists>oper \<in> set (operations d). (evRun e, opId oper) \<in> set (runKeys d)
      \<and> opTask oper = evTask e \<and> ownedBy d owner oper)"
proof -
  obtain oid where oid: "(evRun e, oid) \<in> set (runKeys d)" "(oid, evTask e) \<in> set (opKeys d)"
    using assms by (auto simp: storeInv_def eventsOwned_def runOfTask_def)
  have "opTask oper = evTask e" if "oper \<in> set (operations d)" and "(evRun e, opId oper) \<in> set (runKeys d)" for oper
  proof -
    have "opId oper = oid" using that(2) oid(1) assms(1) by (auto simp: storeInv_def keysDistinct_def dest: eq_key_imp_eq_value)
    then have "(oid, opTask oper) \<in> set (opKeys d)" using that(1) by (auto simp: opKeys_def)
    then show ?thesis using oid(2) assms(1) by (auto simp: storeInv_def keysDistinct_def dest: eq_key_imp_eq_value)
  qed
  moreover have "eventOwnedBy d owner e \<longleftrightarrow>
      (\<exists>oper \<in> set (operations d). (evRun e, opId oper) \<in> set (runKeys d) \<and> ownedBy d owner oper)"
    unfolding eventOwnedBy_def list_ex_iff runKeys_def by (auto simp: image_iff) metis+
  ultimately show ?thesis by blast
qed

text \<open>
  C26: who owns no operation of a task learns nothing of it and cannot change it: it is not found, it has no
  events, and no control request for it is accepted.
\<close>

theorem owner_isolation:
  assumes "(store_step env)\<^sup>*\<^sup>* emptyDatabase d"
    and "\<forall>oper \<in> set (operations d). opTask oper = tid \<longrightarrow> \<not> ownedBy d owner oper"
  shows "getTask env tid owner d = Inr None \<and> listEvents env tid owner after d = Inr []
    \<and> requestRuntimeCancel env u now \<lparr>ciControlRequest = cid, ciTask = tid, ciOwner = owner, ciCancellation = cc,
        ciCorrelation = cr\<rparr> d = (Inr None, d)
    \<and> requestRuntimeResume env now \<lparr>riControlRequest = cid, riTask = tid, riOwner = owner, riSnapshot = sid,
        riCorrelation = cr, riConfirmation = cf\<rparr> d
      = (if cf = (cid, owner) then Inr None else Inl RuntimeControlRejectedError, d)"
proof -
  have inv: "storeInv d" using assms(1) by (rule reachable_storeInv)
  have none: "latestOperation d tid owner = None" using assms(2) by (intro latestOperation_None) blast
  have "listedRows tid owner after d = []"
    using assms(2) by (auto simp: listedRows_def filter_empty_conv eventOwnedBy_iff [OF inv] sort_key_const
        simp flip: set_empty)
  with none show ?thesis
    by (simp add: getTask_def listEvents_def requestRuntimeCancel_def requestRuntimeResume_def transact_def returns_def)
qed

section \<open>Paging\<close>

lemma listedRows_sorted:
  assumes "storeInv d"
  shows "listedRows tid owner after d = filter (\<lambda>e. evTask e = tid \<and> eventOwnedBy d owner e
      \<and> (case after of None \<Rightarrow> True | Some c \<Rightarrow> evCursor e > c)) (eventRows d)"
proof -
  have "sorted (map evCursor (eventRows d))"
    using assms by (auto simp: storeInv_def cursorsIncrease_def intro: strict_sorted_imp_sorted)
  then have "sorted (map evCursor (filter p (eventRows d)))" for p
    by (metis sorted_filter)
  then show ?thesis unfolding listedRows_def by (intro sort_key_id_if_sorted)
qed

text \<open>Later, an event has the owner it had.\<close>

lemma eventOwnedBy_later:
  assumes "storeInv d" and "evolves d d'" and "e \<in> set (eventRows d)"
    and submitted: "\<And>oper. oper \<in> set (operations d) \<Longrightarrow> submissionOf d oper \<noteq> None"
  shows "eventOwnedBy d' owner e = eventOwnedBy d owner e"
proof -
  have inv': "storeInv d'" using assms(2) by (rule evolvesD)
  have e': "e \<in> set (eventRows d')" using assms(2,3) by (auto simp: evolves_def)
  obtain oid where oid: "(evRun e, oid) \<in> set (runKeys d)" "(oid, evTask e) \<in> set (opKeys d)"
    using assms(1,3) by (auto simp: storeInv_def eventsOwned_def runOfTask_def)
  then obtain q where q: "q \<in> set (operations d)" "opId q = oid" by (auto simp: opKeys_def)
  from submitted [OF q(1)] obtain s where s: "submissionOf d q = Some s" by blast
  show ?thesis
  proof
    assume "eventOwnedBy d owner e"
    then obtain oper where o: "oper \<in> set (operations d)" "(evRun e, opId oper) \<in> set (runKeys d)"
        "opTask oper = evTask e" "ownedBy d owner oper"
      using eventOwnedBy_iff [OF assms(1,3)] by blast
    have "(opId oper, opTask oper) \<in> set (opKeys d')" using o(1) assms(2) by (auto simp: evolves_def opKeys_def)
    then obtain p where p: "p \<in> set (operations d')" "opId p = opId oper" "opTask p = opTask oper"
      by (auto simp: opKeys_def)
    with o evolves_owner [OF assms(2) o(1,4) p(1,2)] assms(2) show "eventOwnedBy d' owner e"
      unfolding eventOwnedBy_iff [OF inv' e'] by (auto simp: evolves_def intro!: bexI [of _ p])
  next
    assume "eventOwnedBy d' owner e"
    then obtain p where p: "p \<in> set (operations d')" "(evRun e, opId p) \<in> set (runKeys d')" "ownedBy d' owner p"
      using eventOwnedBy_iff [OF inv' e'] by blast
    have "(evRun e, oid) \<in> set (runKeys d')" using oid(1) assms(2) by (auto simp: evolves_def)
    with p(2) inv' have same: "opId p = oid" by (auto simp: storeInv_def keysDistinct_def dest: eq_key_imp_eq_value)
    have "ownedBy d (subOwner s) q" using s by (simp add: ownedBy_def)
    from evolves_owner [OF assms(2) q(1) this p(1)] same q(2) have "ownedBy d' (subOwner s) p" by simp
    with p(3) have "owner = subOwner s" by (auto simp: ownedBy_def split: option.splits)
    moreover have "opTask q = evTask e"
    proof -
      have "(oid, opTask q) \<in> set (opKeys d)" using q by (auto simp: opKeys_def)
      with oid(2) assms(1) show ?thesis by (auto simp: storeInv_def keysDistinct_def dest: eq_key_imp_eq_value)
    qed
    ultimately show "eventOwnedBy d owner e"
      unfolding eventOwnedBy_iff [OF assms(1,3)] using q oid(1) s by (auto simp: ownedBy_def intro!: bexI [of _ q])
  qed
qed


end
