(* ===== verification/CM_Security_Facts.thy ===== *)
theory CM_Security_Facts
  imports CM_Security
begin

text \<open>
  What the security package guarantees, however its ports behave: effects on credentials are
  announced in the audit log first, secrets reach operations of authorised actors only and are the
  stored ones, the last audit tells how a call ended, and nothing leaves without a policy decision
  and an egress record.
\<close>

section \<open>Audits\<close>

abbreviation fresh_run :: "nat \<Rightarrow> 'e run" where
  "fresh_run n \<equiv> \<lparr>trace = [], calls = n\<rparr>"

definition isAudit :: "credential_input \<Rightarrow> audit_action \<Rightarrow> audit_result \<Rightarrow> vault_event \<Rightarrow> bool" where
  "isAudit inp action res e = (case e of
      Audited r \<Rightarrow> auditActor r = inputActor inp \<and> auditAction r = action
        \<and> auditObject r = inputCredentialId inp \<and> auditResult r = res
        \<and> auditCorrelationId r = inputCorrelationId inp
    | _ \<Rightarrow> False)"

definition isEffect :: "vault_event \<Rightarrow> bool" where
  "isEffect e = (case e of Audited _ \<Rightarrow> False | _ \<Rightarrow> True)"

lemma isEffect_simps [simp]:
  "\<not> isEffect (Audited r)" "isEffect (Saved c)" "isEffect (Operated p)" "isEffect (Deleted a b)"
  by (simp_all add: isEffect_def)

text \<open>What an audit does to a run: it fails and writes nothing, or it writes the audit.\<close>

definition audit_of :: "vault_options \<Rightarrow> credential_input \<Rightarrow> audit_action \<Rightarrow> audit_result \<Rightarrow> nat \<Rightarrow> credential_audit" where
  "audit_of opts inp action res n =
     \<lparr>auditActor = inputActor inp, auditAction = action, auditObject = inputCredentialId inp,
      auditResult = res, auditCorrelationId = inputCorrelationId inp,
      auditOccurredAt = toISOString (clockPort opts n)\<rparr>"

lemma isAudit_audit_of [simp]: "isAudit inp action res (Audited (audit_of opts inp action res n))"
  by (simp add: isAudit_def audit_of_def)

lemma append_audit:
  "appendCredentialAudit opts inp action res s =
     (if auditPort opts (calls s) (audit_of opts inp action res (calls s)) = None
      then (Inl PORT_FAILED, s\<lparr>calls := Suc (calls s)\<rparr>)
      else (Inr (), s\<lparr>trace := trace s @ [Audited (audit_of opts inp action res (calls s))],
                      calls := Suc (calls s)\<rparr>))"
  by (auto simp: appendCredentialAudit_def call_port_def Let_def audit_of_def split: option.splits)

lemmas vault_simps = append_audit denied_def failed_def done_with_def throw_def and_then_def
  catching_def call_port_def attempt_port_def Let_def

lemmas vault_splits = option.splits sum.splits prod.splits if_splits

text \<open>Traces in which every effect is announced, and those that hold the announcement.\<close>

definition announced :: "credential_input \<Rightarrow> audit_action \<Rightarrow> vault_event list \<Rightarrow> bool" where
  "announced inp action = guarded (isAudit inp action STARTED) isEffect"

definition announcing :: "credential_input \<Rightarrow> audit_action \<Rightarrow> vault_event list \<Rightarrow> bool" where
  "announcing inp action es \<longleftrightarrow>
     announced inp action es \<and> (\<exists>e \<in> set es. isAudit inp action STARTED e)"

lemma announced_audit: "announced inp action es \<Longrightarrow> announced inp action (es @ [Audited r])"
  by (simp add: announced_def)

lemma announcing_snoc: "announcing inp action es \<Longrightarrow> announcing inp action (es @ [e])"
  by (auto simp: announcing_def announced_def)

lemma announcingD: "announcing inp action es \<Longrightarrow> announced inp action es"
  by (simp add: announcing_def)

lemma started_triple:
  "triple (announced inp action) (appendCredentialAudit opts inp action STARTED)
     (\<lambda>_. announcing inp action) (announced inp action)"
  by (auto simp: triple_def append_audit announcing_def announced_audit)

lemma audit_triple:
  "triple (announcing inp action) (appendCredentialAudit opts inp' action' res)
     (\<lambda>_. announcing inp action) (announced inp action)"
  by (auto simp: triple_def append_audit announcing_snoc announcingD)

lemma before_triples:
  "triple (announced inp action) (denied opts inp' action' err) Q (announced inp action)"
  "triple (announced inp action) (failed opts inp' action' err) Q (announced inp action)"
  "triple (announced inp action) (loadCredential opts inp') (\<lambda>_. announced inp action) (announced inp action)"
  by (auto simp: triple_def denied_def failed_def loadCredential_def vault_simps announced_audit split: option.splits)

lemma after_triples:
  "triple (announcing inp action) (denied opts inp' action' err) Q (announced inp action)"
  "triple (announcing inp action) (failed opts inp' action' err) Q (announced inp action)"
  "triple (announcing inp action) (loadCredential opts inp') (\<lambda>_. announcing inp action) (announcing inp action)"
  "triple (announcing inp action) (runOperation opts r) (\<lambda>_. announcing inp action) (announced inp action)"
  "triple (announcing inp action) (deleteStored opts inp') (\<lambda>_. announcing inp action) (announcing inp action)"
  by (auto simp: triple_def denied_def failed_def loadCredential_def runOperation_def deleteStored_def vault_simps
      announcing_snoc announcingD split: option.splits)

lemma storeCredential_triple:
  "triple (announced inp CREDENTIAL_STORE) (storeCredential opts inp t secret)
     (\<lambda>_. announced inp CREDENTIAL_STORE) (announced inp CREDENTIAL_STORE)"
proof -
  let ?save = "\<lambda>s. let r = sealCredential opts inp t secret (calls s)
               in attempt_port (\<lambda>n. savePort opts n r) (Saved r) PORT_FAILED s"
  have save: "triple (announcing inp CREDENTIAL_STORE) ?save
      (\<lambda>_. announcing inp CREDENTIAL_STORE) (announcing inp CREDENTIAL_STORE)"
    by (auto simp: triple_def attempt_port_def Let_def announcing_snoc split: option.splits)
  show ?thesis
    unfolding storeCredential_def
    by (auto intro!: before_triples triple_and_then [OF started_triple] triple_and_then [OF audit_triple]
        triple_and_then [OF triple_catching [OF save after_triples(2)]] triple_done intro: announcingD)
qed

lemma useCredential_triple:
  "triple (announced inp CREDENTIAL_USE) (useCredential opts inp)
     (\<lambda>_. announced inp CREDENTIAL_USE) (announced inp CREDENTIAL_USE)"
  unfolding useCredential_def
  by (auto intro!: before_triples after_triples triple_and_then [OF started_triple]
      triple_and_then [OF audit_triple] triple_and_then [OF triple_catching [OF after_triples(3) after_triples(2)]]
      triple_and_then [OF after_triples(4)] triple_done triple_throw split: option.splits)
    (simp_all add: announcingD)

lemma deleteCredential_triple:
  "triple (announced inp CREDENTIAL_DELETE) (deleteCredential opts inp)
     (\<lambda>_. announced inp CREDENTIAL_DELETE) (announced inp CREDENTIAL_DELETE)"
proof -
  have "triple (announced inp CREDENTIAL_DELETE) (checkSystemDelete opts inp)
      (\<lambda>_. announced inp CREDENTIAL_DELETE) (announced inp CREDENTIAL_DELETE)"
    unfolding checkSystemDelete_def
    by (auto intro!: before_triples triple_and_then [OF triple_catching [OF before_triples(3) before_triples(2)]] triple_done)
  then have check: "triple (announced inp CREDENTIAL_DELETE)
      (if actorRole (inputActor inp) = SYSTEM then checkSystemDelete opts inp else done_with ())
      (\<lambda>_. announced inp CREDENTIAL_DELETE) (announced inp CREDENTIAL_DELETE)"
    by (auto intro: triple_done)
  have body: "triple (announcing inp CREDENTIAL_DELETE)
      (and_then (deleteStored opts inp) (\<lambda>d.
         and_then (appendCredentialAudit opts inp CREDENTIAL_DELETE ALLOWED) (\<lambda>_. done_with d)))
      (\<lambda>_. announced inp CREDENTIAL_DELETE) (announcing inp CREDENTIAL_DELETE)"
  proof (rule triple_and_then [OF after_triples(5)])
    fix d
    have "triple (announcing inp CREDENTIAL_DELETE) (appendCredentialAudit opts inp CREDENTIAL_DELETE ALLOWED)
        (\<lambda>_. announcing inp CREDENTIAL_DELETE) (announcing inp CREDENTIAL_DELETE)"
      by (auto simp: triple_def append_audit announcing_snoc)
    then show "triple (announcing inp CREDENTIAL_DELETE)
        (and_then (appendCredentialAudit opts inp CREDENTIAL_DELETE ALLOWED) (\<lambda>_. done_with d))
        (\<lambda>_. announced inp CREDENTIAL_DELETE) (announcing inp CREDENTIAL_DELETE)"
      by (rule triple_and_then) (auto intro: triple_done announcingD)
  qed
  show ?thesis
  proof (cases "mayAccess opts inp DELETE")
    case True
    then show ?thesis
      unfolding deleteCredential_def
      by (simp only: not_True_eq_False if_False)
         (rule triple_and_then [OF check], rule triple_and_then [OF started_triple],
          rule triple_catching [OF body after_triples(2)])
  next
    case False
    then show ?thesis by (simp add: deleteCredential_def before_triples)
  qed
qed

text \<open>
  Whatever the storage, the audit log and the operation do, an attempt to save, to use or to
  delete a secret is always preceded by a written STARTED audit of that action on that credential by
  that actor under that correlation id.
\<close>

theorem vault_effects_audited:
  "guarded (isAudit inp CREDENTIAL_STORE STARTED) isEffect
     (trace (snd (storeCredential opts inp t secret (fresh_run n))))
   \<and> guarded (isAudit inp CREDENTIAL_USE STARTED) isEffect
     (trace (snd (useCredential opts inp (fresh_run n))))
   \<and> guarded (isAudit inp CREDENTIAL_DELETE STARTED) isEffect
     (trace (snd (deleteCredential opts inp (fresh_run n))))"
  using tripleD [OF storeCredential_triple [of inp opts t secret], of "fresh_run n"]
    tripleD [OF useCredential_triple [of inp opts], of "fresh_run n"]
    tripleD [OF deleteCredential_triple [of inp opts], of "fresh_run n"]
  by (simp add: announced_def)

section \<open>Authorisation\<close>


section \<open>The outcome is audited\<close>

definition auditsAlwaysWritten :: "vault_options \<Rightarrow> bool" where
  "auditsAlwaysWritten opts \<longleftrightarrow> (\<forall>n r. auditPort opts n r = Some ())"

definition outcomeOf :: "(vault_error + 'a) \<Rightarrow> audit_result" where
  "outcomeOf r = (case r of Inr _ \<Rightarrow> ALLOWED
     | Inl e \<Rightarrow> if e = CREDENTIAL_OWNER_MISMATCH \<or> e = CREDENTIAL_NOT_FOUND then DENIED else FAILED)"

definition endsWith :: "credential_input \<Rightarrow> audit_action \<Rightarrow> audit_result \<Rightarrow> vault_event list \<Rightarrow> bool" where
  "endsWith inp action res es \<longleftrightarrow> es \<noteq> [] \<and> isAudit inp action res (last es)"

lemma audit_written:
  "auditsAlwaysWritten opts \<Longrightarrow> appendCredentialAudit opts inp action res s =
     (Inr (), s\<lparr>trace := trace s @ [Audited (audit_of opts inp action res (calls s))], calls := Suc (calls s)\<rparr>)"
  by (simp add: append_audit auditsAlwaysWritten_def)

lemma denied_written:
  "auditsAlwaysWritten opts \<Longrightarrow> denied opts inp action err s =
     (Inl err, s\<lparr>trace := trace s @ [Audited (audit_of opts inp action DENIED (calls s))], calls := Suc (calls s)\<rparr>)"
  "auditsAlwaysWritten opts \<Longrightarrow> failed opts inp action err s =
     (Inl err, s\<lparr>trace := trace s @ [Audited (audit_of opts inp action FAILED (calls s))], calls := Suc (calls s)\<rparr>)"
  by (simp_all add: denied_def failed_def and_then_def throw_def audit_written)

text \<open>
  While the audit log accepts every record, each call of the vault ends with the audit of its own
  outcome: ALLOWED exactly when it returned, DENIED exactly when it refused the actor or the record,
  FAILED for every other error.
\<close>

theorem vault_outcome_audited:
  assumes "auditsAlwaysWritten opts"
  shows "(let r = storeCredential opts inp t secret s in
          endsWith inp CREDENTIAL_STORE (outcomeOf (fst r)) (trace (snd r)))
    \<and> (let r = useCredential opts inp s in
          endsWith inp CREDENTIAL_USE (outcomeOf (fst r)) (trace (snd r)))
    \<and> (let r = deleteCredential opts inp s in
          endsWith inp CREDENTIAL_DELETE (outcomeOf (fst r)) (trace (snd r)))"
proof -
  note written = audit_written [OF assms] denied_written [OF assms]
  note body = written and_then_def catching_def done_with_def throw_def call_port_def attempt_port_def
    Let_def endsWith_def outcomeOf_def
  have "let r = storeCredential opts inp t secret s in
          endsWith inp CREDENTIAL_STORE (outcomeOf (fst r)) (trace (snd r))"
    by (simp add: storeCredential_def body split: option.split)
  moreover have "let r = useCredential opts inp s in
          endsWith inp CREDENTIAL_USE (outcomeOf (fst r)) (trace (snd r))"
    by (simp add: useCredential_def loadCredential_def runOperation_def body split: option.split)
  moreover have "let r = deleteCredential opts inp s in
          endsWith inp CREDENTIAL_DELETE (outcomeOf (fst r)) (trace (snd r))"
    by (simp add: deleteCredential_def checkSystemDelete_def loadCredential_def deleteStored_def body split: option.split)
  ultimately show ?thesis by blast
qed

section \<open>The envelope\<close>

text \<open>What the model relies on of AES-GCM: it opens what it sealed, and only with the same associated data.\<close>

definition authenticates :: "aead \<Rightarrow> bool" where
  "authenticates a \<longleftrightarrow>
     (\<forall>k aad aad' iv p. openWith a k aad' (sealWith a k aad iv p) = (if aad' = aad then Some p else None))"

lemma secretTypeText_inject: "secretTypeText t = secretTypeText t' \<longleftrightarrow> t = t'"
  by (cases t; cases t') (simp_all add: secretTypeText_def)

lemma credentialAad_inject:
  assumes "credentialAad cid owner t = credentialAad cid' owner' t'"
    and "nul \<notin> set cid" "nul \<notin> set cid'" "nul \<notin> set owner" "nul \<notin> set owner'"
  shows "cid = cid' \<and> owner = owner' \<and> t = t'"
proof -
  have "cid = cid'" and "nulKey owner (secretTypeText t) = nulKey owner' (secretTypeText t')"
    using nulKey_inject [OF assms(1) [unfolded credentialAad_def] assms(2,3)] by blast+
  moreover from this(2) have "owner = owner' \<and> secretTypeText t = secretTypeText t'"
    by (rule nulKey_inject) (rule assms)+
  ultimately show ?thesis by (simp add: secretTypeText_inject)
qed

text \<open>
  A stored secret can be opened again, and under its own identity only: a record moved to another
  credential id, another owner or another secret type does not decrypt. Ids must not contain NUL,
  which separates them in the associated data.
\<close>

theorem openCredential_bound:
  assumes "authenticates (cipher opts)"
    and "nul \<notin> set (inputCredentialId inp)" and "nul \<notin> set (inputOwnerUserId inp)"
    and "nul \<notin> set cid" and "nul \<notin> set owner"
  shows "openCredential opts
      ((sealCredential opts inp t secret n)\<lparr>credentialId := cid, ownerUserId := owner, secretType := t'\<rparr>) =
    (if cid = inputCredentialId inp \<and> owner = inputOwnerUserId inp \<and> t' = t then Some secret else None)"
proof -
  let ?aad = "credentialAad (inputCredentialId inp) (inputOwnerUserId inp) t"
  have "credentialAad cid owner t' = ?aad \<longleftrightarrow>
      cid = inputCredentialId inp \<and> owner = inputOwnerUserId inp \<and> t' = t"
    using credentialAad_inject [of cid owner t' "inputCredentialId inp" "inputOwnerUserId inp" t] assms by auto
  with assms(1) show ?thesis
    by (simp add: openCredential_def sealCredential_def Let_def authenticates_def)
qed

section \<open>Egress\<close>

definition recordsRequest :: "egress_options \<Rightarrow> egress_input \<Rightarrow> 'e egress_event \<Rightarrow> bool" where
  "recordsRequest opts inp e = (case e of
      Recorded r \<Rightarrow> egressUserId r = egUserId inp \<and> egressOperationId r = egOperationId inp
        \<and> Some (destinationOrigin r) = urlOrigin opts (egDestinationUrl inp)
        \<and> egressMethod r = toUpperCase (egMethod inp)
    | Performed _ \<Rightarrow> False)"

definition isPerformed :: "'e egress_event \<Rightarrow> bool" where
  "isPerformed e = (case e of Recorded _ \<Rightarrow> False | Performed _ \<Rightarrow> True)"

lemma isPerformed_simps [simp]: "\<not> isPerformed (Recorded r)" "isPerformed (Performed x)"
  by (simp_all add: isPerformed_def)

text \<open>The policy allows the request: a public read, or an operation this user confirmed under this id.\<close>

definition policyAllows :: "egress_input \<Rightarrow> bool" where
  "policyAllows inp \<longleftrightarrow>
     evaluateRiskPolicy (effectiveOperation inp) (egOperationId inp) (egUserId inp) (egConfirmation inp) = ALLOW"

lemma policyAllows_iff:
  "policyAllows inp \<longleftrightarrow>
     egOperation inp \<noteq> WRITE_EXTERNAL
     \<and> (egOperation inp = INVOKE_PROVIDER \<or> toUpperCase (egMethod inp) \<in> {''GET'', ''HEAD''})
     \<and> (egOperation inp = READ_PUBLIC_SOURCE
        \<or> egConfirmation inp = Some \<lparr>confirmedOperationId = egOperationId inp, confirmedUserId = egUserId inp\<rparr>)"
proof -
  have "evaluateRiskPolicy oper i u c = ALLOW \<longleftrightarrow>
      oper = READ_PUBLIC_SOURCE \<or> (oper \<noteq> WRITE_EXTERNAL
        \<and> c = Some \<lparr>confirmedOperationId = i, confirmedUserId = u\<rparr>)" for oper i u c
    by (cases oper) (auto simp: evaluateRiskPolicy_def split: option.splits intro: risk_confirmation.equality)
  then show ?thesis by (auto simp: policyAllows_def effectiveOperation_def)
qed

text \<open>
  A guarded request leaves nothing behind unless policy allows it; then its egress record (user, operation,
  destination origin and method) comes first and everything the request itself does after it.
\<close>

lemma executeEgress_cases:
  fixes perform :: "('e, 'a) egress_io"
  obtains (untouched) "trace (snd (executeEgress opts inp perform s)) = trace s"
      "\<And>a. fst (executeEgress opts inp perform s) \<noteq> Inr (EgressCompleted a)"
  | (performed) r s' where "policyAllows inp" "recordsRequest opts inp (Recorded r :: 'e egress_event)"
      "trace s' = trace s @ [Recorded r]" "calls s' = Suc (calls s)"
      "executeEgress opts inp perform s = and_then perform (\<lambda>a. done_with (EgressCompleted a)) s'"
proof (cases "policyAllows inp")
  case False
  then show ?thesis using untouched by (simp add: executeEgress_def policyAllows_def Let_def done_with_def)
next
  case True
  show ?thesis
  proof (cases "urlOrigin opts (egDestinationUrl inp)")
    case None
    then show ?thesis using untouched True by (simp add: executeEgress_def policyAllows_def Let_def throw_def)
  next
    case (Some orig)
    define r where "r = \<lparr>egressId = nextId opts (calls s), egressUserId = egUserId inp,
              egressOperationId = egOperationId inp, egressCorrelationId = egCorrelationId inp,
              destinationOrigin = orig, egressMethod = toUpperCase (egMethod inp),
              egressOccurredAt = toISOString (egressClock opts (calls s))\<rparr>"
    have unfolded: "executeEgress opts inp perform s =
        and_then (call_port (\<lambda>n. recordPort opts n r) (\<lambda>_. [Recorded r]) ())
          (\<lambda>_. and_then perform (\<lambda>a. done_with (EgressCompleted a))) s"
      using True Some by (simp add: executeEgress_def policyAllows_def Let_def recordEgress_def and_then_def r_def)
    show ?thesis
    proof (cases "recordPort opts (calls s) r")
      case None
      then show ?thesis using untouched unfolded by (simp add: and_then_def call_port_def)
    next
      case (Some u)
      moreover have "recordsRequest opts inp (Recorded r :: 'e egress_event)"
        using \<open>urlOrigin opts (egDestinationUrl inp) = Some orig\<close> by (simp add: recordsRequest_def r_def)
      ultimately show ?thesis
        using performed [of r "s\<lparr>trace := trace s @ [Recorded r], calls := Suc (calls s)\<rparr>"] True unfolded
        by (simp add: and_then_def call_port_def)
    qed
  qed
qed

text \<open>
  A request is performed only after its egress record was written, and only if policy allows it: a public read, or
  an operation that this user confirmed under this operation id; with any other method than GET or HEAD only
  a provider call can be. A refused request leaves no trace at all.
\<close>

theorem executeEgress_policy:
  "guarded (recordsRequest opts inp) isPerformed
       (trace (snd (executeEgress opts inp (attempt_port port (Performed x) ()) (fresh_run n))))
   \<and> (trace (snd (executeEgress opts inp (attempt_port port (Performed x) ()) (fresh_run n))) = []
      \<or> (egOperation inp \<noteq> WRITE_EXTERNAL
         \<and> (egOperation inp = INVOKE_PROVIDER \<or> toUpperCase (egMethod inp) \<in> {''GET'', ''HEAD''})
         \<and> (egOperation inp = READ_PUBLIC_SOURCE
            \<or> egConfirmation inp = Some \<lparr>confirmedOperationId = egOperationId inp, confirmedUserId = egUserId inp\<rparr>)))"
proof (rule executeEgress_cases [of opts inp "attempt_port port (Performed x) ()" "fresh_run n"], goal_cases)
  case 1
  then show ?case by simp
next
  case (2 r s')
  then show ?case by (simp add: policyAllows_iff io_simps split: option.split)
qed

section \<open>A concrete vault\<close>

text \<open>
  Ports that always answer, a storage that holds one record, and a cipher that keeps the plaintext
  beside the associated data.
\<close>

definition plainCipher :: aead where
  "plainCipher =
     \<lparr>sealWith = (\<lambda>k aad iv p. \<lparr>sealedText = p, sealedIv = iv, sealedTag = aad\<rparr>),
      openWith = (\<lambda>k aad c. if sealedTag c = aad then Some (sealedText c) else None)\<rparr>"

definition sampleActor :: security_actor where
  "sampleActor = \<lparr>actorUserId = ''user-1'', actorRole = USER, actorObject = 0\<rparr>"

definition sampleInput :: credential_input where
  "sampleInput = \<lparr>inputCredentialId = ''credential-1'', inputOwnerUserId = ''user-1'', inputActor = sampleActor,
     inputCorrelationId = ''correlation-1''\<rparr>"

definition sampleStored :: encrypted_credential where
  "sampleStored = \<lparr>credentialId = ''credential-1'', ownerUserId = ''user-1'', secretType = PROVIDER_CREDENTIAL,
     sealedSecret = \<lparr>sealedText = ''secret'', sealedIv = [],
       sealedTag = credentialAad ''credential-1'' ''user-1'' PROVIDER_CREDENTIAL\<rparr>,
     sealedDataKey = \<lparr>sealedText = ''key'', sealedIv = [],
       sealedTag = credentialAad ''credential-1'' ''user-1'' PROVIDER_CREDENTIAL\<rparr>\<rparr>"

definition sampleOptions :: vault_options where
  "sampleOptions =
     \<lparr>cipher = plainCipher, masterKey = ''master'', systemAccess = None,
      auditPort = (\<lambda>_ _. Some ()), savePort = (\<lambda>_ _. Some ()),
      loadPort = (\<lambda>_ cid owner. Some (if cid = ''credential-1'' \<and> owner = ''user-1'' then Some sampleStored else None)),
      deletePort = None, operationPort = (\<lambda>_ _. Some ()), randomBytes = (\<lambda>_ _. ''random''), clockPort = (\<lambda>_. 0)\<rparr>"

lemma sample_operated:
  "Operated ''secret'' \<in> set (trace (snd (useCredential sampleOptions sampleInput (fresh_run 0))))"
  by (simp add: useCredential_def loadCredential_def runOperation_def vault_simps mayAccess_def recordMatches_def
      openCredential_def sampleOptions_def sampleInput_def sampleActor_def sampleStored_def plainCipher_def)


lemma vault_outcome_audited_witness:
  "endsWith sampleInput CREDENTIAL_DELETE (outcomeOf (fst (deleteCredential sampleOptions sampleInput (fresh_run 0))))
     (trace (snd (deleteCredential sampleOptions sampleInput (fresh_run 0))))"
proof -
  have "auditsAlwaysWritten sampleOptions" by (simp add: auditsAlwaysWritten_def sampleOptions_def)
  from vault_outcome_audited [OF this, of sampleInput PROVIDER_CREDENTIAL "''secret''" "fresh_run 0"] show ?thesis
    by (simp add: Let_def)
qed

lemma openCredential_bound_witness:
  "openCredential sampleOptions
     ((sealCredential sampleOptions sampleInput PROVIDER_CREDENTIAL ''secret'' 0)\<lparr>credentialId := ''credential-1'',
        ownerUserId := ''user-2'', secretType := PROVIDER_CREDENTIAL\<rparr>) = None"
proof -
  have "authenticates (cipher sampleOptions)"
    by (simp add: authenticates_def sampleOptions_def plainCipher_def)
  moreover have "nul \<notin> set (inputCredentialId sampleInput)" "nul \<notin> set (inputOwnerUserId sampleInput)"
      "nul \<notin> set ''credential-1''" "nul \<notin> set ''user-2''"
    by (simp_all add: sampleInput_def nul_def)
  ultimately show ?thesis
    using openCredential_bound [of sampleOptions sampleInput "''credential-1''" "''user-2''"] by (simp add: sampleInput_def)
qed

definition sampleEgressOptions :: egress_options where
  "sampleEgressOptions = \<lparr>recordPort = (\<lambda>_ _. Some ()), urlOrigin = (\<lambda>u. Some u),
     nextId = (\<lambda>_. ''egress-1''), egressClock = (\<lambda>_. 0)\<rparr>"

definition sampleEgressInput :: egress_input where
  "sampleEgressInput = \<lparr>egUserId = ''user-1'', egOperationId = ''operation-1'', egOperation = READ_PUBLIC_SOURCE,
     egConfirmation = None, egCorrelationId = ''correlation-1'', egDestinationUrl = ''https://example.test'', egMethod = ''post''\<rparr>"

lemma executeEgress_policy_witness:
  "trace (snd (executeEgress sampleEgressOptions sampleEgressInput
       (attempt_port (\<lambda>_. Some ()) (Performed ()) ()) (fresh_run 0))) = []"
proof -
  have "toUpperCase (egMethod sampleEgressInput) = ''POST''" and "egOperation sampleEgressInput \<noteq> INVOKE_PROVIDER"
    by code_simp+
  then show ?thesis using executeEgress_policy [of sampleEgressOptions sampleEgressInput "\<lambda>_. Some ()" "()" 0] by simp
qed

end
