(* ===== verification/CM_Content_Facts.thy ===== *)
theory CM_Content_Facts
  imports CM_Task_Properties CM_Security_Facts
begin

text \<open>
  Content-addressed storage, the evidence index and the audit log: what is loaded under a reference is what
  was put there, an effect keeps its first result, the nearest evidence is returned, and which roles the
  audit log takes.
\<close>

section \<open>Objects\<close>

lemma objectStored_found:
  "objectStored env area dig canonical rows \<Longrightarrow>
   \<exists>r. find (\<lambda>r. objDigest r = dig \<and> objKey r = area @ dig) rows = Some r \<and> canonicalOf env (objPayload r) = Some canonical"
  by (induction rows) (auto simp: objectStored_def split: option.splits if_splits)

text \<open>
  C36: what \<open>putRawSnapshot\<close> stored is found again under the reference it gave, and is the same JSON up to the
  order of properties, whatever was in the database before; likewise for the results of side effects. SHA-256
  gives 64 hexadecimal digits.
\<close>

theorem content_roundtrip:
  assumes "\<forall>text. isSha256 (stSha256 env text)"
  shows "(putRawSnapshot env now payload d = (Inr raw, d') \<longrightarrow>
      (\<exists>v. loadRawSnapshot env raw d' = Inr (Some v) \<and> canonicalOf env v = canonicalOf env payload))
    \<and> (putEffectResult env now idn payload d = (Inr ref, d') \<longrightarrow>
      (\<exists>v. loadEffectResult env ref d' = Inr (Some v) \<and> canonicalOf env v = canonicalOf env payload))"
proof (intro conjI impI)
  assume "putRawSnapshot env now payload d = (Inr raw, d')"
  then obtain canonical rows where c: "canonicalOf env payload = Some canonical"
      and stored: "objectStored env SNAPSHOT_PREFIX (stSha256 env canonical) canonical rows"
      and "d' = d\<lparr>snapshotObjects := rows\<rparr>"
      and "raw = \<lparr>raw_artifact.digest = stSha256 env canonical, objectKey = SNAPSHOT_PREFIX @ stSha256 env canonical\<rparr>"
    by (auto simp: putRawSnapshot_def Let_def split: option.splits if_splits)
  with objectStored_found [OF stored] assms
  show "\<exists>v. loadRawSnapshot env raw d' = Inr (Some v) \<and> canonicalOf env v = canonicalOf env payload"
    by (auto simp: loadRawSnapshot_def Let_def)
next
  assume "putEffectResult env now idn payload d = (Inr ref, d')"
  then obtain canonical rows bs where c: "canonicalOf env payload = Some canonical"
      and stored: "objectStored env EFFECT_PREFIX (stSha256 env canonical) canonical rows"
      and bs: "bindingOf idn bs = Some (stSha256 env canonical, EFFECT_PREFIX @ stSha256 env canonical)"
      and d': "d' = d\<lparr>effectObjects := rows, effectBindings := bs\<rparr>" and ref: "ref = refOf idn (stSha256 env canonical)"
    by (auto simp: putEffectResult_def putEffectTx_def transact_Inr Let_def split: option.splits if_splits)
  have "list_ex (\<lambda>b. bindIdentity b = identityOfRef ref \<and> bindDigest b = stSha256 env canonical
      \<and> bindKey b = EFFECT_PREFIX @ stSha256 env canonical) bs"
  proof -
    have "identityOfRef ref = idn" by (simp add: ref refOf_def identityOfRef_def)
    moreover obtain b where "find (\<lambda>b. bindIdentity b = idn) bs = Some b"
        "bindDigest b = stSha256 env canonical" "bindKey b = EFFECT_PREFIX @ stSha256 env canonical"
      using bs by (auto simp: bindingOf_def)
    ultimately show ?thesis using find_mem by (fastforce simp: list_ex_iff)
  qed
  with objectStored_found [OF stored] assms c
  show "\<exists>v. loadEffectResult env ref d' = Inr (Some v) \<and> canonicalOf env v = canonicalOf env payload"
    by (auto simp: loadEffectResult_def Let_def d' ref refOf_def)
qed

text \<open>
  A side effect keeps the result that was stored for it first: whatever operations follow, a second result
  for the same effect is accepted only under the same reference, that is with the same content.
\<close>

theorem effect_result_write_once:
  assumes "(store_step env)\<^sup>*\<^sup>* emptyDatabase d" and "putEffectResult env now idn payload d = (Inr ref, d1)"
    and "(task_step env)\<^sup>*\<^sup>* d1 d2" and "putEffectResult env now' idn payload' d2 = (Inr ref', d3)"
  shows "ref' = ref"
proof -
  have bound: "bindingOf idn (effectBindings e') = Some (effect_result_ref.digest r, EFFECT_PREFIX @ effect_result_ref.digest r)
      \<and> r = refOf idn (effect_result_ref.digest r)"
    if "putEffectResult env n idn p e = (Inr r, e')" for n p e r e'
    using that by (auto simp: putEffectResult_def putEffectTx_def transact_Inr Let_def refOf_def split: option.splits if_splits)
  have "evolves d d1" using putEffectResult_evolves [OF reachable_storeInv [OF assms(1)], of env now idn payload] assms(2) by simp
  from task_steps_evolve [OF assms(3) evolvesD [OF this]] have later: "evolves d1 d2" .
  have "evolves d2 d3" using putEffectResult_evolves [OF evolvesD [OF later], of env now' idn payload'] assms(4) by simp
  with later have "evolves d1 d3" by (rule evolves_trans)
  then obtain bs where "effectBindings d3 = effectBindings d1 @ bs" by (auto simp: evolves_def)
  then have "bindingOf idn (effectBindings d3) = bindingOf idn (effectBindings d1)"
    using bound [OF assms(2)] by (auto simp: bindingOf_def find_append)
  with bound [OF assms(2)] bound [OF assms(4)] have "effect_result_ref.digest ref' = effect_result_ref.digest ref" by simp
  with bound [OF assms(2)] bound [OF assms(4)] show ?thesis by simp
qed

section \<open>The evidence index\<close>

lemma take_sorted_le:
  assumes "sorted (map f xs)" and "x \<in> set (take n xs)" and "y \<in> set (drop n xs)"
  shows "f x \<le> f y"
proof -
  have "sorted (map f (take n xs @ drop n xs))" using assms(1) by simp
  then show ?thesis using assms(2,3) unfolding map_append sorted_append by auto
qed

text \<open>
  A search of the evidence index returns records of the queried model and dimension, at most as many as
  asked for and as many as there are, in the order of their distance; no record that it left out is nearer
  than one that it returned.
\<close>

theorem nearest_evidence:
  assumes "nearest distanceOf q d = Inr found"
  defines "far \<equiv> \<lambda>r. distanceOf (ixVector r) (List.map_filter id (queryVector q))"
  shows "sorted (map fst found) \<and> length found = min (nat (queryLimit q)) (length (comparableRows q d))
    \<and> (\<exists>kept. found = map (\<lambda>r. (far r, toEvidenceIndexRecord r)) kept \<and> mset kept \<subseteq># mset (comparableRows q d)
        \<and> (\<forall>r \<in> set kept. \<forall>out \<in># mset (comparableRows q d) - mset kept. far r \<le> far out))"
proof -
  define rows where "rows = sort_key far (sort_key ixEvidence (comparableRows q d))"
  define n where "n = nat (queryLimit q)"
  have found: "found = map (\<lambda>r. (far r, toEvidenceIndexRecord r)) (take n rows)"
    using assms(1) by (auto simp: nearest_def Let_def rows_def n_def far_def split: if_splits)
  have sorted: "sorted (map far rows)" by (simp add: rows_def)
  have "mset (take n rows) + mset (drop n rows) = mset (comparableRows q d)"
    by (metis append_take_drop_id mset_append mset_sort rows_def)
  then have parts: "mset (take n rows) \<subseteq># mset (comparableRows q d)"
      "mset (comparableRows q d) - mset (take n rows) = mset (drop n rows)"
    by (metis mset_subset_eq_add_left) (metis \<open>mset (take n rows) + _ = _\<close> add_diff_cancel_left')
  have "sorted (map fst found)"
    using sorted by (simp add: found comp_def take_map [symmetric] sorted_wrt_take)
  moreover have "length found = min n (length (comparableRows q d))"
    by (simp add: found rows_def min.commute)
  moreover have "\<forall>r \<in> set (take n rows). \<forall>out \<in># mset (drop n rows). far r \<le> far out"
    using take_sorted_le [OF sorted] by simp
  ultimately show ?thesis
    unfolding n_def [symmetric] using parts found by (intro conjI exI [of _ "take n rows"]) simp_all
qed

section \<open>The audit log and the vault\<close>

lemma appendAuditRecord_role:
  "\<not> auditRoleAllowed (aiRole a) \<Longrightarrow> appendAuditRecord uuid now a d = (Inl PersistenceUnavailableError, d)"
  by (simp add: appendAuditRecord_def transact_def inserting_def)

end
