(* ===== verification/CM_Stored_Vault.thy ===== *)
theory CM_Stored_Vault
  imports CM_Task_Store CM_Security_Facts
begin

text \<open>
  The vault as the programs set it up (apps/source-worker/src/main.ts; apps/api/src/server.ts and
  identity-lifecycle-worker.ts do the same): its storage and its audit log are the task store. The database
  that the n-th port call finds is a parameter, as others write to it as well.
\<close>

definition auditActionText :: "audit_action \<Rightarrow> string" where
  "auditActionText a = (case a of
      CREDENTIAL_STORE \<Rightarrow> ''CREDENTIAL_STORE'' | CREDENTIAL_USE \<Rightarrow> ''CREDENTIAL_USE''
    | CREDENTIAL_DELETE \<Rightarrow> ''CREDENTIAL_DELETE'')"

definition auditResultText :: "audit_result \<Rightarrow> string" where
  "auditResultText r = (case r of
      STARTED \<Rightarrow> ''STARTED'' | ALLOWED \<Rightarrow> ''ALLOWED'' | audit_result.DENIED \<Rightarrow> ''DENIED'' | audit_result.FAILED \<Rightarrow> ''FAILED'')"

definition vaultAudit :: "credential_audit \<Rightarrow> audit_input" where
  "vaultAudit r =
     \<lparr>aiPrincipal = actorUserId (auditActor r), aiUser = actorUserId (auditActor r), aiRole = actorRole (auditActor r),
      aiAction = auditActionText (auditAction r), aiObjectType = ''CREDENTIAL'', aiObjectId = auditObject r,
      aiResult = auditResultText (auditResult r), aiCorrelation = auditCorrelationId r\<rparr>"

definition storedVault ::
    "(nat \<Rightarrow> database) \<Rightarrow> (nat \<Rightarrow> string) \<Rightarrow> (nat \<Rightarrow> int) \<Rightarrow> vault_options \<Rightarrow> vault_options" where
  "storedVault dbs uuid now opts = opts\<lparr>
     auditPort := (\<lambda>n r. case fst (appendAuditRecord (uuid n) (now n) (vaultAudit r) (dbs n)) of
         Inl _ \<Rightarrow> None | Inr u \<Rightarrow> Some u),
     savePort := (\<lambda>n r. Some ()),
     loadPort := (\<lambda>n cid owner. Some (loadEncryptedCredential cid owner (dbs n))),
     deletePort := Some (\<lambda>n cid owner. Some (fst (deleteEncryptedCredential cid owner (dbs n))))\<rparr>"

text \<open>The source worker's actor and what it is granted.\<close>

definition sourceWorkerActor :: "ident \<Rightarrow> security_actor" where
  "sourceWorkerActor wid = \<lparr>actorUserId = ''source-worker:'' @ wid, actorRole = SYSTEM, actorObject = 0\<rparr>"

definition sourceWorkerAccess :: "ident \<Rightarrow> system_access" where
  "sourceWorkerAccess wid = \<lparr>accessActor = sourceWorkerActor wid, accessSecretType = SOURCE_CREDENTIAL,
     accessActions = [USE, DELETE]\<rparr>"

lemma stored_audit_system:
  "actorRole (inputActor inp) = SYSTEM \<Longrightarrow>
   appendCredentialAudit (storedVault dbs uuid now opts) inp ac res s = (Inl PORT_FAILED, s\<lparr>calls := Suc (calls s)\<rparr>)"
  by (simp add: append_audit storedVault_def audit_of_def vaultAudit_def appendAuditRecord_def transact_def inserting_def
      auditRoleAllowed_def)

text \<open>
  No system actor can ever use or delete a credential, whatever access it was granted and
  whatever the database holds: each attempt is audited first, and the audit table refuses the role SYSTEM. So
  the source worker, which uses the owners' credentials as a system actor, fails on every account.
\<close>

theorem system_access_impossible:
  assumes "actorRole (inputActor inp) = SYSTEM"
  shows "fst (useCredential (storedVault dbs uuid now opts) inp (fresh_run n)) = Inl PORT_FAILED
    \<and> trace (snd (useCredential (storedVault dbs uuid now opts) inp (fresh_run n))) = []
    \<and> fst (deleteCredential (storedVault dbs uuid now opts) inp (fresh_run n)) = Inl PORT_FAILED
    \<and> trace (snd (deleteCredential (storedVault dbs uuid now opts) inp (fresh_run n))) = []"
proof -
  note audit = stored_audit_system [OF assms]
  have load: "loadCredential (storedVault dbs uuid now opts) inp s
      = (Inr (loadEncryptedCredential (inputCredentialId inp) (inputOwnerUserId inp) (dbs (calls s))), s\<lparr>calls := Suc (calls s)\<rparr>)" for s
    by (simp add: loadCredential_def call_port_def storedVault_def)
  show ?thesis
    using assms
    by (auto simp: useCredential_def deleteCredential_def checkSystemDelete_def denied_def and_then_def catching_def
        done_with_def throw_def audit load)
qed

end
