(* ===== verification/CM_Delivery_Facts.thy ===== *)
theory CM_Delivery_Facts
  imports CM_Delivery CM_Store_Facts
begin

text \<open>
  Publishing makes progress: each run of a publisher deals with one due message, so a backlog is worked off
  in as many runs as it has messages, whatever Redis does. No waiting reader is lost: it is woken by the next
  notification of its task, and at the latest when the subscriber closes.
\<close>

section \<open>Working off a backlog\<close>

text \<open>The first \<open>k\<close> runs; run number \<open>i\<close> is \<open>run i\<close>.\<close>

primrec runsOf :: "(nat \<Rightarrow> 's \<Rightarrow> 's) \<Rightarrow> nat \<Rightarrow> 's \<Rightarrow> 's" where
  "runsOf run 0 s = s"
| "runsOf run (Suc k) s = run k (runsOf run k s)"

locale backlog =
  fixes due :: "'s \<Rightarrow> 'm list" and run :: "nat \<Rightarrow> 's \<Rightarrow> 's"
  assumes progress: "due s \<noteq> [] \<Longrightarrow> length (due (run k s)) < length (due s)"
    and idle: "due s = [] \<Longrightarrow> due (run k s) = []"
begin

lemma remaining: "length (due (runsOf run k s)) \<le> length (due s) - k"
proof (induction k)
  case (Suc k)
  show ?case
  proof (cases "due (runsOf run k s) = []")
    case False
    with Suc progress [of "runsOf run k s" k] show ?thesis by simp
  qed (simp add: idle)
qed simp

lemma worked_off: "length (due s) \<le> k \<Longrightarrow> due (runsOf run k s) = []"
  using remaining [of k s] by simp

end

text \<open>Updating the rows of a key takes them out.\<close>

lemma filter_update_less:
  assumes "\<And>r. keyOf r = k \<Longrightarrow> \<not> p (f r)" and "r \<in> set rows" and "p r" and "keyOf r = k"
  shows "length (filter p (updateWhere (\<lambda>r. keyOf r = k) f rows)) < length (filter p rows)"
proof -
  have "length (filter p (updateWhere (\<lambda>r. keyOf r = k) f rows)) = length (filter (\<lambda>r. p r \<and> keyOf r \<noteq> k) rows)"
    by (induction rows) (auto simp: updateWhere_def assms(1))
  also have "\<dots> < length (filter p rows)"
    using length_filter_less [of r "filter p rows" "\<lambda>r. keyOf r \<noteq> k"] assms(2-4) by (simp add: conj_commute)
  finally show ?thesis .
qed

section \<open>The publishers\<close>

lemma pendingOutbox_mem: "set (pendingOutbox now d) = {m \<in> set (outbox d). duePublication now d m}"
  by (simp add: pendingOutbox_def)

lemma duePublication_outbox [simp]: "duePublication now (d\<lparr>outbox := rows\<rparr>) = duePublication now d"
  by (simp add: duePublication_def operationOf_def fun_eq_iff)

lemma pendingOutbox_set:
  "length (pendingOutbox now (setOutbox k f d)) = length (filter (duePublication now d) (updateWhere (\<lambda>m. outMessage m = k) f (outbox d)))"
  by (simp add: pendingOutbox_def setOutbox_def)

lemma outbox_progress:
  assumes "0 < retry" and "0 < again" and "pendingOutbox now d \<noteq> []"
  shows "length (pendingOutbox now (snd (publishNextOutbox retry again ok now d))) < length (pendingOutbox now d)"
proof -
  obtain m ms where m: "pendingOutbox now d = m # ms" using assms(3) by (cases "pendingOutbox now d") auto
  then have mem: "m \<in> set (outbox d)" "duePublication now d m" using pendingOutbox_mem [of now d] by auto
  have "length (pendingOutbox now (setOutbox (outMessage m) f d)) < length (pendingOutbox now d)"
    if "\<And>r. outNextAttempt (f r) > now" for f
    unfolding pendingOutbox_set using that mem
    by (simp add: pendingOutbox_def duePublication_def not_le filter_update_less [where r = m])
  with m assms(1,2) show ?thesis by (simp add: publishNextOutbox_def)
qed


lemma outbox_idle: "pendingOutbox now d = [] \<Longrightarrow> pendingOutbox now (snd (publishNextOutbox retry again ok now d)) = []"
  by (simp add: publishNextOutbox_def)

interpretation outbox_publisher:
  backlog "pendingOutbox now" "\<lambda>i d. snd (publishNextOutbox (int (Suc r)) (int (Suc a)) (delivered i) now d)"
    for now r a delivered
  by unfold_locales ((rule outbox_progress; simp), erule outbox_idle)


lemma filter_due: "length (filter (dueNotification now) (sort_key f rows)) = length (filter (dueNotification now) rows)"
  by (metis filter_sort length_sort)

lemma notification_progress:
  assumes "0 < retry" and "filter (dueNotification now) (notifications d) \<noteq> []"
  shows "length (filter (dueNotification now) (notifications (snd (publishNextNotification retry ok now d))))
    < length (filter (dueNotification now) (notifications d))"
proof -
  obtain n ns where n: "sort_key noteCursor (filter (dueNotification now) (notifications d)) = n # ns"
    using assms(2) by (metis length_0_conv length_sort neq_Nil_conv)
  then have "n \<in> set (sort_key noteCursor (filter (dueNotification now) (notifications d)))" by simp
  then have mem: "n \<in> set (notifications d)" "dueNotification now n" by simp_all
  have "length (filter (dueNotification now) (updateWhere (\<lambda>r. noteCursor r = noteCursor n) f (notifications d)))
      < length (filter (dueNotification now) (notifications d))" if "\<And>r. \<not> dueNotification now (f r)" for f
    using that mem by (intro filter_update_less [where r = n]) simp_all
  then show ?thesis using n assms(1) by (simp add: publishNextNotification_def dueNotification_def)
qed

lemma notification_idle:
  "filter (dueNotification now) (notifications d) = [] \<Longrightarrow>
   filter (dueNotification now) (notifications (snd (publishNextNotification retry ok now d))) = []"
  by (simp add: publishNextNotification_def)

interpretation notification_publisher:
  backlog "\<lambda>d. filter (dueNotification now) (notifications d)"
    "\<lambda>i d. snd (publishNextNotification (int (Suc r)) (delivered i) now d)" for now r delivered
  by unfold_locales ((rule notification_progress; simp), erule notification_idle)

text \<open>
  The notification publisher works off its backlog in as many runs as it has due notifications, whether
  Redis takes them or not.
\<close>

theorem notifications_worked_off:
  assumes "0 < retry" and "length (filter (dueNotification now) (notifications d)) \<le> k"
  shows "filter (dueNotification now)
    (notifications (runsOf (\<lambda>i d. snd (publishNextNotification retry (delivered i) now d)) k d)) = []"
proof -
  have "int (Suc (nat (retry - 1))) = retry" using assms(1) by simp
  then show ?thesis using notification_publisher.worked_off [OF assms(2), of "nat (retry - 1)" delivered] by simp
qed

section \<open>The subscriber\<close>

definition pendingWaiter :: "nat \<Rightarrow> subscriber \<Rightarrow> bool" where
  "pendingWaiter n s \<longleftrightarrow> n < length (waiters s) \<and> waiterState (waiters s ! n) = Pending_Waiter"

text \<open>The sets of waiters hold exactly the pending ones, and a closed subscriber has none.\<close>

definition subscriber_inv :: "subscriber \<Rightarrow> bool" where
  "subscriber_inv s \<longleftrightarrow>
     (\<forall>t n. n \<in> set (taskWaiters s t) \<longleftrightarrow> pendingWaiter n s \<and> waiterTask (waiters s ! n) = t)
     \<and> (subscriberClosed s \<longrightarrow> (\<forall>n. \<not> pendingWaiter n s))"

lemma settle_simps [simp]:
  "length (waiters (settleWaiter st k s)) = length (waiters s)"
  "subscriberClosed (settleWaiter st k s) = subscriberClosed s"
  "n < length (waiters s) \<Longrightarrow> waiterTask (waiters (settleWaiter st k s) ! n) = waiterTask (waiters s ! n)"
  by (auto simp: settleWaiter_def Let_def nth_list_update)

lemma settle_state:
  "n < length (waiters s) \<Longrightarrow> waiterState (waiters (settleWaiter st k s) ! n)
     = (if n = k \<and> waiterState (waiters s ! n) = Pending_Waiter then st else waiterState (waiters s ! n))"
  by (auto simp: settleWaiter_def Let_def nth_list_update)

lemma settle_inv:
  assumes "subscriber_inv s" and "st \<noteq> Pending_Waiter"
  shows "subscriber_inv (settleWaiter st k s)"
proof -
  have pend: "pendingWaiter n (settleWaiter st k s) \<longleftrightarrow> pendingWaiter n s \<and> n \<noteq> k" for n
    using assms(2) by (auto simp: pendingWaiter_def settle_state split: if_splits)
  have "n \<in> set (taskWaiters (settleWaiter st k s) t) \<longleftrightarrow> n \<in> set (taskWaiters s t) \<and> n \<noteq> k" for n t
    using assms(1) by (auto simp: settleWaiter_def Let_def subscriber_inv_def pendingWaiter_def)
  then show ?thesis
    using assms(1) unfolding subscriber_inv_def pend by (auto simp: pendingWaiter_def)
qed

lemma settle_all:
  assumes "st \<noteq> Pending_Waiter"
  shows "length (waiters (fold (settleWaiter st) ks s)) = length (waiters s)"
    and "subscriberClosed (fold (settleWaiter st) ks s) = subscriberClosed s"
    and "subscriber_inv s \<Longrightarrow> subscriber_inv (fold (settleWaiter st) ks s)"
    and "n < length (waiters s) \<Longrightarrow> waiterState (waiters (fold (settleWaiter st) ks s) ! n)
       = (if n \<in> set ks \<and> waiterState (waiters s ! n) = Pending_Waiter then st else waiterState (waiters s ! n))"
proof (induction ks arbitrary: s)
  case (Cons k ks)
  {
    case 1 show ?case using Cons(1) by simp
  next
    case 2 show ?case using Cons(2) by simp
  next
    case 3 then show ?case using Cons(3) settle_inv assms by simp
  next
    case 4 then show ?case using Cons(4) [of "settleWaiter st k s"] assms by (auto simp: settle_state)
  }
qed simp_all

lemma close_settles:
  assumes "subscriber_inv s" and "\<not> subscriberClosed s" and "pendingWaiter n s"
  shows "n \<in> set (concat (map (taskWaiters s) (remdups (map waiterTask (waiters s)))))"
  using assms by (auto simp: subscriber_inv_def pendingWaiter_def intro!: bexI [of _ "waiters s ! n"])

lemma subscriber_step_inv:
  assumes "subscriber_inv s" and "subscriber_step s s'"
  shows "subscriber_inv s'"
  using assms(2)
proof cases
  case (wait t aborted n)
  let ?s = "s\<lparr>waiters := waiters s @ [\<lparr>waiterTask = t, waiterState = Pending_Waiter\<rparr>],
      taskWaiters := (taskWaiters s)(t := taskWaiters s t @ [length (waiters s)])\<rparr>"
  from wait have opened: "\<not> subscriberClosed s" and s': "s' = (if aborted then settleWaiter Failed_Waiter n ?s else ?s)"
    by (auto simp: waitFor_def Let_def split: if_splits)
  have "subscriber_inv ?s"
    using assms(1) opened by (auto simp: subscriber_inv_def pendingWaiter_def nth_append less_Suc_eq)
  then show ?thesis using settle_inv s' by simp
next
  case (notify m)
  then show ?thesis using settle_all(3) assms(1) by (auto simp: notified_def split: option.split)
next
  case (abort n)
  then show ?thesis using settle_inv assms(1) by (simp add: abortWaiter_def)
next
  case close
  show ?thesis
  proof (cases "subscriberClosed s")
    case True
    with close assms(1) show ?thesis by (simp add: closeSubscriber_def)
  next
    case False
    let ?ks = "concat (map (taskWaiters s) (remdups (map waiterTask (waiters s))))"
    have eq: "s' = (fold (settleWaiter Failed_Waiter) ?ks s)\<lparr>subscriberClosed := True\<rparr>"
    proof -
      have "fold (settleWaiter Failed_Waiter) ks (s\<lparr>subscriberClosed := True\<rparr>)
          = (fold (settleWaiter Failed_Waiter) ks s)\<lparr>subscriberClosed := True\<rparr>" for ks s
      proof (induction ks arbitrary: s)
        case (Cons k ks)
        have "settleWaiter Failed_Waiter k (s\<lparr>subscriberClosed := True\<rparr>)
            = (settleWaiter Failed_Waiter k s)\<lparr>subscriberClosed := True\<rparr>"
          by (simp add: settleWaiter_def Let_def)
        then show ?case by (simp add: Cons.IH)
      qed simp
      with close False show ?thesis by (simp add: closeSubscriber_def)
    qed
    have "\<not> pendingWaiter n (fold (settleWaiter Failed_Waiter) ?ks s)" for n
      using close_settles [OF assms(1) False, of n] by (auto simp: pendingWaiter_def settle_all(1,4))
    then show ?thesis
      using settle_all(3) [OF _ assms(1), of Failed_Waiter ?ks] unfolding eq
      by (simp add: subscriber_inv_def pendingWaiter_def)
  qed
qed

lemma subscriber_inv_opened: "subscriber_inv openedSubscriber"
  by (simp add: openedSubscriber_def subscriber_inv_def pendingWaiter_def)

interpretation subscription: step_invariant openedSubscriber subscriber_step subscriber_inv
  by unfold_locales (rule subscriber_inv_opened, rule subscriber_step_inv)

text \<open>
  C40: no waiting reader is lost: in every state that waiting, notifications, aborts and closing in any order
  lead to, a pending reader is woken by the next notification of its task, and fails when the subscriber
  closes; after closing nobody waits.
\<close>

theorem no_waiter_lost:
  assumes "subscriber_step\<^sup>*\<^sup>* openedSubscriber s" and "n < length (waiters s)"
    and "waiterState (waiters s ! n) = Pending_Waiter"
  shows "(decodeNotification m = Some (waiterTask (waiters s ! n)) \<longrightarrow> waiterState (waiters (notified m s) ! n) = Finished)
    \<and> \<not> subscriberClosed s \<and> waiterState (waiters (closeSubscriber s) ! n) = Failed_Waiter"
proof -
  have inv: "subscriber_inv s" using assms(1) by (rule subscription.reachable_inv)
  have pend: "pendingWaiter n s" using assms(2,3) by (simp add: pendingWaiter_def)
  then have opened: "\<not> subscriberClosed s" and listed: "n \<in> set (taskWaiters s (waiterTask (waiters s ! n)))"
    using inv by (auto simp: subscriber_inv_def)
  have "waiterState (waiters (notified m s) ! n) = Finished" if "decodeNotification m = Some (waiterTask (waiters s ! n))"
    using that listed assms(2,3) by (simp add: notified_def settle_all(4))
  moreover have "waiterState (waiters (closeSubscriber s) ! n) = Failed_Waiter"
    using opened close_settles [OF inv opened pend] assms(2,3) by (simp add: closeSubscriber_def settle_all(4))
  ultimately show ?thesis using opened by blast
qed

end
