(* ===== verification/CM_Fixture_Facts.thy ===== *)
theory CM_Fixture_Facts
  imports CM_Fixture
begin

text \<open>
  Which requirements the synthetic runtime can serve: the bundle it builds is always well linked and
  its claims supported, so finalisation depends on the budget and the must-haves only. The last
  section instantiates the general properties of the decision basis and of the result invariants
  at the result for a concrete requirement.
\<close>

section \<open>Drafts completed with their derived assessments\<close>

abbreviation derived :: "bundle_draft \<Rightarrow> decision_bundle" where
  "derived b \<equiv> withAssessments b (deriveAssessments b)"

lemma truncate_sel [simp]:
  "bundle_draft.decision (bundle_draft.truncate b) = bundle_draft.decision b"
  "bundle_draft.requirementRevision (bundle_draft.truncate b) = bundle_draft.requirementRevision b"
  "candidates (bundle_draft.truncate b) = candidates b"
  "claims (bundle_draft.truncate b) = claims b"
  "bundle_draft.evidence (bundle_draft.truncate b) = bundle_draft.evidence b"
  "claimEvidenceLinks (bundle_draft.truncate b) = claimEvidenceLinks b"
  by (simp_all add: bundle_draft.defs)

lemma buildGraph_truncate [simp]: "buildGraph (bundle_draft.truncate b) = buildGraph b"
  by (simp add: buildGraph_def)

lemma derived_sel [simp]:
  "bundle_draft.decision (withAssessments b as) = bundle_draft.decision b"
  "bundle_draft.requirementRevision (withAssessments b as) = bundle_draft.requirementRevision b"
  "candidates (withAssessments b as) = candidates b"
  "buildGraph (withAssessments b as) = buildGraph b"
  "referenceIssues tid (withAssessments b as) = referenceIssues tid b"
  "deriveAssessments (withAssessments b as) = deriveAssessments b"
proof -
  let ?w = "withAssessments b as"
  have t: "bundle_draft.truncate ?w = b" by simp
  show "bundle_draft.decision ?w = bundle_draft.decision b"
     "bundle_draft.requirementRevision ?w = bundle_draft.requirementRevision b"
     "candidates ?w = candidates b"
    by (simp_all add: withAssessments_def bundle_draft.defs)
  show "buildGraph ?w = buildGraph b" using buildGraph_truncate [of ?w] unfolding t by simp
  show "referenceIssues tid ?w = referenceIssues tid b" using referenceIssues_truncate [of tid ?w] unfolding t by simp
  show "deriveAssessments ?w = deriveAssessments b" using deriveAssessments_truncate [of ?w] unfolding t by simp
qed

lemma checkDerived_Nil_iff:
  assumes "wellLinked tid b"
  shows "checkDecisionBasisV1 tid (derived b) = [] \<longleftrightarrow>
    distinct (map dispositionId (candidateDispositions (bundle_draft.decision b)))
    \<and> \<not> (selectedCandidateId (bundle_draft.decision b) \<noteq> None \<and> selectedCandidateOf b (buildGraph b) = None)
    \<and> validateSelectedCandidateBasis (selectedCandidateOf b (buildGraph b)) (bundle_draft.requirementRevision b) (buildGraph b) = []
    \<and> validateEliminations b (buildGraph b) = []
    \<and> validateRiskClaimBasis b (buildGraph b) = []
    \<and> validateDecisionEvidenceClosure b (buildGraph b) = []"
proof -
  have r: "referenceIssues tid b = []" using assms by (simp add: referenceIssues_Nil_iff)
  have "distinct (map claim_assessment.claimId (deriveAssessments b))"
    using assms by (simp add: deriveAssessments_map comp_def distinct_map wellLinked_def)
  note self = validateCanonicalAssessments_self [OF this]
  have sel: "selectedCandidateOf (derived b) = selectedCandidateOf b"
    by (simp add: selectedCandidateOf_def fun_eq_iff)
  have "validateEliminations (derived b) = validateEliminations b"
    "validateRiskClaimBasis (derived b) = validateRiskClaimBasis b"
    "validateDecisionEvidenceClosure (derived b) = validateDecisionEvidenceClosure b"
    by (simp_all add: validateEliminations_def validateRiskClaimBasis_def validateDecisionEvidenceClosure_def Let_def sel fun_eq_iff)
  with self r sel show ?thesis
    by (simp add: checkDecisionBasisV1_def evaluateDecisionBasisWithGraph_def Let_def collectUniqueIds_Nil_iff)
qed

lemma finalizeDraft_ok_iff:
  assumes "wellLinked (completed_status.decisionTaskId s) b"
  shows "(\<exists>v. finalizeDraft \<lparr>draftStatus = s, draftEvents = evs, draftBundle = b\<rparr> = Inr v) \<longleftrightarrow>
    checkDecisionTaskResultInvariants (Succeeded s evs (derived b)) = []"
proof -
  have "evaluateDecisionBasisV1 (completed_status.decisionTaskId s) b = (deriveAssessments b, [])"
    using assms referenceIssues_Nil_iff [of "completed_status.decisionTaskId s" b]
    by (simp add: evaluateDecisionBasisV1_def evaluateDecisionBasisWithGraph_def Let_def)
  then show ?thesis by (simp add: finalizeDraft_def Let_def)
qed

section \<open>The fixture bundle is well linked and supported\<close>

lemma fixture_dates [simp]:
  "dateParse observedAtFixture = Some 1786536000000"
  "dateParse validUntilFixture = Some 1787140800000"
  by code_simp+

lemma fixture_live [simp]:
  "\<not> utcBefore observedAtFixture observedAtFixture"
  "\<not> utcBefore validUntilFixture observedAtFixture"
  by (simp_all add: utcBefore_iff)

abbreviation fixtureBundle :: "requirement_revision \<Rightarrow> bundle_draft" where
  "fixtureBundle r \<equiv>
     \<lparr>bundle_draft.requirementRevision = r,
      candidates = fixtureCandidates (requirement_revision.decisionTaskId r),
      claims = fixtureClaims (requirement_revision.decisionTaskId r),
      evidence = fixtureEvidence (requirement_revision.decisionTaskId r),
      claimEvidenceLinks = fixtureLinks (requirement_revision.decisionTaskId r),
      decision = fixtureDecision (requirement_revision.decisionTaskId r) r\<rparr>"

lemma decimal_digit: "n < 10 \<Longrightarrow> decimal n = [digitChar n]"
  by (subst decimal.simps) simp

lemma fixtureDecision_dates [simp]:
  "validFrom (fixtureDecision tid r) = observedAtFixture"
  "decision_revision.validUntil (fixtureDecision tid r) = validUntilFixture"
  by (simp_all add: fixtureDecision_def Let_def)

lemmas fixture_data = fixtureCandidates_def fixtureCandidate_def fixtureClaims_def fixtureClaim_def
  fixtureEvidence_def buildEvidence_def fixtureLinks_def

lemma fixture_ids:
  "map candidate.candidateId (fixtureCandidates tid) = [''candidate-synth-a'', ''candidate-synth-b'']"
  "map claim.claimId (fixtureClaims tid) = [''claim-synth-a-price'', ''claim-synth-a-memory-upgradeable'',
     ''claim-synth-a-memory-capacity'', ''claim-synth-a-storage-capacity'', ''claim-synth-b-price'',
     ''claim-synth-b-memory-capacity'', ''claim-synth-b-storage-capacity'']"
  "map evidence.evidenceId (fixtureEvidence tid) = [''evidence-synth-a-price'', ''evidence-synth-a-memory-upgradeable'',
     ''evidence-synth-a-memory-capacity'', ''evidence-synth-a-storage-capacity'', ''evidence-synth-b-price'',
     ''evidence-synth-b-memory-capacity'', ''evidence-synth-b-storage-capacity'']"
  "map (\<lambda>l. (claim_evidence_link.claimId l, claim_evidence_link.evidenceId l)) (fixtureLinks tid) =
     zip (map claim.claimId (fixtureClaims tid)) (map evidence.evidenceId (fixtureEvidence tid))"
  by (simp_all add: fixture_data)

lemma fixture_wellLinked: "wellLinked (requirement_revision.decisionTaskId r) (fixtureBundle r)"
  unfolding wellLinked_def
  by (simp add: fixture_data decimal_digit digitChar_def linkPair_def nulKey_def)

lemma fixture_supported: "c \<in> set (fixtureClaims tid) \<Longrightarrow> requirement_revision.decisionTaskId r = tid \<Longrightarrow> claimSupported (fixtureBundle r) c"
  unfolding claimSupported_def liveEvidence_def
  by (auto simp: fixture_data)

lemma fixture_live_evidence:
  "liveEvidence (fixtureBundle r) ''claim-synth-a-price'' SUPPORTS = {''evidence-synth-a-price''}"
  "liveEvidence (fixtureBundle r) ''claim-synth-a-memory-upgradeable'' SUPPORTS = {''evidence-synth-a-memory-upgradeable''}"
  "liveEvidence (fixtureBundle r) ''claim-synth-a-memory-capacity'' SUPPORTS = {''evidence-synth-a-memory-capacity''}"
  "liveEvidence (fixtureBundle r) ''claim-synth-a-storage-capacity'' SUPPORTS = {''evidence-synth-a-storage-capacity''}"
  "liveEvidence (fixtureBundle r) ''claim-synth-b-price'' SUPPORTS = {''evidence-synth-b-price''}"
  by (auto simp: liveEvidence_def fixture_data)

lemma fixture_facts_price:
  "factClaims (fixtureBundle r) ''candidate-synth-a'' ''price.observed'' =
    [fixtureClaim (requirement_revision.decisionTaskId r) ''claim-synth-a-price'' ''candidate-synth-a'' ''price.observed'' (MONEY 769900)]"
  "factClaims (fixtureBundle r) ''candidate-synth-b'' ''price.observed'' =
    [fixtureClaim (requirement_revision.decisionTaskId r) ''claim-synth-b-price'' ''candidate-synth-b'' ''price.observed'' (MONEY 839900)]"
  by (simp_all add: factClaims_def claimIndexKey_def nulKey_def fixture_data)

lemma fixture_facts_a:
  "factClaims (fixtureBundle r) ''candidate-synth-a'' pr = 
    filter (\<lambda>c. predicate c = pr) (take 4 (fixtureClaims (requirement_revision.decisionTaskId r)))"
  by (simp add: factClaims_def claimIndexKey_def nulKey_def fixture_data eq_commute[of pr])

lemma fixture_events:
  "runEventIssues tid rid 9 ''2026-08-12T12:00:08.000Z'' (fixtureRunEvents tid rid) = []"
  "successEventIssues (fixtureRunEvents tid rid) = []"
  by code_simp+

lemma fixture_facts_must:
  "trustedFact (fixtureBundle r) ''candidate-synth-a'' pr (readQuantity un) v \<longleftrightarrow>
    (pr, un, v) \<in> {(''memory.capacity'', ''GiB'', 32), (''storage.capacity'', ''TiB'', 1)}"
proof -
  have sup: "(\<forall>c \<in> set (filter P (take 4 (fixtureClaims (requirement_revision.decisionTaskId r)))).
      claimSupported (fixtureBundle r) c \<and> Q c) \<longleftrightarrow>
      (\<forall>c \<in> set (filter P (take 4 (fixtureClaims (requirement_revision.decisionTaskId r)))). Q c)" for P Q
    using fixture_supported [OF _ refl, of _ r] by (metis filter_is_subset in_set_takeD subset_code(1))
  show ?thesis
    unfolding trustedFact_def fixture_facts_a sup
    by (simp add: fixtureClaims_def fixtureClaim_def readQuantity_def) blast
qed

lemma fixture_facts_money:
  "trustedFact (fixtureBundle r) ''candidate-synth-a'' ''price.observed'' readMoney 769900"
  "trustedFact (fixtureBundle r) ''candidate-synth-b'' ''price.observed'' readMoney 839900"
  unfolding trustedFact_def fixture_facts_price
  using fixture_supported [of _ "requirement_revision.decisionTaskId r" r]
  by (auto simp: fixtureClaims_def fixtureClaim_def readMoney_def)

text \<open>The must-haves that the claims about laptop A show to be satisfied.\<close>

definition fixtureSatisfies :: "requirement_constraint \<Rightarrow> bool" where
  "fixtureSatisfies con \<longleftrightarrow>
     (requirement_constraint.key con = ''memory.capacity'' \<and> unitName (required con) = ''GiB''
        \<and> satisfiesOperator (operator con) 32 (amount (required con)))
     \<or> (requirement_constraint.key con = ''storage.capacity'' \<and> unitName (required con) = ''TiB''
        \<and> satisfiesOperator (operator con) 1 (amount (required con)))"

lemma fixture_must:
  "assessmentStatus (assessCandidateConstraint ''candidate-synth-a'' con (buildGraph (fixtureBundle r))) = SATISFIED
    \<longleftrightarrow> fixtureSatisfies con"
  unfolding mustHaveAssessment(1) [OF fixture_wellLinked] fixture_facts_must fixtureSatisfies_def
  by auto

lemma fixture_evidence_live:
  "trustedEvidence (fixtureBundle r) ''candidate-synth-a'' pr \<subseteq> set (map evidence.evidenceId (fixtureEvidence tid))"
proof -
  have "liveEvidence (fixtureBundle r) cid dir \<subseteq> set (map evidence.evidenceId (fixtureEvidence tid))" for cid dir
  proof -
    have "liveEvidence (fixtureBundle r) cid dir \<subseteq> set (map evidence.evidenceId (fixtureEvidence (requirement_revision.decisionTaskId r)))"
      unfolding liveEvidence_def by clarsimp (metis image_eqI)
    also have "\<dots> = set (map evidence.evidenceId (fixtureEvidence tid))" unfolding fixture_ids ..
    finally show ?thesis .
  qed
  then show ?thesis unfolding trustedEvidence_def by (rule UN_least)
qed

lemma fixture_candidates:
  "candidatesById (buildGraph (fixtureBundle r)) ''candidate-synth-a'' = Some (fixtureCandidates (requirement_revision.decisionTaskId r) ! 0)"
  "candidatesById (buildGraph (fixtureBundle r)) ''candidate-synth-b'' = Some (fixtureCandidates (requirement_revision.decisionTaskId r) ! 1)"
  by (simp_all add: buildGraph_def mapFrom_def fixture_data)

lemma fixture_prices [simp]:
  "candidate.candidateId (fixtureCandidates tid ! 0) = ''candidate-synth-a''"
  "candidate.candidateId (fixtureCandidates tid ! Suc 0) = ''candidate-synth-b''"
  "amountMinor (observedPrice (fixtureCandidates tid ! 0)) = 769900"
  "amountMinor (observedPrice (fixtureCandidates tid ! Suc 0)) = 839900"
  by (simp_all add: fixture_data)

lemma fixture_budget:
  "assessmentStatus (assessCandidateBudgetConstraint (fixtureCandidates (requirement_revision.decisionTaskId r) ! 0) bud (buildGraph (fixtureBundle r)))
     = (if 769900 \<le> maxAmountMinor bud then SATISFIED else VIOLATED)"
  "assessmentStatus (assessCandidateBudgetConstraint (fixtureCandidates (requirement_revision.decisionTaskId r) ! Suc 0) bud (buildGraph (fixtureBundle r)))
     = (if 839900 \<le> maxAmountMinor bud then SATISFIED else VIOLATED)"
  "set (assessmentEvidenceIds (assessCandidateBudgetConstraint (fixtureCandidates (requirement_revision.decisionTaskId r) ! Suc 0) bud (buildGraph (fixtureBundle r))))
     = {''evidence-synth-b-price''}"
  using budgetAssessment [OF fixture_wellLinked, of "fixtureCandidates (requirement_revision.decisionTaskId r) ! 0" bud r]
    budgetAssessment [OF fixture_wellLinked, of "fixtureCandidates (requirement_revision.decisionTaskId r) ! Suc 0" bud r]
    fixture_facts_money [of r]
  by (simp_all add: trustedEvidence_def fixture_facts_price fixtureClaim_def fixture_live_evidence)

lemma fixture_closure:
  "validateDecisionEvidenceClosure (fixtureBundle r) (buildGraph (fixtureBundle r)) = []"
proof -
  let ?b = "fixtureBundle r" and ?tid = "requirement_revision.decisionTaskId r"
  have cited: "decision_revision.evidenceIds (fixtureDecision ?tid r) = map evidence.evidenceId (fixtureEvidence ?tid)"
    by (simp add: fixtureDecision_def Let_def)
  have present: "evidenceById (buildGraph ?b) eid \<noteq> None" if "eid \<in> evidence.evidenceId ` set (fixtureEvidence ?tid)" for eid
    using that mapFrom_None_iff [of evidence.evidenceId "fixtureEvidence ?tid" eid] by (simp add: buildGraph_def)
  have bud: "set (assessmentEvidenceIds (assessCandidateBudgetConstraint (fixtureCandidates ?tid ! 0) bud (buildGraph ?b)))
      \<subseteq> set (map evidence.evidenceId (fixtureEvidence ?tid))" for bud
    using budgetAssessment(2) [OF fixture_wellLinked, of "fixtureCandidates ?tid ! 0" bud r]
      fixture_evidence_live [of r "''price.observed''" ?tid] by simp
  have must: "set (assessmentEvidenceIds (assessCandidateConstraint ''candidate-synth-a'' con (buildGraph ?b)))
      \<subseteq> set (map evidence.evidenceId (fixtureEvidence ?tid))" for con
    using mustHaveAssessment(3) [OF fixture_wellLinked, of "''candidate-synth-a''" con r]
      fixture_evidence_live [of r "requirement_constraint.key con" ?tid] by simp
  have id: "selectedCandidateId (fixtureDecision ?tid r) = None
      \<or> selectedCandidateId (fixtureDecision ?tid r) = Some ''candidate-synth-a''"
    by (simp add: fixtureDecision_def Let_def)
  have sel: "selectedCandidateOf ?b (buildGraph ?b) = None \<or>
      selectedCandidateOf ?b (buildGraph ?b) = Some (fixtureCandidates ?tid ! 0)"
    using id fixture_candidates(1) [of r] by (auto simp: selectedCandidateOf_def)
  have ne: "map evidence.evidenceId (fixtureEvidence ?tid) \<noteq> []" by (simp add: fixture_ids)
  show ?thesis
    unfolding validateDecisionEvidenceClosure_def Let_def bundle_draft.simps cited append_is_Nil_conv report_Nil_iff forEach_Nil_iff
    using sel ne present
    by (auto simp: uncitedIssues_Nil_iff forEach_Nil_iff
        dest!: subsetD [OF bud] subsetD [OF must] split: option.splits)
qed

lemma fixtureDecision_sel:
  "decision_revision.status (fixtureDecision tid r) =
     (if budgetNeedsConfirmation r \<or> needsPreference r then NEED_MORE_INFO else BUY_IF_PRICE)"
  "selectedCandidateId (fixtureDecision tid r) =
     (if budgetNeedsConfirmation r \<or> needsPreference r then None else Some ''candidate-synth-a'')"
  "candidateDispositions (fixtureDecision tid r) =
     (if budgetNeedsConfirmation r \<or> needsPreference r then [] else
         [\<lparr>candidate_disposition.dispositionId = ''disposition-synth-b-budget'',
           candidateId = ''candidate-synth-b'', requirementKey = ''budget.maxAmountMinor'',
           reason = ''The synthetic observed price of 8399 yuan exceeds the hard budget of 8000 yuan'',
           evidenceIds = [''evidence-synth-b-price'']\<rparr>])"
  "risks (fixtureDecision tid r) =
     (if budgetNeedsConfirmation r \<or> needsPreference r then [] else
         [\<lparr>decision_risk.riskId = ''risk-synth-memory-upgradeable'', candidateId = ''candidate-synth-a'',
           statementClaimId = ''claim-synth-a-memory-upgradeable'',
           riskVerification = ''The user checks the official specification of the exact SKU before buying''\<rparr>])"
  "decision_revision.evidenceIds (fixtureDecision tid r) = map evidence.evidenceId (fixtureEvidence tid)"
  by (simp_all add: fixtureDecision_def Let_def)

lemma fixture_risk:
  "validateRiskClaimBasis (fixtureBundle r) (buildGraph (fixtureBundle r)) = []"
proof -
  let ?b = "fixtureBundle r" and ?tid = "requirement_revision.decisionTaskId r"
  let ?c = "fixtureClaims ?tid ! Suc 0"
  have mem: "?c \<in> set (claims ?b)" by (simp add: fixtureClaims_def)
  have cid: "claim.claimId ?c = ''claim-synth-a-memory-upgradeable''" "subjectId ?c = ''candidate-synth-a''"
    by (simp_all add: fixtureClaims_def fixtureClaim_def)
  have d: "distinct (map claim.claimId (claims ?b))" "distinct (map evidence.evidenceId (bundle_draft.evidence ?b))"
    using fixture_wellLinked [of r] by (simp_all add: wellLinked_def)
  have c: "claimsById (buildGraph ?b) ''claim-synth-a-memory-upgradeable'' = Some ?c"
    using mapFrom_distinct [OF d(1) mem] by (simp add: buildGraph_def cid)
  have a: "claimAssessmentsById (buildGraph ?b) ''claim-synth-a-memory-upgradeable'' = Some (assessmentOf ?b ?c)"
    using claimAssessmentsById_buildGraph [OF d(1) mem] by (simp add: cid)
  have st: "evidenceState (assessmentOf ?b ?c) = SUPPORTED"
    using assessmentOf_SUPPORTED_iff [OF d(2), of ?c] fixture_supported [OF _ refl, of ?c r] mem by simp
  have "set (supportingEvidenceIds (assessmentOf ?b ?c)) = {''evidence-synth-a-memory-upgradeable''}"
    using assessmentOf_evidence(1) [OF d(2), of ?c] by (simp add: cid fixture_live_evidence)
  moreover have "distinct (supportingEvidenceIds (assessmentOf ?b ?c))" using assessmentOf_canonical by blast
  ultimately have ids: "supportingEvidenceIds (assessmentOf ?b ?c) = [''evidence-synth-a-memory-upgradeable'']"
    using distinct_set_single by metis
  have "riskClaimIssues (fixtureDecision ?tid r) (buildGraph ?b) 0
      \<lparr>decision_risk.riskId = ''risk-synth-memory-upgradeable'', candidateId = ''candidate-synth-a'',
           statementClaimId = ''claim-synth-a-memory-upgradeable'',
           riskVerification = ''The user checks the official specification of the exact SKU before buying''\<rparr> = []"
    if "\<not> (budgetNeedsConfirmation r \<or> needsPreference r)"
    using that by (simp add: riskClaimIssues_def Let_def fixture_candidates fixtureDecision_sel c a cid st ids fixture_ids)
  then show ?thesis by (simp add: validateRiskClaimBasis_def fixtureDecision_sel)
qed

lemma fixture_eliminations:
  assumes "\<not> budgetNeedsConfirmation r" and "\<not> needsPreference r" and "budget r = Some bud"
  shows "validateEliminations (fixtureBundle r) (buildGraph (fixtureBundle r)) = [] \<longleftrightarrow> hard bud"
proof -
  let ?b = "fixtureBundle r" and ?tid = "requirement_revision.decisionTaskId r"
  let ?dsp = "\<lparr>candidate_disposition.dispositionId = ''disposition-synth-b-budget'',
           candidateId = ''candidate-synth-b'', requirementKey = ''budget.maxAmountMinor'',
           reason = ''The synthetic observed price of 8399 yuan exceeds the hard budget of 8000 yuan'',
           evidenceIds = [''evidence-synth-b-price'']\<rparr>"
  have hb: "confirmedHardBudget r = (if hard bud then Some bud else None)"
    using assms(1,3) by (auto simp: confirmedHardBudget_def budgetNeedsConfirmation_def)
  have wl: "wellLinked ?tid ?b" by (rule fixture_wellLinked)
  have ev: "evidenceById (buildGraph ?b) ''evidence-synth-b-price'' = Some (fixtureEvidence ?tid ! 4)"
    by (simp add: buildGraph_def mapFrom_def fixture_data)
  have cl: "claimsById (buildGraph ?b) ''claim-synth-b-price'' = Some (fixtureClaims ?tid ! 4)"
    by (simp add: buildGraph_def mapFrom_def fixture_data)
  have lk: "getOrEmpty (linksByEvidenceId (buildGraph ?b)) ''evidence-synth-b-price'' = [fixtureLinks ?tid ! 4]"
    by (simp add: buildGraph_def getOrEmpty_groupBy fixtureLinks_def)
  have s4: "subjectId (fixtureClaims ?tid ! 4) = ''candidate-synth-b''"
    "claim_evidence_link.claimId (fixtureLinks ?tid ! 4) = ''claim-synth-b-price''"
    by (simp_all add: fixture_data)
  have evi: "dispositionEvidenceIssues p ?dsp (buildGraph ?b) = []" for p
    by (simp add: dispositionEvidenceIssues_def ev lk s4 cl)
  have key: "''budget.maxAmountMinor'' \<in> set (hardConstraintKeys r) \<and> provesViolation ?dsp r (buildGraph ?b)
      \<longleftrightarrow> hard bud"
  proof (cases "hard bud")
    case True
    with assms have "maxAmountMinor bud < 839900"
      by (auto simp: needsPreference_def)
    with True show ?thesis
      using fixture_budget(2,3) [of r bud]
      by (simp add: hardConstraintKeys_set provesViolation_def Let_def assessDispositionConstraint_def hb fixture_candidates)
  next
    case False
    then show ?thesis
      by (simp add: provesViolation_def Let_def assessDispositionConstraint_def hb createIndeterminateAssessment_def split: option.splits)
  qed
  have "dispositionIssues p (Some ''candidate-synth-a'') [] r (buildGraph ?b) ?dsp = [] \<longleftrightarrow> hard bud" for p
    using key by (auto simp: dispositionIssues_def Let_def fixture_candidates evi)
  then show ?thesis
    using assms(1,2)
    by (simp add: validateEliminations_def fixtureDecision_sel Let_def fixtureCandidates_def fixtureCandidate_def)
qed

lemma syntheticDraft_ok_iff:
  "(\<exists>v. finalizeDraft (syntheticDraft r rid) = Inr v) \<longleftrightarrow>
     budgetNeedsConfirmation r
     \<or> (\<exists>bud. budget r = Some bud \<and> hard bud \<and> 780000 \<le> maxAmountMinor bud
          \<and> (839900 \<le> maxAmountMinor bud \<or> list_all fixtureSatisfies (mustHaves r)))"
proof -
  let ?tid = "requirement_revision.decisionTaskId r"
  let ?b = "fixtureBundle r"
  let ?s = "\<lparr>completed_status.decisionTaskId = ?tid,
        agentRunId = rid, latestEventSequence = 9,
        decisionRevisionId = decision_revision.decisionRevisionId (fixtureDecision ?tid r),
        updatedAt = ''2026-08-12T12:00:08.000Z''\<rparr>"
  have last: "run_event.sequence (last (fixtureRunEvents ?tid rid)) = 9"
     "run_event.occurredAt (last (fixtureRunEvents ?tid rid)) = ''2026-08-12T12:00:08.000Z''"
    by code_simp+
  have draft: "syntheticDraft r rid = \<lparr>draftStatus = ?s, draftEvents = fixtureRunEvents ?tid rid, draftBundle = ?b\<rparr>"
    by (simp add: syntheticDraft_def draftOfOutput_def buildSyntheticLaptopRunOutput_def Let_def last)
  have own: "ownershipIssues ?s (derived ?b) = []"
    by (simp add: ownershipIssues_def Let_def fixtureDecision_def)
  have st: "decision_revision.status (fixtureDecision ?tid r) = BUY_IF_PRICE \<or> decision_revision.status (fixtureDecision ?tid r) = NEED_MORE_INFO"
    by (simp add: fixtureDecision_sel)
  note dvalid = validateSelectedCandidateBasis_def
  have sel: "selectedCandidateOf ?b (buildGraph ?b) = (if budgetNeedsConfirmation r \<or> needsPreference r then None
      else Some (fixtureCandidates ?tid ! 0))"
    using fixture_candidates(1) [of r] by (simp add: selectedCandidateOf_def fixtureDecision_sel)
  have all: "(\<exists>v. finalizeDraft (syntheticDraft r rid) = Inr v) \<longleftrightarrow>
      decisionIssues (derived ?b) = []
      \<and> validateSelectedCandidateBasis (selectedCandidateOf ?b (buildGraph ?b)) r (buildGraph ?b) = []
      \<and> validateEliminations ?b (buildGraph ?b) = []"
    unfolding draft
    using st own
    by (subst finalizeDraft_ok_iff)
       (simp_all add: fixture_wellLinked checkDerived_Nil_iff [OF fixture_wellLinked] fixture_events fixture_closure fixture_risk
          fixtureDecision_sel sel)
  show ?thesis
  proof (cases "budgetNeedsConfirmation r \<or> needsPreference r")
    case True
    have "decisionIssues (derived ?b) = []"
      using True
      by (auto simp: decisionIssues_def Let_def fixtureDecision_def unconfirmedBudgetIssues_def needMoreInfoIssues_def
         asks_iff nextStepIssues_def needsPreference_def)
    moreover have "validateEliminations ?b (buildGraph ?b) = []"
      using True by (simp add: validateEliminations_def fixtureDecision_sel)
    ultimately show ?thesis
      unfolding all sel using True
      by (auto simp: dvalid needsPreference_def split: option.splits)
  next
    case False
    then obtain bud where bud: "budget r = Some bud" "confirmed bud"
      by (auto simp: budgetNeedsConfirmation_def split: option.splits)
    have hb: "confirmedHardBudget r = (if hard bud then Some bud else None)"
      using bud by (auto simp: confirmedHardBudget_def)
    have dec: "decisionIssues (derived ?b) = [] \<longleftrightarrow> (hard bud \<longrightarrow> 780000 \<le> maxAmountMinor bud)"
      using False hb
      by (simp add: decisionIssues_def Let_def fixtureDecision_def buyIfPriceGapIssues_def conditionIssues_def exceedsHardBudget_def
         asks_iff nextStepIssues_def hasCondition_def fixtureCandidates_def fixtureCandidate_def split: option.splits)
    have must: "validateSelectedCandidateBasis (Some (fixtureCandidates ?tid ! 0)) r (buildGraph ?b) = []
      \<longleftrightarrow> (hard bud \<longrightarrow> 769900 \<le> maxAmountMinor bud) \<and> list_all fixtureSatisfies (mustHaves r)"
      using hb by (simp add: dvalid fixture_budget fixture_must list_all_iff)
    have pref: "\<not> (hard bud \<and> 839900 \<le> maxAmountMinor bud)"
      using False bud by (auto simp: needsPreference_def)
    show ?thesis
      unfolding all sel using False bud dec must pref fixture_eliminations [OF _ _ bud(1)] by auto
  qed
qed
text \<open>
  The orchestrator forms a result from the synthetic runtime's output exactly when the budget still
  has to be confirmed, or it is hard and at least 7800 yuan and, unless it admits both laptops, the
  must-haves are ones that the memory and storage claims of laptop A satisfy; for every other
  requirement (a soft budget, a hard budget below the price condition, any other must-have) it fails.
\<close>

theorem synthetic_result_iff:
  "(\<exists>v. finalizeDraft (syntheticDraft r rid) = Inr v) \<longleftrightarrow>
     budgetNeedsConfirmation r
     \<or> (\<exists>bud. budget r = Some bud \<and> hard bud \<and> 780000 \<le> maxAmountMinor bud
          \<and> (839900 \<le> maxAmountMinor bud \<or> list_all fixtureSatisfies (mustHaves r)))"
  by (rule syntheticDraft_ok_iff)

section \<open>A concrete result\<close>

definition sampleRequirement :: requirement_revision where
  "sampleRequirement =
     \<lparr>requirement_revision.requirementRevisionId = ''requirement-1'', decisionTaskId = ''task-1'',
      revision = 1, submittedText = ''A laptop below 8000 yuan'', intendedUses = [''office''],
      budget = Some \<lparr>confirmed = True, hard = True, maxAmountMinor = 800000\<rparr>,
      mustHaves = [\<lparr>requirement_constraint.key = ''memory.capacity'', operator = AT_LEAST,
        required = \<lparr>amount = 16, unitName = ''GiB''\<rparr>\<rparr>],
      niceToHaves = [], mustNotHaves = [], unknowns = []\<rparr>"

definition sampleBundle :: decision_bundle where
  "sampleBundle = derived (fixtureBundle sampleRequirement)"

definition sampleStatus :: completed_status where
  "sampleStatus = draftStatus (syntheticDraft sampleRequirement ''run-1'')"

lemma sample_accepted:
  "checkDecisionTaskResultInvariants
     (Succeeded sampleStatus (fixtureRunEvents ''task-1'' ''run-1'') sampleBundle) = []"
proof -
  have draft: "syntheticDraft sampleRequirement ''run-1'' =
      \<lparr>draftStatus = sampleStatus, draftEvents = fixtureRunEvents ''task-1'' ''run-1'',
       draftBundle = fixtureBundle sampleRequirement\<rparr>"
    by (simp add: sampleStatus_def syntheticDraft_def draftOfOutput_def buildSyntheticLaptopRunOutput_def
        sampleRequirement_def Let_def)
  have tid: "completed_status.decisionTaskId sampleStatus = requirement_revision.decisionTaskId sampleRequirement"
    by (simp add: sampleStatus_def syntheticDraft_def draftOfOutput_def)
  have "\<exists>v. finalizeDraft (syntheticDraft sampleRequirement ''run-1'') = Inr v"
    unfolding syntheticDraft_ok_iff by (simp add: sampleRequirement_def fixtureSatisfies_def satisfiesOperator_def)
  then show ?thesis
    unfolding draft using finalizeDraft_ok_iff [of sampleStatus "fixtureBundle sampleRequirement"]
      fixture_wellLinked [of sampleRequirement] tid
    by (simp add: sampleBundle_def)
qed

lemma sample_basis: "checkDecisionBasisV1 ''task-1'' sampleBundle = []"
  using checkSucceeded_NilD(6) [OF sample_accepted]
  by (simp add: sampleStatus_def syntheticDraft_def draftOfOutput_def sampleRequirement_def)

lemma sample_decision:
  "bundle_draft.decision sampleBundle = fixtureDecision ''task-1'' sampleRequirement"
  "bundle_draft.requirementRevision sampleBundle = sampleRequirement"
  "candidates sampleBundle = fixtureCandidates ''task-1''"
  "selectedCandidateId (fixtureDecision ''task-1'' sampleRequirement) = Some ''candidate-synth-a''"
  "decision_revision.status (fixtureDecision ''task-1'' sampleRequirement) = BUY_IF_PRICE"
  "risks (fixtureDecision ''task-1'' sampleRequirement) \<noteq> []"
  by (simp_all add: sampleBundle_def fixtureDecision_sel sampleRequirement_def budgetNeedsConfirmation_def
      needsPreference_def)

end
