(* ===== verification/CM_Executor_Facts.thy ===== *)
theory CM_Executor_Facts
  imports CM_Executor CM_Fixture_Facts
begin

text \<open>
  What the executor guarantees: every result it forms satisfies the contract's invariants except the
  ones it marks for a retry of the same execution; a request id stays bound to one command and has at
  most one attempt that runs or has a final outcome; the internal route always answers with a valid
  result.
\<close>

section \<open>Results\<close>

lemma createRuntimeFailedResult_valid_iff:
  "checkDecisionTaskResultInvariants (createRuntimeFailedResult tid rid mode) = [] \<longleftrightarrow>
     mode = NEW_EXECUTION_ALLOWED"
proof -
  have "runEventIssues tid rid 2 ''2026-08-12T12:00:01.000Z''
      [\<lparr>run_event.eventId = ''event-synth-runtime-failure-1'', decisionTaskId = tid, agentRunId = rid,
          sequence = 1, occurredAt = ''2026-08-12T12:00:00.000Z'', eventType = TASK_STATE_CHANGED,
          taskState = CREATED, summary = sm1\<rparr>,
         \<lparr>run_event.eventId = ''event-synth-runtime-failure-2'', decisionTaskId = tid, agentRunId = rid,
          sequence = 2, occurredAt = ''2026-08-12T12:00:01.000Z'', eventType = RUNTIME_FAILED,
          taskState = decision_task_state.FAILED, summary = sm2\<rparr>] = []" for sm1 sm2
    by code_simp
  then show ?thesis
    by (simp add: createRuntimeFailedResult_def Let_def errorSemanticsIssues_def errorSemanticsByCode_def
        failedResultIssues_def finalEventIssues_def lastOpt_def)
qed

lemma finalizeSuccessful_valid:
  "finalizeSuccessfulDecisionTaskResultV1 z sh input = Inr r \<Longrightarrow> checkDecisionTaskResultInvariants r = []"
  by (auto simp: finalizeSuccessfulDecisionTaskResultV1_def finalizeDraft_def Let_def split: sum.splits if_splits)

lemma finalizeRuntimeOutput_cases:
  "(\<exists>v. finalizeRuntimeOutput env cmd rid out = \<lparr>attemptResult = v, persistentOutcome = OutcomeResult v\<rparr>
      \<and> checkDecisionTaskResultInvariants v = [])
   \<or> finalizeRuntimeOutput env cmd rid out = createFailedExecutionAttempt
       (requirement_revision.decisionTaskId (execute_command.requirementRevision cmd)) rid"
  using finalizeSuccessful_valid
  by (fastforce simp: finalizeRuntimeOutput_def Let_def split: sum.splits)

text \<open>
  The result of an execution satisfies the invariants of the contract exactly when its outcome is
  not retryable: a retryable outcome gives a result with code AGENT_RUNTIME_FAILED and retry mode
  SAME_EXECUTION_ONLY, which the contract's fixed error semantics forbid.
\<close>

theorem executeOnce_valid_iff:
  "checkDecisionTaskResultInvariants (attemptResult (executeOnce env cmd ctx persist reply)) = [] \<longleftrightarrow>
     \<not> isRetryableOutcome (persistentOutcome (executeOnce env cmd ctx persist reply))"
proof -
  have failed: "checkDecisionTaskResultInvariants (attemptResult (createFailedExecutionAttempt tid rid)) = []
      \<and> \<not> isRetryableOutcome (persistentOutcome (createFailedExecutionAttempt tid rid))" for tid rid
    by (simp add: createFailedExecutionAttempt_def createRuntimeFailedResult_valid_iff isRetryableOutcome_def)
  have final: "checkDecisionTaskResultInvariants (attemptResult (finalizeRuntimeOutput env cmd rid out)) = []
      \<and> \<not> isRetryableOutcome (persistentOutcome (finalizeRuntimeOutput env cmd rid out))" for rid out
    using finalizeRuntimeOutput_cases [of env cmd rid out] failed by (auto simp: isRetryableOutcome_def)
  show ?thesis
  proof (cases reply)
    case (Returned out)
    show ?thesis
    proof (cases "decodeRuntimePausedOutcomeV1 (envFormats env) (envPaused env) out")
      case (Inr p)
      with Returned show ?thesis
        by (simp add: executeOnce_def Let_def createRuntimeFailedResult_valid_iff isRetryableOutcome_def)
    next
      case (Inl e)
      show ?thesis
      proof (cases "isExplicitRuntimeOutcome out")
        case None
        with Returned Inl show ?thesis using final by (simp add: executeOnce_def Let_def)
      next
        case (Some p)
        with Returned Inl show ?thesis
          by (cases p; cases "fst p")
             (simp_all add: executeOnce_def Let_def createRuntimeFailedResult_valid_iff isRetryableOutcome_def)
      qed
    qed
  next
    case (Threw err)
    then show ?thesis
      using failed by (simp add: executeOnce_def Let_def createRuntimeFailedResult_valid_iff isRetryableOutcome_def)
  qed
qed

text \<open>
  The internal route answers every request, whatever its body and whatever the executor returns or
  throws, with a result that satisfies the invariants and with the status of that result: 200 exactly
  for a success, 502 for a failed task, and 400, 422 or 503 for a rejection.
\<close>

theorem executeRoute_valid:
  "checkDecisionTaskResultInvariants (snd (executeRoute z csh rsh execute now body)) = []
   \<and> fst (executeRoute z csh rsh execute now body) =
       getDecisionTaskResultHttpStatusV1 (snd (executeRoute z csh rsh execute now body))
   \<and> fst (executeRoute z csh rsh execute now body) \<in> {200, 400, 422, 502, 503}"
proof -
  have statuses: "getDecisionTaskResultHttpStatusV1 r \<in> {200, 400, 422, 502, 503}" for r
    by (cases r) (simp_all add: getDecisionTaskResultHttpStatusV1_def)
  have codes: "decodeExecuteDecisionTaskCommandV1 csh body = Inl (c, is) \<Longrightarrow>
      c = CONTRACT_INVALID \<or> c = CONTRACT_VERSION_UNSUPPORTED" for c "is"
    by (auto simp: decodeExecuteDecisionTaskCommandV1_def unsupportedVersionResult_def
        split: option.splits sum.splits)
  have rejected: "c = CONTRACT_INVALID \<or> c = CONTRACT_VERSION_UNSUPPORTED \<Longrightarrow>
      checkDecisionTaskResultInvariants (createContractRejectedDecisionTaskResultV1 eid c is t) = []" for c eid "is" t
    by (auto simp: createContractRejectedDecisionTaskResultV1_def errorSemanticsIssues_def errorSemanticsByCode_def Let_def)
  have unknown: "checkDecisionTaskResultInvariants (createUnknownDecisionExecutionResultV1 eid t) = []" for eid t
    by (simp add: createUnknownDecisionExecutionResultV1_def errorSemanticsIssues_def errorSemanticsByCode_def)
  show ?thesis
    using rejected [OF codes] unknown statuses
    by (auto simp: executeRoute_def Let_def result_dec.decode_Inr_iff split: sum.splits runtime_reply.splits)
qed

section \<open>Receipts\<close>

definition retryablySettled :: "promise \<Rightarrow> bool" where
  "retryablySettled p \<longleftrightarrow> (\<exists>a. promiseValue p = Some a \<and> isRetryableOutcome (persistentOutcome a))"

text \<open>
  Every promise belongs to a receipt of its request with its fingerprint, and is the receipt's active
  attempt unless it has settled as retryable; the active attempt has not.
\<close>

definition executor_inv :: "executor_state \<Rightarrow> bool" where
  "executor_inv s \<longleftrightarrow>
     (\<forall>n < length (promises s). \<exists>r. receipts s (promiseRequest (promises s ! n)) = Some r
        \<and> fingerprint r = promiseFingerprint (promises s ! n)
        \<and> (activeAttempt r \<noteq> Some n \<longrightarrow> retryablySettled (promises s ! n)))
     \<and> (\<forall>reqId r n. receipts s reqId = Some r \<longrightarrow> activeAttempt r = Some n \<longrightarrow>
        n < length (promises s) \<and> promiseRequest (promises s ! n) = reqId
        \<and> \<not> retryablySettled (promises s ! n))"

lemma startAttempt_inv:
  assumes inv: "executor_inv s"
    and new: "receipts s reqId = None \<or> (\<exists>r. receipts s reqId = Some r \<and> fingerprint r = fp \<and> activeAttempt r = None)"
    and step: "startAttempt reqId fp s = (answer, s')"
  shows "executor_inv s'"
proof -
  let ?p = "\<lparr>promiseRequest = reqId, promiseFingerprint = fp, promiseValue = None\<rparr>"
  have s': "promises s' = promises s @ [?p]"
    "receipts s' = (receipts s)(reqId \<mapsto> \<lparr>fingerprint = fp, activeAttempt = Some (length (promises s))\<rparr>)"
    using step by (auto simp: startAttempt_def Let_def)
  have old: "\<exists>r. receipts s' (promiseRequest (promises s ! n)) = Some r
        \<and> fingerprint r = promiseFingerprint (promises s ! n)
        \<and> (activeAttempt r \<noteq> Some n \<longrightarrow> retryablySettled (promises s ! n))" if n: "n < length (promises s)" for n
  proof -
    obtain r where "receipts s (promiseRequest (promises s ! n)) = Some r"
      and "fingerprint r = promiseFingerprint (promises s ! n)"
      and "activeAttempt r \<noteq> Some n \<longrightarrow> retryablySettled (promises s ! n)"
      using inv n unfolding executor_inv_def by blast
    then show ?thesis using new n s'(2) by (cases "promiseRequest (promises s ! n) = reqId") auto
  qed
  show ?thesis
    unfolding executor_inv_def
  proof (intro conjI allI impI)
    fix n
    assume "n < length (promises s')"
    then show "\<exists>r. receipts s' (promiseRequest (promises s' ! n)) = Some r
        \<and> fingerprint r = promiseFingerprint (promises s' ! n)
        \<and> (activeAttempt r \<noteq> Some n \<longrightarrow> retryablySettled (promises s' ! n))"
      using old [of n] s' by (cases "n < length (promises s)") (auto simp: nth_append less_Suc_eq)
  next
    fix q r n
    assume r: "receipts s' q = Some r" and a: "activeAttempt r = Some n"
    have "n < length (promises s') \<and> promiseRequest (promises s' ! n) = q \<and> \<not> retryablySettled (promises s' ! n)"
    proof (cases "q = reqId")
      case True
      with r a s' show ?thesis by (auto simp: retryablySettled_def)
    next
      case False
      with r s'(2) have "receipts s q = Some r" by simp
      with inv a have "n < length (promises s) \<and> promiseRequest (promises s ! n) = q \<and> \<not> retryablySettled (promises s ! n)"
        unfolding executor_inv_def by blast
      with s'(1) show ?thesis by (simp add: nth_append)
    qed
    then show "n < length (promises s')" "promiseRequest (promises s' ! n) = q" "\<not> retryablySettled (promises s' ! n)"
      by blast+
  qed
qed

lemma executeAttempt_inv:
  "executor_inv s \<Longrightarrow> executeAttempt env cmd s = (answer, s') \<Longrightarrow> executor_inv s'"
  using startAttempt_inv [of s "execute_command.executionRequestId cmd" "fingerprintOf env cmd" answer s']
  by (auto simp: executeAttempt_def Let_def split: option.splits if_splits)

lemma settleAttempt_inv:
  assumes inv: "executor_inv s" and n: "n < length (promises s)" and open_p: "promiseValue (promises s ! n) = None"
  shows "executor_inv (settleAttempt n a s)"
proof -
  let ?p = "promises s ! n" and ?t = "settleAttempt n a s"
  have notyet: "\<not> retryablySettled ?p" using open_p by (simp add: retryablySettled_def)
  obtain r where r: "receipts s (promiseRequest ?p) = Some r" "fingerprint r = promiseFingerprint ?p"
    and act: "activeAttempt r = Some n"
    using inv n notyet unfolding executor_inv_def by blast
  have ps: "promises ?t = (promises s)[n := ?p\<lparr>promiseValue := Some a\<rparr>]"
    using r(1) by (simp add: settleAttempt_def Let_def)
  have rs: "receipts ?t = (if isRetryableOutcome (persistentOutcome a)
      then (receipts s)(promiseRequest ?p \<mapsto> r\<lparr>activeAttempt := None\<rparr>) else receipts s)"
    using r(1) act by (simp add: settleAttempt_def Let_def)
  have settled: "retryablySettled (promises ?t ! n) \<longleftrightarrow> isRetryableOutcome (persistentOutcome a)"
    using n ps by (simp add: retryablySettled_def)
  show ?thesis
    unfolding executor_inv_def
  proof (intro conjI allI impI)
    fix m
    assume "m < length (promises ?t)"
    then have m: "m < length (promises s)" using ps by simp
    obtain q where q: "receipts s (promiseRequest (promises s ! m)) = Some q"
        "fingerprint q = promiseFingerprint (promises s ! m)"
        "activeAttempt q \<noteq> Some m \<longrightarrow> retryablySettled (promises s ! m)"
      using inv m unfolding executor_inv_def by blast
    show "\<exists>r. receipts ?t (promiseRequest (promises ?t ! m)) = Some r
        \<and> fingerprint r = promiseFingerprint (promises ?t ! m)
        \<and> (activeAttempt r \<noteq> Some m \<longrightarrow> retryablySettled (promises ?t ! m))"
    proof (cases "m = n")
      case True
      with r act settled n ps rs show ?thesis by auto
    next
      case False
      then have "promises ?t ! m = promises s ! m" using ps by simp
      with False q r act rs show ?thesis by (auto split: if_splits)
    qed
  next
    fix k q m
    assume q: "receipts ?t k = Some q" and a: "activeAttempt q = Some m"
    then have q': "receipts s k = Some q" and ne: "isRetryableOutcome (persistentOutcome a) \<Longrightarrow> k \<noteq> promiseRequest ?p"
      using rs by (auto split: if_splits)
    have m: "m < length (promises s)" "promiseRequest (promises s ! m) = k" "\<not> retryablySettled (promises s ! m)"
      using inv q' a unfolding executor_inv_def by blast+
    show "m < length (promises ?t)" and "promiseRequest (promises ?t ! m) = k"
      using m ps by (cases "m = n"; simp)+
    show "\<not> retryablySettled (promises ?t ! m)"
      using m ne settled ps by (cases "m = n") auto
  qed
qed

interpretation executor: step_invariant initialExecutor "executor_step env" executor_inv for env
proof unfold_locales
  show "executor_inv initialExecutor" by (simp add: executor_inv_def initialExecutor_def)
next
  fix s s'
  assume "executor_inv s" and "executor_step env s s'"
  then show "executor_inv s'"
    by (elim executor_stepE) (auto intro: executeAttempt_inv settleAttempt_inv)
qed

text \<open>
  C3: whatever calls arrive and in whatever order attempts settle, two different attempts for the same
  request id execute commands with the same fingerprint, and at least one of them has settled as
  retryable: no request is ever executed twice at the same time, or again after a final outcome.
\<close>

theorem executor_single_flight:
  assumes "(executor_step env)\<^sup>*\<^sup>* initialExecutor s"
    and "n < length (promises s)" and "m < length (promises s)" and "n \<noteq> m"
    and "promiseRequest (promises s ! n) = promiseRequest (promises s ! m)"
  shows "promiseFingerprint (promises s ! n) = promiseFingerprint (promises s ! m)
    \<and> (retryablySettled (promises s ! n) \<or> retryablySettled (promises s ! m))"
proof -
  have inv: "executor_inv s" using executor.reachable_inv [OF assms(1)] .
  obtain r where "receipts s (promiseRequest (promises s ! n)) = Some r"
    and "fingerprint r = promiseFingerprint (promises s ! n)"
    and "activeAttempt r \<noteq> Some n \<longrightarrow> retryablySettled (promises s ! n)"
    using inv assms(2) unfolding executor_inv_def by blast
  moreover obtain q where "receipts s (promiseRequest (promises s ! m)) = Some q"
    and "fingerprint q = promiseFingerprint (promises s ! m)"
    and "activeAttempt q \<noteq> Some m \<longrightarrow> retryablySettled (promises s ! m)"
    using inv assms(3) unfolding executor_inv_def by blast
  ultimately show ?thesis using assms(4,5) by auto
qed

text \<open>
  A call with a request id already bound to another command starts nothing and changes nothing: it
  is answered at once with a CONTRACT_INVALID rejection that itself satisfies the contract, and a call
  repeating the bound command while an attempt is active is given that attempt.
\<close>

theorem executeAttempt_bound:
  assumes "receipts s (execute_command.executionRequestId cmd) = Some r"
  shows "(fingerprint r \<noteq> fingerprintOf env cmd \<longrightarrow>
        executeAttempt env cmd s = (Immediate conflictAttempt, s)
        \<and> checkDecisionTaskResultInvariants (attemptResult conflictAttempt) = [])
    \<and> (\<forall>n. fingerprint r = fingerprintOf env cmd \<and> activeAttempt r = Some n \<longrightarrow>
        executeAttempt env cmd s = (Pending n, s))"
  using assms
  by (simp add: executeAttempt_def Let_def conflictAttempt_def errorSemanticsIssues_def errorSemanticsByCode_def)

section \<open>Resuming\<close>

text \<open>
  When the runtime asks for manual verification, the paused outcome the executor forms is a
  consistent set of recovery facts, provided the facts it was given are: the snapshot is of this task
  and run, and the receipts are of its checkpoint.
\<close>

theorem resumeFailure_manual_consistent:
  assumes "resumeFailure tid ctx facts c msg perm = OutcomePaused p"
    and "runtime_snapshot.decisionTaskId (factsSnapshot facts) = tid"
    and "runtime_snapshot.agentRunId (factsSnapshot facts) = ctxAgentRunId ctx"
    and "list_all (receiptBelongs (factsSnapshot facts)) (factsReceipts facts)"
  shows "pausedFactsIssues p = [] \<and> paused_outcome.snapshot p = factsSnapshot facts
    \<and> paused_outcome.effectReceipts p = factsReceipts facts"
  using assms
  by (auto simp: resumeFailure_def manualOutcome_def Let_def pausedFactsIssues_def lastOpt_def
      split: option.splits decision_task_state.splits if_splits)

end
