(* ===== verification/CM_Witnesses.thy ===== *)
theory CM_Witnesses
  imports CM_Executor_Facts
begin

text \<open>
  The general properties of the decision basis and of the result invariants at a concrete result:
  the one the synthetic runtime produces for \<open>sampleRequirement\<close>, whose bundle selects a laptop,
  eliminates the other one by its price and states one risk.
\<close>

lemma sample_wellLinked: "wellLinked ''task-1'' sampleBundle"
  using checkDecisionBasisV1_NilD(1) [OF sample_basis] .

lemma sample_draft: "bundle_draft.truncate sampleBundle = fixtureBundle sampleRequirement"
  by (simp add: sampleBundle_def)

lemma sample_candidates: "candidates sampleBundle = fixtureCandidates ''task-1''"
  by (simp add: sample_decision)

lemma sample_claims: "claims sampleBundle = fixtureClaims ''task-1''"
  using truncate_sel(4) [of sampleBundle] by (simp add: sample_draft sampleRequirement_def)

lemma evaluateDecisionBasisV1_assessments_witness:
  "map claim_assessment.claimId (fst (evaluateDecisionBasisV1 ''task-1'' sampleBundle))
     = sort (map claim.claimId (fixtureClaims ''task-1''))"
  using evaluateDecisionBasisV1_assessments [OF sample_wellLinked] by (simp add: sample_claims)

definition reversedSample :: bundle_draft where
  "reversedSample = (fixtureBundle sampleRequirement)
     \<lparr>claims := rev (fixtureClaims ''task-1''), evidence := rev (fixtureEvidence ''task-1''),
      claimEvidenceLinks := rev (fixtureLinks ''task-1'')\<rparr>"

lemma sampleRequirement_task: "requirement_revision.decisionTaskId sampleRequirement = ''task-1''"
  by (simp add: sampleRequirement_def)

lemma distinct_map_rev: "distinct (map f (rev xs)) \<longleftrightarrow> distinct (map f xs)"
  by (simp flip: rev_map)

lemma reversed_wellLinked: "wellLinked ''task-1'' reversedSample"
  using fixture_wellLinked [of sampleRequirement]
  by (simp add: wellLinked_def reversedSample_def sampleRequirement_task distinct_map_rev)

lemma evaluateDecisionBasisV1_order_independent_witness:
  "evaluateDecisionBasisV1 ''task-1'' reversedSample =
   evaluateDecisionBasisV1 ''task-1'' (fixtureBundle sampleRequirement)"
proof (rule evaluateDecisionBasisV1_order_independent)
  show "wellLinked ''task-1'' reversedSample" by (rule reversed_wellLinked)
  show "wellLinked ''task-1'' (fixtureBundle sampleRequirement)"
    using fixture_wellLinked [of sampleRequirement] by (simp add: sampleRequirement_task)
qed (simp_all add: reversedSample_def sampleRequirement_task)

lemma checkDecisionBasisV1_selection_witness:
  "\<exists>c \<in> set (fixtureCandidates ''task-1''). candidate.candidateId c = ''candidate-synth-a''
     \<and> amountMinor (observedPrice c) \<le> 800000"
proof -
  have "selectedCandidateId (bundle_draft.decision sampleBundle) = Some ''candidate-synth-a''"
    by (simp add: sample_decision)
  from checkDecisionBasisV1_selection [OF sample_basis this] show ?thesis
    by (auto simp: sample_decision sampleRequirement_def confirmedHardBudget_def)
qed

lemma checkDecisionBasisV1_eliminations_witness:
  "let dsp = hd (candidateDispositions (fixtureDecision ''task-1'' sampleRequirement))
   in candidate_disposition.candidateId dsp \<in> {''candidate-synth-a'', ''candidate-synth-b''}
      \<and> candidate_disposition.candidateId dsp \<noteq> ''candidate-synth-a'' \<and> provenViolation sampleBundle dsp"
proof -
  have "candidateDispositions (fixtureDecision ''task-1'' sampleRequirement) \<noteq> []"
    by (simp add: fixtureDecision_sel sampleRequirement_def budgetNeedsConfirmation_def needsPreference_def)
  then have "hd (candidateDispositions (bundle_draft.decision sampleBundle))
      \<in> set (candidateDispositions (bundle_draft.decision sampleBundle))"
    by (simp add: sample_decision)
  then show ?thesis
    using checkDecisionBasisV1_eliminations [OF sample_basis]
    by (auto simp: sample_decision fixtureCandidates_def fixtureCandidate_def Let_def)
qed

lemma checkDecisionBasisV1_risks_witness:
  "Some (decision_risk.candidateId (hd (risks (fixtureDecision ''task-1'' sampleRequirement))))
     = Some ''candidate-synth-a''"
proof -
  have "hd (risks (bundle_draft.decision sampleBundle)) \<in> set (risks (bundle_draft.decision sampleBundle))"
    by (simp add: sample_decision)
  from checkDecisionBasisV1_risks [OF sample_basis this] show ?thesis
    by (simp add: sample_decision)
qed

lemma checkDecisionBasisV1_canonical_witness:
  "claimAssessments sampleBundle = fst (evaluateDecisionBasisV1 ''task-1'' sampleBundle)"
  by (rule checkDecisionBasisV1_canonical [OF sample_basis])

lemma factClaims_of_candidate_witness:
  "factClaims sampleBundle ''candidate-synth-b'' ''price.observed'' =
     filter (\<lambda>c. subjectId c = ''candidate-synth-b'' \<and> predicate c = ''price.observed''
                  \<and> claimKind c = FACT_ASSERTION) (fixtureClaims ''task-1'')"
proof -
  have "\<forall>c \<in> set (candidates sampleBundle). nul \<notin> set (candidate.candidateId c)"
    and "''candidate-synth-b'' \<in> candidate.candidateId ` set (candidates sampleBundle)"
    by (simp_all add: sample_decision fixtureCandidates_def fixtureCandidate_def nul_def)
  from factClaims_of_candidate [OF sample_wellLinked this] show ?thesis by (simp add: sample_claims)
qed

lemma accepted_need_more_info_witness:
  "let r = sampleRequirement\<lparr>budget := None\<rparr>;
       draft = syntheticDraft r ''run-1''
   in decision_revision.status (bundle_draft.decision (draftBundle draft)) = NEED_MORE_INFO
      \<and> selectedCandidateId (bundle_draft.decision (draftBundle draft)) = None"
proof -
  let ?r = "sampleRequirement\<lparr>budget := None\<rparr>"
  let ?d = "syntheticDraft ?r ''run-1''"
  have tid: "completed_status.decisionTaskId (draftStatus ?d) = requirement_revision.decisionTaskId ?r"
    by (simp add: syntheticDraft_def draftOfOutput_def)
  have b: "draftBundle ?d = fixtureBundle ?r"
    by (simp add: syntheticDraft_def draftOfOutput_def buildSyntheticLaptopRunOutput_def Let_def)
  have "?d = \<lparr>draftStatus = draftStatus ?d, draftEvents = draftEvents ?d, draftBundle = fixtureBundle ?r\<rparr>"
    using b by (intro result_draft.equality) simp_all
  moreover have "\<exists>v. finalizeDraft ?d = Inr v"
    unfolding syntheticDraft_ok_iff by (simp add: budgetNeedsConfirmation_def)
  ultimately have "checkDecisionTaskResultInvariants
      (Succeeded (draftStatus ?d) (draftEvents ?d) (derived (fixtureBundle ?r))) = []"
    using finalizeDraft_ok_iff [of "draftStatus ?d" "fixtureBundle ?r" "draftEvents ?d"]
      fixture_wellLinked [of ?r] tid by (metis (no_types, lifting))
  from accepted_need_more_info [OF this] show ?thesis
    unfolding Let_def b by (simp add: budgetNeedsConfirmation_def)
qed

lemma accepted_buy_if_price_witness:
  "\<exists>c \<in> set (fixtureCandidates ''task-1''). candidate.candidateId c = ''candidate-synth-a''"
proof -
  have "decision_revision.status (bundle_draft.decision sampleBundle) = BUY_IF_PRICE"
    by (simp add: sample_decision)
  from accepted_buy_if_price [OF sample_accepted this] show ?thesis
    by (auto simp: sample_decision)
qed

lemma accepted_steps_match_witness:
  "{i. \<exists>t. VERIFY_RISK i t \<in> set (nextSteps (fixtureDecision ''task-1'' sampleRequirement))}
     = {''risk-synth-memory-upgradeable''}"
  using accepted_steps_match [OF sample_accepted]
  by (simp add: sample_decision fixtureDecision_sel sampleRequirement_def budgetNeedsConfirmation_def needsPreference_def)

section \<open>The executor\<close>

definition sampleDigest :: string where
  "sampleDigest = replicate 64 (CHR ''a'')"

definition sampleSnapshot :: runtime_snapshot where
  "sampleSnapshot =
     \<lparr>runtime_snapshot.snapshotId = ''snapshot-1'', decisionTaskId = ''task-1'', agentRunId = ''run-1'',
      taskState = decision_task_state.PAUSED PAUSED_USER, resumable = True,
      rawSnapshot = \<lparr>raw_artifact.digest = sampleDigest, objectKey = ''runtime-snapshots/sha256/'' @ sampleDigest\<rparr>,
      checkpoint = \<lparr>checkpoint_ref.checkpointId = ''checkpoint-1'', decisionTaskId = ''task-1'',
        agentRunId = ''run-1'', sequence = 1, persistedAt = ''2026-08-12T12:00:00.000Z''\<rparr>,
      capturedAt = ''2026-08-12T12:00:00.000Z''\<rparr>"

definition samplePaused :: paused_outcome where
  "samplePaused =
     \<lparr>paused_outcome.state = PAUSED_USER, summary = ''Waiting'', snapshot = sampleSnapshot, effectReceipts = [],
      runEvents = [\<lparr>run_event.eventId = ''event-1'', decisionTaskId = ''task-1'', agentRunId = ''run-1'',
        sequence = 1, occurredAt = ''2026-08-12T12:00:00.000Z'', eventType = TASK_STATE_CHANGED,
        taskState = decision_task_state.PAUSED PAUSED_USER, summary = ''Paused''\<rparr>]\<rparr>"

definition sampleFormats :: zod_formats where
  "sampleFormats = \<lparr>isoDatetime = (\<lambda>s. dateParse s \<noteq> None), zodUrl = (\<lambda>_. True)\<rparr>"

text \<open>Shapes that read every record as the sample value.\<close>

definition sampleCodec :: paused_codec where
  "sampleCodec =
     \<lparr>pausedShape = \<lparr>typedValue = (\<lambda>v. if isRecord v then Inr samplePaused else Inl []), refinementPaths = (\<lambda>_. [])\<rparr>,
      snapshotShape = \<lparr>typedValue = (\<lambda>_. Inr sampleSnapshot), refinementPaths = (\<lambda>_. [])\<rparr>,
      receiptShape = \<lparr>typedValue = (\<lambda>_. Inl []), refinementPaths = (\<lambda>_. [])\<rparr>,
      snapshotJson = (\<lambda>_. JObj []), receiptJson = (\<lambda>_. JObj [])\<rparr>"

lemma samplePaused_decodes: "decodeRuntimePausedOutcomeV1 sampleFormats sampleCodec (JObj []) = Inr samplePaused"
  by code_simp

lemma decodeRuntimePausedOutcomeV1_consistent_witness:
  "runtime_snapshot.taskState (paused_outcome.snapshot samplePaused) = decision_task_state.PAUSED (paused_outcome.state samplePaused)"
  using decodeRuntimePausedOutcomeV1_consistent [OF samplePaused_decodes] by blast

lemma evaluateRuntimeRecoveryPermissionV1_allowed_iff_witness:
  "recovery_permission.decision (evaluateRuntimeRecoveryPermissionV1 sampleFormats
     (snapshotShape sampleCodec) (receiptShape sampleCodec) (JObj []) []) = RESUME_ALLOWED"
proof -
  have "decodeRuntimeSnapshotV1 sampleFormats (snapshotShape sampleCodec) (JObj []) = Inr sampleSnapshot"
    by code_simp
  moreover have "isPausedState (runtime_snapshot.taskState sampleSnapshot) \<and> resumable sampleSnapshot"
    by (simp add: sampleSnapshot_def isPausedState_def)
  ultimately show ?thesis
    using evaluateRuntimeRecoveryPermissionV1_allowed_iff
      [of sampleFormats "snapshotShape sampleCodec" "receiptShape sampleCodec" "JObj []" "[]"]
    by (simp add: Let_def)
qed

lemma decodeDecisionTaskResultV1_Inr_iff_witness:
  "decisionTaskResultSchema sampleFormats
     (createUnknownDecisionExecutionResultV1 ''error-1'' ''2026-08-12T12:00:00.000Z'')"
proof -
  let ?r = "createUnknownDecisionExecutionResultV1 ''error-1'' ''2026-08-12T12:00:00.000Z''"
  have "decodeDecisionTaskResultV1 sampleFormats
      \<lparr>typedValue = (\<lambda>_. Inr ?r), refinementPaths = (\<lambda>_. [])\<rparr> (JObj []) = Inr ?r"
    by code_simp
  then show ?thesis unfolding decodeDecisionTaskResultV1_Inr_iff by blast
qed

definition sampleEnv :: executor_env where
  "sampleEnv =
     \<lparr>envFormats = sampleFormats, envPaused = sampleCodec,
      envDraft = \<lparr>typedValue = (\<lambda>_. Inl []), refinementPaths = (\<lambda>_. [])\<rparr>,
      envControlError = (\<lambda>_. None), envStringify = (\<lambda>_. ''x''),
      envCommandJson = (\<lambda>c. JStr (execute_command.executionRequestId c)),
      envRequirementJson = (\<lambda>_. JNull)\<rparr>"

definition sampleCommand :: execute_command where
  "sampleCommand = \<lparr>execute_command.executionRequestId = ''request-1'', requirementRevision = sampleRequirement\<rparr>"

definition sampleRetryable :: execution_attempt where
  "sampleRetryable = \<lparr>attemptResult = createRuntimeFailedResult ''task-1'' ''run-1'' SAME_EXECUTION_ONLY,
     persistentOutcome = OutcomeExplicit FAILED_RETRYABLE ''Retry'' None\<rparr>"

definition sampleAfterRetry :: executor_state where
  "sampleAfterRetry =
     snd (executeAttempt sampleEnv sampleCommand
       (settleAttempt 0 sampleRetryable (snd (executeAttempt sampleEnv sampleCommand initialExecutor))))"

lemma sampleAfterRetry_reachable:
  "(executor_step sampleEnv)\<^sup>*\<^sup>* initialExecutor sampleAfterRetry"
proof -
  let ?s1 = "snd (executeAttempt sampleEnv sampleCommand initialExecutor)"
  let ?s2 = "settleAttempt 0 sampleRetryable ?s1"
  have "executor_step sampleEnv initialExecutor ?s1"
    by (rule executor_step.call [OF prod.collapse [symmetric]])
  moreover have "executor_step sampleEnv ?s1 ?s2"
    by (rule executor_step.settle)
       (simp_all add: executeAttempt_def initialExecutor_def startAttempt_def Let_def)
  moreover have "executor_step sampleEnv ?s2 sampleAfterRetry"
    unfolding sampleAfterRetry_def by (rule executor_step.call [OF prod.collapse [symmetric]])
  ultimately show ?thesis by (meson converse_rtranclp_into_rtranclp rtranclp.rtrancl_refl)
qed

lemma sampleAfterRetry_promises:
  "length (promises sampleAfterRetry) = 2
   \<and> promiseRequest (promises sampleAfterRetry ! 0) = ''request-1''
   \<and> promiseRequest (promises sampleAfterRetry ! 1) = ''request-1''"
  by (simp add: sampleAfterRetry_def executeAttempt_def initialExecutor_def startAttempt_def settleAttempt_def
      sampleRetryable_def isRetryableOutcome_def sampleCommand_def Let_def)

lemma executor_single_flight_witness:
  "promiseFingerprint (promises sampleAfterRetry ! 0) = promiseFingerprint (promises sampleAfterRetry ! 1)
   \<and> (retryablySettled (promises sampleAfterRetry ! 0) \<or> retryablySettled (promises sampleAfterRetry ! 1))"
  using executor_single_flight [OF sampleAfterRetry_reachable, of 0 1] sampleAfterRetry_promises by simp

lemma executeAttempt_bound_witness:
  "executeAttempt sampleEnv sampleCommand
     \<lparr>receipts = [''request-1'' \<mapsto> \<lparr>fingerprint = Some ''other'', activeAttempt = None\<rparr>], promises = []\<rparr>
   = (Immediate conflictAttempt,
     \<lparr>receipts = [''request-1'' \<mapsto> \<lparr>fingerprint = Some ''other'', activeAttempt = None\<rparr>], promises = []\<rparr>)"
proof -
  let ?s = "\<lparr>receipts = [''request-1'' \<mapsto> \<lparr>fingerprint = Some ''other'', activeAttempt = None\<rparr>], promises = []\<rparr>"
  have "receipts ?s (execute_command.executionRequestId sampleCommand) = Some \<lparr>fingerprint = Some ''other'', activeAttempt = None\<rparr>"
    by (simp add: sampleCommand_def)
  from executeAttempt_bound [OF this, of sampleEnv] show ?thesis
    by (simp add: fingerprintOf_def sampleEnv_def)
qed

definition sampleContext :: execution_context where
  "sampleContext = \<lparr>ctxAgentRunId = ''run-1'', ctxUserId = None, ctxOperationId = Some ''operation-1'',
     ctxCorrelationId = None, ctxEgressConfirmation = None\<rparr>"

definition sampleFacts :: recovery_facts where
  "sampleFacts = \<lparr>factsSnapshot = sampleSnapshot, factsReceipts = []\<rparr>"

definition samplePermission :: recovery_permission where
  "samplePermission = \<lparr>recovery_permission.decisionTaskId = ''task-1'', agentRunId = ''run-1'', snapshotId = ''snapshot-1'',
     decision = MANUAL_VERIFICATION_REQUIRED, permissionReason = EFFECT_STATUS_UNSAFE\<rparr>"

lemma resumeFailure_manual_consistent_witness:
  "pausedFactsIssues (manualOutcome ''task-1'' sampleContext sampleFacts PAUSED_USER ''Check'' EFFECT_STATUS_UNSAFE) = []"
proof -
  have "resumeFailure ''task-1'' sampleContext sampleFacts RUNTIME_RESUME_DENIED ''Check'' (Some samplePermission) =
      OutcomePaused (manualOutcome ''task-1'' sampleContext sampleFacts PAUSED_USER ''Check'' EFFECT_STATUS_UNSAFE)"
    by (simp add: resumeFailure_def Let_def sampleFacts_def sampleSnapshot_def samplePermission_def)
  from resumeFailure_manual_consistent [OF this] show ?thesis
    by (simp add: sampleFacts_def sampleSnapshot_def sampleContext_def)
qed

end
