(* ===== verification/CM_Store_Witnesses.thy ===== *)
theory CM_Store_Witnesses
  imports CM_Task_Leases CM_Task_Access CM_Content_Facts CM_Stored_Vault CM_Delivery_Facts CM_Witnesses
begin

text \<open>
  The properties of the task store at concrete databases: a task is submitted, claimed, fails for now and is
  claimed again.
\<close>

section \<open>A sample store\<close>

definition sampleEvent :: run_event where
  "sampleEvent =
     \<lparr>run_event.eventId = ''event-1'', decisionTaskId = ''task-1'', agentRunId = ''run-1'', sequence = 1,
      occurredAt = ''2026-08-12T12:00:00.000Z'', eventType = TASK_STATE_CHANGED, taskState = CREATED,
      summary = ''Accepted''\<rparr>"

definition noShape :: "'a zod_shape" where
  "noShape = \<lparr>typedValue = (\<lambda>_. Inl []), refinementPaths = (\<lambda>_. [])\<rparr>"

text \<open>Stored commands and events are read as the sample values.\<close>

definition sampleStore :: store_env where
  "sampleStore =
     \<lparr>stFormats = sampleFormats, stCommand = \<lparr>typedValue = (\<lambda>_. Inr sampleCommand), refinementPaths = (\<lambda>_. [])\<rparr>,
      stPaused = \<lparr>pausedShape = noShape, snapshotShape = noShape, receiptShape = noShape,
        snapshotJson = (\<lambda>_. JNull), receiptJson = (\<lambda>_. JNull)\<rparr>,
      stResult = noShape,
      stEvent = \<lparr>typedValue = (\<lambda>_. Inr \<lparr>cursor = ''1'', event = sampleEvent\<rparr>), refinementPaths = (\<lambda>_. [])\<rparr>,
      stCommandJson = (\<lambda>c. JStr (execute_command.executionRequestId c)), stEventJson = (\<lambda>_. JNull),
      stPausedJson = (\<lambda>_. JNull), stResultJson = (\<lambda>_. JNull), stJsonb = (\<lambda>v. v),
      stStringify = (\<lambda>v. case v of JStr s \<Rightarrow> s | _ \<Rightarrow> ''x''), stSha256 = (\<lambda>_. sampleDigest)\<rparr>"

definition sampleUuid :: "char \<Rightarrow> nat \<Rightarrow> string" where
  "sampleUuid c k = ''00000000-0000-0000-0000-0000000000'' @ [c, char_of (48 + k)]"

definition sampleOperation :: ident where
  "sampleOperation = sampleUuid CHR ''a'' 1"

definition sampleRun :: "char \<Rightarrow> ident" where
  "sampleRun c = ''agent-run-'' @ sampleUuid c 0"

definition sampleEventRow :: "nat \<Rightarrow> ident \<Rightarrow> ident \<Rightarrow> int \<Rightarrow> int \<Rightarrow> event_row" where
  "sampleEventRow c uuid rid n now =
     \<lparr>evCursor = c, evId = ''event-persistent-'' @ uuid, evTask = ''task-1'', evRun = rid, evSequence = n,
      evPayload = JNull, evOccurredAt = toISOString now, evPersistedAt = now\<rparr>"

definition sampleNote :: "nat \<Rightarrow> int \<Rightarrow> notification_row" where
  "sampleNote c now = \<lparr>noteCursor = c, noteTask = ''task-1'', noteAttempts = 0, noteNextAttempt = now,
     notePublishedAt = None, noteCreatedAt = now\<rparr>"

definition acceptedRow :: operation_row where
  "acceptedRow = \<lparr>opId = sampleOperation, opRun = sampleRun CHR ''a'', opRequestId = ''request-1'', opTask = ''task-1'',
     opState = task_row_state.ACCEPTED, opWorker = None, opLease = None, opResult = None, opCreatedAt = 0, opUpdatedAt = 0\<rparr>"

definition submittedDb :: database where
  "submittedDb = emptyDatabase\<lparr>
     submissions := [\<lparr>subRequestId = ''request-1'', subOwner = ''user-1'', subFingerprint = sampleDigest, subTask = ''task-1'',
       subCommand = JStr ''request-1'', subCreatedAt = 0\<rparr>],
     operations := [acceptedRow],
     agentRuns := [\<lparr>runId = sampleRun CHR ''a'', runOperation = sampleOperation, runAttempt = 1, runCreatedAt = 0\<rparr>],
     eventRows := [sampleEventRow 1 (sampleUuid CHR ''a'' 3) (sampleRun CHR ''a'') 1 0], nextCursor := 2,
     notifications := [sampleNote 1 0],
     outbox := [\<lparr>outMessage = sampleUuid CHR ''a'' 2, outOperation = sampleOperation, outAttempts = 0, outNextAttempt = 0,
       outPublishedAt = None, outCreatedAt = 0\<rparr>]\<rparr>"

definition claimedDb :: database where
  "claimedDb = submittedDb\<lparr>
     operations := [claimedRow (sampleRun CHR ''a'') ''worker-1'' 1 30 acceptedRow],
     eventRows := eventRows submittedDb @ [sampleEventRow 2 (sampleUuid CHR ''b'' 2) (sampleRun CHR ''a'') 2 1],
     nextCursor := 3, notifications := notifications submittedDb @ [sampleNote 2 1]\<rparr>"

definition failedRow :: operation_row where
  "failedRow = acceptedRow\<lparr>opState := task_row_state.FAILED_RETRYABLE,
     opResult := Some (explicitJson explicit_state.FAILED_RETRYABLE ''Try again'' None), opUpdatedAt := 2\<rparr>"

definition failedDb :: database where
  "failedDb = claimedDb\<lparr>operations := [failedRow],
     eventRows := eventRows claimedDb @ [sampleEventRow 3 (sampleUuid CHR ''c'' 0) (sampleRun CHR ''a'') 3 2],
     nextCursor := 4, notifications := notifications claimedDb @ [sampleNote 3 2]\<rparr>"

lemmas sample_db_simps = failedDb_def failedRow_def claimedDb_def claimedRow_def submittedDb_def acceptedRow_def
  emptyDatabase_def sampleEventRow_def sampleNote_def

lemma sample_ids [simp]:
  "sampleRun c = sampleRun c' \<longleftrightarrow> c = c'"
  "sampleUuid c k = sampleUuid c' k' \<longleftrightarrow> c = c' \<and> (char_of (48 + k) :: char) = char_of (48 + k')"
  "CHR ''a'' # CHR ''g'' # CHR ''e'' # CHR ''n'' # CHR ''t'' # CHR ''-'' # CHR ''r'' # CHR ''u'' # CHR ''n'' # CHR ''-'' # sampleUuid c 0
     = sampleRun c"
  by (simp_all add: sampleRun_def sampleUuid_def)

section \<open>Its operations\<close>

lemma sample_json: "stJsonb sampleStore v = v" "stEventJson sampleStore ev = JNull"
  by (simp_all add: sampleStore_def)

lemma sample_canon: "canonicalize (stStringify sampleStore) (stCommandJson sampleStore sampleCommand) = Some ''request-1''"
  by code_simp

lemma sample_fields: "execute_command.executionRequestId sampleCommand = ''request-1''"
  "requirement_revision.decisionTaskId (execute_command.requirementRevision sampleCommand) = ''task-1''"
  "stSha256 sampleStore t = sampleDigest" "stCommandJson sampleStore sampleCommand = JStr ''request-1''"
  by (simp_all add: sampleStore_def) (simp_all add: sampleCommand_def sampleRequirement_def)

lemma submitted: "submit sampleStore (sampleUuid CHR ''a'') 0 sampleCommand ''user-1'' emptyDatabase
   = (Inr \<lparr>task_snapshot.executionRequestId = ''request-1'', decisionTaskId = ''task-1'', agentRunId = sampleRun CHR ''a'',
       state = snapshot_state.ACCEPTED, terminal = False, updatedAt = toISOString 0\<rparr>, submittedDb)"
  by (simp add: submit_def transact_def submitInTransaction_def Let_def sample_canon insertSubmission_def andThen_def inserting_def
      existingSubmission_def insertRunEvent_def returns_def runEventText_def sample_json sample_fields sample_db_simps
      sampleOperation_def)

lemma sample_cursor: "isPersistedRunEventCursorV1 (JStr ''1'')"
  by (simp add: isPersistedRunEventCursorV1_def cursorShape_def isDigit_def digitVal_def POSTGRES_BIGINT_MAX_def BigInt_def)

lemma sample_event_ok: "runEventSchema sampleFormats sampleEvent"
  by code_simp

lemma sample_scan: "evPayload e = JNull \<Longrightarrow> findUnsupportedVersion (persistedEventJson e) = None"
  by (simp add: persistedEventJson_def findUnsupportedVersion_def MAX_CONTRACT_VERSION_SCAN_DEPTH_def
      badVersion_def isRecord_def jhas_def jget_def pushEntries_def scanEntries_def)

lemma sample_decode_row: "evPayload e = JNull \<Longrightarrow> decodeEventRow sampleStore e = Inr \<lparr>cursor = ''1'', event = sampleEvent\<rparr>"
  by (simp add: decodeEventRow_def decodePersistedRunEventV1_def decodeRuntimeControlContract_def sample_scan sampleStore_def
      schemaSafeParse_def persistedRunEventSchema_def sample_cursor sample_event_ok)

lemma sample_decode_rows:
  "list_all (\<lambda>e. evPayload e = JNull) rows \<Longrightarrow>
   decodeAll (decodeEventRow sampleStore) rows = Some (map (\<lambda>_. \<lparr>cursor = ''1'', event = sampleEvent\<rparr>) rows)"
  by (induction rows) (simp_all add: sample_decode_row)

lemma sample_history:
  "list_all (\<lambda>e. evPayload e = JNull) (eventRows d) \<Longrightarrow>
   loadRunEvents sampleStore tid rid d = Inr (map (\<lambda>_. sampleEvent) (filter (\<lambda>e. evTask e = tid \<and> evRun e = rid) (eventRows d)), d)"
  using sample_decode_rows [of "sort_key evSequence (filter (\<lambda>e. evTask e = tid \<and> evRun e = rid) (eventRows d))"]
  by (simp add: loadRunEvents_def comp_def map_replicate_const list_all_iff)

lemma sample_command: "decodeExecuteDecisionTaskCommandV1 (stCommand sampleStore) (JStr ''request-1'') = Inr sampleCommand"
  by code_simp

lemma claimed: "claimNext sampleStore (sampleUuid CHR ''b'') 1 sampleOperation ''worker-1'' 30 submittedDb
   = (Inr (CLAIMED \<lparr>tcOperation = sampleOperation, tcRun = sampleRun CHR ''a'', tcOwner = ''user-1'', tcCommand = sampleCommand\<rparr>),
      claimedDb)"
  by (simp add: claimNext_def transact_def operationOf_def submissionOf_def claimable_def andThen_def updating_def returns_def
      setOperation_def updateWhere_def appendRunningEvent_def sample_history sample_command insertRunEvent_def inserting_def
      sample_db_simps lastOpt_def sampleEvent_def runEventText_def sample_json)


lemma failed_once: "complete sampleStore (sampleUuid CHR ''c'') 2 sampleOperation ''worker-1''
     (OutcomeExplicit explicit_state.FAILED_RETRYABLE ''Try again'' None) None claimedDb
   = (Inr (COMMITTED_SNAPSHOT (snapshotOfRow failedRow snapshot_state.FAILED_RETRYABLE)), failedDb)"
proof -
  have dec: "decodePersistentOutcome sampleStore (OutcomeExplicit explicit_state.FAILED_RETRYABLE ''Try again'' None)
      = Some \<lparr>doState = task_row_state.FAILED_RETRYABLE,
          doPayload = OutcomeExplicit explicit_state.FAILED_RETRYABLE ''Try again'' None, doRun = None, doTask = None\<rparr>"
    by code_simp
  show ?thesis
    by (simp add: complete_def dec completeTx_def transact_def completable_def submissionOf_def andThen_def updating_def
        returns_def setOperation_def updateWhere_def completedRow_def persistOutcome_def sample_history insertRunEvent_def
        inserting_def sample_db_simps runEventText_def sample_json snapshotTx_def toTaskSnapshot_def
        outcomeJson_def snapshotOfRow_def)
qed

lemma claimed_again: "claimNext sampleStore (sampleUuid CHR ''d'') 3 sampleOperation ''worker-1'' 30 failedDb
   = (Inr (CLAIMED \<lparr>tcOperation = sampleOperation, tcRun = sampleRun CHR ''d'', tcOwner = ''user-1'', tcCommand = sampleCommand\<rparr>),
      snd (claimNext sampleStore (sampleUuid CHR ''d'') 3 sampleOperation ''worker-1'' 30 failedDb))"
  by (simp add: claimNext_def transact_def operationOf_def submissionOf_def claimable_def andThen_def updating_def returns_def
      Let_def setOperation_def updateWhere_def startRetry_def appendRunningEvent_def sample_history sample_command insertRunEvent_def
      inserting_def sample_db_simps lastOpt_def sampleEvent_def runEventText_def sample_json)


section \<open>What it reaches\<close>

lemma sample_reachable:
  "(store_step sampleStore)\<^sup>*\<^sup>* emptyDatabase submittedDb"
  "(store_step sampleStore)\<^sup>*\<^sup>* emptyDatabase failedDb"
  "(task_step sampleStore)\<^sup>*\<^sup>* submittedDb failedDb"
proof -
  have s1: "task_step sampleStore emptyDatabase submittedDb" using submits [of sampleStore emptyDatabase] submitted by (metis snd_conv)
  have s2: "task_step sampleStore submittedDb claimedDb" using CM_Task_System.claims [of sampleStore submittedDb] claimed by (metis snd_conv)
  have s3: "task_step sampleStore claimedDb failedDb" using completes [of sampleStore claimedDb] failed_once by (metis snd_conv)
  have t1: "(task_step sampleStore)\<^sup>*\<^sup>* emptyDatabase submittedDb" using s1 by blast
  show later: "(task_step sampleStore)\<^sup>*\<^sup>* submittedDb failedDb"
    using s2 s3 by (meson r_into_rtranclp rtranclp.rtrancl_into_rtrancl)
  show "(store_step sampleStore)\<^sup>*\<^sup>* emptyDatabase submittedDb" by (rule task_steps_store [OF t1])
  show "(store_step sampleStore)\<^sup>*\<^sup>* emptyDatabase failedDb" by (rule task_steps_store [OF rtranclp_trans [OF t1 later]])
qed

lemma reachable_history_witness:
  "map evSequence (filter (\<lambda>e. evRun e = sampleRun CHR ''a'') (eventRows failedDb))
     = map int [1..<Suc (length (filter (\<lambda>e. evRun e = sampleRun CHR ''a'') (eventRows failedDb)))]"
  using reachable_history [OF sample_reachable(2)] by blast


lemma reachable_rows_typed_witness: "opTyped failedRow"
  using reachable_rows_typed [OF sample_reachable(2)] by (simp add: failedDb_def)

lemma sample_failed_row:
  "operationOf failedDb sampleOperation = Some failedRow" "ownedBy failedDb ''user-1'' failedRow"
  "opState failedRow = task_row_state.FAILED_RETRYABLE" "\<exists>e \<in> set (eventRows failedDb). evRun e = opRun failedRow"
  by (simp_all add: operationOf_def ownedBy_def submissionOf_def sample_db_simps)

lemma retried_task_never_purged_witness:
  "fst (purgePrivateDataForOwner sampleStore ''user-1''
     (snd (claimNext sampleStore (sampleUuid CHR ''d'') 3 sampleOperation ''worker-1'' 30 failedDb)))
   = Inl PersistenceUnavailableError"
  using retried_task_never_purged [OF sample_reachable(2) sample_failed_row claimed_again rtranclp.rtrancl_refl] by simp

lemma sample_scope: "purgeScope ''user-1'' submittedDb =
   \<lparr>pgTasks = [''task-1''], pgOperations = [sampleOperation], pgRuns = [sampleRun CHR ''a''], pgSnapshots = [],
    pgSnapshotDigests = [], pgEffectDigests = [], pgCursors = [1], pgCredentials = []\<rparr>"
  by (simp add: purgeScope_def Let_def submittedDb_def acceptedRow_def emptyDatabase_def sampleEventRow_def)

lemma sample_purge: "fst (purgePrivateDataForOwner sampleStore ''user-1'' submittedDb) = Inr (0, 1)"
proof -
  let ?sc = "purgeScope ''user-1'' submittedDb"
  let ?d = "purgeRuntimeRows ?sc (purgeAudit sampleStore ''user-1'' ?sc submittedDb)"
  have "controlStates ?d = []" "controlRequests ?d = []" "eventRows ?d = []"
    by (simp_all add: purgeRuntimeRows_def purgeAudit_def Let_def sample_scope)
      (simp_all add: submittedDb_def emptyDatabase_def sampleEventRow_def)
  then have "deleteFacts ?sc ?d = Inr ((), ?d\<lparr>recoveryFacts := filter (\<lambda>f. factSnapshotId f \<notin> set (pgSnapshots ?sc)) (recoveryFacts ?d)\<rparr>)"
    and "\<And>f. deleteRuns ?sc (?d\<lparr>recoveryFacts := f\<rparr>)
        = Inr ((), ?d\<lparr>recoveryFacts := f, agentRuns := filter (\<lambda>r. runOperation r \<notin> set (pgOperations ?sc)) (agentRuns ?d)\<rparr>)"
    by (simp_all add: deleteFacts_def deleteRuns_def inserting_def)
  then have "\<exists>d'. purgePrivateDataForOwner sampleStore ''user-1'' submittedDb = (Inr (length (pgCredentials ?sc), length (pgTasks ?sc)), d')"
    by (simp add: purgePrivateDataForOwner_def transact_def andThen_def updating_def returns_def Let_def)
  then show ?thesis by (auto simp: sample_scope)
qed


text \<open>A completed request.\<close>

definition completedDb :: database where
  "completedDb = submittedDb\<lparr>operations := [acceptedRow\<lparr>opState := task_row_state.COMPLETED, opResult := Some JNull\<rparr>]\<rparr>"

lemma completed_resubmission_unavailable_witness:
  "submit sampleStore (sampleUuid CHR ''e'') 9 sampleCommand ''user-1'' completedDb = (Inl PersistenceUnavailableError, completedDb)"
proof -
  note canon = sample_canon
  show ?thesis
    by (rule completed_resubmission_unavailable [THEN conjunct2, THEN mp, OF _ _ canon])
      (auto simp: existingSubmission_def completedDb_def sample_db_simps sampleCommand_def sampleStore_def)
qed


section \<open>Leases\<close>


lemma complete_needs_lease_witness: "\<exists>oper \<in> set (operations claimedDb). opWorker oper = Some ''worker-1''"
proof -
  have "nextCursor failedDb \<noteq> nextCursor claimedDb" by (simp add: failedDb_def claimedDb_def)
  then have "failedDb \<noteq> claimedDb" by metis
  then show ?thesis using complete_needs_lease [OF failed_once] by blast
qed

definition pausedControl :: database where
  "pausedControl = emptyDatabase\<lparr>controlStates := [\<lparr>csRun = ''run-1'', csSnapshot = Some ''snapshot-1'',
     csState = runtime_control_state.PAUSED PAUSED_USER, csCancellation = None, csEvents = JArr [], csController = None,
     csLease = None, csUpdatedAt = 0\<rparr>]\<rparr>"

lemma one_controller_witness:
  "fst (recordRuntimeRunning 6 ''run-1'' ''controller-2'' 10 (snd (claimRuntimeResume 5 ''run-1'' ''snapshot-1'' ''controller-1'' 10 pausedControl)))
   = Inl PersistenceUnavailableError"
proof -
  let ?d = "snd (claimRuntimeResume 5 ''run-1'' ''snapshot-1'' ''controller-1'' 10 pausedControl)"
  have "claimRuntimeResume 5 ''run-1'' ''snapshot-1'' ''controller-1'' 10 pausedControl
      = (Inr \<lparr>claimStatus = ACQUIRED, claimState = runtime_control_state.RUNNING, claimEvents = JArr []\<rparr>, ?d)"
    by (simp add: claimRuntimeResume_def updateRuntimeControlState_def transact_def controlRow_def pausedControl_def
        emptyDatabase_def andThen_def updating_def returns_def)
  from one_controller [OF this, of "''controller-2''" 6] show ?thesis by simp
qed

definition sampleWorker :: worker_options where
  "sampleWorker = \<lparr>woWorker = ''worker-1'', woLease = 30, woExecute = (\<lambda>_. None), woControl = None, woMeanwhile = (\<lambda>d. d),
     woNow = (\<lambda>_. 1), woUuid = (\<lambda>i. sampleUuid CHR ''f'')\<rparr>"



section \<open>Owners, pages, contents\<close>

lemma owner_isolation_witness: "getTask sampleStore ''task-1'' ''user-2'' failedDb = Inr None"
proof -
  have "\<forall>oper \<in> set (operations failedDb). opTask oper = ''task-1'' \<longrightarrow> \<not> ownedBy failedDb ''user-2'' oper"
    by (simp add: ownedBy_def submissionOf_def sample_db_simps)
  from owner_isolation [OF sample_reachable(2) this] show ?thesis by blast
qed


lemma sampleDigest_sha: "isSha256 (stSha256 sampleStore t)"
  by (simp add: sampleStore_def sampleDigest_def isSha256_def isHexDigit_def list_all_iff less_eq_char_def)

lemma content_roundtrip_witness:
  "\<exists>v. loadRawSnapshot sampleStore \<lparr>raw_artifact.digest = sampleDigest, objectKey = SNAPSHOT_PREFIX @ sampleDigest\<rparr>
     (snd (putRawSnapshot sampleStore 1 (JStr ''raw'') emptyDatabase)) = Inr (Some v)"
proof -
  have "putRawSnapshot sampleStore 1 (JStr ''raw'') emptyDatabase
      = (Inr \<lparr>raw_artifact.digest = sampleDigest, objectKey = SNAPSHOT_PREFIX @ sampleDigest\<rparr>,
         snd (putRawSnapshot sampleStore 1 (JStr ''raw'') emptyDatabase))"
    by code_simp
  then show ?thesis using content_roundtrip [of sampleStore] sampleDigest_sha by blast
qed

definition sampleEffect :: effect_identity where
  "sampleEffect = \<lparr>effTask = ''task-1'', effRun = ''run-1'', effCheckpoint = ''checkpoint-1'', effId = ''effect-1''\<rparr>"

lemma effect_result_write_once_witness:
  "fst (putEffectResult sampleStore 2 sampleEffect (JStr ''done'') (snd (putEffectResult sampleStore 1 sampleEffect (JStr ''done'') emptyDatabase)))
   = fst (putEffectResult sampleStore 1 sampleEffect (JStr ''done'') emptyDatabase)"
proof -
  let ?p = "putEffectResult sampleStore 1 sampleEffect (JStr ''done'') emptyDatabase"
  let ?q = "putEffectResult sampleStore 2 sampleEffect (JStr ''done'') (snd ?p)"
  have "isOk (fst ?p)" "isOk (fst ?q)" by code_simp+
  then obtain r r' where p: "?p = (Inr r, snd ?p)" and q: "?q = (Inr r', snd ?q)"
    by (cases ?p; cases ?q) (auto simp: isOk_def split: sum.splits)
  from effect_result_write_once [OF rtranclp.rtrancl_refl p rtranclp.rtrancl_refl q] have "r' = r" .
  with p q show ?thesis by (metis fst_conv)
qed

definition sampleQuery :: nearest_query where
  "sampleQuery = \<lparr>queryLimit = 3, queryModel = ''model-1'', queryVector = [Some 1]\<rparr>"

lemma nearest_evidence_witness: "nearest (\<lambda>_ _. 0) sampleQuery emptyDatabase = Inr []"
proof -
  have "nearest (\<lambda>_ _. 0) sampleQuery emptyDatabase = Inr (case nearest (\<lambda>_ _. 0) sampleQuery emptyDatabase of Inl _ \<Rightarrow> [] | Inr xs \<Rightarrow> xs)"
    by code_simp
  moreover from nearest_evidence [OF this] have "length (case nearest (\<lambda>_ _. 0) sampleQuery emptyDatabase of Inl _ \<Rightarrow> [] | Inr xs \<Rightarrow> xs) = 0"
    by (simp add: comparableRows_def emptyDatabase_def)
  ultimately show ?thesis by simp
qed

definition systemInput :: credential_input where
  "systemInput = \<lparr>inputCredentialId = ''credential-1'', inputOwnerUserId = ''user-1'',
     inputActor = sourceWorkerActor ''1'', inputCorrelationId = ''job-1''\<rparr>"

lemma system_access_impossible_witness:
  "fst (useCredential (storedVault (\<lambda>_. emptyDatabase) (\<lambda>_. ''audit-1'') (\<lambda>_. 0)
      (sampleOptions\<lparr>systemAccess := Some (sourceWorkerAccess ''1'')\<rparr>)) systemInput (fresh_run 0)) = Inl PORT_FAILED"
  using system_access_impossible [of systemInput] by (simp add: systemInput_def sourceWorkerActor_def)

section \<open>Delivery\<close>


lemma notifications_worked_off_witness:
  "filter (dueNotification 5) (notifications (runsOf (\<lambda>i d. snd (publishNextNotification 5000 (i = 0) 5 d)) 3 failedDb)) = []"
proof -
  have "length (filter (dueNotification 5) (notifications failedDb)) \<le> 3" by (simp add: sample_db_simps)
  then show ?thesis using notifications_worked_off [of 5000] by simp
qed

lemma no_waiter_lost_witness:
  "waiterState (waiters (closeSubscriber (snd (the (waitFor ''task-1'' False openedSubscriber)))) ! 0) = Failed_Waiter"
proof -
  let ?s = "snd (the (waitFor ''task-1'' False openedSubscriber))"
  have "subscriber_step openedSubscriber ?s"
    by (rule wait [of "''task-1''" False _ 0]) (simp add: waitFor_def openedSubscriber_def Let_def)
  then have "subscriber_step\<^sup>*\<^sup>* openedSubscriber ?s" by blast
  moreover have "0 < length (waiters ?s)" "waiterState (waiters ?s ! 0) = Pending_Waiter"
    by (simp_all add: waitFor_def openedSubscriber_def Let_def)
  ultimately show ?thesis using no_waiter_lost by blast
qed

end
