(* ===== verification/CM_Source_Research.thy ===== *)
theory CM_Source_Research
  imports CM_Canonical CM_Schemas CM_Time
begin

text \<open>
  Source research (packages/source-research/src/index.ts): batches of jobs, one per account of a source,
  that workers claim under a lease, checkpoint and complete; and the publisher of its outbox
  (notification-publisher.ts). A table is the list of its rows in insertion order; an operation that throws
  leaves the tables as they were. The clock, the random job ids, SHA-256, \<open>JSON.stringify\<close> and the
  collation of \<open>localeCompare\<close> are parameters: a collation orders the strings by some key.
\<close>

section \<open>Data\<close>

datatype job_state =
    QUEUED | RUNNING | WAITING_SOURCE_LOGIN | COMPLETED | NO_RESULT | FAILED_RETRYABLE | FAILED_FINAL

datatype batch_state =
    BATCH_QUEUED | BATCH_RUNNING | BATCH_WAITING_SOURCE_LOGIN | BATCH_COMPLETED | BATCH_FAILED

datatype login_challenge = QR_CODE | SMS | CAPTCHA

datatype research_outcome =
    EVIDENCE string ident string int \<comment> \<open>result key, evidence id, summary, cost units\<close>
  | NO_RESULT string int
  | WAITING_CHALLENGE login_challenge ident
  | FAILED_RETRYABLE string
  | FAILED_FINAL string

record source_account =
  srcId :: ident
  srcAccount :: ident

record batch_row =
  baId :: ident
  baOwner :: ident
  baTask :: ident
  baKey :: string
  baFingerprint :: string
  baQuery :: string
  baCreatedAt :: int
  baUpdatedAt :: int

record job_row =
  jobId :: ident
  jobBatch :: ident
  jobOwner :: ident
  jobTask :: ident
  jobQuery :: string
  jobAccount :: source_account
  jobState :: job_state
  jobCheckpoint :: "json option"
  jobOutcome :: "research_outcome option"
  jobWorker :: "ident option"
  jobLease :: "int option"
  jobAttempts :: nat
  jobNextAttempt :: "int option"
  jobCost :: int
  jobCreatedAt :: int
  jobUpdatedAt :: int

record result_row =
  rsJob :: ident
  rsBatch :: ident
  rsOwner :: ident
  rsKey :: string
  rsEvidence :: ident
  rsSummary :: string
  rsCost :: int
  rsCreatedAt :: int

record research_outbox_row =
  roId :: nat
  roJob :: ident
  roPublishedAt :: "int option"

record research_db =
  batches :: "batch_row list"
  jobs :: "job_row list"
  results :: "result_row list"
  researchOutbox :: "research_outbox_row list"
  nextOutboxId :: nat

definition emptyResearch :: research_db where
  "emptyResearch = \<lparr>batches = [], jobs = [], results = [], researchOutbox = [], nextOutboxId = 1\<rparr>"

datatype research_error =
    SOURCE_RESEARCH_BATCH_INVALID
  | SOURCE_RESEARCH_IDEMPOTENCY_CONFLICT
  | SOURCE_RESEARCH_LEASE_INVALID
  | SOURCE_RESEARCH_BATCH_NOT_FOUND
  | SOURCE_RESEARCH_ROW_REJECTED \<comment> \<open>a constraint of the schema\<close>

record research_env =
  reStringify :: "json \<Rightarrow> string"
  reSha256 :: "string \<Rightarrow> string"
  reCollation :: "string \<Rightarrow> rat"

record create_batch =
  cbBatch :: ident
  cbOwner :: ident
  cbTask :: ident
  cbKey :: string
  cbQuery :: string
  cbSources :: "source_account list"

section \<open>Reading a batch\<close>

record job_view =
  jvJob :: ident
  jvAccount :: source_account
  jvState :: job_state
  jvLogin :: "ident option"

record research_batch =
  rbId :: ident
  rbOwner :: ident
  rbTask :: ident
  rbQuery :: string
  rbState :: batch_state
  rbCost :: int
  rbJobs :: "job_view list"
  rbResults :: "(string \<times> ident \<times> string) list"
  rbCreatedAt :: string
  rbUpdatedAt :: string

definition terminalJob :: "job_state \<Rightarrow> bool" where
  "terminalJob st \<longleftrightarrow> st = COMPLETED \<or> st = job_state.NO_RESULT \<or> st = job_state.FAILED_FINAL"

definition batchState :: "job_state list \<Rightarrow> batch_state" where
  "batchState sts =
     (if list_ex (\<lambda>st. st = WAITING_SOURCE_LOGIN) sts then BATCH_WAITING_SOURCE_LOGIN
      else if list_all terminalJob sts \<and> list_ex (\<lambda>st. st = job_state.FAILED_FINAL) sts then BATCH_FAILED
      else if list_all (\<lambda>st. st = COMPLETED \<or> st = job_state.NO_RESULT) sts then BATCH_COMPLETED
      else if list_ex (\<lambda>st. st = RUNNING) sts then BATCH_RUNNING
      else BATCH_QUEUED)"

definition jobView :: "job_row \<Rightarrow> job_view" where
  "jobView j = \<lparr>jvJob = jobId j, jvAccount = jobAccount j, jvState = jobState j,
     jvLogin = (case (jobState j, jobOutcome j) of
        (WAITING_SOURCE_LOGIN, Some (WAITING_CHALLENGE _ l)) \<Rightarrow> Some l | _ \<Rightarrow> None)\<rparr>"

definition jobsOf :: "ident \<Rightarrow> research_db \<Rightarrow> job_row list" where
  "jobsOf bid d = sort_key jobCreatedAt (sort_key jobId (filter (\<lambda>j. jobBatch j = bid) (jobs d)))"

definition resultsOf :: "ident \<Rightarrow> research_db \<Rightarrow> result_row list" where
  "resultsOf bid d = sort_key rsCreatedAt (sort_key rsKey (filter (\<lambda>r. rsBatch r = bid) (results d)))"

definition readBatch :: "ident \<Rightarrow> ident \<Rightarrow> research_db \<Rightarrow> research_batch option" where
  "readBatch bid owner d =
     (case find (\<lambda>b. baId b = bid \<and> baOwner b = owner) (batches d) of
        None \<Rightarrow> None
      | Some b \<Rightarrow> Some \<lparr>rbId = baId b, rbOwner = baOwner b, rbTask = baTask b, rbQuery = baQuery b,
          rbState = batchState (map jobState (jobsOf bid d)), rbCost = sum_list (map jobCost (jobsOf bid d)),
          rbJobs = map jobView (jobsOf bid d),
          rbResults = map (\<lambda>r. (rsKey r, rsEvidence r, rsSummary r)) (resultsOf bid d),
          rbCreatedAt = toISOString (baCreatedAt b), rbUpdatedAt = toISOString (baUpdatedAt b)\<rparr>)"

text \<open>The task's batch: the one updated last, of equal times the greatest id.\<close>

definition readBatchForTask :: "ident \<Rightarrow> ident \<Rightarrow> research_db \<Rightarrow> research_batch option" where
  "readBatchForTask tid owner d =
     (case rev (sort_key baUpdatedAt (sort_key baId (filter (\<lambda>b. baTask b = tid \<and> baOwner b = owner) (batches d)))) of
        [] \<Rightarrow> None
      | b # _ \<Rightarrow> readBatch (baId b) owner d)"

section \<open>Creating and resuming\<close>

definition validBatch :: "create_batch \<Rightarrow> bool" where
  "validBatch c \<longleftrightarrow>
     \<not> (cbSources c = [] \<or> length (cbSources c) > 10 \<or> trim (cbQuery c) = [] \<or> length (cbQuery c) > 4000
        \<or> length (cbTask c) > 200 \<or> length (cbKey c) > 200
        \<or> list_ex (\<lambda>s. length (srcId s) > 100 \<or> length (srcAccount s) > 200) (cbSources c))"

definition normalizedSources :: "research_env \<Rightarrow> create_batch \<Rightarrow> source_account list" where
  "normalizedSources env c = sort_key (\<lambda>s. reCollation env (srcId s @ CHR 0x00 # srcAccount s)) (cbSources c)"

definition requestFingerprint :: "research_env \<Rightarrow> create_batch \<Rightarrow> string" where
  "requestFingerprint env c = reSha256 env (reStringify env (JObj
     [(''decisionTaskId'', JStr (cbTask c)), (''query'', JStr (trim (cbQuery c))),
      (''sources'', JArr (map (\<lambda>s. JObj [(''sourceId'', JStr (srcId s)), (''sourceAccountId'', JStr (srcAccount s))])
         (normalizedSources env c)))]))"

definition newJob :: "int \<Rightarrow> int \<Rightarrow> create_batch \<Rightarrow> ident \<Rightarrow> source_account \<Rightarrow> job_row" where
  "newJob now dbNow c jid s =
     \<lparr>jobId = jid, jobBatch = cbBatch c, jobOwner = cbOwner c, jobTask = cbTask c, jobQuery = trim (cbQuery c),
      jobAccount = s, jobState = QUEUED, jobCheckpoint = None, jobOutcome = None, jobWorker = None,
      jobLease = None, jobAttempts = 0, jobNextAttempt = Some dbNow, jobCost = 0, jobCreatedAt = now,
      jobUpdatedAt = now\<rparr>"

text \<open>A job and its outbox row; the id, and the account within the batch, must be new.\<close>

definition insertJob :: "job_row \<Rightarrow> research_db \<Rightarrow> research_db option" where
  "insertJob j d =
     (if jobId j \<in> jobId ` set (jobs d)
         \<or> (jobBatch j, jobAccount j) \<in> (\<lambda>k. (jobBatch k, jobAccount k)) ` set (jobs d)
      then None
      else Some (d\<lparr>jobs := jobs d @ [j],
        researchOutbox := researchOutbox d @ [\<lparr>roId = nextOutboxId d, roJob = jobId j, roPublishedAt = None\<rparr>],
        nextOutboxId := Suc (nextOutboxId d)\<rparr>))"

fun insertJobs :: "(source_account \<Rightarrow> nat \<Rightarrow> job_row) \<Rightarrow> nat \<Rightarrow> source_account list \<Rightarrow> research_db \<Rightarrow> research_db option" where
  "insertJobs mk n [] d = Some d"
| "insertJobs mk n (s # ss) d =
     (case insertJob (mk s n) d of None \<Rightarrow> None | Some d' \<Rightarrow> insertJobs mk (Suc n) ss d')"

definition createBatch ::
    "research_env \<Rightarrow> (nat \<Rightarrow> ident) \<Rightarrow> int \<Rightarrow> int \<Rightarrow> create_batch \<Rightarrow> research_db
     \<Rightarrow> (research_error + research_batch) \<times> research_db" where
  "createBatch env u now dbNow c d =
     (let answer = (\<lambda>bid d'. case readBatch bid (cbOwner c) d' of
          None \<Rightarrow> (Inl SOURCE_RESEARCH_BATCH_NOT_FOUND, d') | Some b \<Rightarrow> (Inr b, d')) in
      if \<not> validBatch c then (Inl SOURCE_RESEARCH_BATCH_INVALID, d)
      else (case find (\<lambda>b. baOwner b = cbOwner c \<and> baKey b = cbKey c) (batches d) of
          Some b \<Rightarrow>
            if baFingerprint b \<noteq> requestFingerprint env c then (Inl SOURCE_RESEARCH_IDEMPOTENCY_CONFLICT, d)
            else answer (baId b) d
        | None \<Rightarrow>
            if cbBatch c \<in> baId ` set (batches d) then (Inl SOURCE_RESEARCH_ROW_REJECTED, d)
            else (case insertJobs (\<lambda>s n. newJob now dbNow c (u n) s) 0 (normalizedSources env c)
                (d\<lparr>batches := batches d @ [\<lparr>baId = cbBatch c, baOwner = cbOwner c, baTask = cbTask c, baKey = cbKey c,
                   baFingerprint = requestFingerprint env c, baQuery = trim (cbQuery c), baCreatedAt = now,
                   baUpdatedAt = now\<rparr>]\<rparr>) of
                None \<Rightarrow> (Inl SOURCE_RESEARCH_ROW_REJECTED, d)
              | Some d' \<Rightarrow> answer (cbBatch c) d')))"

definition updateJobs :: "(job_row \<Rightarrow> bool) \<Rightarrow> (job_row \<Rightarrow> job_row) \<Rightarrow> research_db \<Rightarrow> research_db" where
  "updateJobs p f d = d\<lparr>jobs := map (\<lambda>j. if p j then f j else j) (jobs d)\<rparr>"

definition waitsFor :: "ident \<Rightarrow> source_account \<Rightarrow> job_row \<Rightarrow> bool" where
  "waitsFor owner acc j \<longleftrightarrow> jobOwner j = owner \<and> jobAccount j = acc \<and> jobState j = WAITING_SOURCE_LOGIN"

definition resumeSource :: "int \<Rightarrow> ident \<Rightarrow> source_account \<Rightarrow> research_db \<Rightarrow> nat \<times> research_db" where
  "resumeSource now owner acc d =
     (length (filter (waitsFor owner acc) (jobs d)),
      updateJobs (waitsFor owner acc) (\<lambda>j. j\<lparr>jobState := QUEUED, jobWorker := None, jobLease := None,
        jobUpdatedAt := now\<rparr>) d)"

section \<open>Claiming\<close>

record research_claim =
  rcJob :: ident
  rcBatch :: ident
  rcOwner :: ident
  rcTask :: ident
  rcQuery :: string
  rcAccount :: source_account
  rcCheckpoint :: "json option"
  rcWorker :: ident
  rcAttempt :: nat

definition validLease :: "int \<Rightarrow> bool" where
  "validLease lease \<longleftrightarrow> 0 < lease \<and> lease \<le> 9007199254740991"

definition MAX_ATTEMPTS :: nat where
  "MAX_ATTEMPTS = 5"

definition leaseOver :: "int \<Rightarrow> job_row \<Rightarrow> bool" where
  "leaseOver now j \<longleftrightarrow> (case jobLease j of None \<Rightarrow> False | Some l \<Rightarrow> l \<le> now)"

text \<open>A worker that let its last attempt expire exhausts the job.\<close>

definition exhaustedJob :: "int \<Rightarrow> job_row \<Rightarrow> bool" where
  "exhaustedJob now j \<longleftrightarrow> jobState j = RUNNING \<and> leaseOver now j \<and> jobAttempts j \<ge> MAX_ATTEMPTS"

definition EXHAUSTED :: string where
  "EXHAUSTED = ''The source research has used up its attempts''"

definition expireExhausted :: "int \<Rightarrow> research_db \<Rightarrow> research_db" where
  "expireExhausted now = updateJobs (exhaustedJob now) (\<lambda>j. j\<lparr>jobState := job_state.FAILED_FINAL, jobWorker := None,
     jobLease := None, jobNextAttempt := None, jobOutcome := Some (FAILED_FINAL EXHAUSTED), jobUpdatedAt := now\<rparr>)"

definition claimableJob :: "int \<Rightarrow> job_row \<Rightarrow> bool" where
  "claimableJob now j \<longleftrightarrow>
     jobState j = QUEUED
     \<or> jobState j = job_state.FAILED_RETRYABLE \<and> (case jobNextAttempt j of None \<Rightarrow> False | Some t \<Rightarrow> t \<le> now)
     \<or> jobState j = RUNNING \<and> leaseOver now j \<and> jobAttempts j < MAX_ATTEMPTS"

definition nextJob :: "int \<Rightarrow> research_db \<Rightarrow> job_row option" where
  "nextJob now d = (case sort_key jobCreatedAt (sort_key jobId (filter (claimableJob now) (jobs d))) of
     [] \<Rightarrow> None | j # _ \<Rightarrow> Some j)"

definition claimOf :: "ident \<Rightarrow> job_row \<Rightarrow> research_claim" where
  "claimOf worker j = \<lparr>rcJob = jobId j, rcBatch = jobBatch j, rcOwner = jobOwner j, rcTask = jobTask j,
     rcQuery = jobQuery j, rcAccount = jobAccount j, rcCheckpoint = jobCheckpoint j, rcWorker = worker,
     rcAttempt = Suc (jobAttempts j)\<rparr>"

definition claimNextJob ::
    "int \<Rightarrow> ident \<Rightarrow> int \<Rightarrow> research_db \<Rightarrow> (research_error + research_claim option) \<times> research_db" where
  "claimNextJob now worker lease d =
     (if \<not> validLease lease then (Inl SOURCE_RESEARCH_LEASE_INVALID, d)
      else let d1 = expireExhausted now d in
        case nextJob now d1 of
          None \<Rightarrow> (Inr None, d1)
        | Some j \<Rightarrow> (Inr (Some (claimOf worker j)),
            updateJobs (\<lambda>k. jobId k = jobId j) (\<lambda>k. k\<lparr>jobState := RUNNING, jobWorker := Some worker,
              jobLease := Some (now + lease), jobAttempts := Suc (jobAttempts k), jobUpdatedAt := now\<rparr>) d1))"

text \<open>The job is still this worker's.\<close>

definition holdsLease :: "int \<Rightarrow> research_claim \<Rightarrow> job_row \<Rightarrow> bool" where
  "holdsLease now c j \<longleftrightarrow> jobId j = rcJob c \<and> jobWorker j = Some (rcWorker c) \<and> jobState j = RUNNING
     \<and> (case jobLease j of None \<Rightarrow> False | Some l \<Rightarrow> l > now)"

datatype lease_answer = HELD | LEASE_LOST

definition leaseAnswer :: "int \<Rightarrow> research_claim \<Rightarrow> research_db \<Rightarrow> lease_answer" where
  "leaseAnswer now c d = (if length (filter (holdsLease now c) (jobs d)) = 1 then HELD else LEASE_LOST)"

definition renewLease ::
    "int \<Rightarrow> research_claim \<Rightarrow> int \<Rightarrow> research_db \<Rightarrow> (research_error + lease_answer) \<times> research_db" where
  "renewLease now c lease d =
     (if \<not> validLease lease then (Inl SOURCE_RESEARCH_LEASE_INVALID, d)
      else (Inr (leaseAnswer now c d),
        updateJobs (holdsLease now c) (\<lambda>j. j\<lparr>jobLease := Some (now + lease), jobUpdatedAt := now\<rparr>) d))"

definition saveJobCheckpoint :: "int \<Rightarrow> research_claim \<Rightarrow> json \<Rightarrow> research_db \<Rightarrow> lease_answer \<times> research_db" where
  "saveJobCheckpoint now c v d =
     (leaseAnswer now c d,
      updateJobs (holdsLease now c) (\<lambda>j. j\<lparr>jobCheckpoint := Some v, jobUpdatedAt := now\<rparr>) d)"

section \<open>Completing\<close>

datatype job_completion = COMMITTED | ALREADY_COMMITTED | COMPLETION_LEASE_LOST

text \<open>The columns \<open>cost_units\<close> are non-negative 32-bit integers.\<close>

definition costAllowed :: "int \<Rightarrow> bool" where
  "costAllowed cost \<longleftrightarrow> 0 \<le> cost \<and> cost < 2 ^ 31"

definition finishJob ::
    "ident \<Rightarrow> job_state \<Rightarrow> int \<Rightarrow> research_outcome option \<Rightarrow> int \<Rightarrow> int option \<Rightarrow> research_db \<Rightarrow> research_db option" where
  "finishJob jid st now out cost next d =
     (if \<not> costAllowed cost then None
      else Some (updateJobs (\<lambda>j. jobId j = jid) (\<lambda>j. j\<lparr>jobState := st, jobOutcome := out, jobCost := cost,
        jobWorker := None, jobLease := None, jobNextAttempt := next, jobUpdatedAt := now\<rparr>) d))"

text \<open>\<open>Math.min(300_000, 1_000 * 2 ** (attempts - 1))\<close>\<close>

definition backoffMs :: "nat \<Rightarrow> int" where
  "backoffMs attempts = (if attempts = 0 then 500 else min 300000 (1000 * 2 ^ (attempts - 1)))"

definition insertResult :: "int \<Rightarrow> research_claim \<Rightarrow> string \<Rightarrow> ident \<Rightarrow> string \<Rightarrow> int \<Rightarrow> research_db \<Rightarrow> research_db option" where
  "insertResult now c rkey evid sm cost d =
     (if (rcJob c, rkey) \<in> (\<lambda>r. (rsJob r, rsKey r)) ` set (results d) \<or> rcJob c \<notin> jobId ` set (jobs d)
         \<or> rcBatch c \<notin> baId ` set (batches d) \<or> \<not> costAllowed cost
      then None
      else Some (d\<lparr>results := results d @ [\<lparr>rsJob = rcJob c, rsBatch = rcBatch c, rsOwner = rcOwner c, rsKey = rkey,
             rsEvidence = evid, rsSummary = sm, rsCost = cost, rsCreatedAt = now\<rparr>]\<rparr>))"

definition commitOutcome :: "int \<Rightarrow> research_claim \<Rightarrow> nat \<Rightarrow> research_outcome \<Rightarrow> research_db \<Rightarrow> research_db option" where
  "commitOutcome now c attempts out d = (case out of
      EVIDENCE rkey evid sm cost \<Rightarrow>
        (case insertResult now c rkey evid sm cost d of
           None \<Rightarrow> None
         | Some d' \<Rightarrow> finishJob (rcJob c) COMPLETED now None cost None d')
    | NO_RESULT sm cost \<Rightarrow> finishJob (rcJob c) job_state.NO_RESULT now (Some out) cost None d
    | WAITING_CHALLENGE ch l \<Rightarrow> finishJob (rcJob c) WAITING_SOURCE_LOGIN now (Some out) 0 None d
    | FAILED_RETRYABLE sm \<Rightarrow>
        finishJob (rcJob c) (if attempts \<ge> MAX_ATTEMPTS then job_state.FAILED_FINAL else job_state.FAILED_RETRYABLE) now (Some out) 0
          (if attempts \<ge> MAX_ATTEMPTS then None else Some (now + backoffMs attempts)) d
    | FAILED_FINAL sm \<Rightarrow> finishJob (rcJob c) job_state.FAILED_FINAL now (Some out) 0 None d)"

definition alreadyCommitted :: "research_claim \<Rightarrow> research_outcome \<Rightarrow> research_db \<Rightarrow> bool" where
  "alreadyCommitted c out d = (case out of
      EVIDENCE rkey _ _ _ \<Rightarrow> list_ex (\<lambda>r. rsJob r = rcJob c \<and> rsKey r = rkey) (results d)
    | _ \<Rightarrow> False)"

text \<open>\<open>now\<close> is the time of the lock, \<open>stamp\<close> that of the writes.\<close>

definition completeJob ::
    "int \<Rightarrow> int \<Rightarrow> research_claim \<Rightarrow> research_outcome \<Rightarrow> research_db
     \<Rightarrow> (research_error + job_completion) \<times> research_db" where
  "completeJob now stamp c out d =
     (if alreadyCommitted c out d then (Inr ALREADY_COMMITTED, d)
      else (case find (holdsLease now c) (jobs d) of
          None \<Rightarrow> (Inr COMPLETION_LEASE_LOST, d)
        | Some j \<Rightarrow>
            (case commitOutcome stamp c (jobAttempts j) out d of
               None \<Rightarrow> (Inl SOURCE_RESEARCH_ROW_REJECTED, d)
             | Some d' \<Rightarrow> (Inr COMMITTED,
                 d'\<lparr>batches := map (\<lambda>b. if baId b = rcBatch c then b\<lparr>baUpdatedAt := stamp\<rparr> else b) (batches d')\<rparr>))))"

section \<open>Purging\<close>

text \<open>The jobs, results and outbox rows of a batch are deleted with it.\<close>

definition purgeResearch :: "ident \<Rightarrow> research_db \<Rightarrow> nat \<times> research_db" where
  "purgeResearch owner d =
     (let gone = baId ` set (filter (\<lambda>b. baOwner b = owner) (batches d));
          goneJobs = jobId ` set (filter (\<lambda>j. jobBatch j \<in> gone) (jobs d))
      in (length (filter (\<lambda>b. baOwner b = owner) (batches d)),
          d\<lparr>batches := filter (\<lambda>b. baOwner b \<noteq> owner) (batches d),
            jobs := filter (\<lambda>j. jobBatch j \<notin> gone) (jobs d),
            results := filter (\<lambda>r. rsJob r \<notin> goneJobs \<and> rsBatch r \<notin> gone) (results d),
            researchOutbox := filter (\<lambda>r. roJob r \<notin> goneJobs) (researchOutbox d)\<rparr>))"

section \<open>The notification publisher\<close>

definition markPublished :: "int \<Rightarrow> nat \<Rightarrow> research_db \<Rightarrow> research_db" where
  "markPublished dbNow k d = d\<lparr>researchOutbox := map (\<lambda>r. if roId r = k \<and> roPublishedAt r = None
     then r\<lparr>roPublishedAt := Some dbNow\<rparr> else r) (researchOutbox d)\<rparr>"

text \<open>\<open>sent k\<close>: Redis took the message of row \<open>k\<close>. A message that it refuses ends the run with an error (\<open>None\<close>).\<close>

fun publishRows :: "(nat \<Rightarrow> bool) \<Rightarrow> int \<Rightarrow> nat list \<Rightarrow> research_db \<Rightarrow> nat \<Rightarrow> nat option \<times> research_db" where
  "publishRows sent dbNow [] d n = (Some n, d)"
| "publishRows sent dbNow (k # ks) d n =
     (if sent k then publishRows sent dbNow ks (markPublished dbNow k d) (Suc n) else (None, d))"

definition unpublishedRows :: "research_db \<Rightarrow> nat list" where
  "unpublishedRows d = sort (map roId (filter (\<lambda>r. roPublishedAt r = None) (researchOutbox d)))"

definition publishResearch :: "(nat \<Rightarrow> bool) \<Rightarrow> int \<Rightarrow> research_db \<Rightarrow> nat option \<times> research_db" where
  "publishResearch sent dbNow d = publishRows sent dbNow (take 100 (unpublishedRows d)) d 0"

end
