(* ===== verification/CM_Source_Access.thy ===== *)
theory CM_Source_Access
  imports CM_Security
begin

text \<open>
  Access to the accounts of sources (packages/source-access/src/index.ts): login sessions, and for each
  account of an owner the credential that the vault keeps for it. A table is the list of its rows; the state
  of an operation is the tables and the run of the vault, whose ports are parameters. An error of the vault is
  thrown on.
\<close>

section \<open>Data\<close>

datatype credential_status = ACTIVE | INVALID | REVOKED

datatype login_status = LOGIN_WAITING_CHALLENGE | LOGIN_COMPLETED

record credential_row =
  crdOwner :: ident
  crdSource :: ident
  crdAccount :: ident
  crdId :: ident
  crdStatus :: credential_status
  crdCreatedAt :: int
  crdUpdatedAt :: int

record login_row =
  lgId :: ident
  lgUrl :: string
  lgOwner :: ident
  lgSource :: ident
  lgAccount :: ident
  lgStatus :: login_status
  lgReplaced :: "ident option"
  lgCreatedAt :: int
  lgUpdatedAt :: int

record source_db =
  logins :: "login_row list"
  sourceCredentials :: "credential_row list"

definition emptySources :: source_db where
  "emptySources = \<lparr>logins = [], sourceCredentials = []\<rparr>"

record source_status =
  ssOwner :: ident
  ssSource :: ident
  ssAccount :: ident
  ssStatus :: credential_status
  ssUpdatedAt :: string

record login_session =
  lsId :: ident
  lsUrl :: string
  lsOwner :: ident
  lsSource :: ident
  lsAccount :: ident
  lsStatus :: login_status
  lsCreatedAt :: string
  lsUpdatedAt :: string

definition toSourceStatus :: "credential_row \<Rightarrow> source_status" where
  "toSourceStatus r = \<lparr>ssOwner = crdOwner r, ssSource = crdSource r, ssAccount = crdAccount r, ssStatus = crdStatus r,
     ssUpdatedAt = toISOString (crdUpdatedAt r)\<rparr>"

definition toLoginSession :: "login_row \<Rightarrow> login_session" where
  "toLoginSession l = \<lparr>lsId = lgId l, lsUrl = lgUrl l, lsOwner = lgOwner l, lsSource = lgSource l, lsAccount = lgAccount l,
     lsStatus = lgStatus l, lsCreatedAt = toISOString (lgCreatedAt l), lsUpdatedAt = toISOString (lgUpdatedAt l)\<rparr>"

datatype access_error =
    SOURCE_LOGIN_SESSION_NOT_FOUND
  | SOURCE_LOGIN_REQUIRED
  | SCOPE_OWNER_MISMATCH \<comment> \<open>\<open>CREDENTIAL_OWNER_MISMATCH\<close> of \<open>assertActorOwnsScope\<close>\<close>
  | SOURCE_ACCESS_WRITE_FAILED
  | SOURCE_ACCESS_ROW_REJECTED \<comment> \<open>a constraint of the schema\<close>
  | VaultFailed vault_error

type_synonym source_state = "source_db \<times> vault_event run"

type_synonym 'a access = "source_state \<Rightarrow> (access_error + 'a) \<times> source_state"

section \<open>Scopes\<close>

definition ownsScope :: "security_actor option \<Rightarrow> security_actor \<Rightarrow> ident \<Rightarrow> bool" where
  "ownsScope system actor owner \<longleftrightarrow>
     (if actorRole actor = SYSTEM
      then (case system of None \<Rightarrow> False | Some a \<Rightarrow> actorObject actor = actorObject a)
      else actorUserId actor = owner)"

definition ofAccount :: "ident \<Rightarrow> ident \<Rightarrow> ident \<Rightarrow> credential_row \<Rightarrow> bool" where
  "ofAccount owner src acc r \<longleftrightarrow> crdOwner r = owner \<and> crdSource r = src \<and> crdAccount r = acc"

definition accountRow :: "ident \<Rightarrow> ident \<Rightarrow> ident \<Rightarrow> source_db \<Rightarrow> credential_row option" where
  "accountRow owner src acc d = find (ofAccount owner src acc) (sourceCredentials d)"

definition deleteVaultCredential ::
    "vault_options \<Rightarrow> ident \<Rightarrow> ident \<Rightarrow> ident \<Rightarrow> security_actor \<Rightarrow> bool vault_io" where
  "deleteVaultCredential opts cid owner corr actor = deleteCredential opts
     \<lparr>inputCredentialId = cid, inputOwnerUserId = owner, inputActor = actor, inputCorrelationId = corr\<rparr>"

section \<open>Logging in\<close>

definition beginLogin ::
    "ident \<Rightarrow> int \<Rightarrow> ident \<Rightarrow> ident \<Rightarrow> ident \<Rightarrow> string \<Rightarrow> source_db \<Rightarrow> (access_error + login_session) \<times> source_db" where
  "beginLogin uuid now owner src acc url d =
     (let l = \<lparr>lgId = uuid, lgUrl = url, lgOwner = owner, lgSource = src, lgAccount = acc,
         lgStatus = LOGIN_WAITING_CHALLENGE, lgReplaced = None, lgCreatedAt = now, lgUpdatedAt = now\<rparr>
      in if uuid \<in> lgId ` set (logins d) then (Inl SOURCE_ACCESS_ROW_REJECTED, d)
         else (Inr (toLoginSession l), d\<lparr>logins := logins d @ [l]\<rparr>))"

record complete_login =
  clOwner :: ident
  clLogin :: ident
  clSecret :: string
  clCorrelation :: ident
  clActor :: security_actor

definition ownLogin :: "complete_login \<Rightarrow> login_row \<Rightarrow> bool" where
  "ownLogin c l \<longleftrightarrow> lgId l = clLogin c \<and> lgOwner l = clOwner c"

definition updateLogin :: "complete_login \<Rightarrow> (login_row \<Rightarrow> login_row) \<Rightarrow> source_db \<Rightarrow> source_db" where
  "updateLogin c f d = d\<lparr>logins := map (\<lambda>l. if ownLogin c l then f l else l) (logins d)\<rparr>"

definition clearReplaced :: "complete_login \<Rightarrow> source_db \<Rightarrow> source_db" where
  "clearReplaced c = updateLogin c (\<lambda>l. l\<lparr>lgReplaced := None\<rparr>)"

text \<open>The credential that a login replaced is deleted from the vault; the login remembers it until then.\<close>

definition dropReplaced :: "vault_options \<Rightarrow> complete_login \<Rightarrow> ident option \<Rightarrow> unit access" where
  "dropReplaced opts c old = (\<lambda>(d, s).
     case old of
       None \<Rightarrow> (Inr (), d, s)
     | Some cid \<Rightarrow>
         (case deleteVaultCredential opts cid (clOwner c) (clCorrelation c) (clActor c) s of
            (Inl e, s') \<Rightarrow> (Inl (VaultFailed e), d, s')
          | (Inr _, s') \<Rightarrow> (Inr (), clearReplaced c d, s')))"

text \<open>\<open>INSERT ... ON CONFLICT (owner_user_id, source_id, source_account_id) DO UPDATE\<close>\<close>

definition upsertCredential :: "ident \<Rightarrow> int \<Rightarrow> complete_login \<Rightarrow> login_row \<Rightarrow> source_db \<Rightarrow> source_db" where
  "upsertCredential cid now c l d =
     (if list_ex (ofAccount (clOwner c) (lgSource l) (lgAccount l)) (sourceCredentials d)
      then d\<lparr>sourceCredentials := map (\<lambda>r. if ofAccount (clOwner c) (lgSource l) (lgAccount l) r
             then r\<lparr>crdId := cid, crdStatus := ACTIVE, crdUpdatedAt := now\<rparr> else r) (sourceCredentials d)\<rparr>
      else d\<lparr>sourceCredentials := sourceCredentials d @ [\<lparr>crdOwner = clOwner c, crdSource = lgSource l,
             crdAccount = lgAccount l, crdId = cid, crdStatus = ACTIVE, crdCreatedAt = now, crdUpdatedAt = now\<rparr>]\<rparr>)"

definition commitLogin :: "ident \<Rightarrow> int \<Rightarrow> complete_login \<Rightarrow> login_row \<Rightarrow> source_db \<Rightarrow> source_db" where
  "commitLogin cid now c l d =
     updateLogin c (\<lambda>k. k\<lparr>lgStatus := LOGIN_COMPLETED,
         lgReplaced := map_option crdId (accountRow (clOwner c) (lgSource l) (lgAccount l) d), lgUpdatedAt := now\<rparr>)
       (upsertCredential cid now c l d)"

definition statusAfter :: "complete_login \<Rightarrow> login_row \<Rightarrow> source_db \<Rightarrow> access_error + source_status" where
  "statusAfter c l d = (case accountRow (clOwner c) (lgSource l) (lgAccount l) d of
     None \<Rightarrow> Inl SOURCE_ACCESS_WRITE_FAILED | Some r \<Rightarrow> Inr (toSourceStatus r))"

text \<open>A completed login answers again, and catches up on the deletion if that had failed.\<close>

definition repeatLogin :: "vault_options \<Rightarrow> complete_login \<Rightarrow> login_row \<Rightarrow> source_status access" where
  "repeatLogin opts c l = (\<lambda>(d, s).
     case dropReplaced opts c (lgReplaced l) (d, s) of
       (Inl e, d', s') \<Rightarrow> (Inl e, d', s')
     | (Inr _, d', s') \<Rightarrow> (statusAfter c l d, d', s'))"

text \<open>The secret is stored under a new id. If that fails, the transaction is rolled back and the new credential deleted.\<close>

definition firstLogin :: "vault_options \<Rightarrow> ident \<Rightarrow> int \<Rightarrow> complete_login \<Rightarrow> login_row \<Rightarrow> source_status access" where
  "firstLogin opts uuid now c l = (\<lambda>(d, s).
     case storeCredential opts \<lparr>inputCredentialId = uuid, inputOwnerUserId = clOwner c, inputActor = clActor c,
         inputCorrelationId = clCorrelation c\<rparr> SOURCE_CREDENTIAL (clSecret c) s of
       (Inl e, s1) \<Rightarrow>
         (case deleteVaultCredential opts uuid (clOwner c) (clCorrelation c) (clActor c) s1 of
            (Inl e', s2) \<Rightarrow> (Inl (VaultFailed e'), d, s2)
          | (Inr _, s2) \<Rightarrow> (Inl (VaultFailed e), d, s2))
     | (Inr _, s1) \<Rightarrow>
         (let d1 = commitLogin uuid now c l d;
              old = map_option crdId (accountRow (clOwner c) (lgSource l) (lgAccount l) d) in
          case dropReplaced opts c (if old = Some uuid then None else old) (d1, s1) of
            (Inl e, d2, s2) \<Rightarrow> (Inl e, d2, s2)
          | (Inr _, d2, s2) \<Rightarrow> (statusAfter c l d1, d2, s2)))"

definition completeLogin ::
    "vault_options \<Rightarrow> security_actor option \<Rightarrow> ident \<Rightarrow> int \<Rightarrow> complete_login \<Rightarrow> source_status access" where
  "completeLogin opts system uuid now c = (\<lambda>(d, s).
     if \<not> ownsScope system (clActor c) (clOwner c) then (Inl SCOPE_OWNER_MISMATCH, d, s)
     else (case find (ownLogin c) (logins d) of
         None \<Rightarrow> (Inl SOURCE_LOGIN_SESSION_NOT_FOUND, d, s)
       | Some l \<Rightarrow>
           if lgStatus l = LOGIN_COMPLETED then repeatLogin opts c l (d, s)
           else firstLogin opts uuid now c l (d, s)))"

section \<open>Invalidating and revoking\<close>

record scope_input =
  siOwner :: ident
  siSource :: ident
  siAccount :: ident
  siCorrelation :: ident
  siActor :: security_actor

definition setStatus ::
    "vault_options \<Rightarrow> security_actor option \<Rightarrow> int \<Rightarrow> credential_status \<Rightarrow> scope_input \<Rightarrow> source_status option access" where
  "setStatus opts system now st i = (\<lambda>(d, s).
     if \<not> ownsScope system (siActor i) (siOwner i) then (Inl SCOPE_OWNER_MISMATCH, d, s)
     else (case accountRow (siOwner i) (siSource i) (siAccount i) d of
         None \<Rightarrow> (Inr None, d, s)
       | Some r \<Rightarrow>
           (let d' = d\<lparr>sourceCredentials := map (\<lambda>q. if ofAccount (siOwner i) (siSource i) (siAccount i) q
                then q\<lparr>crdStatus := st, crdUpdatedAt := now\<rparr> else q) (sourceCredentials d)\<rparr> in
            case deleteVaultCredential opts (crdId r) (siOwner i) (siCorrelation i) (siActor i) s of
              (Inl e, s') \<Rightarrow> (Inl (VaultFailed e), d', s')
            | (Inr _, s') \<Rightarrow> (Inr (Some (toSourceStatus (r\<lparr>crdStatus := st, crdUpdatedAt := now\<rparr>))), d', s'))))"

section \<open>Reading and using\<close>

definition getSourceStatus :: "ident \<Rightarrow> ident \<Rightarrow> ident \<Rightarrow> source_db \<Rightarrow> source_status option" where
  "getSourceStatus owner src acc d = map_option toSourceStatus (accountRow owner src acc d)"

definition listSourceStatuses :: "ident \<Rightarrow> source_db \<Rightarrow> source_status list" where
  "listSourceStatuses owner d = map toSourceStatus
     (sort_key crdSource (sort_key crdAccount (filter (\<lambda>r. crdOwner r = owner) (sourceCredentials d))))"

text \<open>The operation on the secret is the vault's \<open>operationPort\<close>.\<close>

definition withCredential :: "vault_options \<Rightarrow> security_actor option \<Rightarrow> scope_input \<Rightarrow> unit access" where
  "withCredential opts system i = (\<lambda>(d, s).
     if \<not> ownsScope system (siActor i) (siOwner i) then (Inl SCOPE_OWNER_MISMATCH, d, s)
     else (case accountRow (siOwner i) (siSource i) (siAccount i) d of
         None \<Rightarrow> (Inl SOURCE_LOGIN_REQUIRED, d, s)
       | Some r \<Rightarrow>
           if crdStatus r \<noteq> ACTIVE then (Inl SOURCE_LOGIN_REQUIRED, d, s)
           else (case useCredential opts \<lparr>inputCredentialId = crdId r, inputOwnerUserId = siOwner i, inputActor = siActor i,
                 inputCorrelationId = siCorrelation i\<rparr> s of
               (Inl e, s') \<Rightarrow> (Inl (VaultFailed e), d, s')
             | (Inr _, s') \<Rightarrow> (Inr (), d, s'))))"

definition purgeSources :: "ident \<Rightarrow> source_db \<Rightarrow> nat \<times> source_db" where
  "purgeSources owner d =
     (length (filter (\<lambda>l. lgOwner l = owner) (logins d)) + length (filter (\<lambda>r. crdOwner r = owner) (sourceCredentials d)),
      \<lparr>logins = filter (\<lambda>l. lgOwner l \<noteq> owner) (logins d),
       sourceCredentials = filter (\<lambda>r. crdOwner r \<noteq> owner) (sourceCredentials d)\<rparr>)"

end
