(* ===== verification/CM_Source_Worker.thy ===== *)
theory CM_Source_Worker
  imports CM_Source_Research CM_Source_Access
begin

text \<open>
  The source worker (apps/source-worker/src/worker.ts), which claims a research job, uses the owner's
  credential for an adapter of the source and commits the outcome, and the fixture adapter
  (fixture-adapter.ts). An adapter is a parameter: what it does while it runs is a list of events, its
  outcome a function of the claim, the secret and the answers to its checkpoints.
\<close>

section \<open>Adapters\<close>

datatype adapter_outcome = ADAPTER_RESULT research_outcome | AUTH_REQUIRED login_challenge

text \<open>
  While the adapter runs: somebody else changes the research tables, the heartbeat fires (at a time, or
  \<open>None\<close> when the call throws), or the adapter saves a checkpoint at a time.
\<close>

datatype script_event =
    Others "research_db \<Rightarrow> research_db"
  | Heartbeat "int option"
  | SavesCheckpoint int json

record adapter =
  officialLoginUrl :: string
  adapterScript :: "research_claim \<Rightarrow> string \<Rightarrow> script_event list"
  adapterOutcome :: "research_claim \<Rightarrow> string \<Rightarrow> lease_answer list \<Rightarrow> adapter_outcome option" \<comment> \<open>\<open>None\<close>: it throws\<close>

text \<open>A renewal that throws or finds the lease lost aborts the adapter; the job is then not completed.\<close>

fun runScript ::
    "int \<Rightarrow> research_claim \<Rightarrow> script_event list \<Rightarrow> research_db \<Rightarrow> bool \<times> lease_answer list \<times> research_db" where
  "runScript lease c [] d = (False, [], d)"
| "runScript lease c (Others f # es) d = runScript lease c es (f d)"
| "runScript lease c (Heartbeat t # es) d =
     (let (renewal, d1) = (case t of
            None \<Rightarrow> (Inl SOURCE_RESEARCH_LEASE_INVALID, d) | Some now \<Rightarrow> renewLease now c lease d);
          (lost, answers, d2) = runScript lease c es d1
      in (lost \<or> renewal \<noteq> Inr HELD, answers, d2))"
| "runScript lease c (SavesCheckpoint now v # es) d =
     (let (answer, d1) = saveJobCheckpoint now c v d;
          (lost, answers, d2) = runScript lease c es d1
      in (lost, answer # answers, d2))"

section \<open>One round of the worker\<close>

record source_worker =
  swWorker :: ident
  swActor :: security_actor
  swSystem :: "security_actor option" \<comment> \<open>the system actor that source access was opened with\<close>
  swAdapters :: "ident \<Rightarrow> adapter option"
  swLease :: int
  swVault :: vault_options
  swNow :: "nat \<Rightarrow> int"
  swUuid :: "nat \<Rightarrow> ident"

datatype worker_failure = ResearchFailed research_error | AccessFailed access_error

record worker_round =
  wrClaimed :: nat
  wrCompleted :: nat

type_synonym worker_state = "research_db \<times> source_state"

definition scopeOf :: "source_worker \<Rightarrow> research_claim \<Rightarrow> scope_input" where
  "scopeOf w c = \<lparr>siOwner = rcOwner c, siSource = srcId (rcAccount c), siAccount = srcAccount (rcAccount c),
     siCorrelation = rcJob c, siActor = swActor w\<rparr>"

text \<open>Its last call; \<open>n\<close> is the number of completed jobs it reports.\<close>

definition finishRound ::
    "source_worker \<Rightarrow> research_claim \<Rightarrow> research_outcome \<Rightarrow> worker_state
     \<Rightarrow> (worker_failure + worker_round) \<times> worker_state" where
  "finishRound w c out = (\<lambda>(d, ss).
     case completeJob (swNow w 1) (swNow w 2) c out d of
       (Inl e, d') \<Rightarrow> (Inl (ResearchFailed e), d', ss)
     | (Inr _, d') \<Rightarrow> (Inr \<lparr>wrClaimed = 1, wrCompleted = 1\<rparr>, d', ss))"

definition startLogin :: "source_worker \<Rightarrow> adapter \<Rightarrow> research_claim \<Rightarrow> source_db \<Rightarrow> (access_error + login_session) \<times> source_db" where
  "startLogin w a c = beginLogin (swUuid w 0) (swNow w 3) (rcOwner c) (srcId (rcAccount c)) (srcAccount (rcAccount c))
     (officialLoginUrl a)"

text \<open>The owner has to log in (again): the job waits for the challenge.\<close>

definition waitForLogin ::
    "source_worker \<Rightarrow> adapter \<Rightarrow> research_claim \<Rightarrow> login_challenge \<Rightarrow> worker_state
     \<Rightarrow> (worker_failure + worker_round) \<times> worker_state" where
  "waitForLogin w a c ch = (\<lambda>(d, sd, s).
     case startLogin w a c sd of
       (Inl e, sd') \<Rightarrow> (Inl (AccessFailed e), d, sd', s)
     | (Inr l, sd') \<Rightarrow> finishRound w c (WAITING_CHALLENGE ch (lsId l)) (d, sd', s))"

text \<open>\<open>MARK_INVALID\<close>, then \<open>BEGIN_LOGIN\<close>: the new login, or what was thrown.\<close>

definition invalidateAndLogin ::
    "source_worker \<Rightarrow> adapter \<Rightarrow> research_claim \<Rightarrow> source_state \<Rightarrow> (access_error + login_session) \<times> source_state" where
  "invalidateAndLogin w a c ss =
     (case setStatus (swVault w) (swSystem w) (swNow w 4) INVALID (scopeOf w c) ss of
        (Inl e, ss') \<Rightarrow> (Inl e, ss')
      | (Inr _, sd, s) \<Rightarrow> (case startLogin w a c sd of (r, sd') \<Rightarrow> (r, sd', s)))"

definition LOGIN_ERRORS :: "access_error list" where
  "LOGIN_ERRORS = [SOURCE_LOGIN_REQUIRED, VaultFailed CREDENTIAL_NOT_FOUND]"

definition INTERRUPTED :: string where
  "INTERRUPTED = ''The source research is interrupted and can be resumed from its last checkpoint''"

text \<open>
  The use of the credential: what the call threw, the secret that the vault passed to the adapter if it got
  that far, and the state of source access. The operation throws when the adapter has no outcome.
\<close>

definition newlyOperated :: "vault_event run \<Rightarrow> vault_event run \<Rightarrow> string option" where
  "newlyOperated s s' = List.find (\<lambda>_. True)
     (List.map_filter (\<lambda>e. case e of Operated p \<Rightarrow> Some p | _ \<Rightarrow> None) (drop (length (trace s)) (trace s')))"

definition adapterEnds :: "source_worker \<Rightarrow> adapter \<Rightarrow> research_claim \<Rightarrow> research_db \<Rightarrow> string \<Rightarrow> unit option" where
  "adapterEnds w a c d secret =
     (let (lost, answers, d') = runScript (swLease w) c (adapterScript a c secret) d
      in map_option (\<lambda>_. ()) (adapterOutcome a c secret answers))"

definition useForAdapter ::
    "source_worker \<Rightarrow> adapter \<Rightarrow> research_claim \<Rightarrow> worker_state \<Rightarrow> (access_error + unit) \<times> string option \<times> source_state" where
  "useForAdapter w a c = (\<lambda>(d, sd, s).
     case withCredential ((swVault w)\<lparr>operationPort := (\<lambda>n p. adapterEnds w a c d p)\<rparr>) (swSystem w) (scopeOf w c) (sd, s) of
       (r, sd', s') \<Rightarrow> (r, newlyOperated s s', sd', s'))"

text \<open>
  The round with an active account. An adapter that was not reached leaves the events of others and the
  heartbeat only (\<open>idle\<close>).
\<close>

definition idleEvents :: "script_event list \<Rightarrow> script_event list" where
  "idleEvents = filter (\<lambda>e. case e of SavesCheckpoint _ _ \<Rightarrow> False | _ \<Rightarrow> True)"

definition roundWithAccount ::
    "source_worker \<Rightarrow> adapter \<Rightarrow> script_event list \<Rightarrow> research_claim \<Rightarrow> worker_state
     \<Rightarrow> (worker_failure + worker_round) \<times> worker_state" where
  "roundWithAccount w a idle c = (\<lambda>(d, ss).
     let (used, secret, ss1) = useForAdapter w a c (d, ss);
         (lost, answers, d1) = runScript (swLease w) c
            (case secret of None \<Rightarrow> idleEvents idle | Some p \<Rightarrow> adapterScript a c p) d;
         ended = (case secret of None \<Rightarrow> None | Some p \<Rightarrow> adapterOutcome a c p answers);
         failure = (case used of Inl e \<Rightarrow> Some e | Inr _ \<Rightarrow> None);
         (login, ss2) = (if \<exists>e \<in> set LOGIN_ERRORS. failure = Some e
            then map_prod (map_sum id Some) id (invalidateAndLogin w a c ss1) else (Inr None, ss1))
     in case login of
          Inl e \<Rightarrow> (Inl (AccessFailed e), d1, ss2)
        | Inr l \<Rightarrow>
            if lost then (Inr \<lparr>wrClaimed = 1, wrCompleted = 0\<rparr>, d1, ss2)
            else (case ended of
                Some (AUTH_REQUIRED ch) \<Rightarrow>
                  (case invalidateAndLogin w a c ss2 of
                     (Inl e, ss3) \<Rightarrow> (Inl (AccessFailed e), d1, ss3)
                   | (Inr k, ss3) \<Rightarrow> finishRound w c (WAITING_CHALLENGE ch (lsId k)) (d1, ss3))
              | Some (ADAPTER_RESULT out) \<Rightarrow> finishRound w c out (d1, ss2)
              | None \<Rightarrow> finishRound w c
                  (case l of Some k \<Rightarrow> WAITING_CHALLENGE QR_CODE (lsId k) | None \<Rightarrow> FAILED_RETRYABLE INTERRUPTED)
                  (d1, ss2)))"

definition NO_ADAPTER :: "ident \<Rightarrow> string" where
  "NO_ADAPTER src = ''There is no adapter for the source: '' @ src"

definition workerRound ::
    "source_worker \<Rightarrow> script_event list \<Rightarrow> worker_state \<Rightarrow> (worker_failure + worker_round) \<times> worker_state" where
  "workerRound w idle = (\<lambda>(d, sd, s).
     case claimNextJob (swNow w 0) (swWorker w) (swLease w) d of
       (Inl e, d1) \<Rightarrow> (Inl (ResearchFailed e), d1, sd, s)
     | (Inr None, d1) \<Rightarrow> (Inr \<lparr>wrClaimed = 0, wrCompleted = 0\<rparr>, d1, sd, s)
     | (Inr (Some c), d1) \<Rightarrow>
         (case swAdapters w (srcId (rcAccount c)) of
            None \<Rightarrow> finishRound w c (FAILED_FINAL (NO_ADAPTER (srcId (rcAccount c)))) (d1, sd, s)
          | Some a \<Rightarrow>
              if map_option ssStatus (getSourceStatus (rcOwner c) (srcId (rcAccount c)) (srcAccount (rcAccount c)) sd) \<noteq> Some ACTIVE
              then waitForLogin w a c QR_CODE (d1, sd, s)
              else roundWithAccount w a idle c (d1, sd, s)))"

section \<open>The fixture adapter\<close>

definition fixtureDigest :: "(string \<Rightarrow> string) \<Rightarrow> research_claim \<Rightarrow> string" where
  "fixtureDigest sha256 c = take 24 (sha256 (nulKey (srcId (rcAccount c)) (rcQuery c)))"

text \<open>
  It saves one checkpoint. It throws when the checkpoint finds the lease lost, and when it sees that it has been
  aborted, at its start or after the checkpoint.
\<close>

definition fixtureAdapter :: "string \<Rightarrow> (string \<Rightarrow> string) \<Rightarrow> int \<Rightarrow> bool \<Rightarrow> bool \<Rightarrow> adapter" where
  "fixtureAdapter loginUrl sha256 now abortedFirst abortedLater =
     \<lparr>officialLoginUrl = loginUrl,
      adapterScript = (\<lambda>c p. if abortedFirst then [] else
        [SavesCheckpoint now (JObj [(''stage'', JStr ''fixture-collected''), (''query'', JStr (rcQuery c))])]),
      adapterOutcome = (\<lambda>c p answers.
        if abortedFirst \<or> LEASE_LOST \<in> set answers \<or> abortedLater then None
        else Some (ADAPTER_RESULT (EVIDENCE (''fixture:'' @ fixtureDigest sha256 c) (''evidence-fixture-'' @ fixtureDigest sha256 c)
          (''The fixture source has verified the research skeleton: '' @ rcQuery c) 0)))\<rparr>"

end
