(* ===== verification/CM_Research_Facts.thy ===== *)
theory CM_Research_Facts
  imports CM_Source_Research
begin

text \<open>
  What holds in every state of the source research tables: the columns of a job fit its state, keys are
  unique, and each job has its evidence exactly once. Then the life of a lease, the bound on the attempts,
  idempotent creation and the state of a batch.
\<close>

section \<open>The invariant\<close>

definition jobTyped :: "job_row \<Rightarrow> bool" where
  "jobTyped j \<longleftrightarrow> (jobState j = RUNNING \<longleftrightarrow> jobLease j \<noteq> None) \<and> (jobLease j = None \<longleftrightarrow> jobWorker j = None)
     \<and> (jobState j = RUNNING \<longrightarrow> 0 < jobAttempts j)
     \<and> (jobState j = job_state.FAILED_RETRYABLE \<longrightarrow> jobAttempts j < MAX_ATTEMPTS \<and> jobNextAttempt j \<noteq> None)"

text \<open>The results of a job, as far as the job determines them.\<close>

definition evidenceOf :: "ident \<Rightarrow> research_db \<Rightarrow> (ident \<times> ident \<times> int) list" where
  "evidenceOf jid d = map (\<lambda>r. (rsBatch r, rsOwner r, rsCost r)) (filter (\<lambda>r. rsJob r = jid) (results d))"

definition evidenceOnce :: "research_db \<Rightarrow> job_row \<Rightarrow> bool" where
  "evidenceOnce d j \<longleftrightarrow>
     evidenceOf (jobId j) d = (if jobState j = COMPLETED then [(jobBatch j, jobOwner j, jobCost j)] else [])"

definition researchInv :: "research_db \<Rightarrow> bool" where
  "researchInv d \<longleftrightarrow>
     distinct (map jobId (jobs d)) \<and> distinct (map baId (batches d))
     \<and> distinct (map (\<lambda>b. (baOwner b, baKey b)) (batches d))
     \<and> (\<forall>j \<in> set (jobs d). jobTyped j \<and> evidenceOnce d j \<and> jobBatch j \<in> baId ` set (batches d))
     \<and> rsJob ` set (results d) \<subseteq> jobId ` set (jobs d)"

lemma researchInvD:
  assumes "researchInv d"
  shows "distinct (map jobId (jobs d))" and "distinct (map baId (batches d))"
    and "distinct (map (\<lambda>b. (baOwner b, baKey b)) (batches d))"
    and "j \<in> set (jobs d) \<Longrightarrow> jobTyped j" and "j \<in> set (jobs d) \<Longrightarrow> evidenceOnce d j"
    and "j \<in> set (jobs d) \<Longrightarrow> jobBatch j \<in> baId ` set (batches d)"
    and "rsJob ` set (results d) \<subseteq> jobId ` set (jobs d)"
  using assms by (auto simp: researchInv_def)

lemma researchInv_empty: "researchInv emptyResearch"
  by (simp add: researchInv_def emptyResearch_def)

lemma evidence_of_new: "rsJob ` set (results d) \<subseteq> jobId ` set (jobs d) \<Longrightarrow> jid \<notin> jobId ` set (jobs d) \<Longrightarrow> evidenceOf jid d = []"
  by (auto simp: evidenceOf_def filter_empty_conv)

section \<open>Updates of jobs\<close>

lemma updateJobs_tables [simp]:
  "batches (updateJobs p f d) = batches d" "results (updateJobs p f d) = results d"
  "researchOutbox (updateJobs p f d) = researchOutbox d"
  "evidenceOf jid (updateJobs p f d) = evidenceOf jid d"
  by (simp_all add: updateJobs_def evidenceOf_def)

lemma set_updateJobs: "set (jobs (updateJobs p f d)) = (\<lambda>j. if p j then f j else j) ` set (jobs d)"
  by (simp add: updateJobs_def)

text \<open>An update that keeps the keys of the jobs.\<close>

definition keepsKeys :: "(job_row \<Rightarrow> job_row) \<Rightarrow> bool" where
  "keepsKeys f \<longleftrightarrow> (\<forall>j. jobId (f j) = jobId j \<and> jobBatch (f j) = jobBatch j \<and> jobOwner (f j) = jobOwner j
     \<and> jobAccount (f j) = jobAccount j)"

lemma keepsKeys_ids: "keepsKeys f \<Longrightarrow> map jobId (jobs (updateJobs p f d)) = map jobId (jobs d)"
  by (simp add: updateJobs_def keepsKeys_def)

lemma keepsKeys_idSet: "keepsKeys f \<Longrightarrow> jobId ` set (jobs (updateJobs p f d)) = jobId ` set (jobs d)"
  using keepsKeys_ids [of f p d] by (metis set_map)

lemma researchInv_update:
  assumes "researchInv d" and "keepsKeys f"
    and "\<And>j. j \<in> set (jobs d) \<Longrightarrow> jobTyped j \<Longrightarrow> p j \<Longrightarrow> jobTyped (f j) \<and> jobState j \<noteq> COMPLETED \<and> jobState (f j) \<noteq> COMPLETED"
  shows "researchInv (updateJobs p f d)"
proof -
  have "jobTyped k \<and> evidenceOnce (updateJobs p f d) k \<and> jobBatch k \<in> baId ` set (batches d)"
    if k: "k \<in> set (jobs (updateJobs p f d))" for k
  proof -
    obtain j where j: "j \<in> set (jobs d)" "k = (if p j then f j else j)"
      using k by (auto simp: set_updateJobs)
    then show ?thesis
      using researchInvD(4-6) [OF assms(1) j(1)] assms(2,3) [unfolded keepsKeys_def]
      by (auto simp: evidenceOnce_def)
  qed
  then show ?thesis
    using assms(1,2) by (simp add: researchInv_def keepsKeys_ids keepsKeys_idSet)
qed

lemma resumeSource_inv: "researchInv d \<Longrightarrow> researchInv (snd (resumeSource now owner acc d))"
  unfolding resumeSource_def snd_conv
  by (rule researchInv_update) (auto simp: keepsKeys_def waitsFor_def jobTyped_def)

lemma expireExhausted_inv: "researchInv d \<Longrightarrow> researchInv (expireExhausted now d)"
  unfolding expireExhausted_def
  by (rule researchInv_update) (auto simp: keepsKeys_def exhaustedJob_def jobTyped_def)

lemma nextJobD: "nextJob now d = Some j \<Longrightarrow> j \<in> set (jobs d) \<and> claimableJob now j"
  unfolding nextJob_def
  by (auto split: list.splits) (metis (no_types, lifting) list.set_intros(1) mem_Collect_eq set_filter set_sort)+

lemma same_job: "researchInv d \<Longrightarrow> j \<in> set (jobs d) \<Longrightarrow> k \<in> set (jobs d) \<Longrightarrow> jobId j = jobId k \<Longrightarrow> j = k"
  using researchInvD(1) by (metis distinct_map inj_onD)

lemma claimableJob_open: "claimableJob now j \<Longrightarrow> jobState j \<noteq> COMPLETED"
  by (auto simp: claimableJob_def)

lemma claimNextJob_inv: "researchInv d \<Longrightarrow> researchInv (snd (claimNextJob now worker lease d))"
proof -
  assume inv: "researchInv d"
  let ?d1 = "expireExhausted now d"
  have inv1: "researchInv ?d1" using inv by (rule expireExhausted_inv)
  have "researchInv (updateJobs (\<lambda>k. jobId k = jobId j) (\<lambda>k. k\<lparr>jobState := RUNNING, jobWorker := Some worker,
      jobLease := Some (now + lease), jobAttempts := Suc (jobAttempts k), jobUpdatedAt := now\<rparr>) ?d1)"
    if "nextJob now ?d1 = Some j" for j
    using inv1 nextJobD [OF that] same_job [OF inv1, of _ j]
    by (intro researchInv_update) (auto simp: keepsKeys_def jobTyped_def dest!: claimableJob_open)
  with inv inv1 show ?thesis by (auto simp: claimNextJob_def Let_def split: option.split)
qed

lemma renewLease_inv: "researchInv d \<Longrightarrow> researchInv (snd (renewLease now c lease d))"
  unfolding renewLease_def
  by (auto intro!: researchInv_update simp: keepsKeys_def holdsLease_def jobTyped_def)

lemma saveJobCheckpoint_inv: "researchInv d \<Longrightarrow> researchInv (snd (saveJobCheckpoint now c v d))"
  unfolding saveJobCheckpoint_def snd_conv
  by (rule researchInv_update) (auto simp: keepsKeys_def holdsLease_def jobTyped_def)

section \<open>Completing\<close>

text \<open>A claim names the batch and the owner of its job.\<close>

definition genuine :: "research_claim \<Rightarrow> research_db \<Rightarrow> bool" where
  "genuine c d \<longleftrightarrow> (\<forall>j \<in> set (jobs d). jobId j = rcJob c \<longrightarrow> jobBatch j = rcBatch c \<and> jobOwner j = rcOwner c)"

definition touchBatch :: "ident \<Rightarrow> int \<Rightarrow> research_db \<Rightarrow> research_db" where
  "touchBatch bid stamp d =
     d\<lparr>batches := map (\<lambda>b. if baId b = bid then b\<lparr>baUpdatedAt := stamp\<rparr> else b) (batches d)\<rparr>"

lemma touchBatch_inv: "researchInv d \<Longrightarrow> researchInv (touchBatch bid stamp d)"
proof -
  have "map baId (batches (touchBatch bid stamp d)) = map baId (batches d)"
    "map (\<lambda>b. (baOwner b, baKey b)) (batches (touchBatch bid stamp d)) = map (\<lambda>b. (baOwner b, baKey b)) (batches d)"
    by (simp_all add: touchBatch_def)
  moreover from this(1) have "baId ` set (batches (touchBatch bid stamp d)) = baId ` set (batches d)"
    by (metis set_map)
  moreover have "jobs (touchBatch bid stamp d) = jobs d" "results (touchBatch bid stamp d) = results d"
    by (simp_all add: touchBatch_def)
  ultimately show "researchInv d \<Longrightarrow> ?thesis"
    by (simp add: researchInv_def evidenceOnce_def evidenceOf_def)
qed

lemma finishJob_inv:
  assumes inv: "researchInv d" and held: "j \<in> set (jobs d)" "jobId j = jid" "jobState j = RUNNING"
    and finish: "finishJob jid st now out cost next d = Some d'"
    and st: "st \<noteq> COMPLETED" "st \<noteq> RUNNING"
    and retry: "st = job_state.FAILED_RETRYABLE \<Longrightarrow> jobAttempts j < MAX_ATTEMPTS \<and> next \<noteq> None"
  shows "researchInv d'"
proof -
  have "k = j" if "k \<in> set (jobs d)" "jobId k = jid" for k
    using same_job [OF inv that(1) held(1)] that held by simp
  moreover have "d' = updateJobs (\<lambda>j. jobId j = jid) (\<lambda>j. j\<lparr>jobState := st, jobOutcome := out, jobCost := cost,
        jobWorker := None, jobLease := None, jobNextAttempt := next, jobUpdatedAt := now\<rparr>) d"
    using finish by (simp add: finishJob_def split: if_splits)
  ultimately show ?thesis
    using inv held(3) st retry by (simp, intro researchInv_update) (auto simp: keepsKeys_def jobTyped_def)
qed

text \<open>The first evidence of a job completes it.\<close>

lemma commitEvidence_inv:
  assumes inv: "researchInv d" and held: "j \<in> set (jobs d)" "jobId j = rcJob c" "jobState j = RUNNING"
    and genuine: "genuine c d"
    and commit: "commitOutcome now c n (EVIDENCE rkey evid sm cost) d = Some d'"
  shows "researchInv d'"
proof -
  let ?row = "\<lparr>rsJob = rcJob c, rsBatch = rcBatch c, rsOwner = rcOwner c, rsKey = rkey, rsEvidence = evid, rsSummary = sm,
    rsCost = cost, rsCreatedAt = now\<rparr>"
  let ?d1 = "d\<lparr>results := results d @ [?row]\<rparr>"
  let ?done = "\<lambda>j. j\<lparr>jobState := COMPLETED, jobOutcome := None, jobCost := cost, jobWorker := None, jobLease := None,
    jobNextAttempt := None, jobUpdatedAt := now\<rparr>"
  have d': "d' = updateJobs (\<lambda>j. jobId j = rcJob c) ?done ?d1"
    using commit by (auto simp: commitOutcome_def insertResult_def finishJob_def split: if_splits option.splits)
  have evidence: "evidenceOf jid ?d1 = evidenceOf jid d @ (if rcJob c = jid then [(rcBatch c, rcOwner c, cost)] else [])" for jid
    by (simp add: evidenceOf_def)
  have keys: "keepsKeys ?done" by (simp add: keepsKeys_def)
  have "jobTyped k \<and> evidenceOnce d' k \<and> jobBatch k \<in> baId ` set (batches d)" if k: "k \<in> set (jobs d')" for k
  proof -
    obtain i where i: "i \<in> set (jobs d)" "k = (if jobId i = rcJob c then ?done i else i)"
      using k unfolding d' set_updateJobs by auto
    note facts = researchInvD(4-6) [OF inv i(1)]
    show ?thesis
    proof (cases "jobId i = rcJob c")
      case True
      then have "i = j" using same_job [OF inv i(1) held(1)] held by simp
      with True i facts held genuine show ?thesis
        by (auto simp: d' evidenceOnce_def evidence jobTyped_def genuine_def)
    next
      case False
      with i facts show ?thesis by (auto simp: d' evidenceOnce_def evidence)
    qed
  qed
  moreover have "map jobId (jobs d') = map jobId (jobs d)" and "jobId ` set (jobs d') = jobId ` set (jobs d)"
    unfolding d' keepsKeys_ids [OF keys] keepsKeys_idSet [OF keys] by simp_all
  moreover have "rsJob ` set (results d') = insert (jobId j) (rsJob ` set (results d))" by (simp add: d' held)
  ultimately show ?thesis
    using researchInvD(1-3,7) [OF inv] held(1) by (simp add: researchInv_def) (simp add: d')
qed

lemma completeJob_inv:
  assumes inv: "researchInv d" and genuine: "genuine c d"
  shows "researchInv (snd (completeJob now stamp c out d))"
proof -
  have "researchInv d'"
    if j: "find (holdsLease now c) (jobs d) = Some j" and commit: "commitOutcome stamp c (jobAttempts j) out d = Some d'" for j d'
  proof -
    have held: "j \<in> set (jobs d)" "jobId j = rcJob c" "jobState j = RUNNING"
      using j by (auto simp: find_Some_iff holdsLease_def)
    show ?thesis
    proof (cases out)
      case (EVIDENCE rkey evid sm cost)
      with commitEvidence_inv [OF inv held genuine] commit show ?thesis by metis
    qed (use commit in \<open>auto simp: commitOutcome_def split: if_splits intro: finishJob_inv [OF inv held]\<close>)
  qed
  with inv show ?thesis
    by (auto simp: completeJob_def simp flip: touchBatch_def intro!: touchBatch_inv split: option.splits)
qed

section \<open>Creating and purging\<close>

lemma insertJob_inv:
  assumes "researchInv d" and "insertJob j d = Some d'" and "jobTyped j" and "jobState j = QUEUED"
    and "jobBatch j \<in> baId ` set (batches d)"
  shows "researchInv d' \<and> batches d' = batches d"
proof -
  have fresh: "jobId j \<notin> jobId ` set (jobs d)"
    and d': "jobs d' = jobs d @ [j]" "batches d' = batches d" "results d' = results d"
    using assms(2) by (auto simp: insertJob_def split: if_splits)
  have "evidenceOf jid d' = evidenceOf jid d" for jid by (simp add: evidenceOf_def d')
  with fresh assms researchInvD [OF assms(1)] evidence_of_new [of d "jobId j"] show ?thesis
    by (auto simp: researchInv_def d' evidenceOnce_def)
qed

lemma insertJobs_inv:
  assumes "researchInv d" and "insertJobs mk n ss d = Some d'"
    and "\<And>s n. jobTyped (mk s n) \<and> jobState (mk s n) = QUEUED \<and> jobBatch (mk s n) \<in> baId ` set (batches d)"
  shows "researchInv d' \<and> batches d' = batches d"
  using assms
proof (induction ss arbitrary: n d)
  case Nil
  then show ?case by simp
next
  case (Cons s ss)
  then obtain d1 where d1: "insertJob (mk s n) d = Some d1" "insertJobs mk (Suc n) ss d1 = Some d'"
    by (auto split: option.splits)
  with insertJob_inv [OF Cons.prems(1) d1(1)] Cons.prems(3) have "researchInv d1" "batches d1 = batches d" by blast+
  with Cons.IH [OF _ d1(2)] Cons.prems(3) show ?case by simp
qed

lemma addBatch_inv:
  assumes "researchInv d" and "baId b \<notin> baId ` set (batches d)"
    and "(baOwner b, baKey b) \<notin> (\<lambda>b. (baOwner b, baKey b)) ` set (batches d)"
  shows "researchInv (d\<lparr>batches := batches d @ [b]\<rparr>)"
  using assms by (auto simp: researchInv_def evidenceOnce_def evidenceOf_def)

lemma createBatch_inv:
  assumes inv: "researchInv d"
  shows "researchInv (snd (createBatch env u now dbNow c d))"
proof -
  have "researchInv d'"
    if none: "find (\<lambda>b. baOwner b = cbOwner c \<and> baKey b = cbKey c) (batches d) = None" and new: "cbBatch c \<notin> baId ` set (batches d)"
      and ins: "insertJobs (\<lambda>s n. newJob now dbNow c (u n) s) 0 (normalizedSources env c) (d\<lparr>batches := batches d @ [b]\<rparr>) = Some d'"
      and b: "baId b = cbBatch c" "baOwner b = cbOwner c" "baKey b = cbKey c" for b d'
  proof -
    have "researchInv (d\<lparr>batches := batches d @ [b]\<rparr>)"
      using none new b by (intro addBatch_inv [OF inv]) (auto simp: find_None_iff)
    then show ?thesis
      using insertJobs_inv [OF _ ins] by (simp add: newJob_def jobTyped_def b)
  qed
  with inv show ?thesis
    by (auto simp: createBatch_def Let_def split: option.split)
qed

lemma purgeResearch_inv:
  assumes inv: "researchInv d"
  shows "researchInv (snd (purgeResearch owner d))"
proof -
  define gone where "gone = baId ` set (filter (\<lambda>b. baOwner b = owner) (batches d))"
  define goneJobs where "goneJobs = jobId ` set (filter (\<lambda>j. jobBatch j \<in> gone) (jobs d))"
  let ?d = "snd (purgeResearch owner d)"
  have tables: "batches ?d = filter (\<lambda>b. baOwner b \<noteq> owner) (batches d)"
    "jobs ?d = filter (\<lambda>j. jobBatch j \<notin> gone) (jobs d)"
    "results ?d = filter (\<lambda>r. rsJob r \<notin> goneJobs \<and> rsBatch r \<notin> gone) (results d)"
    by (simp_all add: purgeResearch_def Let_def gone_def goneJobs_def)
  have kept: "evidenceOf (jobId j) ?d = evidenceOf (jobId j) d" if "j \<in> set (jobs d)" "jobBatch j \<notin> gone" for j
  proof -
    have "jobId j \<notin> goneJobs"
      using that same_job [OF inv] by (fastforce simp: goneJobs_def)
    moreover have "rsBatch r \<notin> gone" if "r \<in> set (results d)" "rsJob r = jobId j" for r
    proof -
      have "(rsBatch r, rsOwner r, rsCost r) \<in> set (evidenceOf (jobId j) d)" using that by (auto simp: evidenceOf_def)
      with researchInvD(5) [OF inv \<open>j \<in> set (jobs d)\<close>] \<open>jobBatch j \<notin> gone\<close> show ?thesis
        by (auto simp: evidenceOnce_def split: if_splits)
    qed
    ultimately have "filter (\<lambda>r. rsJob r = jobId j) (results ?d) = filter (\<lambda>r. rsJob r = jobId j) (results d)"
      unfolding tables by (auto intro!: filter_cong)
    then show ?thesis by (simp add: evidenceOf_def)
  qed
  have "jobBatch j \<in> baId ` set (batches ?d)" if "j \<in> set (jobs d)" "jobBatch j \<notin> gone" for j
    using researchInvD(6) [OF inv that(1)] that(2) by (auto simp: tables gone_def)
  moreover have "rsJob r \<in> jobId ` set (jobs ?d)" if "r \<in> set (results ?d)" for r
    using that researchInvD(7) [OF inv] by (auto simp: tables goneJobs_def)
  ultimately show ?thesis
    using researchInvD(1-5) [OF inv] kept
    by (auto simp: researchInv_def distinct_map_filter tables(1,2) evidenceOnce_def)
qed

lemma markPublished_tables [simp]: "jobs (markPublished t k d) = jobs d" "batches (markPublished t k d) = batches d"
    "results (markPublished t k d) = results d"
  by (simp_all add: markPublished_def)

lemma publishRows_tables: "jobs (snd (publishRows sent t ks d n)) = jobs d"
    "batches (snd (publishRows sent t ks d n)) = batches d" "results (snd (publishRows sent t ks d n)) = results d"
  by (induction ks arbitrary: d n) auto

lemma publishResearch_inv: "researchInv d \<Longrightarrow> researchInv (snd (publishResearch sent t d))"
  by (simp add: publishResearch_def researchInv_def evidenceOnce_def evidenceOf_def publishRows_tables)

section \<open>Steps\<close>

text \<open>The operations of the workers, and those of the owner.\<close>

inductive worker_step :: "research_db \<Rightarrow> research_db \<Rightarrow> bool" where
  claims: "worker_step d (snd (claimNextJob now worker lease d))"
| renews: "worker_step d (snd (renewLease now c lease d))"
| checkpoints: "worker_step d (snd (saveJobCheckpoint now c v d))"
| completes: "genuine c d \<Longrightarrow> worker_step d (snd (completeJob now stamp c out d))"
| publishes: "worker_step d (snd (publishResearch sent t d))"

inductive research_step :: "research_env \<Rightarrow> research_db \<Rightarrow> research_db \<Rightarrow> bool" for env where
  works: "worker_step d d' \<Longrightarrow> research_step env d d'"
| creates: "research_step env d (snd (createBatch env u now dbNow c d))"
| resumes: "research_step env d (snd (resumeSource now owner acc d))"
| purges: "research_step env d (snd (purgeResearch owner d))"

inductive_cases worker_stepE: "worker_step d d'"
inductive_cases research_stepE: "research_step env d d'"

lemma worker_step_inv: "researchInv d \<Longrightarrow> worker_step d d' \<Longrightarrow> researchInv d'"
  by (erule worker_stepE) (simp_all add: claimNextJob_inv renewLease_inv saveJobCheckpoint_inv completeJob_inv publishResearch_inv)

interpretation research: step_invariant emptyResearch "research_step env" researchInv for env
proof unfold_locales
  show "researchInv emptyResearch" by (rule researchInv_empty)
  show "researchInv d'" if "researchInv d" "research_step env d d'" for d d'
    using that(2,1) by cases (simp_all add: createBatch_inv resumeSource_inv purgeResearch_inv worker_step_inv)
qed

end
