(* ===== verification/CM_Research_Properties.thy ===== *)
theory CM_Research_Properties
  imports CM_Research_Facts
begin

text \<open>
  What source research promises: evidence is committed once, a claim is exclusive while its lease lasts,
  the workers come to an end, and creating a batch is idempotent.
\<close>

text \<open>
  C23: in every state that the operations of source research lead to, in any order, a completed job has exactly
  one result, with its batch, owner and cost; any other job has none; and exactly the running jobs have a
  worker and a lease.
\<close>

theorem research_evidence_once:
  assumes "(research_step env)\<^sup>*\<^sup>* emptyResearch d" and "j \<in> set (jobs d)"
  shows "map (\<lambda>r. (rsBatch r, rsOwner r, rsCost r)) (filter (\<lambda>r. rsJob r = jobId j) (results d))
      = (if jobState j = COMPLETED then [(jobBatch j, jobOwner j, jobCost j)] else [])
    \<and> (jobState j = RUNNING \<longleftrightarrow> jobWorker j \<noteq> None \<and> jobLease j \<noteq> None)"
  using researchInvD(4,5) [OF research.reachable_inv [OF assms(1)] assms(2)]
  by (auto simp: evidenceOnce_def evidenceOf_def jobTyped_def)

section \<open>Leases\<close>

lemma updateJobs_none: "(\<And>j. j \<in> set (jobs d) \<Longrightarrow> \<not> p j) \<Longrightarrow> updateJobs p f d = d"
proof -
  assume "\<And>j. j \<in> set (jobs d) \<Longrightarrow> \<not> p j"
  then have "map (\<lambda>j. if p j then f j else j) (jobs d) = jobs d" by (intro map_idI) simp
  then show ?thesis by (simp add: updateJobs_def)
qed

text \<open>The job after a claim.\<close>

lemma claimed_job:
  assumes inv: "researchInv d" and claim: "claimNextJob now worker lease d = (Inr (Some c), d1)"
  obtains j where "j \<in> set (jobs d1)" "jobId j = rcJob c" "jobState j = RUNNING" "jobWorker j = Some worker"
    "jobLease j = Some (now + lease)" "rcWorker c = worker" "jobBatch j = rcBatch c" "jobOwner j = rcOwner c"
    "jobAttempts j = rcAttempt c"
proof -
  obtain i where i: "nextJob now (expireExhausted now d) = Some i" "c = claimOf worker i"
    and d1: "d1 = updateJobs (\<lambda>k. jobId k = jobId i) (\<lambda>k. k\<lparr>jobState := RUNNING, jobWorker := Some worker,
      jobLease := Some (now + lease), jobAttempts := Suc (jobAttempts k), jobUpdatedAt := now\<rparr>) (expireExhausted now d)"
    using claim by (auto simp: claimNextJob_def Let_def split: if_splits option.splits)
  let ?j = "i\<lparr>jobState := RUNNING, jobWorker := Some worker, jobLease := Some (now + lease),
    jobAttempts := Suc (jobAttempts i), jobUpdatedAt := now\<rparr>"
  have "?j \<in> set (jobs d1)"
    using nextJobD [OF i(1)] unfolding d1 set_updateJobs by (auto intro!: image_eqI [of _ _ i])
  then show thesis by (rule that) (simp_all add: i claimOf_def)
qed

lemma not_claimable_while_leased:
  "jobState j = RUNNING \<Longrightarrow> jobLease j = Some l \<Longrightarrow> now < l \<Longrightarrow> \<not> claimableJob now j \<and> \<not> exhaustedJob now j"
  by (simp add: claimableJob_def exhaustedJob_def leaseOver_def)

lemma lease_kept:
  assumes inv: "researchInv d" and j: "j \<in> set (jobs d)" "jobState j = RUNNING" "jobLease j = Some l" and "now < l"
    and claim: "claimNextJob now worker lease d = (Inr (Some c), d1)"
  shows "rcJob c \<noteq> jobId j"
proof
  assume same: "rcJob c = jobId j"
  let ?d = "expireExhausted now d"
  obtain i where i: "nextJob now ?d = Some i" "c = claimOf worker i"
    using claim by (auto simp: claimNextJob_def Let_def split: if_splits option.splits)
  have still: "j \<in> set (jobs ?d)"
    using j(1) not_claimable_while_leased [OF j(2,3) assms(5)]
    unfolding expireExhausted_def set_updateJobs by (intro image_eqI [of _ _ j]) auto
  have "i = j"
    using same_job [OF expireExhausted_inv [OF inv] conjunct1 [OF nextJobD [OF i(1)]] still] same i(2)
    by (simp add: claimOf_def)
  then show False
    using nextJobD [OF i(1)] not_claimable_while_leased [OF j(2,3) assms(5)] by simp
qed

text \<open>The cost units that an outcome reports.\<close>

definition outcomeCost :: "research_outcome \<Rightarrow> int" where
  "outcomeCost out = (case out of EVIDENCE _ _ _ cost \<Rightarrow> cost | NO_RESULT _ cost \<Rightarrow> cost | _ \<Rightarrow> 0)"

lemma holder_commits:
  assumes inv: "researchInv d" and j: "j \<in> set (jobs d)" "holdsLease now c j" and "jobBatch j = rcBatch c"
    and cost: "costAllowed (outcomeCost out)"
  shows "fst (completeJob now stamp c out d) = Inr COMMITTED"
proof -
  have held: "jobId j = rcJob c" "jobState j = RUNNING" using j(2) by (auto simp: holdsLease_def)
  then have none: "\<forall>r \<in> set (results d). rsJob r \<noteq> rcJob c"
    using researchInvD(5) [OF inv j(1)] by (auto simp: evidenceOnce_def evidenceOf_def filter_empty_conv)
  obtain k where k: "find (holdsLease now c) (jobs d) = Some k"
    using j by (metis find_None_iff not_None_eq)
  have "rcJob c \<in> jobId ` set (jobs d)" using j(1) held(1) by force
  then have "commitOutcome stamp c n out d \<noteq> None" for n
    using cost none researchInvD(6) [OF inv j(1)] assms(4)
    by (auto simp: commitOutcome_def insertResult_def finishJob_def outcomeCost_def costAllowed_def
        split: research_outcome.splits)
  moreover have "\<not> alreadyCommitted c out d"
    using none by (auto simp: alreadyCommitted_def list_ex_iff split: research_outcome.split)
  ultimately show ?thesis using k by (auto simp: completeJob_def split: option.split)
qed

text \<open>
  While the lease of a claim lasts, no other claim gives the job away, and whoever claims to have it under
  another name can neither complete it nor renew its lease nor save a checkpoint; the worker itself can commit
  any outcome whose cost the table accepts.
\<close>

theorem research_lease_exclusive:
  assumes "(research_step env)\<^sup>*\<^sup>* emptyResearch d"
    and claim: "claimNextJob now worker lease d = (Inr (Some c), d1)" and "now' < now + lease"
  shows "(claimNextJob now' worker' lease' d1 = (Inr (Some c'), d2) \<longrightarrow> rcJob c' \<noteq> rcJob c)
    \<and> (rcJob c' = rcJob c \<and> rcWorker c' \<noteq> worker \<longrightarrow> snd (completeJob now' stamp c' out d1) = d1
        \<and> snd (renewLease now' c' lease' d1) = d1 \<and> snd (saveJobCheckpoint now' c' v d1) = d1)
    \<and> (costAllowed (outcomeCost out) \<longrightarrow> fst (completeJob now' stamp c out d1) = Inr COMMITTED)"
proof -
  note inv = research.reachable_inv [OF assms(1)]
  have inv1: "researchInv d1" using claimNextJob_inv [OF inv, of now worker lease] claim by simp
  obtain j where j: "j \<in> set (jobs d1)" "jobId j = rcJob c" "jobState j = RUNNING" "jobWorker j = Some worker"
    "jobLease j = Some (now + lease)" "rcWorker c = worker" "jobBatch j = rcBatch c"
    by (rule claimed_job [OF inv claim])
  have no: "\<not> holdsLease now' c' k" if "rcJob c' = rcJob c" "rcWorker c' \<noteq> worker" "k \<in> set (jobs d1)" for k
    using that j same_job [OF inv1 that(3) j(1)] by (auto simp: holdsLease_def)
  have "snd (completeJob now' stamp c' out d1) = d1 \<and> snd (renewLease now' c' lease' d1) = d1
      \<and> snd (saveJobCheckpoint now' c' v d1) = d1" if "rcJob c' = rcJob c" "rcWorker c' \<noteq> worker"
  proof -
    have "find (holdsLease now' c') (jobs d1) = None"
      using that no by (auto simp: find_None_iff)
    with that no show ?thesis
      by (simp add: completeJob_def renewLease_def saveJobCheckpoint_def updateJobs_none)
  qed
  moreover have "rcJob c' \<noteq> rcJob c" if "claimNextJob now' worker' lease' d1 = (Inr (Some c'), d2)"
    using lease_kept [OF inv1 j(1,3,5) assms(3) that] j(2) by simp
  moreover have "fst (completeJob now' stamp c out d1) = Inr COMMITTED" if "costAllowed (outcomeCost out)"
    using holder_commits [OF inv1 j(1) _ j(7) that] j assms(3) by (simp add: holdsLease_def)
  ultimately show ?thesis by blast
qed

section \<open>The workers come to an end\<close>

text \<open>The claims that a job can still have while its owner resumes nothing.\<close>

definition attemptsLeft :: "job_row \<Rightarrow> nat" where
  "attemptsLeft j = (case jobState j of
      QUEUED \<Rightarrow> max 1 (MAX_ATTEMPTS - jobAttempts j)
    | RUNNING \<Rightarrow> MAX_ATTEMPTS - jobAttempts j
    | job_state.FAILED_RETRYABLE \<Rightarrow> MAX_ATTEMPTS - jobAttempts j
    | _ \<Rightarrow> 0)"

definition claimsLeft :: "research_db \<Rightarrow> nat" where
  "claimsLeft d = sum_list (map attemptsLeft (jobs d))"

lemma attemptsLeft_le: "attemptsLeft j \<le> MAX_ATTEMPTS"
  by (simp add: attemptsLeft_def MAX_ATTEMPTS_def split: job_state.split)

lemma claimsLeft_le: "claimsLeft d \<le> MAX_ATTEMPTS * length (jobs d)"
proof -
  have "sum_list (map attemptsLeft js) \<le> MAX_ATTEMPTS * length js" for js
    by (induction js) (auto simp: add_mono attemptsLeft_le)
  then show ?thesis by (simp add: claimsLeft_def)
qed

lemma claimsLeft_update:
  assumes "\<And>j. j \<in> set (jobs d) \<Longrightarrow> p j \<Longrightarrow> attemptsLeft (f j) \<le> attemptsLeft j"
  shows "claimsLeft (updateJobs p f d) \<le> claimsLeft d"
  unfolding claimsLeft_def updateJobs_def using assms by (auto intro!: sum_list_mono simp: comp_def)

lemma claimsLeft_update_less:
  assumes "\<And>j. j \<in> set (jobs d) \<Longrightarrow> p j \<Longrightarrow> attemptsLeft (f j) < attemptsLeft j" and "i \<in> set (jobs d)" and "p i"
  shows "claimsLeft (updateJobs p f d) < claimsLeft d"
proof -
  have "sum_list (map (\<lambda>j. attemptsLeft (if p j then f j else j)) js) < sum_list (map attemptsLeft js)"
    if "set js \<subseteq> set (jobs d)" "i \<in> set js" for js
    using that
  proof (induction js)
    case (Cons j js)
    have le: "sum_list (map (\<lambda>j. attemptsLeft (if p j then f j else j)) js) \<le> sum_list (map attemptsLeft js)"
      using Cons.prems(1) assms(1) by (intro sum_list_mono) (auto intro: less_imp_le)
    show ?case
    proof (cases "i \<in> set js")
      case True
      with Cons have "sum_list (map (\<lambda>j. attemptsLeft (if p j then f j else j)) js) < sum_list (map attemptsLeft js)" by simp
      moreover have "attemptsLeft (if p j then f j else j) \<le> attemptsLeft j"
        using Cons.prems(1) assms(1) by (auto intro: less_imp_le)
      ultimately show ?thesis by simp
    next
      case False
      with Cons.prems assms have "attemptsLeft (if p j then f j else j) < attemptsLeft j" by auto
      with le show ?thesis by simp
    qed
  qed simp
  from this [of "jobs d"] assms(2) show ?thesis by (simp add: claimsLeft_def updateJobs_def comp_def)
qed

lemma expireExhausted_claimsLeft: "claimsLeft (expireExhausted now d) \<le> claimsLeft d"
  unfolding expireExhausted_def by (rule claimsLeft_update) (simp add: attemptsLeft_def)

lemma claim_uses_attempt:
  assumes inv: "researchInv d" and claim: "claimNextJob now worker lease d = (Inr (Some c), d1)"
  shows "claimsLeft d1 < claimsLeft d"
proof -
  let ?d = "expireExhausted now d"
  have inv1: "researchInv ?d" using inv by (rule expireExhausted_inv)
  obtain i where i: "nextJob now ?d = Some i"
    and d1: "d1 = updateJobs (\<lambda>k. jobId k = jobId i) (\<lambda>k. k\<lparr>jobState := RUNNING, jobWorker := Some worker,
      jobLease := Some (now + lease), jobAttempts := Suc (jobAttempts k), jobUpdatedAt := now\<rparr>) ?d"
    using claim by (auto simp: claimNextJob_def Let_def split: if_splits option.splits)
  note picked = nextJobD [OF i]
  have "claimsLeft d1 < claimsLeft ?d"
    unfolding d1
  proof (rule claimsLeft_update_less)
    fix j assume "j \<in> set (jobs ?d)" "jobId j = jobId i"
    with same_job [OF inv1] picked have "j = i" by blast
    with picked researchInvD(4) [OF inv1, of i]
    show "attemptsLeft (j\<lparr>jobState := RUNNING, jobWorker := Some worker, jobLease := Some (now + lease),
        jobAttempts := Suc (jobAttempts j), jobUpdatedAt := now\<rparr>) < attemptsLeft j"
      by (auto simp: claimableJob_def attemptsLeft_def jobTyped_def MAX_ATTEMPTS_def)
  qed (use picked in auto)
  with expireExhausted_claimsLeft [of now d] show ?thesis by simp
qed

lemma commitOutcome_claimsLeft:
  assumes inv: "researchInv d" and j: "find (holdsLease now c) (jobs d) = Some j"
    and commit: "commitOutcome stamp c (jobAttempts j) out d = Some d'"
  shows "claimsLeft d' \<le> claimsLeft d"
proof -
  have held: "j \<in> set (jobs d)" "jobId j = rcJob c" "jobState j = RUNNING"
    using j by (auto simp: find_Some_iff holdsLease_def)
  have only: "k = j" if "k \<in> set (jobs d)" "jobId k = rcJob c" for k
    using same_job [OF inv that(1) held(1)] that held by simp
  have finish: "claimsLeft d2 \<le> claimsLeft d1"
    if "finishJob (rcJob c) st stamp o' cost nxt d1 = Some d2" "jobs d1 = jobs d" "st \<noteq> QUEUED" for st o' cost nxt d1 d2
  proof -
    have "d2 = updateJobs (\<lambda>k. jobId k = rcJob c) (\<lambda>k. k\<lparr>jobState := st, jobOutcome := o', jobCost := cost,
        jobWorker := None, jobLease := None, jobNextAttempt := nxt, jobUpdatedAt := stamp\<rparr>) d1"
      using that(1) by (simp add: finishJob_def split: if_splits)
    moreover have "attemptsLeft (k\<lparr>jobState := st, jobOutcome := o', jobCost := cost,
        jobWorker := None, jobLease := None, jobNextAttempt := nxt, jobUpdatedAt := stamp\<rparr>) \<le> attemptsLeft k"
      if "k \<in> set (jobs d1)" "jobId k = rcJob c" for k
      using only [of k] that held(3) \<open>st \<noteq> QUEUED\<close> \<open>jobs d1 = jobs d\<close>
      by (simp add: attemptsLeft_def split: job_state.split)
    ultimately show ?thesis by (simp add: claimsLeft_update)
  qed
  have rows: "jobs d1 = jobs d \<and> claimsLeft d1 = claimsLeft d"
    if "insertResult stamp c rkey evid sm cost d = Some d1" for rkey evid sm cost d1
    using that by (auto simp: insertResult_def claimsLeft_def split: if_splits)
  show ?thesis
  proof (cases out)
    case (EVIDENCE rkey evid sm cost)
    then obtain d1 where "insertResult stamp c rkey evid sm cost d = Some d1"
      "finishJob (rcJob c) COMPLETED stamp None cost None d1 = Some d'"
      using commit by (auto simp: commitOutcome_def split: option.splits)
    then show ?thesis using finish [of COMPLETED None cost None d1 d'] rows by force
  qed (use commit in \<open>auto simp: commitOutcome_def split: if_splits intro: finish [OF _ refl]\<close>)
qed

lemma claim_claimsLeft: "researchInv d \<Longrightarrow> claimsLeft (snd (claimNextJob now worker lease d)) \<le> claimsLeft d"
proof (cases "\<exists>c. fst (claimNextJob now worker lease d) = Inr (Some c)")
  case True
  then obtain c where "claimNextJob now worker lease d = (Inr (Some c), snd (claimNextJob now worker lease d))"
    by (metis prod.collapse)
  with claim_uses_attempt show "researchInv d \<Longrightarrow> ?thesis" by fastforce
next
  case False
  then have "snd (claimNextJob now worker lease d) \<in> {d, expireExhausted now d}"
    by (auto simp: claimNextJob_def Let_def split: option.splits)
  with expireExhausted_claimsLeft [of now d] show ?thesis by auto
qed

lemma worker_step_claimsLeft:
  assumes inv: "researchInv d" and step: "worker_step d d'"
  shows "claimsLeft d' \<le> claimsLeft d"
  using step
proof cases
  case (claims now worker lease)
  with claim_claimsLeft [OF inv] show ?thesis by simp
next
  case (renews now c lease)
  then show ?thesis by (auto simp: renewLease_def attemptsLeft_def intro!: claimsLeft_update split: job_state.split)
next
  case (checkpoints now c v)
  then show ?thesis by (auto simp: saveJobCheckpoint_def attemptsLeft_def intro!: claimsLeft_update split: job_state.split)
next
  case (completes c now stamp out)
  have "claimsLeft (d1\<lparr>batches := bs\<rparr>) \<le> claimsLeft d"
    if "find (holdsLease now c) (jobs d) = Some j" "commitOutcome stamp c (jobAttempts j) out d = Some d1" for j d1 bs
    using commitOutcome_claimsLeft [OF inv that] by (simp add: claimsLeft_def)
  with completes show ?thesis by (auto simp: completeJob_def split: option.split)
next
  case (publishes sent t)
  then show ?thesis by (simp add: claimsLeft_def publishResearch_def publishRows_tables)
qed

text \<open>\<open>work_run d n d'\<close>: a run of the workers from \<open>d\<close> to \<open>d'\<close> in which \<open>n\<close> claims were granted.\<close>

inductive work_run :: "research_db \<Rightarrow> nat \<Rightarrow> research_db \<Rightarrow> bool" for d where
  start: "work_run d 0 d"
| grant: "work_run d n d1 \<Longrightarrow> claimNextJob now worker lease d1 = (Inr (Some c), d2) \<Longrightarrow> work_run d (Suc n) d2"
| other: "work_run d n d1 \<Longrightarrow> worker_step d1 d2 \<Longrightarrow> work_run d n d2"

lemma work_run_bound:
  assumes "work_run d n d'" and "researchInv d"
  shows "researchInv d' \<and> n + claimsLeft d' \<le> claimsLeft d"
  using assms
proof (induction rule: work_run.induct)
  case start
  then show ?case by simp
next
  case (grant n d1 now worker lease c d2)
  then have "researchInv d1" by simp
  with grant claim_uses_attempt [of d1 now worker lease c d2] claimNextJob_inv [of d1 now worker lease] show ?case by auto
next
  case (other n d1 d2)
  then show ?case using worker_step_inv [of d1 d2] worker_step_claimsLeft [of d1 d2] by auto
qed

text \<open>
  C35: the retries of source research end: as long as no owner creates, resumes or purges anything, all workers
  together are granted at most five claims for each job, whatever times they see, outcomes they report and
  leases they let expire.
\<close>

theorem research_attempts_bounded:
  assumes "(research_step env)\<^sup>*\<^sup>* emptyResearch d" and "work_run d n d'"
  shows "n \<le> 5 * length (jobs d)"
  using work_run_bound [OF assms(2) research.reachable_inv [OF assms(1)]] claimsLeft_le [of d]
  by (simp add: MAX_ATTEMPTS_def)

text \<open>
  No job is forgotten: when a worker finds nothing to claim at a time at which every lease and every
  waiting time has passed, each job is finished, or waits for its owner to log in.
\<close>

theorem research_settles:
  assumes "(research_step env)\<^sup>*\<^sup>* emptyResearch d" and "claimNextJob now worker lease d = (Inr None, d')"
    and "\<forall>j \<in> set (jobs d). (case jobLease j of None \<Rightarrow> True | Some l \<Rightarrow> l \<le> now)
      \<and> (case jobNextAttempt j of None \<Rightarrow> True | Some t \<Rightarrow> t \<le> now)"
  shows "\<forall>j \<in> set (jobs d'). terminalJob (jobState j) \<or> jobState j = WAITING_SOURCE_LOGIN"
proof
  fix j assume j: "j \<in> set (jobs d')"
  note inv = research.reachable_inv [OF assms(1)]
  have d': "d' = expireExhausted now d" and none: "nextJob now d' = None"
    using assms(2) by (auto simp: claimNextJob_def Let_def split: if_splits option.splits)
  have "filter (claimableJob now) (jobs d') = []"
    using none by (auto simp: nextJob_def split: list.splits dest: arg_cong [of _ _ set])
  then have "\<not> claimableJob now j" using j by (auto simp: filter_empty_conv)
  moreover obtain i where "i \<in> set (jobs d)" and "j = i \<and> \<not> exhaustedJob now i \<or> jobState j = job_state.FAILED_FINAL"
    using j unfolding d' expireExhausted_def set_updateJobs by (auto split: if_splits)
  moreover from this assms(3) researchInvD(4) [OF inv]
  have "jobTyped i \<and> (\<forall>l. jobLease i = Some l \<longrightarrow> l \<le> now) \<and> (\<forall>t. jobNextAttempt i = Some t \<longrightarrow> t \<le> now)"
    by (fastforce split: option.splits)
  ultimately show "terminalJob (jobState j) \<or> jobState j = WAITING_SOURCE_LOGIN"
    by (cases "jobState j") (auto simp: claimableJob_def exhaustedJob_def jobTyped_def leaseOver_def terminalJob_def)
qed

section \<open>Creating a batch again\<close>

definition batchKeys :: "research_db \<Rightarrow> (ident \<times> ident \<times> string \<times> string) list" where
  "batchKeys d = map (\<lambda>b. (baId b, baOwner b, baKey b, baFingerprint b)) (batches d)"

lemma commitOutcome_batches: "commitOutcome now c n out d = Some d' \<Longrightarrow> batches d' = batches d"
  by (auto simp: commitOutcome_def insertResult_def finishJob_def split: research_outcome.splits option.splits if_splits)

lemma worker_step_batches: "worker_step d d' \<Longrightarrow> batchKeys d' = batchKeys d"
proof (erule worker_stepE)
  fix c now stamp out assume "d' = snd (completeJob now stamp c out d)"
  then show ?thesis
    by (auto simp: completeJob_def batchKeys_def split: option.split dest!: commitOutcome_batches)
qed (auto simp: batchKeys_def claimNextJob_def Let_def renewLease_def saveJobCheckpoint_def expireExhausted_def
    publishResearch_def publishRows_tables split: option.split)

interpretation batch_keys: step_stable worker_step "\<lambda>d. batchKeys d = ks" for ks
  by unfold_locales (simp add: worker_step_batches)

abbreviation keyedBatch :: "ident \<Rightarrow> string \<Rightarrow> research_db \<Rightarrow> batch_row option" where
  "keyedBatch owner k d \<equiv> find (\<lambda>b. baOwner b = owner \<and> baKey b = k) (batches d)"

lemma keyedBatch_cong:
  assumes "batchKeys d' = batchKeys d" and "keyedBatch owner k d = Some b"
  obtains b' where "keyedBatch owner k d' = Some b'" "baId b' = baId b" "baFingerprint b' = baFingerprint b"
proof -
  have "map_option (\<lambda>b. (baId b, baOwner b, baKey b, baFingerprint b)) (find (\<lambda>b. baOwner b = owner \<and> baKey b = k) bs)
      = find (\<lambda>(i, ow, ke, fp). ow = owner \<and> ke = k) (map (\<lambda>b. (baId b, baOwner b, baKey b, baFingerprint b)) bs)" for bs
    by (induction bs) auto
  from this [of "batches d"] this [of "batches d'"] assms
  have "map_option (\<lambda>b. (baId b, baOwner b, baKey b, baFingerprint b)) (keyedBatch owner k d')
      = Some (baId b, baOwner b, baKey b, baFingerprint b)"
    by (simp add: batchKeys_def)
  then show thesis using that by auto
qed

lemma readBatch_id: "readBatch bid owner d = Some b \<Longrightarrow> rbId b = bid"
  by (auto simp: readBatch_def find_Some_iff split: option.splits)

lemma readBatch_keyed: "keyedBatch owner k d = Some x \<Longrightarrow> readBatch (baId x) owner d \<noteq> None"
  by (auto simp: readBatch_def find_None_iff find_Some_iff split: option.splits)

lemma insertJobs_batches: "insertJobs mk n ss d = Some d' \<Longrightarrow> batches d' = batches d"
  by (induction ss arbitrary: n d) (auto simp: insertJob_def split: option.splits if_splits)

lemma find_last: "find P xs = None \<Longrightarrow> P x \<Longrightarrow> find P (xs @ [x]) = Some x"
  by (induction xs) (auto split: if_splits)

lemma createBatch_keyed:
  assumes "createBatch env u now dbNow c d = (Inr b, d1)"
  obtains x where "keyedBatch (cbOwner c) (cbKey c) d1 = Some x" "baFingerprint x = requestFingerprint env c" "baId x = rbId b"
proof (cases "keyedBatch (cbOwner c) (cbKey c) d")
  case (Some x)
  with assms have "d1 = d" "baFingerprint x = requestFingerprint env c" "readBatch (baId x) (cbOwner c) d = Some b"
    by (auto simp: createBatch_def Let_def split: if_splits option.splits)
  with Some readBatch_id [of "baId x" "cbOwner c" d b] that [of x] show thesis by simp
next
  case None
  let ?row = "\<lparr>baId = cbBatch c, baOwner = cbOwner c, baTask = cbTask c, baKey = cbKey c,
     baFingerprint = requestFingerprint env c, baQuery = trim (cbQuery c), baCreatedAt = now, baUpdatedAt = now\<rparr>"
  from None assms have "insertJobs (\<lambda>s n. newJob now dbNow c (u n) s) 0 (normalizedSources env c) (d\<lparr>batches := batches d @ [?row]\<rparr>) = Some d1"
    and b: "readBatch (cbBatch c) (cbOwner c) d1 = Some b"
    by (auto simp: createBatch_def Let_def split: if_splits option.splits)
  then have "batches d1 = batches d @ [?row]" by (auto dest: insertJobs_batches)
  with None have "keyedBatch (cbOwner c) (cbKey c) d1 = Some ?row" by (simp add: find_last)
  with that [of ?row] readBatch_id [OF b] show thesis by simp
qed

text \<open>
  Creating a batch is idempotent: asked again under the same key, after whatever the workers have done, the
  owner gets the same batch and nothing changes; with other sources, another query or task under that key, it is
  a conflict and nothing changes.
\<close>

theorem createBatch_idempotent:
  assumes "createBatch env u now dbNow c d = (Inr b, d1)" and "worker_step\<^sup>*\<^sup>* d1 d2"
    and "validBatch c'" and "cbOwner c' = cbOwner c" and "cbKey c' = cbKey c"
  shows "snd (createBatch env u' now' dbNow' c' d2) = d2
    \<and> (if requestFingerprint env c' = requestFingerprint env c
       then map_sum id rbId (fst (createBatch env u' now' dbNow' c' d2)) = Inr (rbId b)
       else fst (createBatch env u' now' dbNow' c' d2) = Inl SOURCE_RESEARCH_IDEMPOTENCY_CONFLICT)"
proof -
  obtain x where x: "keyedBatch (cbOwner c) (cbKey c) d1 = Some x" "baFingerprint x = requestFingerprint env c" "baId x = rbId b"
    by (rule createBatch_keyed [OF assms(1)])
  obtain y where y: "keyedBatch (cbOwner c) (cbKey c) d2 = Some y" "baId y = baId x" "baFingerprint y = baFingerprint x"
    using keyedBatch_cong [OF batch_keys.steps_fact [OF assms(2) refl] x(1)] by blast
  obtain b' where "readBatch (baId y) (cbOwner c) d2 = Some b'" using readBatch_keyed [OF y(1)] by blast
  with readBatch_id [OF this] x y assms(3-5) show ?thesis by (simp add: createBatch_def)
qed

section \<open>The state of a batch\<close>

text \<open>A batch is over exactly when all its jobs are, and it has failed when one of them has.\<close>

lemma batchState_final_iff:
  assumes "sts \<noteq> []"
  shows "batchState sts \<in> {BATCH_COMPLETED, BATCH_FAILED} \<longleftrightarrow> list_all terminalJob sts"
    and "batchState sts = BATCH_FAILED \<longleftrightarrow> list_all terminalJob sts \<and> job_state.FAILED_FINAL \<in> set sts"
  using assms by (auto simp: batchState_def list_all_iff list_ex_iff terminalJob_def)

end
