(* ===== verification/CM_Source_Access_Facts.thy ===== *)
theory CM_Source_Access_Facts
  imports CM_Source_Access CM_Security_Facts
begin

text \<open>
  What source access guarantees: a login replaces the credential of one account, once, and leaves the tables
  alone when it fails; an account that was invalidated or revoked is not used until somebody logs in again.
\<close>

section \<open>The vault, as far as logins rely on it\<close>

lemma store_saves:
  assumes "storeCredential opts inp t secret s = (Inr cid, s')"
  shows "(\<exists>k. Saved (sealCredential opts inp t secret k) \<in> set (trace s')) \<and> set (trace s) \<subseteq> set (trace s')"
  using assms by (auto simp: storeCredential_def vault_simps split: vault_splits)

lemma delete_deletes:
  assumes "deleteCredential opts inp s = (Inr b, s')"
  shows "Deleted (inputCredentialId inp) (inputOwnerUserId inp) \<in> set (trace s') \<and> set (trace s) \<subseteq> set (trace s')"
  using assms
  by (auto simp: deleteCredential_def checkSystemDelete_def deleteStored_def loadCredential_def vault_simps split: vault_splits)

section \<open>Accounts\<close>

lemma accountRow_update:
  assumes "\<And>r. (crdOwner (f r), crdSource (f r), crdAccount (f r)) = (crdOwner r, crdSource r, crdAccount r)"
  shows "find (ofAccount ow src acc) (map (\<lambda>r. if ofAccount ow' src' acc' r then f r else r) rs)
    = map_option (\<lambda>r. if (ow, src, acc) = (ow', src', acc') then f r else r) (find (ofAccount ow src acc) rs)"
  using assms by (induction rs) (auto simp: ofAccount_def)

lemma updateLogin_credentials [simp]: "sourceCredentials (updateLogin c f d) = sourceCredentials d"
  by (simp add: updateLogin_def)

lemma accountRow_updateLogin [simp]: "accountRow ow src acc (updateLogin c f d) = accountRow ow src acc d"
  by (simp add: accountRow_def)

lemma accountRow_clearReplaced [simp]: "accountRow ow src acc (clearReplaced c d) = accountRow ow src acc d"
  by (simp add: clearReplaced_def)

lemma find_snoc: "find P (xs @ [x]) = (case find P xs of None \<Rightarrow> if P x then Some x else None | Some y \<Rightarrow> Some y)"
  by (induction xs) auto

text \<open>Storing a credential makes it the active one of its account and leaves the other accounts alone.\<close>

lemma accountRow_upsert:
  "(\<exists>r. accountRow (clOwner c) (lgSource l) (lgAccount l) (upsertCredential cid now c l d) = Some r
      \<and> crdId r = cid \<and> crdStatus r = ACTIVE)
   \<and> ((ow, src, acc) \<noteq> (clOwner c, lgSource l, lgAccount l) \<longrightarrow>
      accountRow ow src acc (upsertCredential cid now c l d) = accountRow ow src acc d)"
proof (cases "find (ofAccount (clOwner c) (lgSource l) (lgAccount l)) (sourceCredentials d)")
  case None
  then have "\<not> list_ex (ofAccount (clOwner c) (lgSource l) (lgAccount l)) (sourceCredentials d)"
    by (auto simp: find_None_iff list_ex_iff)
  with None show ?thesis
    by (auto simp: upsertCredential_def accountRow_def find_snoc ofAccount_def split: option.split)
next
  case (Some r)
  then have "list_ex (ofAccount (clOwner c) (lgSource l) (lgAccount l)) (sourceCredentials d)"
    by (auto simp: find_Some_iff list_ex_iff)
  with Some show ?thesis
    by (auto simp: upsertCredential_def accountRow_def accountRow_update option.map_ident)
qed

section \<open>Logins\<close>

lemma dropReplaced_Inr:
  assumes "dropReplaced opts c old (d, s) = (Inr u, d', s')"
  shows "d' = (if old = None then d else clearReplaced c d) \<and> set (trace s) \<subseteq> set (trace s')
    \<and> (\<forall>cid. old = Some cid \<longrightarrow> Deleted cid (clOwner c) \<in> set (trace s'))"
  using assms delete_deletes
  by (fastforce simp: dropReplaced_def deleteVaultCredential_def split: option.splits sum.splits prod.splits)

text \<open>
  A login that is completed leaves the account with the one credential that was just stored under the new
  id, active, and no other account changed; the secret is in the vault, and the credential it replaced has been
  deleted there.
\<close>

theorem login_replaces_credential:
  assumes "completeLogin opts system uuid now c (d, s) = (Inr st, d', s')"
    and "find (ownLogin c) (logins d) = Some l" and "lgStatus l = LOGIN_WAITING_CHALLENGE"
  shows "(\<exists>r k. accountRow (clOwner c) (lgSource l) (lgAccount l) d' = Some r \<and> crdId r = uuid \<and> crdStatus r = ACTIVE
      \<and> st = toSourceStatus r
      \<and> Saved (sealCredential opts \<lparr>inputCredentialId = uuid, inputOwnerUserId = clOwner c, inputActor = clActor c,
           inputCorrelationId = clCorrelation c\<rparr> SOURCE_CREDENTIAL (clSecret c) k) \<in> set (trace s'))
    \<and> (\<forall>old. accountRow (clOwner c) (lgSource l) (lgAccount l) d = Some old \<and> crdId old \<noteq> uuid
         \<longrightarrow> Deleted (crdId old) (clOwner c) \<in> set (trace s'))
    \<and> (\<forall>ow src acc. (ow, src, acc) \<noteq> (clOwner c, lgSource l, lgAccount l) \<longrightarrow> accountRow ow src acc d' = accountRow ow src acc d)"
proof -
  let ?inp = "\<lparr>inputCredentialId = uuid, inputOwnerUserId = clOwner c, inputActor = clActor c, inputCorrelationId = clCorrelation c\<rparr>"
  let ?old = "map_option crdId (accountRow (clOwner c) (lgSource l) (lgAccount l) d)"
  let ?d1 = "commitLogin uuid now c l d"
  have first: "firstLogin opts uuid now c l (d, s) = (Inr st, d', s')"
    using assms by (simp add: completeLogin_def split: if_splits)
  then obtain cid s1 where store: "storeCredential opts ?inp SOURCE_CREDENTIAL (clSecret c) s = (Inr cid, s1)"
    by (auto simp: firstLogin_def split: sum.splits prod.splits)
  obtain u where dropped: "dropReplaced opts c (if ?old = Some uuid then None else ?old) (?d1, s1) = (Inr u, d', s')"
    and st: "statusAfter c l ?d1 = Inr st"
    using first unfolding firstLogin_def by (auto simp: store Let_def split: sum.splits prod.splits)
  note drop = dropReplaced_Inr [OF dropped]
  have rows: "accountRow ow src acc d' = accountRow ow src acc (upsertCredential uuid now c l d)" for ow src acc
    using drop by (auto simp: commitLogin_def split: if_splits)
  obtain k where "Saved (sealCredential opts ?inp SOURCE_CREDENTIAL (clSecret c) k) \<in> set (trace s1)"
    using store_saves [OF store] by blast
  with drop have saved: "Saved (sealCredential opts ?inp SOURCE_CREDENTIAL (clSecret c) k) \<in> set (trace s')" by blast
  obtain r where r: "accountRow (clOwner c) (lgSource l) (lgAccount l) d' = Some r" "crdId r = uuid" "crdStatus r = ACTIVE"
    using accountRow_upsert [of c l uuid now d] rows by metis
  moreover have "st = toSourceStatus r"
    using st r(1) by (simp add: statusAfter_def commitLogin_def rows)
  moreover have "Deleted (crdId old) (clOwner c) \<in> set (trace s')"
    if "accountRow (clOwner c) (lgSource l) (lgAccount l) d = Some old" "crdId old \<noteq> uuid" for old
    using drop that by auto
  moreover have "accountRow ow src acc d' = accountRow ow src acc d"
    if "(ow, src, acc) \<noteq> (clOwner c, lgSource l, lgAccount l)" for ow src acc
    using accountRow_upsert [of c l uuid now d] that rows by simp
  ultimately show ?thesis using saved by blast
qed

text \<open>Deleting, and using, never saves.\<close>

abbreviation savedIff :: "encrypted_credential \<Rightarrow> bool \<Rightarrow> vault_event list \<Rightarrow> bool" where
  "savedIff r b es \<equiv> (Saved r \<in> set es \<longleftrightarrow> b)"

lemma audits_save_nothing:
  "triple (savedIff r b) (appendCredentialAudit opts inp action res) (\<lambda>_. savedIff r b) (savedIff r b)"
  by (auto simp: triple_def append_audit)

lemma parts_save_nothing:
  "triple (savedIff r b) (denied opts inp action err) (\<lambda>_. savedIff r b) (savedIff r b)"
  "triple (savedIff r b) (failed opts inp action err) (\<lambda>_. savedIff r b) (savedIff r b)"
  "triple (savedIff r b) (loadCredential opts inp) (\<lambda>_. savedIff r b) (savedIff r b)"
  "triple (savedIff r b) (deleteStored opts inp) (\<lambda>_. savedIff r b) (savedIff r b)"
  by (auto simp: triple_def denied_def failed_def loadCredential_def deleteStored_def vault_simps split: option.splits)

lemma delete_saves_nothing: "Saved r \<in> set (trace (snd (deleteCredential opts inp s))) \<longleftrightarrow> Saved r \<in> set (trace s)"
proof -
  have check: "triple (savedIff r b) (checkSystemDelete opts inp) (\<lambda>_. savedIff r b) (savedIff r b)" for b
    unfolding checkSystemDelete_def
    by (intro triple_and_then [OF triple_catching [OF parts_save_nothing(3) parts_save_nothing(2)]])
      (auto intro!: parts_save_nothing triple_done)
  have delete: "triple (savedIff r b) (and_then (deleteStored opts inp) (\<lambda>d.
      and_then (appendCredentialAudit opts inp CREDENTIAL_DELETE ALLOWED) (\<lambda>_. done_with d)))
      (\<lambda>_. savedIff r b) (savedIff r b)" for b
    by (intro triple_and_then [OF parts_save_nothing(4)] triple_and_then [OF audits_save_nothing] triple_done)
  have "triple (savedIff r b) (deleteCredential opts inp) (\<lambda>_. savedIff r b) (savedIff r b)" for b
    unfolding deleteCredential_def
    by (auto intro!: parts_save_nothing check triple_done triple_and_then [OF _ triple_and_then [OF audits_save_nothing triple_catching [OF delete parts_save_nothing(2)]]])
  from tripleD [OF this refl] show ?thesis by simp
qed

lemma dropReplaced_keeps:
  "sourceCredentials (fst (snd (dropReplaced opts c old (d, s)))) = sourceCredentials d
   \<and> (Saved r \<in> set (trace (snd (snd (dropReplaced opts c old (d, s))))) \<longleftrightarrow> Saved r \<in> set (trace s))"
  using delete_saves_nothing [of r opts "\<lparr>inputCredentialId = the old, inputOwnerUserId = clOwner c, inputActor = clActor c,
     inputCorrelationId = clCorrelation c\<rparr>" s]
  by (auto simp: dropReplaced_def deleteVaultCredential_def clearReplaced_def split: option.split prod.split sum.split)

lemma find_ownLogin_update:
  "(\<And>l. lgId (f l) = lgId l \<and> lgOwner (f l) = lgOwner l) \<Longrightarrow>
   find (ownLogin c) (logins (updateLogin c f d)) = map_option f (find (ownLogin c) (logins d))"
proof -
  assume keys: "\<And>l. lgId (f l) = lgId l \<and> lgOwner (f l) = lgOwner l"
  have "find (ownLogin c) (map (\<lambda>l. if ownLogin c l then f l else l) ls) = map_option f (find (ownLogin c) ls)" for ls
    using keys by (induction ls) (auto simp: ownLogin_def)
  then show ?thesis by (simp add: updateLogin_def)
qed

lemma logins_upsert [simp]: "logins (upsertCredential cid now c l d) = logins d"
  by (simp add: upsertCredential_def)

lemma repeatLogin_keeps:
  "sourceCredentials (fst (snd (repeatLogin opts c l (d, s)))) = sourceCredentials d
   \<and> (Saved r \<in> set (trace (snd (snd (repeatLogin opts c l (d, s))))) \<longleftrightarrow> Saved r \<in> set (trace s))
   \<and> fst (repeatLogin opts c l (d, s)) \<in> {Inl SOURCE_ACCESS_WRITE_FAILED, statusAfter c l d} \<union> range (Inl \<circ> VaultFailed)"
  using dropReplaced_keeps [of opts c "lgReplaced l" d s r]
  by (auto simp: repeatLogin_def dropReplaced_def split: prod.split sum.split option.split)

text \<open>
  A login session takes effect at most once. Once completing it has changed the tables, even when the call
  failed afterwards because the old credential could not be deleted, completing it again, with whatever secret
  and in whatever state the vault is, stores no secret and leaves the credentials as they are.
\<close>

theorem login_once:
  assumes "completeLogin opts system uuid now c (d, s) = (res, d', s')" and "d' \<noteq> d"
    and "find (ownLogin c) (logins d) = Some l" and "lgStatus l = LOGIN_WAITING_CHALLENGE"
  shows "sourceCredentials (fst (snd (completeLogin opts' system uuid' now' (c\<lparr>clSecret := x\<rparr>) (d', s1)))) = sourceCredentials d'
    \<and> (Saved r \<in> set (trace (snd (snd (completeLogin opts' system uuid' now' (c\<lparr>clSecret := x\<rparr>) (d', s1)))))
         \<longleftrightarrow> Saved r \<in> set (trace s1))"
proof -
  let ?d1 = "commitLogin uuid now c l d"
  have owns: "ownsScope system (clActor c) (clOwner c)" and first: "firstLogin opts uuid now c l (d, s) = (res, d', s')"
    using assms by (auto simp: completeLogin_def split: if_splits)
  have "d' = ?d1 \<or> d' = clearReplaced c ?d1"
    using first assms(2) by (auto simp: firstLogin_def dropReplaced_def Let_def split: sum.splits prod.splits option.splits if_splits)
  moreover have one: "find (ownLogin c) (logins ?d1) = map_option (\<lambda>k. k\<lparr>lgStatus := LOGIN_COMPLETED,
      lgReplaced := map_option crdId (accountRow (clOwner c) (lgSource l) (lgAccount l) d), lgUpdatedAt := now\<rparr>) (Some l)"
    by (simp add: commitLogin_def find_ownLogin_update assms(3))
  moreover have "find (ownLogin c) (logins (clearReplaced c ?d1)) = map_option (\<lambda>k. k\<lparr>lgReplaced := None\<rparr>) (find (ownLogin c) (logins ?d1))"
    unfolding clearReplaced_def by (rule find_ownLogin_update) simp
  ultimately obtain k where "find (ownLogin c) (logins d') = Some k" "lgStatus k = LOGIN_COMPLETED"
    by auto
  moreover have "ownLogin (c\<lparr>clSecret := x\<rparr>) = ownLogin c" by (rule ext) (simp add: ownLogin_def)
  ultimately have "completeLogin opts' system uuid' now' (c\<lparr>clSecret := x\<rparr>) (d', s1)
      = repeatLogin opts' (c\<lparr>clSecret := x\<rparr>) k (d', s1)"
    using owns by (simp add: completeLogin_def)
  then show ?thesis using repeatLogin_keeps [of opts' "c\<lparr>clSecret := x\<rparr>" k d' s1 r] by simp
qed

section \<open>Invalidated and revoked accounts\<close>

text \<open>The operations other than completing a login.\<close>

inductive quiet_step :: "vault_options \<Rightarrow> security_actor option \<Rightarrow> source_state \<Rightarrow> source_state \<Rightarrow> bool" for opts system where
  begins: "quiet_step opts system (d, s) (snd (beginLogin uuid now ow src acc url d), s)"
| sets: "st \<noteq> ACTIVE \<Longrightarrow> quiet_step opts system ds (snd (setStatus opts system now st i ds))"
| uses: "quiet_step opts system ds (snd (withCredential opts system i ds))"
| purges: "quiet_step opts system (d, s) (snd (purgeSources owner d), s)"

definition accountIdle :: "ident \<Rightarrow> ident \<Rightarrow> ident \<Rightarrow> source_state \<Rightarrow> bool" where
  "accountIdle ow src acc ds \<longleftrightarrow> (case accountRow ow src acc (fst ds) of None \<Rightarrow> True | Some r \<Rightarrow> crdStatus r \<noteq> ACTIVE)"

lemma setStatus_rows:
  "fst (snd (setStatus opts system now st i (d, s))) = d
   \<or> fst (snd (setStatus opts system now st i (d, s))) = d\<lparr>sourceCredentials := map (\<lambda>q. if ofAccount (siOwner i) (siSource i) (siAccount i) q
       then q\<lparr>crdStatus := st, crdUpdatedAt := now\<rparr> else q) (sourceCredentials d)\<rparr>"
  by (auto simp: setStatus_def Let_def split: option.split prod.split sum.split)

lemma setStatus_idle:
  "st \<noteq> ACTIVE \<Longrightarrow> accountIdle ow src acc (d, s) \<Longrightarrow> accountIdle ow src acc (snd (setStatus opts system now st i (d, s)))"
  using setStatus_rows [of opts system now st i d s]
  by (auto simp: accountIdle_def accountRow_def accountRow_update split: option.splits if_splits)

lemma withCredential_rows: "fst (snd (withCredential opts system i (d, s))) = d"
  by (auto simp: withCredential_def split: option.split prod.split sum.split)

lemma purgeSources_idle: "accountIdle ow src acc (d, s) \<Longrightarrow> accountIdle ow src acc (snd (purgeSources owner d), s')"
proof -
  have "find (ofAccount ow src acc) (filter (\<lambda>r. crdOwner r \<noteq> owner) rs)
      = (if ow = owner then None else find (ofAccount ow src acc) rs)" for rs
  proof (induction rs)
    case (Cons r rs)
    then show ?case by (cases "crdOwner r = owner") (auto simp add: ofAccount_def [of _ _ _ r])
  qed simp
  then show "accountIdle ow src acc (d, s) \<Longrightarrow> ?thesis"
    by (auto simp: accountIdle_def accountRow_def purgeSources_def)
qed

interpretation idle_account: step_stable "quiet_step opts system" "accountIdle ow src acc" for opts system ow src acc
proof unfold_locales
  show "accountIdle ow src acc s'" if "accountIdle ow src acc s" "quiet_step opts system s s'" for s s'
    using that(2,1)
  proof cases
    case (sets st now i)
    then show ?thesis using that(1) setStatus_idle by (cases s) simp
  next
    case (uses i)
    then show ?thesis using that(1) withCredential_rows by (cases s) (simp add: accountIdle_def)
  next
    case (begins d r uuid now ow' src' acc' url)
    then show ?thesis using that(1) by (simp add: beginLogin_def Let_def accountIdle_def accountRow_def)
  next
    case (purges d r owner)
    then show ?thesis using that(1) by (simp add: purgeSources_idle)
  qed
qed

lemma setStatus_idles:
  assumes "ownsScope system (siActor i) (siOwner i)" and "st \<noteq> ACTIVE"
  shows "accountIdle (siOwner i) (siSource i) (siAccount i) (snd (setStatus opts system now st i (d, s)))"
  using assms
  by (auto simp: setStatus_def accountIdle_def accountRow_def accountRow_update Let_def split: option.split prod.split sum.split)

lemma idle_unused:
  assumes "accountIdle (siOwner i) (siSource i) (siAccount i) (d, s)"
  shows "withCredential opts system i (d, s) \<in> {(Inl SCOPE_OWNER_MISMATCH, d, s), (Inl SOURCE_LOGIN_REQUIRED, d, s)}"
  using assms by (auto simp: withCredential_def accountIdle_def split: option.splits)

text \<open>
  Once an account has been invalidated or revoked by somebody who may, its credential is never used again,
  even when the vault failed to delete it: whatever happens short of a login, every use is refused before the
  vault is asked for anything.
\<close>

theorem revoked_account_unused:
  assumes "ownsScope system (siActor i) (siOwner i)" and "st \<noteq> ACTIVE"
    and "(quiet_step opts system)\<^sup>*\<^sup>* (snd (setStatus opts system now st i ds)) (d', s')"
    and "siOwner j = siOwner i" and "siSource j = siSource i" and "siAccount j = siAccount i"
  shows "withCredential opts system j (d', s') \<in> {(Inl SCOPE_OWNER_MISMATCH, d', s'), (Inl SOURCE_LOGIN_REQUIRED, d', s')}"
proof -
  have "accountIdle (siOwner i) (siSource i) (siAccount i) (snd (setStatus opts system now st i ds))"
    using setStatus_idles [OF assms(1,2)] by (cases ds) simp
  from idle_account.steps_fact [OF assms(3) this] show ?thesis
    using idle_unused [of j d' s'] assms(4-6) by simp
qed

end
