(* ===== verification/CM_Source_Worker_Facts.thy ===== *)
theory CM_Source_Worker_Facts
  imports CM_Source_Worker CM_Research_Properties CM_Source_Access_Facts CM_Stored_Vault
begin

text \<open>
  The source worker on its two stores and the vault: a round is a sequence of steps of source research, so
  what holds of these holds whatever adapters do; and as it is wired (a system actor whose audits the task
  store keeps), it never gets to use a credential.
\<close>

section \<open>Claims stay genuine\<close>

definition jobKeys :: "research_db \<Rightarrow> (ident \<times> ident \<times> ident) list" where
  "jobKeys d = map (\<lambda>j. (jobId j, jobBatch j, jobOwner j)) (jobs d)"

lemma jobKeys_update: "keepsKeys f \<Longrightarrow> jobKeys (updateJobs p f d) = jobKeys d"
  by (simp add: jobKeys_def updateJobs_def keepsKeys_def comp_def)

lemma genuine_jobKeys: "jobKeys d' = jobKeys d \<Longrightarrow> genuine c d' \<longleftrightarrow> genuine c d"
proof -
  have "genuine c d \<longleftrightarrow> (\<forall>(i, b, ow) \<in> set (jobKeys d). i = rcJob c \<longrightarrow> b = rcBatch c \<and> ow = rcOwner c)" for d
    by (auto simp: genuine_def jobKeys_def)
  then show "jobKeys d' = jobKeys d \<Longrightarrow> ?thesis" by simp
qed

lemma commitOutcome_jobKeys: "commitOutcome now c n out d = Some d' \<Longrightarrow> jobKeys d' = jobKeys d"
proof -
  have finish: "jobKeys d2 = jobKeys d1" if "finishJob jid st now o' cost nxt d1 = Some d2" for jid st o' cost nxt d1 d2
    using that by (auto simp: finishJob_def keepsKeys_def intro!: jobKeys_update split: if_splits)
  have "jobKeys d1 = jobKeys d" if "insertResult now c rkey evid sm cost d = Some d1" for rkey evid sm cost d1
    using that by (auto simp: insertResult_def jobKeys_def split: if_splits)
  with finish show "commitOutcome now c n out d = Some d' \<Longrightarrow> ?thesis"
    by (auto simp: commitOutcome_def split: research_outcome.splits option.splits)
qed

lemma worker_step_jobKeys: "worker_step d d' \<Longrightarrow> jobKeys d' = jobKeys d"
proof (erule worker_stepE)
  fix now worker lease assume "d' = snd (claimNextJob now worker lease d)"
  then show ?thesis
    by (auto simp: claimNextJob_def Let_def expireExhausted_def jobKeys_update keepsKeys_def split: option.split)
next
  fix now c lease assume "d' = snd (renewLease now c lease d)"
  then show ?thesis by (auto simp: renewLease_def jobKeys_update keepsKeys_def)
next
  fix now c v assume "d' = snd (saveJobCheckpoint now c v d)"
  then show ?thesis by (auto simp: saveJobCheckpoint_def jobKeys_update keepsKeys_def)
next
  fix c now stamp out assume "d' = snd (completeJob now stamp c out d)"
  then show ?thesis
    by (auto simp: completeJob_def jobKeys_def split: option.split dest!: commitOutcome_jobKeys)
next
  fix sent t assume "d' = snd (publishResearch sent t d)"
  then show ?thesis by (simp add: jobKeys_def publishResearch_def publishRows_tables)
qed

interpretation genuine_claim: step_stable worker_step "genuine c" for c
  by unfold_locales (metis genuine_jobKeys worker_step_jobKeys)

lemma claim_genuine:
  assumes "researchInv d" and "claimNextJob now worker lease d = (Inr (Some c), d1)"
  shows "genuine c d1"
proof -
  have inv1: "researchInv d1" using claimNextJob_inv [OF assms(1), of now worker lease] assms(2) by simp
  obtain j where "j \<in> set (jobs d1)" "jobId j = rcJob c" "jobBatch j = rcBatch c" "jobOwner j = rcOwner c"
    by (rule claimed_job [OF assms])
  with same_job [OF inv1] show ?thesis by (metis genuine_def)
qed

section \<open>A round is a sequence of steps\<close>

lemma runScript_steps:
  assumes "\<And>f d. Others f \<in> set es \<Longrightarrow> worker_step\<^sup>*\<^sup>* d (f d)"
  shows "worker_step\<^sup>*\<^sup>* d (snd (snd (runScript lease c es d)))"
  using assms
proof (induction lease c es d rule: runScript.induct)
  case (3 lease c t es d)
  have "worker_step\<^sup>*\<^sup>* d (case t of None \<Rightarrow> d | Some now \<Rightarrow> snd (renewLease now c lease d))"
    by (auto intro: worker_step.renews split: option.split)
  with 3 show ?case
    by (auto simp: Let_def split: option.split prod.split intro: rtranclp_trans)
next
  case (4 lease c now v es d)
  have "worker_step d (snd (saveJobCheckpoint now c v d))" by (rule worker_step.checkpoints)
  with 4 show ?case
    by (auto simp: Let_def split: prod.split) (metis converse_rtranclp_into_rtranclp snd_conv)
qed (auto intro: rtranclp_trans)

text \<open>What the worker relies on: others change the tables of source research by its operations only.\<close>

locale source_rounds =
  fixes w :: source_worker and idle :: "script_event list"
  assumes idle_steps: "Others f \<in> set idle \<Longrightarrow> worker_step\<^sup>*\<^sup>* d (f d)"
    and adapter_steps: "swAdapters w src = Some a \<Longrightarrow> Others f \<in> set (adapterScript a c p) \<Longrightarrow> worker_step\<^sup>*\<^sup>* d (f d)"
begin

lemma finish_steps: "genuine c d \<Longrightarrow> worker_step\<^sup>*\<^sup>* d (fst (snd (finishRound w c out (d, ss))))"
  using worker_step.completes [of c d "swNow w 1" "swNow w 2" out]
  by (auto simp: finishRound_def split: prod.split sum.split)

lemma wait_steps: "genuine c d \<Longrightarrow> worker_step\<^sup>*\<^sup>* d (fst (snd (waitForLogin w a c ch (d, ss))))"
  using finish_steps [of c d]
  by (cases ss) (auto simp: waitForLogin_def split: prod.split sum.split)

lemma account_steps:
  assumes "genuine c d" and a: "swAdapters w src = Some a"
  shows "worker_step\<^sup>*\<^sup>* d (fst (snd (roundWithAccount w a idle c (d, ss))))"
proof -
  obtain used secret ss1 where used: "useForAdapter w a c (d, ss) = (used, secret, ss1)" by (metis prod_cases3)
  obtain lost answers d1 where script: "runScript (swLease w) c
      (case secret of None \<Rightarrow> idleEvents idle | Some p \<Rightarrow> adapterScript a c p) d = (lost, answers, d1)" by (metis prod_cases3)
  have "worker_step\<^sup>*\<^sup>* d (snd (snd (runScript (swLease w) c (case secret of None \<Rightarrow> idleEvents idle | Some p \<Rightarrow> adapterScript a c p) d)))"
    by (rule runScript_steps)
      (auto simp: idleEvents_def split: option.splits intro: idle_steps adapter_steps [OF a])
  then have d1: "worker_step\<^sup>*\<^sup>* d d1" by (simp add: script)
  then have "genuine c d1" using assms(1) by (rule genuine_claim.steps_fact)
  then have "worker_step\<^sup>*\<^sup>* d (fst (snd (finishRound w c out (d1, ss'))))" for out ss'
    using d1 finish_steps by (blast intro: rtranclp_trans)
  with d1 show ?thesis
    by (simp add: roundWithAccount_def used script split: option.split sum.split prod.split adapter_outcome.split)
qed

lemma round_steps:
  assumes inv: "researchInv d"
  shows "worker_step\<^sup>*\<^sup>* d (fst (snd (workerRound w idle (d, ss))))"
proof (cases "claimNextJob (swNow w 0) (swWorker w) (swLease w) d")
  case (Pair r d1)
  have step: "worker_step d d1" using worker_step.claims [of d "swNow w 0" "swWorker w" "swLease w"] Pair by simp
  show ?thesis
  proof (cases "\<exists>c. r = Inr (Some c)")
    case True
    then obtain c where c: "r = Inr (Some c)" by blast
    have genuine: "genuine c d1" using claim_genuine [OF inv] Pair c by blast
    have "worker_step\<^sup>*\<^sup>* d1 (fst (snd (workerRound w idle (d, ss))))"
      using finish_steps [OF genuine] wait_steps [OF genuine] account_steps [OF genuine]
      by (cases ss) (auto simp: workerRound_def Pair c split: option.split)
    with step show ?thesis by (rule converse_rtranclp_into_rtranclp)
  next
    case False
    with step Pair show ?thesis
      by (cases ss; cases r) (auto simp: workerRound_def split: option.split)
  qed
qed

end

interpretation fixture_worker: source_rounds
    "w\<lparr>swAdapters := [src \<mapsto> fixtureAdapter url sha256 now first later]\<rparr>" "map Heartbeat beats"
  for w src url sha256 now first later beats
  by unfold_locales (auto simp: fixtureAdapter_def split: if_splits)


section \<open>The worker as it is wired\<close>

lemma storedVault_operation:
  "(storedVault dbs uuid now opts)\<lparr>operationPort := f\<rparr> = storedVault dbs uuid now (opts\<lparr>operationPort := f\<rparr>)"
  by (simp add: storedVault_def)

lemma system_use_fails:
  "actorRole (inputActor inp) = SYSTEM \<Longrightarrow>
   useCredential (storedVault dbs uuid now opts) inp s = (Inl PORT_FAILED, s\<lparr>calls := Suc (calls s)\<rparr>)"
  by (simp add: useCredential_def denied_def and_then_def stored_audit_system)

lemma newlyOperated_same [simp]: "trace s' = trace s \<Longrightarrow> newlyOperated s s' = None"
  by (simp add: newlyOperated_def)

text \<open>The adapter is not reached, and no new login is asked for.\<close>

lemma system_adapter_unreached:
  assumes "actorRole (swActor w) = SYSTEM" and "swVault w = storedVault dbs uuid now opts"
    and "accountRow (rcOwner c) (srcId (rcAccount c)) (srcAccount (rcAccount c)) sd = Some r" and "crdStatus r = ACTIVE"
  shows "\<exists>e s'. useForAdapter w a c (d, sd, s) = (Inl e, None, sd, s') \<and> trace s' = trace s \<and> e \<notin> set LOGIN_ERRORS"
  using assms(1,3,4)
  by (simp add: useForAdapter_def withCredential_def scopeOf_def assms(2) storedVault_operation system_use_fails LOGIN_ERRORS_def)

lemma runScript_results:
  assumes "\<And>f. Others f \<notin> set es"
  shows "results (snd (snd (runScript lease c es d))) = results d"
  using assms
  by (induction lease c es d rule: runScript.induct)
    (auto simp: Let_def renewLease_def saveJobCheckpoint_def split: option.split prod.split)

lemma completeJob_results:
  assumes "\<And>rkey evid sm cost. out \<noteq> EVIDENCE rkey evid sm cost"
  shows "results (snd (completeJob now stamp c out d)) = results d"
proof -
  have "results d' = results d" if "commitOutcome stamp c n out d = Some d'" for n d'
    using that assms by (auto simp: commitOutcome_def finishJob_def split: research_outcome.splits if_splits)
  then show ?thesis by (auto simp: completeJob_def split: option.split)
qed

lemma finishRound_results:
  "(\<And>rkey evid sm cost. out \<noteq> EVIDENCE rkey evid sm cost) \<Longrightarrow> results (fst (snd (finishRound w c out (d, ss)))) = results d
     \<and> snd (snd (finishRound w c out (d, ss))) = ss"
  using completeJob_results [of out "swNow w 1" "swNow w 2" c d]
  by (auto simp: finishRound_def split: prod.split sum.split)

text \<open>
  C27 (a defect): as the source worker is wired, research never produces evidence: as a system actor it cannot use
  a credential, since the audit table refuses the role, so no round reaches the adapter of the source, uses a
  secret or adds a result, whatever the accounts and their credentials are.
\<close>

theorem source_worker_never_evidence:
  assumes "actorRole (swActor w) = SYSTEM" and "swVault w = storedVault dbs uuid now opts"
    and "\<And>f. Others f \<notin> set idle"
  shows "results (fst (snd (workerRound w idle (d, sd, s)))) = results d
    \<and> trace (snd (snd (snd (workerRound w idle (d, sd, s))))) = trace s"
proof (cases "claimNextJob (swNow w 0) (swWorker w) (swLease w) d")
  case (Pair res d1)
  have d1: "results d1 = results d"
    using Pair by (auto simp: claimNextJob_def Let_def expireExhausted_def split: if_splits option.splits)
  have account: "results (fst (snd (roundWithAccount w a idle c (d1, sd, s)))) = results d1
      \<and> trace (snd (snd (snd (roundWithAccount w a idle c (d1, sd, s))))) = trace s"
    if row: "accountRow (rcOwner c) (srcId (rcAccount c)) (srcAccount (rcAccount c)) sd = Some r" "crdStatus r = ACTIVE" for a c r
  proof -
    obtain e s' where used: "useForAdapter w a c (d1, sd, s) = (Inl e, None, sd, s')" "trace s' = trace s" "e \<notin> set LOGIN_ERRORS"
      using system_adapter_unreached [OF assms(1,2) row] by blast
    obtain lost answers d2 where script: "runScript (swLease w) c (idleEvents idle) d1 = (lost, answers, d2)" by (metis prod_cases3)
    have "results d2 = results d1"
      using runScript_results [of "idleEvents idle" "swLease w" c d1] script assms(3) by (auto simp: idleEvents_def)
    with used script finishRound_results [of "research_outcome.FAILED_RETRYABLE INTERRUPTED" w c d2 "(sd, s')"] show ?thesis
      by (auto simp: roundWithAccount_def)
  qed
  have wait: "results (fst (snd (waitForLogin w a c QR_CODE (d1, sd, s)))) = results d1
      \<and> trace (snd (snd (snd (waitForLogin w a c QR_CODE (d1, sd, s))))) = trace s" for a c
  proof (cases "startLogin w a c sd")
    case (Pair r sd')
    with finishRound_results [of "WAITING_CHALLENGE QR_CODE l" w c d1 "(sd', s)" for l] show ?thesis
      by (cases r) (auto simp: waitForLogin_def)
  qed
  show ?thesis
    using finishRound_results [of "research_outcome.FAILED_FINAL m" w c d1 "(sd, s)" for m c] account wait d1
    by (auto simp: workerRound_def Pair getSourceStatus_def toSourceStatus_def split: sum.split option.split)
qed

end
