(* ===== verification/CM_Source_Witnesses.thy ===== *)
theory CM_Source_Witnesses
  imports CM_Source_Worker_Facts
begin

text \<open>
  Concrete research batches, logins and worker rounds: each theorem on sources is applied where its
  hypotheses hold.
\<close>

section \<open>Research\<close>

definition sampleResearch :: research_env where
  "sampleResearch = \<lparr>reStringify = (\<lambda>_. ''request''), reSha256 = (\<lambda>s. s), reCollation = (\<lambda>_. 0)\<rparr>"

definition sampleAccount :: source_account where
  "sampleAccount = \<lparr>srcId = ''fixture'', srcAccount = ''account-1''\<rparr>"

definition sampleCreate :: create_batch where
  "sampleCreate = \<lparr>cbBatch = ''batch-1'', cbOwner = ''user-1'', cbTask = ''task-1'', cbKey = ''key-1'',
     cbQuery = '' laptops '', cbSources = [sampleAccount]\<rparr>"

definition queuedJob :: job_row where
  "queuedJob = newJob 1 1 sampleCreate ''job-1'' sampleAccount"

definition queuedDb :: research_db where
  "queuedDb = \<lparr>batches = [\<lparr>baId = ''batch-1'', baOwner = ''user-1'', baTask = ''task-1'', baKey = ''key-1'',
       baFingerprint = ''request'', baQuery = ''laptops'', baCreatedAt = 1, baUpdatedAt = 1\<rparr>],
     jobs = [queuedJob], results = [], researchOutbox = [\<lparr>roId = 1, roJob = ''job-1'', roPublishedAt = None\<rparr>],
     nextOutboxId = 2\<rparr>"

definition sampleBatch :: research_batch where
  "sampleBatch = the (readBatch ''batch-1'' ''user-1'' queuedDb)"

lemma sample_trim: "trim '' laptops '' = ''laptops''"
  by code_simp

lemma sample_valid: "validBatch sampleCreate"
  by code_simp

lemma sample_created:
  "createBatch sampleResearch (\<lambda>_. ''job-1'') 1 1 sampleCreate emptyResearch = (Inr sampleBatch, queuedDb)"
proof -
  have "insertJobs (\<lambda>s n. newJob 1 1 sampleCreate ''job-1'' s) 0 [sampleAccount] (queuedDb\<lparr>jobs := [], researchOutbox := [], nextOutboxId := 1\<rparr>) = Some queuedDb"
    by (simp add: insertJob_def queuedDb_def queuedJob_def newJob_def)
  moreover have "readBatch ''batch-1'' ''user-1'' queuedDb = Some sampleBatch"
    by (simp add: sampleBatch_def readBatch_def queuedDb_def)
  ultimately show ?thesis
    using sample_valid
    by (simp add: createBatch_def Let_def normalizedSources_def requestFingerprint_def sampleResearch_def emptyResearch_def
        queuedDb_def sampleCreate_def sample_trim)
qed

definition claimedJob :: job_row where
  "claimedJob = queuedJob\<lparr>jobState := job_state.RUNNING, jobWorker := Some ''worker-1'', jobLease := Some 12, jobAttempts := 1,
     jobUpdatedAt := 2\<rparr>"

abbreviation runningDb :: research_db where
  "runningDb \<equiv> queuedDb\<lparr>jobs := [claimedJob]\<rparr>"

lemma sample_claim: "claimNextJob 2 ''worker-1'' 10 queuedDb = (Inr (Some (claimOf ''worker-1'' queuedJob)), runningDb)"
proof -
  have "expireExhausted 2 queuedDb = queuedDb" and "nextJob 2 queuedDb = Some queuedJob"
    by (simp_all add: expireExhausted_def updateJobs_def nextJob_def exhaustedJob_def claimableJob_def queuedDb_def queuedJob_def newJob_def)
  then show ?thesis
    by (simp add: claimNextJob_def validLease_def updateJobs_def queuedDb_def claimedJob_def queuedJob_def newJob_def)
qed

abbreviation sampleEvidence :: research_outcome where
  "sampleEvidence \<equiv> EVIDENCE ''result-1'' ''evidence-1'' ''found'' 3"

abbreviation doneDb :: research_db where
  "doneDb \<equiv> snd (completeJob 3 3 (claimOf ''worker-1'' queuedJob) sampleEvidence runningDb)"

lemma sample_research_reachable:
  "(research_step sampleResearch)\<^sup>*\<^sup>* emptyResearch queuedDb" "worker_step queuedDb runningDb" "worker_step runningDb doneDb"
  "(research_step sampleResearch)\<^sup>*\<^sup>* emptyResearch doneDb"
proof -
  show create: "(research_step sampleResearch)\<^sup>*\<^sup>* emptyResearch queuedDb"
    using research_step.creates [of sampleResearch emptyResearch "\<lambda>_. ''job-1''" 1 1 sampleCreate] sample_created by auto
  show claim: "worker_step queuedDb runningDb"
    using worker_step.claims [of queuedDb 2 "''worker-1''" 10] sample_claim by simp
  show complete: "worker_step runningDb doneDb"
    by (rule worker_step.completes)
      (simp add: genuine_def queuedDb_def claimedJob_def queuedJob_def newJob_def claimOf_def)
  show "(research_step sampleResearch)\<^sup>*\<^sup>* emptyResearch doneDb"
    using create research_step.works [OF claim] research_step.works [OF complete]
    by (meson rtranclp.rtrancl_into_rtrancl)
qed

lemma done_jobs: "jobs doneDb = [claimedJob\<lparr>jobState := job_state.COMPLETED, jobOutcome := None, jobCost := 3, jobWorker := None,
    jobLease := None, jobNextAttempt := None, jobUpdatedAt := 3\<rparr>]"
  by (simp add: completeJob_def alreadyCommitted_def commitOutcome_def insertResult_def finishJob_def costAllowed_def updateJobs_def
      holdsLease_def queuedDb_def claimedJob_def queuedJob_def newJob_def claimOf_def sampleCreate_def)

lemma research_evidence_once_witness:
  "map (\<lambda>r. (rsBatch r, rsOwner r, rsCost r)) (filter (\<lambda>r. rsJob r = ''job-1'') (results doneDb)) = [(''batch-1'', ''user-1'', 3)]"
  using research_evidence_once [OF sample_research_reachable(4), of "hd (jobs doneDb)"]
  unfolding done_jobs by (simp add: claimedJob_def queuedJob_def newJob_def sampleCreate_def)

lemma research_lease_exclusive_witness:
  "fst (completeJob 11 11 (claimOf ''worker-1'' queuedJob) sampleEvidence runningDb) = Inr COMMITTED"
  using research_lease_exclusive [OF sample_research_reachable(1) sample_claim, of 11]
  by (simp add: outcomeCost_def costAllowed_def)

lemma research_attempts_bounded_witness: "(1::nat) \<le> 5 * length (jobs queuedDb)"
  using research_attempts_bounded [OF sample_research_reachable(1) work_run.grant [OF work_run.start sample_claim]] by simp

lemma research_settles_witness: "terminalJob (jobState (hd (jobs doneDb)))"
proof -
  have "expireExhausted 99 doneDb = doneDb"
    unfolding expireExhausted_def by (rule updateJobs_none) (simp add: done_jobs exhaustedJob_def)
  moreover have "nextJob 99 doneDb = None"
    unfolding nextJob_def done_jobs by (simp add: claimableJob_def)
  ultimately have "claimNextJob 99 ''worker-1'' 10 doneDb = (Inr None, doneDb)"
    by (simp add: claimNextJob_def validLease_def)
  from research_settles [OF sample_research_reachable(4) this] show ?thesis
    by (simp add: done_jobs)
qed

lemma createBatch_idempotent_witness:
  "map_sum id rbId (fst (createBatch sampleResearch (\<lambda>_. ''job-9'') 7 7 (sampleCreate\<lparr>cbBatch := ''batch-2''\<rparr>) doneDb)) = Inr ''batch-1''"
proof -
  have "worker_step\<^sup>*\<^sup>* queuedDb doneDb" using sample_research_reachable(2,3) by (meson r_into_rtranclp rtranclp_trans)
  moreover have "validBatch (sampleCreate\<lparr>cbBatch := ''batch-2''\<rparr>)" using sample_valid by (simp add: validBatch_def)
  moreover have "requestFingerprint sampleResearch (sampleCreate\<lparr>cbBatch := ''batch-2''\<rparr>) = requestFingerprint sampleResearch sampleCreate"
    by (simp add: requestFingerprint_def normalizedSources_def)
  moreover have "rbId sampleBatch = ''batch-1''" by (simp add: sampleBatch_def readBatch_def queuedDb_def)
  ultimately show ?thesis
    using createBatch_idempotent [OF sample_created, of doneDb "sampleCreate\<lparr>cbBatch := ''batch-2''\<rparr>"] by simp
qed

section \<open>Source access\<close>

text \<open>A vault whose ports always answer, and one whose storage cannot delete.\<close>

definition workingVault :: vault_options where
  "workingVault = sampleOptions\<lparr>deletePort := Some (\<lambda>_ _ _. Some True)\<rparr>"

definition sampleLogin :: login_row where
  "sampleLogin = \<lparr>lgId = ''login-1'', lgUrl = ''https://example.test'', lgOwner = ''user-1'', lgSource = ''fixture'',
     lgAccount = ''account-1'', lgStatus = LOGIN_WAITING_CHALLENGE, lgReplaced = None, lgCreatedAt = 1, lgUpdatedAt = 1\<rparr>"

definition sampleCredential :: credential_row where
  "sampleCredential = \<lparr>crdOwner = ''user-1'', crdSource = ''fixture'', crdAccount = ''account-1'', crdId = ''credential-0'',
     crdStatus = ACTIVE, crdCreatedAt = 0, crdUpdatedAt = 0\<rparr>"

definition sampleSources :: source_db where
  "sampleSources = \<lparr>logins = [sampleLogin], sourceCredentials = [sampleCredential]\<rparr>"

definition sampleComplete :: complete_login where
  "sampleComplete = \<lparr>clOwner = ''user-1'', clLogin = ''login-1'', clSecret = ''secret'', clCorrelation = ''correlation-1'',
     clActor = sampleActor\<rparr>"

lemma sample_login:
  "find (ownLogin sampleComplete) (logins sampleSources) = Some sampleLogin" "lgStatus sampleLogin = LOGIN_WAITING_CHALLENGE"
  by (simp_all add: sampleSources_def ownLogin_def sampleLogin_def sampleComplete_def)

lemmas sample_access_simps = completeLogin_def firstLogin_def dropReplaced_def deleteVaultCredential_def storeCredential_def
  deleteCredential_def deleteStored_def mayAccess_def vault_simps commitLogin_def upsertCredential_def updateLogin_def
  clearReplaced_def ownsScope_def statusAfter_def accountRow_def ofAccount_def sampleSources_def sampleLogin_def
  sampleCredential_def sampleComplete_def sampleActor_def ownLogin_def

abbreviation loggedIn :: "(access_error + source_status) \<times> source_state" where
  "loggedIn \<equiv> completeLogin workingVault None ''credential-1'' 5 sampleComplete (sampleSources, fresh_run 0)"

lemma sample_logged_in: "\<exists>st. fst loggedIn = Inr st"
  by (simp add: sample_access_simps workingVault_def sampleOptions_def)

lemma login_replaces_credential_witness: "Deleted ''credential-0'' ''user-1'' \<in> set (trace (snd (snd loggedIn)))"
proof -
  obtain st where "loggedIn = (Inr st, fst (snd loggedIn), snd (snd loggedIn))" using sample_logged_in by (metis prod.collapse)
  from login_replaces_credential [OF this sample_login]
  have "\<forall>old. accountRow ''user-1'' ''fixture'' ''account-1'' sampleSources = Some old \<and> crdId old \<noteq> ''credential-1''
      \<longrightarrow> Deleted (crdId old) ''user-1'' \<in> set (trace (snd (snd loggedIn)))"
    by (simp add: sampleComplete_def sampleLogin_def)
  moreover have "accountRow ''user-1'' ''fixture'' ''account-1'' sampleSources = Some sampleCredential"
    by (simp add: accountRow_def ofAccount_def sampleSources_def sampleCredential_def)
  ultimately show ?thesis by (simp add: sampleCredential_def)
qed

text \<open>The vault of \<open>sampleOptions\<close> cannot delete: the login counts although the call fails.\<close>

abbreviation halfLoggedIn :: "(access_error + source_status) \<times> source_state" where
  "halfLoggedIn \<equiv> completeLogin sampleOptions None ''credential-1'' 5 sampleComplete (sampleSources, fresh_run 0)"

lemma login_once_witness:
  "sourceCredentials (fst (snd (completeLogin workingVault None ''credential-2'' 9 (sampleComplete\<lparr>clSecret := ''other''\<rparr>)
      (fst (snd halfLoggedIn), fresh_run 0)))) = sourceCredentials (fst (snd halfLoggedIn))"
proof -
  have "halfLoggedIn = (fst halfLoggedIn, fst (snd halfLoggedIn), snd (snd halfLoggedIn))" by simp
  moreover have "fst (snd halfLoggedIn) \<noteq> sampleSources"
    by (simp add: sample_access_simps sampleOptions_def)
  ultimately show ?thesis using login_once [OF _ _ sample_login] by blast
qed

definition sampleScope :: scope_input where
  "sampleScope = \<lparr>siOwner = ''user-1'', siSource = ''fixture'', siAccount = ''account-1'', siCorrelation = ''correlation-1'',
     siActor = sampleActor\<rparr>"

lemma revoked_account_unused_witness:
  "withCredential sampleOptions None sampleScope (snd (setStatus sampleOptions None 6 REVOKED sampleScope (sampleSources, fresh_run 0)))
   \<in> {(Inl SCOPE_OWNER_MISMATCH, snd (setStatus sampleOptions None 6 REVOKED sampleScope (sampleSources, fresh_run 0))),
      (Inl SOURCE_LOGIN_REQUIRED, snd (setStatus sampleOptions None 6 REVOKED sampleScope (sampleSources, fresh_run 0)))}"
proof -
  let ?ds = "snd (setStatus sampleOptions None 6 REVOKED sampleScope (sampleSources, fresh_run 0))"
  have owns: "ownsScope None (siActor sampleScope) (siOwner sampleScope)"
    by (simp add: ownsScope_def sampleScope_def sampleActor_def)
  have "(quiet_step sampleOptions None)\<^sup>*\<^sup>* ?ds (fst ?ds, snd ?ds)" by simp
  from revoked_account_unused [OF owns _ this] show ?thesis by simp
qed

section \<open>The source worker\<close>

definition wiredWorker :: source_worker where
  "wiredWorker = \<lparr>swWorker = ''worker-1'', swActor = sourceWorkerActor ''1'', swSystem = Some (sourceWorkerActor ''1''),
     swAdapters = [''fixture'' \<mapsto> fixtureAdapter ''https://example.test'' (\<lambda>s. s) 3 False False], swLease = 10,
     swVault = storedVault (\<lambda>_. emptyDatabase) (\<lambda>_. ''audit-1'') (\<lambda>_. 0) (sampleOptions\<lparr>systemAccess := Some (sourceWorkerAccess ''1'')\<rparr>),
     swNow = (\<lambda>n. 2), swUuid = (\<lambda>_. ''login-2'')\<rparr>"


lemma source_worker_never_evidence_witness:
  "results (fst (snd (workerRound wiredWorker [Heartbeat (Some 2)] (queuedDb, sampleSources, fresh_run 0)))) = []"
proof -
  have "results queuedDb = []" by (simp add: queuedDb_def)
  then show ?thesis
    using source_worker_never_evidence [of wiredWorker _ _ _ _ "[Heartbeat (Some 2)]"]
    by (simp add: wiredWorker_def sourceWorkerActor_def)
qed

end
