(* ===== verification/CM_Conversation.thy ===== *)
theory CM_Conversation
  imports CM_Schemas CM_Time
begin

text \<open>
  Conversations (packages/conversation/src/index.ts): sessions of an owner, the messages of a session, the
  revisions of the requirement that the owner's turns add up to, and the decision tasks linked to a session.
  A table is the list of its rows in insertion order; an operation that throws leaves the tables as they were.
  The clock, the random uuids, SHA-256 and \<open>JSON.stringify\<close> are parameters.
\<close>

section \<open>Data\<close>

datatype missing_key = CONSUMPTION_GOAL | PRIMARY_SCENARIO | HARD_CONSTRAINTS

datatype requirement_readiness = NEEDS_CLARIFICATION | READY_FOR_RESEARCH

datatype message_role = ASSISTANT | USER

record conv_session_row =
  seId :: ident
  seOwner :: ident
  seRequest :: ident
  seTitle :: string
  seCreatedAt :: int
  seUpdatedAt :: int

record message_row =
  msId :: ident
  msSession :: ident
  msOwner :: ident
  msTurn :: "ident option"
  msFingerprint :: "string option"
  msOrdinal :: int
  msRole :: message_role
  msText :: string
  msCreatedAt :: int

text \<open>The two jsonb columns hold JSON; SQL's NULL is \<open>None\<close>.\<close>

record revision_row =
  rvId :: ident
  rvSession :: ident
  rvOwner :: ident
  rvMessage :: ident
  rvPrevious :: "ident option"
  rvNumber :: int
  rvGoal :: "string option"
  rvScenario :: "string option"
  rvConstraints :: "json option"
  rvMissing :: json
  rvReadiness :: requirement_readiness
  rvCreatedAt :: int

record task_link_row =
  tlSession :: ident
  tlOwner :: ident
  tlTask :: ident
  tlLinkedAt :: int

record conversation_db =
  convSessions :: "conv_session_row list"
  convMessages :: "message_row list"
  convRevisions :: "revision_row list"
  convLinks :: "task_link_row list"

definition emptyConversation :: conversation_db where
  "emptyConversation = \<lparr>convSessions = [], convMessages = [], convRevisions = [], convLinks = []\<rparr>"

datatype conversation_error =
    CONVERSATION_NOT_FOUND
  | CONVERSATION_INVALID string
  | CONVERSATION_IDEMPOTENCY_CONFLICT ident
  | CONVERSATION_ROW_REJECTED \<comment> \<open>a constraint of the schema\<close>
  | CONVERSATION_DAMAGED \<comment> \<open>a stored array that does not decode\<close>
  | CONVERSATION_UNREADABLE \<comment> \<open>the session just written is gone\<close>

type_synonym 'a conv_result = "(conversation_error + 'a) \<times> conversation_db"

record conversation_env =
  cvStringify :: "json \<Rightarrow> string"
  cvSha256 :: "string \<Rightarrow> string"

record conv_revision =
  rrId :: ident
  rrNumber :: int
  rrGoal :: "string option"
  rrScenario :: "string option"
  rrConstraints :: "string list option"
  rrMissing :: "missing_key list"
  rrReadiness :: requirement_readiness
  rrCreatedAt :: string

record conversation_message =
  cmId :: ident
  cmOrdinal :: int
  cmRole :: message_role
  cmText :: string
  cmCreatedAt :: string

record conversation_session =
  csId :: ident
  csTitle :: string
  csCreatedAt :: string
  csUpdatedAt :: string
  csMessages :: "conversation_message list"
  csRequirement :: "conv_revision option"
  csTasks :: "(ident \<times> string) list"

text \<open>An update of the requirement; an absent field leaves the previous value.\<close>

record requirement_update =
  upGoal :: "string option"
  upScenario :: "string option"
  upConstraints :: "string list option"

record user_turn =
  utTurn :: ident
  utOwner :: ident
  utSession :: ident
  utText :: string
  utUpdate :: requirement_update

section \<open>Checks of the input\<close>

definition normalizeText :: "string \<Rightarrow> string \<Rightarrow> conversation_error + string" where
  "normalizeText s field =
     (let n = trim s in
      if n = [] \<or> length n > 2000 then Inl (CONVERSATION_INVALID (field @ '' must be 1-2000 characters'')) else Inr n)"

definition assertOpaqueId :: "string \<Rightarrow> string \<Rightarrow> conversation_error + unit" where
  "assertOpaqueId s field =
     (if s = [] \<or> trim s \<noteq> s \<or> length s > 200 then Inl (CONVERSATION_INVALID (field @ '' is invalid'')) else Inr ())"

fun normalizeTexts :: "string list \<Rightarrow> string \<Rightarrow> conversation_error + string list" where
  "normalizeTexts [] field = Inr []"
| "normalizeTexts (s # ss) field =
     onward (normalizeText s field) (\<lambda>n. onward (normalizeTexts ss field) (\<lambda>ns. Inr (n # ns)))"

text \<open>A field that is absent stays absent.\<close>

fun whenGiven :: "('a \<Rightarrow> conversation_error + 'b) \<Rightarrow> 'a option \<Rightarrow> conversation_error + 'b option" where
  "whenGiven f None = Inr None"
| "whenGiven f (Some a) = onward (f a) (\<lambda>b. Inr (Some b))"

definition normalizeRequirementUpdate :: "requirement_update \<Rightarrow> conversation_error + requirement_update" where
  "normalizeRequirementUpdate u =
     onward (whenGiven (\<lambda>s. normalizeText s ''consumptionGoal'') (upGoal u)) (\<lambda>g.
     onward (whenGiven (\<lambda>s. normalizeText s ''primaryScenario'') (upScenario u)) (\<lambda>s.
     onward (whenGiven (\<lambda>ss. normalizeTexts ss ''hardConstraints'') (upConstraints u)) (\<lambda>c.
     Inr \<lparr>upGoal = g, upScenario = s, upConstraints = c\<rparr>)))"

definition nullable :: "('a \<Rightarrow> json) \<Rightarrow> 'a option \<Rightarrow> json" where
  "nullable f x = (case x of None \<Rightarrow> JNull | Some a \<Rightarrow> f a)"

definition stringArray :: "string list \<Rightarrow> json" where
  "stringArray ss = JArr (map JStr ss)"

definition fingerprintUserTurn :: "conversation_env \<Rightarrow> string \<Rightarrow> requirement_update \<Rightarrow> string" where
  "fingerprintUserTurn env txt u = cvSha256 env (cvStringify env (JObj
     [(''requirementUpdate'', JObj
        [(''consumptionGoal'', nullable JStr (upGoal u)),
         (''hardConstraints'', nullable stringArray (upConstraints u)),
         (''primaryScenario'', nullable JStr (upScenario u))]),
      (''text'', JStr txt)]))"

section \<open>Decoding stored rows\<close>

fun stringItems :: "json list \<Rightarrow> string list option" where
  "stringItems [] = Some []"
| "stringItems (JStr s # js) = (case stringItems js of None \<Rightarrow> None | Some ss \<Rightarrow> Some (s # ss))"
| "stringItems (_ # js) = None"

definition decodeStringArray :: "json \<Rightarrow> string list option" where
  "decodeStringArray j = (case j of JArr js \<Rightarrow> stringItems js | _ \<Rightarrow> None)"

definition missingKeyText :: "missing_key \<Rightarrow> string" where
  "missingKeyText k = (case k of CONSUMPTION_GOAL \<Rightarrow> ''CONSUMPTION_GOAL'' | PRIMARY_SCENARIO \<Rightarrow> ''PRIMARY_SCENARIO''
     | HARD_CONSTRAINTS \<Rightarrow> ''HARD_CONSTRAINTS'')"

definition missingKeyOf :: "string \<Rightarrow> missing_key option" where
  "missingKeyOf s = (if s = ''CONSUMPTION_GOAL'' then Some CONSUMPTION_GOAL
     else if s = ''PRIMARY_SCENARIO'' then Some PRIMARY_SCENARIO
     else if s = ''HARD_CONSTRAINTS'' then Some HARD_CONSTRAINTS else None)"

fun missingKeys :: "string list \<Rightarrow> missing_key list option" where
  "missingKeys [] = Some []"
| "missingKeys (s # ss) = (case (missingKeyOf s, missingKeys ss) of (Some k, Some ks) \<Rightarrow> Some (k # ks) | _ \<Rightarrow> None)"

definition decodeMissingKeys :: "json \<Rightarrow> missing_key list option" where
  "decodeMissingKeys j = (case decodeStringArray j of None \<Rightarrow> None | Some ss \<Rightarrow> missingKeys ss)"

text \<open>In a nullable column both SQL's NULL and JSON's are null.\<close>

definition decodeNullableArray :: "json option \<Rightarrow> string list option option" where
  "decodeNullableArray v = (case v of
      None \<Rightarrow> Some None
    | Some JNull \<Rightarrow> Some None
    | Some j \<Rightarrow> (case decodeStringArray j of None \<Rightarrow> None | Some ss \<Rightarrow> Some (Some ss)))"

definition decodeRequirementRow :: "revision_row \<Rightarrow> conversation_error + conv_revision" where
  "decodeRequirementRow r =
     (case (decodeNullableArray (rvConstraints r), decodeMissingKeys (rvMissing r)) of
        (Some c, Some ks) \<Rightarrow> Inr \<lparr>rrId = rvId r, rrNumber = rvNumber r, rrGoal = rvGoal r, rrScenario = rvScenario r,
           rrConstraints = c, rrMissing = ks, rrReadiness = rvReadiness r, rrCreatedAt = toISOString (rvCreatedAt r)\<rparr>
      | _ \<Rightarrow> Inl CONVERSATION_DAMAGED)"

section \<open>Reading\<close>

text \<open>The row with the greatest key, as \<open>ORDER BY ... DESC LIMIT 1\<close> picks it.\<close>

definition latestBy :: "('a \<Rightarrow> int) \<Rightarrow> 'a list \<Rightarrow> 'a option" where
  "latestBy f xs = (case rev (sort_key f xs) of [] \<Rightarrow> None | x # _ \<Rightarrow> Some x)"

definition loadLatestRequirement :: "ident \<Rightarrow> conversation_db \<Rightarrow> conversation_error + conv_revision option" where
  "loadLatestRequirement sid d =
     (case latestBy rvNumber (filter (\<lambda>r. rvSession r = sid) (convRevisions d)) of
        None \<Rightarrow> Inr None
      | Some r \<Rightarrow> onward (decodeRequirementRow r) (\<lambda>v. Inr (Some v)))"

definition messageOf :: "message_row \<Rightarrow> conversation_message" where
  "messageOf m = \<lparr>cmId = msId m, cmOrdinal = msOrdinal m, cmRole = msRole m, cmText = msText m,
     cmCreatedAt = toISOString (msCreatedAt m)\<rparr>"

definition sessionMessages :: "ident \<Rightarrow> ident \<Rightarrow> conversation_db \<Rightarrow> message_row list" where
  "sessionMessages owner sid d =
     sort_key msOrdinal (filter (\<lambda>m. msSession m = sid \<and> msOwner m = owner) (convMessages d))"

definition sessionLinks :: "ident \<Rightarrow> ident \<Rightarrow> conversation_db \<Rightarrow> task_link_row list" where
  "sessionLinks owner sid d =
     sort_key tlLinkedAt (sort_key tlTask (filter (\<lambda>l. tlSession l = sid \<and> tlOwner l = owner) (convLinks d)))"

definition sessionRow :: "ident \<Rightarrow> ident \<Rightarrow> conversation_db \<Rightarrow> conv_session_row option" where
  "sessionRow owner sid d = find (\<lambda>s. seId s = sid \<and> seOwner s = owner) (convSessions d)"

definition loadSession ::
    "ident \<Rightarrow> ident \<Rightarrow> conversation_db \<Rightarrow> conversation_error + conversation_session option" where
  "loadSession owner sid d =
     (case sessionRow owner sid d of
        None \<Rightarrow> Inr None
      | Some s \<Rightarrow> onward (loadLatestRequirement sid d) (\<lambda>req. Inr (Some
          \<lparr>csId = seId s, csTitle = seTitle s, csCreatedAt = toISOString (seCreatedAt s),
           csUpdatedAt = toISOString (seUpdatedAt s), csMessages = map messageOf (sessionMessages owner sid d),
           csRequirement = req,
           csTasks = map (\<lambda>l. (tlTask l, toISOString (tlLinkedAt l))) (sessionLinks owner sid d)\<rparr>)))"

record session_summary =
  sySession :: ident
  syTitle :: string
  syLatest :: string
  syReadiness :: "requirement_readiness option"
  syUpdatedAt :: string

text \<open>A session without a message is not joined.\<close>

definition sessionSummary :: "conversation_db \<Rightarrow> conv_session_row \<Rightarrow> session_summary list" where
  "sessionSummary d s =
     (case latestBy msOrdinal (filter (\<lambda>m. msSession m = seId s) (convMessages d)) of
        None \<Rightarrow> []
      | Some m \<Rightarrow> [\<lparr>sySession = seId s, syTitle = seTitle s, syLatest = msText m,
          syReadiness = map_option rvReadiness
            (latestBy rvNumber (filter (\<lambda>r. rvSession r = seId s) (convRevisions d))),
          syUpdatedAt = toISOString (seUpdatedAt s)\<rparr>])"

definition listSessions :: "ident \<Rightarrow> conversation_db \<Rightarrow> conversation_error + session_summary list" where
  "listSessions owner d =
     onward (assertOpaqueId owner ''ownerUserId'') (\<lambda>_.
     Inr (take 50 (concat (map (sessionSummary d)
       (sort_key (\<lambda>s. - seUpdatedAt s) (sort_key seId (filter (\<lambda>s. seOwner s = owner) (convSessions d))))))))"

fun decodeRows :: "revision_row list \<Rightarrow> conversation_error + conv_revision list" where
  "decodeRows [] = Inr []"
| "decodeRows (r # rs) = onward (decodeRequirementRow r) (\<lambda>v. onward (decodeRows rs) (\<lambda>vs. Inr (v # vs)))"

definition listRequirementRevisions ::
    "ident \<Rightarrow> ident \<Rightarrow> conversation_db \<Rightarrow> conversation_error + conv_revision list" where
  "listRequirementRevisions owner sid d =
     onward (assertOpaqueId owner ''ownerUserId'') (\<lambda>_. onward (assertOpaqueId sid ''sessionId'') (\<lambda>_.
     decodeRows (sort_key rvNumber (filter (\<lambda>r. rvSession r = sid
       \<and> list_ex (\<lambda>s. seId s = rvSession r \<and> seOwner s = owner) (convSessions d)) (convRevisions d)))))"

section \<open>The requirement\<close>

record requirement =
  rqGoal :: "string option"
  rqScenario :: "string option"
  rqConstraints :: "string list option"
  rqMissing :: "missing_key list"
  rqReadiness :: requirement_readiness

definition missingOf :: "string option \<Rightarrow> string option \<Rightarrow> string list option \<Rightarrow> missing_key list" where
  "missingOf g s c = (if g = None then [CONSUMPTION_GOAL] else []) @ (if s = None then [PRIMARY_SCENARIO] else [])
     @ (if c = None then [HARD_CONSTRAINTS] else [])"

text \<open>A given field is normalised; an absent one keeps the previous revision's value.\<close>

definition mergeField ::
    "('b \<Rightarrow> conversation_error + 'b) \<Rightarrow> (conv_revision \<Rightarrow> 'b option) \<Rightarrow> conv_revision option
     \<Rightarrow> 'b option \<Rightarrow> conversation_error + 'b option" where
  "mergeField f old prev u = (case u of None \<Rightarrow> Inr (Option.bind prev old) | Some b \<Rightarrow> whenGiven f (Some b))"

definition mergeRequirement ::
    "conv_revision option \<Rightarrow> requirement_update \<Rightarrow> conversation_error + requirement" where
  "mergeRequirement prev u =
     onward (mergeField (\<lambda>s. normalizeText s ''consumptionGoal'') rrGoal prev (upGoal u)) (\<lambda>g.
     onward (mergeField (\<lambda>s. normalizeText s ''primaryScenario'') rrScenario prev (upScenario u)) (\<lambda>s.
     onward (mergeField (\<lambda>ss. normalizeTexts ss ''hardConstraints'') rrConstraints prev (upConstraints u)) (\<lambda>c.
     Inr \<lparr>rqGoal = g, rqScenario = s, rqConstraints = c, rqMissing = missingOf g s c,
       rqReadiness = (if missingOf g s c = [] then READY_FOR_RESEARCH else NEEDS_CLARIFICATION)\<rparr>)))"

definition sameStrings :: "string list option \<Rightarrow> string list option \<Rightarrow> bool" where
  "sameStrings l r = (case (l, r) of
      (None, None) \<Rightarrow> True
    | (Some ls, Some rs) \<Rightarrow> length ls = length rs \<and> list_all (\<lambda>(x, y). x = y) (zip ls rs)
    | _ \<Rightarrow> False)"

definition requirementChanged :: "conv_revision option \<Rightarrow> requirement \<Rightarrow> bool" where
  "requirementChanged prev n = (case prev of
      None \<Rightarrow> True
    | Some p \<Rightarrow> rrGoal p \<noteq> rqGoal n \<or> rrScenario p \<noteq> rqScenario n \<or> \<not> sameStrings (rrConstraints p) (rqConstraints n))"

definition ASK_GOAL :: string where "ASK_GOAL = ''First tell me, which consumption problem do you want to solve this time?''"
definition ASK_SCENARIO :: string where "ASK_SCENARIO = ''In which scenario is it mainly used? Name the most frequent, most important one.''"
definition ASK_CONSTRAINTS :: string where "ASK_CONSTRAINTS = ''Which conditions, once unmet, rule it out for you? If there are none, tell me so.''"
definition ENOUGH :: string where "ENOUGH = ''The key information suffices, bounded research can start. You may still add preferences or a budget.''"
definition NEW_TITLE :: string where "NEW_TITLE = ''New consumption decision''"

definition clarificationMessage :: "missing_key list \<Rightarrow> string" where
  "clarificationMessage ks =
     (if CONSUMPTION_GOAL \<in> set ks then ASK_GOAL
      else if PRIMARY_SCENARIO \<in> set ks then ASK_SCENARIO
      else if HARD_CONSTRAINTS \<in> set ks then ASK_CONSTRAINTS
      else ENOUGH)"

section \<open>Writing\<close>

text \<open>The constraints of \<open>conversation_messages\<close>: primary key, foreign key, checks, the two unique pairs.\<close>

definition messageAllowed :: "message_row \<Rightarrow> conversation_db \<Rightarrow> bool" where
  "messageAllowed m d \<longleftrightarrow>
     msId m \<notin> msId ` set (convMessages d) \<and> msSession m \<in> seId ` set (convSessions d)
     \<and> 0 < msOrdinal m \<and> msText m \<noteq> []
     \<and> list_all (\<lambda>k. \<not> (msSession k = msSession m \<and> msOrdinal k = msOrdinal m)) (convMessages d)
     \<and> (msTurn m = None \<or> list_all (\<lambda>k. \<not> (msSession k = msSession m \<and> msTurn k = msTurn m)) (convMessages d))"

definition insertMessage :: "message_row \<Rightarrow> conversation_db \<Rightarrow> conversation_error + conversation_db" where
  "insertMessage m d =
     (if messageAllowed m d then Inr (d\<lparr>convMessages := convMessages d @ [m]\<rparr>) else Inl CONVERSATION_ROW_REJECTED)"

definition revisionAllowed :: "revision_row \<Rightarrow> conversation_db \<Rightarrow> bool" where
  "revisionAllowed r d \<longleftrightarrow>
     rvId r \<notin> rvId ` set (convRevisions d) \<and> rvSession r \<in> seId ` set (convSessions d)
     \<and> rvMessage r \<in> msId ` set (convMessages d)
     \<and> (case rvPrevious r of None \<Rightarrow> True | Some p \<Rightarrow> p = rvId r \<or> p \<in> rvId ` set (convRevisions d))
     \<and> 0 < rvNumber r \<and> rvNumber r < 2 ^ 31
     \<and> list_all (\<lambda>k. \<not> (rvSession k = rvSession r \<and> rvNumber k = rvNumber r)) (convRevisions d)"

definition insertRevision :: "revision_row \<Rightarrow> conversation_db \<Rightarrow> conversation_error + conversation_db" where
  "insertRevision r d =
     (if revisionAllowed r d then Inr (d\<lparr>convRevisions := convRevisions d @ [r]\<rparr>) else Inl CONVERSATION_ROW_REJECTED)"

text \<open>What an operation answers at its end: the session as it is now.\<close>

definition answerSession :: "conversation_error \<Rightarrow> ident \<Rightarrow> ident \<Rightarrow> conversation_db \<Rightarrow> conversation_session conv_result" where
  "answerSession gone owner sid d =
     (case loadSession owner sid d of
        Inl e \<Rightarrow> (Inl e, d)
      | Inr None \<Rightarrow> (Inl gone, d)
      | Inr (Some s) \<Rightarrow> (Inr s, d))"

definition requestRow :: "ident \<Rightarrow> ident \<Rightarrow> conversation_db \<Rightarrow> conv_session_row option" where
  "requestRow owner req d = find (\<lambda>s. seOwner s = owner \<and> seRequest s = req) (convSessions d)"

definition newSession :: "ident \<Rightarrow> int \<Rightarrow> ident \<Rightarrow> ident \<Rightarrow> conv_session_row" where
  "newSession sid now owner req = \<lparr>seId = sid, seOwner = owner, seRequest = req, seTitle = NEW_TITLE,
     seCreatedAt = now, seUpdatedAt = now\<rparr>"

definition assistantMessage :: "ident \<Rightarrow> int \<Rightarrow> ident \<Rightarrow> ident \<Rightarrow> int \<Rightarrow> string \<Rightarrow> message_row" where
  "assistantMessage mid now owner sid n txt = \<lparr>msId = mid, msSession = sid, msOwner = owner, msTurn = None,
     msFingerprint = None, msOrdinal = n, msRole = ASSISTANT, msText = txt, msCreatedAt = now\<rparr>"

text \<open>The insertion of the session, its request not being taken.\<close>

definition insertSession ::
    "ident \<Rightarrow> ident \<Rightarrow> int \<Rightarrow> ident \<Rightarrow> ident \<Rightarrow> conversation_db \<Rightarrow> conversation_session conv_result" where
  "insertSession sid mid now owner req d =
     (if sid \<in> seId ` set (convSessions d) then (Inl CONVERSATION_ROW_REJECTED, d)
      else (case insertMessage (assistantMessage mid now owner sid 1 ASK_GOAL)
          (d\<lparr>convSessions := convSessions d @ [newSession sid now owner req]\<rparr>) of
          Inl e \<Rightarrow> (Inl e, d)
        | Inr d' \<Rightarrow> answerSession CONVERSATION_UNREADABLE owner sid d'))"

text \<open>
  \<open>race\<close> is what other connections commit between the look-up of the request and the insertion:
  \<open>ON CONFLICT (owner_user_id, client_request_id) DO NOTHING\<close> then finds their session.
\<close>

definition createSession ::
    "(conversation_db \<Rightarrow> conversation_db) \<Rightarrow> ident \<Rightarrow> ident \<Rightarrow> int \<Rightarrow> ident \<Rightarrow> ident
     \<Rightarrow> conversation_db \<Rightarrow> conversation_session conv_result" where
  "createSession race sid mid now owner req d =
     (case onward (assertOpaqueId owner ''ownerUserId'') (\<lambda>_. assertOpaqueId req ''clientRequestId'') of
        Inl e \<Rightarrow> (Inl e, d)
      | Inr _ \<Rightarrow>
          (case requestRow owner req d of
             Some s \<Rightarrow> answerSession CONVERSATION_UNREADABLE owner (seId s) d
           | None \<Rightarrow>
               (case requestRow owner req (race d) of
                  Some s \<Rightarrow> answerSession CONVERSATION_UNREADABLE owner (seId s) (race d)
                | None \<Rightarrow> insertSession sid mid now owner req (race d))))"

section \<open>A turn of the user\<close>

text \<open>The random uuids of the user's message, the revision and the reply.\<close>

record turn_ids =
  tiUser :: ident
  tiRevision :: ident
  tiReply :: ident

definition checkedTurn :: "user_turn \<Rightarrow> conversation_error + string \<times> requirement_update" where
  "checkedTurn t =
     onward (assertOpaqueId (utOwner t) ''ownerUserId'') (\<lambda>_.
     onward (assertOpaqueId (utTurn t) ''clientTurnId'') (\<lambda>_.
     onward (assertOpaqueId (utSession t) ''sessionId'') (\<lambda>_.
     onward (normalizeText (utText t) ''text'') (\<lambda>txt.
     onward (normalizeRequirementUpdate (utUpdate t)) (\<lambda>u. Inr (txt, u))))))"

definition userOrdinal :: "ident \<Rightarrow> conversation_db \<Rightarrow> int" where
  "userOrdinal sid d =
     (case latestBy msOrdinal (filter (\<lambda>m. msSession m = sid) (convMessages d)) of None \<Rightarrow> 0 | Some m \<Rightarrow> msOrdinal m) + 1"

definition userMessage ::
    "conversation_env \<Rightarrow> ident \<Rightarrow> int \<Rightarrow> user_turn \<Rightarrow> int \<Rightarrow> string \<Rightarrow> requirement_update \<Rightarrow> message_row" where
  "userMessage env mid now t n txt u = \<lparr>msId = mid, msSession = utSession t, msOwner = utOwner t,
     msTurn = Some (utTurn t), msFingerprint = Some (fingerprintUserTurn env txt u), msOrdinal = n, msRole = USER,
     msText = txt, msCreatedAt = now\<rparr>"

definition emptyUpdate :: "requirement_update \<Rightarrow> bool" where
  "emptyUpdate u \<longleftrightarrow> upGoal u = None \<and> upScenario u = None \<and> upConstraints u = None"

definition newRevision ::
    "turn_ids \<Rightarrow> int \<Rightarrow> user_turn \<Rightarrow> conv_revision option \<Rightarrow> requirement \<Rightarrow> revision_row" where
  "newRevision ids now t prev n = \<lparr>rvId = tiRevision ids, rvSession = utSession t, rvOwner = utOwner t,
     rvMessage = tiUser ids, rvPrevious = map_option rrId prev,
     rvNumber = (case prev of None \<Rightarrow> 0 | Some p \<Rightarrow> rrNumber p) + 1, rvGoal = rqGoal n, rvScenario = rqScenario n,
     rvConstraints = map_option stringArray (rqConstraints n),
     rvMissing = stringArray (map missingKeyText (rqMissing n)), rvReadiness = rqReadiness n, rvCreatedAt = now\<rparr>"

definition touchSession :: "int \<Rightarrow> user_turn \<Rightarrow> requirement_update \<Rightarrow> conversation_db \<Rightarrow> conversation_db" where
  "touchSession now t u d = d\<lparr>convSessions := map (\<lambda>s. if seId s = utSession t \<and> seOwner s = utOwner t
     then s\<lparr>seTitle := (case upGoal u of None \<Rightarrow> seTitle s | Some g \<Rightarrow> g), seUpdatedAt := now\<rparr> else s) (convSessions d)\<rparr>"

definition writeTurn ::
    "conversation_env \<Rightarrow> turn_ids \<Rightarrow> int \<Rightarrow> user_turn \<Rightarrow> string \<Rightarrow> requirement_update \<Rightarrow> conversation_db
     \<Rightarrow> conversation_error + conversation_db" where
  "writeTurn env ids now t txt u d =
     (let sid = utSession t; n = userOrdinal sid d in
      onward (insertMessage (userMessage env (tiUser ids) now t n txt u) d) (\<lambda>d1.
      onward (loadLatestRequirement sid d1) (\<lambda>prev.
      onward (mergeRequirement prev u) (\<lambda>nextReq.
      onward (if \<not> emptyUpdate u \<and> requirementChanged prev nextReq
              then insertRevision (newRevision ids now t prev nextReq) d1 else Inr d1) (\<lambda>d2.
      onward (insertMessage (assistantMessage (tiReply ids) now (utOwner t) sid (n + 1)
                (clarificationMessage (rqMissing nextReq))) d2) (\<lambda>d3.
      Inr (touchSession now t u d3)))))))"

definition turnMessage :: "user_turn \<Rightarrow> conversation_db \<Rightarrow> message_row option" where
  "turnMessage t d = find (\<lambda>m. msSession m = utSession t \<and> msTurn m = Some (utTurn t)) (convMessages d)"

definition appendUserTurn ::
    "conversation_env \<Rightarrow> turn_ids \<Rightarrow> int \<Rightarrow> user_turn \<Rightarrow> conversation_db \<Rightarrow> conversation_session conv_result" where
  "appendUserTurn env ids now t d =
     (case checkedTurn t of
        Inl e \<Rightarrow> (Inl e, d)
      | Inr (txt, u) \<Rightarrow>
          if sessionRow (utOwner t) (utSession t) d = None then (Inl CONVERSATION_NOT_FOUND, d)
          else (case turnMessage t d of
              Some m \<Rightarrow>
                if msFingerprint m \<noteq> Some (fingerprintUserTurn env txt u)
                then (Inl (CONVERSATION_IDEMPOTENCY_CONFLICT (utTurn t)), d)
                else answerSession CONVERSATION_UNREADABLE (utOwner t) (utSession t) d
            | None \<Rightarrow>
                (case writeTurn env ids now t txt u d of
                   Inl e \<Rightarrow> (Inl e, d)
                 | Inr d' \<Rightarrow> answerSession CONVERSATION_UNREADABLE (utOwner t) (utSession t) d')))"

section \<open>Linking and purging\<close>

text \<open>Only the pair of session and task is a conflict that does nothing; the task alone is unique as well.\<close>

definition linkDecisionTask ::
    "int \<Rightarrow> ident \<Rightarrow> ident \<Rightarrow> ident \<Rightarrow> conversation_db \<Rightarrow> conversation_session conv_result" where
  "linkDecisionTask now owner sid task d =
     (case onward (assertOpaqueId owner ''ownerUserId'') (\<lambda>_. onward (assertOpaqueId sid ''sessionId'') (\<lambda>_.
          assertOpaqueId task ''decisionTaskId'')) of
        Inl e \<Rightarrow> (Inl e, d)
      | Inr _ \<Rightarrow>
          if sessionRow owner sid d = None \<or> list_ex (\<lambda>l. tlSession l = sid \<and> tlTask l = task) (convLinks d)
          then (if list_ex (\<lambda>l. tlSession l = sid \<and> tlOwner l = owner \<and> tlTask l = task) (convLinks d)
                then answerSession CONVERSATION_NOT_FOUND owner sid d
                else (Inl CONVERSATION_NOT_FOUND, d))
          else if list_ex (\<lambda>l. tlTask l = task) (convLinks d) then (Inl CONVERSATION_ROW_REJECTED, d)
          else answerSession CONVERSATION_NOT_FOUND owner sid
            (d\<lparr>convLinks := convLinks d @ [\<lparr>tlSession = sid, tlOwner = owner, tlTask = task, tlLinkedAt = now\<rparr>]\<rparr>))"

text \<open>
  The rows of a session go with it; a revision that stays must not refer to a message or a revision that goes.
\<close>

definition purgeConversations :: "ident \<Rightarrow> conversation_db \<Rightarrow> nat conv_result" where
  "purgeConversations owner d =
     (case assertOpaqueId owner ''ownerUserId'' of
        Inl e \<Rightarrow> (Inl e, d)
      | Inr _ \<Rightarrow>
          (let gone = seId ` set (filter (\<lambda>s. seOwner s = owner) (convSessions d));
               msgs = filter (\<lambda>m. msSession m \<notin> gone) (convMessages d);
               revs = filter (\<lambda>r. rvSession r \<notin> gone) (convRevisions d)
           in if list_all (\<lambda>r. rvMessage r \<in> msId ` set msgs
                   \<and> (case rvPrevious r of None \<Rightarrow> True | Some p \<Rightarrow> p \<in> rvId ` set revs)) revs
              then (Inr (length (filter (\<lambda>s. seOwner s = owner) (convSessions d))),
                d\<lparr>convSessions := filter (\<lambda>s. seOwner s \<noteq> owner) (convSessions d), convMessages := msgs,
                  convRevisions := revs, convLinks := filter (\<lambda>l. tlSession l \<notin> gone) (convLinks d)\<rparr>)
              else (Inl CONVERSATION_ROW_REJECTED, d)))"

end
