(* ===== verification/CM_Conversation_Facts.thy ===== *)
theory CM_Conversation_Facts
  imports CM_Conversation
begin

text \<open>
  What a conversation is, apart from its tables: the list of the owner's turns. The transcript, the current
  requirement and the title are functions of that list, and every reachable database represents the turns that
  were accepted (\<open>represents\<close>, preserved by each operation together with \<open>convInv\<close>, the structure of the
  tables: gapless ordinals and revision numbers, one owner per session, no row without its session).
\<close>

section \<open>Normal input\<close>

lemma dropWhile_twice [simp]: "dropWhile P (dropWhile P xs) = dropWhile P xs"
  by (induction xs) auto

lemma trim_parts:
  "trim s = [] \<or> (\<not> isWhitespace (hd (trim s)) \<and> \<not> isWhitespace (last (trim s)))"
proof (cases "trim s = []")
  case False
  define a where "a = dropWhile isWhitespace s"
  define b where "b = dropWhile isWhitespace (rev a)"
  have t: "trim s = rev b" by (simp add: trim_def a_def b_def)
  with False have b: "b \<noteq> []" by simp
  then have hb: "\<not> isWhitespace (hd b)" unfolding b_def by (simp add: hd_dropWhile)
  have "a \<noteq> []" using b by (auto simp: b_def)
  then have ha: "\<not> isWhitespace (hd a)" unfolding a_def by (simp add: hd_dropWhile)
  have "rev a = takeWhile isWhitespace (rev a) @ b" by (simp add: b_def)
  then have "last b = last (rev a)" using b by (metis last_appendR)
  also have "\<dots> = hd a" by (metis hd_rev rev_rev_ident)
  finally show ?thesis using hb ha b t by (simp add: hd_rev last_rev)
qed simp

lemma trim_Nil [simp]: "trim [] = []"
  by (simp add: trim_def)

lemma trim_trim [simp]: "trim (trim s) = trim s"
proof (cases "trim s = []")
  case False
  with trim_parts [of s] have h: "\<not> isWhitespace (hd (trim s))" and l: "\<not> isWhitespace (last (trim s))" by auto
  have "dropWhile isWhitespace (trim s) = trim s" using h False by (cases "trim s") auto
  moreover have "dropWhile isWhitespace (rev (trim s)) = rev (trim s)"
    using l False by (cases "rev (trim s)") (auto simp flip: hd_rev)
  ultimately show ?thesis by (subst trim_def) simp
qed simp

lemma normalizeText_Inr_iff: "normalizeText s field = Inr n \<longleftrightarrow> n = trim s \<and> n \<noteq> [] \<and> length n \<le> 2000"
  by (auto simp: normalizeText_def Let_def)

lemma normalizeText_twice: "normalizeText s f = Inr n \<Longrightarrow> normalizeText n g = Inr n"
  by (auto simp: normalizeText_Inr_iff)

lemma normalizeTexts_twice: "normalizeTexts ss f = Inr ns \<Longrightarrow> normalizeTexts ns g = Inr ns"
  by (induction ss arbitrary: ns) (auto simp: onward_Inr_iff normalizeText_twice)

lemma whenGiven_twice:
  "whenGiven (\<lambda>s. normalizeText s f) x = Inr y \<Longrightarrow> whenGiven (\<lambda>s. normalizeText s f) y = Inr y"
  "whenGiven (\<lambda>ss. normalizeTexts ss f) z = Inr w \<Longrightarrow> whenGiven (\<lambda>ss. normalizeTexts ss f) w = Inr w"
  by (cases x; auto simp: onward_Inr_iff normalizeText_twice)
     (cases z; auto simp: onward_Inr_iff normalizeTexts_twice)

text \<open>The three parts of a requirement, and how an update changes them.\<close>

type_synonym contents = "string option \<times> string option \<times> string list option"

definition blank :: contents where
  "blank = (None, None, None)"

definition given :: "'a option \<Rightarrow> 'a option \<Rightarrow> 'a option" where
  "given new old = (case new of None \<Rightarrow> old | Some a \<Rightarrow> Some a)"

lemma given_simps [simp]: "given None old = old" "given (Some a) old = Some a"
  by (simp_all add: given_def)

fun applyUpdate :: "requirement_update \<Rightarrow> contents \<Rightarrow> contents" where
  "applyUpdate u (g, s, c) = (given (upGoal u) g, given (upScenario u) s, given (upConstraints u) c)"

fun requirementOf :: "contents \<Rightarrow> requirement" where
  "requirementOf (g, s, c) = \<lparr>rqGoal = g, rqScenario = s, rqConstraints = c, rqMissing = missingOf g s c,
     rqReadiness = (if missingOf g s c = [] then READY_FOR_RESEARCH else NEEDS_CLARIFICATION)\<rparr>"

fun contentsOf :: "conv_revision option \<Rightarrow> contents" where
  "contentsOf None = blank"
| "contentsOf (Some v) = (rrGoal v, rrScenario v, rrConstraints v)"

lemma applyUpdate_empty: "emptyUpdate u \<Longrightarrow> applyUpdate u k = k"
  by (cases k) (simp add: emptyUpdate_def)

lemma applyUpdate_blank_iff: "applyUpdate u k = blank \<longleftrightarrow> emptyUpdate u \<and> k = blank"
  by (cases k; cases "upGoal u"; cases "upScenario u"; cases "upConstraints u")
     (auto simp: emptyUpdate_def blank_def)

definition normalUpdate :: "requirement_update \<Rightarrow> bool" where
  "normalUpdate u \<longleftrightarrow> normalizeRequirementUpdate u = Inr u"

lemma normalizeRequirementUpdate_normal:
  assumes "normalizeRequirementUpdate u0 = Inr u"
  shows "normalUpdate u"
  using assms by (auto simp: normalUpdate_def normalizeRequirementUpdate_def onward_Inr_iff intro: whenGiven_twice)

lemma mergeField_given:
  "whenGiven f u = Inr u \<Longrightarrow> mergeField f old prev u = Inr (given u (Option.bind prev old))"
  by (cases u) (auto simp: mergeField_def onward_Inr_iff)

lemma mergeRequirement_apply:
  assumes "normalUpdate u"
  shows "mergeRequirement prev u = Inr (requirementOf (applyUpdate u (contentsOf prev)))"
proof -
  from assms have g: "whenGiven (\<lambda>s. normalizeText s ''consumptionGoal'') (upGoal u) = Inr (upGoal u)"
    and s: "whenGiven (\<lambda>s. normalizeText s ''primaryScenario'') (upScenario u) = Inr (upScenario u)"
    and c: "whenGiven (\<lambda>ss. normalizeTexts ss ''hardConstraints'') (upConstraints u) = Inr (upConstraints u)"
    by (auto simp: normalUpdate_def normalizeRequirementUpdate_def onward_Inr_iff)
  show ?thesis unfolding mergeRequirement_def mergeField_given [OF g] mergeField_given [OF s] mergeField_given [OF c]
    by (cases prev) (simp_all add: blank_def)
qed

lemma sameStrings_iff: "sameStrings l r \<longleftrightarrow> l = r"
proof -
  have "length xs = length ys \<and> list_all (\<lambda>(x, y). x = y) (zip xs ys) \<longleftrightarrow> xs = ys" for xs ys :: "string list"
    by (induction xs ys rule: list_induct2') auto
  then show ?thesis by (simp add: sameStrings_def split: option.splits)
qed

lemma requirementChanged_iff: "requirementChanged prev (requirementOf k) \<longleftrightarrow> prev = None \<or> contentsOf prev \<noteq> k"
  by (cases k; cases prev) (auto simp: requirementChanged_def sameStrings_iff)

section \<open>Stored revisions\<close>

lemma stringItems_JStr [simp]: "stringItems (map JStr ss) = Some ss"
  by (induction ss) auto

lemma decodeStringArray_stringArray [simp]: "decodeStringArray (stringArray ss) = Some ss"
  by (simp add: decodeStringArray_def stringArray_def)

lemma missingKeyOf_text [simp]: "missingKeyOf (missingKeyText k) = Some k"
  by (cases k) (simp_all add: missingKeyOf_def missingKeyText_def)

lemma missingKeys_texts [simp]: "missingKeys (map missingKeyText ks) = Some ks"
  by (induction ks) auto

lemma decodeNullableArray_stored [simp]: "decodeNullableArray (map_option stringArray c) = Some c"
  by (cases c) (auto simp: decodeNullableArray_def stringArray_def decodeStringArray_def)

text \<open>The row was written by a turn that left these contents.\<close>

fun stores :: "revision_row \<Rightarrow> contents \<Rightarrow> bool" where
  "stores r (g, s, c) \<longleftrightarrow> rvGoal r = g \<and> rvScenario r = s \<and> rvConstraints r = map_option stringArray c
     \<and> rvMissing r = stringArray (map missingKeyText (missingOf g s c))
     \<and> rvReadiness r = (if missingOf g s c = [] then READY_FOR_RESEARCH else NEEDS_CLARIFICATION)"

definition wellStored :: "revision_row \<Rightarrow> bool" where
  "wellStored r \<longleftrightarrow> (\<exists>k. stores r k)"

lemma stores_wellStored: "stores r k \<Longrightarrow> wellStored r"
  unfolding wellStored_def by (rule exI)

lemma newRevision_stores [simp]: "stores (newRevision ids now t prev (requirementOf k)) k"
  by (cases k) (simp add: newRevision_def)

fun revisionOf :: "revision_row \<Rightarrow> contents \<Rightarrow> conv_revision" where
  "revisionOf r (g, s, c) = \<lparr>rrId = rvId r, rrNumber = rvNumber r, rrGoal = g, rrScenario = s, rrConstraints = c,
     rrMissing = missingOf g s c,
     rrReadiness = (if missingOf g s c = [] then READY_FOR_RESEARCH else NEEDS_CLARIFICATION),
     rrCreatedAt = toISOString (rvCreatedAt r)\<rparr>"

lemma decodeRequirementRow_stored: "stores r k \<Longrightarrow> decodeRequirementRow r = Inr (revisionOf r k)"
  by (cases k) (simp add: decodeRequirementRow_def decodeMissingKeys_def)

lemma contentsOf_revisionOf [simp]: "contentsOf (Some (revisionOf r k)) = k"
  by (cases k) simp

lemma revisionOf_simps [simp]:
  "rrId (revisionOf r k) = rvId r" "rrNumber (revisionOf r k) = rvNumber r"
  by (cases k, simp)+

section \<open>Rows in order\<close>

definition numbered :: "('a \<Rightarrow> int) \<Rightarrow> 'a list \<Rightarrow> bool" where
  "numbered f xs \<longleftrightarrow> map f xs = map int [1..<Suc (length xs)]"

lemma numbered_Nil [simp]: "numbered f []"
  by (simp add: numbered_def)

lemma numbered_snoc [simp]: "numbered f (xs @ [x]) \<longleftrightarrow> numbered f xs \<and> f x = int (length xs) + 1"
  by (auto simp: numbered_def)

lemma numbered_pair [simp]:
  "numbered f (xs @ [x, y]) \<longleftrightarrow> numbered f xs \<and> f x = int (length xs) + 1 \<and> f y = int (length xs) + 2"
  using numbered_snoc [of f "xs @ [x]" y] by auto

lemma numbered_single [simp]: "numbered f [x] \<longleftrightarrow> f x = 1"
  by (simp add: numbered_def)

lemma numbered_sort: "numbered f xs \<Longrightarrow> sort_key f xs = xs"
proof (rule sort_key_id_if_sorted)
  assume "numbered f xs"
  then have "map f xs = map int [1..<Suc (length xs)]" by (simp only: numbered_def)
  moreover have "sorted (map int [1..<Suc (length xs)])" by (rule sorted_map_mono) (auto intro: mono_onI simp del: upt_Suc)
  ultimately show "sorted (map f xs)" by simp
qed

lemma numbered_latest: "numbered f xs \<Longrightarrow> latestBy f xs = (if xs = [] then None else Some (last xs))"
  by (cases xs rule: rev_cases) (simp_all add: latestBy_def numbered_sort)

lemma numbered_last: "numbered f xs \<Longrightarrow> xs \<noteq> [] \<Longrightarrow> f (last xs) = int (length xs)"
  by (cases xs rule: rev_cases) simp_all

lemma numbered_bound: "numbered f xs \<Longrightarrow> x \<in> set xs \<Longrightarrow> 0 < f x \<and> f x \<le> int (length xs)"
proof (induction xs rule: rev_induct)
  case (snoc y xs)
  then show ?case by fastforce
qed simp

text \<open>Each revision names the one before it.\<close>

fun chain :: "ident option \<Rightarrow> revision_row list \<Rightarrow> bool" where
  "chain p [] = True"
| "chain p (r # rs) \<longleftrightarrow> rvPrevious r = p \<and> chain (Some (rvId r)) rs"

lemma chain_snoc [simp]:
  "chain p (rs @ [r]) \<longleftrightarrow> chain p rs \<and> rvPrevious r = (if rs = [] then p else Some (rvId (last rs)))"
  by (induction rs arbitrary: p) auto

section \<open>The invariant\<close>

definition msgsOf :: "ident \<Rightarrow> conversation_db \<Rightarrow> message_row list" where
  "msgsOf sid d = filter (\<lambda>m. msSession m = sid) (convMessages d)"

definition revsOf :: "ident \<Rightarrow> conversation_db \<Rightarrow> revision_row list" where
  "revsOf sid d = filter (\<lambda>r. rvSession r = sid) (convRevisions d)"

definition rowOf :: "ident \<Rightarrow> conversation_db \<Rightarrow> conv_session_row option" where
  "rowOf sid d = find (\<lambda>s. seId s = sid) (convSessions d)"

definition sessionInv :: "conversation_db \<Rightarrow> conv_session_row \<Rightarrow> bool" where
  "sessionInv d s \<longleftrightarrow>
     numbered msOrdinal (msgsOf (seId s) d) \<and> numbered rvNumber (revsOf (seId s) d) \<and> chain None (revsOf (seId s) d)
     \<and> (\<forall>m \<in> set (msgsOf (seId s) d). msOwner m = seOwner s)
     \<and> (\<forall>r \<in> set (revsOf (seId s) d). rvOwner r = seOwner s \<and> rvMessage r \<in> msId ` set (msgsOf (seId s) d)
          \<and> wellStored r)"

definition sessionKeys :: "conversation_db \<Rightarrow> bool" where
  "sessionKeys d \<longleftrightarrow> distinct (map seId (convSessions d))
     \<and> distinct (map (\<lambda>s. (seOwner s, seRequest s)) (convSessions d))"

definition rowsOwned :: "conversation_db \<Rightarrow> bool" where
  "rowsOwned d \<longleftrightarrow>
     msSession ` set (convMessages d) \<union> rvSession ` set (convRevisions d) \<subseteq> seId ` set (convSessions d)
     \<and> (\<lambda>l. (tlSession l, tlOwner l)) ` set (convLinks d) \<subseteq> (\<lambda>s. (seId s, seOwner s)) ` set (convSessions d)"

definition rowKeys :: "conversation_db \<Rightarrow> bool" where
  "rowKeys d \<longleftrightarrow> distinct (map msId (convMessages d)) \<and> distinct (map rvId (convRevisions d))
     \<and> distinct (map tlTask (convLinks d))"

definition convInv :: "conversation_db \<Rightarrow> bool" where
  "convInv d \<longleftrightarrow> sessionKeys d \<and> rowsOwned d \<and> rowKeys d \<and> (\<forall>s \<in> set (convSessions d). sessionInv d s)"

lemma convInv_empty [simp]: "convInv emptyConversation"
  by (simp add: convInv_def emptyConversation_def sessionKeys_def rowsOwned_def rowKeys_def)

lemma rowOf_Some_iff: "sessionKeys d \<Longrightarrow> rowOf sid d = Some s \<longleftrightarrow> s \<in> set (convSessions d) \<and> seId s = sid"
  by (auto simp: rowOf_def sessionKeys_def find_Some_iff in_set_conv_nth distinct_conv_nth)

lemma rowOf_None_iff: "rowOf sid d = None \<longleftrightarrow> sid \<notin> seId ` set (convSessions d)"
  by (auto simp: rowOf_def find_None_iff)

lemma sessionRow_rowOf:
  assumes "sessionKeys d"
  shows "sessionRow owner sid d = (case rowOf sid d of None \<Rightarrow> None | Some s \<Rightarrow> if seOwner s = owner then Some s else None)"
proof (cases "sessionRow owner sid d")
  case None
  then have "\<forall>s \<in> set (convSessions d). \<not> (seId s = sid \<and> seOwner s = owner)"
    by (auto simp: sessionRow_def find_None_iff)
  then show ?thesis using None rowOf_Some_iff [OF assms] by (auto split: option.split)
next
  case (Some s)
  then have "s \<in> set (convSessions d)" "seId s = sid" "seOwner s = owner"
    by (auto simp: sessionRow_def find_Some_iff)
  then have "rowOf sid d = Some s" using rowOf_Some_iff [OF assms] by simp
  then show ?thesis using Some \<open>seOwner s = owner\<close> by simp
qed

text \<open>A look at a session sees its row, its messages and its revisions, and nothing else.\<close>

lemma sessionInv_cong:
  "seId s' = seId s \<Longrightarrow> seOwner s' = seOwner s \<Longrightarrow> msgsOf (seId s) d' = msgsOf (seId s) d
   \<Longrightarrow> revsOf (seId s) d' = revsOf (seId s) d \<Longrightarrow> sessionInv d' s' = sessionInv d s"
  by (simp add: sessionInv_def)

section \<open>Sessions as lists of turns\<close>

record session_spec =
  spOwner :: ident
  spRequest :: ident
  spTurns :: "(ident \<times> string \<times> requirement_update) list"

definition contentsAfter :: "(ident \<times> string \<times> requirement_update) list \<Rightarrow> contents" where
  "contentsAfter ts = fold (\<lambda>(_, _, u). applyUpdate u) ts blank"

definition requirementAfter ::
    "(ident \<times> string \<times> requirement_update) list \<Rightarrow> (contents \<times> missing_key list \<times> requirement_readiness) option" where
  "requirementAfter ts =
     (let k = contentsAfter ts in
      if k = blank then None else Some (k, rqMissing (requirementOf k), rqReadiness (requirementOf k)))"

text \<open>Each turn is answered by the question for the first part still missing after it.\<close>

fun replies :: "contents \<Rightarrow> (ident \<times> string \<times> requirement_update) list \<Rightarrow> (message_role \<times> string) list" where
  "replies k [] = []"
| "replies k ((_, txt, u) # ts) =
     (USER, txt) # (ASSISTANT, clarificationMessage (rqMissing (requirementOf (applyUpdate u k)))) # replies (applyUpdate u k) ts"

definition transcript :: "(ident \<times> string \<times> requirement_update) list \<Rightarrow> (message_role \<times> string) list" where
  "transcript ts = (ASSISTANT, ASK_GOAL) # replies blank ts"

definition titleAfter :: "(ident \<times> string \<times> requirement_update) list \<Rightarrow> string" where
  "titleAfter ts = fold (\<lambda>(_, _, u) old. case upGoal u of None \<Rightarrow> old | Some g \<Rightarrow> g) ts NEW_TITLE"

lemma contentsAfter_snoc [simp]: "contentsAfter (ts @ [(t, txt, u)]) = applyUpdate u (contentsAfter ts)"
  by (simp add: contentsAfter_def)

lemma titleAfter_snoc [simp]:
  "titleAfter (ts @ [(t, txt, u)]) = (case upGoal u of None \<Rightarrow> titleAfter ts | Some g \<Rightarrow> g)"
  by (simp add: titleAfter_def split: option.split)

lemma replies_snoc:
  "replies k (ts @ [(t, txt, u)]) = replies k ts @ [(USER, txt),
     (ASSISTANT, clarificationMessage (rqMissing (requirementOf (applyUpdate u (fold (\<lambda>(_, _, u). applyUpdate u) ts k)))))]"
  by (induction k ts rule: replies.induct) simp_all

lemma transcript_snoc [simp]:
  "transcript (ts @ [(t, txt, u)]) = transcript ts @ [(USER, txt),
     (ASSISTANT, clarificationMessage (rqMissing (requirementOf (applyUpdate u (contentsAfter ts)))))]"
  by (simp add: transcript_def replies_snoc contentsAfter_def)

lemma after_nothing [simp]:
  "contentsAfter [] = blank" "titleAfter [] = NEW_TITLE" "transcript [] = [(ASSISTANT, ASK_GOAL)]"
  by (simp_all add: contentsAfter_def titleAfter_def transcript_def)

definition turnKeys :: "message_row list \<Rightarrow> (ident \<times> string option) list" where
  "turnKeys ms = concat (map (\<lambda>m. case msTurn m of None \<Rightarrow> [] | Some t \<Rightarrow> [(t, msFingerprint m)]) ms)"

lemma turnKeys_simps [simp]:
  "turnKeys [] = []" "turnKeys (ms @ ns) = turnKeys ms @ turnKeys ns"
  "turnKeys (m # ms) = (case msTurn m of None \<Rightarrow> [] | Some t \<Rightarrow> [(t, msFingerprint m)]) @ turnKeys ms"
  by (simp_all add: turnKeys_def)

definition specKeys :: "conversation_env \<Rightarrow> session_spec \<Rightarrow> (ident \<times> string option) list" where
  "specKeys env x = map (\<lambda>(t, txt, u). (t, Some (fingerprintUserTurn env txt u))) (spTurns x)"

text \<open>The row and the tables tell of these turns.\<close>

definition tells :: "conversation_env \<Rightarrow> conversation_db \<Rightarrow> conv_session_row \<Rightarrow> session_spec \<Rightarrow> bool" where
  "tells env d s x \<longleftrightarrow>
     seOwner s = spOwner x \<and> seRequest s = spRequest x \<and> seTitle s = titleAfter (spTurns x)
     \<and> map (\<lambda>m. (msRole m, msText m)) (msgsOf (seId s) d) = transcript (spTurns x)
     \<and> turnKeys (msgsOf (seId s) d) = specKeys env x
     \<and> (if revsOf (seId s) d = [] then contentsAfter (spTurns x) = blank
        else contentsAfter (spTurns x) \<noteq> blank \<and> stores (last (revsOf (seId s) d)) (contentsAfter (spTurns x)))"

lemma tells_cong:
  "msgsOf (seId s) d' = msgsOf (seId s) d \<Longrightarrow> revsOf (seId s) d' = revsOf (seId s) d \<Longrightarrow> tells env d' s x = tells env d s x"
  by (simp add: tells_def)

type_synonym conversation_spec = "ident \<Rightarrow> session_spec option"

definition represents :: "conversation_env \<Rightarrow> conversation_db \<Rightarrow> conversation_spec \<Rightarrow> bool" where
  "represents env d sp \<longleftrightarrow> convInv d \<and> (\<forall>sid. rel_option (tells env d) (rowOf sid d) (sp sid))"

lemma represents_empty [simp]: "represents env emptyConversation (\<lambda>_. None)"
  by (simp add: represents_def rowOf_def) (simp add: emptyConversation_def)

end
