(* ===== verification/CM_Conversation_Steps.thy ===== *)
theory CM_Conversation_Steps
  imports CM_Conversation_Facts
begin

text \<open>
  Each operation on the tables is the operation on lists of turns: \<open>specCreate\<close>, \<open>specTurn\<close> and \<open>specPurge\<close>.
\<close>

section \<open>Extending one session\<close>

definition extendSession ::
    "ident \<Rightarrow> (conv_session_row \<Rightarrow> conv_session_row) \<Rightarrow> message_row list \<Rightarrow> revision_row list
     \<Rightarrow> conversation_db \<Rightarrow> conversation_db" where
  "extendSession sid f ms rs d = d\<lparr>convSessions := map (\<lambda>s. if seId s = sid then f s else s) (convSessions d),
     convMessages := convMessages d @ ms, convRevisions := convRevisions d @ rs\<rparr>"

lemma msgsOf_extend:
  "\<forall>m \<in> set ms. msSession m = sid \<Longrightarrow> msgsOf k (extendSession sid f ms rs d) = msgsOf k d @ (if k = sid then ms else [])"
  by (auto simp: msgsOf_def extendSession_def filter_empty_conv)

lemma revsOf_extend:
  "\<forall>r \<in> set rs. rvSession r = sid \<Longrightarrow> revsOf k (extendSession sid f ms rs d) = revsOf k d @ (if k = sid then rs else [])"
  by (auto simp: revsOf_def extendSession_def filter_empty_conv)

lemma find_map_if:
  "(\<And>x. g (f x) = g x) \<Longrightarrow> find (\<lambda>x. g x = k) (map (\<lambda>x. if g x = a then f x else x) xs) =
     map_option (\<lambda>x. if g x = a then f x else x) (find (\<lambda>x. g x = k) xs)"
  by (induction xs) auto

lemma rowOf_extend:
  "(\<And>s. seId (f s) = seId s) \<Longrightarrow> rowOf k (extendSession sid f ms rs d) =
     map_option (\<lambda>s. if k = sid then f s else s) (rowOf k d)"
  unfolding rowOf_def extendSession_def
  by (simp add: find_map_if) (auto intro!: option.map_cong0 simp: find_Some_iff split: option.split)

lemma sessions_extend:
  assumes "\<And>s. seId (f s) = seId s" "\<And>s. seOwner (f s) = seOwner s" "\<And>s. seRequest (f s) = seRequest s"
  shows "map seId (convSessions (extendSession sid f ms rs d)) = map seId (convSessions d)"
    "map (\<lambda>s. (seOwner s, seRequest s)) (convSessions (extendSession sid f ms rs d)) = map (\<lambda>s. (seOwner s, seRequest s)) (convSessions d)"
    "map (\<lambda>s. (seId s, seOwner s)) (convSessions (extendSession sid f ms rs d)) = map (\<lambda>s. (seId s, seOwner s)) (convSessions d)"
  using assms by (simp_all add: extendSession_def)

lemma extend_represents:
  assumes rep: "represents env d sp" and row: "rowOf sid d = Some s"
    and f: "\<And>s. seId (f s) = seId s" "\<And>s. seOwner (f s) = seOwner s" "\<And>s. seRequest (f s) = seRequest s"
    and ms: "\<forall>m \<in> set ms. msSession m = sid" and rs: "\<forall>r \<in> set rs. rvSession r = sid"
    and keys: "rowKeys (extendSession sid f ms rs d)"
    and inv: "sessionInv (extendSession sid f ms rs d) (f s)" and told: "tells env (extendSession sid f ms rs d) (f s) x"
  shows "represents env (extendSession sid f ms rs d) (sp(sid \<mapsto> x))"
proof -
  let ?d = "extendSession sid f ms rs d"
  from rep have ci: "convInv d" and rel: "\<And>k. rel_option (tells env d) (rowOf k d) (sp k)"
    by (auto simp: represents_def)
  from ci have sk: "sessionKeys d" by (simp add: convInv_def)
  have s: "s \<in> set (convSessions d)" "seId s = sid" using row rowOf_Some_iff [OF sk] by auto
  have keys': "sessionKeys ?d" using sk sessions_extend [OF f] by (simp add: sessionKeys_def)
  have sids: "seId ` set (convSessions ?d) = seId ` set (convSessions d)"
    and sows: "(\<lambda>s. (seId s, seOwner s)) ` set (convSessions ?d) = (\<lambda>s. (seId s, seOwner s)) ` set (convSessions d)"
    using arg_cong [OF sessions_extend(1) [of f sid ms rs d, OF f], of set]
      arg_cong [OF sessions_extend(3) [of f sid ms rs d, OF f], of set] by simp_all
  have "rowsOwned ?d"
    using ci ms rs s unfolding rowsOwned_def sids sows by (auto simp: extendSession_def convInv_def rowsOwned_def)
  moreover have "sessionInv ?d t" if "t \<in> set (convSessions ?d)" for t
  proof (cases "seId t = sid")
    case True
    then have "rowOf sid ?d = Some t" using that by (subst rowOf_Some_iff [OF keys']) simp
    then have "t = f s" using row by (simp add: rowOf_extend f)
    then show ?thesis using inv by simp
  next
    case False
    then have "t \<in> set (convSessions d)" using that f(1) by (auto simp: extendSession_def split: if_splits)
    then have "sessionInv d t" using ci by (simp add: convInv_def)
    moreover have "sessionInv ?d t = sessionInv d t"
      using False by (intro sessionInv_cong) (simp_all add: msgsOf_extend ms revsOf_extend rs)
    ultimately show ?thesis by simp
  qed
  ultimately have "convInv ?d" using keys keys' by (simp add: convInv_def)
  moreover have "rel_option (tells env ?d) (rowOf k ?d) ((sp(sid \<mapsto> x)) k)" for k
  proof (cases "k = sid")
    case True
    then show ?thesis using row told by (simp add: rowOf_extend f)
  next
    case False
    have "tells env ?d t y = tells env d t y" if "rowOf k d = Some t" for t y
      using that False rowOf_Some_iff [OF sk] by (intro tells_cong) (auto simp: msgsOf_extend ms revsOf_extend rs)
    then show ?thesis using rel [of k] False by (auto simp: rowOf_extend f option_rel_Some1 elim!: option.rel_cases)
  qed
  ultimately show ?thesis by (simp add: represents_def)
qed

section \<open>What a turn writes\<close>

lemma representsD:
  assumes "represents env d sp" and "rowOf sid d = Some s"
  obtains x where "sp sid = Some x" and "tells env d s x" and "sessionInv d s" and "seId s = sid"
    and "s \<in> set (convSessions d)"
proof -
  from assms have ci: "convInv d" and "rel_option (tells env d) (Some s) (sp sid)"
    unfolding represents_def by metis+
  then obtain x where x: "sp sid = Some x" "tells env d s x" by (cases "sp sid") auto
  have "s \<in> set (convSessions d)" "seId s = sid"
    using assms(2) rowOf_Some_iff [of d sid s] ci by (auto simp: convInv_def)
  then show ?thesis using that x ci by (simp add: convInv_def)
qed

definition latestOf :: "ident \<Rightarrow> contents \<Rightarrow> conversation_db \<Rightarrow> conv_revision option" where
  "latestOf sid k d = (if revsOf sid d = [] then None else Some (revisionOf (last (revsOf sid d)) k))"

lemma loadLatest_tells:
  assumes "sessionInv d s" and "tells env d s x"
  shows "loadLatestRequirement (seId s) d = Inr (latestOf (seId s) (contentsAfter (spTurns x)) d)"
  using assms unfolding loadLatestRequirement_def latestOf_def revsOf_def [symmetric]
  by (auto simp: sessionInv_def tells_def numbered_latest decodeRequirementRow_stored split: if_splits)

lemma latestOf_tells:
  assumes "tells env d s x"
  shows "contentsOf (latestOf (seId s) (contentsAfter (spTurns x)) d) = contentsAfter (spTurns x)"
    and "latestOf (seId s) (contentsAfter (spTurns x)) d = None \<longleftrightarrow> contentsAfter (spTurns x) = blank"
  using assms by (auto simp: latestOf_def tells_def simp del: contentsOf.simps(2) split: if_splits)

lemma latestOf_numbers:
  assumes "sessionInv d s"
  shows "(case latestOf (seId s) k d of None \<Rightarrow> 0 | Some p \<Rightarrow> rrNumber p) = int (length (revsOf (seId s) d))"
    and "map_option rrId (latestOf (seId s) k d) = (if revsOf (seId s) d = [] then None else Some (rvId (last (revsOf (seId s) d))))"
  using assms by (auto simp: latestOf_def sessionInv_def numbered_last)

lemma userOrdinal_length: "sessionInv d s \<Longrightarrow> userOrdinal (seId s) d = int (length (msgsOf (seId s) d)) + 1"
  unfolding userOrdinal_def msgsOf_def [symmetric] by (auto simp: sessionInv_def numbered_latest numbered_last)

definition retitle :: "int \<Rightarrow> requirement_update \<Rightarrow> conv_session_row \<Rightarrow> conv_session_row" where
  "retitle now u s = s\<lparr>seTitle := (case upGoal u of None \<Rightarrow> seTitle s | Some g \<Rightarrow> g), seUpdatedAt := now\<rparr>"

lemma retitle_simps [simp]:
  "seId (retitle now u s) = seId s" "seOwner (retitle now u s) = seOwner s" "seRequest (retitle now u s) = seRequest s"
  "seTitle (retitle now u s) = (case upGoal u of None \<Rightarrow> seTitle s | Some g \<Rightarrow> g)"
  by (simp_all add: retitle_def)

text \<open>The revision of a turn that changes the contents, and the two messages.\<close>

definition turnRevisions ::
    "turn_ids \<Rightarrow> int \<Rightarrow> user_turn \<Rightarrow> requirement_update \<Rightarrow> contents \<Rightarrow> conversation_db \<Rightarrow> revision_row list" where
  "turnRevisions ids now t u k d = (if applyUpdate u k = k then []
     else [newRevision ids now t (latestOf (utSession t) k d) (requirementOf (applyUpdate u k))])"

definition turnUser :: "conversation_env \<Rightarrow> turn_ids \<Rightarrow> int \<Rightarrow> user_turn \<Rightarrow> string \<Rightarrow> requirement_update \<Rightarrow> conversation_db \<Rightarrow> message_row" where
  "turnUser env ids now t txt u d =
     userMessage env (tiUser ids) now t (int (length (msgsOf (utSession t) d)) + 1) txt u"

definition turnReply :: "turn_ids \<Rightarrow> int \<Rightarrow> user_turn \<Rightarrow> requirement_update \<Rightarrow> contents \<Rightarrow> conversation_db \<Rightarrow> message_row" where
  "turnReply ids now t u k d =
     assistantMessage (tiReply ids) now (utOwner t) (utSession t) (int (length (msgsOf (utSession t) d)) + 1 + 1)
       (clarificationMessage (rqMissing (requirementOf (applyUpdate u k))))"

definition turnWritten ::
    "conversation_env \<Rightarrow> turn_ids \<Rightarrow> int \<Rightarrow> user_turn \<Rightarrow> string \<Rightarrow> requirement_update \<Rightarrow> contents
     \<Rightarrow> conversation_db \<Rightarrow> conversation_db" where
  "turnWritten env ids now t txt u k d = extendSession (utSession t) (retitle now u)
     [turnUser env ids now t txt u d, turnReply ids now t u k d] (turnRevisions ids now t u k d) d"

definition turnAllowed ::
    "conversation_env \<Rightarrow> turn_ids \<Rightarrow> int \<Rightarrow> user_turn \<Rightarrow> string \<Rightarrow> requirement_update \<Rightarrow> contents
     \<Rightarrow> conversation_db \<Rightarrow> bool" where
  "turnAllowed env ids now t txt u k d \<longleftrightarrow>
     (let d1 = d\<lparr>convMessages := convMessages d @ [turnUser env ids now t txt u d]\<rparr>;
          d2 = d1\<lparr>convRevisions := convRevisions d1 @ turnRevisions ids now t u k d\<rparr>
      in messageAllowed (turnUser env ids now t txt u d) d
         \<and> list_all (\<lambda>r. revisionAllowed r d1) (turnRevisions ids now t u k d)
         \<and> messageAllowed (turnReply ids now t u k d) d2)"

lemma touchSession_extend:
  assumes "sessionKeys d" and "rowOf (utSession t) d = Some s" and "seOwner s = utOwner t"
    and "convSessions d' = convSessions d"
  shows "touchSession now t u d' = extendSession (utSession t) (retitle now u) [] [] d'"
proof -
  have "seOwner r = utOwner t" if "r \<in> set (convSessions d)" "seId r = utSession t" for r
  proof -
    have "rowOf (utSession t) d = Some r" using that by (subst rowOf_Some_iff [OF assms(1)]) simp
    then show ?thesis using assms(2,3) by simp
  qed
  then have "map (\<lambda>s. if seId s = utSession t \<and> seOwner s = utOwner t
        then s\<lparr>seTitle := (case upGoal u of None \<Rightarrow> seTitle s | Some g \<Rightarrow> g), seUpdatedAt := now\<rparr> else s) (convSessions d)
      = map (\<lambda>s. if seId s = utSession t then retitle now u s else s) (convSessions d)"
    by (intro map_cong refl) (simp add: retitle_def)
  then show ?thesis by (simp add: touchSession_def extendSession_def assms(4))
qed

lemma writeTurn_eq:
  assumes rep: "represents env d sp" and row: "rowOf (utSession t) d = Some s" and owner: "seOwner s = utOwner t"
    and x: "sp (utSession t) = Some x" and u: "normalUpdate u"
  shows "writeTurn env ids now t txt u d =
     (if turnAllowed env ids now t txt u (contentsAfter (spTurns x)) d
      then Inr (turnWritten env ids now t txt u (contentsAfter (spTurns x)) d) else Inl CONVERSATION_ROW_REJECTED)"
proof -
  let ?k = "contentsAfter (spTurns x)"
  obtain told: "tells env d s x" and inv: "sessionInv d s" and sid: "seId s = utSession t"
    using representsD [OF rep row] x by auto
  from rep have sk: "sessionKeys d" by (simp add: represents_def convInv_def)
  have ord: "userOrdinal (utSession t) d = int (length (msgsOf (utSession t) d)) + 1"
    using userOrdinal_length [OF inv] sid by simp
  have load: "loadLatestRequirement (utSession t) (d\<lparr>convMessages := ms\<rparr>) = Inr (latestOf (utSession t) ?k d)" for ms
    using loadLatest_tells [OF inv told] sid by (simp add: loadLatestRequirement_def)
  have merged: "mergeRequirement (latestOf (utSession t) ?k d) u = Inr (requirementOf (applyUpdate u ?k))"
    using mergeRequirement_apply [OF u] latestOf_tells(1) [OF told] sid by simp
  have changed: "\<not> emptyUpdate u \<and> requirementChanged (latestOf (utSession t) ?k d) (requirementOf (applyUpdate u ?k))
      \<longleftrightarrow> applyUpdate u ?k \<noteq> ?k"
    using latestOf_tells [OF told] sid applyUpdate_blank_iff [of u ?k] applyUpdate_empty [of u ?k]
    by (auto simp: requirementChanged_iff)
  have n: "userMessage env (tiUser ids) now t (int (length (msgsOf (utSession t) d)) + 1) txt u = turnUser env ids now t txt u d"
    "assistantMessage (tiReply ids) now (utOwner t) (utSession t) (int (length (msgsOf (utSession t) d)) + 1 + 1)
       (clarificationMessage (rqMissing (requirementOf (applyUpdate u ?k)))) = turnReply ids now t u ?k d"
    by (simp_all add: turnUser_def turnReply_def)
  have w: "(if \<not> emptyUpdate u \<and> requirementChanged (latestOf (utSession t) ?k d) (requirementOf (applyUpdate u ?k))
        then insertRevision (newRevision ids now t (latestOf (utSession t) ?k d) (requirementOf (applyUpdate u ?k))) e else Inr e)
      = (if list_all (\<lambda>r. revisionAllowed r e) (turnRevisions ids now t u ?k d)
         then Inr (e\<lparr>convRevisions := convRevisions e @ turnRevisions ids now t u ?k d\<rparr>) else Inl CONVERSATION_ROW_REJECTED)"
    for e
    unfolding changed by (simp add: turnRevisions_def insertRevision_def del: requirementOf.simps)
  have touch: "touchSession now t u (d\<lparr>convMessages := ms, convRevisions := rs\<rparr>)
      = extendSession (utSession t) (retitle now u) [] [] (d\<lparr>convMessages := ms, convRevisions := rs\<rparr>)" for ms rs
    by (rule touchSession_extend [OF sk row owner]) simp
  have sw: "x\<lparr>convRevisions := rs, convMessages := ms\<rparr> = x\<lparr>convMessages := ms, convRevisions := rs\<rparr>"
    for x :: conversation_db and rs ms by simp
  show ?thesis
    unfolding writeTurn_def Let_def ord n insertMessage_def turnAllowed_def
    by (cases "messageAllowed (turnUser env ids now t txt u d) d")
       (simp_all only: if_True if_False onward.simps load merged n w,
        auto simp: sw touch turnWritten_def extendSession_def)
qed

lemma turn_row_simps [simp]:
  "msSession (turnUser env ids now t txt u d) = utSession t" "msOwner (turnUser env ids now t txt u d) = utOwner t"
  "msOrdinal (turnUser env ids now t txt u d) = int (length (msgsOf (utSession t) d)) + 1"
  "msRole (turnUser env ids now t txt u d) = USER" "msText (turnUser env ids now t txt u d) = txt"
  "msTurn (turnUser env ids now t txt u d) = Some (utTurn t)" "msId (turnUser env ids now t txt u d) = tiUser ids"
  "msFingerprint (turnUser env ids now t txt u d) = Some (fingerprintUserTurn env txt u)"
  "msSession (turnReply ids now t u k d) = utSession t" "msOwner (turnReply ids now t u k d) = utOwner t"
  "msOrdinal (turnReply ids now t u k d) = int (length (msgsOf (utSession t) d)) + 2"
  "msRole (turnReply ids now t u k d) = ASSISTANT" "msTurn (turnReply ids now t u k d) = None"
  "msText (turnReply ids now t u k d) = clarificationMessage (rqMissing (requirementOf (applyUpdate u k)))"
  "msId (turnReply ids now t u k d) = tiReply ids"
  by (simp_all add: turnUser_def userMessage_def turnReply_def assistantMessage_def)

lemma newRevision_simps [simp]:
  "rvSession (newRevision ids now t prev n) = utSession t" "rvOwner (newRevision ids now t prev n) = utOwner t"
  "rvMessage (newRevision ids now t prev n) = tiUser ids" "rvId (newRevision ids now t prev n) = tiRevision ids"
  by (simp_all add: newRevision_def)

lemma turnRevisions_in:
  assumes "r \<in> set (turnRevisions ids now t u k d)"
  shows "rvSession r = utSession t \<and> rvOwner r = utOwner t \<and> rvMessage r = tiUser ids \<and> rvId r = tiRevision ids
     \<and> stores r (applyUpdate u k) \<and> wellStored r"
proof -
  let ?r = "newRevision ids now t (latestOf (utSession t) k d) (requirementOf (applyUpdate u k))"
  from assms have "r = ?r" by (simp add: turnRevisions_def split: if_splits)
  moreover have "stores ?r (applyUpdate u k)" by (rule newRevision_stores)
  moreover from this have "wellStored ?r" by (rule stores_wellStored)
  ultimately show ?thesis by simp
qed

lemma turnAllowedD:
  assumes "turnAllowed env ids now t txt u k d"
  shows "tiUser ids \<notin> msId ` set (convMessages d)" and "tiReply ids \<notin> insert (tiUser ids) (msId ` set (convMessages d))"
    and "turnRevisions ids now t u k d \<noteq> [] \<Longrightarrow> tiRevision ids \<notin> rvId ` set (convRevisions d)"
proof -
  from assms show "tiUser ids \<notin> msId ` set (convMessages d)"
    and "tiReply ids \<notin> insert (tiUser ids) (msId ` set (convMessages d))"
    by (simp_all add: turnAllowed_def Let_def messageAllowed_def)
  assume "turnRevisions ids now t u k d \<noteq> []"
  then obtain r where "r \<in> set (turnRevisions ids now t u k d)" by (meson list.set_sel(1))
  moreover have "rvId r \<notin> rvId ` set (convRevisions d)"
    using assms calculation by (simp add: turnAllowed_def Let_def list_all_iff revisionAllowed_def)
  ultimately show "tiRevision ids \<notin> rvId ` set (convRevisions d)" using turnRevisions_in [of r ids now t u k d] by simp
qed

lemma turnWritten_keys:
  assumes "rowKeys d" and "turnAllowed env ids now t txt u k d"
  shows "rowKeys (turnWritten env ids now t txt u k d)"
proof -
  have "distinct (map rvId (convRevisions d @ turnRevisions ids now t u k d))"
    using assms(1) turnAllowedD(3) [OF assms(2)]
    by (auto simp: rowKeys_def turnRevisions_def newRevision_def simp del: requirementOf.simps)
  then show ?thesis
    using assms(1) turnAllowedD(1,2) [OF assms(2)] by (auto simp: rowKeys_def turnWritten_def extendSession_def)
qed

lemma turnWritten_session:
  assumes told: "tells env d s x" and inv: "sessionInv d s" and sid: "seId s = utSession t" and owner: "seOwner s = utOwner t"
  shows "sessionInv (turnWritten env ids now t txt u (contentsAfter (spTurns x)) d) (retitle now u s)"
    and "tells env (turnWritten env ids now t txt u (contentsAfter (spTurns x)) d) (retitle now u s)
      (x\<lparr>spTurns := spTurns x @ [(utTurn t, txt, u)]\<rparr>)"
proof -
  let ?k = "contentsAfter (spTurns x)" and ?d = "turnWritten env ids now t txt u (contentsAfter (spTurns x)) d"
  let ?rs = "turnRevisions ids now t u ?k d"
  have ms: "msgsOf (utSession t) ?d = msgsOf (utSession t) d @ [turnUser env ids now t txt u d, turnReply ids now t u ?k d]"
    unfolding turnWritten_def by (subst msgsOf_extend) simp_all
  have rs: "revsOf (utSession t) ?d = revsOf (utSession t) d @ ?rs"
    unfolding turnWritten_def by (subst revsOf_extend) (auto dest: turnRevisions_in)
  have number: "numbered rvNumber (revsOf (utSession t) d @ ?rs)" "chain None (revsOf (utSession t) d @ ?rs)"
    using inv latestOf_numbers [OF inv] sid
    by (simp_all add: turnRevisions_def newRevision_def sessionInv_def del: requirementOf.simps)
  show "sessionInv ?d (retitle now u s)"
    using inv number owner turnRevisions_in [of _ ids now t u ?k d] unfolding sessionInv_def retitle_simps sid ms rs
    by (auto simp: image_iff simp del: stores.simps)
  have last: "stores (last (revsOf (utSession t) d @ ?rs)) (applyUpdate u ?k)" if "revsOf (utSession t) d @ ?rs \<noteq> []"
    using told that sid turnRevisions_in [of _ ids now t u ?k d]
    by (auto simp: tells_def turnRevisions_def split: if_splits)
  have "applyUpdate u ?k = blank \<longleftrightarrow> revsOf (utSession t) d @ ?rs = []"
    using told sid applyUpdate_blank_iff [of u ?k] applyUpdate_empty [of u ?k]
    by (auto simp: tells_def turnRevisions_def split: if_splits)
  then show "tells env ?d (retitle now u s) (x\<lparr>spTurns := spTurns x @ [(utTurn t, txt, u)]\<rparr>)"
    using told last unfolding tells_def retitle_simps sid ms rs by (auto simp: specKeys_def split: option.split)
qed

lemma turnWritten_represents:
  assumes rep: "represents env d sp" and row: "rowOf (utSession t) d = Some s" and owner: "seOwner s = utOwner t"
    and x: "sp (utSession t) = Some x" and ok: "turnAllowed env ids now t txt u (contentsAfter (spTurns x)) d"
  shows "represents env (turnWritten env ids now t txt u (contentsAfter (spTurns x)) d)
     (sp(utSession t \<mapsto> x\<lparr>spTurns := spTurns x @ [(utTurn t, txt, u)]\<rparr>))"
proof -
  obtain told: "tells env d s x" and inv: "sessionInv d s" and sid: "seId s = utSession t"
    using representsD [OF rep row] x by auto
  have "rowKeys d" using rep by (simp add: represents_def convInv_def)
  from turnWritten_keys [OF this ok] turnWritten_session [OF told inv sid owner]
  show ?thesis unfolding turnWritten_def
    by (intro extend_represents [OF rep row]) (auto dest: turnRevisions_in)
qed

section \<open>What a reader sees\<close>

type_synonym session_view =
  "string \<times> (int \<times> message_role \<times> string) list \<times> (contents \<times> missing_key list \<times> requirement_readiness) option"

definition viewOf :: "conversation_session \<Rightarrow> session_view" where
  "viewOf cs = (csTitle cs, map (\<lambda>m. (cmOrdinal m, cmRole m, cmText m)) (csMessages cs),
     map_option (\<lambda>v. (contentsOf (Some v), rrMissing v, rrReadiness v)) (csRequirement cs))"

definition specView :: "session_spec \<Rightarrow> session_view" where
  "specView x = (titleAfter (spTurns x),
     zip (map int [1..<Suc (length (transcript (spTurns x)))]) (transcript (spTurns x)), requirementAfter (spTurns x))"

definition specSession :: "ident \<Rightarrow> ident \<Rightarrow> conversation_spec \<Rightarrow> session_view option" where
  "specSession owner sid sp =
     (case sp sid of None \<Rightarrow> None | Some x \<Rightarrow> if spOwner x = owner then Some (specView x) else None)"

lemma sessionMessages_tells:
  assumes "sessionInv d s" and "seOwner s = owner"
  shows "sessionMessages owner (seId s) d = msgsOf (seId s) d"
proof -
  have "filter (\<lambda>m. msSession m = seId s \<and> msOwner m = owner) (convMessages d) = msgsOf (seId s) d"
    using assms unfolding msgsOf_def sessionInv_def by (intro filter_cong) auto
  then show ?thesis using assms by (simp add: sessionMessages_def sessionInv_def numbered_sort)
qed

lemma view_requirement:
  assumes "tells env d s x"
  shows "map_option (\<lambda>v. (contentsOf (Some v), rrMissing v, rrReadiness v)) (latestOf (seId s) (contentsAfter (spTurns x)) d)
    = requirementAfter (spTurns x)"
  using assms by (cases "contentsAfter (spTurns x)") (auto simp: latestOf_def requirementAfter_def tells_def Let_def)

lemma view_messages:
  assumes "sessionInv d s" and "tells env d s x"
  shows "map (\<lambda>m. (msOrdinal m, msRole m, msText m)) (msgsOf (seId s) d) =
    zip (map int [1..<Suc (length (transcript (spTurns x)))]) (transcript (spTurns x))"
proof -
  have t: "map (\<lambda>m. (msRole m, msText m)) (msgsOf (seId s) d) = transcript (spTurns x)" using assms(2) by (simp add: tells_def)
  then have l: "length (transcript (spTurns x)) = length (msgsOf (seId s) d)" by (metis length_map)
  have n: "map msOrdinal (msgsOf (seId s) d) = map int [1..<Suc (length (msgsOf (seId s) d))]"
    using assms(1) unfolding sessionInv_def numbered_def by simp
  have "map (\<lambda>m. (msOrdinal m, msRole m, msText m)) ms = zip (map msOrdinal ms) (map (\<lambda>m. (msRole m, msText m)) ms)" for ms
    by (induction ms) auto
  from this [of "msgsOf (seId s) d"] show ?thesis unfolding l n t .
qed

lemma seen:
  assumes rep: "represents env d sp"
    and none: "sessionRow owner sid d = None \<Longrightarrow> specSession owner sid sp = None \<Longrightarrow> P"
    and some: "\<And>s x. sessionRow owner sid d = Some s \<Longrightarrow> rowOf sid d = Some s \<Longrightarrow> sp sid = Some x \<Longrightarrow>
      spOwner x = owner \<Longrightarrow> seOwner s = owner \<Longrightarrow> tells env d s x \<Longrightarrow> sessionInv d s \<Longrightarrow> seId s = sid \<Longrightarrow>
      s \<in> set (convSessions d) \<Longrightarrow> P"
  shows P
proof (cases "rowOf sid d")
  case None
  then have "sp sid = None" using rep by (metis represents_def rel_option_None1)
  then show ?thesis using none None sessionRow_rowOf [of d owner sid] rep
    by (simp add: specSession_def represents_def convInv_def)
next
  case (Some s)
  obtain x where x: "sp sid = Some x" "tells env d s x" "sessionInv d s" "seId s = sid" "s \<in> set (convSessions d)"
    using representsD [OF rep Some] by metis
  have row: "sessionRow owner sid d = (if seOwner s = owner then Some s else None)"
    using sessionRow_rowOf [of d owner sid] rep Some by (simp add: represents_def convInv_def)
  have own: "seOwner s = spOwner x" using x by (simp add: tells_def)
  show ?thesis
  proof (cases "seOwner s = owner")
    case True
    then show ?thesis using some row Some x own by simp
  next
    case False
    then show ?thesis using none row x own by (simp add: specSession_def)
  qed
qed

theorem loadSession_spec:
  assumes "represents env d sp"
  shows "map_sum id (map_option viewOf) (loadSession owner sid d) = Inr (specSession owner sid sp)"
proof (rule seen [OF assms, of owner sid])
  assume "sessionRow owner sid d = None" "specSession owner sid sp = None"
  then show ?thesis by (simp add: loadSession_def)
next
  fix s x
  assume row: "sessionRow owner sid d = Some s" and x: "sp sid = Some x" "spOwner x = owner" "seOwner s = owner"
    and told: "tells env d s x" and inv: "sessionInv d s" and sid: "seId s = sid"
  have "seTitle s = titleAfter (spTurns x)" using told by (simp add: tells_def)
  then show ?thesis
    using row loadLatest_tells [OF inv told] sessionMessages_tells [OF inv x(3)] view_requirement [OF told]
      view_messages [OF inv told] x sid
    by (simp add: loadSession_def specSession_def viewOf_def specView_def messageOf_def comp_def del: upt_Suc contentsOf.simps)
qed

lemma answerSession_spec:
  assumes "represents env d sp" and "specSession owner sid sp = Some v"
  shows "\<exists>cs. answerSession gone owner sid d = (Inr cs, d) \<and> viewOf cs = v"
  using loadSession_spec [OF assms(1), of owner sid] assms(2)
  by (cases "loadSession owner sid d") (auto simp: answerSession_def)

lemma answerSession_state [simp]: "snd (answerSession gone owner sid d) = d"
  by (simp add: answerSession_def split: sum.split option.split)

section \<open>Refinement\<close>

text \<open>A turn on the list: recorded when its id is new, answered again when it is the same turn.\<close>

definition recordTurn :: "user_turn \<Rightarrow> string \<Rightarrow> requirement_update \<Rightarrow> session_spec \<Rightarrow> session_spec" where
  "recordTurn t txt u x = x\<lparr>spTurns := spTurns x @ [(utTurn t, txt, u)]\<rparr>"

definition specTurn ::
    "conversation_env \<Rightarrow> user_turn \<Rightarrow> string \<Rightarrow> requirement_update \<Rightarrow> conversation_spec
     \<Rightarrow> (conversation_error + session_view) \<times> conversation_spec" where
  "specTurn env t txt u sp =
     (case sp (utSession t) of
        None \<Rightarrow> (Inl CONVERSATION_NOT_FOUND, sp)
      | Some x \<Rightarrow>
          if spOwner x \<noteq> utOwner t then (Inl CONVERSATION_NOT_FOUND, sp)
          else (case map_of (spTurns x) (utTurn t) of
              Some (txt', u') \<Rightarrow>
                if fingerprintUserTurn env txt' u' = fingerprintUserTurn env txt u then (Inr (specView x), sp)
                else (Inl (CONVERSATION_IDEMPOTENCY_CONFLICT (utTurn t)), sp)
            | None \<Rightarrow> (Inr (specView (recordTurn t txt u x)), sp(utSession t \<mapsto> recordTurn t txt u x))))"

lemma find_filter: "find (\<lambda>x. P x \<and> Q x) xs = find Q (filter P xs)"
  by (induction xs) auto

lemma find_turnKeys:
  "map_option msFingerprint (find (\<lambda>m. msTurn m = Some t) ms) = map_of (turnKeys ms) t"
  by (induction ms) (auto split: option.split)

lemma turnMessage_tells:
  assumes "tells env d s x" and "seId s = utSession t"
  shows "map_option msFingerprint (turnMessage t d) =
    map_option (\<lambda>(txt, u). Some (fingerprintUserTurn env txt u)) (map_of (spTurns x) (utTurn t))"
proof -
  have k: "map_of (map (\<lambda>(t, txt, u). (t, Some (fingerprintUserTurn env txt u))) ts) k =
      map_option (\<lambda>(txt, u). Some (fingerprintUserTurn env txt u)) (map_of ts k)" for ts k
    by (induction ts) auto
  have "map_option msFingerprint (turnMessage t d) = map_of (turnKeys (msgsOf (utSession t) d)) (utTurn t)"
    unfolding turnMessage_def find_filter msgsOf_def [symmetric] by (rule find_turnKeys)
  also have "turnKeys (msgsOf (utSession t) d) = specKeys env x" using assms by (simp add: tells_def)
  finally show ?thesis by (simp add: specKeys_def k)
qed

text \<open>The random uuids are new, and the number of revisions fits its column.\<close>

definition freshTurn :: "turn_ids \<Rightarrow> user_turn \<Rightarrow> conversation_db \<Rightarrow> bool" where
  "freshTurn ids t d \<longleftrightarrow> tiUser ids \<notin> msId ` set (convMessages d) \<and> tiReply ids \<notin> msId ` set (convMessages d)
     \<and> tiReply ids \<noteq> tiUser ids \<and> tiRevision ids \<notin> rvId ` set (convRevisions d)
     \<and> length (revsOf (utSession t) d) < 2 ^ 31 - 1"

lemma clarificationMessage_text [simp]: "clarificationMessage ks \<noteq> []"
  by (simp add: clarificationMessage_def ASK_GOAL_def ASK_SCENARIO_def ASK_CONSTRAINTS_def ENOUGH_def)

lemma ordinal_free:
  assumes "sessionInv d s" and "seId s = sid" and "int (length (msgsOf sid d)) < n"
  shows "list_all (\<lambda>k. \<not> (msSession k = sid \<and> msOrdinal k = n)) (convMessages d)"
proof -
  have "msOrdinal m \<noteq> n" if "m \<in> set (convMessages d)" "msSession m = sid" for m
    using that assms numbered_bound [of msOrdinal "msgsOf sid d" m] by (auto simp: sessionInv_def msgsOf_def)
  then show ?thesis by (auto simp: list_all_iff)
qed

lemma number_free:
  assumes "sessionInv d s" and "seId s = sid" and "int (length (revsOf sid d)) < n"
  shows "list_all (\<lambda>k. \<not> (rvSession k = sid \<and> rvNumber k = n)) (convRevisions d)"
proof -
  have "rvNumber r \<noteq> n" if "r \<in> set (convRevisions d)" "rvSession r = sid" for r
    using that assms numbered_bound [of rvNumber "revsOf sid d" r] by (auto simp: sessionInv_def revsOf_def)
  then show ?thesis by (auto simp: list_all_iff)
qed

lemma revision_allowed:
  assumes inv: "sessionInv d s" and sid: "seId s = utSession t" and mem: "s \<in> set (convSessions d)"
    and fresh: "tiRevision ids \<notin> rvId ` set (convRevisions d)" "length (revsOf (utSession t) d) < 2 ^ 31 - 1"
    and msg: "tiUser ids \<in> msId ` set ms" and r: "r \<in> set (turnRevisions ids now t u k d)"
  shows "revisionAllowed r (d\<lparr>convMessages := ms\<rparr>)"
proof -
  have "rvNumber r = int (length (revsOf (utSession t) d)) + 1"
    and "rvPrevious r = (if revsOf (utSession t) d = [] then None else Some (rvId (last (revsOf (utSession t) d))))"
    using r latestOf_numbers [OF inv, of k] sid
    by (auto simp: turnRevisions_def newRevision_def simp del: requirementOf.simps split: if_splits)
  moreover have "rvId (last (revsOf (utSession t) d)) \<in> rvId ` set (convRevisions d)" if "revsOf (utSession t) d \<noteq> []"
    using last_in_set [OF that] by (auto simp: revsOf_def)
  moreover have "utSession t \<in> seId ` set (convSessions d)" using mem sid by force
  ultimately show ?thesis
    using turnRevisions_in [OF r] fresh msg number_free [OF inv sid] by (auto simp: revisionAllowed_def)
qed

lemma freshTurn_allowed:
  assumes inv: "sessionInv d s" and sid: "seId s = utSession t" and mem: "s \<in> set (convSessions d)"
    and fresh: "freshTurn ids t d" and new: "turnMessage t d = None" and nonempty: "txt \<noteq> []"
  shows "turnAllowed env ids now t txt u k d"
proof -
  let ?um = "turnUser env ids now t txt u d" and ?am = "turnReply ids now t u k d"
  have s: "utSession t \<in> seId ` set (convSessions d)" using mem sid by force
  have "messageAllowed ?um d"
    using fresh new nonempty s ordinal_free [OF inv sid]
    by (auto simp: messageAllowed_def freshTurn_def turnMessage_def find_None_iff list_all_iff)
  moreover have "messageAllowed ?am (d\<lparr>convMessages := convMessages d @ [?um], convRevisions := rs\<rparr>)" for rs
    using fresh s ordinal_free [OF inv sid] by (simp add: messageAllowed_def freshTurn_def)
  moreover have "revisionAllowed r (d\<lparr>convMessages := convMessages d @ [?um]\<rparr>)"
    if "r \<in> set (turnRevisions ids now t u k d)" for r
    using fresh that by (intro revision_allowed [OF inv sid mem]) (auto simp: freshTurn_def)
  ultimately show ?thesis by (simp add: turnAllowed_def Let_def list_all_iff)
qed

lemma checkedTurn_normal: "checkedTurn t = Inr (txt, u) \<Longrightarrow> normalUpdate u \<and> txt \<noteq> []"
  by (auto simp: checkedTurn_def onward_Inr_iff normalizeText_Inr_iff intro: normalizeRequirementUpdate_normal)

text \<open>
  Whatever the uuids: either a constraint rejects the turn, and nothing changes, or it is the turn on the list.
\<close>

lemma appendUserTurn_spec:
  assumes rep: "represents env d sp" and ok: "checkedTurn t = Inr (txt, u)"
  shows "appendUserTurn env ids now t d = (Inl CONVERSATION_ROW_REJECTED, d) \<and> \<not> freshTurn ids t d
    \<or> (map_sum id viewOf (fst (appendUserTurn env ids now t d)) = fst (specTurn env t txt u sp)
       \<and> represents env (snd (appendUserTurn env ids now t d)) (snd (specTurn env t txt u sp)))"
proof (rule seen [OF rep, of "utOwner t" "utSession t"])
  assume "sessionRow (utOwner t) (utSession t) d = None" "specSession (utOwner t) (utSession t) sp = None"
  then show ?thesis using ok rep
    by (auto simp: appendUserTurn_def specTurn_def specSession_def split: option.splits if_splits)
next
  fix s x
  assume row: "sessionRow (utOwner t) (utSession t) d = Some s" "rowOf (utSession t) d = Some s"
    and x: "sp (utSession t) = Some x" and own: "spOwner x = utOwner t" "seOwner s = utOwner t"
    and told: "tells env d s x" and inv: "sessionInv d s" and sid: "seId s = utSession t" and mem: "s \<in> set (convSessions d)"
  from checkedTurn_normal [OF ok] have u: "normalUpdate u" and nonempty: "txt \<noteq> []" by simp_all
  show ?thesis
  proof (cases "map_of (spTurns x) (utTurn t)")
    case (Some old)
    then obtain txt' u' where old: "old = (txt', u')" by (cases old)
    from turnMessage_tells [OF told sid] Some old obtain m where m: "turnMessage t d = Some m"
      "msFingerprint m = Some (fingerprintUserTurn env txt' u')" by auto
    have "specSession (utOwner t) (utSession t) sp = Some (specView x)" using x own by (simp add: specSession_def)
    from answerSession_spec [OF rep this, of CONVERSATION_UNREADABLE] show ?thesis using ok row x own Some old m rep
      by (auto simp: appendUserTurn_def specTurn_def)
  next
    case None
    then have new: "turnMessage t d = None" using turnMessage_tells [OF told sid] by simp
    let ?k = "contentsAfter (spTurns x)" and ?sp = "sp(utSession t \<mapsto> recordTurn t txt u x)"
    have run: "appendUserTurn env ids now t d =
        (if turnAllowed env ids now t txt u ?k d
         then answerSession CONVERSATION_UNREADABLE (utOwner t) (utSession t) (turnWritten env ids now t txt u ?k d)
         else (Inl CONVERSATION_ROW_REJECTED, d))"
      using ok row new writeTurn_eq [OF rep row(2) own(2) x u] by (simp add: appendUserTurn_def)
    show ?thesis
    proof (cases "turnAllowed env ids now t txt u ?k d")
      case True
      have rep': "represents env (turnWritten env ids now t txt u ?k d) ?sp"
        using turnWritten_represents [OF rep row(2) own(2) x True] by (simp add: recordTurn_def)
      have "specSession (utOwner t) (utSession t) ?sp = Some (specView (recordTurn t txt u x))"
        using own by (simp add: specSession_def recordTurn_def)
      from answerSession_spec [OF rep' this, of CONVERSATION_UNREADABLE] show ?thesis using True run rep' x own None
        by (auto simp: specTurn_def)
    next
      case False
      then have "\<not> freshTurn ids t d" using freshTurn_allowed [OF inv sid mem _ new nonempty] by blast
      then show ?thesis using False run by simp
    qed
  qed
qed

end
