(* ===== verification/CM_Conversation_Properties.thy ===== *)
theory CM_Conversation_Properties
  imports CM_Conversation_Steps
begin

text \<open>
  The conversation as a system of steps on its tables and on the lists of turns they stand for, and what
  holds of every reachable state: a reader sees the function of the turns, a turn is taken once, what was said
  stays said, and an owner's conversations are the owner's alone until they are purged.
\<close>

section \<open>The other operations on lists of turns\<close>

definition newSpec :: "ident \<Rightarrow> ident \<Rightarrow> session_spec" where
  "newSpec owner req = \<lparr>spOwner = owner, spRequest = req, spTurns = []\<rparr>"

definition specPurge :: "ident \<Rightarrow> conversation_spec \<Rightarrow> conversation_spec" where
  "specPurge owner sp = (\<lambda>sid. case sp sid of None \<Rightarrow> None | Some x \<Rightarrow> if spOwner x = owner then None else Some x)"

lemma rows_of_missing:
  assumes "rowsOwned d" and "sid \<notin> seId ` set (convSessions d)"
  shows "msgsOf sid d = []" and "revsOf sid d = []"
  using assms by (auto simp: rowsOwned_def msgsOf_def revsOf_def filter_empty_conv)

lemma found: "find P xs = Some x \<Longrightarrow> x \<in> set xs \<and> P x"
  by (auto simp: find_Some_iff)

lemma find_appended: "find P (xs @ ys) = (case find P xs of None \<Rightarrow> find P ys | Some x \<Rightarrow> Some x)"
  by (induction xs) auto

lemma rowOf_append:
  "rowOf k (d\<lparr>convSessions := convSessions d @ [s], convMessages := ms\<rparr>) =
     (case rowOf k d of None \<Rightarrow> if seId s = k then Some s else None | Some r \<Rightarrow> Some r)"
  by (simp add: rowOf_def find_appended split: option.split)

definition withSession :: "conv_session_row \<Rightarrow> message_row \<Rightarrow> conversation_db \<Rightarrow> conversation_db" where
  "withSession s m d = d\<lparr>convSessions := convSessions d @ [s], convMessages := convMessages d @ [m]\<rparr>"

lemma withSession_represents:
  assumes rep: "represents env d sp" and new: "sid \<notin> seId ` set (convSessions d)" and req: "requestRow owner req d = None"
    and mid: "mid \<notin> msId ` set (convMessages d)"
  shows "represents env (withSession (newSession sid now owner req) (assistantMessage mid now owner sid 1 ASK_GOAL) d)
    (sp(sid \<mapsto> newSpec owner req))"
proof -
  let ?s = "newSession sid now owner req" and ?m = "assistantMessage mid now owner sid 1 ASK_GOAL"
  let ?d = "withSession ?s ?m d"
  from rep have ci: "convInv d" and rel: "\<And>k. rel_option (tells env d) (rowOf k d) (sp k)"
    by (auto simp: represents_def)
  then have sk: "sessionKeys d" and ro: "rowsOwned d" and rk: "rowKeys d" by (simp_all add: convInv_def)
  have s: "seId ?s = sid" "seOwner ?s = owner" "seRequest ?s = req" "seTitle ?s = NEW_TITLE" by (simp_all add: newSession_def)
  have m: "msSession ?m = sid" "msOwner ?m = owner" "msOrdinal ?m = 1" "msTurn ?m = None" "msRole ?m = ASSISTANT"
    "msText ?m = ASK_GOAL" "msId ?m = mid" by (simp_all add: assistantMessage_def)
  have ms: "msgsOf k ?d = msgsOf k d @ (if k = sid then [?m] else [])" for k
    using m by (simp add: msgsOf_def withSession_def)
  have rs: "revsOf k ?d = revsOf k d" for k by (simp add: revsOf_def withSession_def)
  note none = rows_of_missing [OF ro new]
  have "sessionKeys ?d"
    using sk new req s by (auto simp: sessionKeys_def withSession_def requestRow_def find_None_iff)
  moreover have "rowsOwned ?d" using ro m s by (auto simp: rowsOwned_def withSession_def)
  moreover have "rowKeys ?d" using rk m mid by (simp add: rowKeys_def withSession_def)
  moreover have "sessionInv ?d ?s" by (simp add: sessionInv_def s ms rs none m)
  moreover have "sessionInv ?d r = sessionInv d r" if "r \<in> set (convSessions d)" for r
    using that new by (intro sessionInv_cong) (auto simp: ms rs)
  ultimately have "convInv ?d" using ci by (auto simp: convInv_def withSession_def)
  moreover have "rel_option (tells env ?d) (rowOf k ?d) ((sp(sid \<mapsto> newSpec owner req)) k)" for k
  proof (cases "k = sid")
    case True
    have "tells env ?d ?s (newSpec owner req)" by (simp add: tells_def s ms rs none m newSpec_def specKeys_def)
    then show ?thesis using True new s by (simp add: withSession_def rowOf_append rowOf_None_iff [THEN iffD2])
  next
    case False
    have "tells env ?d r y = tells env d r y" if "rowOf k d = Some r" for r y
      using that False rowOf_Some_iff [OF sk] by (intro tells_cong) (auto simp: ms rs)
    moreover have "rowOf k ?d = rowOf k d" using False s by (simp add: withSession_def rowOf_append split: option.split)
    ultimately show ?thesis using rel [of k] False by (auto simp: option_rel_Some1 elim!: option.rel_cases)
  qed
  ultimately show ?thesis by (simp add: represents_def)
qed

lemma insertSession_spec:
  assumes rep: "represents env d sp" and req: "requestRow owner req d = None"
  shows "insertSession sid mid now owner req d = (Inl CONVERSATION_ROW_REJECTED, d)
    \<or> (\<exists>cs. fst (insertSession sid mid now owner req d) = Inr cs \<and> viewOf cs = specView (newSpec owner req)
       \<and> represents env (snd (insertSession sid mid now owner req d)) (sp(sid \<mapsto> newSpec owner req))
       \<and> snd (insertSession sid mid now owner req d) \<noteq> d)"
proof (cases "sid \<in> seId ` set (convSessions d)
    \<or> \<not> messageAllowed (assistantMessage mid now owner sid 1 ASK_GOAL) (d\<lparr>convSessions := convSessions d @ [newSession sid now owner req]\<rparr>)")
  case True
  then show ?thesis by (auto simp: insertSession_def insertMessage_def)
next
  case False
  let ?d = "withSession (newSession sid now owner req) (assistantMessage mid now owner sid 1 ASK_GOAL) d"
  have run: "insertSession sid mid now owner req d = answerSession CONVERSATION_UNREADABLE owner sid ?d"
    using False by (simp add: insertSession_def insertMessage_def withSession_def)
  have "mid \<notin> msId ` set (convMessages d)" using False by (auto simp: messageAllowed_def assistantMessage_def)
  then have rep': "represents env ?d (sp(sid \<mapsto> newSpec owner req))"
    using withSession_represents [OF rep _ req] False by blast
  have "specSession owner sid (sp(sid \<mapsto> newSpec owner req)) = Some (specView (newSpec owner req))"
    by (simp add: specSession_def newSpec_def)
  moreover have "?d \<noteq> d" by (auto simp: withSession_def dest: arg_cong [where f = convSessions])
  ultimately show ?thesis using answerSession_spec [OF rep', of owner sid] rep' run by (metis fst_conv snd_conv)
qed

lemma links_represents:
  assumes rep: "represents env d sp"
    and keys: "distinct (map tlTask ls)"
    and owned: "(\<lambda>l. (tlSession l, tlOwner l)) ` set ls \<subseteq> (\<lambda>s. (seId s, seOwner s)) ` set (convSessions d)"
  shows "represents env (d\<lparr>convLinks := ls\<rparr>) sp"
proof -
  have same: "msgsOf k (d\<lparr>convLinks := ls\<rparr>) = msgsOf k d" "revsOf k (d\<lparr>convLinks := ls\<rparr>) = revsOf k d"
    "rowOf k (d\<lparr>convLinks := ls\<rparr>) = rowOf k d" for k
    by (simp_all add: msgsOf_def revsOf_def rowOf_def)
  have "tells env (d\<lparr>convLinks := ls\<rparr>) = tells env d" "sessionInv (d\<lparr>convLinks := ls\<rparr>) = sessionInv d"
    by (intro ext tells_cong same sessionInv_cong refl)+
  then show ?thesis using assms
    by (simp add: represents_def convInv_def sessionKeys_def rowsOwned_def rowKeys_def same)
qed

lemma requestRow_spec:
  assumes rep: "represents env d sp" and "requestRow owner req d = Some s"
  obtains x where "sp (seId s) = Some x" and "spOwner x = owner" and "spRequest x = req"
proof -
  from assms(2) have s: "s \<in> set (convSessions d)" "seOwner s = owner" "seRequest s = req"
    by (auto simp: requestRow_def find_Some_iff)
  then have "rowOf (seId s) d = Some s" using rep rowOf_Some_iff [of d "seId s" s] by (simp add: represents_def convInv_def)
  from representsD [OF rep this] obtain x where "sp (seId s) = Some x" "tells env d s x" by metis
  then show ?thesis using that s by (simp add: tells_def)
qed

text \<open>A request that was taken is answered with its session as it is now.\<close>

lemma requestRow_answer:
  assumes rep: "represents env d sp" and row: "requestRow owner req d = Some s"
  shows "\<exists>cs x. answerSession gone owner (seId s) d = (Inr cs, d) \<and> sp (seId s) = Some x \<and> spOwner x = owner
    \<and> spRequest x = req \<and> viewOf cs = specView x"
proof -
  obtain x where x: "sp (seId s) = Some x" "spOwner x = owner" "spRequest x = req" using requestRow_spec [OF rep row] .
  then have "specSession owner (seId s) sp = Some (specView x)" by (simp add: specSession_def)
  from answerSession_spec [OF rep this] x show ?thesis by blast
qed

lemma link_state:
  assumes rep: "represents env d sp"
  shows "represents env (snd (linkDecisionTask now owner sid task d)) sp"
proof -
  let ?l = "\<lparr>tlSession = sid, tlOwner = owner, tlTask = task, tlLinkedAt = now\<rparr>"
  have "represents env (d\<lparr>convLinks := convLinks d @ [?l]\<rparr>) sp"
    if row: "sessionRow owner sid d \<noteq> None" and new: "\<not> list_ex (\<lambda>l. tlTask l = task) (convLinks d)"
  proof (rule links_represents [OF rep])
    from row obtain s where "s \<in> set (convSessions d)" "seId s = sid" "seOwner s = owner"
      by (auto simp: sessionRow_def dest: found)
    then have "(sid, owner) \<in> (\<lambda>s. (seId s, seOwner s)) ` set (convSessions d)" by force
    then show "(\<lambda>l. (tlSession l, tlOwner l)) ` set (convLinks d @ [?l]) \<subseteq> (\<lambda>s. (seId s, seOwner s)) ` set (convSessions d)"
      using rep by (simp add: represents_def convInv_def rowsOwned_def)
    show "distinct (map tlTask (convLinks d @ [?l]))"
      using rep new by (auto simp: represents_def convInv_def rowKeys_def list_ex_iff)
  qed
  then show ?thesis using rep by (simp add: linkDecisionTask_def split: sum.split)
qed

lemma link_written: "represents env d sp \<Longrightarrow> linkDecisionTask now owner sid task d = (r, d') \<Longrightarrow> represents env d' sp"
  using link_state [of env d sp now owner sid task] by simp

section \<open>Purging\<close>

definition purged :: "ident \<Rightarrow> conversation_db \<Rightarrow> conversation_db" where
  "purged owner d =
     (let gone = seId ` set (filter (\<lambda>s. seOwner s = owner) (convSessions d)) in
      d\<lparr>convSessions := filter (\<lambda>s. seOwner s \<noteq> owner) (convSessions d),
        convMessages := filter (\<lambda>m. msSession m \<notin> gone) (convMessages d),
        convRevisions := filter (\<lambda>r. rvSession r \<notin> gone) (convRevisions d),
        convLinks := filter (\<lambda>l. tlSession l \<notin> gone) (convLinks d)\<rparr>)"

lemma chain_previous: "chain p rs \<Longrightarrow> r \<in> set rs \<Longrightarrow> rvPrevious r = p \<or> (\<exists>q \<in> set rs. rvPrevious r = Some (rvId q))"
  by (induction p rs rule: chain.induct) auto

lemma revision_refers:
  assumes ci: "convInv d" and r: "r \<in> set (convRevisions d)"
  obtains m where "m \<in> set (convMessages d)" and "msId m = rvMessage r" and "msSession m = rvSession r"
    and "case rvPrevious r of None \<Rightarrow> True | Some p \<Rightarrow> \<exists>q \<in> set (convRevisions d). rvId q = p \<and> rvSession q = rvSession r"
proof -
  from ci r obtain s where s: "s \<in> set (convSessions d)" "seId s = rvSession r"
    by (auto simp: convInv_def rowsOwned_def)
  then have inv: "sessionInv d s" using ci by (simp add: convInv_def)
  have mem: "r \<in> set (revsOf (seId s) d)" using r s by (simp add: revsOf_def)
  with inv have "rvMessage r \<in> msId ` set (msgsOf (seId s) d)" by (simp add: sessionInv_def)
  moreover from inv mem have "rvPrevious r = None \<or> (\<exists>q \<in> set (revsOf (seId s) d). rvPrevious r = Some (rvId q))"
    using chain_previous [of None "revsOf (seId s) d" r] by (simp add: sessionInv_def)
  ultimately show ?thesis using that s by (fastforce simp: msgsOf_def revsOf_def split: option.split)
qed

lemma purge_run:
  assumes ci: "convInv d" and ok: "assertOpaqueId owner ''ownerUserId'' = Inr ()"
  shows "purgeConversations owner d = (Inr (length (filter (\<lambda>s. seOwner s = owner) (convSessions d))), purged owner d)"
proof -
  let ?gone = "seId ` set (filter (\<lambda>s. seOwner s = owner) (convSessions d))"
  let ?msgs = "filter (\<lambda>m. msSession m \<notin> ?gone) (convMessages d)" and ?revs = "filter (\<lambda>r. rvSession r \<notin> ?gone) (convRevisions d)"
  have "rvMessage r \<in> msId ` set ?msgs \<and> (case rvPrevious r of None \<Rightarrow> True | Some p \<Rightarrow> p \<in> rvId ` set ?revs)"
    if r: "r \<in> set ?revs" for r
  proof -
    from r have mem: "r \<in> set (convRevisions d)" and stays: "rvSession r \<notin> ?gone" by auto
    from revision_refers [OF ci mem] obtain m where m: "m \<in> set (convMessages d)" "msId m = rvMessage r" "msSession m = rvSession r"
      and p: "case rvPrevious r of None \<Rightarrow> True | Some p \<Rightarrow> \<exists>q \<in> set (convRevisions d). rvId q = p \<and> rvSession q = rvSession r"
      by metis
    have "m \<in> set ?msgs" using m stays by simp
    then have "rvMessage r \<in> msId ` set ?msgs" using m(2) by (metis image_eqI)
    moreover have "case rvPrevious r of None \<Rightarrow> True | Some p \<Rightarrow> p \<in> rvId ` set ?revs"
    proof (cases "rvPrevious r")
      case (Some p')
      with p obtain q where q: "q \<in> set (convRevisions d)" "rvId q = p'" "rvSession q = rvSession r" by auto
      then have "q \<in> set ?revs" using stays by simp
      then show ?thesis using q(2) Some by (metis image_eqI option.simps(5))
    qed simp
    ultimately show ?thesis by simp
  qed
  then have "list_all (\<lambda>r. rvMessage r \<in> msId ` set ?msgs
      \<and> (case rvPrevious r of None \<Rightarrow> True | Some p \<Rightarrow> p \<in> rvId ` set ?revs)) ?revs"
    unfolding list_all_iff by blast
  then show ?thesis using ok unfolding purgeConversations_def Let_def by (simp only: sum.simps if_True purged_def Let_def)
qed

lemma rowOf_SomeI: "sessionKeys d \<Longrightarrow> s \<in> set (convSessions d) \<Longrightarrow> rowOf (seId s) d = Some s"
  by (subst rowOf_Some_iff) simp_all

lemma purged_rows:
  "msgsOf k (purged owner d) = (if k \<in> seId ` set (filter (\<lambda>s. seOwner s = owner) (convSessions d)) then [] else msgsOf k d)"
  "revsOf k (purged owner d) = (if k \<in> seId ` set (filter (\<lambda>s. seOwner s = owner) (convSessions d)) then [] else revsOf k d)"
  by (auto simp: msgsOf_def revsOf_def purged_def Let_def filter_empty_conv intro: filter_cong)

lemma purged_represents:
  assumes rep: "represents env d sp"
  shows "represents env (purged owner d) (specPurge owner sp)"
proof -
  let ?d = "purged owner d" and ?gone = "seId ` set (filter (\<lambda>s. seOwner s = owner) (convSessions d))"
  from rep have ci: "convInv d" and rel: "\<And>k. rel_option (tells env d) (rowOf k d) (sp k)"
    by (auto simp: represents_def)
  then have sk: "sessionKeys d" and ro: "rowsOwned d" and rk: "rowKeys d" by (simp_all add: convInv_def)
  have stays: "seId s \<notin> ?gone" if "s \<in> set (convSessions d)" "seOwner s \<noteq> owner" for s
  proof
    assume "seId s \<in> ?gone"
    then obtain r where r: "r \<in> set (convSessions d)" "seOwner r = owner" and same: "seId s = seId r" by auto
    have "rowOf (seId s) d = Some r" unfolding same by (rule rowOf_SomeI [OF sk r(1)])
    moreover have "rowOf (seId s) d = Some s" by (rule rowOf_SomeI [OF sk that(1)])
    ultimately show False using r that by simp
  qed
  have sessions: "convSessions ?d = filter (\<lambda>s. seOwner s \<noteq> owner) (convSessions d)" by (simp add: purged_def Let_def)
  have sk': "sessionKeys ?d" using sk by (simp add: sessionKeys_def sessions distinct_map_filter)
  moreover have "rowKeys ?d" using rk by (simp add: rowKeys_def purged_def Let_def distinct_map_filter)
  moreover have "rowsOwned ?d"
  proof -
    have ids: "k \<in> seId ` set (convSessions ?d)" if "k \<in> seId ` set (convSessions d)" "k \<notin> ?gone" for k
      using that by (auto simp: sessions)
    have pairs: "(k, w) \<in> (\<lambda>s. (seId s, seOwner s)) ` set (convSessions ?d)"
      if "(k, w) \<in> (\<lambda>s. (seId s, seOwner s)) ` set (convSessions d)" "k \<notin> ?gone" for k w
      using that by (auto simp: sessions)
    have rows: "m \<in> set (convMessages d) \<and> msSession m \<notin> ?gone" if "m \<in> set (convMessages ?d)" for m
      using that by (simp add: purged_def Let_def)
    have revs: "r \<in> set (convRevisions d) \<and> rvSession r \<notin> ?gone" if "r \<in> set (convRevisions ?d)" for r
      using that by (simp add: purged_def Let_def)
    have links: "l \<in> set (convLinks d) \<and> tlSession l \<notin> ?gone" if "l \<in> set (convLinks ?d)" for l
      using that by (simp add: purged_def Let_def)
    note ro' = ro [unfolded rowsOwned_def Un_subset_iff image_subset_iff]
    have "msSession m \<in> seId ` set (convSessions ?d)" if "m \<in> set (convMessages ?d)" for m
      using ro' rows [OF that] by (intro ids) simp_all
    moreover have "rvSession r \<in> seId ` set (convSessions ?d)" if "r \<in> set (convRevisions ?d)" for r
      using ro' revs [OF that] by (intro ids) simp_all
    moreover have "(tlSession l, tlOwner l) \<in> (\<lambda>s. (seId s, seOwner s)) ` set (convSessions ?d)" if "l \<in> set (convLinks ?d)" for l
      using ro' links [OF that] by (intro pairs) simp_all
    ultimately show ?thesis unfolding rowsOwned_def Un_subset_iff image_subset_iff by simp
  qed
  moreover have "sessionInv ?d s" if "s \<in> set (convSessions ?d)" for s
  proof -
    from that have s: "s \<in> set (convSessions d)" "seOwner s \<noteq> owner" by (simp_all add: sessions)
    have "sessionInv ?d s = sessionInv d s"
      using stays [OF s] by (intro sessionInv_cong) (simp_all only: purged_rows if_False)
    then show ?thesis using ci s by (simp add: convInv_def)
  qed
  ultimately have "convInv ?d" by (simp add: convInv_def)
  moreover have "rel_option (tells env ?d) (rowOf k ?d) (specPurge owner sp k)" for k
  proof (cases "rowOf k d")
    case None
    then have "rowOf k ?d = None" by (auto simp: rowOf_None_iff sessions)
    moreover have "sp k = None" using rel [of k] None by simp
    ultimately show ?thesis by (simp add: specPurge_def)
  next
    case (Some s)
    obtain x where x: "sp k = Some x" "tells env d s x" "seId s = k" "s \<in> set (convSessions d)"
      using representsD [OF rep Some] by metis
    have own: "seOwner s = spOwner x" using x by (simp add: tells_def)
    show ?thesis
    proof (cases "seOwner s = owner")
      case True
      have "seOwner r = owner" if "r \<in> set (convSessions d)" "seId r = k" for r
        using Some True rowOf_Some_iff [OF sk, of k r] that by simp
      then have "rowOf k ?d = None" by (auto simp: rowOf_None_iff sessions)
      then show ?thesis using True x own by (simp add: specPurge_def)
    next
      case False
      then have "rowOf k ?d = Some s" using x by (subst rowOf_Some_iff [OF sk']) (simp add: sessions)
      moreover have "tells env ?d s x"
        using stays [OF x(4) False] x(2) by (subst tells_cong [of s _ d]) (simp_all only: purged_rows if_False)
      ultimately show ?thesis using False x own by (simp add: specPurge_def)
    qed
  qed
  ultimately show ?thesis by (simp add: represents_def)
qed

section \<open>Steps\<close>

text \<open>An operation on the tables together with what it means for the lists of turns.\<close>

type_synonym conversation_pair = "conversation_db \<times> conversation_spec"

inductive conv_step :: "conversation_env \<Rightarrow> conversation_pair \<Rightarrow> conversation_pair \<Rightarrow> bool" for env where
  create: "createSession (\<lambda>d. d) sid mid now owner req d = (r, d') \<Longrightarrow>
     conv_step env (d, sp) (d', if d' = d then sp else sp(sid \<mapsto> newSpec owner req))"
| rejected: "appendUserTurn env ids now t d = (Inl e, d') \<Longrightarrow> conv_step env (d, sp) (d', sp)"
| turn: "checkedTurn t = Inr (txt, u) \<Longrightarrow> appendUserTurn env ids now t d = (Inr cs, d') \<Longrightarrow>
     conv_step env (d, sp) (d', snd (specTurn env t txt u sp))"
| link: "linkDecisionTask now owner sid task d = (r, d') \<Longrightarrow> conv_step env (d, sp) (d', sp)"

inductive conv_system :: "conversation_env \<Rightarrow> conversation_pair \<Rightarrow> conversation_pair \<Rightarrow> bool" for env where
  step: "conv_step env p q \<Longrightarrow> conv_system env p q"
| purge: "purgeConversations owner d = (Inr n, d') \<Longrightarrow> conv_system env (d, sp) (d', specPurge owner sp)"

inductive_cases conv_stepE: "conv_step env p q"
inductive_cases conv_systemE: "conv_system env p q"

lemma create_state:
  assumes rep: "represents env d sp"
    and run: "createSession (\<lambda>d. d) sid mid now owner req d = (r, d')"
  shows "represents env d' (if d' = d then sp else sp(sid \<mapsto> newSpec owner req))"
proof (cases "requestRow owner req d")
  case None
  from insertSession_spec [OF rep None, of sid mid now] have
    "represents env (snd (insertSession sid mid now owner req d)) (if snd (insertSession sid mid now owner req d) = d then sp
       else sp(sid \<mapsto> newSpec owner req))" using rep by auto
  then show ?thesis using run None rep by (auto simp: createSession_def split: sum.splits)
next
  case (Some s)
  then have "d' = d" using run requestRow_answer [OF rep Some, of CONVERSATION_UNREADABLE]
    by (auto simp: createSession_def split: sum.splits)
  then show ?thesis using rep by simp
qed

lemma turn_rejected:
  assumes rep: "represents env d sp" and run: "appendUserTurn env ids now t d = (Inl e, d')"
  shows "represents env d' sp"
proof (cases "checkedTurn t")
  case (Inl f)
  then show ?thesis using run rep by (simp add: appendUserTurn_def)
next
  case (Inr p)
  obtain w u where p: "p = (w, u)" by (cases p)
  from appendUserTurn_spec [OF rep Inr [unfolded p], of ids now] run show ?thesis using rep
    by (auto simp: specTurn_def split: option.splits if_splits)
qed

lemma turn_taken:
  assumes rep: "represents env d sp" and "checkedTurn t = Inr (txt, u)" and run: "appendUserTurn env ids now t d = (Inr cs, d')"
  shows "represents env d' (snd (specTurn env t txt u sp))" and "Inr (viewOf cs) = fst (specTurn env t txt u sp)"
  using appendUserTurn_spec [OF rep assms(2), of ids now] run by auto

lemma step_represents:
  assumes "represents env d sp" and "conv_step env (d, sp) (d', sp')"
  shows "represents env d' sp'"
  using assms(2)
proof cases
  case (create sid mid now owner req r)
  show ?thesis unfolding create(1) by (rule create_state [OF assms(1) create(2)])
next
  case (rejected ids now t e)
  show ?thesis unfolding rejected(1) by (rule turn_rejected [OF assms(1) rejected(2)])
next
  case (turn t w u ids now cs)
  show ?thesis unfolding turn(1) by (rule turn_taken [OF assms(1) turn(2,3)])
next
  case (link now owner sid task r)
  show ?thesis unfolding link(1) by (rule link_written [OF assms(1) link(2)])
qed

interpretation conversation: step_invariant "(emptyConversation, \<lambda>_. None)" "conv_system env" "\<lambda>(d, sp). represents env d sp" for env
proof unfold_locales
  show "case (emptyConversation, \<lambda>_. None) of (d, sp) \<Rightarrow> represents env d sp" by simp
  show "case q of (d, sp) \<Rightarrow> represents env d sp"
    if "case p of (d, sp) \<Rightarrow> represents env d sp" "conv_system env p q" for p q
    using that(2,1)
  proof cases
    case step
    then show ?thesis using that(1) step_represents by (cases p; cases q) auto
  next
    case (purge owner d n d' sp)
    then have ok: "assertOpaqueId owner ''ownerUserId'' = Inr ()"
      by (auto simp: purgeConversations_def split: sum.splits)
    from purge that(1) have "convInv d" "represents env d sp" by (auto simp: represents_def)
    with purge purge_run [OF _ ok] purged_represents show ?thesis by auto
  qed
qed

section \<open>Properties\<close>

lemma reachable_represents:
  "(conv_system env)\<^sup>*\<^sup>* (emptyConversation, \<lambda>_. None) (d, sp) \<Longrightarrow> represents env d sp"
  using conversation.reachable_inv [of env "(d, sp)"] by simp

text \<open>
  C16: whatever turns, retries, links and purges have happened, a reader is shown the session that the accepted
  turns make: the greeting, then each turn with the question for the first part still missing, numbered from 1
  without a gap; the requirement that the updates add up to, in normal form and with exactly the missing parts
  and the readiness that follow; and the last goal as the title. A reader who is not the owner is shown nothing.
  In particular no stored row fails to decode.
\<close>

theorem conversation_is_its_turns:
  assumes "(conv_system env)\<^sup>*\<^sup>* (emptyConversation, \<lambda>_. None) (d, sp)"
  shows "map_sum id (map_option viewOf) (loadSession owner sid d) = Inr (specSession owner sid sp)"
  by (rule loadSession_spec [OF reachable_represents [OF assms]])

text \<open>
  C15: a user's turn on the tables is the turn on the list: with fresh uuids it answers what \<open>specTurn\<close> answers
  (not found, conflict, the unchanged session of a repeated turn, or the session with the turn and its reply),
  and leaves tables in which every reader sees the list that \<open>specTurn\<close> leaves.
\<close>

theorem append_turn_refines:
  assumes "(conv_system env)\<^sup>*\<^sup>* (emptyConversation, \<lambda>_. None) (d, sp)"
    and "checkedTurn t = Inr (w, u)" and "freshTurn ids t d"
  shows "map_sum id viewOf (fst (appendUserTurn env ids now t d)) = fst (specTurn env t w u sp)
    \<and> (\<forall>owner sid. map_sum id (map_option viewOf) (loadSession owner sid (snd (appendUserTurn env ids now t d))) =
         Inr (specSession owner sid (snd (specTurn env t w u sp))))"
  using appendUserTurn_spec [OF reachable_represents [OF assms(1)] assms(2), of ids now] assms(3) loadSession_spec
  by blast

lemma create_new:
  assumes rep: "represents env d sp" and run: "createSession (\<lambda>d. d) sid mid now owner req d = (r, d')" and "d' \<noteq> d"
  shows "sp sid = None"
proof -
  have none: "requestRow owner req d = None"
    using run \<open>d' \<noteq> d\<close> by (auto simp: createSession_def split: sum.splits option.splits dest: arg_cong [where f = snd])
  have "sid \<notin> seId ` set (convSessions d)"
    using run none \<open>d' \<noteq> d\<close> by (auto simp: createSession_def insertSession_def split: sum.splits)
  then have "rowOf sid d = None" by (simp add: rowOf_None_iff)
  then show ?thesis using rep by (metis represents_def rel_option_None1)
qed

text \<open>What the steps between purges do to one session: its owner stays, its turns only grow.\<close>

definition continues :: "session_spec \<Rightarrow> session_spec \<Rightarrow> bool" where
  "continues x y \<longleftrightarrow> spOwner y = spOwner x \<and> spRequest y = spRequest x \<and> (\<exists>ts. spTurns y = spTurns x @ ts)"

lemma continues_refl [simp]: "continues x x"
  by (simp add: continues_def)

lemma continues_trans: "continues x y \<Longrightarrow> continues y z \<Longrightarrow> continues x z"
  by (auto simp: continues_def)

lemma specTurn_continues:
  "sp sid = Some x \<Longrightarrow> \<exists>y. snd (specTurn env t w u sp) sid = Some y \<and> continues x y"
  by (auto simp: specTurn_def recordTurn_def continues_def split: option.split)

definition carries :: "conversation_env \<Rightarrow> ident \<Rightarrow> session_spec \<Rightarrow> conversation_pair \<Rightarrow> bool" where
  "carries env sid x p \<longleftrightarrow> represents env (fst p) (snd p) \<and> (\<exists>y. snd p sid = Some y \<and> continues x y)"

interpretation session_goes_on: step_stable "conv_step env" "carries env sid x" for env sid x
proof
  fix p q
  assume p: "carries env sid x p" and "conv_step env p q"
  obtain d sp where dp: "p = (d, sp)" by (cases p)
  obtain d' sp' where dq: "q = (d', sp')" by (cases q)
  from p dp obtain y where rep: "represents env d sp" and y: "sp sid = Some y" "continues x y" by (auto simp: carries_def)
  have st: "conv_step env (d, sp) (d', sp')" using \<open>conv_step env p q\<close> dp dq by simp
  have "\<exists>z. sp' sid = Some z \<and> continues y z"
    using st
  proof cases
    case (create k mid now owner req r)
    show ?thesis unfolding create(1) using create_new [OF rep create(2)] y by auto
  next
    case (turn t w u ids now cs)
    show ?thesis unfolding turn(1) by (rule specTurn_continues [of sp sid y, OF y(1)])
  qed (use y in auto)
  then show "carries env sid x q"
    using step_represents [OF rep st] y(2) dq by (auto simp: carries_def intro: continues_trans)
qed

text \<open>A turn on the list, in the tables.\<close>

lemma repeated_turn:
  assumes rep: "represents env d sp" and x: "sp (utSession t) = Some x" "spOwner x = utOwner t"
    and old: "map_of (spTurns x) (utTurn t) = Some (w0, u0)" and ok: "checkedTurn t = Inr (w, u)"
  shows "appendUserTurn env ids now t d =
    (if fingerprintUserTurn env w u = fingerprintUserTurn env w0 u0
     then answerSession CONVERSATION_UNREADABLE (utOwner t) (utSession t) d
     else (Inl (CONVERSATION_IDEMPOTENCY_CONFLICT (utTurn t)), d))"
proof (rule seen [OF rep, of "utOwner t" "utSession t"])
  assume "specSession (utOwner t) (utSession t) sp = None"
  then show ?thesis using x by (simp add: specSession_def)
next
  fix s y
  assume row: "sessionRow (utOwner t) (utSession t) d = Some s" and y: "sp (utSession t) = Some y"
    and told: "tells env d s y" and sid: "seId s = utSession t"
  from turnMessage_tells [OF told sid] x y old obtain m where "turnMessage t d = Some m"
    "msFingerprint m = Some (fingerprintUserTurn env w0 u0)" by auto
  then show ?thesis using ok row by (auto simp: appendUserTurn_def)
qed

lemma specTurn_records:
  assumes "fst (specTurn env t w u sp) = Inr v"
  obtains x w0 u0 where "snd (specTurn env t w u sp) (utSession t) = Some x" and "spOwner x = utOwner t"
    and "map_of (spTurns x) (utTurn t) = Some (w0, u0)" and "fingerprintUserTurn env w0 u0 = fingerprintUserTurn env w u"
proof (cases "sp (utSession t)")
  case None
  then show ?thesis using assms by (simp add: specTurn_def)
next
  case (Some x)
  have own: "spOwner x = utOwner t" using assms Some by (auto simp: specTurn_def split: if_splits)
  show ?thesis
  proof (cases "map_of (spTurns x) (utTurn t)")
    case None
    then show ?thesis using that [of "recordTurn t w u x" w u] Some own
      by (simp add: specTurn_def recordTurn_def map_of_append map_add_def)
  next
    case (Some old)
    obtain w0 u0 where "old = (w0, u0)" by (cases old)
    then show ?thesis using that [of x w0 u0] Some own assms \<open>sp (utSession t) = Some x\<close>
      by (simp add: specTurn_def split: if_splits)
  qed
qed


lemma replies_append:
  "replies k (ts @ us) = replies k ts @ replies (fold (\<lambda>(_, _, u). applyUpdate u) ts k) us"
  by (induction k ts rule: replies.induct) simp_all

lemma specView_continues:
  assumes "continues x y"
  shows "\<exists>ms. fst (snd (specView y)) = fst (snd (specView x)) @ ms"
proof -
  from assms obtain ts where "spTurns y = spTurns x @ ts" by (auto simp: continues_def)
  then obtain more where more: "transcript (spTurns y) = transcript (spTurns x) @ more"
    by (simp add: transcript_def replies_append)
  let ?n = "length (transcript (spTurns x))"
  have "[1..<Suc ?n + length more] = [1..<Suc ?n] @ [Suc ?n..<Suc ?n + length more]"
    by (rule upt_add_eq_append) simp
  then have "map int [1..<Suc (?n + length more)] = map int [1..<Suc ?n] @ map int [Suc ?n..<Suc (?n + length more)]"
    by (simp del: upt_Suc)
  then show ?thesis by (simp add: specView_def more zip_append del: upt_Suc)
qed

text \<open>
  What was said stays said. Until the owner is purged, a session that could be read stays readable, and the
  messages it showed (number, role and text) remain the first messages that it shows.
\<close>

theorem conversation_append_only:
  assumes "(conv_system env)\<^sup>*\<^sup>* (emptyConversation, \<lambda>_. None) (d, sp)"
    and "loadSession owner sid d = Inr (Some cs)"
    and "(conv_step env)\<^sup>*\<^sup>* (d, sp) (d', sp')"
  shows "\<exists>cs' ms. loadSession owner sid d' = Inr (Some cs') \<and> fst (snd (viewOf cs')) = fst (snd (viewOf cs)) @ ms"
proof -
  have rep: "represents env d sp" by (rule reachable_represents [OF assms(1)])
  from loadSession_spec [OF rep, of owner sid] assms(2) obtain x where x: "sp sid = Some x" "spOwner x = owner"
    "viewOf cs = specView x" by (auto simp: specSession_def split: option.splits if_splits)
  have "carries env sid x (d, sp)" using rep x by (simp add: carries_def)
  then have "carries env sid x (d', sp')" by (rule session_goes_on.steps_fact [OF assms(3)])
  then obtain y where rep': "represents env d' sp'" and y: "sp' sid = Some y" "continues x y" by (auto simp: carries_def)
  then have "specSession owner sid sp' = Some (specView y)" using x by (simp add: specSession_def continues_def)
  then obtain cs' where "loadSession owner sid d' = Inr (Some cs')" "viewOf cs' = specView y"
    using loadSession_spec [OF rep', of owner sid] by (cases "loadSession owner sid d'") auto
  then show ?thesis using specView_continues [OF y(2)] x by metis
qed

lemma owners_of_sessions:
  assumes ci: "convInv d"
  shows "msOwner ` set (convMessages d) \<subseteq> seOwner ` set (convSessions d)"
    and "rvOwner ` set (convRevisions d) \<subseteq> seOwner ` set (convSessions d)"
    and "tlOwner ` set (convLinks d) \<subseteq> seOwner ` set (convSessions d)"
proof -
  have inv: "sessionInv d s" if "s \<in> set (convSessions d)" for s using ci that by (simp add: convInv_def)
  have ro: "msSession m \<in> seId ` set (convSessions d)" if "m \<in> set (convMessages d)" for m
    using ci that by (auto simp: convInv_def rowsOwned_def)
  have rr: "rvSession r \<in> seId ` set (convSessions d)" if "r \<in> set (convRevisions d)" for r
    using ci that by (auto simp: convInv_def rowsOwned_def)
  show "msOwner ` set (convMessages d) \<subseteq> seOwner ` set (convSessions d)"
  proof (rule image_subsetI)
    fix m assume m: "m \<in> set (convMessages d)"
    then obtain s where s: "s \<in> set (convSessions d)" "seId s = msSession m" using ro by force
    then have "msOwner m = seOwner s" using inv [OF s(1)] m by (simp add: sessionInv_def msgsOf_def)
    then show "msOwner m \<in> seOwner ` set (convSessions d)" using s by simp
  qed
  show "rvOwner ` set (convRevisions d) \<subseteq> seOwner ` set (convSessions d)"
  proof (rule image_subsetI)
    fix r assume r: "r \<in> set (convRevisions d)"
    then obtain s where s: "s \<in> set (convSessions d)" "seId s = rvSession r" using rr by force
    then have "rvOwner r = seOwner s" using inv [OF s(1)] r by (simp add: sessionInv_def revsOf_def)
    then show "rvOwner r \<in> seOwner ` set (convSessions d)" using s by simp
  qed
  show "tlOwner ` set (convLinks d) \<subseteq> seOwner ` set (convSessions d)"
    using ci by (force simp: convInv_def rowsOwned_def)
qed

lemma link_session:
  assumes "rowsOwned d" and "l \<in> set (convLinks d)"
  obtains s where "s \<in> set (convSessions d)" and "seId s = tlSession l" and "seOwner s = tlOwner l"
proof -
  from assms have "(tlSession l, tlOwner l) \<in> (\<lambda>s. (seId s, seOwner s)) ` set (convSessions d)"
    unfolding rowsOwned_def image_subset_iff by simp
  then show ?thesis using that by auto
qed

lemma filter_key:
  assumes "distinct (map f xs)" and "x \<in> set xs"
  shows "filter (\<lambda>y. f y = f x) xs = [x]"
  using assms by (induction xs) (auto simp: filter_empty_conv image_iff)

text \<open>
  A conversation is its owner's alone. To any other user with a well-formed id the session does not exist:
  it is not read, none of its revisions is listed, and neither a turn nor a link of that user touches it.
\<close>

theorem conversation_private:
  assumes "(conv_system env)\<^sup>*\<^sup>* (emptyConversation, \<lambda>_. None) (d, sp)"
    and "loadSession owner sid d = Inr (Some cs)" and "other \<noteq> owner"
    and "assertOpaqueId other ''ownerUserId'' = Inr ()" and "assertOpaqueId sid ''sessionId'' = Inr ()"
    and "assertOpaqueId task ''decisionTaskId'' = Inr ()"
    and "checkedTurn t = Inr (w, u)" and "utOwner t = other" and "utSession t = sid"
  shows "loadSession other sid d = Inr None \<and> listRequirementRevisions other sid d = Inr []
    \<and> appendUserTurn env ids now t d = (Inl CONVERSATION_NOT_FOUND, d)
    \<and> linkDecisionTask now other sid task d = (Inl CONVERSATION_NOT_FOUND, d)"
proof -
  have rep: "represents env d sp" by (rule reachable_represents [OF assms(1)])
  then have sk: "sessionKeys d" and ro: "rowsOwned d" by (simp_all add: represents_def convInv_def)
  from assms(2) have "sessionRow owner sid d \<noteq> None" by (cases "sessionRow owner sid d") (simp_all add: loadSession_def)
  then obtain s where s: "rowOf sid d = Some s" "seOwner s = owner"
    using sessionRow_rowOf [OF sk, of owner sid] by (auto split: option.splits if_splits)
  have alien: "\<not> (seId r = sid \<and> seOwner r = other)" if "r \<in> set (convSessions d)" for r
    using rowOf_SomeI [OF sk that] s assms(3) by auto
  have none: "sessionRow other sid d = None" using sessionRow_rowOf [OF sk, of other sid] s assms(3) by simp
  have revs: "filter (\<lambda>r. rvSession r = sid \<and> list_ex (\<lambda>s. seId s = rvSession r \<and> seOwner s = other) (convSessions d)) (convRevisions d) = []"
    using alien by (auto simp: filter_empty_conv list_ex_iff)
  have link: "\<not> list_ex (\<lambda>l. tlSession l = sid \<and> tlOwner l = other \<and> tlTask l = task) (convLinks d)"
    using link_session [OF ro] alien unfolding list_ex_iff by metis
  show ?thesis using assms(4-9) none revs link
    by (simp add: loadSession_def listRequirementRevisions_def appendUserTurn_def linkDecisionTask_def)
qed

text \<open>
  Purging an owner never fails and leaves no row of the owner in any of the four tables, whatever the
  conversations hold, and what every other user sees is what that user saw before.
\<close>

theorem conversation_purge_complete:
  assumes "(conv_system env)\<^sup>*\<^sup>* (emptyConversation, \<lambda>_. None) (d, sp)"
    and "assertOpaqueId owner ''ownerUserId'' = Inr ()" and "other \<noteq> owner"
  shows "fst (purgeConversations owner d) = Inr (length (filter (\<lambda>s. seOwner s = owner) (convSessions d)))
    \<and> owner \<notin> (let d' = snd (purgeConversations owner d) in seOwner ` set (convSessions d') \<union> msOwner ` set (convMessages d')
        \<union> rvOwner ` set (convRevisions d') \<union> tlOwner ` set (convLinks d'))
    \<and> map_sum id (map_option viewOf) (loadSession other sid (snd (purgeConversations owner d)))
      = map_sum id (map_option viewOf) (loadSession other sid d)"
proof -
  have rep: "represents env d sp" by (rule reachable_represents [OF assms(1)])
  then have run: "purgeConversations owner d = (Inr (length (filter (\<lambda>s. seOwner s = owner) (convSessions d))), purged owner d)"
    using purge_run [OF _ assms(2)] by (simp add: represents_def)
  have rep': "represents env (purged owner d) (specPurge owner sp)" by (rule purged_represents [OF rep])
  then have ci: "convInv (purged owner d)" by (simp add: represents_def)
  have "owner \<notin> seOwner ` set (convSessions (purged owner d))" by (auto simp: purged_def Let_def)
  moreover from this owners_of_sessions [OF ci] have "owner \<notin> msOwner ` set (convMessages (purged owner d))"
    "owner \<notin> rvOwner ` set (convRevisions (purged owner d))" "owner \<notin> tlOwner ` set (convLinks (purged owner d))" by blast+
  moreover have "specSession other sid (specPurge owner sp) = specSession other sid sp"
    using assms(3) by (simp add: specSession_def specPurge_def split: option.split)
  ultimately show ?thesis using loadSession_spec [OF rep] loadSession_spec [OF rep'] by (simp add: run Let_def)
qed

text \<open>
  A decision task belongs to at most one conversation, and to a conversation of the user who linked it; a link
  to a second session is refused by the database, not as an error of the conversation.
\<close>

theorem task_linked_once:
  assumes "(conv_system env)\<^sup>*\<^sup>* (emptyConversation, \<lambda>_. None) (d, sp)"
    and "l \<in> set (convLinks d)" and "sid \<noteq> tlSession l" and "sessionRow owner sid d \<noteq> None"
    and "assertOpaqueId owner ''ownerUserId'' = Inr ()" and "assertOpaqueId sid ''sessionId'' = Inr ()"
    and "assertOpaqueId (tlTask l) ''decisionTaskId'' = Inr ()"
  shows "sessionRow (tlOwner l) (tlSession l) d \<noteq> None
    \<and> filter (\<lambda>k. tlTask k = tlTask l) (convLinks d) = [l]
    \<and> linkDecisionTask now owner sid (tlTask l) d = (Inl CONVERSATION_ROW_REJECTED, d)"
proof -
  have rep: "represents env d sp" by (rule reachable_represents [OF assms(1)])
  then have ro: "rowsOwned d" and keys: "distinct (map tlTask (convLinks d))" by (simp_all add: represents_def convInv_def rowKeys_def)
  obtain s where "s \<in> set (convSessions d)" "seId s = tlSession l" "seOwner s = tlOwner l"
    by (rule link_session [OF ro assms(2)])
  then have "sessionRow (tlOwner l) (tlSession l) d \<noteq> None" unfolding sessionRow_def find_None_iff by metis
  moreover have one: "filter (\<lambda>k. tlTask k = tlTask l) (convLinks d) = [l]" by (rule filter_key [OF keys assms(2)])
  moreover have "\<not> list_ex (\<lambda>k. tlSession k = sid \<and> tlTask k = tlTask l) (convLinks d)"
  proof -
    have "k = l" if "k \<in> set (convLinks d)" "tlTask k = tlTask l" for k
      using arg_cong [OF one, of set] that by auto
    then show ?thesis using assms(3) by (auto simp: list_ex_iff)
  qed
  moreover have "list_ex (\<lambda>k. tlTask k = tlTask l) (convLinks d)" using assms(2) by (auto simp: list_ex_iff)
  ultimately show ?thesis using assms(4-7) by (auto simp: linkDecisionTask_def)
qed

end
