(* ===== verification/CM_Conversation_Witnesses.thy ===== *)
theory CM_Conversation_Witnesses
  imports CM_Conversation_Properties
begin

text \<open>
  A conversation of one user, evaluated: a session, a turn that names the goal, a linked task. The properties of
  conversations are applied to it.
\<close>

definition w_conv_env :: conversation_env where
  "w_conv_env = \<lparr>cvStringify = (\<lambda>j. case j of JObj [_, (_, JStr s)] \<Rightarrow> s | _ \<Rightarrow> []), cvSha256 = (\<lambda>s. s)\<rparr>"

definition w_turn :: user_turn where
  "w_turn = \<lparr>utTurn = ''t1'', utOwner = ''o'', utSession = ''s'', utText = '' a gift '',
     utUpdate = \<lparr>upGoal = Some '' phone '', upScenario = None, upConstraints = None\<rparr>\<rparr>"

definition w_update :: requirement_update where
  "w_update = \<lparr>upGoal = Some ''phone'', upScenario = None, upConstraints = None\<rparr>"

definition w_turn_ids :: turn_ids where
  "w_turn_ids = \<lparr>tiUser = ''m2'', tiRevision = ''v1'', tiReply = ''m3''\<rparr>"

definition w_conv1 :: conversation_db where
  "w_conv1 = \<lparr>convSessions = [newSession ''s'' 5 ''o'' ''r''],
     convMessages = [assistantMessage ''m1'' 5 ''o'' ''s'' 1 ASK_GOAL], convRevisions = [], convLinks = []\<rparr>"

definition w_conv2 :: conversation_db where
  "w_conv2 = snd (appendUserTurn w_conv_env w_turn_ids 6 w_turn w_conv1)"

definition w_conv3 :: conversation_db where
  "w_conv3 = snd (linkDecisionTask 7 ''o'' ''s'' ''task'' w_conv2)"

definition w_spec1 :: conversation_spec where
  "w_spec1 = (\<lambda>_. None)(''s'' \<mapsto> newSpec ''o'' ''r'')"

definition w_spec2 :: conversation_spec where
  "w_spec2 = snd (specTurn w_conv_env w_turn ''a gift'' w_update w_spec1)"

lemma w_ids: "assertOpaqueId ''o'' ''ownerUserId'' = Inr ()" "assertOpaqueId ''x'' ''ownerUserId'' = Inr ()"
  "assertOpaqueId ''s'' ''sessionId'' = Inr ()" "assertOpaqueId ''s2'' ''sessionId'' = Inr ()"
  "assertOpaqueId ''task'' ''decisionTaskId'' = Inr ()" "assertOpaqueId ''r2'' ''clientRequestId'' = Inr ()"
  by code_simp+

lemma w_checked: "checkedTurn w_turn = Inr (''a gift'', w_update)"
  by code_simp

lemma w_texts: "ASK_GOAL \<noteq> []" "ASK_SCENARIO \<noteq> []" "normalizeText ''phone'' ''consumptionGoal'' = Inr ''phone''"
  by (simp_all add: ASK_GOAL_def ASK_SCENARIO_def) code_simp

lemmas w_reading = answerSession_def loadSession_def sessionRow_def loadLatestRequirement_def latestBy_def
  decodeRequirementRow_def decodeNullableArray_def decodeMissingKeys_def decodeStringArray_def missingKeyOf_def

lemmas w_writing = insertMessage_def messageAllowed_def insertRevision_def revisionAllowed_def newSession_def assistantMessage_def

lemma w_create: "createSession (\<lambda>d. d) ''s'' ''m1'' 5 ''o'' ''r'' emptyConversation =
    (fst (createSession (\<lambda>d. d) ''s'' ''m1'' 5 ''o'' ''r'' emptyConversation), w_conv1)"
proof -
  have "assertOpaqueId ''r'' ''clientRequestId'' = Inr ()" by code_simp
  then show ?thesis
    by (simp add: createSession_def requestRow_def insertSession_def w_ids w_reading w_writing w_texts w_conv1_def emptyConversation_def)
qed

lemma w_turn_fields: "utTurn w_turn = ''t1''" "utOwner w_turn = ''o''" "utSession w_turn = ''s''"
  by (simp_all add: w_turn_def)

lemmas w_turning = appendUserTurn_def w_checked w_turn_fields w_turn_ids_def w_conv1_def turnMessage_def writeTurn_def Let_def
  userOrdinal_def userMessage_def mergeRequirement_def mergeField_def w_update_def emptyUpdate_def requirementChanged_def
  newRevision_def missingOf_def clarificationMessage_def touchSession_def missingKeyText_def stringArray_def

lemma w_appended: "\<not> isl (fst (appendUserTurn w_conv_env w_turn_ids 6 w_turn w_conv1))"
  by (simp add: w_turning w_texts w_reading w_writing)

lemma w_conv2_eq: "w_conv2 = \<lparr>convSessions = [\<lparr>seId = ''s'', seOwner = ''o'', seRequest = ''r'', seTitle = ''phone'',
     seCreatedAt = 5, seUpdatedAt = 6\<rparr>], convMessages = [assistantMessage ''m1'' 5 ''o'' ''s'' 1 ASK_GOAL,
     userMessage w_conv_env ''m2'' 6 w_turn 2 ''a gift'' w_update, assistantMessage ''m3'' 6 ''o'' ''s'' 3 ASK_SCENARIO],
     convRevisions = [\<lparr>rvId = ''v1'', rvSession = ''s'', rvOwner = ''o'', rvMessage = ''m2'', rvPrevious = None, rvNumber = 1,
       rvGoal = Some ''phone'', rvScenario = None, rvConstraints = None,
       rvMissing = JArr [JStr ''PRIMARY_SCENARIO'', JStr ''HARD_CONSTRAINTS''],
       rvReadiness = NEEDS_CLARIFICATION, rvCreatedAt = 6\<rparr>], convLinks = []\<rparr>"
  by (simp add: w_conv2_def w_turning w_texts w_reading w_writing)

lemma w_conv3_eq: "w_conv3 = w_conv2\<lparr>convLinks := [\<lparr>tlSession = ''s'', tlOwner = ''o'', tlTask = ''task'', tlLinkedAt = 7\<rparr>]\<rparr>"
  by (simp add: w_conv3_def linkDecisionTask_def w_ids sessionRow_def w_conv2_eq)

lemma w_append: "\<exists>cs. appendUserTurn w_conv_env w_turn_ids 6 w_turn w_conv1 = (Inr cs, w_conv2)"
  using w_appended unfolding w_conv2_def
  by (cases "appendUserTurn w_conv_env w_turn_ids 6 w_turn w_conv1"; cases "fst (appendUserTurn w_conv_env w_turn_ids 6 w_turn w_conv1)") auto

lemma w_reach1: "(conv_system w_conv_env)\<^sup>*\<^sup>* (emptyConversation, \<lambda>_. None) (w_conv1, w_spec1)"
proof -
  have "w_conv1 \<noteq> emptyConversation" by (simp add: w_conv1_def emptyConversation_def)
  then show ?thesis
    using conv_step.create [OF w_create, of w_conv_env "\<lambda>_. None"] by (auto simp: w_spec1_def intro: conv_system.step)
qed

lemma w_reach2: "(conv_system w_conv_env)\<^sup>*\<^sup>* (emptyConversation, \<lambda>_. None) (w_conv2, w_spec2)"
proof -
  obtain cs where "appendUserTurn w_conv_env w_turn_ids 6 w_turn w_conv1 = (Inr cs, w_conv2)" using w_append by blast
  from conv_step.turn [OF w_checked this, of w_spec1] w_reach1 show ?thesis
    unfolding w_spec2_def by (meson conv_system.step rtranclp.rtrancl_into_rtrancl)
qed

lemma w_spec2_at: "w_spec2 ''s'' = Some (recordTurn w_turn ''a gift'' w_update (newSpec ''o'' ''r''))"
  by (simp add: w_spec2_def specTurn_def w_spec1_def newSpec_def w_turn_def)

lemmas w_spec_eval = specSession_def specView_def w_spec2_at recordTurn_def newSpec_def w_turn_def w_update_def
  titleAfter_def transcript_def requirementAfter_def contentsAfter_def missingOf_def clarificationMessage_def blank_def

lemma w_linked: "(conv_step w_conv_env) (w_conv2, w_spec2) (w_conv3, w_spec2)"
  by (rule conv_step.link [of 7 "''o''" "''s''" "''task''" _ "fst (linkDecisionTask 7 ''o'' ''s'' ''task'' w_conv2)"])
     (simp add: w_conv3_def)

lemma w_reach3: "(conv_system w_conv_env)\<^sup>*\<^sup>* (emptyConversation, \<lambda>_. None) (w_conv3, w_spec2)"
  using w_reach2 w_linked by (meson conv_system.step rtranclp.rtrancl_into_rtrancl)

theorem conversation_is_its_turns_witness:
  "map_sum id (map_option viewOf) (loadSession ''o'' ''s'' w_conv3) =
     Inr (Some (''phone'', [(1, ASSISTANT, ASK_GOAL), (2, USER, ''a gift''), (3, ASSISTANT, ASK_SCENARIO)],
       Some ((Some ''phone'', None, None), [PRIMARY_SCENARIO, HARD_CONSTRAINTS], NEEDS_CLARIFICATION)))"
proof -
  have "specSession ''o'' ''s'' w_spec2 =
     Some (''phone'', [(1, ASSISTANT, ASK_GOAL), (2, USER, ''a gift''), (3, ASSISTANT, ASK_SCENARIO)],
       Some ((Some ''phone'', None, None), [PRIMARY_SCENARIO, HARD_CONSTRAINTS], NEEDS_CLARIFICATION))"
    by (simp add: w_spec_eval)
  then show ?thesis using conversation_is_its_turns [OF w_reach3, of "''o''" "''s''"] by simp
qed

theorem append_turn_refines_witness:
  "map_sum id viewOf (fst (appendUserTurn w_conv_env w_turn_ids 6 w_turn w_conv1)) =
     Inr (''phone'', [(1, ASSISTANT, ASK_GOAL), (2, USER, ''a gift''), (3, ASSISTANT, ASK_SCENARIO)],
       Some ((Some ''phone'', None, None), [PRIMARY_SCENARIO, HARD_CONSTRAINTS], NEEDS_CLARIFICATION))"
proof -
  have "freshTurn w_turn_ids w_turn w_conv1"
    by (simp add: freshTurn_def w_turn_ids_def w_conv1_def assistantMessage_def revsOf_def)
  moreover have "fst (specTurn w_conv_env w_turn ''a gift'' w_update w_spec1) =
     Inr (''phone'', [(1, ASSISTANT, ASK_GOAL), (2, USER, ''a gift''), (3, ASSISTANT, ASK_SCENARIO)],
       Some ((Some ''phone'', None, None), [PRIMARY_SCENARIO, HARD_CONSTRAINTS], NEEDS_CLARIFICATION))"
    by (simp add: specTurn_def w_spec1_def w_spec_eval)
  ultimately show ?thesis using append_turn_refines [OF w_reach1 w_checked] by simp
qed


lemma w_load1: "\<exists>cs. loadSession ''o'' ''s'' w_conv1 = Inr (Some cs) \<and> fst (snd (viewOf cs)) = [(1, ASSISTANT, ASK_GOAL)]"
proof -
  have "specSession ''o'' ''s'' w_spec1 = Some (NEW_TITLE, [(1, ASSISTANT, ASK_GOAL)], None)"
    by (simp add: w_spec1_def w_spec_eval)
  then show ?thesis using loadSession_spec [OF reachable_represents [OF w_reach1], of "''o''" "''s''"]
    by (cases "loadSession ''o'' ''s'' w_conv1") auto
qed

theorem conversation_append_only_witness:
  "\<exists>cs' ms. loadSession ''o'' ''s'' w_conv2 = Inr (Some cs') \<and> fst (snd (viewOf cs')) = [(1, ASSISTANT, ASK_GOAL)] @ ms"
proof -
  obtain cs where cs: "loadSession ''o'' ''s'' w_conv1 = Inr (Some cs)" "fst (snd (viewOf cs)) = [(1, ASSISTANT, ASK_GOAL)]"
    using w_load1 by blast
  obtain r where "appendUserTurn w_conv_env w_turn_ids 6 w_turn w_conv1 = (Inr r, w_conv2)" using w_append by blast
  from conv_step.turn [OF w_checked this, of w_spec1]
  have "(conv_step w_conv_env)\<^sup>*\<^sup>* (w_conv1, w_spec1) (w_conv2, w_spec2)" unfolding w_spec2_def by (rule r_into_rtranclp)
  from conversation_append_only [OF w_reach1 cs(1) this] show ?thesis unfolding cs(2) .
qed

theorem conversation_private_witness:
  "loadSession ''x'' ''s'' w_conv1 = Inr None \<and> listRequirementRevisions ''x'' ''s'' w_conv1 = Inr []
    \<and> appendUserTurn w_conv_env w_turn_ids 6 (w_turn\<lparr>utOwner := ''x''\<rparr>) w_conv1 = (Inl CONVERSATION_NOT_FOUND, w_conv1)
    \<and> linkDecisionTask 7 ''x'' ''s'' ''task'' w_conv1 = (Inl CONVERSATION_NOT_FOUND, w_conv1)"
proof -
  obtain cs where cs: "loadSession ''o'' ''s'' w_conv1 = Inr (Some cs)" using w_load1 by blast
  have "checkedTurn (w_turn\<lparr>utOwner := ''x''\<rparr>) = Inr (''a gift'', w_update)" by code_simp
  from conversation_private [OF w_reach1 cs _ w_ids(2,3,5) this] show ?thesis by (simp add: w_turn_def)
qed

theorem conversation_purge_complete_witness:
  "fst (purgeConversations ''o'' w_conv3) = Inr 1
    \<and> ''o'' \<notin> (let d' = snd (purgeConversations ''o'' w_conv3) in seOwner ` set (convSessions d') \<union> msOwner ` set (convMessages d')
        \<union> rvOwner ` set (convRevisions d') \<union> tlOwner ` set (convLinks d'))
    \<and> map_sum id (map_option viewOf) (loadSession ''x'' ''s'' (snd (purgeConversations ''o'' w_conv3)))
      = map_sum id (map_option viewOf) (loadSession ''x'' ''s'' w_conv3)"
proof -
  from conversation_purge_complete [OF w_reach3 w_ids(1), of "''x''" "''s''"]
  have all: "fst (purgeConversations ''o'' w_conv3) = Inr (length (filter (\<lambda>s. seOwner s = ''o'') (convSessions w_conv3)))
    \<and> ''o'' \<notin> (let d' = snd (purgeConversations ''o'' w_conv3) in seOwner ` set (convSessions d') \<union> msOwner ` set (convMessages d')
        \<union> rvOwner ` set (convRevisions d') \<union> tlOwner ` set (convLinks d'))
    \<and> map_sum id (map_option viewOf) (loadSession ''x'' ''s'' (snd (purgeConversations ''o'' w_conv3)))
      = map_sum id (map_option viewOf) (loadSession ''x'' ''s'' w_conv3)" by simp
  have "length (filter (\<lambda>s. seOwner s = ''o'') (convSessions w_conv3)) = 1" by (simp add: w_conv3_eq w_conv2_eq)
  from all [unfolded this] show ?thesis .
qed

text \<open>A second session, and an attempt to link the task to it.\<close>

definition w_conv4 :: conversation_db where
  "w_conv4 = snd (createSession (\<lambda>d. d) ''s2'' ''m9'' 8 ''o'' ''r2'' w_conv3)"

lemma w_conv4_eq: "w_conv4 = withSession (newSession ''s2'' 8 ''o'' ''r2'') (assistantMessage ''m9'' 8 ''o'' ''s2'' 1 ASK_GOAL) w_conv3"
  by (simp add: w_conv4_def createSession_def w_ids requestRow_def insertSession_def insertMessage_def messageAllowed_def
      w_conv3_eq w_conv2_eq assistantMessage_def userMessage_def w_turn_def newSession_def withSession_def ASK_GOAL_def)

lemma w_reach4: "\<exists>sp. (conv_system w_conv_env)\<^sup>*\<^sup>* (emptyConversation, \<lambda>_. None) (w_conv4, sp)"
proof -
  have "createSession (\<lambda>d. d) ''s2'' ''m9'' 8 ''o'' ''r2'' w_conv3 = (fst (createSession (\<lambda>d. d) ''s2'' ''m9'' 8 ''o'' ''r2'' w_conv3), w_conv4)"
    by (simp add: w_conv4_def)
  from conv_step.create [OF this, of w_conv_env w_spec2] w_reach3 show ?thesis
    by (meson conv_system.step rtranclp.rtrancl_into_rtrancl)
qed

theorem task_linked_once_witness:
  "sessionRow ''o'' ''s'' w_conv4 \<noteq> None
    \<and> map tlSession (filter (\<lambda>k. tlTask k = ''task'') (convLinks w_conv4)) = [''s'']
    \<and> linkDecisionTask 9 ''o'' ''s2'' ''task'' w_conv4 = (Inl CONVERSATION_ROW_REJECTED, w_conv4)"
proof -
  let ?l = "\<lparr>tlSession = ''s'', tlOwner = ''o'', tlTask = ''task'', tlLinkedAt = 7\<rparr>"
  obtain sp where reach: "(conv_system w_conv_env)\<^sup>*\<^sup>* (emptyConversation, \<lambda>_. None) (w_conv4, sp)" using w_reach4 by blast
  have l: "?l \<in> set (convLinks w_conv4)" by (simp add: w_conv4_eq withSession_def w_conv3_eq)
  have row: "sessionRow ''o'' ''s2'' w_conv4 \<noteq> None"
    by (simp add: w_conv4_eq withSession_def w_conv3_eq w_conv2_eq sessionRow_def newSession_def)
  have "''s2'' \<noteq> tlSession ?l" "assertOpaqueId (tlTask ?l) ''decisionTaskId'' = Inr ()" by (simp_all add: w_ids)
  from task_linked_once [OF reach l this(1) row w_ids(1,4) this(2), of 9] show ?thesis by simp
qed

end
