(* ===== verification/CM_Identity.thy ===== *)
theory CM_Identity
  imports CM_Schemas CM_Time
begin

text \<open>
  Identities and access (packages/identity-access/src/index.ts): accounts with a role and a status, login
  sessions, invitations, recovery codes, login throttles, the audit and the events of an account's lifecycle.
  A table is the list of its rows in insertion order; an operation that throws leaves the tables as they were.
  The clock, random uuids and secrets, SHA-256, scrypt and base64url are parameters.
\<close>

section \<open>Data\<close>

datatype account_role = ROLE_USER | ROLE_ADMIN | ROLE_SUPERADMIN

datatype account_status = ACCOUNT_ACTIVE | ACCOUNT_DISABLED | ACCOUNT_PENDING_DELETION | ACCOUNT_DELETED

datatype password_kind = PERMANENT | TEMPORARY

record account_row =
  accId :: ident
  accUsername :: string
  accKey :: string
  accRole :: account_role
  accStatus :: account_status
  accHash :: string
  accKind :: password_kind
  accRequestedAt :: "int option"
  accDueAt :: "int option"
  accCreatedAt :: int
  accUpdatedAt :: int

record recovery_row =
  recAccount :: ident
  recCode :: string
  recCreatedAt :: int

record login_session_row =
  loId :: ident
  loAccount :: ident
  loToken :: string
  loCreatedAt :: int
  loExpiresAt :: int
  loRevokedAt :: "int option"

record invitation_row =
  inId :: ident
  inCode :: string
  inCreator :: ident
  inCreatedAt :: int
  inExpiresAt :: int
  inRevokedAt :: "int option"
  inUsedAt :: "int option"
  inUsedBy :: "ident option"

record throttle_row =
  thKey :: string
  thCount :: int
  thLockedUntil :: "int option"
  thUpdatedAt :: int

datatype audit_object = ON_ACCOUNT | ON_INVITATION | ON_LOGIN_SESSION

datatype identity_audit_result = ALLOWED | DENIED

record identity_audit_row =
  iauId :: ident
  iauAt :: int
  iauActor :: "ident option"
  iauAction :: string
  iauObjectType :: audit_object
  iauObject :: string
  iauResult :: identity_audit_result
  iauCorrelation :: ident

datatype lifecycle_event_type = RESTRICT_ACCOUNT | DELETE_ACCOUNT

record lifecycle_row =
  leId :: ident
  leAccount :: ident
  leType :: lifecycle_event_type
  leCorrelation :: ident
  leOccurredAt :: int
  leScheduledAt :: int
  leProcessedAt :: "int option"
  leCancelledAt :: "int option"
  leAttempts :: nat
  leLastAttempt :: "int option"

record identity_db =
  accounts :: "account_row list"
  recoveryCodes :: "recovery_row list"
  loginSessions :: "login_session_row list"
  invitations :: "invitation_row list"
  throttles :: "throttle_row list"
  auditRows :: "identity_audit_row list"
  lifecycleEvents :: "lifecycle_row list"

definition emptyIdentity :: identity_db where
  "emptyIdentity = \<lparr>accounts = [], recoveryCodes = [], loginSessions = [], invitations = [], throttles = [],
     auditRows = [], lifecycleEvents = []\<rparr>"

datatype identity_code =
    BOOTSTRAP_ALREADY_COMPLETE | BOOTSTRAP_LOCAL_ONLY | INVITATION_INVALID | INVALID_CREDENTIALS
  | INVALID_PASSWORD | INVALID_USERNAME | LOGIN_THROTTLED string | LAST_SUPERADMIN | REAUTHENTICATION_FAILED
  | RECOVERY_INVALID | RECOVERY_LOCAL_ONLY | RECOVERY_NOT_ALLOWED | UNAUTHORIZED | USERNAME_TAKEN

datatype access_level = FULL | PASSWORD_CHANGE_REQUIRED | DELETION_PENDING string

record account_view =
  avId :: ident
  avRole :: account_role
  avStatus :: account_status
  avUsername :: string

datatype identity_result =
    SignedIn access_level account_view string "string option" \<comment> \<open>session token, recovery code\<close>
  | Invited string string ident \<comment> \<open>expiry, code, id\<close>
  | AccountCreated account_view string \<comment> \<open>temporary password\<close>
  | PasswordReset ident string
  | RoleSet ident account_role
  | StatusSet ident account_status
  | DeletionRequested ident string
  | Done
  | Failed identity_code

text \<open>A constraint of the schema that an insertion violates throws.\<close>

datatype identity_error = IDENTITY_ROW_REJECTED | ERASURE_OUT_OF_PLACE | DELETION_WITHOUT_DUE_DATE

type_synonym 'a identity_run = "(identity_error + 'a) \<times> identity_db"

record identity_env =
  ieSha256 :: "string \<Rightarrow> string"
  ieScrypt :: "string \<Rightarrow> string \<Rightarrow> nat \<Rightarrow> string" \<comment> \<open>password, salt, length of the key\<close>
  ieEncode :: "string \<Rightarrow> string" \<comment> \<open>base64url\<close>
  ieDecode :: "string \<Rightarrow> string"

text \<open>What a command draws at random.\<close>

record identity_draw =
  drAccount :: ident
  drSession :: ident
  drInvitation :: ident
  drAudit :: ident
  drRestrict :: ident
  drDelete :: ident
  drToken :: string
  drCode :: string
  drPassword :: string
  drSalt :: string

section \<open>Secrets\<close>

definition loginSessionLifetimeMs :: int where "loginSessionLifetimeMs = 7 * 24 * 60 * 60 * 1000"
definition loginThrottleLifetimeMs :: int where "loginThrottleLifetimeMs = 30 * 1000"
definition accountDeletionWaitMs :: int where "accountDeletionWaitMs = 7 * 24 * 60 * 60 * 1000"
definition auditRetentionMs :: int where "auditRetentionMs = 180 * 24 * 60 * 60 * 1000"

definition hashOpaqueSecret :: "identity_env \<Rightarrow> string \<Rightarrow> string" where
  "hashOpaqueSecret env secret = ieSha256 env secret"

definition hashPassword :: "identity_env \<Rightarrow> string \<Rightarrow> string \<Rightarrow> string" where
  "hashPassword env salt password =
     ''scrypt-v1$'' @ ieEncode env salt @ ''$'' @ ieEncode env (ieScrypt env password salt 32)"

text \<open>\<open>passwordHash.split("$")\<close>\<close>

fun splitDollar :: "string \<Rightarrow> string list" where
  "splitDollar [] = [[]]"
| "splitDollar (c # cs) = (if c = CHR ''$'' then [] # splitDollar cs
     else (case splitDollar cs of [] \<Rightarrow> [[c]] | p # ps \<Rightarrow> (c # p) # ps))"

definition verifyPassword :: "identity_env \<Rightarrow> string \<Rightarrow> string \<Rightarrow> bool" where
  "verifyPassword env password hashed =
     (case splitDollar hashed of
        version # salt # expected # _ \<Rightarrow>
          version = ''scrypt-v1''
          \<and> ieScrypt env password (ieDecode env salt) (length (ieDecode env expected)) = ieDecode env expected
      | _ \<Rightarrow> False)"

text \<open>ASCII letters only; the Han characters that a username may have lie outside the character set of the model.\<close>

definition lowerAscii :: "char \<Rightarrow> char" where
  "lowerAscii c = (let n = (of_char c :: nat) in if 65 \<le> n \<and> n \<le> 90 then char_of (n + 32) else c)"

definition normalizeUsername :: "string \<Rightarrow> string" where
  "normalizeUsername s = map lowerAscii s"

definition usernameChar :: "char \<Rightarrow> bool" where
  "usernameChar c \<longleftrightarrow> (let n = (of_char c :: nat) in
     (65 \<le> n \<and> n \<le> 90) \<or> (97 \<le> n \<and> n \<le> 122) \<or> (48 \<le> n \<and> n \<le> 57) \<or> n = 95)"

definition isValidUsername :: "string \<Rightarrow> bool" where
  "isValidUsername s \<longleftrightarrow> 2 \<le> length s \<and> length s \<le> 32 \<and> list_all usernameChar s"

definition isValidPassword :: "string \<Rightarrow> bool" where
  "isValidPassword s \<longleftrightarrow> 6 \<le> length s \<and> list_all (\<lambda>c. let n = (of_char c :: nat) in 33 \<le> n \<and> n \<le> 126) s"

text \<open>Groups of six characters joined by dashes.\<close>

fun formatRecoveryCode :: "string \<Rightarrow> string" where
  "formatRecoveryCode (a # b # c # d # e # f # g # rest) =
     [a, b, c, d, e, f] @ ''-'' @ formatRecoveryCode (g # rest)"
| "formatRecoveryCode hex = hex"

section \<open>Tables\<close>

definition insertAccount :: "account_row \<Rightarrow> identity_db \<Rightarrow> identity_db option" where
  "insertAccount a d =
     (if accId a \<in> accId ` set (accounts d) \<or> accKey a \<in> accKey ` set (accounts d) then None
      else Some (d\<lparr>accounts := accounts d @ [a]\<rparr>))"

definition updateAccount :: "ident \<Rightarrow> (account_row \<Rightarrow> account_row) \<Rightarrow> identity_db \<Rightarrow> identity_db" where
  "updateAccount aid f d = d\<lparr>accounts := map (\<lambda>a. if accId a = aid then f a else a) (accounts d)\<rparr>"

definition insertLoginSession ::
    "identity_env \<Rightarrow> identity_draw \<Rightarrow> ident \<Rightarrow> int \<Rightarrow> identity_db \<Rightarrow> identity_db option" where
  "insertLoginSession env dr aid now d =
     (if drSession dr \<in> loId ` set (loginSessions d) \<or> hashOpaqueSecret env (drToken dr) \<in> loToken ` set (loginSessions d)
         \<or> aid \<notin> accId ` set (accounts d) then None
      else Some (d\<lparr>loginSessions := loginSessions d @ [\<lparr>loId = drSession dr, loAccount = aid,
             loToken = hashOpaqueSecret env (drToken dr), loCreatedAt = now,
             loExpiresAt = now + loginSessionLifetimeMs, loRevokedAt = None\<rparr>]\<rparr>))"

definition revokeSessions :: "(login_session_row \<Rightarrow> bool) \<Rightarrow> int \<Rightarrow> identity_db \<Rightarrow> identity_db" where
  "revokeSessions p now d = d\<lparr>loginSessions := map (\<lambda>s. if p s \<and> loRevokedAt s = None
     then s\<lparr>loRevokedAt := Some now\<rparr> else s) (loginSessions d)\<rparr>"

definition appendAudit ::
    "ident \<Rightarrow> string \<Rightarrow> ident option \<Rightarrow> ident \<Rightarrow> audit_object \<Rightarrow> string \<Rightarrow> int \<Rightarrow> identity_audit_result
     \<Rightarrow> identity_db \<Rightarrow> identity_db option" where
  "appendAudit aid act actor corr ty obj now res d =
     (if aid \<in> iauId ` set (auditRows d) then None
      else Some (d\<lparr>auditRows := auditRows d @ [\<lparr>iauId = aid, iauAt = now, iauActor = actor, iauAction = act,
             iauObjectType = ty, iauObject = obj, iauResult = res, iauCorrelation = corr\<rparr>]\<rparr>))"

definition enqueueAccountLifecycleEvent ::
    "ident \<Rightarrow> ident \<Rightarrow> ident \<Rightarrow> lifecycle_event_type \<Rightarrow> int \<Rightarrow> int \<Rightarrow> identity_db \<Rightarrow> identity_db option" where
  "enqueueAccountLifecycleEvent eid aid corr ty now due d =
     (if eid \<in> leId ` set (lifecycleEvents d) \<or> aid \<notin> accId ` set (accounts d) then None
      else Some (d\<lparr>lifecycleEvents := lifecycleEvents d @ [\<lparr>leId = eid, leAccount = aid, leType = ty,
             leCorrelation = corr, leOccurredAt = now, leScheduledAt = due, leProcessedAt = None,
             leCancelledAt = None, leAttempts = 0, leLastAttempt = None\<rparr>]\<rparr>))"

definition cancelEvents :: "(lifecycle_row \<Rightarrow> bool) \<Rightarrow> int \<Rightarrow> identity_db \<Rightarrow> identity_db" where
  "cancelEvents p now d = d\<lparr>lifecycleEvents := map (\<lambda>e. if p e \<and> leProcessedAt e = None \<and> leCancelledAt e = None
     then e\<lparr>leCancelledAt := Some now\<rparr> else e) (lifecycleEvents d)\<rparr>"

text \<open>A live session joined with its account, when the account meets the condition.\<close>

definition liveSession :: "identity_env \<Rightarrow> string \<Rightarrow> int \<Rightarrow> identity_db \<Rightarrow> login_session_row option" where
  "liveSession env tok now d =
     find (\<lambda>s. loToken s = hashOpaqueSecret env tok \<and> loRevokedAt s = None \<and> loExpiresAt s > now) (loginSessions d)"

definition sessionAccount ::
    "(account_row \<Rightarrow> bool) \<Rightarrow> identity_env \<Rightarrow> string \<Rightarrow> int \<Rightarrow> identity_db \<Rightarrow> account_row option" where
  "sessionAccount ok env tok now d =
     (case liveSession env tok now d of
        None \<Rightarrow> None
      | Some s \<Rightarrow> find (\<lambda>a. accId a = loAccount s \<and> ok a) (accounts d))"

definition activeAccount :: "account_row \<Rightarrow> bool" where
  "activeAccount a \<longleftrightarrow> accStatus a = ACCOUNT_ACTIVE"

definition fullAccount :: "account_row \<Rightarrow> bool" where
  "fullAccount a \<longleftrightarrow> accStatus a = ACCOUNT_ACTIVE \<and> accKind a = PERMANENT"

definition resolveFullAccessAccount :: "identity_env \<Rightarrow> string \<Rightarrow> int \<Rightarrow> identity_db \<Rightarrow> account_row option" where
  "resolveFullAccessAccount = sessionAccount fullAccount"

definition resolveAuditActorAccountId :: "identity_env \<Rightarrow> string \<Rightarrow> int \<Rightarrow> identity_db \<Rightarrow> ident option" where
  "resolveAuditActorAccountId env tok now d = map_option loAccount (liveSession env tok now d)"

definition isManager :: "account_row \<Rightarrow> bool" where
  "isManager a \<longleftrightarrow> accRole a = ROLE_ADMIN \<or> accRole a = ROLE_SUPERADMIN"

definition accountById :: "ident \<Rightarrow> identity_db \<Rightarrow> account_row option" where
  "accountById aid d = find (\<lambda>a. accId a = aid) (accounts d)"

definition otherSuperadmins :: "(account_row \<Rightarrow> bool) \<Rightarrow> ident \<Rightarrow> identity_db \<Rightarrow> nat" where
  "otherSuperadmins p aid d =
     length (filter (\<lambda>a. accRole a = ROLE_SUPERADMIN \<and> p a \<and> accId a \<noteq> aid) (accounts d))"

definition viewAccount :: "account_row \<Rightarrow> account_status \<Rightarrow> account_view" where
  "viewAccount a st = \<lparr>avId = accId a, avRole = accRole a, avStatus = st, avUsername = accUsername a\<rparr>"

text \<open>A transaction on the tables: a refusal or a thrown error rolls back, a result commits.\<close>

definition refused :: "identity_code \<Rightarrow> identity_db \<Rightarrow> identity_result identity_run" where
  "refused c d = (Inr (Failed c), d)"

definition committing ::
    "identity_db \<Rightarrow> identity_result \<Rightarrow> identity_db option \<Rightarrow> identity_result identity_run" where
  "committing d r d' = (case d' of None \<Rightarrow> (Inl IDENTITY_ROW_REJECTED, d) | Some e \<Rightarrow> (Inr r, e))"

section \<open>Bootstrapping and recovery\<close>

definition newAccount ::
    "identity_env \<Rightarrow> identity_draw \<Rightarrow> string \<Rightarrow> account_role \<Rightarrow> string \<Rightarrow> password_kind \<Rightarrow> int \<Rightarrow> account_row" where
  "newAccount env dr username role password kind now =
     \<lparr>accId = drAccount dr, accUsername = username, accKey = normalizeUsername username, accRole = role,
      accStatus = ACCOUNT_ACTIVE, accHash = hashPassword env (drSalt dr) password, accKind = kind,
      accRequestedAt = None, accDueAt = None, accCreatedAt = now, accUpdatedAt = now\<rparr>"

definition bootstrapSuperadmin ::
    "identity_env \<Rightarrow> identity_draw \<Rightarrow> int \<Rightarrow> ident \<Rightarrow> string \<Rightarrow> string \<Rightarrow> identity_db \<Rightarrow> identity_result identity_run" where
  "bootstrapSuperadmin env dr now corr username password d =
     (let a = newAccount env dr username ROLE_SUPERADMIN password PERMANENT now in
      if accounts d \<noteq> [] then refused BOOTSTRAP_ALREADY_COMPLETE d
      else committing d
        (SignedIn FULL (viewAccount a ACCOUNT_ACTIVE) (drToken dr) (Some (formatRecoveryCode (drCode dr))))
        (Option.bind (insertAccount a d) (\<lambda>d1.
         Option.bind (if accId a \<in> recAccount ` set (recoveryCodes d1) then None
            else Some (d1\<lparr>recoveryCodes := recoveryCodes d1 @ [\<lparr>recAccount = accId a,
               recCode = hashOpaqueSecret env (formatRecoveryCode (drCode dr)), recCreatedAt = now\<rparr>]\<rparr>)) (\<lambda>d2.
         Option.bind (insertLoginSession env dr (accId a) now d2) (\<lambda>d3.
         appendAudit (drAudit dr) ''BOOTSTRAP_SUPERADMIN'' (Some (accId a)) corr ON_ACCOUNT (accId a) now ALLOWED d3)))))"

definition recoveryTarget :: "identity_env \<Rightarrow> string \<Rightarrow> identity_db \<Rightarrow> account_row option" where
  "recoveryTarget env plain d =
     Option.bind (find (\<lambda>r. recCode r = hashOpaqueSecret env plain) (recoveryCodes d)) (\<lambda>r. accountById (recAccount r) d)"

definition setPassword :: "identity_env \<Rightarrow> string \<Rightarrow> string \<Rightarrow> password_kind \<Rightarrow> int \<Rightarrow> account_row \<Rightarrow> account_row" where
  "setPassword env salt password kind now a =
     a\<lparr>accHash := hashPassword env salt password, accKind := kind, accUpdatedAt := now\<rparr>"

definition recoverSuperadmin ::
    "identity_env \<Rightarrow> identity_draw \<Rightarrow> int \<Rightarrow> bool \<Rightarrow> string \<Rightarrow> string \<Rightarrow> identity_db \<Rightarrow> identity_result identity_run" where
  "recoverSuperadmin env dr now isLocal newPassword plain d =
     (if \<not> isLocal then refused RECOVERY_LOCAL_ONLY d
      else if \<not> isValidPassword newPassword then refused INVALID_PASSWORD d
      else (case recoveryTarget env plain d of
          None \<Rightarrow> refused RECOVERY_INVALID d
        | Some a \<Rightarrow>
            if accRole a \<noteq> ROLE_SUPERADMIN \<or> accStatus a \<noteq> ACCOUNT_ACTIVE then refused RECOVERY_INVALID d
            else if otherSuperadmins fullAccount (accId a) d \<noteq> 0 then refused RECOVERY_NOT_ALLOWED d
            else committing d
              (SignedIn FULL (viewAccount a ACCOUNT_ACTIVE) (drToken dr) (Some (formatRecoveryCode (drCode dr))))
              (let d1 = updateAccount (accId a) (setPassword env (drSalt dr) newPassword PERMANENT now) d;
                   d2 = d1\<lparr>recoveryCodes := map (\<lambda>r. if recAccount r = accId a
                      then r\<lparr>recCode := hashOpaqueSecret env (formatRecoveryCode (drCode dr)), recCreatedAt := now\<rparr> else r)
                      (recoveryCodes d1)\<rparr>
               in insertLoginSession env dr (accId a) now (revokeSessions (\<lambda>s. loAccount s = accId a) now d2))))"

section \<open>Invitations\<close>

definition createInvitation ::
    "identity_env \<Rightarrow> identity_draw \<Rightarrow> int \<Rightarrow> ident \<Rightarrow> string \<Rightarrow> identity_db \<Rightarrow> identity_result identity_run" where
  "createInvitation env dr now corr tok d =
     (case resolveFullAccessAccount env tok now d of
        None \<Rightarrow> refused UNAUTHORIZED d
      | Some a \<Rightarrow>
          if \<not> isManager a then refused UNAUTHORIZED d
          else
            (let plain = formatRecoveryCode (drCode dr);
                 i = \<lparr>inId = drInvitation dr, inCode = hashOpaqueSecret env plain, inCreator = accId a, inCreatedAt = now,
                      inExpiresAt = now + loginSessionLifetimeMs, inRevokedAt = None, inUsedAt = None, inUsedBy = None\<rparr>
             in committing d (Invited (toISOString (now + loginSessionLifetimeMs)) plain (inId i))
               (if inId i \<in> inId ` set (invitations d) \<or> inCode i \<in> inCode ` set (invitations d) then None
                else appendAudit (drAudit dr) ''CREATE_INVITATION'' (Some (accId a)) corr ON_INVITATION (inId i) now ALLOWED
                  (d\<lparr>invitations := invitations d @ [i]\<rparr>))))"

definition openInvitation :: "int \<Rightarrow> invitation_row \<Rightarrow> bool" where
  "openInvitation now i \<longleftrightarrow> inRevokedAt i = None \<and> inUsedAt i = None \<and> inExpiresAt i > now"

definition registerWithInvitation ::
    "identity_env \<Rightarrow> identity_draw \<Rightarrow> int \<Rightarrow> ident \<Rightarrow> string \<Rightarrow> string \<Rightarrow> string \<Rightarrow> identity_db
     \<Rightarrow> identity_result identity_run" where
  "registerWithInvitation env dr now corr plain username password d =
     (let a = newAccount env dr username ROLE_USER password PERMANENT now in
      if \<not> isValidUsername username then refused INVALID_USERNAME d
      else if \<not> isValidPassword password then refused INVALID_PASSWORD d
      else (case find (\<lambda>i. inCode i = hashOpaqueSecret env plain \<and> openInvitation now i) (invitations d) of
          None \<Rightarrow> refused INVITATION_INVALID d
        | Some i \<Rightarrow>
            (case insertAccount a d of
               None \<Rightarrow> refused USERNAME_TAKEN d
             | Some d1 \<Rightarrow> committing d (SignedIn FULL (viewAccount a ACCOUNT_ACTIVE) (drToken dr) None)
                 (Option.bind (insertLoginSession env dr (accId a) now
                    (d1\<lparr>invitations := map (\<lambda>j. if inId j = inId i then j\<lparr>inUsedAt := Some now, inUsedBy := Some (accId a)\<rparr>
                       else j) (invitations d1)\<rparr>)) (\<lambda>d2.
                  appendAudit (drAudit dr) ''REGISTER_WITH_INVITATION'' (Some (accId a)) corr ON_ACCOUNT (accId a) now ALLOWED d2)))))"

definition revokeInvitation ::
    "identity_env \<Rightarrow> int \<Rightarrow> ident \<Rightarrow> string \<Rightarrow> identity_db \<Rightarrow> identity_result identity_run" where
  "revokeInvitation env now iid tok d =
     (case resolveFullAccessAccount env tok now d of
        None \<Rightarrow> refused UNAUTHORIZED d
      | Some a \<Rightarrow>
          if \<not> isManager a then refused UNAUTHORIZED d
          else if \<not> list_ex (\<lambda>i. inId i = iid \<and> openInvitation now i) (invitations d) then refused INVITATION_INVALID d
          else (Inr Done, d\<lparr>invitations := map (\<lambda>i. if inId i = iid \<and> openInvitation now i
             then i\<lparr>inRevokedAt := Some now\<rparr> else i) (invitations d)\<rparr>))"

section \<open>Roles and statuses\<close>

text \<open>
  \<open>race\<close> is what other connections commit between the count of the other superadmins and the update: the
  transaction locks the rows of the actor and of the target, not those it counts.
\<close>

definition setAccountRole ::
    "(identity_db \<Rightarrow> identity_db) \<Rightarrow> identity_env \<Rightarrow> int \<Rightarrow> ident \<Rightarrow> string \<Rightarrow> account_role \<Rightarrow> string \<Rightarrow> identity_db \<Rightarrow> identity_result identity_run" where
  "setAccountRole race env now target password role tok d =
     (case sessionAccount fullAccount env tok now d of
        None \<Rightarrow> refused UNAUTHORIZED d
      | Some actor \<Rightarrow>
          if accRole actor \<noteq> ROLE_SUPERADMIN then refused UNAUTHORIZED d
          else if \<not> verifyPassword env password (accHash actor) then refused REAUTHENTICATION_FAILED d
          else (case find (\<lambda>a. accId a = target \<and> accStatus a \<noteq> ACCOUNT_DELETED) (accounts d) of
              None \<Rightarrow> refused UNAUTHORIZED d
            | Some a \<Rightarrow>
                if accRole a = ROLE_SUPERADMIN \<and> role \<noteq> ROLE_SUPERADMIN \<and> otherSuperadmins activeAccount target d = 0
                then refused LAST_SUPERADMIN d
                else (Inr (RoleSet target role),
                  updateAccount target (\<lambda>a. a\<lparr>accRole := role, accUpdatedAt := now\<rparr>) (race d))))"

definition disableAccount ::
    "identity_draw \<Rightarrow> int \<Rightarrow> ident \<Rightarrow> account_row \<Rightarrow> identity_db \<Rightarrow> identity_db option" where
  "disableAccount dr now corr a d =
     (let d1 = revokeSessions (\<lambda>s. loAccount s = accId a) now d in
      if accStatus a \<noteq> ACCOUNT_DISABLED
      then enqueueAccountLifecycleEvent (drRestrict dr) (accId a) corr RESTRICT_ACCOUNT now now d1 else Some d1)"

definition writeStatus ::
    "identity_draw \<Rightarrow> int \<Rightarrow> ident \<Rightarrow> account_row \<Rightarrow> account_status \<Rightarrow> identity_db \<Rightarrow> identity_db option" where
  "writeStatus dr now corr a st d =
     (let d1 = updateAccount (accId a) (\<lambda>b. b\<lparr>accStatus := st, accUpdatedAt := now\<rparr>) d in
      if st = ACCOUNT_ACTIVE then Some (cancelEvents (\<lambda>e. leAccount e = accId a \<and> leType e = RESTRICT_ACCOUNT) now d1)
      else if st = ACCOUNT_DISABLED then disableAccount dr now corr a d1 else Some d1)"

text \<open>The command's status is \<open>ACTIVE\<close> or \<open>DISABLED\<close>.\<close>

definition setAccountStatus ::
    "identity_env \<Rightarrow> identity_draw \<Rightarrow> int \<Rightarrow> ident \<Rightarrow> ident \<Rightarrow> string option \<Rightarrow> account_status \<Rightarrow> string
     \<Rightarrow> identity_db \<Rightarrow> identity_result identity_run" where
  "setAccountStatus env dr now corr target password st tok d =
     (case sessionAccount fullAccount env tok now d of
        None \<Rightarrow> refused UNAUTHORIZED d
      | Some actor \<Rightarrow>
          if \<not> isManager actor then refused UNAUTHORIZED d
          else (case accountById target d of
              None \<Rightarrow> refused UNAUTHORIZED d
            | Some a \<Rightarrow>
                if accStatus a = ACCOUNT_DELETED \<or> accStatus a = ACCOUNT_PENDING_DELETION
                    \<or> (accRole actor = ROLE_ADMIN \<and> accRole a \<noteq> ROLE_USER)
                then refused UNAUTHORIZED d
                else if accRole a = ROLE_SUPERADMIN \<and>
                    (accRole actor \<noteq> ROLE_SUPERADMIN
                     \<or> (case password of None \<Rightarrow> True | Some p \<Rightarrow> \<not> verifyPassword env p (accHash actor)))
                then refused REAUTHENTICATION_FAILED d
                else if accRole a = ROLE_SUPERADMIN \<and> st = ACCOUNT_DISABLED \<and> otherSuperadmins fullAccount target d = 0
                then refused LAST_SUPERADMIN d
                else committing d (StatusSet target st) (writeStatus dr now corr a st d)))"

section \<open>Deletion\<close>

definition startDeletion ::
    "identity_draw \<Rightarrow> int \<Rightarrow> ident \<Rightarrow> ident \<Rightarrow> identity_db \<Rightarrow> identity_db option" where
  "startDeletion dr now corr aid d =
     Option.bind (enqueueAccountLifecycleEvent (drRestrict dr) aid corr RESTRICT_ACCOUNT now now
        (revokeSessions (\<lambda>s. loAccount s = aid) now
          (updateAccount aid (\<lambda>a. a\<lparr>accStatus := ACCOUNT_PENDING_DELETION, accRequestedAt := Some now,
             accDueAt := Some (now + accountDeletionWaitMs), accUpdatedAt := now\<rparr>) d)))
       (enqueueAccountLifecycleEvent (drDelete dr) aid corr DELETE_ACCOUNT now (now + accountDeletionWaitMs))"

definition requestSelfDeletion ::
    "identity_env \<Rightarrow> identity_draw \<Rightarrow> int \<Rightarrow> ident \<Rightarrow> string \<Rightarrow> string \<Rightarrow> identity_db \<Rightarrow> identity_result identity_run" where
  "requestSelfDeletion env dr now corr password tok d =
     (case sessionAccount fullAccount env tok now d of
        None \<Rightarrow> refused UNAUTHORIZED d
      | Some a \<Rightarrow>
          if accRole a \<noteq> ROLE_USER then refused UNAUTHORIZED d
          else if \<not> verifyPassword env password (accHash a) then refused REAUTHENTICATION_FAILED d
          else committing d (DeletionRequested (accId a) (toISOString (now + accountDeletionWaitMs)))
            (startDeletion dr now corr (accId a) d))"

definition requestAccountDeletion ::
    "identity_env \<Rightarrow> identity_draw \<Rightarrow> int \<Rightarrow> ident \<Rightarrow> ident \<Rightarrow> string \<Rightarrow> string \<Rightarrow> identity_db
     \<Rightarrow> identity_result identity_run" where
  "requestAccountDeletion env dr now corr target password tok d =
     (case sessionAccount fullAccount env tok now d of
        None \<Rightarrow> refused UNAUTHORIZED d
      | Some actor \<Rightarrow>
          if accRole actor \<noteq> ROLE_SUPERADMIN then refused UNAUTHORIZED d
          else if \<not> verifyPassword env password (accHash actor) then refused REAUTHENTICATION_FAILED d
          else (case accountById target d of
              None \<Rightarrow> refused UNAUTHORIZED d
            | Some a \<Rightarrow>
                if accRole a \<noteq> ROLE_USER \<or> accStatus a \<noteq> ACCOUNT_ACTIVE then refused UNAUTHORIZED d
                else committing d (DeletionRequested target (toISOString (now + accountDeletionWaitMs)))
                  (startDeletion dr now corr target d)))"

definition cancelSelfDeletion ::
    "identity_env \<Rightarrow> identity_draw \<Rightarrow> int \<Rightarrow> string \<Rightarrow> identity_db \<Rightarrow> identity_result identity_run" where
  "cancelSelfDeletion env dr now tok d =
     (case sessionAccount (\<lambda>a. accStatus a = ACCOUNT_PENDING_DELETION) env tok now d of
        None \<Rightarrow> refused UNAUTHORIZED d
      | Some a \<Rightarrow> committing d (SignedIn FULL (viewAccount a ACCOUNT_ACTIVE) (drToken dr) None)
          (insertLoginSession env dr (accId a) now
            (cancelEvents (\<lambda>e. leAccount e = accId a) now
              (revokeSessions (\<lambda>s. loAccount s = accId a) now
                (updateAccount (accId a) (\<lambda>b. b\<lparr>accStatus := ACCOUNT_ACTIVE, accRequestedAt := None, accDueAt := None,
                   accUpdatedAt := now\<rparr>) d)))))"

section \<open>Accounts and passwords\<close>

definition createAccount ::
    "identity_env \<Rightarrow> identity_draw \<Rightarrow> int \<Rightarrow> account_role \<Rightarrow> string \<Rightarrow> string \<Rightarrow> identity_db \<Rightarrow> identity_result identity_run" where
  "createAccount env dr now role tok username d =
     (let a = newAccount env dr username role (drPassword dr) TEMPORARY now in
      if \<not> isValidUsername username then refused INVALID_USERNAME d
      else (case resolveFullAccessAccount env tok now d of
          None \<Rightarrow> refused UNAUTHORIZED d
        | Some actor \<Rightarrow>
            if \<not> isManager actor \<or> (role = ROLE_ADMIN \<and> accRole actor \<noteq> ROLE_SUPERADMIN) then refused UNAUTHORIZED d
            else (case insertAccount a d of
                None \<Rightarrow> refused USERNAME_TAKEN d
              | Some d' \<Rightarrow> (Inr (AccountCreated (viewAccount a ACCOUNT_ACTIVE) (drPassword dr)), d'))))"

definition givePassword ::
    "identity_env \<Rightarrow> identity_draw \<Rightarrow> int \<Rightarrow> ident \<Rightarrow> string \<Rightarrow> password_kind \<Rightarrow> identity_db \<Rightarrow> identity_db" where
  "givePassword env dr now aid password kind d =
     revokeSessions (\<lambda>s. loAccount s = aid) now (updateAccount aid (setPassword env (drSalt dr) password kind now) d)"

definition resetAccountPassword ::
    "identity_env \<Rightarrow> identity_draw \<Rightarrow> int \<Rightarrow> ident \<Rightarrow> string \<Rightarrow> identity_db \<Rightarrow> identity_result identity_run" where
  "resetAccountPassword env dr now target tok d =
     (case resolveFullAccessAccount env tok now d of
        None \<Rightarrow> refused UNAUTHORIZED d
      | Some actor \<Rightarrow>
          if \<not> isManager actor then refused UNAUTHORIZED d
          else (case accountById target d of
              None \<Rightarrow> refused UNAUTHORIZED d
            | Some a \<Rightarrow>
                if accStatus a = ACCOUNT_DELETED \<or> accRole a = ROLE_SUPERADMIN
                    \<or> (accRole actor = ROLE_ADMIN \<and> accRole a \<noteq> ROLE_USER)
                then refused UNAUTHORIZED d
                else (Inr (PasswordReset target (drPassword dr)),
                  givePassword env dr now target (drPassword dr) TEMPORARY d)))"

definition completeTemporaryPasswordChange ::
    "identity_env \<Rightarrow> identity_draw \<Rightarrow> int \<Rightarrow> string \<Rightarrow> string \<Rightarrow> identity_db \<Rightarrow> identity_result identity_run" where
  "completeTemporaryPasswordChange env dr now newPassword tok d =
     (if \<not> isValidPassword newPassword then refused INVALID_PASSWORD d
      else (case sessionAccount (\<lambda>a. accStatus a = ACCOUNT_ACTIVE \<and> accKind a = TEMPORARY) env tok now d of
          None \<Rightarrow> refused UNAUTHORIZED d
        | Some a \<Rightarrow> committing d (SignedIn FULL (viewAccount a ACCOUNT_ACTIVE) (drToken dr) None)
            (insertLoginSession env dr (accId a) now (givePassword env dr now (accId a) newPassword PERMANENT d))))"

definition changePassword ::
    "identity_env \<Rightarrow> identity_draw \<Rightarrow> int \<Rightarrow> string \<Rightarrow> string \<Rightarrow> string \<Rightarrow> identity_db \<Rightarrow> identity_result identity_run" where
  "changePassword env dr now currentPassword newPassword tok d =
     (if \<not> isValidPassword newPassword then refused INVALID_PASSWORD d
      else (case sessionAccount activeAccount env tok now d of
          None \<Rightarrow> refused UNAUTHORIZED d
        | Some a \<Rightarrow>
            if \<not> verifyPassword env currentPassword (accHash a) then refused INVALID_CREDENTIALS d
            else (Inr Done, givePassword env dr now (accId a) newPassword PERMANENT d)))"

section \<open>Logging in\<close>

definition throttleOf :: "string \<Rightarrow> identity_db \<Rightarrow> throttle_row option" where
  "throttleOf k d = find (\<lambda>t. thKey t = k) (throttles d)"

definition lockedUntil :: "int \<Rightarrow> throttle_row option \<Rightarrow> int option" where
  "lockedUntil now th = (case Option.bind th thLockedUntil of None \<Rightarrow> None | Some t \<Rightarrow> if t > now then Some t else None)"

definition keyAccount :: "string \<Rightarrow> identity_db \<Rightarrow> account_row option" where
  "keyAccount k d = find (\<lambda>a. accKey a = k) (accounts d)"

definition mayLogIn :: "identity_env \<Rightarrow> string \<Rightarrow> account_row \<Rightarrow> bool" where
  "mayLogIn env password a \<longleftrightarrow> \<not> (accStatus a = ACCOUNT_DISABLED \<or> accStatus a = ACCOUNT_DELETED
     \<or> \<not> verifyPassword env password (accHash a) \<or> (accStatus a = ACCOUNT_PENDING_DELETION \<and> accDueAt a = None))"

definition failedCount :: "throttle_row option \<Rightarrow> int" where
  "failedCount th = (case th of None \<Rightarrow> 0 | Some t \<Rightarrow> thCount t) + 1"

definition newLock :: "int \<Rightarrow> int \<Rightarrow> int option" where
  "newLock now n = (if n \<ge> 5 then Some (now + loginThrottleLifetimeMs) else None)"

text \<open>\<open>ON CONFLICT (username_key) DO UPDATE\<close>; the count is a 32-bit integer.\<close>

definition upsertThrottle :: "throttle_row \<Rightarrow> identity_db \<Rightarrow> identity_db option" where
  "upsertThrottle t d =
     (if thCount t \<ge> 2 ^ 31 then None
      else Some (d\<lparr>throttles := (if throttleOf (thKey t) d = None then throttles d @ [t]
         else map (\<lambda>u. if thKey u = thKey t then t else u) (throttles d))\<rparr>))"

definition loginAccess :: "account_row \<Rightarrow> access_level option" where
  "loginAccess a =
     (if accStatus a = ACCOUNT_PENDING_DELETION then map_option (\<lambda>t. DELETION_PENDING (toISOString t)) (accDueAt a)
      else Some (if accKind a = TEMPORARY then PASSWORD_CHANGE_REQUIRED else FULL))"

definition loginRefused ::
    "identity_env \<Rightarrow> identity_draw \<Rightarrow> int \<Rightarrow> ident \<Rightarrow> string \<Rightarrow> account_row option \<Rightarrow> throttle_row option
     \<Rightarrow> identity_db \<Rightarrow> identity_result identity_run" where
  "loginRefused env dr now corr k a th d =
     (let n = failedCount th; lock = newLock now n in
      committing d (Failed (case lock of None \<Rightarrow> INVALID_CREDENTIALS | Some t \<Rightarrow> LOGIN_THROTTLED (toISOString t)))
        (Option.bind (upsertThrottle \<lparr>thKey = k, thCount = n, thLockedUntil = lock, thUpdatedAt = now\<rparr> d)
          (appendAudit (drAudit dr) ''LOGIN'' (map_option accId a) corr ON_ACCOUNT
            (case a of None \<Rightarrow> k | Some b \<Rightarrow> accId b) now DENIED)))"

definition loginAllowed ::
    "identity_env \<Rightarrow> identity_draw \<Rightarrow> int \<Rightarrow> ident \<Rightarrow> string \<Rightarrow> account_row \<Rightarrow> identity_db
     \<Rightarrow> identity_result identity_run" where
  "loginAllowed env dr now corr k a d =
     (case Option.bind (insertLoginSession env dr (accId a) now
              (d\<lparr>throttles := filter (\<lambda>t. thKey t \<noteq> k) (throttles d)\<rparr>))
            (appendAudit (drAudit dr) ''LOGIN'' (Some (accId a)) corr ON_ACCOUNT (accId a) now ALLOWED) of
        None \<Rightarrow> (Inl IDENTITY_ROW_REJECTED, d)
      | Some d' \<Rightarrow>
          (case loginAccess a of
             None \<Rightarrow> (Inl DELETION_WITHOUT_DUE_DATE, d')
           | Some acc \<Rightarrow> (Inr (SignedIn acc
               (viewAccount a (if accStatus a = ACCOUNT_PENDING_DELETION then ACCOUNT_PENDING_DELETION else ACCOUNT_ACTIVE))
               (drToken dr) None), d')))"

definition login ::
    "identity_env \<Rightarrow> identity_draw \<Rightarrow> int \<Rightarrow> ident \<Rightarrow> string \<Rightarrow> string \<Rightarrow> identity_db \<Rightarrow> identity_result identity_run" where
  "login env dr now corr password username d =
     (let k = normalizeUsername username; th = throttleOf k d in
      case lockedUntil now th of
        Some t \<Rightarrow> committing d (Failed (LOGIN_THROTTLED (toISOString t)))
          (appendAudit (drAudit dr) ''LOGIN'' None corr ON_ACCOUNT k now DENIED d)
      | None \<Rightarrow>
          (case keyAccount k d of
             None \<Rightarrow> loginRefused env dr now corr k None th d
           | Some a \<Rightarrow>
               if mayLogIn env password a then loginAllowed env dr now corr k a d
               else loginRefused env dr now corr k (Some a) th d))"

definition logoutCurrent :: "identity_env \<Rightarrow> int \<Rightarrow> string \<Rightarrow> identity_db \<Rightarrow> identity_db" where
  "logoutCurrent env now tok d = revokeSessions (\<lambda>s. loToken s = hashOpaqueSecret env tok) now d"

definition logoutAll :: "identity_env \<Rightarrow> int \<Rightarrow> string \<Rightarrow> identity_db \<Rightarrow> identity_result identity_run" where
  "logoutAll env now tok d =
     (case resolveFullAccessAccount env tok now d of
        None \<Rightarrow> refused UNAUTHORIZED d
      | Some a \<Rightarrow> (Inr Done, revokeSessions (\<lambda>s. loAccount s = accId a) now d))"

end
