(* ===== verification/CM_Identity_Access.thy ===== *)
theory CM_Identity_Access
  imports CM_Identity
begin

text \<open>
  The module in front of the operations (openPostgresIdentityAccess: the dispatch of commands with their audit,
  and the queries), and the worker that carries out the events of an account's lifecycle (lifecycle-worker.ts).
\<close>

section \<open>Commands\<close>

datatype identity_command =
    BOOTSTRAP_SUPERADMIN bool string string \<comment> \<open>local, password, username\<close>
  | CREATE_INVITATION string
  | REGISTER_WITH_INVITATION string string string \<comment> \<open>code, password, username\<close>
  | LOGIN string string \<comment> \<open>password, username\<close>
  | LOGOUT_CURRENT string
  | LOGOUT_ALL string
  | CHANGE_PASSWORD string string string \<comment> \<open>current, new, token\<close>
  | CREATE_ACCOUNT account_role string string \<comment> \<open>role, token, username\<close>
  | COMPLETE_TEMPORARY_PASSWORD_CHANGE string string \<comment> \<open>new, token\<close>
  | RESET_ACCOUNT_PASSWORD ident string
  | REVOKE_INVITATION ident string
  | SET_ACCOUNT_ROLE ident string account_role string \<comment> \<open>account, current, role, token\<close>
  | SET_ACCOUNT_STATUS ident "string option" string account_status \<comment> \<open>account, current, token, status\<close>
  | REQUEST_SELF_DELETION string string \<comment> \<open>current, token\<close>
  | CANCEL_SELF_DELETION string
  | RECOVER_SUPERADMIN bool string string \<comment> \<open>local, new, code\<close>
  | REQUEST_ACCOUNT_DELETION ident string string \<comment> \<open>account, current, token\<close>

definition commandType :: "identity_command \<Rightarrow> string" where
  "commandType c = (case c of
      BOOTSTRAP_SUPERADMIN _ _ _ \<Rightarrow> ''BOOTSTRAP_SUPERADMIN'' | CREATE_INVITATION _ \<Rightarrow> ''CREATE_INVITATION''
    | REGISTER_WITH_INVITATION _ _ _ \<Rightarrow> ''REGISTER_WITH_INVITATION'' | LOGIN _ _ \<Rightarrow> ''LOGIN''
    | LOGOUT_CURRENT _ \<Rightarrow> ''LOGOUT_CURRENT'' | LOGOUT_ALL _ \<Rightarrow> ''LOGOUT_ALL''
    | CHANGE_PASSWORD _ _ _ \<Rightarrow> ''CHANGE_PASSWORD'' | CREATE_ACCOUNT _ _ _ \<Rightarrow> ''CREATE_ACCOUNT''
    | COMPLETE_TEMPORARY_PASSWORD_CHANGE _ _ \<Rightarrow> ''COMPLETE_TEMPORARY_PASSWORD_CHANGE''
    | RESET_ACCOUNT_PASSWORD _ _ \<Rightarrow> ''RESET_ACCOUNT_PASSWORD'' | REVOKE_INVITATION _ _ \<Rightarrow> ''REVOKE_INVITATION''
    | SET_ACCOUNT_ROLE _ _ _ _ \<Rightarrow> ''SET_ACCOUNT_ROLE'' | SET_ACCOUNT_STATUS _ _ _ _ \<Rightarrow> ''SET_ACCOUNT_STATUS''
    | REQUEST_SELF_DELETION _ _ \<Rightarrow> ''REQUEST_SELF_DELETION'' | CANCEL_SELF_DELETION _ \<Rightarrow> ''CANCEL_SELF_DELETION''
    | RECOVER_SUPERADMIN _ _ _ \<Rightarrow> ''RECOVER_SUPERADMIN'' | REQUEST_ACCOUNT_DELETION _ _ _ \<Rightarrow> ''REQUEST_ACCOUNT_DELETION'')"

text \<open>\<open>"sessionToken" in command\<close>\<close>

definition commandToken :: "identity_command \<Rightarrow> string option" where
  "commandToken c = (case c of
      BOOTSTRAP_SUPERADMIN _ _ _ \<Rightarrow> None | CREATE_INVITATION t \<Rightarrow> Some t
    | REGISTER_WITH_INVITATION _ _ _ \<Rightarrow> None | LOGIN _ _ \<Rightarrow> None
    | LOGOUT_CURRENT t \<Rightarrow> Some t | LOGOUT_ALL t \<Rightarrow> Some t
    | CHANGE_PASSWORD _ _ t \<Rightarrow> Some t | CREATE_ACCOUNT _ t _ \<Rightarrow> Some t
    | COMPLETE_TEMPORARY_PASSWORD_CHANGE _ t \<Rightarrow> Some t
    | RESET_ACCOUNT_PASSWORD _ t \<Rightarrow> Some t | REVOKE_INVITATION _ t \<Rightarrow> Some t
    | SET_ACCOUNT_ROLE _ _ _ t \<Rightarrow> Some t | SET_ACCOUNT_STATUS _ _ t _ \<Rightarrow> Some t
    | REQUEST_SELF_DELETION _ t \<Rightarrow> Some t | CANCEL_SELF_DELETION t \<Rightarrow> Some t
    | RECOVER_SUPERADMIN _ _ _ \<Rightarrow> None | REQUEST_ACCOUNT_DELETION _ _ t \<Rightarrow> Some t)"

definition succeeded :: "identity_result \<Rightarrow> bool" where
  "succeeded r = (case r of Failed _ \<Rightarrow> False | _ \<Rightarrow> True)"

text \<open>\<open>result.ok && "account" in result ? result.account.accountId : otherwise\<close>\<close>

definition accountOr :: "string \<Rightarrow> identity_result \<Rightarrow> string" where
  "accountOr otherwise r = (case r of SignedIn _ v _ _ \<Rightarrow> avId v | AccountCreated v _ \<Rightarrow> avId v
     | RoleSet a _ \<Rightarrow> a | StatusSet a _ \<Rightarrow> a | _ \<Rightarrow> otherwise)"

text \<open>The audit is written after the operation's own transaction.\<close>

definition withAudit ::
    "identity_draw \<Rightarrow> int \<Rightarrow> ident \<Rightarrow> string \<Rightarrow> audit_object \<Rightarrow> (identity_result \<Rightarrow> string)
     \<Rightarrow> (identity_result \<Rightarrow> ident option) \<Rightarrow> identity_result identity_run \<Rightarrow> identity_result identity_run" where
  "withAudit dr now corr act ty obj actor run =
     (case run of
        (Inl e, d) \<Rightarrow> (Inl e, d)
      | (Inr r, d) \<Rightarrow>
          (case appendAudit (drAudit dr) act (actor r) corr ty (obj r) now (if succeeded r then ALLOWED else DENIED) d of
             None \<Rightarrow> (Inl IDENTITY_ROW_REJECTED, d)
           | Some d' \<Rightarrow> (Inr r, d')))"

definition orUnknown :: "ident option \<Rightarrow> string" where
  "orUnknown a = (case a of None \<Rightarrow> ''unknown'' | Some i \<Rightarrow> i)"

definition execute ::
    "identity_env \<Rightarrow> identity_draw \<Rightarrow> int \<Rightarrow> ident \<Rightarrow> identity_command \<Rightarrow> identity_db \<Rightarrow> identity_result identity_run" where
  "execute env dr now corr c d =
     (let actor = Option.bind (commandToken c) (\<lambda>tok. resolveAuditActorAccountId env tok now d);
          audited = \<lambda>ty obj. withAudit dr now corr (commandType c) ty obj (\<lambda>_. actor)
      in case c of
        BOOTSTRAP_SUPERADMIN isLocal password username \<Rightarrow>
          if \<not> isValidUsername username then refused INVALID_USERNAME d
          else if \<not> isValidPassword password then refused INVALID_PASSWORD d
          else if \<not> isLocal then refused BOOTSTRAP_LOCAL_ONLY d
          else bootstrapSuperadmin env dr now corr username password d
      | CREATE_INVITATION tok \<Rightarrow> createInvitation env dr now corr tok d
      | REGISTER_WITH_INVITATION secret password username \<Rightarrow> registerWithInvitation env dr now corr secret username password d
      | LOGIN password username \<Rightarrow> login env dr now corr password username d
      | LOGOUT_CURRENT tok \<Rightarrow> audited ON_LOGIN_SESSION (\<lambda>_. orUnknown actor) (Inr Done, logoutCurrent env now tok d)
      | LOGOUT_ALL tok \<Rightarrow> audited ON_LOGIN_SESSION
          (\<lambda>_. orUnknown (map_option accId (resolveFullAccessAccount env tok now d))) (logoutAll env now tok d)
      | CHANGE_PASSWORD currentPassword newPassword tok \<Rightarrow>
          audited ON_ACCOUNT (\<lambda>_. orUnknown actor) (changePassword env dr now currentPassword newPassword tok d)
      | CREATE_ACCOUNT role tok username \<Rightarrow>
          audited ON_ACCOUNT (accountOr (normalizeUsername username)) (createAccount env dr now role tok username d)
      | COMPLETE_TEMPORARY_PASSWORD_CHANGE newPassword tok \<Rightarrow>
          audited ON_ACCOUNT (accountOr (orUnknown actor)) (completeTemporaryPasswordChange env dr now newPassword tok d)
      | RESET_ACCOUNT_PASSWORD target tok \<Rightarrow> audited ON_ACCOUNT (\<lambda>_. target) (resetAccountPassword env dr now target tok d)
      | REVOKE_INVITATION iid tok \<Rightarrow> audited ON_INVITATION (\<lambda>_. iid) (revokeInvitation env now iid tok d)
      | SET_ACCOUNT_ROLE target password role tok \<Rightarrow>
          audited ON_ACCOUNT (\<lambda>_. target) (setAccountRole (\<lambda>d. d) env now target password role tok d)
      | SET_ACCOUNT_STATUS target password tok st \<Rightarrow>
          audited ON_ACCOUNT (\<lambda>_. target) (setAccountStatus env dr now corr target password st tok d)
      | REQUEST_SELF_DELETION password tok \<Rightarrow>
          audited ON_ACCOUNT (\<lambda>_. orUnknown actor) (requestSelfDeletion env dr now corr password tok d)
      | CANCEL_SELF_DELETION tok \<Rightarrow>
          audited ON_ACCOUNT (accountOr (orUnknown actor)) (cancelSelfDeletion env dr now tok d)
      | RECOVER_SUPERADMIN isLocal newPassword secret \<Rightarrow>
          withAudit dr now corr (commandType c) ON_ACCOUNT (accountOr ''unknown'')
            (\<lambda>r. case r of SignedIn _ v _ _ \<Rightarrow> Some (avId v) | _ \<Rightarrow> None)
            (recoverSuperadmin env dr now isLocal newPassword secret d)
      | REQUEST_ACCOUNT_DELETION target password tok \<Rightarrow>
          audited ON_ACCOUNT (\<lambda>_. target) (requestAccountDeletion env dr now corr target password tok d))"

section \<open>Queries\<close>

definition bootstrapRequired :: "identity_db \<Rightarrow> bool" where
  "bootstrapRequired d \<longleftrightarrow> length (accounts d) = 0"

record current_session =
  csAccess :: access_level
  csAccount :: account_view
  csDueAt :: "string option"

definition openAccount :: "account_row \<Rightarrow> bool" where
  "openAccount a \<longleftrightarrow> accStatus a = ACCOUNT_ACTIVE \<or> accStatus a = ACCOUNT_PENDING_DELETION"

text \<open>\<open>None\<close>: not authenticated.\<close>

definition getCurrentSession :: "identity_env \<Rightarrow> string \<Rightarrow> int \<Rightarrow> identity_db \<Rightarrow> identity_error + current_session option" where
  "getCurrentSession env tok now d =
     (case sessionAccount openAccount env tok now d of
        None \<Rightarrow> Inr None
      | Some a \<Rightarrow>
          (case loginAccess a of
             None \<Rightarrow> Inl DELETION_WITHOUT_DUE_DATE
           | Some acc \<Rightarrow> Inr (Some \<lparr>csAccess = acc, csAccount = viewAccount a (accStatus a),
               csDueAt = map_option toISOString (accDueAt a)\<rparr>)))"

record audit_view =
  adId :: ident
  adAction :: string
  adActor :: "ident option"
  adCorrelation :: ident
  adObject :: "string \<times> audit_object"
  adAt :: string
  adResult :: identity_audit_result

definition auditView :: "identity_audit_row \<Rightarrow> audit_view" where
  "auditView r = \<lparr>adId = iauId r, adAction = iauAction r, adActor = iauActor r, adCorrelation = iauCorrelation r,
     adObject = (iauObject r, iauObjectType r), adAt = toISOString (iauAt r), adResult = iauResult r\<rparr>"

definition dropOldAudits :: "int \<Rightarrow> identity_db \<Rightarrow> identity_db" where
  "dropOldAudits now d = d\<lparr>auditRows := filter (\<lambda>r. iauAt r \<ge> now - auditRetentionMs) (auditRows d)\<rparr>"

text \<open>The newest first, of equal times the greatest id.\<close>

definition listIdentityAudits :: "identity_env \<Rightarrow> string \<Rightarrow> int \<Rightarrow> identity_db \<Rightarrow> audit_view list option \<times> identity_db" where
  "listIdentityAudits env tok now d =
     (case resolveFullAccessAccount env tok now d of
        None \<Rightarrow> (None, d)
      | Some a \<Rightarrow>
          if accRole a \<noteq> ROLE_SUPERADMIN then (None, d)
          else (Some (map auditView (rev (sort_key iauAt (sort_key iauId (auditRows (dropOldAudits now d)))))),
            dropOldAudits now d))"

record account_entry =
  aeId :: ident
  aeCreatedAt :: string
  aeDueAt :: "string option"
  aeRole :: account_role
  aeStatus :: account_status
  aeUsername :: string

definition accountEntry :: "account_row \<Rightarrow> account_entry" where
  "accountEntry a = \<lparr>aeId = accId a, aeCreatedAt = toISOString (accCreatedAt a),
     aeDueAt = map_option toISOString (accDueAt a), aeRole = accRole a, aeStatus = accStatus a, aeUsername = accUsername a\<rparr>"

definition roleRank :: "account_role \<Rightarrow> nat" where
  "roleRank r = (case r of ROLE_SUPERADMIN \<Rightarrow> 0 | ROLE_ADMIN \<Rightarrow> 1 | ROLE_USER \<Rightarrow> 2)"

definition listAccounts :: "identity_env \<Rightarrow> string \<Rightarrow> int \<Rightarrow> identity_db \<Rightarrow> account_entry list option" where
  "listAccounts env tok now d =
     (case resolveFullAccessAccount env tok now d of
        None \<Rightarrow> None
      | Some a \<Rightarrow> if \<not> isManager a then None
          else Some (map accountEntry
            (sort_key accCreatedAt (sort_key (\<lambda>a. roleRank (accRole a)) (sort_key accId (accounts d))))))"

datatype invitation_status = INVITATION_ACTIVE | INVITATION_EXPIRED | INVITATION_REVOKED | INVITATION_USED

definition invitationStatus :: "int \<Rightarrow> invitation_row \<Rightarrow> invitation_status" where
  "invitationStatus now i =
     (if inUsedAt i \<noteq> None then INVITATION_USED
      else if inRevokedAt i \<noteq> None then INVITATION_REVOKED
      else if inExpiresAt i \<le> now then INVITATION_EXPIRED
      else INVITATION_ACTIVE)"

definition listInvitations ::
    "identity_env \<Rightarrow> string \<Rightarrow> int \<Rightarrow> identity_db \<Rightarrow> (ident \<times> string \<times> string \<times> invitation_status) list option" where
  "listInvitations env tok now d =
     (case resolveFullAccessAccount env tok now d of
        None \<Rightarrow> None
      | Some a \<Rightarrow> if \<not> isManager a then None
          else Some (map (\<lambda>i. (inId i, toISOString (inCreatedAt i), toISOString (inExpiresAt i), invitationStatus now i))
            (rev (sort_key inCreatedAt (sort_key inId (invitations d))))))"

section \<open>The lifecycle worker\<close>

record lifecycle_event =
  lvAccount :: ident
  lvAttempts :: nat
  lvCorrelation :: ident
  lvEvent :: ident
  lvType :: lifecycle_event_type
  lvOccurredAt :: string
  lvScheduledAt :: string

definition toIdentityLifecycleEvent :: "lifecycle_row \<Rightarrow> lifecycle_event" where
  "toIdentityLifecycleEvent e = \<lparr>lvAccount = leAccount e, lvAttempts = leAttempts e, lvCorrelation = leCorrelation e,
     lvEvent = leId e, lvType = leType e, lvOccurredAt = toISOString (leOccurredAt e),
     lvScheduledAt = toISOString (leScheduledAt e)\<rparr>"

datatype lifecycle_result = IDLE | PROCESSED lifecycle_event | RETRY_SCHEDULED

definition liveEvent :: "lifecycle_row \<Rightarrow> bool" where
  "liveEvent e \<longleftrightarrow> leProcessedAt e = None \<and> leCancelledAt e = None"

definition dueEvent :: "int \<Rightarrow> identity_db \<Rightarrow> lifecycle_row option" where
  "dueEvent now d =
     (case sort_key leScheduledAt (sort_key leOccurredAt (sort_key leId
          (filter (\<lambda>e. liveEvent e \<and> leScheduledAt e \<le> now) (lifecycleEvents d)))) of
        [] \<Rightarrow> None
      | e # _ \<Rightarrow> Some e)"

definition updateEvent :: "ident \<Rightarrow> (lifecycle_row \<Rightarrow> lifecycle_row) \<Rightarrow> identity_db \<Rightarrow> identity_db" where
  "updateEvent eid f d = d\<lparr>lifecycleEvents := map (\<lambda>e. if leId e = eid then f e else e) (lifecycleEvents d)\<rparr>"

definition pseudonym :: "identity_env \<Rightarrow> ident \<Rightarrow> string" where
  "pseudonym env aid = ''deleted_'' @ take 16 (hashOpaqueSecret env aid)"

definition pseudonymise :: "ident \<Rightarrow> string \<Rightarrow> identity_audit_row \<Rightarrow> identity_audit_row" where
  "pseudonymise aid ps r =
     (let r1 = (if iauActor r = Some aid then r\<lparr>iauActor := Some ps\<rparr> else r) in
      if iauObjectType r1 = ON_ACCOUNT \<and> iauObject r1 = aid then r1\<lparr>iauObject := ps\<rparr> else r1)"

text \<open>
  \<open>username_key\<close> is unique and an invitation is used by an existing account: the references of the deleted
  invitations' rows lie in the other direction.
\<close>

definition eraseIdentityAccount :: "identity_env \<Rightarrow> ident \<Rightarrow> int \<Rightarrow> identity_db \<Rightarrow> identity_error + identity_db" where
  "eraseIdentityAccount env aid now d =
     (case accountById aid d of
        None \<Rightarrow> Inr d
      | Some a \<Rightarrow>
          if accStatus a = ACCOUNT_DELETED then Inr d
          else if accStatus a \<noteq> ACCOUNT_PENDING_DELETION then Inl ERASURE_OUT_OF_PLACE
          else if list_ex (\<lambda>b. accKey b = pseudonym env aid \<and> accId b \<noteq> aid) (accounts d) then Inl IDENTITY_ROW_REJECTED
          else Inr (updateAccount aid (\<lambda>b. b\<lparr>accUsername := pseudonym env aid, accKey := pseudonym env aid,
                 accStatus := ACCOUNT_DELETED, accHash := ''deleted:'' @ pseudonym env aid, accKind := PERMANENT,
                 accRequestedAt := None, accDueAt := None, accUpdatedAt := now\<rparr>)
               (d\<lparr>recoveryCodes := filter (\<lambda>r. recAccount r \<noteq> aid) (recoveryCodes d),
                  loginSessions := filter (\<lambda>s. loAccount s \<noteq> aid) (loginSessions d),
                  throttles := filter (\<lambda>t. thKey t \<noteq> accKey a) (throttles d),
                  invitations := filter (\<lambda>i. inCreator i \<noteq> aid)
                    (map (\<lambda>i. if inUsedBy i = Some aid then i\<lparr>inUsedBy := None\<rparr> else i) (invitations d)),
                  auditRows := map (pseudonymise aid (pseudonym env aid)) (auditRows d)\<rparr>)))"

text \<open>
  One run: \<open>runAt\<close>, \<open>eraseAt\<close> and \<open>doneAt\<close> are the readings of the clock; \<open>handled\<close> tells whether the handler of
  the event (a parameter, which works on other stores) succeeded. \<open>cleanAt\<close> is the time of the next audit cleanup.
\<close>

definition lifecycleRun ::
    "identity_env \<Rightarrow> (lifecycle_event \<Rightarrow> bool) \<Rightarrow> int \<Rightarrow> int \<Rightarrow> int \<Rightarrow> identity_db
     \<Rightarrow> (identity_error + lifecycle_result) \<times> identity_db" where
  "lifecycleRun env handled runAt eraseAt doneAt d =
     (case dueEvent runAt d of
        None \<Rightarrow> (Inr IDLE, d)
      | Some e \<Rightarrow>
          if \<not> handled (toIdentityLifecycleEvent e)
          then (Inr RETRY_SCHEDULED, updateEvent (leId e) (\<lambda>e. e\<lparr>leAttempts := Suc (leAttempts e), leLastAttempt := Some doneAt\<rparr>) d)
          else (case (if leType e = DELETE_ACCOUNT then eraseIdentityAccount env (leAccount e) eraseAt d else Inr d) of
              Inl x \<Rightarrow> (Inl x, d)
            | Inr d' \<Rightarrow> (Inr (PROCESSED (toIdentityLifecycleEvent e)),
                updateEvent (leId e) (\<lambda>e. e\<lparr>leProcessedAt := Some doneAt, leAttempts := Suc (leAttempts e),
                  leLastAttempt := Some doneAt\<rparr>) d')))"

definition auditCleanupIntervalMs :: int where "auditCleanupIntervalMs = 24 * 60 * 60 * 1000"

definition lifecycleRunOnce ::
    "identity_env \<Rightarrow> (lifecycle_event \<Rightarrow> bool) \<Rightarrow> int \<Rightarrow> int \<Rightarrow> int \<Rightarrow> int \<times> identity_db
     \<Rightarrow> (identity_error + lifecycle_result) \<times> int \<times> identity_db" where
  "lifecycleRunOnce env handled runAt eraseAt doneAt = (\<lambda>(cleanAt, d).
     let due = runAt \<ge> cleanAt;
         (r, d') = lifecycleRun env handled runAt eraseAt doneAt (if due then dropOldAudits runAt d else d)
     in (r, (if due then runAt + auditCleanupIntervalMs else cleanAt), d'))"

end
