(* ===== verification/CM_Identity_Facts.thy ===== *)
theory CM_Identity_Facts
  imports CM_Identity_Access
begin

text \<open>
  The commands and the worker reduced to a dozen effects on the tables. A command that succeeds is a sequence of
  effects (\<open>execute_effects\<close>), so that what each effect keeps, every command keeps.
\<close>

section \<open>Effects\<close>

definition sameCore :: "identity_db \<Rightarrow> identity_db \<Rightarrow> bool" where
  "sameCore d d' \<longleftrightarrow> accounts d' = accounts d \<and> loginSessions d' = loginSessions d \<and> lifecycleEvents d' = lifecycleEvents d"

definition deletions :: "ident \<Rightarrow> identity_db \<Rightarrow> lifecycle_row list" where
  "deletions aid d = filter (\<lambda>e. leAccount e = aid \<and> leType e = DELETE_ACCOUNT \<and> liveEvent e) (lifecycleEvents d)"

text \<open>The other superadmins that can act.\<close>

definition activeSuperadmin :: "account_row \<Rightarrow> bool" where
  "activeSuperadmin a \<longleftrightarrow> accRole a = ROLE_SUPERADMIN \<and> accStatus a = ACCOUNT_ACTIVE"

inductive effect :: "identity_db \<Rightarrow> identity_db \<Rightarrow> bool" where
  other: "sameCore d d' \<Longrightarrow> effect d d'"
| account: "insertAccount a d = Some d' \<Longrightarrow> accStatus a = ACCOUNT_ACTIVE \<Longrightarrow> accDueAt a = None \<Longrightarrow>
     accounts d = [] \<longrightarrow> activeSuperadmin a \<Longrightarrow> effect d d'"
| session: "insertLoginSession env dr (accId a) now d = Some d' \<Longrightarrow> a \<in> set (accounts d) \<Longrightarrow> openAccount a \<Longrightarrow> effect d d'"
| revoke: "effect d (revokeSessions p now d)"
| password: "a \<in> set (accounts d) \<Longrightarrow> accStatus a \<noteq> ACCOUNT_DELETED \<Longrightarrow>
     effect d (updateAccount (accId a) (setPassword env salt p kind now) d)"
| role: "a \<in> set (accounts d) \<Longrightarrow> accStatus a \<noteq> ACCOUNT_DELETED \<Longrightarrow>
     r = ROLE_SUPERADMIN \<or> accRole a \<noteq> ROLE_SUPERADMIN \<or> (\<exists>b \<in> set (accounts d). accId b \<noteq> accId a \<and> activeSuperadmin b) \<Longrightarrow>
     effect d (updateAccount (accId a) (\<lambda>a. a\<lparr>accRole := r, accUpdatedAt := now\<rparr>) d)"
| status: "a \<in> set (accounts d) \<Longrightarrow> accStatus a = ACCOUNT_ACTIVE \<or> accStatus a = ACCOUNT_DISABLED \<Longrightarrow>
     st = ACCOUNT_ACTIVE \<or> st = ACCOUNT_DISABLED \<Longrightarrow>
     st = ACCOUNT_ACTIVE \<or> accRole a \<noteq> ROLE_SUPERADMIN \<or> (\<exists>b \<in> set (accounts d). accId b \<noteq> accId a \<and> activeSuperadmin b) \<Longrightarrow>
     effect d (updateAccount (accId a) (\<lambda>b. b\<lparr>accStatus := st, accUpdatedAt := now\<rparr>) d)"
| restrict: "accounts d' = accounts d \<Longrightarrow> loginSessions d' = loginSessions d \<Longrightarrow>
     distinct (map leId (lifecycleEvents d)) \<longrightarrow> distinct (map leId (lifecycleEvents d')) \<Longrightarrow>
     (\<And>e. e \<in> set (lifecycleEvents d') \<Longrightarrow> leAccount e \<in> leAccount ` set (lifecycleEvents d) \<union> accId ` set (accounts d)) \<Longrightarrow>
     (\<And>aid. deletions aid d' = deletions aid d) \<Longrightarrow> effect d d'"
| start: "startDeletion dr now corr (accId a) d = Some d' \<Longrightarrow> a \<in> set (accounts d) \<Longrightarrow> accStatus a = ACCOUNT_ACTIVE \<Longrightarrow>
     accRole a = ROLE_USER \<Longrightarrow> effect d d'"
| cancel: "a \<in> set (accounts d) \<Longrightarrow> accStatus a = ACCOUNT_PENDING_DELETION \<Longrightarrow>
     effect d (cancelEvents (\<lambda>e. leAccount e = accId a) now (revokeSessions (\<lambda>s. loAccount s = accId a) now
       (updateAccount (accId a) (\<lambda>b. b\<lparr>accStatus := ACCOUNT_ACTIVE, accRequestedAt := None, accDueAt := None,
          accUpdatedAt := now\<rparr>) d)))"

abbreviation effects :: "identity_db \<Rightarrow> identity_db \<Rightarrow> bool" where
  "effects \<equiv> effect\<^sup>*\<^sup>*"

lemma effects_trans: "effects d e \<Longrightarrow> effects e f \<Longrightarrow> effects d f"
  by (rule rtranclp_trans)

lemma effect_effects: "effect d e \<Longrightarrow> effects d e"
  by (rule r_into_rtranclp)

lemma effects_step: "effects d e \<Longrightarrow> effect e f \<Longrightarrow> effects d f"
  by (rule rtranclp.rtrancl_into_rtrancl)

lemma find_in: "find P xs = Some x \<Longrightarrow> x \<in> set xs \<and> P x"
  by (auto simp: find_Some_iff)

lemma sessionAccountD:
  assumes "sessionAccount ok env tok now d = Some a"
  shows "a \<in> set (accounts d)" and "ok a"
  using assms by (auto simp: sessionAccount_def split: option.splits dest!: find_in)

lemma accountByIdD: "accountById aid d = Some a \<Longrightarrow> a \<in> set (accounts d) \<and> accId a = aid"
  unfolding accountById_def by (rule find_in)

lemma sameCore_update [simp]:
  "sameCore d d" "sameCore d (d\<lparr>recoveryCodes := rs\<rparr>)" "sameCore d (d\<lparr>invitations := is\<rparr>)"
  "sameCore d (d\<lparr>throttles := ts\<rparr>)" "sameCore d (d\<lparr>auditRows := as\<rparr>)"
  by (simp_all add: sameCore_def)

lemma appendAudit_effect: "appendAudit aid act actor corr ty obj now res d = Some d' \<Longrightarrow> effect d d'"
  by (rule effect.other) (auto simp: appendAudit_def sameCore_def split: if_splits)

lemma otherSuperadmins_pos:
  assumes "otherSuperadmins p aid d \<noteq> 0" and "\<And>a. p a \<Longrightarrow> accStatus a = ACCOUNT_ACTIVE"
  shows "\<exists>b \<in> set (accounts d). accId b \<noteq> aid \<and> activeSuperadmin b"
proof -
  from assms(1) obtain b where "b \<in> set (filter (\<lambda>a. accRole a = ROLE_SUPERADMIN \<and> p a \<and> accId a \<noteq> aid) (accounts d))"
    by (cases "filter (\<lambda>a. accRole a = ROLE_SUPERADMIN \<and> p a \<and> accId a \<noteq> aid) (accounts d)")
      (auto simp: otherSuperadmins_def)
  then show ?thesis using assms(2) by (auto simp: activeSuperadmin_def)
qed

text \<open>A run that leaves its tables by effects only.\<close>

definition runsTo :: "identity_db \<Rightarrow> 'a identity_run \<Rightarrow> bool" where
  "runsTo d run \<longleftrightarrow> effects d (snd run)"

lemma runsTo_refused [simp]: "runsTo d (refused c d)"
  by (simp add: runsTo_def refused_def)

lemma runsTo_same [simp]: "runsTo d (r, d)"
  by (simp add: runsTo_def)

lemma runsTo_committing: "(\<And>e. d' = Some e \<Longrightarrow> effects d e) \<Longrightarrow> runsTo d (committing d r d')"
  by (simp add: runsTo_def committing_def split: option.split)

lemma runsTo_pair: "effects d e \<Longrightarrow> runsTo d (r, e)"
  by (simp add: runsTo_def)

lemma runsTo_withAudit: "runsTo d run \<Longrightarrow> runsTo d (withAudit dr now corr act ty obj actor run)"
  by (auto simp: runsTo_def withAudit_def split: prod.split sum.split option.split
      intro: effects_step dest: appendAudit_effect)

section \<open>Each operation by effects\<close>

lemma insertAccount_accounts: "insertAccount a d = Some d' \<Longrightarrow> accounts d' = accounts d @ [a] \<and> loginSessions d' = loginSessions d
    \<and> lifecycleEvents d' = lifecycleEvents d"
  by (auto simp: insertAccount_def split: if_splits)

lemma newAccount_simps [simp]:
  "accId (newAccount env dr un r pw k now) = drAccount dr" "accStatus (newAccount env dr un r pw k now) = ACCOUNT_ACTIVE"
  "accDueAt (newAccount env dr un r pw k now) = None" "accRole (newAccount env dr un r pw k now) = r"
  "accKind (newAccount env dr un r pw k now) = k" "accKey (newAccount env dr un r pw k now) = normalizeUsername un"
  by (simp_all add: newAccount_def)

lemma openAccount_active: "accStatus a = ACCOUNT_ACTIVE \<Longrightarrow> openAccount a"
  by (simp add: openAccount_def)

text \<open>A new account and its first session.\<close>

lemma account_session_effects:
  assumes new: "insertAccount a d = Some d1" "accStatus a = ACCOUNT_ACTIVE" "accDueAt a = None"
      "accounts d = [] \<longrightarrow> activeSuperadmin a"
    and core: "sameCore d1 d2" and ses: "insertLoginSession env dr (accId a) now d2 = Some d3"
  shows "effects d d3"
proof -
  have "effects d d2" using effect.account [OF new] effect.other [OF core] by (meson effect_effects effects_step)
  moreover have "a \<in> set (accounts d2)" using core insertAccount_accounts [OF new(1)] by (simp add: sameCore_def)
  ultimately show ?thesis using effect.session [OF ses _ openAccount_active] new(2) by (blast intro: effects_step)
qed

lemma bootstrap_effects: "runsTo d (bootstrapSuperadmin env dr now corr username password d)"
proof -
  let ?a = "newAccount env dr username ROLE_SUPERADMIN password PERMANENT now"
  have "effects d d4" if 1: "insertAccount ?a d = Some d1"
    and 3: "insertLoginSession env dr (accId ?a) now d2 = Some d3" and 2: "sameCore d1 d2"
    and 4: "appendAudit (drAudit dr) ''BOOTSTRAP_SUPERADMIN'' (Some (accId ?a)) corr ON_ACCOUNT (accId ?a) now ALLOWED d3 = Some d4"
    for d1 d2 d3 d4
  proof (rule effects_step [OF _ appendAudit_effect [OF 4]])
    show "effects d d3" by (rule account_session_effects [OF 1 _ _ _ 2 3]) (simp_all add: activeSuperadmin_def)
  qed
  note chain = this
  show ?thesis unfolding bootstrapSuperadmin_def Let_def
    by (auto intro!: runsTo_committing simp: bind_eq_Some_conv split: if_splits)
       (erule chain [simplified], assumption, simp, assumption)
qed

lemma register_effects: "accounts d \<noteq> [] \<or> invitations d = [] \<Longrightarrow> runsTo d (registerWithInvitation env dr now corr secret username password d)"
proof -
  assume some: "accounts d \<noteq> [] \<or> invitations d = []"
  let ?a = "newAccount env dr username ROLE_USER password PERMANENT now"
  have "effects d d4" if new: "accounts d \<noteq> []" and 1: "insertAccount ?a d = Some d1"
    and 3: "insertLoginSession env dr (accId ?a) now d2 = Some d3" and 2: "sameCore d1 d2"
    and 4: "appendAudit (drAudit dr) ''REGISTER_WITH_INVITATION'' (Some (accId ?a)) corr ON_ACCOUNT (accId ?a) now ALLOWED d3 = Some d4"
    for d1 d2 d3 d4
  proof (rule effects_step [OF _ appendAudit_effect [OF 4]])
    show "effects d d3" by (rule account_session_effects [OF 1 _ _ _ 2 3]) (use new in simp_all)
  qed
  note chain = this
  show ?thesis using some unfolding registerWithInvitation_def Let_def
    by (auto intro!: runsTo_committing simp: bind_eq_Some_conv split: option.split)
       (erule chain [simplified], assumption, assumption, simp, assumption)
qed

lemma givePassword_effects:
  assumes "a \<in> set (accounts d)" and "accStatus a \<noteq> ACCOUNT_DELETED"
  shows "effects d (givePassword env dr now (accId a) pw kind d)"
  unfolding givePassword_def using effect.password [OF assms] effect.revoke by (meson effect_effects effects_step)

lemma account_after_password:
  "a \<in> set (accounts d) \<Longrightarrow> setPassword env salt pw kind now a \<in> set (accounts (updateAccount (accId a) (setPassword env salt pw kind now) d))"
  by (auto simp: updateAccount_def)

lemma password_session_effects:
  assumes a: "a \<in> set (accounts d)" "openAccount a"
    and core: "sameCore (revokeSessions p now (updateAccount (accId a) (setPassword env salt pw kind now) d)) d1"
    and ses: "insertLoginSession env dr (accId a) now' d1 = Some d2"
  shows "effects d d2"
proof -
  let ?b = "setPassword env salt pw kind now a"
  have "effect d (updateAccount (accId a) (setPassword env salt pw kind now) d)"
    using a by (intro effect.password) (auto simp: openAccount_def)
  then have "effects d d1" using effect.revoke effect.other [OF core] by (meson effect_effects effects_step)
  moreover have "?b \<in> set (accounts d1)" using account_after_password [OF a(1)] core by (simp add: sameCore_def revokeSessions_def)
  moreover have "accId ?b = accId a" "openAccount ?b" using a(2) by (simp_all add: setPassword_def openAccount_def)
  ultimately show ?thesis using effect.session [of env dr ?b now' d1 d2] ses by (metis effects_step)
qed

lemma recover_effects: "runsTo d (recoverSuperadmin env dr now isLocal newPassword secret d)"
proof -
  have "effects d e" if a: "recoveryTarget env secret d = Some a" "accStatus a = ACCOUNT_ACTIVE"
    and ses: "insertLoginSession env dr (accId a) now (revokeSessions (\<lambda>s. loAccount s = accId a) now
      ((updateAccount (accId a) (setPassword env (drSalt dr) newPassword PERMANENT now) d)\<lparr>recoveryCodes := rs\<rparr>)) = Some e"
    for a e rs
  proof (rule password_session_effects [OF _ _ _ ses])
    show "a \<in> set (accounts d)" using a(1) by (auto simp: recoveryTarget_def bind_eq_Some_conv dest: accountByIdD)
    show "openAccount a" by (rule openAccount_active [OF a(2)])
  qed (simp add: sameCore_def revokeSessions_def)
  then show ?thesis unfolding recoverSuperadmin_def Let_def
    by (auto intro!: runsTo_committing split: option.split)
qed

lemma invitation_effects:
  "runsTo d (createInvitation env dr now corr tok d)" "runsTo d (revokeInvitation env now iid tok d)"
  by (auto simp: createInvitation_def revokeInvitation_def Let_def appendAudit_def sameCore_def
      intro!: runsTo_committing runsTo_pair effect_effects effect.other split: option.split if_splits)

lemma setAccountRole_effects: "runsTo d (setAccountRole (\<lambda>d. d) env now target password r tok d)"
proof -
  have "effect d (updateAccount target (\<lambda>a. a\<lparr>accRole := r, accUpdatedAt := now\<rparr>) d)"
    if "find (\<lambda>a. accId a = target \<and> accStatus a \<noteq> ACCOUNT_DELETED) (accounts d) = Some a"
      and "\<not> (accRole a = ROLE_SUPERADMIN \<and> r \<noteq> ROLE_SUPERADMIN \<and> otherSuperadmins activeAccount target d = 0)" for a
  proof -
    from find_in [OF that(1)] have a: "a \<in> set (accounts d)" "accStatus a \<noteq> ACCOUNT_DELETED" "target = accId a" by auto
    from that(2) have "r = ROLE_SUPERADMIN \<or> accRole a \<noteq> ROLE_SUPERADMIN
        \<or> (\<exists>b \<in> set (accounts d). accId b \<noteq> accId a \<and> activeSuperadmin b)"
      using otherSuperadmins_pos [of activeAccount target d] a(3) by (auto simp: activeAccount_def)
    then show ?thesis unfolding a(3) by (rule effect.role [OF a(1,2)])
  qed
  then show ?thesis by (auto simp: setAccountRole_def intro!: runsTo_pair effect_effects split: option.split)
qed

lemma deletions_updates [simp]:
  "deletions aid (updateAccount k f d) = deletions aid d" "deletions aid (revokeSessions p now d) = deletions aid d"
  by (simp_all add: deletions_def updateAccount_def revokeSessions_def)

lemma filter_map_same: "(\<And>x. f x = x \<or> (\<not> P x \<and> \<not> P (f x))) \<Longrightarrow> filter P (map f xs) = filter P xs"
  by (induction xs) (auto, metis+)

lemma cancelRestrict_effect: "effect d (cancelEvents (\<lambda>e. leAccount e = aid \<and> leType e = RESTRICT_ACCOUNT) now d)"
proof (rule effect.restrict)
  show "deletions k (cancelEvents (\<lambda>e. leAccount e = aid \<and> leType e = RESTRICT_ACCOUNT) now d) = deletions k d" for k
    unfolding deletions_def cancelEvents_def by (simp, rule filter_map_same) (auto simp: liveEvent_def)
  have "map leId (lifecycleEvents (cancelEvents p now d)) = map leId (lifecycleEvents d)" for p
    by (simp add: cancelEvents_def)
  then show "distinct (map leId (lifecycleEvents d)) \<longrightarrow>
      distinct (map leId (lifecycleEvents (cancelEvents (\<lambda>e. leAccount e = aid \<and> leType e = RESTRICT_ACCOUNT) now d)))"
    by simp
  show "leAccount e \<in> leAccount ` set (lifecycleEvents d) \<union> accId ` set (accounts d)"
    if "e \<in> set (lifecycleEvents (cancelEvents (\<lambda>e. leAccount e = aid \<and> leType e = RESTRICT_ACCOUNT) now d))" for e
    using that by (auto simp: cancelEvents_def)
qed (simp_all add: cancelEvents_def)

lemma enqueueRestrict_effect:
  assumes "enqueueAccountLifecycleEvent eid aid corr RESTRICT_ACCOUNT now due d = Some d'"
  shows "effect d d'"
  by (rule effect.restrict)
     (use assms in \<open>auto simp: enqueueAccountLifecycleEvent_def deletions_def split: if_splits\<close>)

lemma writeStatus_effects:
  assumes a: "a \<in> set (accounts d)" "accStatus a = ACCOUNT_ACTIVE \<or> accStatus a = ACCOUNT_DISABLED"
    and st: "st = ACCOUNT_ACTIVE \<or> st = ACCOUNT_DISABLED"
    and guard: "st = ACCOUNT_ACTIVE \<or> accRole a \<noteq> ROLE_SUPERADMIN \<or> (\<exists>b \<in> set (accounts d). accId b \<noteq> accId a \<and> activeSuperadmin b)"
    and run: "writeStatus dr now corr a st d = Some e"
  shows "effects d e"
proof -
  let ?d = "updateAccount (accId a) (\<lambda>b. b\<lparr>accStatus := st, accUpdatedAt := now\<rparr>) d"
  have one: "effects d ?d" by (rule effect_effects [OF effect.status [OF a st guard]])
  show ?thesis
  proof (cases "st = ACCOUNT_ACTIVE")
    case True
    then have "e = cancelEvents (\<lambda>e. leAccount e = accId a \<and> leType e = RESTRICT_ACCOUNT) now ?d"
      using run by (simp add: writeStatus_def Let_def)
    then show ?thesis using effects_step [OF one cancelRestrict_effect] by simp
  next
    case False
    then have run': "disableAccount dr now corr a ?d = Some e" using run st by (simp add: writeStatus_def Let_def)
    have two: "effects d (revokeSessions (\<lambda>s. loAccount s = accId a) now ?d)" by (rule effects_step [OF one effect.revoke])
    then show ?thesis using run' effects_step [OF two enqueueRestrict_effect]
      by (auto simp: disableAccount_def Let_def split: if_splits)
  qed
qed

lemma setAccountStatus_effects:
  assumes "st = ACCOUNT_ACTIVE \<or> st = ACCOUNT_DISABLED"
  shows "runsTo d (setAccountStatus env dr now corr target password st tok d)"
proof -
  have "effects d e"
    if row: "accountById target d = Some a" and ok: "accStatus a \<noteq> ACCOUNT_DELETED" "accStatus a \<noteq> ACCOUNT_PENDING_DELETION"
      and guard: "\<not> (accRole a = ROLE_SUPERADMIN \<and> st = ACCOUNT_DISABLED \<and> otherSuperadmins fullAccount target d = 0)"
      and run: "writeStatus dr now corr a st d = Some e" for a e
  proof (rule writeStatus_effects [OF _ _ assms _ run])
    from accountByIdD [OF row] show a: "a \<in> set (accounts d)" by simp
    show "accStatus a = ACCOUNT_ACTIVE \<or> accStatus a = ACCOUNT_DISABLED" using ok by (cases "accStatus a") auto
    show "st = ACCOUNT_ACTIVE \<or> accRole a \<noteq> ROLE_SUPERADMIN \<or> (\<exists>b \<in> set (accounts d). accId b \<noteq> accId a \<and> activeSuperadmin b)"
      using guard otherSuperadmins_pos [of fullAccount target d] accountByIdD [OF row] assms by (auto simp: fullAccount_def)
  qed
  then show ?thesis unfolding setAccountStatus_def
    by (auto intro!: runsTo_committing split: option.split)
qed

lemma deletion_effects:
  "runsTo d (requestSelfDeletion env dr now corr password tok d)"
  "runsTo d (requestAccountDeletion env dr now corr target password tok d)"
proof -
  have start: "effects d e" if "a \<in> set (accounts d)" "accStatus a = ACCOUNT_ACTIVE" "accRole a = ROLE_USER"
      "startDeletion dr now corr (accId a) d = Some e" for a e
    by (rule effect_effects [OF effect.start [OF that(4,1,2,3)]])
  show "runsTo d (requestSelfDeletion env dr now corr password tok d)"
    by (auto simp: requestSelfDeletion_def fullAccount_def intro!: runsTo_committing start split: option.split dest: sessionAccountD)
  show "runsTo d (requestAccountDeletion env dr now corr target password tok d)"
    using start by (auto simp: requestAccountDeletion_def intro!: runsTo_committing split: option.split dest!: accountByIdD)
qed

lemma cancel_effects: "runsTo d (cancelSelfDeletion env dr now tok d)"
proof -
  have "effects d e" if ses: "sessionAccount (\<lambda>a. accStatus a = ACCOUNT_PENDING_DELETION) env tok now d = Some a"
    and run: "insertLoginSession env dr (accId a) now
          (cancelEvents (\<lambda>e. leAccount e = accId a) now
            (revokeSessions (\<lambda>s. loAccount s = accId a) now
              (updateAccount (accId a) (\<lambda>b. b\<lparr>accStatus := ACCOUNT_ACTIVE, accRequestedAt := None, accDueAt := None,
                 accUpdatedAt := now\<rparr>) d))) = Some e" for a e
  proof -
    let ?f = "\<lambda>b. b\<lparr>accStatus := ACCOUNT_ACTIVE, accRequestedAt := None, accDueAt := None, accUpdatedAt := now\<rparr>"
    let ?d = "cancelEvents (\<lambda>e. leAccount e = accId a) now (revokeSessions (\<lambda>s. loAccount s = accId a) now (updateAccount (accId a) ?f d))"
    have "effects d ?d" by (rule effect_effects [OF effect.cancel [OF sessionAccountD [OF ses]]])
    moreover have "?f a \<in> set (accounts ?d)"
      using sessionAccountD(1) [OF ses] by (auto simp: cancelEvents_def revokeSessions_def updateAccount_def)
    moreover have "openAccount (?f a)" by (simp add: openAccount_def)
    ultimately show ?thesis using effect.session [of env dr "?f a" now ?d e] run by (auto intro: effects_step)
  qed
  then show ?thesis unfolding cancelSelfDeletion_def by (auto intro!: runsTo_committing split: option.split)
qed

lemma createAccount_effects: "runsTo d (createAccount env dr now r tok username d)"
proof -
  have "accounts d \<noteq> []" if "resolveFullAccessAccount env tok now d = Some actor" for actor
    using sessionAccountD(1) [of fullAccount env tok now d actor] that by (auto simp: resolveFullAccessAccount_def)
  then show ?thesis by (auto simp: createAccount_def Let_def intro!: runsTo_pair effect_effects effect.account split: option.split)
qed

lemma password_effects:
  "runsTo d (resetAccountPassword env dr now target tok d)" "runsTo d (changePassword env dr now cur new tok d)"
  "runsTo d (completeTemporaryPasswordChange env dr now new tok d)"
proof -
  show "runsTo d (resetAccountPassword env dr now target tok d)"
    using givePassword_effects by (auto simp: resetAccountPassword_def intro!: runsTo_pair split: option.split dest!: accountByIdD)
  show "runsTo d (changePassword env dr now cur new tok d)"
    by (auto simp: changePassword_def activeAccount_def intro!: runsTo_pair givePassword_effects split: option.split
        dest: sessionAccountD)
  have "effects d e" if ses: "sessionAccount (\<lambda>a. accStatus a = ACCOUNT_ACTIVE \<and> accKind a = TEMPORARY) env tok now d = Some a"
    and run: "insertLoginSession env dr (accId a) now (givePassword env dr now (accId a) new PERMANENT d) = Some e" for a e
    using sessionAccountD [OF ses] run unfolding givePassword_def
    by (intro password_session_effects [OF _ _ sameCore_update(1) run [unfolded givePassword_def]]) (simp_all add: openAccount_def)
  then show "runsTo d (completeTemporaryPasswordChange env dr now new tok d)"
    unfolding completeTemporaryPasswordChange_def by (auto intro!: runsTo_committing split: option.split)
qed

lemma loginRefused_effects: "runsTo d (loginRefused env dr now corr k a th d)"
proof -
  have "effects d e" if "upsertThrottle t d = Some d1" and audit: "appendAudit aid act actor corr ty obj now res d1 = Some e"
    for t d1 aid act actor corr ty obj now res e
  proof -
    have "sameCore d d1" using that(1) by (auto simp: upsertThrottle_def split: if_splits)
    then show ?thesis using effect_effects [OF effect.other] effects_step [OF _ appendAudit_effect [OF audit]] by blast
  qed
  then show ?thesis by (auto simp: loginRefused_def Let_def bind_eq_Some_conv intro!: runsTo_committing)
qed

lemma loginAllowed_effects:
  assumes "a \<in> set (accounts d)" and "openAccount a"
  shows "runsTo d (loginAllowed env dr now corr k a d)"
proof -
  let ?d = "d\<lparr>throttles := filter (\<lambda>t. thKey t \<noteq> k) (throttles d)\<rparr>"
  have "effects d e2" if 1: "insertLoginSession env dr (accId a) now ?d = Some e1"
    and 2: "appendAudit (drAudit dr) ''LOGIN'' (Some (accId a)) corr ON_ACCOUNT (accId a) now ALLOWED e1 = Some e2" for e1 e2
  proof -
    have "effects d ?d" by (rule effect_effects [OF effect.other]) simp
    from effects_step [OF this effect.session [OF 1 _ assms(2)]] have "effects d e1" using assms(1) by simp
    then show ?thesis by (rule effects_step [OF _ appendAudit_effect [OF 2]])
  qed
  then show ?thesis by (auto simp: loginAllowed_def runsTo_def bind_eq_Some_conv split: option.split)
qed

lemma login_effects: "runsTo d (login env dr now corr password username d)"
proof -
  have "runsTo d (loginAllowed env dr now corr k a d)" if "keyAccount k d = Some a" "mayLogIn env password a" for k a
    using that by (intro loginAllowed_effects) (cases "accStatus a"; auto simp: keyAccount_def mayLogIn_def openAccount_def dest: find_in)+
  then show ?thesis
    by (auto simp: login_def Let_def loginRefused_effects intro!: runsTo_committing effect_effects
        intro: appendAudit_effect split: option.split)
qed

lemma logout_effects: "runsTo d (Inr Done, logoutCurrent env now tok d)" "runsTo d (logoutAll env now tok d)"
  by (auto simp: logoutCurrent_def logoutAll_def intro!: runsTo_pair effect_effects effect.revoke split: option.split)

text \<open>What the types of the commands allow.\<close>

definition wellFormed :: "identity_command \<Rightarrow> bool" where
  "wellFormed c = (case c of SET_ACCOUNT_STATUS _ _ _ st \<Rightarrow> st = ACCOUNT_ACTIVE \<or> st = ACCOUNT_DISABLED
     | CREATE_ACCOUNT r _ _ \<Rightarrow> r \<noteq> ROLE_SUPERADMIN | _ \<Rightarrow> True)"

lemma execute_effects:
  assumes "accounts d \<noteq> [] \<or> invitations d = []" and "wellFormed c"
  shows "effects d (snd (execute env dr now corr c d))"
proof -
  have "runsTo d (execute env dr now corr c d)"
    using assms
    by (cases c) (simp_all add: execute_def Let_def wellFormed_def bootstrap_effects register_effects invitation_effects login_effects
        logout_effects runsTo_withAudit setAccountRole_effects setAccountStatus_effects deletion_effects cancel_effects
        createAccount_effects password_effects recover_effects)
  then show ?thesis by (simp add: runsTo_def)
qed

end
