(* ===== verification/CM_Identity_System.thy ===== *)
theory CM_Identity_System
  imports CM_Identity_Facts
begin

text \<open>
  The identity tables as a system of steps (commands, the audit query that drops old records, runs of the
  lifecycle worker) and what holds of every reachable state: keys are unique, somebody administers the system, an
  account is pending deletion exactly while one live event is scheduled for its due date, and a deleted account
  has no session.
\<close>

section \<open>The invariant\<close>

definition keysInv :: "identity_db \<Rightarrow> bool" where
  "keysInv d \<longleftrightarrow> distinct (map accId (accounts d)) \<and> distinct (map accKey (accounts d))
     \<and> distinct (map loId (loginSessions d)) \<and> distinct (map loToken (loginSessions d))
     \<and> distinct (map leId (lifecycleEvents d))
     \<and> (\<forall>s \<in> set (loginSessions d). loAccount s \<in> accId ` set (accounts d))
     \<and> (\<forall>e \<in> set (lifecycleEvents d). leAccount e \<in> accId ` set (accounts d))"

definition adminInv :: "identity_db \<Rightarrow> bool" where
  "adminInv d \<longleftrightarrow> accounts d = [] \<or> (\<exists>a \<in> set (accounts d). activeSuperadmin a)"

definition pendingOk :: "identity_db \<Rightarrow> account_row \<Rightarrow> bool" where
  "pendingOk d a \<longleftrightarrow> (accDueAt a \<noteq> None) = (accStatus a = ACCOUNT_PENDING_DELETION)
     \<and> map leScheduledAt (deletions (accId a) d) = (case accDueAt a of None \<Rightarrow> [] | Some t \<Rightarrow> [t])"

definition closedOk :: "identity_db \<Rightarrow> account_row \<Rightarrow> bool" where
  "closedOk d a \<longleftrightarrow> accStatus a = ACCOUNT_DELETED \<longrightarrow> accId a \<notin> loAccount ` set (loginSessions d)"

lemma updateAccount_rows:
  assumes "distinct (map accId (accounts d))" and "a \<in> set (accounts d)" and "\<And>b. accId (f b) = accId b"
  shows "b \<in> set (accounts (updateAccount (accId a) f d)) \<longleftrightarrow> b = f a \<or> (b \<in> set (accounts d) \<and> accId b \<noteq> accId a)"
proof -
  have one: "c = a" if "c \<in> set (accounts d)" "accId c = accId a" for c
    using that assms(1,2) by (auto simp: distinct_map dest: inj_onD)
  show ?thesis
  proof
    assume "b \<in> set (accounts (updateAccount (accId a) f d))"
    then obtain c where "c \<in> set (accounts d)" "b = (if accId c = accId a then f c else c)" by (auto simp: updateAccount_def)
    then show "b = f a \<or> (b \<in> set (accounts d) \<and> accId b \<noteq> accId a)" using one [of c] by (auto split: if_splits)
  next
    assume "b = f a \<or> (b \<in> set (accounts d) \<and> accId b \<noteq> accId a)"
    then show "b \<in> set (accounts (updateAccount (accId a) f d))" using assms(2) by (auto simp: updateAccount_def)
  qed
qed

lemma updateAccount_maps:
  "(\<And>b. g (f b) = g b) \<Longrightarrow> map g (accounts (updateAccount k f d)) = map g (accounts d)"
  by (simp add: updateAccount_def)

lemma updateAccount_tables [simp]:
  "loginSessions (updateAccount k f d) = loginSessions d" "lifecycleEvents (updateAccount k f d) = lifecycleEvents d"
  "invitations (updateAccount k f d) = invitations d"
  by (simp_all add: updateAccount_def)

lemma keysInv_update:
  assumes "\<And>b. accId (f b) = accId b" and "\<And>b. accKey (f b) = accKey b" and "keysInv d"
  shows "keysInv (updateAccount k f d)"
proof -
  have "accId ` set (accounts (updateAccount k f d)) = accId ` set (accounts d)"
    using arg_cong [OF updateAccount_maps [of accId f k d, OF assms(1)], of set] by simp
  then show ?thesis using assms(3) by (simp add: keysInv_def updateAccount_maps assms(1,2))
qed

lemma adminInv_update:
  assumes inv: "adminInv d" and keys: "distinct (map accId (accounts d))" and a: "a \<in> set (accounts d)"
    and f: "\<And>b. accId (f b) = accId b"
    and guard: "activeSuperadmin (f a) \<or> \<not> activeSuperadmin a \<or> (\<exists>b \<in> set (accounts d). accId b \<noteq> accId a \<and> activeSuperadmin b)"
  shows "adminInv (updateAccount (accId a) f d)"
proof -
  from inv a obtain c where c: "c \<in> set (accounts d)" "activeSuperadmin c" by (auto simp: adminInv_def)
  have rows: "\<And>b. b \<in> set (accounts (updateAccount (accId a) f d)) \<longleftrightarrow> b = f a \<or> (b \<in> set (accounts d) \<and> accId b \<noteq> accId a)"
    by (rule updateAccount_rows [OF keys a f])
  show ?thesis
  proof (cases "accId c = accId a")
    case True
    then have "c = a" using keys a c by (auto simp: distinct_map dest: inj_onD)
    then show ?thesis using guard c rows unfolding adminInv_def by metis
  next
    case False
    then show ?thesis using c rows unfolding adminInv_def by metis
  qed
qed

definition coreInv :: "identity_db \<Rightarrow> bool" where
  "coreInv d \<longleftrightarrow> keysInv d \<and> adminInv d \<and> (\<forall>a \<in> set (accounts d). pendingOk d a \<and> closedOk d a)"

lemma coreInv_cong: "sameCore d d' \<Longrightarrow> coreInv d' = coreInv d"
  by (simp add: coreInv_def keysInv_def adminInv_def pendingOk_def closedOk_def deletions_def sameCore_def)

text \<open>An update of one account that leaves its key and the meaning of its status.\<close>

lemma coreInv_update:
  assumes inv: "coreInv d" and a: "a \<in> set (accounts d)"
    and f: "\<And>b. accId (f b) = accId b" "\<And>b. accKey (f b) = accKey b" "\<And>b. accDueAt (f b) = accDueAt b"
    and status: "accStatus (f a) = accStatus a
      \<or> (accStatus a \<in> {ACCOUNT_ACTIVE, ACCOUNT_DISABLED} \<and> accStatus (f a) \<in> {ACCOUNT_ACTIVE, ACCOUNT_DISABLED})"
    and guard: "activeSuperadmin (f a) \<or> \<not> activeSuperadmin a \<or> (\<exists>b \<in> set (accounts d). accId b \<noteq> accId a \<and> activeSuperadmin b)"
  shows "coreInv (updateAccount (accId a) f d)"
proof -
  from inv have keys: "keysInv d" and admin: "adminInv d" by (simp_all add: coreInv_def)
  then have dist: "distinct (map accId (accounts d))" by (simp add: keysInv_def)
  have "pendingOk (updateAccount (accId a) f d) b \<and> closedOk (updateAccount (accId a) f d) b"
    if "b \<in> set (accounts (updateAccount (accId a) f d))" for b
  proof -
    from that consider "b = f a" | "b \<in> set (accounts d)" by (auto simp: updateAccount_rows [OF dist a f(1)])
    then show ?thesis
    proof cases
      case 1
      then show ?thesis using inv a status by (auto simp: coreInv_def pendingOk_def closedOk_def f)
    next
      case 2
      then show ?thesis using inv by (simp add: coreInv_def pendingOk_def closedOk_def)
    qed
  qed
  then show ?thesis
    using keysInv_update [OF f(1,2) keys] adminInv_update [OF admin dist a f(1) guard] by (simp add: coreInv_def)
qed

section \<open>What the effects keep\<close>

lemma coreInv_account:
  assumes inv: "coreInv d" and new: "insertAccount a d = Some d'" "accStatus a = ACCOUNT_ACTIVE" "accDueAt a = None"
    and first: "accounts d = [] \<longrightarrow> activeSuperadmin a"
  shows "coreInv d'"
proof -
  have fresh: "accId a \<notin> accId ` set (accounts d)" "accKey a \<notin> accKey ` set (accounts d)"
    and d': "d' = d\<lparr>accounts := accounts d @ [a]\<rparr>"
    using new(1) by (auto simp: insertAccount_def split: if_splits)
  have same: "deletions k d' = deletions k d" for k by (simp add: d' deletions_def)
  have "leAccount e \<noteq> accId a" if "e \<in> set (lifecycleEvents d)" for e
    using inv fresh(1) that unfolding coreInv_def keysInv_def by metis
  then have "deletions (accId a) d = []" by (auto simp: deletions_def filter_empty_conv)
  then have "pendingOk d' a" "closedOk d' a" using new by (simp_all add: pendingOk_def closedOk_def same)
  moreover have "pendingOk d' b \<and> closedOk d' b" if "b \<in> set (accounts d)" for b
    using inv that by (simp add: coreInv_def pendingOk_def closedOk_def same) (simp add: d')
  moreover have "keysInv d'" using inv fresh by (auto simp: coreInv_def keysInv_def d')
  moreover have "adminInv d'" using inv first by (auto simp: coreInv_def adminInv_def d')
  ultimately show ?thesis by (auto simp: coreInv_def d')
qed

lemma coreInv_session:
  assumes inv: "coreInv d" and ses: "insertLoginSession env dr (accId a) now d = Some d'"
    and a: "a \<in> set (accounts d)" "openAccount a"
  shows "coreInv d'"
proof -
  obtain s where d': "d' = d\<lparr>loginSessions := loginSessions d @ [s]\<rparr>" and s: "loAccount s = accId a"
    "loId s \<notin> loId ` set (loginSessions d)" "loToken s \<notin> loToken ` set (loginSessions d)"
    using ses by (auto simp: insertLoginSession_def split: if_splits)
  have "keysInv d'" using inv s a(1) by (auto simp: coreInv_def keysInv_def d')
  moreover have "adminInv d'" using inv by (simp add: coreInv_def adminInv_def d')
  moreover have "pendingOk d' b \<and> closedOk d' b" if b: "b \<in> set (accounts d')" for b
  proof -
    have b': "b \<in> set (accounts d)" using b by (simp add: d')
    have "accStatus b \<noteq> ACCOUNT_DELETED" if "accId b = accId a"
    proof -
      have "b = a" using that b' a(1) inv by (auto simp: coreInv_def keysInv_def distinct_map dest: inj_onD)
      then show ?thesis using a(2) by (auto simp: openAccount_def)
    qed
    then have "closedOk d' b" using inv b' s by (auto simp: coreInv_def closedOk_def d')
    moreover have "pendingOk d' b" using inv b' by (simp add: coreInv_def pendingOk_def d' deletions_def)
    ultimately show ?thesis by simp
  qed
  ultimately show ?thesis by (simp add: coreInv_def)
qed

lemma revokeSessions_maps [simp]:
  "map loId (loginSessions (revokeSessions p now d)) = map loId (loginSessions d)"
  "map loToken (loginSessions (revokeSessions p now d)) = map loToken (loginSessions d)"
  "map loAccount (loginSessions (revokeSessions p now d)) = map loAccount (loginSessions d)"
  "accounts (revokeSessions p now d) = accounts d" "lifecycleEvents (revokeSessions p now d) = lifecycleEvents d"
  "invitations (revokeSessions p now d) = invitations d"
  by (simp_all add: revokeSessions_def)

lemma revokeSessions_owners [simp]: "loAccount ` set (loginSessions (revokeSessions p now d)) = loAccount ` set (loginSessions d)"
  using arg_cong [OF revokeSessions_maps(3) [of p now d], of set] by (simp only: set_map)

lemma revokeSessions_in: "s \<in> set (loginSessions (revokeSessions p now d)) \<Longrightarrow> loAccount s \<in> loAccount ` set (loginSessions d)"
  unfolding revokeSessions_owners [of p now d, symmetric] by (rule imageI)

lemma coreInv_revoke:
  assumes "coreInv d"
  shows "coreInv (revokeSessions p now d)"
proof -
  have "loAccount s \<in> accId ` set (accounts d)" if "s \<in> set (loginSessions (revokeSessions p now d))" for s
    using revokeSessions_in [OF that] assms by (auto simp: coreInv_def keysInv_def)
  then show ?thesis using assms by (simp add: coreInv_def keysInv_def adminInv_def pendingOk_def closedOk_def)
qed

lemma coreInv_restrict:
  assumes "coreInv d" and "accounts d' = accounts d" and "loginSessions d' = loginSessions d"
    and "distinct (map leId (lifecycleEvents d)) \<longrightarrow> distinct (map leId (lifecycleEvents d'))"
    and "\<And>e. e \<in> set (lifecycleEvents d') \<Longrightarrow> leAccount e \<in> leAccount ` set (lifecycleEvents d) \<union> accId ` set (accounts d)"
    and "\<And>aid. deletions aid d' = deletions aid d"
  shows "coreInv d'"
proof -
  have "keysInv d'" using assms by (fastforce simp: coreInv_def keysInv_def)
  then show ?thesis using assms(1-3,6) by (simp add: coreInv_def adminInv_def pendingOk_def closedOk_def)
qed

lemma enqueue_new:
  assumes "enqueueAccountLifecycleEvent eid aid corr ty now due d = Some d'"
  obtains e where "d' = d\<lparr>lifecycleEvents := lifecycleEvents d @ [e]\<rparr>" and "leAccount e = aid" and "leType e = ty"
    and "leScheduledAt e = due" and "liveEvent e" and "leId e \<notin> leId ` set (lifecycleEvents d)" and "aid \<in> accId ` set (accounts d)"
  using assms by (auto simp: enqueueAccountLifecycleEvent_def liveEvent_def split: if_splits)

text \<open>The status, the due date and the event of a deletion change together.\<close>

lemma coreInv_reschedule:
  assumes inv: "coreInv d" and a: "a \<in> set (accounts d)" and user: "\<not> activeSuperadmin a \<or> activeSuperadmin (f a)
      \<or> (\<exists>b \<in> set (accounts d). accId b \<noteq> accId a \<and> activeSuperadmin b)"
    and f: "\<And>b. accId (f b) = accId b"
    and live: "accStatus (f a) = ACCOUNT_DELETED \<longrightarrow> accId a \<notin> loAccount ` set (loginSessions d')"
    and due: "(accDueAt (f a) \<noteq> None) = (accStatus (f a) = ACCOUNT_PENDING_DELETION)"
    and d': "accounts d' = accounts (updateAccount (accId a) f d)" "\<And>s. s \<in> set (loginSessions d') \<Longrightarrow> loAccount s \<in> loAccount ` set (loginSessions d)"
      "distinct (map loId (loginSessions d'))" "distinct (map loToken (loginSessions d'))" "distinct (map accKey (accounts d'))"
    and events: "distinct (map leId (lifecycleEvents d'))" "\<And>e. e \<in> set (lifecycleEvents d') \<Longrightarrow> leAccount e \<in> accId ` set (accounts d)"
      "map leScheduledAt (deletions (accId a) d') = (case accDueAt (f a) of None \<Rightarrow> [] | Some t \<Rightarrow> [t])"
      "\<And>k. k \<noteq> accId a \<Longrightarrow> deletions k d' = deletions k d"
  shows "coreInv d'"
proof -
  from inv have keys: "keysInv d" and admin: "adminInv d" by (simp_all add: coreInv_def)
  then have dist: "distinct (map accId (accounts d))" by (simp add: keysInv_def)
  have ids: "map accId (accounts d') = map accId (accounts d)" by (simp add: d'(1) updateAccount_maps f)
  then have idset: "accId ` set (accounts d') = accId ` set (accounts d)" by (metis set_map)
  have "loAccount s \<in> accId ` set (accounts d)" if "s \<in> set (loginSessions d')" for s
    using keys d'(2) [OF that] by (auto simp: keysInv_def)
  then have "keysInv d'" using keys d'(3-5) events(1,2) by (simp add: keysInv_def ids idset)
  moreover have "adminInv d'"
    using adminInv_update [OF admin dist a, of f] f user by (auto simp: adminInv_def d'(1))
  moreover have "pendingOk d' b \<and> closedOk d' b" if b: "b \<in> set (accounts d')" for b
  proof -
    from b consider "b = f a" | "b \<in> set (accounts d)" "accId b \<noteq> accId a"
      unfolding d'(1) updateAccount_rows [OF dist a f(1)] by blast
    then show ?thesis
    proof cases
      case 1
      then show ?thesis using due events(3) live by (simp add: pendingOk_def closedOk_def f)
    next
      case 2
      have "closedOk d' b" using inv 2(1) d'(2) by (fastforce simp: coreInv_def closedOk_def)
      then show ?thesis using inv 2(1) events(4) [OF 2(2)] by (simp add: coreInv_def pendingOk_def)
    qed
  qed
  ultimately show ?thesis by (simp add: coreInv_def)
qed

text \<open>What a command's update of an account leaves of the keys.\<close>

lemma keys_kept:
  assumes "coreInv d" and "\<And>b. accKey (f b) = accKey b"
  shows "distinct (map accKey (accounts (updateAccount k f d)))" "distinct (map loId (loginSessions d))"
    "distinct (map loToken (loginSessions d))" "distinct (map leId (lifecycleEvents d))"
  using assms by (simp_all add: coreInv_def keysInv_def updateAccount_maps)

lemma coreInv_start:
  assumes inv: "coreInv d" and run: "startDeletion dr now corr (accId a) d = Some d'" and a: "a \<in> set (accounts d)"
    and active: "accStatus a = ACCOUNT_ACTIVE" and user: "accRole a = ROLE_USER"
  shows "coreInv d'"
proof -
  let ?f = "\<lambda>a. a\<lparr>accStatus := ACCOUNT_PENDING_DELETION, accRequestedAt := Some now,
    accDueAt := Some (now + accountDeletionWaitMs), accUpdatedAt := now\<rparr>"
  let ?d = "revokeSessions (\<lambda>s. loAccount s = accId a) now (updateAccount (accId a) ?f d)"
  from run obtain d1 where 1: "enqueueAccountLifecycleEvent (drRestrict dr) (accId a) corr RESTRICT_ACCOUNT now now ?d = Some d1"
    and 2: "enqueueAccountLifecycleEvent (drDelete dr) (accId a) corr DELETE_ACCOUNT now (now + accountDeletionWaitMs) d1 = Some d'"
    by (auto simp: startDeletion_def bind_eq_Some_conv)
  from 1 obtain e1 where e1: "d1 = ?d\<lparr>lifecycleEvents := lifecycleEvents ?d @ [e1]\<rparr>" "leAccount e1 = accId a" "leType e1 = RESTRICT_ACCOUNT"
    "leId e1 \<notin> leId ` set (lifecycleEvents ?d)" by (rule enqueue_new)
  from 2 obtain e2 where e2: "d' = d1\<lparr>lifecycleEvents := lifecycleEvents d1 @ [e2]\<rparr>" "leAccount e2 = accId a" "leType e2 = DELETE_ACCOUNT"
    "leScheduledAt e2 = now + accountDeletionWaitMs" "liveEvent e2" "leId e2 \<notin> leId ` set (lifecycleEvents d1)" by (rule enqueue_new)
  have d': "d' = ?d\<lparr>lifecycleEvents := lifecycleEvents d @ [e1, e2]\<rparr>" unfolding e2(1) e1(1) by simp
  have none: "deletions (accId a) d = []"
    using inv a active by (auto simp: coreInv_def pendingOk_def split: option.splits)
  have del: "deletions k d' = deletions k d @ (if k = accId a then [e2] else [])" for k
    using e1 e2 by (auto simp: d' deletions_def)
  show ?thesis
  proof (rule coreInv_reschedule [OF inv a, of ?f])
    show "distinct (map leId (lifecycleEvents d'))" using inv e1 e2 by (auto simp: coreInv_def keysInv_def d')
    show "leAccount e \<in> accId ` set (accounts d)" if "e \<in> set (lifecycleEvents d')" for e
      using that inv e1(2) e2(2) a by (auto simp: d' coreInv_def keysInv_def)
    show "map leScheduledAt (deletions (accId a) d') = (case accDueAt (?f a) of None \<Rightarrow> [] | Some t \<Rightarrow> [t])"
      using none e2(4) by (simp add: del)
    show "loAccount s \<in> loAccount ` set (loginSessions d)" if "s \<in> set (loginSessions d')" for s
      using that revokeSessions_in [of s "\<lambda>s. loAccount s = accId a" now "updateAccount (accId a) ?f d"] by (simp add: d')
    show "deletions k d' = deletions k d" if "k \<noteq> accId a" for k using that by (simp add: del)
  qed (use user keys_kept [OF inv, of ?f] in \<open>simp_all add: d' activeSuperadmin_def\<close>)
qed

lemma deletions_cancelled:
  "deletions k (cancelEvents (\<lambda>e. leAccount e = aid) now d) = (if k = aid then [] else deletions k d)"
proof (cases "k = aid")
  case True
  have "filter (\<lambda>e. leAccount e = aid \<and> leType e = DELETE_ACCOUNT \<and> liveEvent e) (map (\<lambda>e. if leAccount e = aid
        \<and> leProcessedAt e = None \<and> leCancelledAt e = None then e\<lparr>leCancelledAt := Some now\<rparr> else e) es) = []" for es
    by (induction es) (simp_all add: liveEvent_def)
  then show ?thesis using True by (simp add: deletions_def cancelEvents_def)
next
  case False
  then have "filter (\<lambda>e. leAccount e = k \<and> leType e = DELETE_ACCOUNT \<and> liveEvent e) (map (\<lambda>e. if leAccount e = aid
        \<and> leProcessedAt e = None \<and> leCancelledAt e = None then e\<lparr>leCancelledAt := Some now\<rparr> else e) es)
      = filter (\<lambda>e. leAccount e = k \<and> leType e = DELETE_ACCOUNT \<and> liveEvent e) es" for es
    by (intro filter_map_same) simp
  then show ?thesis using False by (simp add: deletions_def cancelEvents_def)
qed

lemma cancelEvents_tables [simp]:
  "accounts (cancelEvents p now d) = accounts d" "loginSessions (cancelEvents p now d) = loginSessions d"
  "invitations (cancelEvents p now d) = invitations d"
  "map leId (lifecycleEvents (cancelEvents p now d)) = map leId (lifecycleEvents d)"
  "e \<in> set (lifecycleEvents (cancelEvents p now d)) \<Longrightarrow> leAccount e \<in> leAccount ` set (lifecycleEvents d)"
  by (auto simp: cancelEvents_def)

lemma coreInv_cancel:
  assumes inv: "coreInv d" and a: "a \<in> set (accounts d)" and pending: "accStatus a = ACCOUNT_PENDING_DELETION"
  shows "coreInv (cancelEvents (\<lambda>e. leAccount e = accId a) now (revokeSessions (\<lambda>s. loAccount s = accId a) now
    (updateAccount (accId a) (\<lambda>b. b\<lparr>accStatus := ACCOUNT_ACTIVE, accRequestedAt := None, accDueAt := None, accUpdatedAt := now\<rparr>) d)))"
    (is "coreInv (cancelEvents ?p now (revokeSessions ?q now (updateAccount (accId a) ?f d)))")
proof (rule coreInv_reschedule [OF inv a, of ?f])
  let ?d = "cancelEvents ?p now (revokeSessions ?q now (updateAccount (accId a) ?f d))"
  show "distinct (map leId (lifecycleEvents ?d))" using inv by (simp add: coreInv_def keysInv_def)
  show "leAccount e \<in> accId ` set (accounts d)" if "e \<in> set (lifecycleEvents ?d)" for e
    using cancelEvents_tables(5) [OF that] inv by (auto simp: coreInv_def keysInv_def)
  show "loAccount s \<in> loAccount ` set (loginSessions d)" if "s \<in> set (loginSessions ?d)" for s
    using revokeSessions_in [of s ?q now "updateAccount (accId a) ?f d"] that by simp
qed (use keys_kept [OF inv, of ?f] in \<open>simp_all add: deletions_cancelled pending activeSuperadmin_def\<close>)

lemma effect_core: "effect d d' \<Longrightarrow> coreInv d \<Longrightarrow> coreInv d'"
proof (induction rule: effect.induct)
  case (other d d')
  then show ?case using coreInv_cong [OF other(1)] by blast
next
  case (account a d d')
  then show ?case using coreInv_account by blast
next
  case (session env dr a now d d')
  then show ?case using coreInv_session by blast
next
  case (revoke d p now)
  then show ?case by (rule coreInv_revoke)
next
  case (password a d env salt p kind now)
  show ?case by (rule coreInv_update [OF password(3,1)]) (simp_all add: setPassword_def activeSuperadmin_def)
next
  case (role a d r now)
  show ?case
  proof (rule coreInv_update [OF role(4,1)])
    show "activeSuperadmin (a\<lparr>accRole := r, accUpdatedAt := now\<rparr>) \<or> \<not> activeSuperadmin a
        \<or> (\<exists>b \<in> set (accounts d). accId b \<noteq> accId a \<and> activeSuperadmin b)"
      using role(3) by (auto simp: activeSuperadmin_def [of a] activeSuperadmin_def [of "a\<lparr>accRole := r, accUpdatedAt := now\<rparr>"])
  qed simp_all
next
  case (status a d st now)
  show ?case
  proof (rule coreInv_update [OF status(5,1)])
    show "activeSuperadmin (a\<lparr>accStatus := st, accUpdatedAt := now\<rparr>) \<or> \<not> activeSuperadmin a
        \<or> (\<exists>b \<in> set (accounts d). accId b \<noteq> accId a \<and> activeSuperadmin b)"
      using status(4) by (auto simp: activeSuperadmin_def [of a] activeSuperadmin_def [of "a\<lparr>accStatus := st, accUpdatedAt := now\<rparr>"])
  qed (use status(2,3) in simp_all)
next
  case (restrict d' d)
  show ?case by (rule coreInv_restrict [OF restrict(6,1-5)])
next
  case (start dr now corr a d d')
  then show ?case using coreInv_start by blast
next
  case (cancel a d now)
  then show ?case using coreInv_cancel by blast
qed

lemma effects_core: "effects d d' \<Longrightarrow> coreInv d \<Longrightarrow> coreInv d'"
  by (induction rule: rtranclp_induct) (auto intro: effect_core)

section \<open>Erasure and the worker\<close>

lemma updateEvent_tables [simp]:
  "accounts (updateEvent k f d) = accounts d" "loginSessions (updateEvent k f d) = loginSessions d"
  "invitations (updateEvent k f d) = invitations d"
  by (simp_all add: updateEvent_def)

lemma dueEventD:
  assumes "dueEvent now d = Some e"
  shows "e \<in> set (lifecycleEvents d)" and "liveEvent e" and "leScheduledAt e \<le> now"
proof -
  have "e \<in> set (sort_key leScheduledAt (sort_key leOccurredAt (sort_key leId
      (filter (\<lambda>e. liveEvent e \<and> leScheduledAt e \<le> now) (lifecycleEvents d)))))"
    using assms unfolding dueEvent_def by (metis (no_types, lifting) list.case_eq_if list.set_sel(1) option.distinct(1) option.inject)
  then show "e \<in> set (lifecycleEvents d)" "liveEvent e" "leScheduledAt e \<le> now" by simp_all
qed

text \<open>Marking an event of an account that is not scheduled for deletion, or of another kind.\<close>

lemma coreInv_mark:
  assumes inv: "coreInv d" and e: "e \<in> set (lifecycleEvents d)"
    and f: "\<And>e. leId (f e) = leId e" "\<And>e. leAccount (f e) = leAccount e" "\<And>e. leType (f e) = leType e"
      "\<And>e. leScheduledAt (f e) = leScheduledAt e"
    and harmless: "leType e = RESTRICT_ACCOUNT \<or> liveEvent (f e) = liveEvent e"
  shows "coreInv (updateEvent (leId e) f d)"
proof -
  have dist: "distinct (map leId (lifecycleEvents d))" using inv by (simp add: coreInv_def keysInv_def)
  have same: "map leScheduledAt (deletions k (updateEvent (leId e) f d)) = map leScheduledAt (deletions k d)" for k
  proof -
    let ?P = "\<lambda>e. leAccount e = k \<and> leType e = DELETE_ACCOUNT \<and> liveEvent e" and ?g = "\<lambda>x. if leId x = leId e then f x else x"
    have one: "x = e" if "x \<in> set (lifecycleEvents d)" "leId x = leId e" for x
      using that e dist by (auto simp: distinct_map dest: inj_onD)
    have keep: "?P (f e) = ?P e" using harmless by (auto simp: f)
    have "map leScheduledAt (filter ?P (map ?g es)) = map leScheduledAt (filter ?P es)"
      if "\<forall>x \<in> set es. leId x = leId e \<longrightarrow> x = e" for es
      using that
    proof (induction es)
      case (Cons x es)
      then have "?P (?g x) = ?P x" "leScheduledAt (?g x) = leScheduledAt x" using keep by (auto simp: f)
      then show ?case using Cons by simp
    qed simp
    from this [of "lifecycleEvents d"] one
    have "map leScheduledAt (filter ?P (map ?g (lifecycleEvents d))) = map leScheduledAt (filter ?P (lifecycleEvents d))" by blast
    then show ?thesis by (simp add: deletions_def updateEvent_def)
  qed
  have "map leId (lifecycleEvents (updateEvent (leId e) f d)) = map leId (lifecycleEvents d)"
    "map leAccount (lifecycleEvents (updateEvent (leId e) f d)) = map leAccount (lifecycleEvents d)"
    by (simp_all add: updateEvent_def f)
  moreover from this(2) have "leAccount ` set (lifecycleEvents (updateEvent (leId e) f d)) = leAccount ` set (lifecycleEvents d)"
    by (metis set_map)
  ultimately have "keysInv (updateEvent (leId e) f d)"
    using inv by (simp add: coreInv_def keysInv_def) (metis (no_types, lifting) image_iff)
  then show ?thesis using inv by (simp add: coreInv_def adminInv_def pendingOk_def closedOk_def same)
qed

text \<open>A live deletion event belongs to an account that is pending deletion, and is its only one.\<close>

lemma live_deletion:
  assumes inv: "coreInv d" and e: "e \<in> set (lifecycleEvents d)" "liveEvent e" "leType e = DELETE_ACCOUNT"
  obtains a where "a \<in> set (accounts d)" and "accId a = leAccount e" and "accStatus a = ACCOUNT_PENDING_DELETION"
    and "deletions (leAccount e) d = [e]" and "accDueAt a = Some (leScheduledAt e)"
proof -
  obtain a where a: "a \<in> set (accounts d)" "accId a = leAccount e"
    using inv e(1) by (auto simp: coreInv_def keysInv_def)
  have mem: "e \<in> set (deletions (accId a) d)" using e a by (simp add: deletions_def)
  have ok: "pendingOk d a" using inv a by (simp add: coreInv_def)
  then obtain t where t: "accDueAt a = Some t" using mem by (cases "accDueAt a") (auto simp: pendingOk_def)
  with ok have "map leScheduledAt (deletions (accId a) d) = [t]" by (simp add: pendingOk_def)
  then obtain x where x: "deletions (accId a) d = [x]" "leScheduledAt x = t" by auto
  then have "x = e" using mem by simp
  then show ?thesis using that [of a] a ok t x by (auto simp: pendingOk_def)
qed

definition erasedAccount :: "identity_env \<Rightarrow> ident \<Rightarrow> int \<Rightarrow> account_row \<Rightarrow> account_row" where
  "erasedAccount env aid now b = b\<lparr>accUsername := pseudonym env aid, accKey := pseudonym env aid,
     accStatus := ACCOUNT_DELETED, accHash := ''deleted:'' @ pseudonym env aid, accKind := PERMANENT,
     accRequestedAt := None, accDueAt := None, accUpdatedAt := now\<rparr>"

lemma erasedAccount_simps [simp]:
  "accId (erasedAccount env aid now b) = accId b" "accStatus (erasedAccount env aid now b) = ACCOUNT_DELETED"
  "accDueAt (erasedAccount env aid now b) = None" "accKey (erasedAccount env aid now b) = pseudonym env aid"
  "accRole (erasedAccount env aid now b) = accRole b"
  by (simp_all add: erasedAccount_def)

lemma erase_Inr:
  assumes "eraseIdentityAccount env aid now d = Inr d'" and "accountById aid d = Some a" and "accStatus a = ACCOUNT_PENDING_DELETION"
  shows "accounts d' = accounts (updateAccount aid (erasedAccount env aid now) d)"
    and "loginSessions d' = filter (\<lambda>s. loAccount s \<noteq> aid) (loginSessions d)" and "lifecycleEvents d' = lifecycleEvents d"
    and "\<And>b. b \<in> set (accounts d) \<Longrightarrow> accKey b = pseudonym env aid \<Longrightarrow> accId b = aid"
    and "invitations d = [] \<Longrightarrow> invitations d' = []"
proof -
  from assms have free: "\<not> list_ex (\<lambda>b. accKey b = pseudonym env aid \<and> accId b \<noteq> aid) (accounts d)"
    and d': "accounts d' = accounts (updateAccount aid (erasedAccount env aid now) d)"
      "loginSessions d' = filter (\<lambda>s. loAccount s \<noteq> aid) (loginSessions d)" "lifecycleEvents d' = lifecycleEvents d"
      "invitations d = [] \<Longrightarrow> invitations d' = []"
    by (auto simp: eraseIdentityAccount_def updateAccount_def erasedAccount_def split: if_splits)
  show "accounts d' = accounts (updateAccount aid (erasedAccount env aid now) d)"
    "loginSessions d' = filter (\<lambda>s. loAccount s \<noteq> aid) (loginSessions d)" "lifecycleEvents d' = lifecycleEvents d"
    "invitations d = [] \<Longrightarrow> invitations d' = []" by fact+
  show "accId b = aid" if "b \<in> set (accounts d)" "accKey b = pseudonym env aid" for b
    using free that by (auto simp: list_ex_iff)
qed

lemma accountById_eq:
  assumes "distinct (map accId (accounts d))" and "a \<in> set (accounts d)"
  shows "accountById (accId a) d = Some a"
proof -
  have "accountById (accId a) d \<noteq> None" using assms(2) by (auto simp: accountById_def find_None_iff)
  then obtain b where b: "accountById (accId a) d = Some b" by blast
  then have "b = a" using accountByIdD [OF b] assms by (auto simp: distinct_map dest: inj_onD)
  then show ?thesis using b by simp
qed

lemma distinct_rekey:
  assumes "distinct (map accKey xs)" and "distinct (map accId xs)" and "\<And>b. b \<in> set xs \<Longrightarrow> accKey b = k \<Longrightarrow> accId b = i"
    and "\<And>b. accKey (f b) = k"
  shows "distinct (map accKey (map (\<lambda>b. if accId b = i then f b else b) xs))"
  using assms(1-3)
proof (induction xs)
  case (Cons x xs)
  have "accKey (if accId x = i then f x else x) \<noteq> accKey (if accId b = i then f b else b)" if "b \<in> set xs" for b
  proof -
    have "accId b \<noteq> accId x" "accKey b \<noteq> accKey x"
      using Cons.prems(1,2) imageI [OF that, of accId] imageI [OF that, of accKey] by auto
    moreover have "accKey x \<noteq> k \<or> accId x = i" "accKey b \<noteq> k \<or> accId b = i"
      using Cons.prems(3) [of x] Cons.prems(3) [of b] that by fastforce+
    ultimately show ?thesis by (cases "accId x = i"; cases "accId b = i") (simp_all add: assms(4))
  qed
  then have "accKey (if accId x = i then f x else x) \<notin> accKey ` set (map (\<lambda>b. if accId b = i then f b else b) xs)"
    by fastforce
  moreover have "distinct (map accKey (map (\<lambda>b. if accId b = i then f b else b) xs))"
    by (rule Cons.IH) (use Cons.prems in auto)
  ultimately show ?case by (simp only: list.map distinct.simps set_map simp_thms not_False_eq_True)
qed simp

lemma coreInv_erase:
  assumes inv: "coreInv d" and e: "e \<in> set (lifecycleEvents d)" "liveEvent e" "leType e = DELETE_ACCOUNT"
    and run: "eraseIdentityAccount env (leAccount e) now d = Inr d1"
    and f: "\<And>e. leId (f e) = leId e" "\<And>e. leAccount (f e) = leAccount e" "\<And>e. \<not> liveEvent (f e)"
  shows "coreInv (updateEvent (leId e) f d1)"
proof -
  obtain a where a: "a \<in> set (accounts d)" "accId a = leAccount e" "accStatus a = ACCOUNT_PENDING_DELETION"
    and one: "deletions (accId a) d = [e]" using live_deletion [OF inv e] by metis
  from inv have keys: "keysInv d" by (simp add: coreInv_def)
  then have dist: "distinct (map accId (accounts d))" "distinct (map leId (lifecycleEvents d))" by (simp_all add: keysInv_def)
  have row: "accountById (leAccount e) d = Some a" using accountById_eq [OF dist(1) a(1)] a(2) by simp
  note d1 = erase_Inr [OF run row a(3)]
  have events: "lifecycleEvents (updateEvent (leId e) f d1) = map (\<lambda>x. if leId x = leId e then f x else x) (lifecycleEvents d)"
    by (simp add: updateEvent_def d1)
  have only: "x = e" if "x \<in> set (lifecycleEvents d)" "leId x = leId e" for x
    using that e(1) dist(2) by (auto simp: distinct_map dest: inj_onD)
  let ?P = "\<lambda>k e. leAccount e = k \<and> leType e = DELETE_ACCOUNT \<and> liveEvent e"
  have left: "filter (?P k) (map (\<lambda>x. if leId x = leId e then f x else x) es) = filter (\<lambda>x. ?P k x \<and> leId x \<noteq> leId e) es" for k es
    by (induction es) (auto simp: f)
  have del: "deletions k (updateEvent (leId e) f d1) = filter (\<lambda>x. leId x \<noteq> leId e) (deletions k d)" for k
    unfolding deletions_def events left by (simp add: conj_commute conj_left_commute)
  show ?thesis
  proof (rule coreInv_reschedule [OF inv a(1), of "erasedAccount env (leAccount e) now"])
    show "accounts (updateEvent (leId e) f d1) = accounts (updateAccount (accId a) (erasedAccount env (leAccount e) now) d)"
      by (simp add: d1(1) a(2))
    show "distinct (map accKey (accounts (updateEvent (leId e) f d1)))"
      using distinct_rekey [of "accounts d" "pseudonym env (leAccount e)" "leAccount e" "erasedAccount env (leAccount e) now"]
        keys d1(4) by (simp add: d1(1) updateAccount_def keysInv_def)
    show "distinct (map leId (lifecycleEvents (updateEvent (leId e) f d1)))"
      using dist(2) unfolding events by (simp add: comp_def f if_distrib cong: if_cong)
    show "leAccount x \<in> accId ` set (accounts d)" if "x \<in> set (lifecycleEvents (updateEvent (leId e) f d1))" for x
      using that keys unfolding events by (auto simp: f keysInv_def)
    show "map leScheduledAt (deletions (accId a) (updateEvent (leId e) f d1)) =
        (case accDueAt (erasedAccount env (leAccount e) now a) of None \<Rightarrow> [] | Some t \<Rightarrow> [t])"
      by (simp add: del one)
    show "deletions k (updateEvent (leId e) f d1) = deletions k d" if "k \<noteq> accId a" for k
    proof -
      have "leId x \<noteq> leId e" if "x \<in> set (deletions k d)" for x
        using that only [of x] \<open>k \<noteq> accId a\<close> a(2) by (auto simp: deletions_def)
      then show ?thesis unfolding del by (simp add: filter_id_conv)
    qed
    show "loAccount s \<in> loAccount ` set (loginSessions d)" if "s \<in> set (loginSessions (updateEvent (leId e) f d1))" for s
      using that by (simp add: d1(2))
    show "accStatus (erasedAccount env (leAccount e) now a) = ACCOUNT_DELETED \<longrightarrow>
        accId a \<notin> loAccount ` set (loginSessions (updateEvent (leId e) f d1))"
      by (auto simp: d1(2) a(2))
    show "distinct (map loId (loginSessions (updateEvent (leId e) f d1)))"
      "distinct (map loToken (loginSessions (updateEvent (leId e) f d1)))"
      using keys by (simp_all add: d1(2) keysInv_def distinct_map_filter)
  qed (simp_all add: a(3) activeSuperadmin_def)
qed

lemma dropOldAudits_core: "sameCore d (dropOldAudits now d)" "invitations (dropOldAudits now d) = invitations d"
  by (simp_all add: dropOldAudits_def)

theorem lifecycleRun_core:
  assumes "coreInv d"
  shows "coreInv (snd (lifecycleRun env handled t0 t1 t2 d))"
    and "fst (lifecycleRun env handled t0 t1 t2 d) \<noteq> Inl ERASURE_OUT_OF_PLACE"
proof -
  have "coreInv (snd (lifecycleRun env handled t0 t1 t2 d)) \<and> fst (lifecycleRun env handled t0 t1 t2 d) \<noteq> Inl ERASURE_OUT_OF_PLACE"
  proof (cases "dueEvent t0 d")
    case None
    then show ?thesis using assms by (simp add: lifecycleRun_def)
  next
    case (Some e)
    note e = dueEventD [OF Some]
    let ?f = "\<lambda>e. e\<lparr>leProcessedAt := Some t2, leAttempts := Suc (leAttempts e), leLastAttempt := Some t2\<rparr>"
    let ?g = "\<lambda>e. e\<lparr>leAttempts := Suc (leAttempts e), leLastAttempt := Some t2\<rparr>"
    have f: "\<not> liveEvent (?f x)" for x by (simp add: liveEvent_def)
    have retry: "coreInv (updateEvent (leId e) ?g d)"
      by (rule coreInv_mark [OF assms e(1)]) (simp_all add: liveEvent_def)
    show ?thesis
    proof (cases "handled (toIdentityLifecycleEvent e)")
      case False
      then show ?thesis using Some retry by (simp add: lifecycleRun_def)
    next
      case True
      show ?thesis
      proof (cases "leType e")
        case RESTRICT_ACCOUNT
        have "coreInv (updateEvent (leId e) ?f d)"
          by (rule coreInv_mark [OF assms e(1)]) (simp_all add: RESTRICT_ACCOUNT)
        then show ?thesis using Some True RESTRICT_ACCOUNT by (simp add: lifecycleRun_def)
      next
        case DELETE_ACCOUNT
        obtain a where "a \<in> set (accounts d)" "accId a = leAccount e" "accStatus a = ACCOUNT_PENDING_DELETION"
          using live_deletion [OF assms e(1,2) DELETE_ACCOUNT] by metis
        moreover from this have "accountById (leAccount e) d = Some a"
          using accountById_eq [of d a] assms by (simp add: coreInv_def keysInv_def)
        ultimately have no: "eraseIdentityAccount env (leAccount e) t1 d \<noteq> Inl ERASURE_OUT_OF_PLACE"
          by (simp add: eraseIdentityAccount_def)
        show ?thesis
        proof (cases "eraseIdentityAccount env (leAccount e) t1 d")
          case (Inl x)
          then show ?thesis using Some True DELETE_ACCOUNT assms no by (simp add: lifecycleRun_def)
        next
          case (Inr d1)
          have "coreInv (updateEvent (leId e) ?f d1)"
            by (rule coreInv_erase [OF assms e(1,2) DELETE_ACCOUNT Inr]) (simp_all add: liveEvent_def)
          then show ?thesis using Some True DELETE_ACCOUNT Inr by (simp add: lifecycleRun_def)
        qed
      qed
    qed
  qed
  then show "coreInv (snd (lifecycleRun env handled t0 t1 t2 d))"
    "fst (lifecycleRun env handled t0 t1 t2 d) \<noteq> Inl ERASURE_OUT_OF_PLACE" by simp_all
qed

section \<open>The system\<close>

inductive identity_step :: "identity_env \<Rightarrow> identity_db \<Rightarrow> identity_db \<Rightarrow> bool" for env where
  command: "wellFormed c \<Longrightarrow> execute env dr now corr c d = (r, d') \<Longrightarrow> identity_step env d d'"
| audits: "listIdentityAudits env tok now d = (r, d') \<Longrightarrow> identity_step env d d'"
| worker: "lifecycleRunOnce env handled t0 t1 t2 (cleanAt, d) = (r, cleanAt', d') \<Longrightarrow> identity_step env d d'"

inductive_cases identity_stepE: "identity_step env d d'"

text \<open>Without an account nothing can be invited.\<close>

definition founded :: "identity_db \<Rightarrow> bool" where
  "founded d \<longleftrightarrow> accounts d \<noteq> [] \<or> invitations d = []"

lemma sessionAccount_none: "accounts d = [] \<Longrightarrow> sessionAccount ok env tok now d = None"
  by (simp add: sessionAccount_def split: option.split)

lemma updateAccount_length [simp]: "length (accounts (updateAccount k f d)) = length (accounts d)"
  by (simp add: updateAccount_def)

lemma insertLoginSession_accounts: "insertLoginSession env dr k now d = Some d' \<Longrightarrow> accounts d' = accounts d"
  by (auto simp: insertLoginSession_def split: if_splits)

lemma enqueue_accounts: "enqueueAccountLifecycleEvent eid k corr ty now due d = Some d' \<Longrightarrow> accounts d' = accounts d"
  by (auto simp: enqueueAccountLifecycleEvent_def split: if_splits)

lemma effect_accounts: "effect d d' \<Longrightarrow> length (accounts d) \<le> length (accounts d')"
proof (induction rule: effect.induct)
  case (start dr now corr a d d')
  then show ?case by (auto simp: startDeletion_def bind_eq_Some_conv dest!: enqueue_accounts)
qed (simp_all add: sameCore_def insertLoginSession_accounts insertAccount_accounts)

lemma effects_accounts: "effects d d' \<Longrightarrow> length (accounts d) \<le> length (accounts d')"
  by (induction rule: rtranclp_induct) (auto dest: effect_accounts)

text \<open>An operation that keeps the invitations of empty tables empty.\<close>

lemma committing_invitations:
  "invitations d = [] \<Longrightarrow> (\<And>e. d' = Some e \<Longrightarrow> invitations e = []) \<Longrightarrow> invitations (snd (committing d r d')) = []"
  by (simp add: committing_def split: option.split)

lemma withAudit_invitations:
  "invitations (snd run) = [] \<Longrightarrow> invitations (snd (withAudit dr now corr act ty obj actor run)) = []"
  by (auto simp: withAudit_def appendAudit_def split: prod.split sum.split option.split if_splits)

lemma insert_invitations:
  "insertAccount a d = Some d' \<Longrightarrow> invitations d' = invitations d"
  "insertLoginSession env dr k now d = Some d' \<Longrightarrow> invitations d' = invitations d"
  "appendAudit aid act actor corr ty obj now res d = Some d' \<Longrightarrow> invitations d' = invitations d"
  "upsertThrottle t d = Some d' \<Longrightarrow> invitations d' = invitations d"
  by (auto simp: insertAccount_def insertLoginSession_def appendAudit_def upsertThrottle_def split: if_splits)

lemma refused_tables [simp]: "snd (refused c d) = d"
  by (simp add: refused_def)

lemma execute_unfounded:
  assumes none: "accounts d = []" "invitations d = []"
  shows "invitations (snd (execute env dr now corr c d)) = []"
proof -
  have "recoveryTarget env s d = None" for s
    by (simp add: recoveryTarget_def accountById_def none bind_eq_None_conv)
  then have recover: "invitations (snd (recoverSuperadmin env dr now l p s d)) = []" for l p s
    by (simp add: recoverSuperadmin_def none)
  have login: "invitations (snd (login env dr now corr password username d)) = []" for password username
    by (auto simp: login_def Let_def keyAccount_def none loginRefused_def bind_eq_Some_conv insert_invitations
        intro!: committing_invitations split: option.split)
  have bootstrap: "invitations (snd (bootstrapSuperadmin env dr now corr username password d)) = []" for password username
    by (auto simp: bootstrapSuperadmin_def Let_def none bind_eq_Some_conv insert_invitations
        intro!: committing_invitations split: if_splits)
  have register: "invitations (snd (registerWithInvitation env dr now corr s username password d)) = []" for s password username
    by (simp add: registerWithInvitation_def Let_def none)
  show ?thesis
    by (cases c)
       (simp_all add: execute_def Let_def recover login bootstrap register withAudit_invitations sessionAccount_none none
          resolveFullAccessAccount_def createInvitation_def logoutCurrent_def logoutAll_def changePassword_def createAccount_def
          completeTemporaryPasswordChange_def resetAccountPassword_def revokeInvitation_def setAccountRole_def
          setAccountStatus_def requestSelfDeletion_def cancelSelfDeletion_def requestAccountDeletion_def)
qed

lemma founded_execute:
  assumes "founded d" and "wellFormed c"
  shows "founded (snd (execute env dr now corr c d))"
proof (cases "accounts d = []")
  case True
  then show ?thesis using assms(1) execute_unfounded by (simp add: founded_def)
next
  case False
  then show ?thesis
    using effects_accounts [OF execute_effects [of d c env dr now corr]] assms by (auto simp: founded_def)
qed

lemma founded_worker:
  assumes "founded d"
  shows "founded (snd (lifecycleRun env handled t0 t1 t2 d))"
proof -
  have erase: "founded d'" if "eraseIdentityAccount env k t1 d = Inr d'" for k d'
    using that assms
    by (auto simp: founded_def eraseIdentityAccount_def updateAccount_def split: option.splits if_splits)
  have event: "founded (updateEvent k f e) = founded e" for k f e by (simp add: founded_def updateEvent_def)
  show ?thesis using assms by (auto simp: lifecycleRun_def event dest: erase split: option.split sum.split)
qed

text \<open>The invariant of the system.\<close>

definition identityInv :: "identity_db \<Rightarrow> bool" where
  "identityInv d \<longleftrightarrow> coreInv d \<and> founded d"

lemma dropOldAudits_inv: "identityInv d \<Longrightarrow> identityInv (dropOldAudits now d)"
  using coreInv_cong [OF dropOldAudits_core(1)] by (simp add: identityInv_def founded_def dropOldAudits_core(2)) (simp add: dropOldAudits_def)

interpretation identity: step_invariant emptyIdentity "identity_step env" identityInv for env
proof
  show "identityInv emptyIdentity"
    by (simp add: identityInv_def coreInv_def founded_def emptyIdentity_def keysInv_def adminInv_def)
next
  fix d d' assume inv: "identityInv d" and step: "identity_step env d d'"
  from step show "identityInv d'"
  proof cases
    case (command c dr now corr r)
    then have d': "d' = snd (execute env dr now corr c d)" by simp
    have "effects d d'" unfolding d' by (rule execute_effects [OF _ command(1)]) (use inv in \<open>simp add: identityInv_def founded_def\<close>)
    then show ?thesis using inv effects_core founded_execute [OF _ command(1)] by (auto simp: identityInv_def d')
  next
    case (audits tok now r)
    then show ?thesis using inv dropOldAudits_inv by (auto simp: listIdentityAudits_def split: option.splits if_splits)
  next
    case (worker handled t0 t1 t2 cleanAt r cleanAt')
    then obtain e where "identityInv e" "d' = snd (lifecycleRun env handled t0 t1 t2 e)"
      using inv dropOldAudits_inv by (auto simp: lifecycleRunOnce_def Let_def split: prod.splits if_splits) (metis snd_conv)+
    then show ?thesis using lifecycleRun_core(1) founded_worker by (simp add: identityInv_def)
  qed
qed

end
