(* ===== verification/CM_Identity_Properties.thy ===== *)
theory CM_Identity_Properties
  imports CM_Identity_System
begin

text \<open>
  What the identity tables promise: somebody administers the system, a deletion happens when it is due and leaves
  nothing, a revoked session stays closed, an account changes only on the word of somebody entitled to it, and a
  name's password is checked at a bounded rate.
\<close>

section \<open>Administration and the schedule of deletions\<close>


lemma reachable_core: "(identity_step env)\<^sup>*\<^sup>* emptyIdentity d \<Longrightarrow> coreInv d"
  using identity.reachable_inv by (auto simp: identityInv_def)

lemma sameAccount: "distinct (map accId (accounts d)) \<Longrightarrow> a \<in> set (accounts d) \<Longrightarrow> b \<in> set (accounts d) \<Longrightarrow> accId a = accId b \<Longrightarrow> a = b"
  by (simp add: distinct_map inj_on_def)

lemma coreD:
  assumes "coreInv d" and "a \<in> set (accounts d)"
  shows "(accDueAt a \<noteq> None) = (accStatus a = ACCOUNT_PENDING_DELETION)"
    and "map leScheduledAt (deletions (accId a) d) = (case accDueAt a of None \<Rightarrow> [] | Some t \<Rightarrow> [t])"
    and "accStatus a = ACCOUNT_DELETED \<Longrightarrow> accId a \<notin> loAccount ` set (loginSessions d)"
  using assms by (auto simp: coreInv_def pendingOk_def closedOk_def)

text \<open>
  C17: in every reachable state an account is pending deletion exactly when it has a due date, and then exactly one
  live deletion event is scheduled for it, at that date (no other account has one); so the worker never meets an
  account out of place and no query meets a deletion without a date.
\<close>

theorem deletion_scheduled:
  assumes "(identity_step env)\<^sup>*\<^sup>* emptyIdentity d" and "a \<in> set (accounts d)"
  shows "(accStatus a = ACCOUNT_PENDING_DELETION) = (accDueAt a \<noteq> None)
    \<and> map leScheduledAt (filter (\<lambda>e. leAccount e = accId a \<and> leType e = DELETE_ACCOUNT \<and> liveEvent e) (lifecycleEvents d))
      = (case accDueAt a of None \<Rightarrow> [] | Some t \<Rightarrow> [t])
    \<and> fst (lifecycleRun env handled t0 t1 t2 d) \<noteq> Inl ERASURE_OUT_OF_PLACE
    \<and> getCurrentSession env tok now d \<noteq> Inl DELETION_WITHOUT_DUE_DATE"
proof -
  note core = reachable_core [OF assms(1)]
  have "getCurrentSession env tok now d \<noteq> Inl DELETION_WITHOUT_DUE_DATE"
    using coreD(1) [OF core sessionAccountD(1) [of openAccount env tok now d]]
    by (auto simp: getCurrentSession_def loginAccess_def split: option.splits if_splits)
  then show ?thesis
    using coreD(1,2) [OF core assms(2)] lifecycleRun_core(2) [OF core] by (auto simp: deletions_def)
qed

section \<open>Erasure\<close>

text \<open>Nothing under the account's id or name is left, except the pseudonym.\<close>

definition erased :: "identity_env \<Rightarrow> account_row \<Rightarrow> identity_db \<Rightarrow> bool" where
  "erased env a d \<longleftrightarrow>
     (\<exists>b \<in> set (accounts d). accId b = accId a \<and> accStatus b = ACCOUNT_DELETED \<and> accUsername b = pseudonym env (accId a)
        \<and> accKey b = pseudonym env (accId a))
     \<and> (\<forall>r \<in> set (recoveryCodes d). recAccount r \<noteq> accId a) \<and> (\<forall>s \<in> set (loginSessions d). loAccount s \<noteq> accId a)
     \<and> (\<forall>t \<in> set (throttles d). thKey t \<noteq> accKey a)
     \<and> (\<forall>i \<in> set (invitations d). inCreator i \<noteq> accId a \<and> inUsedBy i \<noteq> Some (accId a))
     \<and> (pseudonym env (accId a) \<noteq> accId a \<longrightarrow>
          (\<forall>r \<in> set (auditRows d). iauActor r \<noteq> Some (accId a) \<and> (iauObjectType r, iauObject r) \<noteq> (ON_ACCOUNT, accId a)))"

lemma erase_erased:
  assumes "eraseIdentityAccount env (accId a) now d = Inr d'" and "accountById (accId a) d = Some a"
    and "accStatus a = ACCOUNT_PENDING_DELETION" and "a \<in> set (accounts d)"
  shows "erased env a d'"
proof -
  have d': "d' = updateAccount (accId a) (erasedAccount env (accId a) now)
      (d\<lparr>recoveryCodes := filter (\<lambda>r. recAccount r \<noteq> accId a) (recoveryCodes d),
         loginSessions := filter (\<lambda>s. loAccount s \<noteq> accId a) (loginSessions d),
         throttles := filter (\<lambda>t. thKey t \<noteq> accKey a) (throttles d),
         invitations := filter (\<lambda>i. inCreator i \<noteq> accId a)
           (map (\<lambda>i. if inUsedBy i = Some (accId a) then i\<lparr>inUsedBy := None\<rparr> else i) (invitations d)),
         auditRows := map (pseudonymise (accId a) (pseudonym env (accId a))) (auditRows d)\<rparr>)"
    using assms(1-3) by (auto simp: eraseIdentityAccount_def erasedAccount_def [abs_def] split: if_splits)
  have audit: "iauActor (pseudonymise i p r) \<noteq> Some i \<and> (iauObjectType (pseudonymise i p r), iauObject (pseudonymise i p r)) \<noteq> (ON_ACCOUNT, i)"
    if "p \<noteq> i" for i p r
    using that by (auto simp: pseudonymise_def Let_def)
  have "\<exists>b \<in> set (accounts d'). accId b = accId a \<and> accStatus b = ACCOUNT_DELETED \<and> accUsername b = pseudonym env (accId a)
      \<and> accKey b = pseudonym env (accId a)"
    using assms(4) by (intro bexI [of _ "erasedAccount env (accId a) now a"]) (auto simp: d' updateAccount_def erasedAccount_def)
  then show ?thesis unfolding erased_def using audit by (auto simp: d' updateAccount_def)
qed


section \<open>Sessions\<close>

text \<open>The account is deleted, or it has a revoked session with this token's hash.\<close>

definition sessionClosed :: "ident \<Rightarrow> string \<Rightarrow> identity_db \<Rightarrow> bool" where
  "sessionClosed aid h d \<longleftrightarrow> coreInv d
     \<and> ((\<exists>a \<in> set (accounts d). accId a = aid \<and> accStatus a = ACCOUNT_DELETED)
        \<or> (\<exists>s \<in> set (loginSessions d). loToken s = h \<and> loAccount s = aid \<and> loRevokedAt s \<noteq> None))"

text \<open>An effect keeps a deleted account deleted and a revoked session revoked.\<close>

lemma update_other:
  assumes "distinct (map accId (accounts d))" and "a \<in> set (accounts d)" and "b \<in> set (accounts d)" and "b \<noteq> a"
  shows "b \<in> set (accounts (updateAccount (accId a) f d))"
proof -
  have "accId b \<noteq> accId a" using sameAccount [OF assms(1,3,2)] assms(4) by blast
  then show ?thesis using assms(3) by (force simp: updateAccount_def)
qed

lemma effect_deleted:
  assumes "effect d d'" and "distinct (map accId (accounts d))" and "b \<in> set (accounts d)" and "accStatus b = ACCOUNT_DELETED"
  shows "b \<in> set (accounts d')"
  using assms
proof (induction rule: effect.induct)
  case (start dr now corr a d d')
  have "accounts d' = accounts (updateAccount (accId a) (\<lambda>a. a\<lparr>accStatus := ACCOUNT_PENDING_DELETION, accRequestedAt := Some now,
      accDueAt := Some (now + accountDeletionWaitMs), accUpdatedAt := now\<rparr>) d)"
    using start(1) by (auto simp: startDeletion_def bind_eq_Some_conv dest!: enqueue_accounts)
  moreover have "b \<noteq> a" using start by auto
  ultimately show ?case using update_other [OF start(5,2,6)] by simp
qed (auto simp: sameCore_def insertAccount_accounts insertLoginSession_accounts intro!: update_other)

lemma revoked_kept:
  "s \<in> set (loginSessions d) \<Longrightarrow> loRevokedAt s \<noteq> None \<Longrightarrow> s \<in> set (loginSessions (revokeSessions p now d))"
  by (force simp: revokeSessions_def)

lemma enqueue_sessions: "enqueueAccountLifecycleEvent eid k corr ty now due d = Some d' \<Longrightarrow> loginSessions d' = loginSessions d"
  by (auto simp: enqueueAccountLifecycleEvent_def split: if_splits)

lemma effect_revoked:
  assumes "effect d d'" and "s \<in> set (loginSessions d)" and "loRevokedAt s \<noteq> None"
  shows "s \<in> set (loginSessions d')"
  using assms
proof (induction rule: effect.induct)
  case (start dr now corr a d d')
  have "\<exists>d0. loginSessions d0 = loginSessions d \<and> loginSessions d' = loginSessions (revokeSessions (\<lambda>s. loAccount s = accId a) now d0)"
    using start(1) unfolding startDeletion_def
    by (intro exI [of _ "updateAccount (accId a) (\<lambda>a. a\<lparr>accStatus := ACCOUNT_PENDING_DELETION, accRequestedAt := Some now,
      accDueAt := Some (now + accountDeletionWaitMs), accUpdatedAt := now\<rparr>) d"]) (auto simp: bind_eq_Some_conv dest!: enqueue_sessions)
  then show ?case using start(5,6) revoked_kept by metis
qed (auto simp: sameCore_def insertAccount_accounts revoked_kept insertLoginSession_def split: if_splits)

lemma effects_closed: "effects d d' \<Longrightarrow> sessionClosed aid h d \<Longrightarrow> sessionClosed aid h d'"
proof (induction rule: rtranclp_induct)
  case (step e f)
  then have closed: "sessionClosed aid h e" by simp
  then have core: "coreInv e" "coreInv f" using effect_core [OF step(2)] by (simp_all add: sessionClosed_def)
  then have "distinct (map accId (accounts e))" by (simp add: coreInv_def keysInv_def)
  then show ?case
    using closed core(2) effect_deleted [OF step(2)] effect_revoked [OF step(2)] unfolding sessionClosed_def by metis
qed

lemma closed_worker:
  assumes "sessionClosed aid h d"
  shows "sessionClosed aid h (snd (lifecycleRun env handled t0 t1 t2 d))"
proof -
  from assms have core: "coreInv d" by (simp add: sessionClosed_def)
  then have dist: "distinct (map accId (accounts d))" by (simp add: coreInv_def keysInv_def)
  let ?d = "snd (lifecycleRun env handled t0 t1 t2 d)"
  have "(accounts ?d = accounts d \<and> loginSessions ?d = loginSessions d)
      \<or> (\<exists>e d1. dueEvent t0 d = Some e \<and> leType e = DELETE_ACCOUNT \<and> eraseIdentityAccount env (leAccount e) t1 d = Inr d1
          \<and> accounts ?d = accounts d1 \<and> loginSessions ?d = loginSessions d1)"
    by (auto simp: lifecycleRun_def split: option.split sum.split)
  then show ?thesis
  proof (elim disjE exE conjE)
    assume "accounts ?d = accounts d" "loginSessions ?d = loginSessions d"
    then show ?thesis using assms lifecycleRun_core(1) [OF core] by (simp add: sessionClosed_def)
  next
    fix e d1
    assume e: "dueEvent t0 d = Some e" "leType e = DELETE_ACCOUNT" "eraseIdentityAccount env (leAccount e) t1 d = Inr d1"
      and d': "accounts ?d = accounts d1" "loginSessions ?d = loginSessions d1"
    obtain b where b: "b \<in> set (accounts d)" "accId b = leAccount e" "accStatus b = ACCOUNT_PENDING_DELETION"
      using live_deletion [OF core dueEventD(1,2) [OF e(1)] e(2)] by metis
    have row: "accountById (leAccount e) d = Some b" using accountById_eq [OF dist b(1)] b(2) by simp
    note d1 = erase_Inr(1,2) [OF e(3) row b(3)]
    have "\<exists>a \<in> set (accounts d1). accId a = leAccount e \<and> accStatus a = ACCOUNT_DELETED"
      using b by (intro bexI [of _ "erasedAccount env (leAccount e) t1 b"]) (auto simp: d1 updateAccount_def)
    moreover have "a \<in> set (accounts d1)" if "a \<in> set (accounts d)" "accStatus a = ACCOUNT_DELETED" for a
      using update_other [OF dist b(1) that(1), of "erasedAccount env (leAccount e) t1"] that(2) b(2,3)
      by (cases "a = b") (simp_all add: d1)
    ultimately have "(\<exists>a \<in> set (accounts d1). accId a = aid \<and> accStatus a = ACCOUNT_DELETED)
        \<or> (\<exists>s \<in> set (loginSessions d1). loToken s = h \<and> loAccount s = aid \<and> loRevokedAt s \<noteq> None)"
      using assms by (cases "leAccount e = aid") (auto simp: sessionClosed_def d1)
    then show ?thesis using lifecycleRun_core(1) [OF core] d' by (simp add: sessionClosed_def)
  qed
qed

interpretation closed_session: step_stable "identity_step env" "\<lambda>d. founded d \<and> sessionClosed aid h d" for env aid h
proof
  fix d d'
  assume "founded d \<and> sessionClosed aid h d" and step: "identity_step env d d'"
  then have founded: "founded d" and closed: "sessionClosed aid h d" by simp_all
  have "founded d'" using identity.step_inv [OF _ step] founded closed by (simp add: identityInv_def sessionClosed_def)
  have drop: "sessionClosed aid h (dropOldAudits now e) = sessionClosed aid h e" for now e
    using coreInv_cong [OF dropOldAudits_core(1)] by (simp add: sessionClosed_def) (simp add: dropOldAudits_def)
  from step have "sessionClosed aid h d'"
  proof cases
    case (command c dr now corr r)
    have "effects d (snd (execute env dr now corr c d))"
      by (rule execute_effects [OF _ command(1)]) (use founded in \<open>simp add: founded_def\<close>)
    then show ?thesis using effects_closed closed command(2) by simp
  next
    case (audits tok now r)
    then show ?thesis using closed drop by (auto simp: listIdentityAudits_def split: option.splits if_splits)
  next
    case (worker handled t0 t1 t2 cleanAt r cleanAt')
    then obtain e where "sessionClosed aid h e" "d' = snd (lifecycleRun env handled t0 t1 t2 e)"
      using closed drop by (auto simp: lifecycleRunOnce_def Let_def split: prod.splits if_splits) (metis snd_conv)+
    then show ?thesis using closed_worker by simp
  qed
  then show "founded d' \<and> sessionClosed aid h d'" using \<open>founded d'\<close> by simp
qed

text \<open>The commands that close the sessions of an account, when they succeed.\<close>

definition closes :: "identity_env \<Rightarrow> int \<Rightarrow> identity_db \<Rightarrow> identity_command \<Rightarrow> ident \<Rightarrow> bool" where
  "closes env now d c aid \<longleftrightarrow> (case c of
      CHANGE_PASSWORD _ _ tok \<Rightarrow> resolveAuditActorAccountId env tok now d = Some aid
    | COMPLETE_TEMPORARY_PASSWORD_CHANGE _ tok \<Rightarrow> resolveAuditActorAccountId env tok now d = Some aid
    | LOGOUT_ALL tok \<Rightarrow> resolveAuditActorAccountId env tok now d = Some aid
    | REQUEST_SELF_DELETION _ tok \<Rightarrow> resolveAuditActorAccountId env tok now d = Some aid
    | CANCEL_SELF_DELETION tok \<Rightarrow> resolveAuditActorAccountId env tok now d = Some aid
    | RESET_ACCOUNT_PASSWORD target _ \<Rightarrow> target = aid
    | SET_ACCOUNT_STATUS target _ _ st \<Rightarrow> target = aid \<and> st = ACCOUNT_DISABLED
    | REQUEST_ACCOUNT_DELETION target _ _ \<Rightarrow> target = aid
    | _ \<Rightarrow> False)"

definition revokedOf :: "ident \<Rightarrow> int \<Rightarrow> login_session_row list \<Rightarrow> login_session_row list" where
  "revokedOf aid now = map (\<lambda>s. if loAccount s = aid \<and> loRevokedAt s = None then s\<lparr>loRevokedAt := Some now\<rparr> else s)"

lemma revoke_sessions_eq: "loginSessions (revokeSessions (\<lambda>s. loAccount s = aid) now d) = revokedOf aid now (loginSessions d)"
  by (simp add: revokeSessions_def revokedOf_def)

lemma cancelEvents_sessions: "loginSessions (cancelEvents p now d) = loginSessions d"
  by simp

lemma insertLoginSession_sessions:
  "insertLoginSession env dr k now d = Some d' \<Longrightarrow> set (loginSessions d) \<subseteq> set (loginSessions d')"
  by (auto simp: insertLoginSession_def split: if_splits)

lemma appendAudit_sessions: "appendAudit aid act actor corr ty obj now res d = Some d' \<Longrightarrow> loginSessions d' = loginSessions d"
  by (auto simp: appendAudit_def split: if_splits)

lemma withAudit_Inr:
  assumes "withAudit dr now corr act ty obj actor run = (Inr r, d')"
  obtains d0 where "run = (Inr r, d0)" and "loginSessions d' = loginSessions d0" and "accounts d' = accounts d0"
  using assms by (auto simp: withAudit_def appendAudit_def split: prod.splits sum.splits option.splits if_splits)

lemma committing_Inr: "committing d r d' = (Inr x, e) \<Longrightarrow> x = r \<and> d' = Some e"
  by (auto simp: committing_def split: option.splits)

lemma refused_Inr [simp]: "refused c d = (Inr x, e) \<longleftrightarrow> x = Failed c \<and> e = d"
  by (auto simp: refused_def)

lemma succeeded_Failed [simp]: "\<not> succeeded (Failed c)"
  by (simp add: succeeded_def)

lemma sessionAccount_holder: "sessionAccount ok env tok now d = Some a \<Longrightarrow> resolveAuditActorAccountId env tok now d = Some (accId a)"
  by (auto simp: sessionAccount_def resolveAuditActorAccountId_def split: option.splits dest!: find_in)

lemma startDeletion_sessions:
  "startDeletion dr now corr aid d = Some d' \<Longrightarrow> loginSessions d' = revokedOf aid now (loginSessions d)"
  by (auto simp: startDeletion_def bind_eq_Some_conv revoke_sessions_eq dest!: enqueue_sessions)

lemma givePassword_sessions: "loginSessions (givePassword env dr now aid pw kind d) = revokedOf aid now (loginSessions d)"
  by (simp add: givePassword_def revoke_sessions_eq)

lemma writeStatus_sessions:
  "writeStatus dr now corr a ACCOUNT_DISABLED d = Some d' \<Longrightarrow> loginSessions d' = revokedOf (accId a) now (loginSessions d)"
  by (auto simp: writeStatus_def disableAccount_def Let_def revoke_sessions_eq dest!: enqueue_sessions split: if_splits)

text \<open>Each closing command leaves every earlier session of the account revoked.\<close>

lemma changePassword_closes:
  "changePassword env dr now cur new tok d = (Inr r, e) \<Longrightarrow> succeeded r \<Longrightarrow> resolveAuditActorAccountId env tok now d = Some aid \<Longrightarrow>
    set (revokedOf aid now (loginSessions d)) \<subseteq> set (loginSessions e)"
  by (auto simp: changePassword_def givePassword_sessions dest!: sessionAccount_holder split: option.splits if_splits)

lemma completeTemporary_closes:
  "completeTemporaryPasswordChange env dr now new tok d = (Inr r, e) \<Longrightarrow> succeeded r \<Longrightarrow> resolveAuditActorAccountId env tok now d = Some aid \<Longrightarrow>
    set (revokedOf aid now (loginSessions d)) \<subseteq> set (loginSessions e)"
  by (auto simp: completeTemporaryPasswordChange_def givePassword_sessions dest!: sessionAccount_holder committing_Inr insertLoginSession_sessions split: option.splits if_splits)

lemma logoutAll_closes:
  "logoutAll env now tok d = (Inr r, e) \<Longrightarrow> succeeded r \<Longrightarrow> resolveAuditActorAccountId env tok now d = Some aid \<Longrightarrow>
    set (revokedOf aid now (loginSessions d)) \<subseteq> set (loginSessions e)"
  by (auto simp: logoutAll_def resolveFullAccessAccount_def revoke_sessions_eq dest!: sessionAccount_holder split: option.splits if_splits)

lemma requestSelfDeletion_closes:
  "requestSelfDeletion env dr now corr pw tok d = (Inr r, e) \<Longrightarrow> succeeded r \<Longrightarrow> resolveAuditActorAccountId env tok now d = Some aid \<Longrightarrow>
    set (revokedOf aid now (loginSessions d)) \<subseteq> set (loginSessions e)"
  by (auto simp: requestSelfDeletion_def dest!: sessionAccount_holder committing_Inr startDeletion_sessions split: option.splits if_splits)

lemma cancelSelfDeletion_closes:
  "cancelSelfDeletion env dr now tok d = (Inr r, e) \<Longrightarrow> succeeded r \<Longrightarrow> resolveAuditActorAccountId env tok now d = Some aid \<Longrightarrow>
    set (revokedOf aid now (loginSessions d)) \<subseteq> set (loginSessions e)"
  by (auto simp: cancelSelfDeletion_def revoke_sessions_eq dest!: sessionAccount_holder committing_Inr insertLoginSession_sessions split: option.splits if_splits)

lemma resetPassword_closes:
  "resetAccountPassword env dr now aid tok d = (Inr r, e) \<Longrightarrow> succeeded r \<Longrightarrow> set (revokedOf aid now (loginSessions d)) \<subseteq> set (loginSessions e)"
  by (auto simp: resetAccountPassword_def givePassword_sessions split: option.splits if_splits)

lemma setAccountStatus_closes:
  "setAccountStatus env dr now corr aid pwo ACCOUNT_DISABLED tok d = (Inr r, e) \<Longrightarrow> succeeded r \<Longrightarrow> set (revokedOf aid now (loginSessions d)) \<subseteq> set (loginSessions e)"
  by (auto simp: setAccountStatus_def dest!: accountByIdD committing_Inr writeStatus_sessions split: option.splits if_splits)

lemma requestDeletion_closes:
  "requestAccountDeletion env dr now corr aid pw tok d = (Inr r, e) \<Longrightarrow> succeeded r \<Longrightarrow> set (revokedOf aid now (loginSessions d)) \<subseteq> set (loginSessions e)"
  by (auto simp: requestAccountDeletion_def dest!: committing_Inr startDeletion_sessions split: option.splits if_splits)

lemmas operation_closes = changePassword_closes completeTemporary_closes logoutAll_closes requestSelfDeletion_closes
  cancelSelfDeletion_closes resetPassword_closes setAccountStatus_closes requestDeletion_closes

lemma execute_closes:
  assumes "execute env dr now corr c d = (Inr r, d')" and "succeeded r" and "closes env now d c aid"
  shows "set (revokedOf aid now (loginSessions d)) \<subseteq> set (loginSessions d')"
  using assms
  by (cases c) (auto simp: execute_def Let_def closes_def elim!: withAudit_Inr dest!: operation_closes)

lemma closed_opens_nothing:
  assumes "sessionClosed aid (hashOpaqueSecret env tok) d" and "a \<in> set (accounts d)" and "accId a = aid" and "accStatus a \<noteq> ACCOUNT_DELETED"
  shows "sessionAccount ok env tok now d = None"
proof -
  from assms(1) have core: "coreInv d" by (simp add: sessionClosed_def)
  then have dist: "distinct (map accId (accounts d))" "distinct (map loToken (loginSessions d))" by (simp_all add: coreInv_def keysInv_def)
  from assms(1) obtain s where s: "s \<in> set (loginSessions d)" "loToken s = hashOpaqueSecret env tok" "loRevokedAt s \<noteq> None"
    using sameAccount [OF dist(1) assms(2)] assms(3,4) unfolding sessionClosed_def by metis
  have "liveSession env tok now d = None"
  proof (rule ccontr)
    assume "liveSession env tok now d \<noteq> None"
    then obtain x where "x \<in> set (loginSessions d)" "loToken x = loToken s" "loRevokedAt x = None"
      using s(2) by (auto simp: liveSession_def dest!: find_in)
    moreover from this have "x = s" using s(1) dist(2) by (simp add: distinct_map inj_on_def)
    ultimately show False using s(3) by simp
  qed
  then show ?thesis by (simp add: sessionAccount_def)
qed

text \<open>
  C12: when a change or a reset of a password, a logout of all, a disabling, a request for deletion or its cancellation
  succeeds, the sessions that the account had before never sign anybody in again, whatever steps follow, while the
  account is not erased.
\<close>

theorem closed_sessions_stay_closed:
  assumes "(identity_step env)\<^sup>*\<^sup>* emptyIdentity d" and "wellFormed c"
    and "execute env dr now corr c d = (Inr r, d1)" and "succeeded r" and "closes env now d c aid"
    and "s \<in> set (loginSessions d)" and "loAccount s = aid" and "loToken s = hashOpaqueSecret env tok"
    and "(identity_step env)\<^sup>*\<^sup>* d1 d2" and "a \<in> set (accounts d2)" and "accId a = aid" and "accStatus a \<noteq> ACCOUNT_DELETED"
  shows "sessionAccount ok env tok later d2 = None"
proof -
  have inv: "identityInv d1"
    by (rule identity.step_inv [OF identity.reachable_inv [OF assms(1)] identity_step.command [OF assms(2,3)]])
  have "(if loAccount s = aid \<and> loRevokedAt s = None then s\<lparr>loRevokedAt := Some now\<rparr> else s) \<in> set (revokedOf aid now (loginSessions d))"
    using assms(6) unfolding revokedOf_def by simp
  then obtain x where "x \<in> set (loginSessions d1)" "loToken x = loToken s" "loAccount x = aid" "loRevokedAt x \<noteq> None"
    using execute_closes [OF assms(3-5)] assms(7) by (cases "loRevokedAt s") fastforce+
  then have "founded d1 \<and> sessionClosed aid (hashOpaqueSecret env tok) d1"
    using inv assms(8) by (auto simp: identityInv_def sessionClosed_def)
  then have "sessionClosed aid (hashOpaqueSecret env tok) d2" using closed_session.steps_fact [OF assms(9)] by blast
  then show ?thesis by (rule closed_opens_nothing [OF _ assms(10-12)])
qed

section \<open>Authority\<close>

text \<open>The token of a session that is neither revoked nor expired, and its account.\<close>

definition holds :: "identity_env \<Rightarrow> int \<Rightarrow> identity_db \<Rightarrow> string \<Rightarrow> account_row \<Rightarrow> bool" where
  "holds env now d tok a \<longleftrightarrow> a \<in> set (accounts d)
     \<and> (\<exists>s \<in> set (loginSessions d). loToken s = ieSha256 env tok \<and> loRevokedAt s = None \<and> now < loExpiresAt s \<and> loAccount s = accId a)"

definition mayAct :: "account_row \<Rightarrow> bool" where
  "mayAct a \<longleftrightarrow> accStatus a = ACCOUNT_ACTIVE \<and> accKind a = PERMANENT"

text \<open>What entitles a command to change the row of an account.\<close>

definition entitled :: "identity_env \<Rightarrow> int \<Rightarrow> identity_db \<Rightarrow> identity_command \<Rightarrow> account_row \<Rightarrow> bool" where
  "entitled env now d c b \<longleftrightarrow> (case c of
      SET_ACCOUNT_ROLE target pw _ tok \<Rightarrow> target = accId b
        \<and> (\<exists>a. holds env now d tok a \<and> mayAct a \<and> accRole a = ROLE_SUPERADMIN \<and> verifyPassword env pw (accHash a))
    | SET_ACCOUNT_STATUS target pw tok _ \<Rightarrow> target = accId b
        \<and> (\<exists>a. holds env now d tok a \<and> mayAct a
             \<and> (accRole a = ROLE_ADMIN \<and> accRole b = ROLE_USER \<or> accRole a = ROLE_SUPERADMIN)
             \<and> (accRole b = ROLE_SUPERADMIN \<longrightarrow> (\<exists>p. pw = Some p \<and> verifyPassword env p (accHash a))))
    | RESET_ACCOUNT_PASSWORD target tok \<Rightarrow> target = accId b
        \<and> (\<exists>a. holds env now d tok a \<and> mayAct a
             \<and> (accRole a = ROLE_ADMIN \<and> accRole b = ROLE_USER \<or> accRole a = ROLE_SUPERADMIN \<and> accRole b \<noteq> ROLE_SUPERADMIN))
    | REQUEST_ACCOUNT_DELETION target pw tok \<Rightarrow> target = accId b \<and> accRole b = ROLE_USER
        \<and> (\<exists>a. holds env now d tok a \<and> mayAct a \<and> accRole a = ROLE_SUPERADMIN \<and> verifyPassword env pw (accHash a))
    | REQUEST_SELF_DELETION pw tok \<Rightarrow>
        holds env now d tok b \<and> mayAct b \<and> accRole b = ROLE_USER \<and> verifyPassword env pw (accHash b)
    | CANCEL_SELF_DELETION tok \<Rightarrow> holds env now d tok b \<and> accStatus b = ACCOUNT_PENDING_DELETION
    | CHANGE_PASSWORD old new tok \<Rightarrow> holds env now d tok b \<and> accStatus b = ACCOUNT_ACTIVE \<and> verifyPassword env old (accHash b)
    | COMPLETE_TEMPORARY_PASSWORD_CHANGE new tok \<Rightarrow> holds env now d tok b \<and> accStatus b = ACCOUNT_ACTIVE \<and> accKind b = TEMPORARY
    | RECOVER_SUPERADMIN isLocal new plain \<Rightarrow> isLocal \<and> accRole b = ROLE_SUPERADMIN \<and> accStatus b = ACCOUNT_ACTIVE
        \<and> (\<exists>r \<in> set (recoveryCodes d). recCode r = ieSha256 env plain \<and> recAccount r = accId b)
        \<and> (\<forall>a \<in> set (accounts d). accRole a = ROLE_SUPERADMIN \<and> mayAct a \<longrightarrow> a = b)
    | _ \<Rightarrow> False)"

lemma sessionAccount_holds:
  assumes "sessionAccount ok env tok now d = Some a"
  shows "holds env now d tok a \<and> ok a"
  using assms unfolding sessionAccount_def holds_def liveSession_def hashOpaqueSecret_def
  by (auto split: option.splits dest!: find_in)

lemma resolveFull_holds: "resolveFullAccessAccount env tok now d = Some a \<Longrightarrow> holds env now d tok a \<and> mayAct a"
  unfolding resolveFullAccessAccount_def by (auto simp: mayAct_def fullAccount_def dest!: sessionAccount_holds)

text \<open>An update changes the row of its own account only.\<close>

lemma updated_only:
  "b \<in> set (accounts d) \<Longrightarrow> b \<notin> set (accounts (updateAccount k f d)) \<Longrightarrow> accId b = k"
  by (force simp: updateAccount_def)

lemma startDeletion_accounts:
  "startDeletion dr now corr aid d = Some e \<Longrightarrow> \<exists>f. accounts e = accounts (updateAccount aid f d)"
  by (auto simp: startDeletion_def bind_eq_Some_conv dest!: enqueue_accounts)

lemma writeStatus_accounts:
  "writeStatus dr now corr a st d = Some e \<Longrightarrow> \<exists>f. accounts e = accounts (updateAccount (accId a) f d)"
  by (auto simp: writeStatus_def disableAccount_def Let_def dest!: enqueue_accounts split: if_splits)

lemma givePassword_accounts: "\<exists>f. accounts (givePassword env dr now aid pw kind d) = accounts (updateAccount aid f d)"
  by (auto simp: givePassword_def)

lemma appendAudit_accounts: "appendAudit aid act actor corr ty obj now res d = Some d' \<Longrightarrow> accounts d' = accounts d"
  by (auto simp: appendAudit_def split: if_splits)

text \<open>What an operation needs before it changes the row \<open>b\<close>.\<close>

definition needs :: "identity_db \<Rightarrow> account_row \<Rightarrow> bool \<Rightarrow> 'a identity_run \<Rightarrow> bool" where
  "needs d b P run \<longleftrightarrow> b \<in> set (accounts (snd run)) \<or> P"

lemma needs_refused [simp]: "b \<in> set (accounts d) \<Longrightarrow> needs d b P (refused c d)"
  by (simp add: needs_def)

lemma needs_committing:
  "b \<in> set (accounts d) \<Longrightarrow> (\<And>e. d' = Some e \<Longrightarrow> b \<notin> set (accounts e) \<Longrightarrow> P) \<Longrightarrow> needs d b P (committing d r d')"
  by (auto simp: needs_def committing_def split: option.split)

lemma needs_pair: "(b \<notin> set (accounts e) \<Longrightarrow> P) \<Longrightarrow> needs d b P (r, e)"
  by (auto simp: needs_def)

lemma needs_withAudit: "needs d b P run \<Longrightarrow> needs d b P (withAudit dr now corr act ty obj actor run)"
  by (auto simp: needs_def withAudit_def dest: appendAudit_accounts split: prod.splits sum.split option.split)

lemma needs_mono: "needs d b P run \<Longrightarrow> (P \<Longrightarrow> Q) \<Longrightarrow> needs d b Q run"
  by (auto simp: needs_def)

lemma needs_kept: "(\<And>r e. run = (r, e) \<Longrightarrow> set (accounts d) \<subseteq> set (accounts e)) \<Longrightarrow> b \<in> set (accounts d) \<Longrightarrow> needs d b P run"
  by (cases run) (auto simp: needs_def)

text \<open>The row that changes is the actor's own, or the target's.\<close>

lemma own_row:
  assumes "distinct (map accId (accounts d))" and "b \<in> set (accounts d)" and "sessionAccount ok env tok now d = Some a"
    and "b \<notin> set (accounts e)" and "\<exists>f. accounts e = accounts (updateAccount (accId a) f d)"
  shows "b = a \<and> holds env now d tok b \<and> ok b"
proof -
  have a: "holds env now d tok a \<and> ok a" by (rule sessionAccount_holds [OF assms(3)])
  have "accId b = accId a" using assms(4,5) updated_only [OF assms(2)] by metis
  then show ?thesis using sameAccount [OF assms(1,2)] a by (auto simp: holds_def)
qed

lemma target_row:
  assumes "distinct (map accId (accounts d))" and "b \<in> set (accounts d)" and "a \<in> set (accounts d)"
    and "b \<notin> set (accounts e)" and "\<exists>f. accounts e = accounts (updateAccount (accId a) f d)"
  shows "b = a"
  using assms(4,5) updated_only [OF assms(2)] sameAccount [OF assms(1-3)] by metis

lemma insertLoginSession_updates:
  "insertLoginSession env dr k now d1 = Some e \<Longrightarrow> \<exists>f. accounts d1 = accounts (updateAccount k' f d) \<Longrightarrow>
     \<exists>f. accounts e = accounts (updateAccount k' f d)"
  by (auto dest!: insertLoginSession_accounts)

lemma changePassword_needs:
  assumes "distinct (map accId (accounts d))" and "b \<in> set (accounts d)"
  shows "needs d b (entitled env now d (CHANGE_PASSWORD old new tok) b) (changePassword env dr now old new tok d)"
  using assms(2)
  by (auto simp: changePassword_def entitled_def activeAccount_def intro!: needs_pair split: option.split
      dest: own_row [OF assms _ _ givePassword_accounts])

lemma completeTemporary_needs:
  assumes "distinct (map accId (accounts d))" and "b \<in> set (accounts d)"
  shows "needs d b (entitled env now d (COMPLETE_TEMPORARY_PASSWORD_CHANGE new tok) b)
    (completeTemporaryPasswordChange env dr now new tok d)"
  using assms(2)
  by (auto simp: completeTemporaryPasswordChange_def entitled_def intro!: needs_committing split: option.split
      dest: own_row [OF assms _ _ insertLoginSession_updates [OF _ givePassword_accounts]])

lemma requestSelfDeletion_needs:
  assumes "distinct (map accId (accounts d))" and "b \<in> set (accounts d)"
  shows "needs d b (entitled env now d (REQUEST_SELF_DELETION pw tok) b) (requestSelfDeletion env dr now corr pw tok d)"
  using assms(2)
  by (auto simp: requestSelfDeletion_def entitled_def mayAct_def fullAccount_def intro!: needs_committing split: option.split
      dest: own_row [OF assms _ _ startDeletion_accounts])

lemma cancelSelfDeletion_needs:
  assumes "distinct (map accId (accounts d))" and "b \<in> set (accounts d)"
  shows "needs d b (entitled env now d (CANCEL_SELF_DELETION tok) b) (cancelSelfDeletion env dr now tok d)"
proof -
  have "\<exists>f. accounts (cancelEvents p now (revokeSessions q now (updateAccount k g d))) = accounts (updateAccount k f d)" for p q k g
    by auto
  then show ?thesis using assms(2)
    by (auto simp: cancelSelfDeletion_def entitled_def intro!: needs_committing split: option.split
        dest: own_row [OF assms _ _ insertLoginSession_updates])
qed

lemma setAccountRole_needs:
  assumes "distinct (map accId (accounts d))" and "b \<in> set (accounts d)"
  shows "needs d b (entitled env now d (SET_ACCOUNT_ROLE target pw r tok) b) (setAccountRole (\<lambda>d. d) env now target pw r tok d)"
  using assms(2)
  by (auto simp: setAccountRole_def entitled_def mayAct_def fullAccount_def intro!: needs_pair split: option.split
      dest: updated_only [OF assms(2)] dest!: sessionAccount_holds)

lemma setAccountStatus_needs:
  assumes "distinct (map accId (accounts d))" and "b \<in> set (accounts d)"
  shows "needs d b (entitled env now d (SET_ACCOUNT_STATUS target pw tok st) b) (setAccountStatus env dr now corr target pw st tok d)"
proof -
  have row: "b = a \<and> accId b = target" if "accountById target d = Some a" "writeStatus dr now corr a st d = Some e" "b \<notin> set (accounts e)" for a e
    using target_row [OF assms _ that(3) writeStatus_accounts [OF that(2)]] accountByIdD [OF that(1)] by simp
  have role: "accRole a = ROLE_ADMIN \<or> accRole a = ROLE_SUPERADMIN" if "isManager a" for a using that by (simp add: isManager_def)
  show ?thesis using assms(2)
    by (auto simp: setAccountStatus_def entitled_def mayAct_def fullAccount_def intro!: needs_committing split: option.split
        dest!: sessionAccount_holds row role split: option.splits)
qed

lemma resetPassword_needs:
  assumes "distinct (map accId (accounts d))" and "b \<in> set (accounts d)"
  shows "needs d b (entitled env now d (RESET_ACCOUNT_PASSWORD target tok) b) (resetAccountPassword env dr now target tok d)"
proof -
  have row: "b = a \<and> accId b = target" if "accountById target d = Some a" "b \<notin> set (accounts (givePassword env dr now target pw kind d))" for a pw kind
    using target_row [OF assms, of a] that givePassword_accounts accountByIdD [OF that(1)] by metis
  have role: "accRole a = ROLE_ADMIN \<or> accRole a = ROLE_SUPERADMIN" if "isManager a" for a using that by (simp add: isManager_def)
  show ?thesis using assms(2)
    by (auto simp: resetAccountPassword_def entitled_def intro!: needs_pair split: option.split
        dest!: resolveFull_holds dest: row role)
qed

lemma requestDeletion_needs:
  assumes "distinct (map accId (accounts d))" and "b \<in> set (accounts d)"
  shows "needs d b (entitled env now d (REQUEST_ACCOUNT_DELETION target pw tok) b) (requestAccountDeletion env dr now corr target pw tok d)"
proof -
  have row: "b = a \<and> accId b = target" if "accountById target d = Some a" "startDeletion dr now corr target d = Some e" "b \<notin> set (accounts e)" for a e
    using target_row [OF assms, of a] that startDeletion_accounts accountByIdD [OF that(1)] by metis
  show ?thesis using assms(2)
    by (auto simp: requestAccountDeletion_def entitled_def mayAct_def fullAccount_def intro!: needs_committing split: option.split
        dest!: sessionAccount_holds dest: row)
qed

lemma recoverSuperadmin_needs:
  assumes "distinct (map accId (accounts d))" and "b \<in> set (accounts d)"
  shows "needs d b (entitled env now d (RECOVER_SUPERADMIN isLocal new plain) b) (recoverSuperadmin env dr now isLocal new plain d)"
proof -
  have "entitled env now d (RECOVER_SUPERADMIN True new plain) b"
    if target: "recoveryTarget env plain d = Some a" and ok: "accRole a = ROLE_SUPERADMIN" "accStatus a = ACCOUNT_ACTIVE"
      "otherSuperadmins fullAccount (accId a) d = 0"
      and run: "insertLoginSession env dr (accId a) now (revokeSessions p now
        ((updateAccount (accId a) (setPassword env (drSalt dr) new PERMANENT now) d)\<lparr>recoveryCodes := rs\<rparr>)) = Some e"
      and out: "b \<notin> set (accounts e)" for a p rs e
  proof -
    from target obtain r where r: "r \<in> set (recoveryCodes d)" "recCode r = hashOpaqueSecret env plain"
      and row: "accountById (recAccount r) d = Some a"
      by (auto simp: recoveryTarget_def bind_eq_Some_conv dest!: find_in)
    have "accounts e = accounts (updateAccount (accId a) (setPassword env (drSalt dr) new PERMANENT now) d)"
      using insertLoginSession_accounts [OF run] by (simp add: revokeSessions_def)
    then have ab: "b = a" using target_row [OF assms _ out] accountByIdD [OF row] by blast
    have only: "c = b" if "c \<in> set (accounts d)" "accRole c = ROLE_SUPERADMIN" "mayAct c" for c
    proof -
      have "accId c = accId a" using ok(3) that by (auto simp: otherSuperadmins_def filter_empty_conv fullAccount_def mayAct_def)
      then show ?thesis using sameAccount [OF assms(1) that(1) assms(2)] ab by simp
    qed
    show ?thesis using r accountByIdD [OF row] ok ab only by (auto simp: entitled_def hashOpaqueSecret_def)
  qed
  then show ?thesis using assms(2)
    by (auto simp: recoverSuperadmin_def Let_def intro!: needs_committing split: option.split)
qed

lemma upsertThrottle_accounts: "upsertThrottle t d = Some d' \<Longrightarrow> accounts d' = accounts d"
  by (auto simp: upsertThrottle_def split: if_splits)

lemma others_need_nothing:
  assumes "b \<in> set (accounts d)"
  shows "needs d b False (bootstrapSuperadmin env dr now corr username password d)"
    and "needs d b False (createInvitation env dr now corr tok d)"
    and "needs d b False (registerWithInvitation env dr now corr plain username password d)"
    and "needs d b False (revokeInvitation env now iid tok d)"
    and "needs d b False (createAccount env dr now r tok username d)"
    and "needs d b False (logoutAll env now tok d)" and "needs d b False (Inr Done, logoutCurrent env now tok d)"
proof -
  show "needs d b False (bootstrapSuperadmin env dr now corr username password d)"
    using assms by (cases "accounts d") (simp_all add: bootstrapSuperadmin_def)
  show "needs d b False (createInvitation env dr now corr tok d)"
    using assms by (auto simp: createInvitation_def Let_def intro!: needs_committing split: option.split if_splits dest: appendAudit_accounts)
  show "needs d b False (registerWithInvitation env dr now corr plain username password d)"
    using assms by (auto simp: registerWithInvitation_def Let_def bind_eq_Some_conv intro!: needs_committing split: option.split
        dest!: appendAudit_accounts insertLoginSession_accounts insertAccount_accounts)
  show "needs d b False (revokeInvitation env now iid tok d)" "needs d b False (logoutAll env now tok d)"
    "needs d b False (Inr Done, logoutCurrent env now tok d)"
    using assms by (auto simp: revokeInvitation_def logoutAll_def logoutCurrent_def intro!: needs_pair split: option.split)
  show "needs d b False (createAccount env dr now r tok username d)"
    using assms by (auto simp: createAccount_def Let_def intro!: needs_pair split: option.split dest!: insertAccount_accounts)
qed

lemma login_needs:
  assumes "b \<in> set (accounts d)"
  shows "needs d b False (login env dr now corr password username d)"
proof -
  have "needs d b False (loginRefused env dr now corr k a th d)" for k a th
    using assms by (auto simp: loginRefused_def Let_def bind_eq_Some_conv intro!: needs_committing dest!: appendAudit_accounts upsertThrottle_accounts)
  moreover have "needs d b False (loginAllowed env dr now corr k a d)" for k a
    using assms by (auto simp: loginAllowed_def bind_eq_Some_conv intro!: needs_pair split: option.split
        dest!: appendAudit_accounts insertLoginSession_accounts)
  ultimately show ?thesis using assms
    by (auto simp: login_def Let_def intro!: needs_committing split: option.split dest!: appendAudit_accounts)
qed

text \<open>
  C5: in a reachable state a command changes the row of an account (its role, status, password or dates) only when the command
  is entitled to: on the token of a session that is neither revoked nor expired and belongs to the account itself or
  to an administrator whose role covers the account's, with the password where the code asks for it, or on the recovery
  code of the only superadmin that could still act.
\<close>

theorem change_needs_entitlement:
  assumes "(identity_step env)\<^sup>*\<^sup>* emptyIdentity d" and "execute env dr now corr c d = (r, d')"
    and "b \<in> set (accounts d)" and "b \<notin> set (accounts d')"
  shows "entitled env now d c b"
proof -
  have dist: "distinct (map accId (accounts d))" using reachable_core [OF assms(1)] by (simp add: coreInv_def keysInv_def)
  note parts = setAccountRole_needs setAccountStatus_needs resetPassword_needs requestDeletion_needs recoverSuperadmin_needs
    changePassword_needs completeTemporary_needs requestSelfDeletion_needs cancelSelfDeletion_needs
  have "needs d b (entitled env now d c b) (execute env dr now corr c d)"
    by (cases c)
       (use assms(3) in \<open>simp_all add: execute_def Let_def needs_withAudit parts [OF dist assms(3)]
          needs_mono [OF others_need_nothing(1)] needs_mono [OF others_need_nothing(2)] needs_mono [OF others_need_nothing(3)]
          needs_mono [OF others_need_nothing(4)] needs_mono [OF others_need_nothing(5)] needs_mono [OF others_need_nothing(6)]
          needs_mono [OF others_need_nothing(7)] needs_mono [OF login_needs]\<close>)
  then show ?thesis using assms(2,4) by (simp add: needs_def)
qed

end
