(* ===== verification/CM_Identity_Login.thy ===== *)
theory CM_Identity_Login
  imports CM_Identity_Properties
begin

text \<open>
  Logging in: the hash of a password accepts exactly the passwords with the same key, and however the commands are
  mixed, a name's password is checked at a bounded rate.
\<close>

section \<open>Passwords\<close>

lemma splitDollar_nonempty [simp]: "splitDollar s \<noteq> []"
  by (induction s) (auto split: list.split)

lemma splitDollar_plain: "CHR ''$'' \<notin> set s \<Longrightarrow> splitDollar s = [s]"
  by (induction s) auto

lemma splitDollar_append: "CHR ''$'' \<notin> set s \<Longrightarrow> splitDollar (s @ CHR ''$'' # rest) = s # splitDollar rest"
  by (induction s) auto

lemma verify_hash:
  assumes "\<And>s. ieDecode env (ieEncode env s) = s" and "\<And>s. CHR ''$'' \<notin> set (ieEncode env s)"
    and "\<And>p s n. length (ieScrypt env p s n) = n"
  shows "verifyPassword env q (hashPassword env salt p) = (ieScrypt env q salt 32 = ieScrypt env p salt 32)"
proof -
  have "splitDollar (hashPassword env salt p) = [''scrypt-v1'', ieEncode env salt, ieEncode env (ieScrypt env p salt 32)]"
    unfolding hashPassword_def
    using splitDollar_append [of "''scrypt-v1''" "ieEncode env salt @ ''$'' @ ieEncode env (ieScrypt env p salt 32)"]
      splitDollar_append [OF assms(2), of salt "ieEncode env (ieScrypt env p salt 32)"] splitDollar_plain [OF assms(2)]
    by simp
  then show ?thesis by (simp add: verifyPassword_def assms(1,3))
qed

text \<open>
  Where base64url decodes what it encodes, does not use the separator and scrypt gives keys of the length asked for,
  the hash stored for a password accepts exactly the passwords whose scrypt key under the same salt is the same, the
  password itself among them.
\<close>

theorem password_roundtrip:
  assumes "\<And>s. ieDecode env (ieEncode env s) = s" and "\<And>s. CHR ''$'' \<notin> set (ieEncode env s)"
    and "\<And>p s n. length (ieScrypt env p s n) = n"
  shows "verifyPassword env q (hashPassword env salt p) = (ieScrypt env q salt 32 = ieScrypt env p salt 32)
    \<and> verifyPassword env p (hashPassword env salt p)"
  using verify_hash [of env, OF assms] by simp

section \<open>The throttle\<close>

text \<open>A history of commands: what each draws, when it runs and its correlation id.\<close>

type_synonym identity_call = "identity_draw \<times> int \<times> ident \<times> identity_command"

fun callTime :: "identity_call \<Rightarrow> int" where
  "callTime (dr, now, corr, c) = now"

fun isLoginOf :: "string \<Rightarrow> identity_command \<Rightarrow> bool" where
  "isLoginOf k (LOGIN password username) = (normalizeUsername username = k)"
| "isLoginOf k _ = False"

text \<open>Logins for the key that were not turned away by the throttle, so that a password was checked.\<close>

fun passwordChecks :: "identity_env \<Rightarrow> string \<Rightarrow> identity_call list \<Rightarrow> identity_db \<Rightarrow> nat" where
  "passwordChecks env k [] d = 0"
| "passwordChecks env k ((dr, now, corr, c) # cs) d =
     (if isLoginOf k c \<and> lockedUntil now (throttleOf k d) = None then 1 else 0)
       + passwordChecks env k cs (snd (execute env dr now corr c d))"

text \<open>No login for the key succeeds or throws.\<close>

fun allRefused :: "identity_env \<Rightarrow> string \<Rightarrow> identity_call list \<Rightarrow> identity_db \<Rightarrow> bool" where
  "allRefused env k [] d = True"
| "allRefused env k ((dr, now, corr, c) # cs) d =
     ((isLoginOf k c \<longrightarrow> (case fst (execute env dr now corr c d) of Inr (Failed _) \<Rightarrow> True | _ \<Rightarrow> False))
       \<and> allRefused env k cs (snd (execute env dr now corr c d)))"

text \<open>Checks that are left until the time \<open>T\<close>: one each half minute once five have failed.\<close>

definition checksLeft :: "int \<Rightarrow> int \<Rightarrow> throttle_row option \<Rightarrow> int" where
  "checksLeft T now th =
     (let c = (case th of None \<Rightarrow> 0 | Some t \<Rightarrow> thCount t);
          from = (case Option.bind th thLockedUntil of None \<Rightarrow> now | Some l \<Rightarrow> max l now)
      in max 0 (4 - c) + (if T < from then 0 else 1 + (T - from) div loginThrottleLifetimeMs))"

text \<open>The counter of a throttle: from five on it is locked.\<close>

definition throttleOk :: "throttle_row option \<Rightarrow> bool" where
  "throttleOk th = (case th of None \<Rightarrow> True | Some t \<Rightarrow> 0 \<le> thCount t \<and> (thLockedUntil t \<noteq> None) = (thCount t \<ge> 5))"

lemma throttleOf_upsert:
  "upsertThrottle t d = Some d' \<Longrightarrow> throttleOf k d' = (if thKey t = k then Some t else throttleOf k d)"
proof -
  have upd: "find (\<lambda>u. thKey u = k) (map (\<lambda>u. if thKey u = thKey t then t else u) ts)
      = (if thKey t = k \<and> find (\<lambda>u. thKey u = k) ts \<noteq> None then Some t else find (\<lambda>u. thKey u = k) ts)" for ts k
    by (induction ts) auto
  have app: "find (\<lambda>u. thKey u = k) (ts @ [t])
      = (case find (\<lambda>u. thKey u = k) ts of None \<Rightarrow> if thKey t = k then Some t else None | x \<Rightarrow> x)" for ts k
    by (induction ts) auto
  assume "upsertThrottle t d = Some d'"
  then show ?thesis
    by (auto simp: upsertThrottle_def throttleOf_def upd app split: if_splits option.splits)
qed

lemma throttleOf_cong: "throttles d' = throttles d \<Longrightarrow> throttleOf k d' = throttleOf k d"
  by (simp add: throttleOf_def)

lemma throttleOf_drop: "k' \<noteq> k \<Longrightarrow> throttleOf k (d\<lparr>throttles := filter (\<lambda>t. thKey t \<noteq> k') (throttles d)\<rparr>) = throttleOf k d"
proof -
  assume "k' \<noteq> k"
  then have "find (\<lambda>t. thKey t = k) (filter (\<lambda>t. thKey t \<noteq> k') ts) = find (\<lambda>t. thKey t = k) ts" for ts
    by (induction ts) auto
  then show ?thesis by (simp add: throttleOf_def)
qed

lemma appendAudit_throttles: "appendAudit aid act actor corr ty obj now res d = Some d' \<Longrightarrow> throttles d' = throttles d"
  by (auto simp: appendAudit_def split: if_splits)

lemma insertLoginSession_throttles: "insertLoginSession env dr k now d = Some d' \<Longrightarrow> throttles d' = throttles d"
  by (auto simp: insertLoginSession_def split: if_splits)

text \<open>The throttles that a command leaves: its own name's row may change, and no other.\<close>

lemma loginRefused_throttle:
  assumes "loginRefused env dr now corr k a th d = (r, d')"
  shows "k' \<noteq> k \<Longrightarrow> throttleOf k' d' = throttleOf k' d"
    and "r = Inr x \<Longrightarrow> throttleOf k d' = Some \<lparr>thKey = k, thCount = failedCount th, thLockedUntil = newLock now (failedCount th), thUpdatedAt = now\<rparr>"
proof -
  have step: "throttleOf q d' = (if k = q then Some \<lparr>thKey = k, thCount = failedCount th, thLockedUntil = newLock now (failedCount th), thUpdatedAt = now\<rparr>
      else throttleOf q d)" if "r = Inr x" for q x
  proof -
    from assms that obtain d1 where 1: "upsertThrottle \<lparr>thKey = k, thCount = failedCount th,
        thLockedUntil = newLock now (failedCount th), thUpdatedAt = now\<rparr> d = Some d1" and 2: "throttles d' = throttles d1"
      by (auto simp: loginRefused_def Let_def committing_def bind_eq_Some_conv split: option.splits dest!: appendAudit_throttles)
    show ?thesis using throttleOf_upsert [OF 1, of q] throttleOf_cong [OF 2, of q] by simp
  qed
  have "r = Inl IDENTITY_ROW_REJECTED \<Longrightarrow> d' = d" using assms
    by (auto simp: loginRefused_def Let_def committing_def split: option.splits)
  moreover have "r = Inl IDENTITY_ROW_REJECTED \<or> (\<exists>x. r = Inr x)" using assms
    by (auto simp: loginRefused_def Let_def committing_def split: option.splits)
  ultimately show "k' \<noteq> k \<Longrightarrow> throttleOf k' d' = throttleOf k' d" using step by fastforce
  show "r = Inr x \<Longrightarrow> throttleOf k d' = Some \<lparr>thKey = k, thCount = failedCount th, thLockedUntil = newLock now (failedCount th), thUpdatedAt = now\<rparr>"
    using step by simp
qed

lemma loginAllowed_throttle:
  assumes "loginAllowed env dr now corr k a d = (r, d')" and "k' \<noteq> k"
  shows "throttleOf k' d' = throttleOf k' d"
  using assms throttleOf_drop [of k k' d]
  by (auto simp: loginAllowed_def bind_eq_Some_conv throttleOf_def split: option.splits
      dest!: appendAudit_throttles insertLoginSession_throttles)

lemma loginAllowed_succeeds: "fst (loginAllowed env dr now corr k a d) = Inr (Failed x) \<Longrightarrow> False"
  by (auto simp: loginAllowed_def split: option.splits)

lemma login_other:
  assumes "normalizeUsername username \<noteq> k"
  shows "throttleOf k (snd (login env dr now corr password username d)) = throttleOf k d"
proof -
  have "throttleOf k (snd (loginRefused env dr now corr (normalizeUsername username) a th d)) = throttleOf k d" for a th
    using loginRefused_throttle(1) [of env dr now corr "normalizeUsername username" a th d] assms by (metis prod.collapse)
  moreover have "throttleOf k (snd (loginAllowed env dr now corr (normalizeUsername username) a d)) = throttleOf k d" for a
    using loginAllowed_throttle [of env dr now corr "normalizeUsername username" a d] assms by (metis prod.collapse)
  ultimately show ?thesis
    by (auto simp: login_def Let_def committing_def throttleOf_def split: option.split dest: appendAudit_throttles)
qed

lemma login_locked: 
  assumes "lockedUntil now (throttleOf (normalizeUsername username) d) = Some t"
  shows "throttleOf k (snd (login env dr now corr password username d)) = throttleOf k d"
  using assms by (auto simp: login_def Let_def committing_def throttleOf_def split: option.split dest: appendAudit_throttles)

lemma login_checked:
  assumes "lockedUntil now (throttleOf (normalizeUsername username) d) = None"
    and "fst (login env dr now corr password username d) = Inr (Failed x)"
  shows "throttleOf (normalizeUsername username) (snd (login env dr now corr password username d))
    = Some \<lparr>thKey = normalizeUsername username, thCount = failedCount (throttleOf (normalizeUsername username) d),
        thLockedUntil = newLock now (failedCount (throttleOf (normalizeUsername username) d)), thUpdatedAt = now\<rparr>"
proof -
  let ?k = "normalizeUsername username"
  obtain a where "login env dr now corr password username d = loginRefused env dr now corr ?k a (throttleOf ?k d) d"
    using assms by (auto simp: login_def Let_def split: option.splits if_splits dest: loginAllowed_succeeds)
  then show ?thesis using loginRefused_throttle(2) assms(2) by (metis prod.collapse)
qed

lemma withAudit_throttles: "throttles (snd (withAudit dr now corr act ty obj actor run)) = throttles (snd run)"
  by (auto simp: withAudit_def split: prod.splits sum.split option.split dest: appendAudit_throttles)

lemma committing_throttles:
  "(\<And>e. d' = Some e \<Longrightarrow> throttles e = throttles d) \<Longrightarrow> throttles (snd (committing d r d')) = throttles d"
  by (simp add: committing_def split: option.split)

lemma tables_throttles [simp]:
  "throttles (updateAccount k f d) = throttles d" "throttles (revokeSessions p now d) = throttles d"
  "throttles (cancelEvents q now d) = throttles d"
  by (simp_all add: updateAccount_def revokeSessions_def cancelEvents_def)

lemma rows_throttles:
  "insertAccount a d = Some d' \<Longrightarrow> throttles d' = throttles d"
  "enqueueAccountLifecycleEvent eid k corr ty now due d = Some d' \<Longrightarrow> throttles d' = throttles d"
  by (auto simp: insertAccount_def enqueueAccountLifecycleEvent_def split: if_splits)

lemmas throttle_rows = rows_throttles appendAudit_throttles insertLoginSession_throttles

lemma operations_throttles:
  "throttles (snd (bootstrapSuperadmin env dr now corr username password d)) = throttles d"
  "throttles (snd (recoverSuperadmin env dr now isLocal new plain d)) = throttles d"
  "throttles (snd (createInvitation env dr now corr tok d)) = throttles d"
  "throttles (snd (registerWithInvitation env dr now corr plain username password d)) = throttles d"
  "throttles (snd (revokeInvitation env now iid tok d)) = throttles d"
  "throttles (snd (setAccountRole (\<lambda>d. d) env now target password r tok d)) = throttles d"
  "throttles (snd (requestSelfDeletion env dr now corr password tok d)) = throttles d"
  "throttles (snd (requestAccountDeletion env dr now corr target password tok d)) = throttles d"
  "throttles (snd (cancelSelfDeletion env dr now tok d)) = throttles d"
  "throttles (snd (createAccount env dr now r tok username d)) = throttles d"
  "throttles (snd (resetAccountPassword env dr now target tok d)) = throttles d"
  "throttles (snd (completeTemporaryPasswordChange env dr now new tok d)) = throttles d"
  "throttles (snd (changePassword env dr now cur new tok d)) = throttles d"
  "throttles (logoutCurrent env now tok d) = throttles d" "throttles (snd (logoutAll env now tok d)) = throttles d"
  by (auto simp: bootstrapSuperadmin_def recoverSuperadmin_def createInvitation_def registerWithInvitation_def revokeInvitation_def
      setAccountRole_def requestSelfDeletion_def requestAccountDeletion_def startDeletion_def cancelSelfDeletion_def createAccount_def
      resetAccountPassword_def completeTemporaryPasswordChange_def changePassword_def givePassword_def logoutCurrent_def logoutAll_def
      Let_def bind_eq_Some_conv split: option.split if_splits intro!: committing_throttles dest!: throttle_rows)

lemma setAccountStatus_throttles: "throttles (snd (setAccountStatus env dr now corr target password st tok d)) = throttles d"
proof -
  have "throttles e = throttles d" if "writeStatus dr now corr a st d = Some e" for a e
    using that by (auto simp: writeStatus_def disableAccount_def Let_def dest!: throttle_rows split: if_splits)
  then show ?thesis by (auto simp: setAccountStatus_def intro!: committing_throttles split: option.split)
qed

lemma execute_other:
  assumes "\<not> isLoginOf k c"
  shows "throttleOf k (snd (execute env dr now corr c d)) = throttleOf k d"
proof (cases "\<exists>password username. c = LOGIN password username")
  case True
  then show ?thesis using assms login_other by (auto simp: execute_def Let_def)
next
  case False
  then have "throttles (snd (execute env dr now corr c d)) = throttles d"
    by (cases c) (simp_all add: execute_def Let_def withAudit_throttles operations_throttles setAccountStatus_throttles)
  then show ?thesis by (rule throttleOf_cong)
qed

section \<open>The rate\<close>

lemma checksLeft_antimono: "t \<le> t' \<Longrightarrow> checksLeft T t' th \<le> checksLeft T t th"
proof -
  assume le: "t \<le> t'"
  let ?from = "\<lambda>t. case Option.bind th thLockedUntil of None \<Rightarrow> t | Some l \<Rightarrow> max l t"
  have "?from t \<le> ?from t'" using le by (auto split: option.split)
  moreover have "(T - b) div 30000 \<le> (T - a) div 30000" if "a \<le> b" for a b :: int
    using that by (intro zdiv_mono1) simp_all
  moreover have "0 \<le> (T - a) div 30000" if "a \<le> T" for a :: int using that by (simp add: pos_imp_zdiv_nonneg_iff)
  ultimately show ?thesis by (auto simp: checksLeft_def Let_def loginThrottleLifetimeMs_def)
qed

lemma checksLeft_nonneg: "0 \<le> checksLeft T t th"
  by (auto simp: checksLeft_def Let_def loginThrottleLifetimeMs_def pos_imp_zdiv_nonneg_iff split: option.split)

lemma checksLeft_failure:
  assumes "throttleOk th" and "lockedUntil now th = None" and "now \<le> T"
  shows "checksLeft T now (Some \<lparr>thKey = k, thCount = failedCount th, thLockedUntil = newLock now (failedCount th), thUpdatedAt = now\<rparr>) + 1
      \<le> checksLeft T now th"
    and "throttleOk (Some \<lparr>thKey = k, thCount = failedCount th, thLockedUntil = newLock now (failedCount th), thUpdatedAt = now\<rparr>)"
proof -
  let ?c = "case th of None \<Rightarrow> 0 | Some t \<Rightarrow> thCount t"
  have c: "0 \<le> ?c" "failedCount th = ?c + 1" using assms(1) by (auto simp: throttleOk_def failedCount_def split: option.splits)
  have base: "(case Option.bind th thLockedUntil of None \<Rightarrow> now | Some l \<Rightarrow> max l now) = now"
    using assms(2) by (auto simp: lockedUntil_def split: option.splits if_splits)
  have shift: "1 + (T - (now + 30000)) div 30000 = (T - now) div 30000"
    using div_add_self2 [of 30000 "T - (now + 30000)"] by simp
  have zero: "0 \<le> (T - now) div 30000" using assms(3) by (simp add: pos_imp_zdiv_nonneg_iff)
  show "throttleOk (Some \<lparr>thKey = k, thCount = failedCount th, thLockedUntil = newLock now (failedCount th), thUpdatedAt = now\<rparr>)"
    using c by (simp add: throttleOk_def newLock_def)
  have before: "checksLeft T now th = max 0 (4 - ?c) + 1 + (T - now) div 30000"
    using assms(3) unfolding checksLeft_def base Let_def loginThrottleLifetimeMs_def by simp
  have after: "checksLeft T now (Some \<lparr>thKey = k, thCount = failedCount th, thLockedUntil = newLock now (failedCount th), thUpdatedAt = now\<rparr>)
      = (if ?c + 1 \<ge> 5 then if T < now + 30000 then 0 else 1 + (T - (now + 30000)) div 30000
         else 3 - ?c + 1 + (T - now) div 30000)"
    using assms(3) by (simp add: checksLeft_def Let_def c(2) newLock_def loginThrottleLifetimeMs_def)
  show "checksLeft T now (Some \<lparr>thKey = k, thCount = failedCount th, thLockedUntil = newLock now (failedCount th), thUpdatedAt = now\<rparr>) + 1
      \<le> checksLeft T now th"
    unfolding before after using shift zero by auto
qed

lemma checks_bounded:
  assumes "throttleOk (throttleOf k d)" and "sorted (map callTime cs)" and "\<forall>c \<in> set cs. now \<le> callTime c \<and> callTime c \<le> T"
    and "allRefused env k cs d"
  shows "int (passwordChecks env k cs d) \<le> checksLeft T now (throttleOf k d)"
  using assms
proof (induction cs arbitrary: d now)
  case Nil
  then show ?case by (simp add: checksLeft_nonneg)
next
  case (Cons x cs)
  obtain dr t corr c where x: "x = (dr, t, corr, c)" by (cases x)
  let ?d = "snd (execute env dr t corr c d)"
  have rest: "sorted (map callTime cs)" "\<forall>c \<in> set cs. t \<le> callTime c \<and> callTime c \<le> T" "allRefused env k cs ?d"
    and t: "now \<le> t" "t \<le> T" using Cons.prems by (auto simp: x)
  note later = checksLeft_antimono [OF t(1), of T "throttleOf k d"]
  show ?case
  proof (cases "isLoginOf k c \<and> lockedUntil t (throttleOf k d) = None")
    case True
    then obtain password username where c: "c = LOGIN password username" "normalizeUsername username = k" by (cases c) auto
    then obtain code where "fst (login env dr t corr password username d) = Inr (Failed code)"
      using Cons.prems(4) by (auto simp: x execute_def Let_def split: sum.splits identity_result.splits)
    from login_checked [OF _ this] True c
    have th: "throttleOf k ?d = Some \<lparr>thKey = k, thCount = failedCount (throttleOf k d),
        thLockedUntil = newLock t (failedCount (throttleOf k d)), thUpdatedAt = t\<rparr>"
      by (simp add: execute_def Let_def)
    note fail = checksLeft_failure [OF Cons.prems(1) conjunct2 [OF True] t(2), of k]
    have "int (passwordChecks env k cs ?d) \<le> checksLeft T t (throttleOf k ?d)"
      by (rule Cons.IH [OF _ rest]) (simp only: th fail(2))
    then show ?thesis using fail(1) later True by (simp add: x th)
  next
    case False
    have "throttleOf k ?d = throttleOf k d"
    proof (cases "isLoginOf k c")
      case True
      then show ?thesis using False login_locked by (cases c) (auto simp: execute_def Let_def)
    qed (rule execute_other)
    then show ?thesis using Cons.IH [OF _ rest] Cons.prems(1) later False by (auto simp: x)
  qed
qed

text \<open>
  C18: from a state without failed logins for a name, whatever commands run between the times \<open>t0\<close> and \<open>T\<close>, if
  every login for the name is refused, then at most five passwords are checked, and one more for each further half
  minute; and a login that the throttle turns away answers alike for every password.
\<close>

theorem password_checks_bounded:
  assumes "throttleOf k d = None" and "sorted (map callTime cs)" and "\<forall>c \<in> set cs. t0 \<le> callTime c \<and> callTime c \<le> T"
    and "t0 \<le> T" and "allRefused env k cs d"
  shows "int (passwordChecks env k cs d) \<le> 5 + (T - t0) div 30000
    \<and> (lockedUntil now (throttleOf (normalizeUsername username) d') \<noteq> None \<longrightarrow>
        login env dr now corr p username d' = login env dr now corr q username d')"
proof -
  have "checksLeft T t0 (throttleOf k d) = 5 + (T - t0) div 30000"
    using assms(4) by (simp add: assms(1) checksLeft_def Let_def loginThrottleLifetimeMs_def)
  then show ?thesis using checks_bounded [OF _ assms(2,3,5)] assms(1)
    by (auto simp: throttleOk_def login_def Let_def)
qed

end
