(* ===== verification/CM_Identity_Witnesses.thy ===== *)
theory CM_Identity_Witnesses
  imports CM_Identity_Login
begin

text \<open>
  Histories of commands on an identity environment of small functions: the properties applied to them, and the
  histories behind the findings.
\<close>

section \<open>An environment\<close>

text \<open>The separator is written \<open>&!\<close>, and \<open>&\<close> is doubled.\<close>

fun escape :: "string \<Rightarrow> string" where
  "escape [] = []"
| "escape (c # s) = (if c = CHR ''$'' then ''&!'' else if c = CHR ''&'' then ''&&'' else [c]) @ escape s"

fun unescape :: "string \<Rightarrow> string" where
  "unescape [] = []"
| "unescape [c] = [c]"
| "unescape (c # e # s) = (if c = CHR ''&'' then (if e = CHR ''!'' then CHR ''$'' else e) # unescape s else c # unescape (e # s))"

definition plainKey :: "string \<Rightarrow> string \<Rightarrow> nat \<Rightarrow> string" where
  "plainKey p s n = take n (p @ s @ replicate n (CHR ''x''))"

definition smallEnv :: identity_env where
  "smallEnv = \<lparr>ieSha256 = (\<lambda>s. s), ieScrypt = plainKey, ieEncode = escape, ieDecode = unescape\<rparr>"

lemma unescape_other: "c \<noteq> CHR ''&'' \<Longrightarrow> unescape (c # s) = c # unescape s"
  by (cases s) auto

lemma unescape_escape: "unescape (escape s) = s"
  by (induction s) (auto simp: unescape_other)

lemma escape_plain: "CHR ''$'' \<notin> set (escape s)"
  by (induction s) auto

lemma plainKey_length: "length (plainKey p s n) = n"
  by (simp add: plainKey_def)

theorem password_roundtrip_witness:
  "verifyPassword smallEnv ''secret'' (hashPassword smallEnv ''salt'' ''secret'')
   \<and> \<not> verifyPassword smallEnv ''guess1'' (hashPassword smallEnv ''salt'' ''secret'')"
  using password_roundtrip [of smallEnv "''secret''" "''salt''" "''secret''"] password_roundtrip [of smallEnv "''guess1''" "''salt''" "''secret''"]
  by (simp add: smallEnv_def unescape_escape escape_plain plainKey_length) (simp add: plainKey_def)

section \<open>Histories\<close>

definition drawOf :: "string \<Rightarrow> identity_draw" where
  "drawOf n = \<lparr>drAccount = n, drSession = ''session-'' @ n, drInvitation = ''invitation-'' @ n, drAudit = ''audit-'' @ n,
     drRestrict = ''restrict-'' @ n, drDelete = ''delete-'' @ n, drToken = ''token-'' @ n, drCode = n, drPassword = ''temporary'',
     drSalt = ''salt''\<rparr>"

fun history :: "identity_env \<Rightarrow> identity_call list \<Rightarrow> identity_db \<Rightarrow> identity_db" where
  "history env [] d = d"
| "history env ((dr, now, corr, c) # cs) d = history env cs (snd (execute env dr now corr c d))"

lemma history_reachable:
  assumes "list_all (\<lambda>(dr, now, corr, c). wellFormed c) cs"
  shows "(identity_step env)\<^sup>*\<^sup>* d (history env cs d)"
  using assms
proof (induction cs arbitrary: d)
  case (Cons x cs)
  obtain dr now corr c where x: "x = (dr, now, corr, c)" by (cases x)
  have "identity_step env d (snd (execute env dr now corr c d))"
    using Cons.prems identity_step.command [of c env dr now corr d "fst (execute env dr now corr c d)"] by (simp add: x)
  moreover have "(identity_step env)\<^sup>*\<^sup>* (snd (execute env dr now corr c d)) (history env cs (snd (execute env dr now corr c d)))"
    using Cons by (simp add: x)
  ultimately show ?case by (simp add: x converse_rtranclp_into_rtranclp)
qed simp

lemma smallEnv_simps:
  "hashOpaqueSecret smallEnv s = s" "ieSha256 smallEnv s = s"
  "verifyPassword smallEnv q (hashPassword smallEnv salt p) = (plainKey q salt 32 = plainKey p salt 32)"
  using verify_hash [of smallEnv q salt p]
  by (simp_all add: hashOpaqueSecret_def smallEnv_def unescape_escape escape_plain plainKey_length)

lemmas demo_defs = drawOf_def smallEnv_simps plainKey_def emptyIdentity_def

lemmas run_defs = demo_defs execute_def Let_def refused_def committing_def insertLoginSession_def appendAudit_def
  newAccount_def insertAccount_def isValidUsername_def isValidPassword_def usernameChar_def normalizeUsername_def lowerAscii_def
  resolveFullAccessAccount_def sessionAccount_def liveSession_def fullAccount_def isManager_def loginSessionLifetimeMs_def
  bootstrapSuperadmin_def createInvitation_def registerWithInvitation_def openInvitation_def

lemmas audit_defs = withAudit_def succeeded_def orUnknown_def accountOr_def resolveAuditActorAccountId_def commandType_def commandToken_def

lemmas row_defs = updateAccount_def revokeSessions_def enqueueAccountLifecycleEvent_def cancelEvents_def accountById_def

lemmas deletion_defs = audit_defs row_defs startDeletion_def accountDeletionWaitMs_def requestSelfDeletion_def requestAccountDeletion_def cancelSelfDeletion_def

lemmas password_defs = audit_defs row_defs changePassword_def activeAccount_def givePassword_def setPassword_def

lemmas role_defs = audit_defs row_defs setAccountRole_def activeAccount_def otherSuperadmins_def createAccount_def

lemmas login_defs = login_def loginRefused_def loginAllowed_def throttleOf_def lockedUntil_def keyAccount_def mayLogIn_def failedCount_def
  newLock_def loginThrottleLifetimeMs_def upsertThrottle_def loginAccess_def

lemmas worker_defs = lifecycleRun_def dueEvent_def liveEvent_def updateEvent_def eraseIdentityAccount_def pseudonym_def pseudonymise_def

text \<open>A superadmin, and a user whom the superadmin invited.\<close>

definition firstCalls :: "identity_call list" where
  "firstCalls =
     [(drawOf ''a'', 1, ''c'', BOOTSTRAP_SUPERADMIN True ''secret'' ''boss''),
      (drawOf ''b'', 2, ''c'', CREATE_INVITATION ''token-a''),
      (drawOf ''u'', 3, ''c'', REGISTER_WITH_INVITATION ''b'' ''guest1'' ''user'')]"

definition firstDb :: identity_db where
  "firstDb = history smallEnv firstCalls emptyIdentity"

lemma firstDb_reachable: "(identity_step smallEnv)\<^sup>*\<^sup>* emptyIdentity firstDb"
  unfolding firstDb_def by (rule history_reachable) (simp add: firstCalls_def wellFormed_def)

lemma firstDb_eq: "firstDb =
  \<lparr>accounts =
     [\<lparr>accId = ''a'', accUsername = ''boss'', accKey = ''boss'', accRole = ROLE_SUPERADMIN, accStatus = ACCOUNT_ACTIVE,
        accHash = hashPassword smallEnv ''salt'' ''secret'', accKind = PERMANENT, accRequestedAt = None, accDueAt = None,
        accCreatedAt = 1, accUpdatedAt = 1\<rparr>,
      \<lparr>accId = ''u'', accUsername = ''user'', accKey = ''user'', accRole = ROLE_USER, accStatus = ACCOUNT_ACTIVE,
        accHash = hashPassword smallEnv ''salt'' ''guest1'', accKind = PERMANENT, accRequestedAt = None, accDueAt = None,
        accCreatedAt = 3, accUpdatedAt = 3\<rparr>],
   recoveryCodes = [\<lparr>recAccount = ''a'', recCode = ''a'', recCreatedAt = 1\<rparr>],
   loginSessions =
     [\<lparr>loId = ''session-a'', loAccount = ''a'', loToken = ''token-a'', loCreatedAt = 1, loExpiresAt = 604800001, loRevokedAt = None\<rparr>,
      \<lparr>loId = ''session-u'', loAccount = ''u'', loToken = ''token-u'', loCreatedAt = 3, loExpiresAt = 604800003, loRevokedAt = None\<rparr>],
   invitations =
     [\<lparr>inId = ''invitation-b'', inCode = ''b'', inCreator = ''a'', inCreatedAt = 2, inExpiresAt = 604800002, inRevokedAt = None,
        inUsedAt = Some 3, inUsedBy = Some ''u''\<rparr>],
   throttles = [],
   auditRows =
     [\<lparr>iauId = ''audit-a'', iauAt = 1, iauActor = Some ''a'', iauAction = ''BOOTSTRAP_SUPERADMIN'', iauObjectType = ON_ACCOUNT,
        iauObject = ''a'', iauResult = ALLOWED, iauCorrelation = ''c''\<rparr>,
      \<lparr>iauId = ''audit-b'', iauAt = 2, iauActor = Some ''a'', iauAction = ''CREATE_INVITATION'', iauObjectType = ON_INVITATION,
        iauObject = ''invitation-b'', iauResult = ALLOWED, iauCorrelation = ''c''\<rparr>,
      \<lparr>iauId = ''audit-u'', iauAt = 3, iauActor = Some ''u'', iauAction = ''REGISTER_WITH_INVITATION'', iauObjectType = ON_ACCOUNT,
        iauObject = ''u'', iauResult = ALLOWED, iauCorrelation = ''c''\<rparr>],
   lifecycleEvents = []\<rparr>"
  by (simp add: firstDb_def firstCalls_def run_defs)

lemma firstDb_shape: "length (accounts firstDb) = 2" "accounts firstDb \<noteq> []"
  by (simp_all add: firstDb_eq)


section \<open>A deletion\<close>

definition pendingDb :: identity_db where
  "pendingDb = history smallEnv [(drawOf ''d'', 4, ''c'', REQUEST_SELF_DELETION ''guest1'' ''token-u'')] firstDb"

definition restrictedDb :: identity_db where
  "restrictedDb = snd (lifecycleRun smallEnv (\<lambda>_. True) 5 5 5 pendingDb)"

definition erasedDb :: identity_db where
  "erasedDb = snd (lifecycleRun smallEnv (\<lambda>_. True) 604800004 604800005 604800006 restrictedDb)"

lemma history_reaches:
  assumes "(identity_step env)\<^sup>*\<^sup>* emptyIdentity d" and "list_all (\<lambda>(dr, now, corr, c). wellFormed c) cs"
  shows "(identity_step env)\<^sup>*\<^sup>* emptyIdentity (history env cs d)"
  using assms(1) history_reachable [OF assms(2)] by (rule rtranclp_trans)

lemma run_reaches:
  assumes "(identity_step env)\<^sup>*\<^sup>* emptyIdentity d"
  shows "(identity_step env)\<^sup>*\<^sup>* emptyIdentity (snd (lifecycleRun env handled t0 t1 t2 d))"
proof -
  have "identity_step env d (snd (lifecycleRun env handled t0 t1 t2 d))"
    by (rule identity_step.worker [of env handled t0 t1 t2 "t0 + 1" d "fst (lifecycleRun env handled t0 t1 t2 d)" "t0 + 1"])
       (simp add: lifecycleRunOnce_def Let_def split_beta)
  then show ?thesis using assms by (rule rtranclp.rtrancl_into_rtrancl [rotated])
qed

lemma pendingDb_reachable: "(identity_step smallEnv)\<^sup>*\<^sup>* emptyIdentity pendingDb"
  unfolding pendingDb_def by (rule history_reaches [OF firstDb_reachable]) (simp add: wellFormed_def)

lemma restrictedDb_reachable: "(identity_step smallEnv)\<^sup>*\<^sup>* emptyIdentity restrictedDb"
  unfolding restrictedDb_def by (rule run_reaches [OF pendingDb_reachable])

lemma pendingDb_user:
  "length (accounts pendingDb) = 2 \<and> accStatus (accounts pendingDb ! 1) = ACCOUNT_PENDING_DELETION
   \<and> accDueAt (accounts pendingDb ! 1) = Some 604800004"
  by (simp add: pendingDb_def firstDb_eq run_defs deletion_defs)

theorem deletion_scheduled_witness:
  "map leScheduledAt (filter (\<lambda>e. leAccount e = accId (accounts pendingDb ! 1) \<and> leType e = DELETE_ACCOUNT \<and> liveEvent e)
     (lifecycleEvents pendingDb)) = [604800004]"
  using deletion_scheduled [OF pendingDb_reachable, of "accounts pendingDb ! 1"] pendingDb_user by simp

lemma erased_row: "length (accounts restrictedDb) = 2 \<and> accounts restrictedDb ! 1 \<notin> set (accounts erasedDb)"
  by (simp add: erasedDb_def restrictedDb_def pendingDb_def firstDb_eq run_defs deletion_defs worker_defs)


section \<open>A new password\<close>

definition changeCommand :: identity_command where
  "changeCommand = CHANGE_PASSWORD ''guest1'' ''guest2'' ''token-u''"

definition changedDb :: identity_db where
  "changedDb = history smallEnv [(drawOf ''e'', 4, ''c'', changeCommand)] firstDb"

definition againDb :: identity_db where
  "againDb = history smallEnv [(drawOf ''f'', 5, ''c'', LOGIN ''guest2'' ''user'')] changedDb"

lemma change_facts:
  "fst (execute smallEnv (drawOf ''e'') 4 ''c'' changeCommand firstDb) = Inr Done"
  "resolveAuditActorAccountId smallEnv ''token-u'' 4 firstDb = Some ''u''"
  "length (loginSessions firstDb) = 2 \<and> loAccount (loginSessions firstDb ! 1) = ''u'' \<and> loToken (loginSessions firstDb ! 1) = ''token-u''"
  "length (accounts againDb) = 2 \<and> accId (accounts againDb ! 1) = ''u'' \<and> accStatus (accounts againDb ! 1) = ACCOUNT_ACTIVE
    \<and> length (loginSessions againDb) = 3"
  by (simp_all add: againDb_def changedDb_def changeCommand_def firstDb_eq run_defs password_defs login_defs)

theorem closed_sessions_stay_closed_witness: "sessionAccount openAccount smallEnv ''token-u'' 6 againDb = None"
proof (rule closed_sessions_stay_closed [OF firstDb_reachable])
  show "wellFormed changeCommand" by (simp add: wellFormed_def changeCommand_def)
  show "execute smallEnv (drawOf ''e'') 4 ''c'' changeCommand firstDb = (Inr Done, changedDb)"
    using change_facts(1) by (metis changedDb_def history.simps prod.collapse)
  show "succeeded Done" by (simp add: succeeded_def)
  show "closes smallEnv 4 firstDb changeCommand ''u''" using change_facts(2) by (simp add: closes_def changeCommand_def)
  show "loginSessions firstDb ! 1 \<in> set (loginSessions firstDb)" "loAccount (loginSessions firstDb ! 1) = ''u''"
    using change_facts(3) by simp_all
  show "loToken (loginSessions firstDb ! 1) = hashOpaqueSecret smallEnv ''token-u''"
    using change_facts(3) by (simp add: hashOpaqueSecret_def smallEnv_def)
  show "(identity_step smallEnv)\<^sup>*\<^sup>* changedDb againDb" unfolding againDb_def by (rule history_reachable) (simp add: wellFormed_def)
  show "accounts againDb ! 1 \<in> set (accounts againDb)" "accId (accounts againDb ! 1) = ''u''"
    "accStatus (accounts againDb ! 1) \<noteq> ACCOUNT_DELETED" using change_facts(4) by simp_all
qed

section \<open>A change of role\<close>

definition promote :: identity_command where
  "promote = SET_ACCOUNT_ROLE ''u'' ''secret'' ROLE_ADMIN ''token-a''"

lemma promoted: "accounts firstDb ! 1 \<notin> set (accounts (history smallEnv [(drawOf ''g'', 4, ''c'', promote)] firstDb))"
  by (simp add: promote_def firstDb_eq run_defs role_defs)

theorem change_needs_entitlement_witness: "entitled smallEnv 4 firstDb promote (accounts firstDb ! 1)"
proof (rule change_needs_entitlement [OF firstDb_reachable])
  show "execute smallEnv (drawOf ''g'') 4 ''c'' promote firstDb
      = (fst (execute smallEnv (drawOf ''g'') 4 ''c'' promote firstDb), history smallEnv [(drawOf ''g'', 4, ''c'', promote)] firstDb)"
    by simp
  show "accounts firstDb ! 1 \<in> set (accounts firstDb)" using firstDb_shape by simp
qed (rule promoted)

section \<open>Guessing a password\<close>

definition guesses :: "identity_call list" where
  "guesses = map (\<lambda>(n, t). (drawOf n, t, ''c'', LOGIN ''guess1'' ''boss''))
     [(''1'', 10), (''2'', 20), (''3'', 30), (''4'', 40), (''5'', 50), (''6'', 60), (''7'', 40000)]"

lemma guesses_facts:
  "throttleOf ''boss'' firstDb = None" "allRefused smallEnv ''boss'' guesses firstDb"
  "passwordChecks smallEnv ''boss'' guesses firstDb = 6"
  by (simp_all add: guesses_def firstDb_eq run_defs login_defs)

theorem password_checks_bounded_witness: "int (passwordChecks smallEnv ''boss'' guesses firstDb) \<le> 6"
proof -
  have "sorted (map callTime guesses)" "\<forall>c \<in> set guesses. 10 \<le> callTime c \<and> callTime c \<le> 40000"
    by (simp_all add: guesses_def)
  from conjunct1 [OF password_checks_bounded [OF guesses_facts(1) this _ guesses_facts(2)]] show ?thesis by simp
qed

section \<open>Behaviours that the code's comments and its other operations do not expect\<close>

text \<open>
  The guard of SET_ACCOUNT_ROLE counts superadmins whose password is temporary, which the guard of SET_ACCOUNT_STATUS and
  the recovery do not: afterwards no superadmin may act with full access.
\<close>

definition temporaryBossDb :: identity_db where
  "temporaryBossDb = history smallEnv
     [(drawOf ''h'', 4, ''c'', CREATE_ACCOUNT ROLE_ADMIN ''token-a'' ''helper''),
      (drawOf ''i'', 5, ''c'', SET_ACCOUNT_ROLE ''h'' ''secret'' ROLE_SUPERADMIN ''token-a''),
      (drawOf ''j'', 6, ''c'', SET_ACCOUNT_ROLE ''a'' ''secret'' ROLE_USER ''token-a'')] firstDb"

theorem no_superadmin_with_full_access:
  "(identity_step smallEnv)\<^sup>*\<^sup>* emptyIdentity temporaryBossDb
   \<and> list_all (\<lambda>a. accRole a = ROLE_SUPERADMIN = (accId a = ''h'')) (accounts temporaryBossDb)
   \<and> list_all (\<lambda>a. accId a = ''h'' = (accKind a = TEMPORARY)) (accounts temporaryBossDb)"
proof (intro conjI)
  show "(identity_step smallEnv)\<^sup>*\<^sup>* emptyIdentity temporaryBossDb"
    unfolding temporaryBossDb_def by (rule history_reaches [OF firstDb_reachable]) (simp add: wellFormed_def)
qed (simp_all add: temporaryBossDb_def firstDb_eq run_defs role_defs)

text \<open>Two superadmins who give up their role at the same time: neither transaction sees the other's update.\<close>

definition twoBossesDb :: identity_db where
  "twoBossesDb = history smallEnv
     [(drawOf ''k'', 4, ''c'', SET_ACCOUNT_ROLE ''u'' ''secret'' ROLE_SUPERADMIN ''token-a'')] firstDb"

theorem concurrent_demotions_leave_nobody:
  "list_all (\<lambda>a. accRole a = ROLE_USER)
     (accounts (snd (setAccountRole (\<lambda>d. snd (setAccountRole (\<lambda>d. d) smallEnv 5 ''u'' ''guest1'' ROLE_USER ''token-u'' d))
        smallEnv 5 ''a'' ''secret'' ROLE_USER ''token-a'' twoBossesDb)))"
  by (simp add: twoBossesDb_def firstDb_eq run_defs role_defs)

text \<open>The audit of a refused login names the account it did not find, and the erasure of an account of that name leaves it.\<close>

definition namedDb :: identity_db where
  "namedDb = history smallEnv ((drawOf ''0'', 0, ''c'', LOGIN ''guest1'' ''user'') # firstCalls @
     [(drawOf ''d'', 4, ''c'', REQUEST_SELF_DELETION ''guest1'' ''token-u'')]) emptyIdentity"

theorem erased_name_remains:
  "list_ex (\<lambda>r. iauObject r = ''user'') (auditRows (snd (lifecycleRun smallEnv (\<lambda>_. True) 604800004 604800005 604800006
     (snd (lifecycleRun smallEnv (\<lambda>_. True) 5 5 5 namedDb)))))
   \<and> list_all (\<lambda>a. accUsername a \<noteq> ''user'') (accounts (snd (lifecycleRun smallEnv (\<lambda>_. True) 604800004 604800005 604800006
     (snd (lifecycleRun smallEnv (\<lambda>_. True) 5 5 5 namedDb)))))"
  by (simp add: namedDb_def firstCalls_def run_defs login_defs deletion_defs worker_defs)

text \<open>The cancellation answers full access, though the password is temporary and the next query says that it must be changed.\<close>

definition temporaryUserDb :: identity_db where
  "temporaryUserDb = history smallEnv
     [(drawOf ''t'', 4, ''c'', CREATE_ACCOUNT ROLE_USER ''token-a'' ''guest''),
      (drawOf ''v'', 5, ''c'', REQUEST_ACCOUNT_DELETION ''t'' ''secret'' ''token-a''),
      (drawOf ''w'', 6, ''c'', LOGIN ''temporary'' ''guest'')] firstDb"

theorem cancelled_deletion_claims_full_access:
  "map_sum id (\<lambda>r. case r of SignedIn l v tok rec \<Rightarrow> Some l | _ \<Rightarrow> None)
     (fst (execute smallEnv (drawOf ''m'') 7 ''c'' (CANCEL_SELF_DELETION ''token-w'') temporaryUserDb)) = Inr (Some FULL)
   \<and> map_sum id (map_option csAccess) (getCurrentSession smallEnv ''token-m'' 8
       (snd (execute smallEnv (drawOf ''m'') 7 ''c'' (CANCEL_SELF_DELETION ''token-w'') temporaryUserDb)))
     = Inr (Some PASSWORD_CHANGE_REQUIRED)"
  by (simp add: temporaryUserDb_def firstDb_eq run_defs login_defs deletion_defs createAccount_def
      getCurrentSession_def openAccount_def)

end
