(* ===== verification/CM_Local_Services.thy ===== *)
theory CM_Local_Services
  imports CM_Decoders
begin

text \<open>
  The local model services: their contract (packages/contracts/src/local-services/v1/index.ts), the client that
  calls them and the configuration (packages/local-services/src/client.ts and index.ts). The upstream is a function of
  the request that is sent; zod's typing, JSON.stringify, base64 and URL parsing are parameters.
\<close>

section \<open>Requests and results\<close>

datatype local_port = MODEL_PROVIDER | EMBEDDING_PROVIDER | RERANKER | DOCUMENT_PARSER | ASR

datatype chat_role = ChatSystem | ChatUser | ChatAssistant

datatype document_media = PDF | PNG | JPEG | HTML

record rerank_document =
  rdDocument :: ident
  rdText :: string

datatype local_input =
    ModelInput "(chat_role \<times> string) list" int
  | EmbeddingInput "string list"
  | RerankerInput string "rerank_document list" int
  | ParserInput document_media string
  | AsrInput string "string option" \<comment> \<open>audio/wav\<close>

record local_request =
  lrRequest :: ident
  lrInput :: local_input

fun inputPort :: "local_input \<Rightarrow> local_port" where
  "inputPort (ModelInput _ _) = MODEL_PROVIDER"
| "inputPort (EmbeddingInput _) = EMBEDDING_PROVIDER"
| "inputPort (RerankerInput _ _ _) = RERANKER"
| "inputPort (ParserInput _ _) = DOCUMENT_PARSER"
| "inputPort (AsrInput _ _) = ASR"

abbreviation requestPort :: "local_request \<Rightarrow> local_port" where
  "requestPort r \<equiv> inputPort (lrInput r)"

datatype local_output =
    ModelOutput string string
  | EmbeddingOutput string int "rat list list"
  | RerankerOutput string "(ident \<times> rat) list"
  | ParserOutput string string int
  | AsrOutput string string "string option"

fun outputPort :: "local_output \<Rightarrow> local_port" where
  "outputPort (ModelOutput _ _) = MODEL_PROVIDER"
| "outputPort (EmbeddingOutput _ _ _) = EMBEDDING_PROVIDER"
| "outputPort (RerankerOutput _ _) = RERANKER"
| "outputPort (ParserOutput _ _ _) = DOCUMENT_PARSER"
| "outputPort (AsrOutput _ _ _) = ASR"

datatype local_error_code = LS_TIMEOUT | LS_CONNECTION_FAILED | LS_INVALID_RESPONSE | LS_CAPABILITY_LIMIT_EXCEEDED

datatype local_error_category = LS_TRANSPORT | LS_PROTOCOL | LS_CAPABILITY

record local_error =
  leCode :: local_error_code
  leCategory :: local_error_category
  leMessage :: string
  leRetryable :: bool

datatype local_result =
    LocalSucceeded ident local_output
  | LocalFailed ident local_port local_error

fun resultRequest :: "local_result \<Rightarrow> ident" where
  "resultRequest (LocalSucceeded rid _) = rid"
| "resultRequest (LocalFailed rid _ _) = rid"

fun resultPort :: "local_result \<Rightarrow> local_port" where
  "resultPort (LocalSucceeded _ out) = outputPort out"
| "resultPort (LocalFailed _ p _) = p"

section \<open>The schemas\<close>

definition base64Char :: "char \<Rightarrow> bool" where
  "base64Char c \<longleftrightarrow> (let n = (of_char c :: nat) in
     (65 \<le> n \<and> n \<le> 90) \<or> (97 \<le> n \<and> n \<le> 122) \<or> (48 \<le> n \<and> n \<le> 57) \<or> n = 43 \<or> n = 47)"

definition base64Schema :: "string \<Rightarrow> bool" where
  "base64Schema s \<longleftrightarrow> meaningfulTextSchema s \<and> takeWhile base64Char s \<noteq> []
     \<and> dropWhile base64Char s \<in> {'''', ''='', ''==''}"

definition optionalText :: "string option \<Rightarrow> bool" where
  "optionalText t \<longleftrightarrow> (case t of None \<Rightarrow> True | Some s \<Rightarrow> meaningfulTextSchema s)"

definition localServiceRequestSchema :: "local_request \<Rightarrow> bool" where
  "localServiceRequestSchema r \<longleftrightarrow> meaningfulTextSchema (lrRequest r)
     \<and> (case lrInput r of
          ModelInput ms n \<Rightarrow> ms \<noteq> [] \<and> list_all (\<lambda>(_, content). meaningfulTextSchema content) ms \<and> 0 < n
        | EmbeddingInput ts \<Rightarrow> ts \<noteq> [] \<and> list_all meaningfulTextSchema ts
        | RerankerInput q ds k \<Rightarrow> meaningfulTextSchema q \<and> ds \<noteq> []
            \<and> list_all (\<lambda>d. meaningfulTextSchema (rdDocument d) \<and> meaningfulTextSchema (rdText d)) ds \<and> 0 < k
        | ParserInput _ b \<Rightarrow> base64Schema b
        | AsrInput b lang \<Rightarrow> base64Schema b \<and> optionalText lang)"

definition successfulResultSchema :: "ident \<Rightarrow> local_output \<Rightarrow> bool" where
  "successfulResultSchema rid out \<longleftrightarrow> meaningfulTextSchema rid
     \<and> (case out of
          ModelOutput m t \<Rightarrow> meaningfulTextSchema m \<and> meaningfulTextSchema t
        | EmbeddingOutput m n vs \<Rightarrow> meaningfulTextSchema m \<and> 0 < n \<and> vs \<noteq> []
        | RerankerOutput m rs \<Rightarrow> meaningfulTextSchema m \<and> list_all (\<lambda>(d, _). meaningfulTextSchema d) rs
        | ParserOutput p t n \<Rightarrow> meaningfulTextSchema p \<and> meaningfulTextSchema t \<and> 0 < n
        | AsrOutput m t lang \<Rightarrow> meaningfulTextSchema m \<and> meaningfulTextSchema t \<and> optionalText lang)"

text \<open>The \<open>superRefine\<close> of embeddings: an issue for each vector of another length than \<open>dimensions\<close>.\<close>

definition dimensionIssues :: "local_result \<Rightarrow> path list" where
  "dimensionIssues r = (case r of
      LocalSucceeded _ (EmbeddingOutput _ n vs) \<Rightarrow>
        forEach (\<lambda>i v. report (int (length v) \<noteq> n) [K ''output'', K ''vectors'', I i]) vs
    | _ \<Rightarrow> [])"

definition localServiceErrorSchema :: "local_error \<Rightarrow> bool" where
  "localServiceErrorSchema e \<longleftrightarrow> meaningfulTextSchema (leMessage e)
     \<and> (case leCode e of
          LS_TIMEOUT \<Rightarrow> leCategory e = LS_TRANSPORT \<and> leRetryable e
        | LS_CONNECTION_FAILED \<Rightarrow> leCategory e = LS_TRANSPORT \<and> leRetryable e
        | LS_INVALID_RESPONSE \<Rightarrow> leCategory e = LS_PROTOCOL \<and> \<not> leRetryable e
        | LS_CAPABILITY_LIMIT_EXCEEDED \<Rightarrow> leCategory e = LS_CAPABILITY \<and> \<not> leRetryable e)"

definition failedResultSchema :: "ident \<Rightarrow> local_error \<Rightarrow> bool" where
  "failedResultSchema rid e \<longleftrightarrow> meaningfulTextSchema rid \<and> localServiceErrorSchema e"

definition localServiceResultSchema :: "local_result \<Rightarrow> bool" where
  "localServiceResultSchema r \<longleftrightarrow>
     (case r of LocalSucceeded rid out \<Rightarrow> successfulResultSchema rid out
      | LocalFailed rid _ e \<Rightarrow> failedResultSchema rid e)"

section \<open>Decoding\<close>

datatype raw_issue = ZodIssue path | DimensionIssue path

definition VECTOR_DIMENSION :: string where
  "VECTOR_DIMENSION = ''The vector must have the number of dimensions''"

definition localIssue :: "raw_issue \<Rightarrow> contract_issue" where
  "localIssue i = (case i of ZodIssue p \<Rightarrow> Issue p FIELD_INVALID | DimensionIssue p \<Rightarrow> Issue p VECTOR_DIMENSION)"

definition decodeLocalContract :: "(json \<Rightarrow> raw_issue list + 'a) \<Rightarrow> json \<Rightarrow> 'a decoded" where
  "decodeLocalContract safeParse input =
     (if jhas input ''contractVersion'' \<and> jget input ''contractVersion'' \<noteq> JStr ''1.0''
      then Inl (CONTRACT_VERSION_UNSUPPORTED, [Issue [K ''contractVersion''] ''The contract version is not supported''])
      else (case safeParse input of
          Inr v \<Rightarrow> Inr v
        | Inl is \<Rightarrow> Inl (CONTRACT_INVALID, map localIssue is)))"

definition decodeLocalServiceRequestV1 :: "local_request zod_shape \<Rightarrow> json \<Rightarrow> local_request decoded" where
  "decodeLocalServiceRequestV1 sh =
     decodeLocalContract (\<lambda>input. case schemaSafeParse sh localServiceRequestSchema input of
       Inl ps \<Rightarrow> Inl (map ZodIssue ps) | Inr v \<Rightarrow> Inr v)"

definition decodeLocalServiceResultV1 :: "local_result zod_shape \<Rightarrow> json \<Rightarrow> local_result decoded" where
  "decodeLocalServiceResultV1 sh =
     decodeLocalContract (\<lambda>input. case schemaSafeParse sh localServiceResultSchema input of
       Inl ps \<Rightarrow> Inl (map ZodIssue ps)
     | Inr v \<Rightarrow> if dimensionIssues v \<noteq> [] then Inl (map DimensionIssue (dimensionIssues v)) else Inr v)"

section \<open>JSON of a request\<close>

definition portText :: "local_port \<Rightarrow> string" where
  "portText p = (case p of MODEL_PROVIDER \<Rightarrow> ''MODEL_PROVIDER'' | EMBEDDING_PROVIDER \<Rightarrow> ''EMBEDDING_PROVIDER''
     | RERANKER \<Rightarrow> ''RERANKER'' | DOCUMENT_PARSER \<Rightarrow> ''DOCUMENT_PARSER'' | ASR \<Rightarrow> ''ASR'')"

definition roleText :: "chat_role \<Rightarrow> string" where
  "roleText r = (case r of ChatSystem \<Rightarrow> ''system'' | ChatUser \<Rightarrow> ''user'' | ChatAssistant \<Rightarrow> ''assistant'')"

definition mediaText :: "document_media \<Rightarrow> string" where
  "mediaText m = (case m of PDF \<Rightarrow> ''application/pdf'' | PNG \<Rightarrow> ''image/png'' | JPEG \<Rightarrow> ''image/jpeg'' | HTML \<Rightarrow> ''text/html'')"

definition jInt :: "int \<Rightarrow> json" where
  "jInt n = JNum (of_int n)"

definition messagesJson :: "(chat_role \<times> string) list \<Rightarrow> json" where
  "messagesJson ms = JArr (map (\<lambda>(r, c). JObj [(''role'', JStr (roleText r)), (''content'', JStr c)]) ms)"

definition inputJson :: "local_input \<Rightarrow> json" where
  "inputJson i = (case i of
      ModelInput ms n \<Rightarrow> JObj [(''messages'', messagesJson ms), (''maxOutputTokens'', jInt n)]
    | EmbeddingInput ts \<Rightarrow> JObj [(''texts'', JArr (map JStr ts))]
    | RerankerInput q ds k \<Rightarrow> JObj [(''query'', JStr q),
        (''documents'', JArr (map (\<lambda>d. JObj [(''documentId'', JStr (rdDocument d)), (''text'', JStr (rdText d))]) ds)),
        (''topK'', jInt k)]
    | ParserInput m b \<Rightarrow> JObj [(''document'', JObj [(''mediaType'', JStr (mediaText m)), (''dataBase64'', JStr b)])]
    | AsrInput b lang \<Rightarrow> JObj ((''audio'', JObj [(''mediaType'', JStr ''audio/wav''), (''dataBase64'', JStr b)])
        # (case lang of None \<Rightarrow> [] | Some l \<Rightarrow> [(''language'', JStr l)])))"

definition requestJson :: "local_request \<Rightarrow> json" where
  "requestJson r = JObj [(''contractType'', JStr ''local-service-request''), (''contractVersion'', JStr ''1.0''),
     (''requestId'', JStr (lrRequest r)), (''port'', JStr (portText (requestPort r))), (''input'', inputJson (lrInput r))]"

section \<open>Targets\<close>

datatype local_protocol =
    OPENAI_CHAT_COMPLETIONS | OPENAI_EMBEDDINGS | RERANK | PADDLEOCR_VL | MINERU | CHOICEMIND_DOCUMENT_PARSER

record local_target =
  ltService :: ident
  ltPort :: local_port
  ltBaseUrl :: string
  ltModel :: "string option"
  ltProtocol :: local_protocol
  ltTimeoutMs :: int
  ltMaxInputBytes :: "nat option"
  ltCapabilities :: "string list"
  ltLimitations :: "string list"

section \<open>The upstream request\<close>

datatype form_value = FormText string | FormFile string string string \<comment> \<open>bytes, media type, file name\<close>

datatype upstream_body = JsonBody json | FormBody "(string \<times> form_value) list"

record upstream_request =
  urUrl :: string
  urBody :: upstream_body
  urTimeoutMs :: int

text \<open>\<open>s.replace(/\/$/, "")\<close>\<close>

definition withoutSlash :: "string \<Rightarrow> string" where
  "withoutSlash s = (if s \<noteq> [] \<and> last s = CHR ''/'' then butlast s else s)"

definition joinUrl :: "string \<Rightarrow> string \<Rightarrow> string" where
  "joinUrl base p = withoutSlash base @ ''/'' @ p"

definition modelJson :: "local_target \<Rightarrow> json" where
  "modelJson t = (case ltModel t of None \<Rightarrow> JUndefined | Some m \<Rightarrow> JStr m)"

definition jsonPost :: "local_target \<Rightarrow> string \<Rightarrow> json \<Rightarrow> upstream_request" where
  "jsonPost t p body = \<lparr>urUrl = joinUrl (ltBaseUrl t) p, urBody = JsonBody body, urTimeoutMs = ltTimeoutMs t\<rparr>"

definition ocrMessages :: "document_media \<Rightarrow> string \<Rightarrow> json" where
  "ocrMessages m b = JArr [JObj [(''role'', JStr ''user''), (''content'', JArr [
     JObj [(''type'', JStr ''text''), (''text'', JStr ''Recognise all text in the picture.'')],
     JObj [(''type'', JStr ''image_url''),
       (''image_url'', JObj [(''url'', JStr (''data:'' @ mediaText m @ '';base64,'' @ b))])]])]]"

text \<open>\<open>None\<close> when the protocol does not take the request.\<close>

definition buildUpstreamRequest :: "(string \<Rightarrow> string) \<Rightarrow> local_target \<Rightarrow> local_request \<Rightarrow> upstream_request option" where
  "buildUpstreamRequest fromBase64 t r = (case (ltProtocol t, lrInput r) of
      (OPENAI_CHAT_COMPLETIONS, ModelInput ms n) \<Rightarrow>
        Some (jsonPost t ''chat/completions'' (JObj [(''model'', modelJson t), (''messages'', messagesJson ms),
          (''max_tokens'', jInt n), (''stream'', JBool False)]))
    | (OPENAI_EMBEDDINGS, EmbeddingInput ts) \<Rightarrow>
        Some (jsonPost t ''embeddings'' (JObj [(''model'', modelJson t), (''input'', JArr (map JStr ts))]))
    | (RERANK, RerankerInput q ds k) \<Rightarrow>
        Some (jsonPost t ''rerank'' (JObj [(''model'', modelJson t), (''query'', JStr q),
          (''documents'', JArr (map (\<lambda>d. JStr (rdText d)) ds)), (''top_n'', jInt k)]))
    | (PADDLEOCR_VL, ParserInput m b) \<Rightarrow>
        Some (jsonPost t ''chat/completions'' (JObj [(''model'', modelJson t), (''messages'', ocrMessages m b),
          (''max_tokens'', jInt 256), (''stream'', JBool False)]))
    | (MINERU, ParserInput m b) \<Rightarrow>
        Some \<lparr>urUrl = joinUrl (ltBaseUrl t) ''file_parse'',
          urBody = FormBody [(''files'', FormFile (fromBase64 b) (mediaText m)
              (if m = PDF then ''sample.pdf'' else ''sample.png'')),
            (''return_md'', FormText ''true''), (''response_format_zip'', FormText ''false''),
            (''backend'', FormText ''pipeline'')],
          urTimeoutMs = ltTimeoutMs t\<rparr>
    | (CHOICEMIND_DOCUMENT_PARSER, ParserInput _ _) \<Rightarrow> Some (jsonPost t ''document/parse'' (requestJson r))
    | _ \<Rightarrow> None)"

section \<open>The answer\<close>

text \<open>\<open>(value as unknown[])[0]\<close>, \<open>undefined\<close> when there is none.\<close>

definition firstElement :: "json \<Rightarrow> json" where
  "firstElement v = (case v of JArr (x # _) \<Rightarrow> x | _ \<Rightarrow> JUndefined)"

definition readChatText :: "json \<Rightarrow> json" where
  "readChatText payload =
     (let choice = firstElement (jget payload ''choices'') in
      if isRecord choice \<and> isRecord (jget choice ''message'') then jget (jget choice ''message'') ''content'' else JUndefined)"

definition isText :: "json \<Rightarrow> bool" where
  "isText v \<longleftrightarrow> (case v of JStr _ \<Rightarrow> True | _ \<Rightarrow> False)"

definition findMarkdown :: "json \<Rightarrow> json" where
  "findMarkdown v = (case v of
      JObj kvs \<Rightarrow> (case find (\<lambda>(_, w). isRecord w \<and> isText (jget w ''md_content'')) kvs of
          Some (_, w) \<Rightarrow> jget w ''md_content'' | None \<Rightarrow> JUndefined)
    | _ \<Rightarrow> JUndefined)"

text \<open>\<open>documents[item.index]?.documentId\<close>: only the whole numbers below the length are indexes.\<close>

definition documentAt :: "rerank_document list \<Rightarrow> rat \<Rightarrow> json" where
  "documentAt ds x =
     (if x = of_int \<lfloor>x\<rfloor> \<and> 0 \<le> x \<and> nat \<lfloor>x\<rfloor> < length ds then JStr (rdDocument (ds ! nat \<lfloor>x\<rfloor>)) else JUndefined)"

definition rankingJson :: "rerank_document list \<Rightarrow> json \<Rightarrow> json" where
  "rankingJson ds item = (case jget item ''index'' of
      JNum x \<Rightarrow> if isRecord item
        then JObj [(''documentId'', documentAt ds x), (''score'', jget item ''relevance_score'')] else JUndefined
    | _ \<Rightarrow> JUndefined)"

definition requestDocuments :: "local_request \<Rightarrow> rerank_document list" where
  "requestDocuments r = (case lrInput r of RerankerInput _ ds _ \<Rightarrow> ds | _ \<Rightarrow> [])"

definition withOutput :: "local_request \<Rightarrow> json \<Rightarrow> json" where
  "withOutput r out = JObj [(''contractType'', JStr ''local-service-result''), (''contractVersion'', JStr ''1.0''),
     (''requestId'', JStr (lrRequest r)), (''port'', JStr (portText (requestPort r))), (''ok'', JBool True), (''output'', out)]"

definition embeddingJson :: "json \<Rightarrow> json" where
  "embeddingJson item = (if isRecord item then jget item ''embedding'' else JUndefined)"

definition embeddingOutputJson :: "json \<Rightarrow> json" where
  "embeddingOutputJson payload =
     (let vectors = (case jget payload ''data'' of JArr vs \<Rightarrow> JArr (map embeddingJson vs) | _ \<Rightarrow> JUndefined) in
      JObj [(''model'', jget payload ''model''),
        (''dimensions'', (case firstElement vectors of JArr xs \<Rightarrow> JNum (of_nat (length xs)) | _ \<Rightarrow> JUndefined)),
        (''vectors'', vectors)])"

definition rerankOutputJson :: "local_request \<Rightarrow> json \<Rightarrow> json" where
  "rerankOutputJson r payload =
     JObj [(''model'', jget payload ''model''),
       (''rankings'', (case jget payload ''results'' of
          JArr items \<Rightarrow> JArr (map (rankingJson (requestDocuments r)) items) | _ \<Rightarrow> JUndefined))]"

text \<open>\<open>target.model?.replace(/^MinerU-/, "")\<close>\<close>

definition mineruVersion :: "local_target \<Rightarrow> json" where
  "mineruVersion t = (case ltModel t of None \<Rightarrow> JUndefined
     | Some m \<Rightarrow> JStr (if take 7 m = ''MinerU-'' then drop 7 m else m))"

text \<open>The answer names the model that was asked.\<close>

definition answersModel :: "local_target \<Rightarrow> json \<Rightarrow> bool" where
  "answersModel t payload \<longleftrightarrow>
     (if ltProtocol t = MINERU
      then jget payload ''status'' = JStr ''completed'' \<and> jget payload ''version'' = mineruVersion t
      else jget payload ''model'' = modelJson t)"

definition mapSuccessfulResponse :: "local_target \<Rightarrow> local_request \<Rightarrow> json \<Rightarrow> json" where
  "mapSuccessfulResponse t r payload =
     (if \<not> isRecord payload then withOutput r JUndefined
      else if ltProtocol t = CHOICEMIND_DOCUMENT_PARSER
      then (if jget payload ''requestId'' = JStr (lrRequest r) \<and> jget payload ''port'' = JStr (portText (requestPort r))
            then payload else withOutput r JUndefined)
      else if \<not> answersModel t payload then withOutput r JUndefined
      else withOutput r (case ltProtocol t of
          OPENAI_CHAT_COMPLETIONS \<Rightarrow> JObj [(''model'', jget payload ''model''), (''text'', readChatText payload)]
        | OPENAI_EMBEDDINGS \<Rightarrow> embeddingOutputJson payload
        | RERANK \<Rightarrow> rerankOutputJson r payload
        | PADDLEOCR_VL \<Rightarrow> JObj [(''parser'', modelJson t), (''text'', readChatText payload), (''pageCount'', jInt 1)]
        | MINERU \<Rightarrow> JObj [(''parser'', modelJson t), (''text'', findMarkdown (jget payload ''results'')), (''pageCount'', jInt 1)]
        | CHOICEMIND_DOCUMENT_PARSER \<Rightarrow> JUndefined))"

section \<open>The client\<close>

definition localFailure :: "local_target \<Rightarrow> ident \<Rightarrow> local_error_code \<Rightarrow> string \<Rightarrow> local_result" where
  "localFailure t rid c msg =
     (let transport = (c = LS_TIMEOUT \<or> c = LS_CONNECTION_FAILED) in
      LocalFailed rid (ltPort t) \<lparr>leCode = c,
        leCategory = (if transport then LS_TRANSPORT else if c = LS_INVALID_RESPONSE then LS_PROTOCOL else LS_CAPABILITY),
        leMessage = msg, leRetryable = transport\<rparr>)"

text \<open>What \<open>fetch\<close> gives: it throws (at the time limit or otherwise), or answers a status and a body, if it is JSON.\<close>

datatype fetch_outcome = FetchTimedOut | FetchThrew | FetchAnswered nat "json option"

record local_client =
  clientShape :: "local_result zod_shape"
  clientBytes :: "json \<Rightarrow> nat" \<comment> \<open>\<open>Buffer.byteLength(JSON.stringify(v), "utf8")\<close>\<close>
  clientFromBase64 :: "string \<Rightarrow> string"
  clientFetch :: "upstream_request \<Rightarrow> fetch_outcome"

definition executeLocalServiceRequest :: "local_client \<Rightarrow> local_target \<Rightarrow> local_request \<Rightarrow> local_result" where
  "executeLocalServiceRequest cl t r =
     (let fail = localFailure t (lrRequest r);
          bytes = clientBytes cl (inputJson (lrInput r)) in
      if ltPort t \<noteq> requestPort r then fail LS_INVALID_RESPONSE ''The target does not serve the port of the request''
      else case (case ltMaxInputBytes t of None \<Rightarrow> None | Some most \<Rightarrow> if bytes > most then Some most else None) of
        Some most \<Rightarrow> fail LS_CAPABILITY_LIMIT_EXCEEDED
          (''The input of '' @ decimal bytes @ '' bytes exceeds the limit of '' @ decimal most)
      | None \<Rightarrow>
        (case map_option (clientFetch cl) (buildUpstreamRequest (clientFromBase64 cl) t r) of
            None \<Rightarrow> fail LS_CONNECTION_FAILED ''The local service cannot be reached''
          | Some FetchThrew \<Rightarrow> fail LS_CONNECTION_FAILED ''The local service cannot be reached''
          | Some FetchTimedOut \<Rightarrow> fail LS_TIMEOUT ''The call of the local service timed out''
          | Some (FetchAnswered st body) \<Rightarrow>
              if \<not> (200 \<le> st \<and> st \<le> 299)
              then fail (if st = 408 \<or> st = 504 then LS_TIMEOUT else LS_INVALID_RESPONSE)
                     (''The upstream answered HTTP '' @ decimal st)
              else (case body of
                  None \<Rightarrow> fail LS_INVALID_RESPONSE ''The upstream did not answer JSON''
                | Some payload \<Rightarrow>
                    (case decodeLocalServiceResultV1 (clientShape cl) (mapSuccessfulResponse t r payload) of
                        Inl _ \<Rightarrow> fail LS_INVALID_RESPONSE ''The answer does not satisfy the contract''
                      | Inr v \<Rightarrow> v))))"

end
