(* ===== verification/CM_Evidence_Ingestion.thy ===== *)
theory CM_Evidence_Ingestion
  imports CM_Local_Services CM_Security_Facts CM_Evidence_Index
begin

text \<open>
  packages/evidence-ingestion/src/index.ts: public pages are collected behind an allowlist, a check of the addresses
  and the egress guard, kept under their digest, parsed into evidence, indexed and searched. The network, DNS,
  SHA-256, base64 and URL parsing are parameters; every port decides for each call whether it answers or throws.
\<close>

section \<open>IP addresses\<close>

text \<open>\<open>s.split(c)\<close>\<close>

fun splitOn :: "char \<Rightarrow> string \<Rightarrow> string list" where
  "splitOn c [] = [[]]"
| "splitOn c (x # xs) = (if x = c then [] # splitOn c xs
     else (case splitOn c xs of p # ps \<Rightarrow> (x # p) # ps | [] \<Rightarrow> [[x]]))"

text \<open>\<open>isIP\<close> of node:net: dotted octets without leading zeros; groups of hexadecimal digits.\<close>

definition isOctet :: "string \<Rightarrow> bool" where
  "isOctet s \<longleftrightarrow> s \<noteq> [] \<and> list_all isDigit s \<and> (s = ''0'' \<or> hd s \<noteq> CHR ''0'') \<and> length s \<le> 3 \<and> BigInt s \<le> 255"

definition isIPv4 :: "string \<Rightarrow> bool" where
  "isIPv4 s \<longleftrightarrow> (let ps = splitOn CHR ''.'' s in length ps = 4 \<and> list_all isOctet ps)"

definition isHexChar :: "char \<Rightarrow> bool" where
  "isHexChar c \<longleftrightarrow> hexDigit c \<or> (let n = (of_char c :: nat) in 65 \<le> n \<and> n \<le> 70)"

definition isGroup :: "string \<Rightarrow> bool" where
  "isGroup s \<longleftrightarrow> s \<noteq> [] \<and> length s \<le> 4 \<and> list_all isHexChar s"

text \<open>How many groups a sequence stands for; a dotted address at its end stands for two.\<close>

fun groupsWidth :: "bool \<Rightarrow> string list \<Rightarrow> nat option" where
  "groupsWidth dotted [] = Some 0"
| "groupsWidth dotted [p] = (if isGroup p then Some 1 else if dotted \<and> isIPv4 p then Some 2 else None)"
| "groupsWidth dotted (p # ps) = (if isGroup p then map_option Suc (groupsWidth dotted ps) else None)"

definition sideGroups :: "string \<Rightarrow> string list" where
  "sideGroups s = (if s = [] then [] else splitOn CHR '':'' s)"

text \<open>The parts before and after the first \<open>::\<close>.\<close>

fun splitDouble :: "string \<Rightarrow> (string \<times> string) option" where
  "splitDouble (a # b # s) = (if a = CHR '':'' \<and> b = CHR '':'' then Some ([], s)
     else map_option (\<lambda>(l, r). (a # l, r)) (splitDouble (b # s)))"
| "splitDouble _ = None"

definition isZone :: "string \<Rightarrow> bool" where
  "isZone s \<longleftrightarrow> s \<noteq> [] \<and> list_all (\<lambda>c. let n = (of_char c :: nat) in
     (48 \<le> n \<and> n \<le> 58) \<or> (65 \<le> n \<and> n \<le> 90) \<or> (97 \<le> n \<and> n \<le> 122) \<or> n = 45 \<or> n = 46) s"

definition isIPv6 :: "string \<Rightarrow> bool" where
  "isIPv6 s \<longleftrightarrow>
     (let body = takeWhile (\<lambda>c. c \<noteq> CHR ''%'') s; zone = dropWhile (\<lambda>c. c \<noteq> CHR ''%'') s in
      (zone = [] \<or> isZone (tl zone))
      \<and> (case splitDouble body of
           None \<Rightarrow> groupsWidth True (splitOn CHR '':'' body) = Some 8
         | Some (l, r) \<Rightarrow> (case (groupsWidth False (sideGroups l), groupsWidth True (sideGroups r)) of
               (Some m, Some n) \<Rightarrow> m + n \<le> 7 | _ \<Rightarrow> False)))"

definition isIP :: "string \<Rightarrow> nat" where
  "isIP s = (if isIPv4 s then 4 else if isIPv6 s then 6 else 0)"

section \<open>Private addresses\<close>

definition startsWith :: "string \<Rightarrow> string \<Rightarrow> bool" where
  "startsWith p s \<longleftrightarrow> take (length p) s = p"

definition endsIn :: "string \<Rightarrow> string \<Rightarrow> bool" where
  "endsIn p s \<longleftrightarrow> length p \<le> length s \<and> drop (length s - length p) s = p"

definition normalizeHostname :: "string \<Rightarrow> string" where
  "normalizeHostname h = (if startsWith ''['' h \<and> endsIn '']'' h then butlast (tl h) else h)"

definition isLocalHostname :: "string \<Rightarrow> bool" where
  "isLocalHostname h \<longleftrightarrow> h = ''localhost'' \<or> endsIn ''.localhost'' h"

definition lowerChar :: "char \<Rightarrow> char" where
  "lowerChar c = (let n = (of_char c :: nat) in
     if (65 \<le> n \<and> n \<le> 90) \<or> (192 \<le> n \<and> n \<le> 222 \<and> n \<noteq> 215) then char_of (n + 32) else c)"

definition privateOctets :: "nat \<Rightarrow> nat \<Rightarrow> bool" where
  "privateOctets a b \<longleftrightarrow> a = 0 \<or> a = 10 \<or> a = 127 \<or> (a = 169 \<and> b = 254) \<or> (a = 172 \<and> 16 \<le> b \<and> b \<le> 31) \<or> (a = 192 \<and> b = 168)"

lemma normalizeHostname_length: "length (normalizeHostname h) \<le> length h"
  by (simp add: normalizeHostname_def)

function isPrivateAddress :: "string \<Rightarrow> bool" where
  "isPrivateAddress address =
     (let normalized = map lowerChar (normalizeHostname address) in
      if isIP normalized = 4
      then (case map BigInt (splitOn CHR ''.'' normalized) of a # b # _ \<Rightarrow> privateOctets a b | _ \<Rightarrow> privateOctets 0 0)
      else if isIP normalized \<noteq> 6 then True
      else if normalized = ''::'' \<or> normalized = ''::1'' then True
      else if startsWith ''fc'' normalized \<or> startsWith ''fd'' normalized then True
      else if startsWith ''fe'' normalized \<and> length normalized \<ge> 3 \<and> normalized ! 2 \<in> set ''89ab'' then True
      else if startsWith ''::ffff:'' normalized then isPrivateAddress (drop 7 normalized)
      else False)"
  by pat_completeness auto
termination
proof (relation "measure length")
  fix address normalized :: string
  assume "normalized = map lowerChar (normalizeHostname address)" and "startsWith ''::ffff:'' normalized"
  then have "length normalized \<le> length address" and "0 < length normalized"
    using normalizeHostname_length [of address] by (auto simp: startsWith_def)
  then have "length normalized - 7 < length address" by linarith
  then show "(drop 7 normalized, address) \<in> measure length" by simp
qed simp

declare isPrivateAddress.simps [simp del]

section \<open>The raw object store\<close>

text \<open>The files below \<open>rootDirectory/evidence-raw/sha256\<close>, by name.\<close>

datatype object_error = ObjectReferenceInvalid | ObjectCorrupted | ObjectUnreadable | ObjectNotWritten

definition toRawArtifactReference :: "string \<Rightarrow> raw_artifact" where
  "toRawArtifactReference d = \<lparr>raw_artifact.digest = d, objectKey = EVIDENCE_PREFIX @ d\<rparr>"

definition readVerifiedRawArtifact :: "(string \<Rightarrow> string) \<Rightarrow> (string \<Rightarrow> string option) \<Rightarrow> string \<Rightarrow> object_error + string" where
  "readVerifiedRawArtifact sha files d = (case files d of
      None \<Rightarrow> Inl ObjectUnreadable
    | Some bytes \<Rightarrow> if sha bytes \<noteq> d then Inl ObjectCorrupted else Inr bytes)"

text \<open>
  \<open>writeFile\<close> with the flag wx: an existing file is not touched. \<open>torn\<close> is what is left of a write that fails, if
  it fails (\<open>Some None\<close>: nothing).
\<close>

definition putObject ::
    "(string \<Rightarrow> string) \<Rightarrow> string option option \<Rightarrow> string \<Rightarrow> (string \<Rightarrow> string option)
     \<Rightarrow> (object_error + raw_artifact) \<times> (string \<Rightarrow> string option)" where
  "putObject sha torn bytes files =
     (let d = sha bytes in
      case files d of
        Some _ \<Rightarrow> (case readVerifiedRawArtifact sha files d of
            Inl e \<Rightarrow> (Inl e, files) | Inr _ \<Rightarrow> (Inr (toRawArtifactReference d), files))
      | None \<Rightarrow> (case torn of
            None \<Rightarrow> (Inr (toRawArtifactReference d), files(d \<mapsto> bytes))
          | Some None \<Rightarrow> (Inl ObjectNotWritten, files)
          | Some (Some part) \<Rightarrow> (Inl ObjectNotWritten, files(d \<mapsto> part))))"

definition readObject :: "(string \<Rightarrow> string) \<Rightarrow> raw_artifact \<Rightarrow> (string \<Rightarrow> string option) \<Rightarrow> object_error + string" where
  "readObject sha r files =
     (if \<not> sha256DigestSchema (raw_artifact.digest r)
         \<or> raw_artifact.objectKey r \<noteq> EVIDENCE_PREFIX @ raw_artifact.digest r then Inl ObjectReferenceInvalid
      else readVerifiedRawArtifact sha files (raw_artifact.digest r))"

section \<open>Collecting a page\<close>

datatype ingest_effect = Fetched string | StoredRaw string

record http_response =
  hrOk :: bool
  hrStatus :: nat
  hrUrl :: string
  hrContentType :: "string option"
  hrContentLength :: "string option"
  hrBody :: "string option" \<comment> \<open>\<open>None\<close> when reading it fails\<close>

record collect_metrics =
  cmBytes :: nat
  cmDurationMs :: rat

datatype collect_error =
    SOURCE_FETCH_FAILED bool | SOURCE_MIME_REJECTED | SOURCE_SIZE_EXCEEDED | SOURCE_REDIRECT_REJECTED

record source_facts =
  sfCapturedAt :: string
  sfMediaType :: string
  sfSource :: ident
  sfTitle :: string
  sfUrl :: string

datatype collection =
    CollectedPage source_facts raw_artifact collect_metrics
  | CollectionFailed collect_error collect_metrics

definition collectRetryable :: "collect_error \<Rightarrow> bool" where
  "collectRetryable e = (case e of SOURCE_FETCH_FAILED r \<Rightarrow> r | _ \<Rightarrow> False)"

record public_source =
  psSource :: ident
  psTitle :: string
  psUrl :: string

record collect_policy =
  allowedMediaTypes :: "string list"
  maxBytes :: rat

record connector =
  cnFetch :: "nat \<Rightarrow> string \<Rightarrow> http_response option"
  cnPut :: "nat \<Rightarrow> string \<Rightarrow> raw_artifact option"
  cnNow :: "nat \<Rightarrow> int"
  cnDurationMs :: "nat \<Rightarrow> rat"
  cnNumber :: "string \<Rightarrow> rat option" \<comment> \<open>\<open>Number(s)\<close> where it is finite\<close>

type_synonym 'a ingest_io = "(ingest_effect, 'a) egress_io"

definition collectionFailure :: "connector \<Rightarrow> collect_error \<Rightarrow> nat \<Rightarrow> collection ingest_io" where
  "collectionFailure cn e n = (\<lambda>s. (Inr (CollectionFailed e \<lparr>cmBytes = n, cmDurationMs = cnDurationMs cn (calls s)\<rparr>), s))"

text \<open>\<open>headers.get("content-type")?.split(";", 1)[0]?.trim()\<close>\<close>

definition responseMediaType :: "http_response \<Rightarrow> string option" where
  "responseMediaType r = map_option (\<lambda>h. trim (hd (splitOn CHR '';'' h))) (hrContentType r)"

definition declaredTooLarge :: "connector \<Rightarrow> collect_policy \<Rightarrow> http_response \<Rightarrow> bool" where
  "declaredTooLarge cn pol r = (case hrContentLength r of
      None \<Rightarrow> False
    | Some h \<Rightarrow> (case cnNumber cn h of None \<Rightarrow> False | Some n \<Rightarrow> maxBytes pol < n))"

definition collectBody ::
    "connector \<Rightarrow> collect_policy \<Rightarrow> public_source \<Rightarrow> http_response \<Rightarrow> string \<Rightarrow> collection ingest_io" where
  "collectBody cn pol src r media = (case hrBody r of
      None \<Rightarrow> throw ()
    | Some bytes \<Rightarrow>
        if maxBytes pol < of_nat (length bytes) then collectionFailure cn SOURCE_SIZE_EXCEEDED (length bytes)
        else and_then (attempt_port (\<lambda>n. cnPut cn n bytes) (Performed (StoredRaw bytes)) ()) (\<lambda>raw.
          (\<lambda>s. (Inr (CollectedPage
             \<lparr>sfCapturedAt = toISOString (cnNow cn (calls s)), sfMediaType = media, sfSource = psSource src,
              sfTitle = psTitle src, sfUrl = hrUrl r\<rparr> raw
             \<lparr>cmBytes = length bytes, cmDurationMs = cnDurationMs cn (calls s)\<rparr>), s))))"

definition collectResponse ::
    "connector \<Rightarrow> collect_policy \<Rightarrow> public_source \<Rightarrow> http_response \<Rightarrow> collection ingest_io" where
  "collectResponse cn pol src r =
     (if 300 \<le> hrStatus r \<and> hrStatus r < 400 then collectionFailure cn SOURCE_REDIRECT_REJECTED 0
      else if \<not> hrOk r then collectionFailure cn (SOURCE_FETCH_FAILED (500 \<le> hrStatus r)) 0
      else (case responseMediaType r of
          None \<Rightarrow> collectionFailure cn SOURCE_MIME_REJECTED 0
        | Some media \<Rightarrow>
            if media \<notin> set (allowedMediaTypes pol) then collectionFailure cn SOURCE_MIME_REJECTED 0
            else if declaredTooLarge cn pol r then collectionFailure cn SOURCE_SIZE_EXCEEDED 0
            else collectBody cn pol src r media))"

definition collect :: "connector \<Rightarrow> collect_policy \<Rightarrow> public_source \<Rightarrow> collection ingest_io" where
  "collect cn pol src =
     and_then (catching
       (and_then (attempt_port (\<lambda>n. cnFetch cn n (psUrl src)) (Performed (Fetched (psUrl src))) ()) (\<lambda>r. done_with (Some r)))
       (\<lambda>_. done_with None)) (\<lambda>response.
     case response of
       None \<Rightarrow> collectionFailure cn (SOURCE_FETCH_FAILED True) 0
     | Some r \<Rightarrow> collectResponse cn pol src r)"

section \<open>Ingestion\<close>

datatype gap_code =
    SOURCE_NOT_APPROVED | SOURCE_SCHEME_REJECTED | SOURCE_DNS_FAILED | SOURCE_SSRF_BLOCKED | COLLECTION_GAP collect_error

record evidence_gap =
  egCode :: gap_code
  egTask :: ident
  egGap :: ident
  egRetryable :: bool
  egSource :: ident
  egMetrics :: "collect_metrics option"

datatype ingest_outcome = EvidenceGap evidence_gap | Collected source_facts raw_artifact collect_metrics

record url_parts =
  upHref :: string
  upProtocol :: string
  upHostname :: string

record ingest_options =
  approvedSourceUrls :: "string list"
  collectionPolicy :: collect_policy
  ingestConnector :: connector
  ingestEgress :: egress_options
  nextGapId :: "nat \<Rightarrow> ident"
  resolveHost :: "nat \<Rightarrow> string \<Rightarrow> string list option"
  parseUrl :: "string \<Rightarrow> url_parts option"

record ingest_input =
  inCorrelation :: ident
  inTask :: ident
  inOperation :: ident
  inSource :: public_source
  inUser :: ident

definition evidenceGap ::
    "ingest_options \<Rightarrow> ingest_input \<Rightarrow> gap_code \<Rightarrow> bool \<Rightarrow> collect_metrics option \<Rightarrow> ingest_outcome ingest_io" where
  "evidenceGap opts inp c retry m = (\<lambda>s. (Inr (EvidenceGap \<lparr>egCode = c, egTask = inTask inp,
     egGap = nextGapId opts (calls s), egRetryable = retry, egSource = psSource (inSource inp), egMetrics = m\<rparr>), s))"

definition ssrfEvidenceGap :: "ingest_options \<Rightarrow> ingest_input \<Rightarrow> ingest_outcome ingest_io" where
  "ssrfEvidenceGap opts inp = evidenceGap opts inp SOURCE_SSRF_BLOCKED False None"

text \<open>The addresses of the host: itself if it is one; \<open>None\<close> when DNS fails.\<close>

definition resolvedAddresses :: "ingest_options \<Rightarrow> string \<Rightarrow> string list option ingest_io" where
  "resolvedAddresses opts h =
     (if isIP h = 0
      then catching (and_then (call_port (\<lambda>n. resolveHost opts n h) (\<lambda>_. []) ()) (\<lambda>as. done_with (Some as)))
             (\<lambda>_. done_with None)
      else done_with (Some [h]))"

definition addressesBlocked :: "string \<Rightarrow> string list \<Rightarrow> bool" where
  "addressesBlocked h as \<longleftrightarrow> isLocalHostname h \<or> as = [] \<or> list_ex isPrivateAddress as"

definition ingestRequest :: "ingest_input \<Rightarrow> url_parts \<Rightarrow> egress_input" where
  "ingestRequest inp u = \<lparr>egUserId = inUser inp, egOperationId = inOperation inp, egOperation = READ_PUBLIC_SOURCE,
     egConfirmation = None, egCorrelationId = inCorrelation inp, egDestinationUrl = upHref u, egMethod = ''GET''\<rparr>"

definition guardedCollect :: "ingest_options \<Rightarrow> ingest_input \<Rightarrow> url_parts \<Rightarrow> ingest_outcome ingest_io" where
  "guardedCollect opts inp u =
     and_then (executeEgress (ingestEgress opts) (ingestRequest inp u)
       (collect (ingestConnector opts) (collectionPolicy opts) (inSource inp))) (\<lambda>guarded.
     case guarded of
       EgressCompleted (CollectedPage facts raw metrics) \<Rightarrow> done_with (Collected facts raw metrics)
     | EgressCompleted (CollectionFailed e metrics) \<Rightarrow>
         evidenceGap opts inp (COLLECTION_GAP e) (collectRetryable e) (Some metrics)
     | EgressRefused _ \<Rightarrow> throw ())"

definition ingest :: "ingest_options \<Rightarrow> ingest_input \<Rightarrow> ingest_outcome ingest_io" where
  "ingest opts inp = (case parseUrl opts (psUrl (inSource inp)) of
      None \<Rightarrow> throw ()
    | Some u \<Rightarrow>
        if upHref u \<notin> set (approvedSourceUrls opts) then evidenceGap opts inp SOURCE_NOT_APPROVED False None
        else if upProtocol u \<noteq> ''https:'' then evidenceGap opts inp SOURCE_SCHEME_REJECTED False None
        else and_then (resolvedAddresses opts (normalizeHostname (upHostname u))) (\<lambda>resolved.
          case resolved of
            None \<Rightarrow> evidenceGap opts inp SOURCE_DNS_FAILED True None
          | Some as \<Rightarrow>
              if addressesBlocked (normalizeHostname (upHostname u)) as then ssrfEvidenceGap opts inp
              else guardedCollect opts inp u))"

end
