(* ===== verification/CM_Evidence_Retrieval.thy ===== *)
theory CM_Evidence_Retrieval
  imports CM_Evidence_Ingestion
begin

text \<open>
  packages/evidence-ingestion/src/index.ts, continued: a stored page becomes evidence through the document parser, and
  evidence is indexed and searched with the embedding and reranking services. The services answer untyped values,
  which are decoded with their contract.
\<close>

type_synonym 'a retrieval_io = "(unit, unit, 'a) io"

abbreviation askPort :: "(nat \<Rightarrow> 'a option) \<Rightarrow> 'a retrieval_io" where
  "askPort port \<equiv> call_port port (\<lambda>_. []) ()"

section \<open>Evidence from a page\<close>

record generator =
  gnShape :: "local_result zod_shape"
  gnRead :: "nat \<Rightarrow> raw_artifact \<Rightarrow> string option"
  gnParse :: "nat \<Rightarrow> local_request \<Rightarrow> json option"
  gnEvidenceId :: "nat \<Rightarrow> ident"
  gnGapId :: "nat \<Rightarrow> ident"
  gnRequestId :: "nat \<Rightarrow> ident"
  gnBase64 :: "string \<Rightarrow> string"
  gnSha256 :: "string \<Rightarrow> string" \<comment> \<open>of the UTF-8 form of a text\<close>

datatype generated =
    EvidenceCreated evidence
  | ParserGap ident ident bool \<comment> \<open>task, gap, retryable\<close>

definition parserEvidenceGap :: "generator \<Rightarrow> ident \<Rightarrow> bool \<Rightarrow> generated retrieval_io" where
  "parserEvidenceGap gn tid retry = (\<lambda>s. (Inr (ParserGap tid (gnGapId gn (calls s)) retry), s))"

definition parserRequest :: "generator \<Rightarrow> string \<Rightarrow> nat \<Rightarrow> local_request" where
  "parserRequest gn raw n = \<lparr>lrRequest = gnRequestId gn n, lrInput = ParserInput HTML (gnBase64 gn raw)\<rparr>"

definition publicWebEvidence ::
    "generator \<Rightarrow> source_facts \<Rightarrow> raw_artifact \<Rightarrow> ident \<Rightarrow> string \<Rightarrow> string \<Rightarrow> string \<Rightarrow> nat \<Rightarrow> evidence" where
  "publicWebEvidence gn facts raw tid validTo parser text n =
     \<lparr>evidence.evidenceId = gnEvidenceId gn n, decisionTaskId = tid, capturedAt = sfCapturedAt facts,
      locatorSection = ''body'', locatorField = ''text'', excerpt = text, validUntil = validTo,
      origin = PUBLIC_WEB (sfSource facts) (sfTitle facts) (sfUrl facts) (gnSha256 gn text) parser raw\<rparr>"

definition generate ::
    "generator \<Rightarrow> source_facts \<Rightarrow> raw_artifact \<Rightarrow> ident \<Rightarrow> string \<Rightarrow> generated retrieval_io" where
  "generate gn facts raw tid validTo =
     (if sfMediaType facts \<noteq> ''text/html'' then parserEvidenceGap gn tid False
      else and_then (askPort (\<lambda>n. gnRead gn n raw)) (\<lambda>bytes.
        and_then (\<lambda>s. askPort (\<lambda>n. gnParse gn n (parserRequest gn bytes (calls s))) s) (\<lambda>answer.
        case decodeLocalServiceResultV1 (gnShape gn) answer of
          Inr (LocalSucceeded _ (ParserOutput parser text _)) \<Rightarrow>
            (\<lambda>s. (Inr (EvidenceCreated (publicWebEvidence gn facts raw tid validTo parser text (calls s))), s))
        | Inr (LocalFailed _ _ e) \<Rightarrow> parserEvidenceGap gn tid (leRetryable e)
        | _ \<Rightarrow> parserEvidenceGap gn tid False)))"

section \<open>Retrieval\<close>

record retrieval =
  rtShape :: "local_result zod_shape"
  rtEmbed :: "nat \<Rightarrow> local_request \<Rightarrow> json option"
  rtRerank :: "nat \<Rightarrow> local_request \<Rightarrow> json option"
  rtSave :: "nat \<Rightarrow> evidence \<Rightarrow> embedding \<Rightarrow> unit option"
  rtNearest :: "nat \<Rightarrow> nearest_query \<Rightarrow> (rat \<times> ident) list option"
  rtExcerpt :: "nat \<Rightarrow> ident \<Rightarrow> string option"
  rtEmbeddingId :: "nat \<Rightarrow> ident"
  rtRerankerId :: "nat \<Rightarrow> ident"

datatype retrieval_outcome =
    Indexed ident
  | Retrieved "(ident \<times> rat) list"
  | EMBEDDING_FAILED
  | RERANK_FAILED

definition embedText :: "retrieval \<Rightarrow> string \<Rightarrow> (string \<times> rat list) option retrieval_io" where
  "embedText rt text =
     and_then (\<lambda>s. askPort (\<lambda>n. rtEmbed rt n \<lparr>lrRequest = rtEmbeddingId rt (calls s), lrInput = EmbeddingInput [text]\<rparr>) s)
       (\<lambda>answer. done_with (case decodeLocalServiceResultV1 (rtShape rt) answer of
            Inr (LocalSucceeded _ (EmbeddingOutput m _ [v])) \<Rightarrow> Some (m, v)
          | _ \<Rightarrow> None))"

definition indexEvidence :: "retrieval \<Rightarrow> evidence \<Rightarrow> retrieval_outcome retrieval_io" where
  "indexEvidence rt ev =
     and_then (embedText rt (excerpt ev)) (\<lambda>em. case em of
       None \<Rightarrow> done_with EMBEDDING_FAILED
     | Some (m, v) \<Rightarrow>
         and_then (askPort (\<lambda>n. rtSave rt n ev \<lparr>embeddingModel = m, embeddingVector = map Some v\<rparr>)) (\<lambda>_.
         done_with (Indexed (evidence.evidenceId ev))))"

fun loadDocuments :: "retrieval \<Rightarrow> ident list \<Rightarrow> rerank_document list retrieval_io" where
  "loadDocuments rt [] = done_with []"
| "loadDocuments rt (eid # eids) =
     and_then (askPort (\<lambda>n. rtExcerpt rt n eid)) (\<lambda>t.
     and_then (loadDocuments rt eids) (\<lambda>ds. done_with (\<lparr>rdDocument = eid, rdText = t\<rparr> # ds)))"

definition validQuery :: "string \<Rightarrow> rat \<Rightarrow> bool" where
  "validQuery q k \<longleftrightarrow> trim q \<noteq> [] \<and> k = of_int \<lfloor>k\<rfloor> \<and> \<lfloor>k\<rfloor> \<le> 9007199254740991 \<and> 0 < k"

text \<open>The answer of the reranker, restricted to the candidates and to the first \<open>topK\<close>.\<close>

definition rerankedResults :: "rerank_document list \<Rightarrow> int \<Rightarrow> (ident \<times> rat) list \<Rightarrow> (ident \<times> rat) list" where
  "rerankedResults ds k rankings = take (nat k) (filter (\<lambda>(d, _). d \<in> rdDocument ` set ds) rankings)"

definition rerank :: "retrieval \<Rightarrow> string \<Rightarrow> int \<Rightarrow> rerank_document list \<Rightarrow> retrieval_outcome retrieval_io" where
  "rerank rt q k ds =
     and_then (\<lambda>s. askPort (\<lambda>n. rtRerank rt n \<lparr>lrRequest = rtRerankerId rt (calls s), lrInput = RerankerInput q ds k\<rparr>) s)
       (\<lambda>answer. done_with (case decodeLocalServiceResultV1 (rtShape rt) answer of
            Inr (LocalSucceeded _ (RerankerOutput _ rankings)) \<Rightarrow> Retrieved (rerankedResults ds k rankings)
          | _ \<Rightarrow> RERANK_FAILED))"

definition search :: "retrieval \<Rightarrow> string \<Rightarrow> rat \<Rightarrow> retrieval_outcome retrieval_io" where
  "search rt q k =
     (if \<not> validQuery q k then throw ()
      else and_then (embedText rt q) (\<lambda>em. case em of
        None \<Rightarrow> done_with EMBEDDING_FAILED
      | Some (m, v) \<Rightarrow>
          and_then (askPort (\<lambda>n. rtNearest rt n
            \<lparr>queryLimit = \<lfloor>k\<rfloor> * 2, queryModel = m, queryVector = map Some v\<rparr>)) (\<lambda>candidates.
          and_then (loadDocuments rt (map snd candidates)) (rerank rt q \<lfloor>k\<rfloor>))))"

section \<open>On the evidence index\<close>

text \<open>The retrieval service over the evidence index of task-persistence, as smoke.ts puts them together.\<close>

definition indexNearest :: "(rat list \<Rightarrow> rat list \<Rightarrow> rat) \<Rightarrow> database \<Rightarrow> nearest_query \<Rightarrow> (rat \<times> ident) list option" where
  "indexNearest distanceOf d q = (case nearest distanceOf q d of
      Inl _ \<Rightarrow> None | Inr rows \<Rightarrow> Some (map (\<lambda>(x, r). (x, irEvidence r)) rows))"

definition onIndex :: "(rat list \<Rightarrow> rat list \<Rightarrow> rat) \<Rightarrow> database \<Rightarrow> retrieval \<Rightarrow> retrieval" where
  "onIndex distanceOf d rt = rt\<lparr>rtNearest := (\<lambda>_. indexNearest distanceOf d)\<rparr>"

end
