(* ===== verification/CM_Ingestion_Facts.thy ===== *)
theory CM_Ingestion_Facts
  imports CM_Evidence_Retrieval
begin

text \<open>
  What ingestion guarantees: nothing is fetched but an approved public page after its egress record, nothing is kept
  that the policy does not allow, kept bytes are found again, evidence made of them satisfies the contract, and
  a search finds only what the index has.
\<close>

section \<open>Collecting\<close>

text \<open>The response may be kept: no redirect, success, an allowed media type, and no larger size declared.\<close>

definition collectable :: "connector \<Rightarrow> collect_policy \<Rightarrow> http_response \<Rightarrow> string \<Rightarrow> bool" where
  "collectable cn pol r media \<longleftrightarrow>
     \<not> (300 \<le> hrStatus r \<and> hrStatus r < 400) \<and> hrOk r \<and> responseMediaType r = Some media
     \<and> media \<in> set (allowedMediaTypes pol) \<and> \<not> declaredTooLarge cn pol r"

definition collectedFrom ::
    "connector \<Rightarrow> collect_policy \<Rightarrow> public_source \<Rightarrow> string \<Rightarrow> source_facts \<Rightarrow> raw_artifact \<Rightarrow> collect_metrics \<Rightarrow> bool" where
  "collectedFrom cn pol src bytes facts raw metrics \<longleftrightarrow>
     (\<exists>n r. cnFetch cn n (psUrl src) = Some r \<and> collectable cn pol r (sfMediaType facts) \<and> hrBody r = Some bytes
        \<and> sfUrl facts = hrUrl r \<and> cnPut cn (Suc n) bytes = Some raw)
     \<and> sfSource facts = psSource src \<and> sfTitle facts = psTitle src
     \<and> cmBytes metrics = length bytes \<and> of_nat (length bytes) \<le> maxBytes pol"

lemma collect_cases:
  obtains (fetched) "trace (snd (collect cn pol src s)) = trace s @ [Performed (Fetched (psUrl src))]"
      "\<And>f r m. fst (collect cn pol src s) \<noteq> Inr (CollectedPage f r m)"
  | (stored) bytes where
      "trace (snd (collect cn pol src s)) = trace s @ [Performed (Fetched (psUrl src)), Performed (StoredRaw bytes)]"
      "of_nat (length bytes) \<le> maxBytes pol"
      "fst (collect cn pol src s) = Inl ()
       \<or> (\<exists>f r m. fst (collect cn pol src s) = Inr (CollectedPage f r m) \<and> collectedFrom cn pol src bytes f r m)"
proof (cases "cnFetch cn (calls s) (psUrl src)")
  case None
  then show ?thesis
    using fetched by (simp add: collect_def io_simps collectionFailure_def)
next
  case (Some r)
  define s1 where "s1 = s\<lparr>trace := trace s @ [Performed (Fetched (psUrl src))], calls := Suc (calls s)\<rparr>"
  have step: "collect cn pol src s = collectResponse cn pol src r s1"
    using Some by (simp add: collect_def io_simps s1_def)
  have trace1: "trace s1 = trace s @ [Performed (Fetched (psUrl src))]" and calls1: "calls s1 = Suc (calls s)"
    by (simp_all add: s1_def)
  have failed: ?thesis if "collectResponse cn pol src r s1 = (x, s1)" "\<And>f r m. x \<noteq> Inr (CollectedPage f r m)" for x
    using fetched that by (simp add: step trace1)
  show ?thesis
  proof (cases "\<exists>media. collectable cn pol r media")
    case False
    then show ?thesis
      by (intro failed [of "fst (collectResponse cn pol src r s1)"])
        (auto simp: collectResponse_def collectable_def collectionFailure_def split: option.splits)
  next
    case True
    then obtain media where ok: "collectable cn pol r media" by blast
    then have resp: "collectResponse cn pol src r s1 = collectBody cn pol src r media s1"
      by (auto simp: collectResponse_def collectable_def)
    show ?thesis
    proof (cases "\<exists>bytes. hrBody r = Some bytes \<and> of_nat (length bytes) \<le> maxBytes pol")
      case False
      then show ?thesis
        by (intro failed [of "fst (collectBody cn pol src r media s1)"])
          (auto simp: resp collectBody_def collectionFailure_def throw_def not_le split: option.splits)
    next
      case True
      then obtain bytes where bytes: "hrBody r = Some bytes" "of_nat (length bytes) \<le> maxBytes pol" by blast
      show ?thesis
      proof (rule stored [of bytes])
        show "trace (snd (collect cn pol src s)) = trace s @ [Performed (Fetched (psUrl src)), Performed (StoredRaw bytes)]"
          using bytes by (simp add: step resp collectBody_def io_simps trace1 split: option.split)
        show "fst (collect cn pol src s) = Inl ()
           \<or> (\<exists>f r m. fst (collect cn pol src s) = Inr (CollectedPage f r m) \<and> collectedFrom cn pol src bytes f r m)"
        proof (cases "cnPut cn (calls s1) bytes")
          case None
          then show ?thesis using bytes by (simp add: step resp collectBody_def io_simps)
        next
          case (Some raw)
          then show ?thesis
            using bytes ok \<open>cnFetch cn (calls s) (psUrl src) = Some r\<close> calls1
            by (auto simp: step resp collectBody_def io_simps collectedFrom_def)
        qed
      qed (rule bytes(2))
    qed
  qed
qed

section \<open>Ingestion\<close>

text \<open>The checks before the guard: the page is approved, on https, and its addresses are public.\<close>

definition ingestChecked :: "ingest_options \<Rightarrow> ingest_input \<Rightarrow> url_parts \<Rightarrow> string list \<Rightarrow> bool" where
  "ingestChecked opts inp u as \<longleftrightarrow>
     parseUrl opts (psUrl (inSource inp)) = Some u \<and> upHref u \<in> set (approvedSourceUrls opts) \<and> upProtocol u = ''https:''
     \<and> (let h = normalizeHostname (upHostname u) in
          (if isIP h = 0 then (\<exists>n. resolveHost opts n h = Some as) else as = [h])
          \<and> \<not> isLocalHostname h \<and> as \<noteq> [] \<and> \<not> list_ex isPrivateAddress as)"

lemma ingest_cases:
  obtains (gap) "trace (snd (ingest opts inp s)) = trace s" "\<And>f r m. fst (ingest opts inp s) \<noteq> Inr (Collected f r m)"
  | (checked) u as s' where "ingestChecked opts inp u as" "trace s' = trace s"
      "ingest opts inp s = guardedCollect opts inp u s'"
proof (cases "parseUrl opts (psUrl (inSource inp))")
  case None
  then show ?thesis using gap by (simp add: ingest_def throw_def)
next
  case (Some u)
  let ?h = "normalizeHostname (upHostname u)"
  show ?thesis
  proof (cases "upHref u \<in> set (approvedSourceUrls opts) \<and> upProtocol u = ''https:''")
    case False
    with Some show ?thesis using gap by (auto simp: ingest_def evidenceGap_def split: if_splits)
  next
    case True
    define rs where "rs = resolvedAddresses opts ?h s"
    have unfolded: "ingest opts inp s = (case rs of
        (Inl x, s') \<Rightarrow> (Inl x, s')
      | (Inr None, s') \<Rightarrow> evidenceGap opts inp SOURCE_DNS_FAILED True None s'
      | (Inr (Some as), s') \<Rightarrow> (if addressesBlocked ?h as then ssrfEvidenceGap opts inp else guardedCollect opts inp u) s')"
      using Some True by (auto simp: ingest_def and_then_def rs_def split: prod.split sum.split option.split)
    have same: "trace (snd rs) = trace s"
      by (auto simp: rs_def resolvedAddresses_def io_simps split: option.split)
    have resolved: "fst rs = Inr (Some as) \<Longrightarrow> if isIP ?h = 0 then \<exists>n. resolveHost opts n ?h = Some as else as = [?h]" for as
      by (auto simp: rs_def resolvedAddresses_def io_simps split: option.splits if_splits)
    consider "\<exists>as. fst rs = Inr (Some as) \<and> \<not> addressesBlocked ?h as"
      | "\<And>as. fst rs = Inr (Some as) \<Longrightarrow> addressesBlocked ?h as" by blast
    then show ?thesis
    proof cases
      case 1
      then obtain as where as: "fst rs = Inr (Some as)" "\<not> addressesBlocked ?h as" by blast
      then have "ingestChecked opts inp u as"
        using Some True resolved [OF as(1)] by (simp add: ingestChecked_def addressesBlocked_def Let_def)
      moreover have "ingest opts inp s = guardedCollect opts inp u (snd rs)"
        using as unfolded by (cases rs) simp
      ultimately show ?thesis using checked same by blast
    next
      case 2
      then show ?thesis
        using gap same unfolded
        by (cases rs) (auto simp: ssrfEvidenceGap_def evidenceGap_def split: sum.splits option.splits)
    qed
  qed
qed

text \<open>Everything that leaves, and what is kept of it.\<close>

definition ingestTrace :: "ingest_options \<Rightarrow> ingest_input \<Rightarrow> url_parts \<Rightarrow> ingest_effect egress_event list \<Rightarrow> bool" where
  "ingestTrace opts inp u es \<longleftrightarrow>
     (\<exists>r rest. es = Recorded r # Performed (Fetched (psUrl (inSource inp))) # rest
        \<and> recordsRequest (ingestEgress opts) (ingestRequest inp u) (Recorded r :: ingest_effect egress_event)
        \<and> (rest = [] \<or> (\<exists>bytes. rest = [Performed (StoredRaw bytes)] \<and> of_nat (length bytes) \<le> maxBytes (collectionPolicy opts))))"

lemma guardedCollect_cases:
  obtains (untouched) "trace (snd (guardedCollect opts inp u s)) = trace s"
      "\<And>f r m. fst (guardedCollect opts inp u s) \<noteq> Inr (Collected f r m)"
  | (fetched) es where "trace (snd (guardedCollect opts inp u s)) = trace s @ es" "ingestTrace opts inp u es"
      "\<And>f r m. fst (guardedCollect opts inp u s) = Inr (Collected f r m) \<Longrightarrow>
         (\<exists>bytes. Performed (StoredRaw bytes) \<in> set es
            \<and> collectedFrom (ingestConnector opts) (collectionPolicy opts) (inSource inp) bytes f r m)"
proof (rule executeEgress_cases [of "ingestEgress opts" "ingestRequest inp u"
      "collect (ingestConnector opts) (collectionPolicy opts) (inSource inp)" s], goal_cases)
  case 1
  obtain x s1 where e: "executeEgress (ingestEgress opts) (ingestRequest inp u)
      (collect (ingestConnector opts) (collectionPolicy opts) (inSource inp)) s = (x, s1)" by fastforce
  show ?case
  proof (rule untouched)
    show "trace (snd (guardedCollect opts inp u s)) = trace s"
      using 1 e by (cases x) (auto simp: guardedCollect_def and_then_def throw_def split: egress_result.split)
    show "fst (guardedCollect opts inp u s) \<noteq> Inr (Collected f r m)" for f r m
      using 1 e by (cases x) (auto simp: guardedCollect_def and_then_def throw_def split: egress_result.split)
  qed
next
  case (2 r s')
  let ?c = "collect (ingestConnector opts) (collectionPolicy opts) (inSource inp) s'"
  obtain x s1 where c: "?c = (x, s1)" by fastforce
  have e: "executeEgress (ingestEgress opts) (ingestRequest inp u)
      (collect (ingestConnector opts) (collectionPolicy opts) (inSource inp)) s =
      (case x of Inl y \<Rightarrow> Inl y | Inr a \<Rightarrow> Inr (EgressCompleted a), s1)"
    unfolding \<open>executeEgress _ _ _ s = _\<close> using c by (simp add: and_then_def done_with_def split: sum.split)
  have out: "trace (snd (guardedCollect opts inp u s)) = trace (snd ?c)"
      "fst (guardedCollect opts inp u s) = Inr (Collected f a m) \<longleftrightarrow> fst ?c = Inr (CollectedPage f a m)" for f a m
    by (cases x; auto simp: guardedCollect_def and_then_def e c done_with_def evidenceGap_def split: collection.split)+
  show ?case
  proof (cases rule: collect_cases [of "ingestConnector opts" "collectionPolicy opts" "inSource inp" s'])
    case fetched
    then show ?thesis
      using 2 that(2) [of "[Recorded r, Performed (Fetched (psUrl (inSource inp)))]"]
      by (simp add: out ingestTrace_def)
  next
    case (stored bytes)
    have "ingestTrace opts inp u [Recorded r, Performed (Fetched (psUrl (inSource inp))), Performed (StoredRaw bytes)]"
      using 2 stored by (auto simp: ingestTrace_def)
    with stored show ?thesis
      using 2 that(2) [of "[Recorded r, Performed (Fetched (psUrl (inSource inp))), Performed (StoredRaw bytes)]"]
      by (auto simp: out)
  qed
qed


text \<open>
  A collected page has an allowed media type and no more bytes than the limit; it names the source that was asked
  for and the address that answered, and its reference is what the object store returned for exactly the bytes that
  were stored.
\<close>

theorem collected_within_policy:
  assumes "fst (ingest opts inp (fresh_run n)) = Inr (Collected facts raw metrics)"
  shows "\<exists>bytes. Performed (StoredRaw bytes) \<in> set (trace (snd (ingest opts inp (fresh_run n))))
      \<and> collectedFrom (ingestConnector opts) (collectionPolicy opts) (inSource inp) bytes facts raw metrics"
proof (cases rule: ingest_cases [of opts inp "fresh_run n"])
  case gap
  then show ?thesis using assms by blast
next
  case (checked u as s')
  then show ?thesis
    using assms by (cases rule: guardedCollect_cases [of opts inp u s']) auto
qed

end
