(* ===== verification/CM_Local_Configuration.thy ===== *)
theory CM_Local_Configuration
  imports CM_Local_Services CM_Time
begin

text \<open>
  The configuration of the local model services from the environment (packages/local-services/src/index.ts) and the
  smoke run that calls each of them once with a fixed sample (smoke.ts). Number parsing, URL parsing, the digests and
  the clocks are parameters.
\<close>

section \<open>Reading the environment\<close>

datatype configuration_error =
    NotPositiveMilliseconds string | EmptyText string | InvalidUrl string | OnlyHttp string | NoSample ident

record configuration_env =
  cfVariable :: "string \<Rightarrow> string option"
  cfNumber :: "string \<Rightarrow> rat option" \<comment> \<open>\<open>Number(s)\<close>; \<open>None\<close> when it is not finite\<close>
  cfUrl :: "string \<Rightarrow> (string \<times> string) option" \<comment> \<open>protocol and text of \<open>new URL(s)\<close>\<close>

definition MAX_SAFE_INTEGER :: int where
  "MAX_SAFE_INTEGER = 9007199254740991"

definition readPositiveInteger :: "configuration_env \<Rightarrow> string \<Rightarrow> int \<Rightarrow> configuration_error + int" where
  "readPositiveInteger env name fallback = (case cfVariable env name of
      None \<Rightarrow> Inr fallback
    | Some v \<Rightarrow> (case cfNumber env v of
          None \<Rightarrow> Inl (NotPositiveMilliseconds name)
        | Some x \<Rightarrow> if x = of_int \<lfloor>x\<rfloor> \<and> 0 < x \<and> \<lfloor>x\<rfloor> \<le> MAX_SAFE_INTEGER then Inr \<lfloor>x\<rfloor>
            else Inl (NotPositiveMilliseconds name)))"

definition readMeaningfulText :: "configuration_env \<Rightarrow> string \<Rightarrow> string \<Rightarrow> configuration_error + string" where
  "readMeaningfulText env name fallback =
     (let candidate = (case cfVariable env name of None \<Rightarrow> fallback | Some v \<Rightarrow> v) in
      if trim candidate = [] then Inl (EmptyText name) else Inr candidate)"

definition readBaseUrl :: "configuration_env \<Rightarrow> string \<Rightarrow> string \<Rightarrow> configuration_error + string" where
  "readBaseUrl env name fallback =
     onward (readMeaningfulText env name fallback) (\<lambda>candidate.
       case cfUrl env candidate of
         None \<Rightarrow> Inl (InvalidUrl name)
       | Some (protocol, u) \<Rightarrow>
           if protocol \<noteq> ''http:'' \<and> protocol \<noteq> ''https:'' then Inl (OnlyHttp name) else Inr (withoutSlash u))"

section \<open>The targets\<close>

text \<open>A service: where its URL and model come from, and what is fixed.\<close>

datatype model_origin = ModelVariable string string | FixedModel string | NoModel

record service_entry =
  seService :: ident
  sePort :: local_port
  seUrlVariable :: string
  seUrlFallback :: string
  seModel :: model_origin
  seProtocol :: local_protocol
  seTimeoutMs :: int
  seMaxInputBytes :: "nat option"
  seCapabilities :: "string list"
  seLimitations :: "string list"

definition DEFAULT_TIMEOUT_MS :: int where
  "DEFAULT_TIMEOUT_MS = 30000"

definition serviceEntries :: "int \<Rightarrow> int \<Rightarrow> service_entry list" where
  "serviceEntries modelMs sharedMs = [
     \<lparr>seService = ''qwen-model'', sePort = MODEL_PROVIDER,
       seUrlVariable = ''CHOICEMIND_LOCAL_MODEL_BASE_URL'', seUrlFallback = ''http://192.168.121.32:6013/v1'',
       seModel = ModelVariable ''CHOICEMIND_LOCAL_MODEL_NAME'' ''Qwen3.8-27B'',
       seProtocol = OPENAI_CHAT_COMPLETIONS, seTimeoutMs = modelMs, seMaxInputBytes = None,
       seCapabilities = [''text generation'', ''OpenAI Chat Completions''],
       seLimitations = [''a smoke run on fixed samples certifies no capability of the model'']\<rparr>,
     \<lparr>seService = ''qwen-embedding'', sePort = EMBEDDING_PROVIDER,
       seUrlVariable = ''CHOICEMIND_LOCAL_EMBEDDING_BASE_URL'', seUrlFallback = ''http://192.168.121.33:8008/v1'',
       seModel = ModelVariable ''CHOICEMIND_LOCAL_EMBEDDING_MODEL'' ''Qwen3-Embedding-4B'',
       seProtocol = OPENAI_EMBEDDINGS, seTimeoutMs = sharedMs, seMaxInputBytes = None,
       seCapabilities = [''text embedding''], seLimitations = [''only one fixed text is verified'']\<rparr>,
     \<lparr>seService = ''qwen-reranker'', sePort = RERANKER,
       seUrlVariable = ''CHOICEMIND_LOCAL_RERANKER_BASE_URL'', seUrlFallback = ''http://192.168.121.33:8012/v1'',
       seModel = ModelVariable ''CHOICEMIND_LOCAL_RERANKER_MODEL'' ''Qwen3-Reranker-8B'',
       seProtocol = RERANK, seTimeoutMs = sharedMs, seMaxInputBytes = None,
       seCapabilities = [''reranking of candidate documents''], seLimitations = [''only two fixed candidates are verified'']\<rparr>,
     \<lparr>seService = ''paddleocr-vl'', sePort = DOCUMENT_PARSER,
       seUrlVariable = ''CHOICEMIND_LOCAL_PADDLEOCR_BASE_URL'', seUrlFallback = ''http://192.168.121.33:18080/v1'',
       seModel = ModelVariable ''CHOICEMIND_LOCAL_PADDLEOCR_MODEL'' ''PaddleOCR-VL-1.6-0.9B'',
       seProtocol = PADDLEOCR_VL, seTimeoutMs = sharedMs, seMaxInputBytes = None,
       seCapabilities = [''text recognition in pictures''], seLimitations = [''only a fixed picture is verified'']\<rparr>,
     \<lparr>seService = ''mineru'', sePort = DOCUMENT_PARSER,
       seUrlVariable = ''CHOICEMIND_LOCAL_MINERU_BASE_URL'', seUrlFallback = ''http://192.168.121.33:8000'',
       seModel = FixedModel ''MinerU-3.4.4'', seProtocol = MINERU, seTimeoutMs = sharedMs, seMaxInputBytes = None,
       seCapabilities = [''PDF parsing''], seLimitations = [''only a fixed PDF of one page is verified'']\<rparr>,
     \<lparr>seService = ''choicemind-html-parser'', sePort = DOCUMENT_PARSER,
       seUrlVariable = ''CHOICEMIND_DATA_WORKER_BASE_URL'', seUrlFallback = ''http://127.0.0.1:3300/v1'',
       seModel = NoModel, seProtocol = CHOICEMIND_DOCUMENT_PARSER, seTimeoutMs = sharedMs,
       seMaxInputBytes = Some 1500000,
       seCapabilities = [''HTML text parsing''], seLimitations = [''P0 accepts UTF-8 HTML only'']\<rparr>]"

definition readModel :: "configuration_env \<Rightarrow> model_origin \<Rightarrow> configuration_error + string option" where
  "readModel env m = (case m of
      ModelVariable name fallback \<Rightarrow> onward (readMeaningfulText env name fallback) (\<lambda>v. Inr (Some v))
    | FixedModel v \<Rightarrow> Inr (Some v)
    | NoModel \<Rightarrow> Inr None)"

definition readTarget :: "configuration_env \<Rightarrow> service_entry \<Rightarrow> configuration_error + local_target" where
  "readTarget env e =
     onward (readBaseUrl env (seUrlVariable e) (seUrlFallback e)) (\<lambda>base.
     onward (readModel env (seModel e)) (\<lambda>m.
     Inr \<lparr>ltService = seService e, ltPort = sePort e, ltBaseUrl = base, ltModel = m, ltProtocol = seProtocol e,
          ltTimeoutMs = seTimeoutMs e, ltMaxInputBytes = seMaxInputBytes e, ltCapabilities = seCapabilities e,
          ltLimitations = seLimitations e\<rparr>))"

fun readAll :: "('a \<Rightarrow> 'e + 'b) \<Rightarrow> 'a list \<Rightarrow> 'e + 'b list" where
  "readAll f [] = Inr []"
| "readAll f (x # xs) = onward (f x) (\<lambda>y. onward (readAll f xs) (\<lambda>ys. Inr (y # ys)))"

definition loadLocalServiceConfiguration :: "configuration_env \<Rightarrow> configuration_error + local_target list" where
  "loadLocalServiceConfiguration env =
     onward (readPositiveInteger env ''CHOICEMIND_LOCAL_MODEL_TIMEOUT_MS'' 120000) (\<lambda>modelMs.
     onward (readPositiveInteger env ''CHOICEMIND_LOCAL_SERVICE_TIMEOUT_MS'' DEFAULT_TIMEOUT_MS) (\<lambda>sharedMs.
     readAll (readTarget env) (serviceEntries modelMs sharedMs)))"

section \<open>The smoke run\<close>

datatype smoke_status = SMOKE_PASSED | SMOKE_FAILED

record smoke_service =
  ssService :: ident
  ssPort :: local_port
  ssEndpoint :: string
  ssModel :: "string option"
  ssStatus :: smoke_status
  ssInputSha256 :: string
  ssLatencyMs :: int
  ssCapabilities :: "string list"
  ssLimitations :: "string list"
  ssErrorCode :: "local_error_code option"

record smoke_report =
  srStatus :: smoke_status
  srExecutedAt :: string
  srServices :: "smoke_service list"

text \<open>The samples of smoke-fixtures.ts, the digest of a JSON value, the clocks and the calls, by their number.\<close>

record smoke_env =
  seJpeg :: string
  seHtml :: string
  sePdf :: string
  seDigest :: "json \<Rightarrow> string"
  seMonotonic :: "nat \<Rightarrow> rat"
  seNow :: int
  seExecute :: "nat \<Rightarrow> local_target \<Rightarrow> local_request \<Rightarrow> local_result"

definition fixedInput :: "smoke_env \<Rightarrow> ident \<Rightarrow> local_input" where
  "fixedInput se sid =
     (if sid = ''qwen-model'' then ModelInput [(ChatUser, ''Answer only: CHOICEMIND_OK'')] 128
      else if sid = ''qwen-embedding'' then EmbeddingInput [''ChoiceMind fixed embedding sample'']
      else if sid = ''qwen-reranker'' then RerankerInput ''Which candidate satisfies the condition?''
        [\<lparr>rdDocument = ''candidate-a'', rdText = ''Candidate A satisfies the condition''\<rparr>,
         \<lparr>rdDocument = ''candidate-b'', rdText = ''Candidate B does not satisfy the condition''\<rparr>] 2
      else if sid = ''paddleocr-vl'' then ParserInput JPEG (seJpeg se)
      else if sid = ''choicemind-html-parser'' then ParserInput HTML (seHtml se)
      else ParserInput PDF (sePdf se))"

definition fixedRequest :: "smoke_env \<Rightarrow> local_target \<Rightarrow> local_request" where
  "fixedRequest se t = \<lparr>lrRequest = ''smoke-'' @ ltService t, lrInput = fixedInput se (ltService t)\<rparr>"

definition buildFixedLocalServiceSmokeRequests :: "smoke_env \<Rightarrow> local_target list \<Rightarrow> ident \<Rightarrow> local_request option" where
  "buildFixedLocalServiceSmokeRequests se ts sid = map_option (fixedRequest se) (mapFrom ltService ts sid)"

text \<open>\<open>Math.max(0, Math.round(x))\<close>\<close>

definition latencyMs :: "rat \<Rightarrow> int" where
  "latencyMs x = max 0 \<lfloor>x + 1 / 2\<rfloor>"

definition smokeService :: "smoke_env \<Rightarrow> nat \<Rightarrow> local_target \<Rightarrow> local_request \<Rightarrow> smoke_service" where
  "smokeService se n t r =
     (let res = seExecute se n t r in
      \<lparr>ssService = ltService t, ssPort = ltPort t, ssEndpoint = ltBaseUrl t, ssModel = ltModel t,
       ssStatus = (case res of LocalSucceeded _ _ \<Rightarrow> SMOKE_PASSED | LocalFailed _ _ _ \<Rightarrow> SMOKE_FAILED),
       ssInputSha256 = seDigest se (inputJson (lrInput r)),
       ssLatencyMs = latencyMs (seMonotonic se (2 * n + 1) - seMonotonic se (2 * n)),
       ssCapabilities = ltCapabilities t, ssLimitations = ltLimitations t,
       ssErrorCode = (case res of LocalSucceeded _ _ \<Rightarrow> None | LocalFailed _ _ e \<Rightarrow> Some (leCode e))\<rparr>)"

fun smokeServices ::
    "smoke_env \<Rightarrow> (ident \<Rightarrow> local_request option) \<Rightarrow> nat \<Rightarrow> local_target list \<Rightarrow> configuration_error + smoke_service list" where
  "smokeServices se requests n [] = Inr []"
| "smokeServices se requests n (t # ts) = (case requests (ltService t) of
      None \<Rightarrow> Inl (NoSample (ltService t))
    | Some r \<Rightarrow> onward (smokeServices se requests (Suc n) ts) (\<lambda>rest. Inr (smokeService se n t r # rest)))"

definition runLocalServiceSmoke :: "smoke_env \<Rightarrow> local_target list \<Rightarrow> configuration_error + smoke_report" where
  "runLocalServiceSmoke se ts =
     onward (smokeServices se (buildFixedLocalServiceSmokeRequests se ts) 0 ts) (\<lambda>services.
     Inr \<lparr>srStatus = (if list_all (\<lambda>s. ssStatus s = SMOKE_PASSED) services then SMOKE_PASSED else SMOKE_FAILED),
          srExecutedAt = toISOString (seNow se), srServices = services\<rparr>)"

end
