(* ===== verification/CM_Gold_Gate.thy ===== *)
theory CM_Gold_Gate
  imports CM_Fixture CM_Local_Configuration
begin

text \<open>
  packages/p0-gold-gate/src/index.ts: the registry of category packages, the synthetic folding table, the gate that
  decides whether P0 has passed, and the files that are written for it (also packages/local-services/src/report-store.ts).
  The file system is a map from paths to contents whose operations may fail.
\<close>

section \<open>Category packages\<close>

datatype field_type = QUANTITY_FIELD | BOOLEAN_FIELD | TEXT_FIELD

record category_field =
  fieldKey :: string
  fieldType :: field_type
  fieldRequired :: bool

record category_rule =
  ruleId :: ident
  ruleRequirementKey :: string
  rulePredicate :: string

record gold_case =
  goldCase :: ident
  goldStatus :: decision_status

record category_package =
  categoryId :: ident
  categoryName :: string
  categoryFields :: "category_field list"
  categoryRules :: "category_rule list"
  queryTemplates :: "string list"
  riskTopics :: "string list"
  goldSet :: "gold_case list"

text \<open>The registry: a \<open>Map\<close>, in insertion order.\<close>

type_synonym category_registry = "category_package list"

definition createCategoryPackageRegistry :: category_registry where
  "createCategoryPackageRegistry = []"

definition getCategory :: "category_registry \<Rightarrow> ident \<Rightarrow> category_package option" where
  "getCategory reg cid = find (\<lambda>c. categoryId c = cid) reg"

datatype category_error = CATEGORY_PACKAGE_DUPLICATE ident | CATEGORY_PACKAGE_UNSUPPORTED ident

definition registerCategory :: "category_package \<Rightarrow> category_registry \<Rightarrow> (category_error + unit) \<times> category_registry" where
  "registerCategory c reg =
     (if getCategory reg (categoryId c) \<noteq> None then (Inl (CATEGORY_PACKAGE_DUPLICATE (categoryId c)), reg)
      else (Inr (), reg @ [c]))"

definition listCategories :: "category_registry \<Rightarrow> category_package list" where
  "listCategories reg = reg"

definition syntheticFoldingTableCategory :: category_package where
  "syntheticFoldingTableCategory = \<lparr>categoryId = ''synthetic-folding-table'',
     categoryName = ''Synthetic folding camping table'',
     categoryFields = [\<lparr>fieldKey = ''dimensions.widthCm'', fieldType = QUANTITY_FIELD, fieldRequired = True\<rparr>,
       \<lparr>fieldKey = ''load.ratedKg'', fieldType = QUANTITY_FIELD, fieldRequired = True\<rparr>,
       \<lparr>fieldKey = ''portability.required'', fieldType = BOOLEAN_FIELD, fieldRequired = True\<rparr>],
     categoryRules = [\<lparr>ruleId = ''max-width'', ruleRequirementKey = ''dimensions.widthCm'', rulePredicate = ''dimensions.widthCm''\<rparr>,
       \<lparr>ruleId = ''minimum-load'', ruleRequirementKey = ''load.ratedKg'', rulePredicate = ''load.ratedKg''\<rparr>],
     queryTemplates = [''Check the unfolded size and the rated load of the exact model''],
     riskTopics = [''Pinched hands'', ''Stability on the ground'', ''Conditions of the rated load''],
     goldSet = [\<lparr>goldCase = ''folding-table-supported-selection'', goldStatus = BUY_IF_PRICE\<rparr>,
       \<lparr>goldCase = ''folding-table-missing-width'', goldStatus = NEED_MORE_INFO\<rparr>]\<rparr>"

section \<open>The folding table\<close>

definition foldingTableObservedAt :: string where
  "foldingTableObservedAt = ''2026-08-26T12:00:00.000Z''"

definition foldingTableValidUntil :: string where
  "foldingTableValidUntil = ''2026-09-02T12:00:00.000Z''"

definition foldingTableClaim :: "ident \<Rightarrow> ident \<Rightarrow> ident \<Rightarrow> string \<Rightarrow> claim_value \<Rightarrow> claim" where
  "foldingTableClaim tid cid sid pr v =
     \<lparr>claim.claimId = cid, decisionTaskId = tid, subjectId = sid, predicate = pr,
      claimValue = v, claimKind = FACT_ASSERTION\<rparr>"

definition foldingTableEvidence :: "ident \<Rightarrow> ident \<Rightarrow> string \<Rightarrow> string \<Rightarrow> evidence" where
  "foldingTableEvidence tid eid field text =
     \<lparr>evidence.evidenceId = eid, decisionTaskId = tid, capturedAt = foldingTableObservedAt,
      locatorSection = ''synthetic-folding-table'', locatorField = field, excerpt = text,
      validUntil = foldingTableValidUntil,
      origin = SYNTHETIC ''source-synth-folding-table'' ''ChoiceMind synthetic folding table test material''\<rparr>"

definition foldingCandidates :: "ident \<Rightarrow> candidate list" where
  "foldingCandidates tid = [
     \<lparr>candidate.candidateId = ''candidate-synth-table-a'', decisionTaskId = tid, displayName = ''Synthetic folding table A'',
      identity = \<lparr>model = ''CM-SYNTH-TABLE-A'', sku = ''CM-SYNTH-TABLE-A-80'', configuration = ''80 cm wide / 40 kg rated load''\<rparr>,
      observedPrice = \<lparr>amountMinor = 42900, observedAt = foldingTableObservedAt\<rparr>\<rparr>,
     \<lparr>candidate.candidateId = ''candidate-synth-table-b'', decisionTaskId = tid, displayName = ''Synthetic folding table B'',
      identity = \<lparr>model = ''CM-SYNTH-TABLE-B'', sku = ''CM-SYNTH-TABLE-B-95'', configuration = ''95 cm wide / 50 kg rated load''\<rparr>,
      observedPrice = \<lparr>amountMinor = 47900, observedAt = foldingTableObservedAt\<rparr>\<rparr>]"

definition foldingClaims :: "ident \<Rightarrow> claim list" where
  "foldingClaims tid = [
     foldingTableClaim tid ''claim-synth-table-a-price'' ''candidate-synth-table-a'' ''price.observed'' (MONEY 42900),
     foldingTableClaim tid ''claim-synth-table-a-width'' ''candidate-synth-table-a'' ''dimensions.widthCm''
       (QUANTITY \<lparr>amount = 80, unitName = ''cm''\<rparr>),
     foldingTableClaim tid ''claim-synth-table-a-load'' ''candidate-synth-table-a'' ''load.ratedKg''
       (QUANTITY \<lparr>amount = 40, unitName = ''kg''\<rparr>),
     foldingTableClaim tid ''claim-synth-table-b-width'' ''candidate-synth-table-b'' ''dimensions.widthCm''
       (QUANTITY \<lparr>amount = 95, unitName = ''cm''\<rparr>)]"

definition foldingEvidence :: "ident \<Rightarrow> evidence list" where
  "foldingEvidence tid = [
     foldingTableEvidence tid ''evidence-synth-table-a-price'' ''price.observed'' ''The synthetic observed price is 429 yuan'',
     foldingTableEvidence tid ''evidence-synth-table-a-width'' ''dimensions.widthCm'' ''The synthetic unfolded width is 80 cm'',
     foldingTableEvidence tid ''evidence-synth-table-a-load'' ''load.ratedKg'' ''The synthetic rated load is 40 kg'',
     foldingTableEvidence tid ''evidence-synth-table-b-width'' ''dimensions.widthCm'' ''The synthetic unfolded width is 95 cm'']"

definition foldingLinks :: "ident \<Rightarrow> claim_evidence_link list" where
  "foldingLinks tid = mapIndexed 0 (\<lambda>i (cid, eid).
     \<lparr>claim_evidence_link.linkId = ''link-synth-table-'' @ decimal (i + 1), decisionTaskId = tid,
      claimId = cid, evidenceId = eid, direction = SUPPORTS\<rparr>)
     [(''claim-synth-table-a-price'', ''evidence-synth-table-a-price''),
      (''claim-synth-table-a-width'', ''evidence-synth-table-a-width''),
      (''claim-synth-table-a-load'', ''evidence-synth-table-a-load''),
      (''claim-synth-table-b-width'', ''evidence-synth-table-b-width'')]"

definition foldingDecision :: "ident \<Rightarrow> requirement_revision \<Rightarrow> decision_revision" where
  "foldingDecision tid r =
     \<lparr>decision_revision.decisionRevisionId = ''decision-'' @ tid @ ''-r1'', decisionTaskId = tid,
      requirementRevisionId = requirement_revision.requirementRevisionId r, revision = 1, status = BUY_IF_PRICE,
      summary = ''Folding table A satisfies the hard constraints of size and load; consider it after checking price and warranty.'',
      selectedCandidateId = Some ''candidate-synth-table-a'',
      conditions = [MAX_PRICE ''condition-synth-table-price'' ''candidate-synth-table-a'' 45000
          ''The user checks the actual price in the sales channel'',
        OFFICIAL_WARRANTY ''condition-synth-table-warranty'' ''candidate-synth-table-a''
          ''The user confirms that the sales channel offers official warranty''],
      candidateDispositions = [\<lparr>candidate_disposition.dispositionId = ''disposition-synth-table-b-width'',
        candidateId = ''candidate-synth-table-b'', requirementKey = ''dimensions.widthCm'',
        reason = ''The synthetic unfolded width of 95 cm exceeds the hard constraint of 90 cm'',
        evidenceIds = [''evidence-synth-table-b-width'']\<rparr>],
      risks = [], evidenceIds = map evidence.evidenceId (foldingEvidence tid), criticalGaps = [], assumptions = [],
      validFrom = foldingTableObservedAt, validUntil = foldingTableValidUntil,
      nextSteps = [next_step.VERIFY_CONDITION ''condition-synth-table-price'' ''Check the actual price'',
        next_step.VERIFY_CONDITION ''condition-synth-table-warranty'' ''Confirm the official warranty'']\<rparr>"

definition missingWidthDecision :: "ident \<Rightarrow> requirement_revision \<Rightarrow> decision_revision" where
  "missingWidthDecision tid r =
     \<lparr>decision_revision.decisionRevisionId = ''decision-'' @ tid @ ''-r1'', decisionTaskId = tid,
      requirementRevisionId = requirement_revision.requirementRevisionId r, revision = 1, status = NEED_MORE_INFO,
      summary = ''The acceptable width is missing, folding tables cannot be selected safely.'',
      selectedCandidateId = None, conditions = [], candidateDispositions = [], risks = [],
      evidenceIds = map evidence.evidenceId (foldingEvidence tid),
      criticalGaps = [\<lparr>critical_gap.gapId = ''gap-synth-table-width'', key = ''dimensions.widthCm'',
        question = ''How many centimetres may the unfolded table be wide?'',
        resolution = gap_resolution.PROVIDE_REQUIREMENT ''dimensions.widthCm''\<rparr>],
      assumptions = [], validFrom = foldingTableObservedAt, validUntil = foldingTableValidUntil,
      nextSteps = [next_step.PROVIDE_REQUIREMENT ''dimensions.widthCm'' ''Provide the largest acceptable width'']\<rparr>"

definition foldingRunEvents ::
    "string \<Rightarrow> string \<Rightarrow> string \<Rightarrow> (decision_task_state \<times> string) list \<Rightarrow> ident \<Rightarrow> ident \<Rightarrow> run_event list" where
  "foldingRunEvents eventPrefix minute about states tid rid = mapIndexed 0 (\<lambda>i (st, nm).
     \<lparr>run_event.eventId = eventPrefix @ decimal (i + 1), decisionTaskId = tid, agentRunId = rid,
      sequence = int i + 1, occurredAt = minute @ decimal i @ ''.000Z'',
      eventType = (if i = length states - 1 then RUNTIME_SUCCEEDED else TASK_STATE_CHANGED),
      taskState = st, summary = about @ nm\<rparr>) states"

definition buildMissingFoldingTableWidthOutput :: "runtime_run_command \<Rightarrow> runtime_run_output" where
  "buildMissingFoldingTableWidthOutput command =
     (let tid = cmdDecisionTaskId command in
      \<lparr>outCandidates = foldingCandidates tid, outClaims = foldingClaims tid, outEvidence = foldingEvidence tid,
       outLinks = foldingLinks tid, outDecision = missingWidthDecision tid (cmdRequirement command),
       outRunEvents = foldingRunEvents ''event-synth-table-gap-'' ''2026-08-26T12:01:0'' ''Synthetic folding table clarification: ''
         [(CREATED, ''CREATED''), (UNDERSTANDING, ''UNDERSTANDING''), (decision_task_state.COMPLETED, ''COMPLETED'')]
         tid (cmdAgentRunId command)\<rparr>)"

definition buildSyntheticFoldingTableRunOutput ::
    "category_package \<Rightarrow> runtime_run_command \<Rightarrow> category_error + runtime_run_output" where
  "buildSyntheticFoldingTableRunOutput c command =
     (let tid = cmdDecisionTaskId command in
      if categoryId c \<noteq> categoryId syntheticFoldingTableCategory then Inl (CATEGORY_PACKAGE_UNSUPPORTED (categoryId c))
      else if ''dimensions.widthCm'' \<in> set (unknowns (cmdRequirement command))
      then Inr (buildMissingFoldingTableWidthOutput command)
      else Inr \<lparr>outCandidates = foldingCandidates tid, outClaims = foldingClaims tid, outEvidence = foldingEvidence tid,
       outLinks = foldingLinks tid, outDecision = foldingDecision tid (cmdRequirement command),
       outRunEvents = foldingRunEvents ''event-synth-table-'' ''2026-08-26T12:00:0'' ''Synthetic folding table: ''
         [(CREATED, ''CREATED''), (PLANNING, ''PLANNING''), (RESEARCHING, ''RESEARCHING''), (VERIFYING, ''VERIFYING''),
          (COMPARING, ''COMPARING''), (decision_task_state.COMPLETED, ''COMPLETED'')]
         tid (cmdAgentRunId command)\<rparr>)"

section \<open>The gate\<close>

datatype gate_status = GATE_PASSED | GATE_FAILED

record gate_evidence =
  geEvidence :: ident
  geLocator :: string

record gate_result =
  grGate :: ident
  grStatus :: gate_status
  grEvidence :: "gate_evidence list"

datatype p0_status = P0_PASSED | P0_FAILED

record p0_report =
  prStatus :: p0_status
  prExecutedAt :: string
  prBaselineCommit :: string
  prGates :: "gate_result list"
  prBlockingFailures :: "ident list"

record index_entry =
  ieEvidence :: ident
  ieGate :: ident
  ieLocator :: string

record p0_evidence_index =
  piGeneratedAt :: string
  piEntries :: "index_entry list"

text \<open>What the gate reads of a smoke report.\<close>

record smoke_input =
  siStatus :: smoke_status
  siServices :: "(ident \<times> smoke_status) list"

definition smokeInput :: "smoke_report \<Rightarrow> smoke_input" where
  "smokeInput r = \<lparr>siStatus = srStatus r, siServices = map (\<lambda>s. (ssService s, ssStatus s)) (srServices r)\<rparr>"

record gate_input =
  giExecutedAt :: string
  giBaselineCommit :: string
  giCoreModifiedFiles :: "string list"
  giGateResults :: "gate_result list"
  giSmoke :: smoke_input

definition requiredServices :: "ident list" where
  "requiredServices = [''qwen-model'', ''qwen-embedding'', ''qwen-reranker'', ''paddleocr-vl'', ''mineru'', ''choicemind-html-parser'']"

definition coreGate :: "string list \<Rightarrow> gate_result" where
  "coreGate files = \<lparr>grGate = ''core-category-independence'',
     grStatus = (if files = [] then GATE_PASSED else GATE_FAILED),
     grEvidence = map (\<lambda>f. \<lparr>geEvidence = ''core-diff:'' @ f, geLocator = f\<rparr>) files\<rparr>"

definition hasExactServiceSet :: "smoke_input \<Rightarrow> bool" where
  "hasExactServiceSet s \<longleftrightarrow>
     (let unique = setAddAll (map fst (siServices s)) [] in
      length (siServices s) = length requiredServices \<and> length unique = length requiredServices
      \<and> list_all (\<lambda>sid. sid \<in> set unique) requiredServices)"

definition serviceGate :: "smoke_input \<Rightarrow> gate_result" where
  "serviceGate s = \<lparr>grGate = ''local-service-contracts'',
     grStatus = (if siStatus s = SMOKE_PASSED \<and> hasExactServiceSet s \<and> list_all (\<lambda>(_, st). st = SMOKE_PASSED) (siServices s)
       then GATE_PASSED else GATE_FAILED),
     grEvidence = map (\<lambda>(sid, _). \<lparr>geEvidence = ''local-service:'' @ sid, geLocator = ''local-service-smoke:'' @ sid\<rparr>) (siServices s)
       @ map (\<lambda>sid. \<lparr>geEvidence = ''local-service:'' @ sid @ '':missing'', geLocator = ''local-service-smoke:missing:'' @ sid\<rparr>)
           (filter (\<lambda>sid. \<not> list_ex (\<lambda>(s', _). s' = sid) (siServices s)) requiredServices)\<rparr>"

definition evaluateP0GoldGate :: "gate_input \<Rightarrow> p0_report \<times> p0_evidence_index" where
  "evaluateP0GoldGate inp =
     (let gates = giGateResults inp @ [coreGate (giCoreModifiedFiles inp), serviceGate (giSmoke inp)];
          blocking = map grGate (filter (\<lambda>g. grStatus g = GATE_FAILED) gates);
          entries = concat (map (\<lambda>g. map (\<lambda>e. \<lparr>ieEvidence = geEvidence e, ieGate = grGate g, ieLocator = geLocator e\<rparr>)
                      (grEvidence g)) gates)
      in (\<lparr>prStatus = (if blocking = [] then P0_PASSED else P0_FAILED), prExecutedAt = giExecutedAt inp,
           prBaselineCommit = giBaselineCommit inp, prGates = gates, prBlockingFailures = blocking\<rparr>,
          \<lparr>piGeneratedAt = giExecutedAt inp, piEntries = entries\<rparr>))"

section \<open>Writing the reports\<close>

text \<open>
  A directory; a write that fails may leave a part of the content, a rename or removal that fails changes nothing.
\<close>

type_synonym files = "string \<Rightarrow> string option"

datatype file_outcome = FileDone | FileFailed "string option" \<comment> \<open>what a failed write left in the file\<close>

record file_faults =
  directoryMade :: bool
  onWrite :: file_outcome
  onRename :: file_outcome
  onRemove :: file_outcome

definition writeFile :: "file_outcome \<Rightarrow> string \<Rightarrow> string \<Rightarrow> files \<Rightarrow> bool \<times> files" where
  "writeFile out p content fs = (case out of
      FileDone \<Rightarrow> (True, fs(p \<mapsto> content))
    | FileFailed left \<Rightarrow> (False, case left of None \<Rightarrow> fs | Some part \<Rightarrow> fs(p \<mapsto> part)))"

definition renameFile :: "file_outcome \<Rightarrow> string \<Rightarrow> string \<Rightarrow> files \<Rightarrow> bool \<times> files" where
  "renameFile out p q fs = (case out of
      FileDone \<Rightarrow> (case fs p of None \<Rightarrow> (False, fs) | Some c \<Rightarrow> (True, (fs(q \<mapsto> c))(p := None)))
    | FileFailed _ \<Rightarrow> (False, fs))"

definition removeFile :: "file_outcome \<Rightarrow> string \<Rightarrow> files \<Rightarrow> bool \<times> files" where
  "removeFile out p fs = (case out of FileDone \<Rightarrow> (True, fs(p := None)) | FileFailed _ \<Rightarrow> (False, fs))"

definition temporaryPath :: "string \<Rightarrow> string \<Rightarrow> string" where
  "temporaryPath pid p = p @ ''.'' @ pid @ ''.tmp''"

text \<open>Write beside the file, rename, and remove what is left; \<open>True\<close> when nothing was thrown.\<close>

definition writeJsonAtomically :: "file_faults \<Rightarrow> string \<Rightarrow> string \<Rightarrow> string \<Rightarrow> files \<Rightarrow> bool \<times> files" where
  "writeJsonAtomically ff pid p content fs =
     (let tmp = temporaryPath pid p;
          (written, fs1) = writeFile (onWrite ff) tmp content fs;
          (renamed, fs2) = (if written then renameFile (onRename ff) tmp p fs1 else (False, fs1));
          (removed, fs3) = removeFile (onRemove ff) tmp fs2
      in (written \<and> renamed \<and> removed, fs3))"

definition saveLocalServiceSmokeReport :: "file_faults \<Rightarrow> string \<Rightarrow> string \<Rightarrow> string \<Rightarrow> files \<Rightarrow> bool \<times> files" where
  "saveLocalServiceSmokeReport ff pid p content fs =
     (if directoryMade ff then writeJsonAtomically ff pid p content fs else (False, fs))"

definition saveP0GoldArtifacts ::
    "file_faults \<Rightarrow> file_faults \<Rightarrow> string \<Rightarrow> string \<Rightarrow> string \<Rightarrow> string \<Rightarrow> files \<Rightarrow> bool \<times> files" where
  "saveP0GoldArtifacts ff gg pid dir content index fs =
     (let (ok, fs1) = (if directoryMade ff
        then writeJsonAtomically ff pid (dir @ ''/evaluation-report.json'') content fs else (False, fs)) in
      if ok then writeJsonAtomically gg pid (dir @ ''/evidence-index.json'') index fs1 else (False, fs1))"

end
