(* ===== verification/CM_Local_Facts.thy ===== *)
theory CM_Local_Facts
  imports CM_Gold_Gate
begin

text \<open>
  What the client of the local services promises whatever the upstream answers, what a smoke run under a loaded
  configuration means to the P0 gate, when the gate passes, and that its reports are written whole or not at all.
\<close>

section \<open>The client\<close>

text \<open>
  zod returns the value it has checked: the fields of the typed result are those of the JSON value. This is what
  the client relies on of \<open>safeParse\<close>.
\<close>

definition rankingMatches :: "json \<Rightarrow> ident \<times> rat \<Rightarrow> bool" where
  "rankingMatches j r \<longleftrightarrow> jget j ''documentId'' = JStr (fst r) \<and> jget j ''score'' = JNum (snd r)"

definition outputMatches :: "json \<Rightarrow> local_output \<Rightarrow> bool" where
  "outputMatches j out = (case out of
      ModelOutput m t \<Rightarrow> jget j ''model'' = JStr m \<and> jget j ''text'' = JStr t
    | EmbeddingOutput m n vs \<Rightarrow> jget j ''model'' = JStr m \<and> jget j ''dimensions'' = jInt n
    | RerankerOutput m rs \<Rightarrow> jget j ''model'' = JStr m
        \<and> (case jget j ''rankings'' of JArr js \<Rightarrow> list_all2 rankingMatches js rs | _ \<Rightarrow> False)
    | ParserOutput p t n \<Rightarrow> jget j ''parser'' = JStr p \<and> jget j ''text'' = JStr t \<and> jget j ''pageCount'' = jInt n
    | AsrOutput m t lang \<Rightarrow> jget j ''model'' = JStr m \<and> jget j ''text'' = JStr t)"

definition resultMatches :: "json \<Rightarrow> local_result \<Rightarrow> bool" where
  "resultMatches j v \<longleftrightarrow> jget j ''requestId'' = JStr (resultRequest v) \<and> jget j ''port'' = JStr (portText (resultPort v))
     \<and> (case v of LocalSucceeded _ out \<Rightarrow> outputMatches (jget j ''output'') out | LocalFailed _ _ _ \<Rightarrow> True)"

definition faithfulShape :: "local_result zod_shape \<Rightarrow> bool" where
  "faithfulShape sh \<longleftrightarrow> (\<forall>j v. typedValue sh j = Inr v \<longrightarrow> resultMatches j v)"

text \<open>The output names the model that the target stands for.\<close>

definition outputModel :: "local_output \<Rightarrow> string" where
  "outputModel out = (case out of ModelOutput m _ \<Rightarrow> m | EmbeddingOutput m _ _ \<Rightarrow> m | RerankerOutput m _ \<Rightarrow> m
     | ParserOutput p _ _ \<Rightarrow> p | AsrOutput m _ _ \<Rightarrow> m)"

definition rankedDocuments :: "local_output \<Rightarrow> ident set" where
  "rankedDocuments out = (case out of RerankerOutput _ rs \<Rightarrow> fst ` set rs | _ \<Rightarrow> {})"

definition answersRequest :: "local_target \<Rightarrow> local_request \<Rightarrow> local_result \<Rightarrow> bool" where
  "answersRequest t r v \<longleftrightarrow>
     resultRequest v = lrRequest r \<and> resultPort v = ltPort t \<and> localServiceResultSchema v \<and> dimensionIssues v = []
     \<and> (case v of LocalFailed _ _ _ \<Rightarrow> True
        | LocalSucceeded _ out \<Rightarrow> ltProtocol t = CHOICEMIND_DOCUMENT_PARSER
            \<or> Some (outputModel out) = ltModel t \<and> rankedDocuments out \<subseteq> rdDocument ` set (requestDocuments r))"

lemma decodeLocalServiceResultV1_Inr_iff:
  "decodeLocalServiceResultV1 sh j = Inr v \<longleftrightarrow>
     \<not> (jhas j ''contractVersion'' \<and> jget j ''contractVersion'' \<noteq> JStr ''1.0'') \<and> typedValue sh j = Inr v
     \<and> localServiceResultSchema v \<and> dimensionIssues v = []"
  by (auto simp: decodeLocalServiceResultV1_def decodeLocalContract_def schemaSafeParse_def split: sum.splits)

lemma portText_inject [simp]: "portText p = portText q \<longleftrightarrow> p = q"
  by (cases p; cases q) (simp_all add: portText_def)

lemma failure_answers:
  "meaningfulTextSchema (lrRequest r) \<Longrightarrow> meaningfulTextSchema msg \<Longrightarrow> answersRequest t r (localFailure t (lrRequest r) c msg)"
  by (cases c) (simp_all add: answersRequest_def localFailure_def Let_def localServiceResultSchema_def failedResultSchema_def
      localServiceErrorSchema_def dimensionIssues_def)

lemma meaningful_append [simp]: "meaningfulTextSchema s \<Longrightarrow> meaningfulTextSchema (s @ t)"
  by (auto simp: meaningfulTextSchema_def list_ex_iff)

lemma withOutput_get [simp]:
  "jget (withOutput r out) ''requestId'' = JStr (lrRequest r)"
  "jget (withOutput r out) ''port'' = JStr (portText (requestPort r))"
  "jget (withOutput r out) ''output'' = out"
  by (simp_all add: withOutput_def jget_def)

lemma undefined_output: "outputMatches JUndefined out \<Longrightarrow> False"
  by (cases out) (simp_all add: outputMatches_def jget_def)

lemma ranked_documents:
  assumes "list_all2 rankingMatches (map (rankingJson ds) items) rs"
  shows "fst ` set rs \<subseteq> rdDocument ` set ds"
proof -
  have ranking: "d \<in> rdDocument ` set ds" if "rankingMatches (rankingJson ds item) (d, x)" for item d x
    using that
    by (auto simp: rankingMatches_def rankingJson_def documentAt_def jget_def split: json.splits if_splits)
  show ?thesis
    using assms
  proof (induction items arbitrary: rs)
    case Nil
    then show ?case by simp
  next
    case (Cons item items)
    then obtain d x zs where rs: "rs = (d, x) # zs" "rankingMatches (rankingJson ds item) (d, x)"
        "list_all2 rankingMatches (map (rankingJson ds) items) zs"
      by (auto simp: list_all2_Cons1)
    from Cons.IH [OF rs(3)] ranking [OF rs(2)] show ?case unfolding rs(1) by simp
  qed
qed

text \<open>Which output each protocol can give, with its model.\<close>

lemma mapped_output:
  assumes "resultMatches (mapSuccessfulResponse t r payload) (LocalSucceeded rid out)"
    and "ltProtocol t \<noteq> CHOICEMIND_DOCUMENT_PARSER"
  shows "Some (outputModel out) = ltModel t \<and> rankedDocuments out \<subseteq> rdDocument ` set (requestDocuments r)"
proof -
  have matches: "outputMatches (jget (mapSuccessfulResponse t r payload) ''output'') out"
    using assms(1) by (simp add: resultMatches_def)
  then have ok: "isRecord payload" "answersModel t payload"
    using assms(2) undefined_output by (auto simp: mapSuccessfulResponse_def split: if_splits)
  define out_json where "out_json = jget (mapSuccessfulResponse t r payload) ''output''"
  have model: "jget out_json ''model'' \<in> {modelJson t, JUndefined}" and parser: "jget out_json ''parser'' \<in> {modelJson t, JUndefined}"
    using ok assms(2) unfolding out_json_def
    by (cases "ltProtocol t"; simp add: mapSuccessfulResponse_def answersModel_def embeddingOutputJson_def
        rerankOutputJson_def Let_def; simp add: jget_def)+
  have rankings: "js \<in> range (map (rankingJson (requestDocuments r)))" if "jget out_json ''rankings'' = JArr js" for js
    using ok assms(2) that unfolding out_json_def
    by (cases "ltProtocol t"; simp add: mapSuccessfulResponse_def embeddingOutputJson_def rerankOutputJson_def Let_def)
      (auto simp: jget_def split: json.splits option.splits)
  have "jget out_json ''model'' = JStr (outputModel out) \<or> jget out_json ''parser'' = JStr (outputModel out)"
    using matches by (cases out) (auto simp: outputMatches_def outputModel_def out_json_def)
  with model parser have "modelJson t = JStr (outputModel out)" by auto
  then have "Some (outputModel out) = ltModel t" by (simp add: modelJson_def split: option.splits)
  moreover have "rankedDocuments out \<subseteq> rdDocument ` set (requestDocuments r)"
  proof (cases out)
    case (RerankerOutput m rs)
    then obtain js where js: "jget out_json ''rankings'' = JArr js" "list_all2 rankingMatches js rs"
      using matches by (auto simp: outputMatches_def out_json_def split: json.splits)
    then obtain items where "js = map (rankingJson (requestDocuments r)) items" using rankings by blast
    with js(2) ranked_documents show ?thesis by (simp add: RerankerOutput rankedDocuments_def)
  qed (simp_all add: rankedDocuments_def)
  ultimately show ?thesis by blast
qed

lemma mapped_header:
  assumes "resultMatches (mapSuccessfulResponse t r payload) v"
  shows "resultRequest v = lrRequest r \<and> resultPort v = requestPort r"
  using assms by (auto simp: resultMatches_def mapSuccessfulResponse_def split: if_splits)

text \<open>
  C10: Whatever the service answers, times out or fails to answer, the client returns a result of the contract
  for exactly this request and port; a success was answered by the configured model, its vectors have the dimensions
  they claim, and a ranking names documents of the request only.
\<close>

theorem local_service_answer:
  assumes "faithfulShape (clientShape cl)" and "meaningfulTextSchema (lrRequest r)"
  shows "answersRequest t r (executeLocalServiceRequest cl t r)"
proof -
  have decoded: "answersRequest t r v"
    if "ltPort t = requestPort r"
      "decodeLocalServiceResultV1 (clientShape cl) (mapSuccessfulResponse t r payload) = Inr v" for payload v
  proof -
    have v: "resultMatches (mapSuccessfulResponse t r payload) v" "localServiceResultSchema v" "dimensionIssues v = []"
      using that(2) assms(1) by (auto simp: decodeLocalServiceResultV1_Inr_iff faithfulShape_def)
    with that(1) mapped_header [OF v(1)] mapped_output [of t r payload] show ?thesis
      by (auto simp: answersRequest_def split: local_result.split)
  qed
  show ?thesis
    using failure_answers [OF assms(2)] decoded
    by (simp add: executeLocalServiceRequest_def Let_def meaningfulTextSchema_def isWhitespace_def
        split: option.split fetch_outcome.split sum.split)
qed

end
