(* ===== verification/CM_Retrieval_Facts.thy ===== *)
theory CM_Retrieval_Facts
  imports CM_Ingestion_Facts CM_Local_Facts
begin

text \<open>
  Facts on the addresses that are private, on the object store, on the evidence made of a page and on retrieval.
\<close>

section \<open>Dotted addresses\<close>

definition dotted :: "nat \<Rightarrow> nat \<Rightarrow> nat \<Rightarrow> nat \<Rightarrow> string" where
  "dotted a b c d = decimal a @ CHR ''.'' # decimal b @ CHR ''.'' # decimal c @ CHR ''.'' # decimal d"

lemma decimal_digits: "list_all isDigit (decimal n)"
proof (induction n rule: decimal.induct)
  case (1 n)
  then show ?case by (subst decimal.simps) (simp add: digitChar_digit)
qed

lemma decimal_nonempty [simp]: "decimal n \<noteq> []"
  by (subst decimal.simps) simp

lemma decimal_length: "n < 10 ^ Suc k \<Longrightarrow> length (decimal n) \<le> Suc k"
proof (induction k arbitrary: n)
  case 0
  then show ?case by (subst decimal.simps) simp
next
  case (Suc k)
  show ?case
  proof (cases "n < 10")
    case True
    then show ?thesis by (subst decimal.simps) simp
  next
    case False
    have "n div 10 < 10 ^ Suc k" using Suc.prems by (simp add: less_mult_imp_div_less mult.commute)
    with Suc.IH [of "n div 10"] False show ?thesis by (subst decimal.simps) simp
  qed
qed

lemma decimal_zero: "decimal 0 = ''0''"
  by (subst decimal.simps) code_simp

lemma decimal_octet: "n < 256 \<Longrightarrow> isOctet (decimal n)"
proof -
  assume n: "n < 256"
  have "length (decimal n) \<le> 3" using decimal_length [of n 2] n by simp
  moreover have "decimal n = ''0'' \<or> hd (decimal n) \<noteq> CHR ''0''"
  proof (cases "n = 0")
    case False
    then have "cursorShape (decimal n)" by (simp add: cursorShape_decimal)
    then show ?thesis by (auto simp: cursorShape_def digitVal_def split: list.splits)
  qed (simp add: decimal_zero)
  ultimately show ?thesis using n decimal_digits [of n] by (simp add: isOctet_def BigInt_decimal)
qed

lemma splitOn_plain: "z \<notin> set s \<Longrightarrow> splitOn z s = [s]"
  by (induction s) auto

lemma splitOn_append: "z \<notin> set s \<Longrightarrow> splitOn z (s @ z # t) = s # splitOn z t"
  by (induction s) auto

lemma digits_plain: "z \<notin> set (decimal n)" if "\<not> isDigit z"
  using decimal_digits [of n] that by (auto simp: list_all_iff)

lemma split_dotted: "splitOn CHR ''.'' (dotted a b c d) = [decimal a, decimal b, decimal c, decimal d]"
  by (simp add: dotted_def splitOn_append splitOn_plain digits_plain isDigit_def)

lemma dotted_isIPv4: "\<lbrakk>a < 256; b < 256; c < 256; d < 256\<rbrakk> \<Longrightarrow> isIPv4 (dotted a b c d)"
  by (simp add: isIPv4_def split_dotted decimal_octet)

lemma dotted_chars: "x \<in> set (dotted a b c d) \<Longrightarrow> isDigit x \<or> x = CHR ''.''"
  using decimal_digits by (auto simp: dotted_def list_all_iff)

lemma lower_plain: "isDigit x \<or> x = CHR ''.'' \<Longrightarrow> lowerChar x = x"
  by (auto simp: lowerChar_def isDigit_def)

lemma dotted_lower: "map lowerChar (dotted a b c d) = dotted a b c d"
  by (rule map_idI) (use dotted_chars lower_plain in blast)

lemma normalize_plain: "hd s \<noteq> CHR ''['' \<Longrightarrow> normalizeHostname s = s"
  by (cases s) (simp_all add: normalizeHostname_def startsWith_def)

lemma dotted_head: "isDigit (hd (dotted a b c d))"
  using decimal_digits [of a] by (cases "decimal a") (auto simp: dotted_def)

lemma dotted_normal: "normalizeHostname (dotted a b c d) = dotted a b c d"
  by (rule normalize_plain) (use dotted_head [of a b c d] in \<open>auto simp: isDigit_def\<close>)

lemma private_dotted:
  assumes "a < 256" "b < 256" "c < 256" "d < 256"
  shows "isPrivateAddress (dotted a b c d) = privateOctets a b"
  by (subst isPrivateAddress.simps)
    (simp add: dotted_normal dotted_lower isIP_def dotted_isIPv4 [OF assms] split_dotted BigInt_decimal)

lemma mapped_isIP:
  assumes "a < 256" "b < 256" "c < 256" "d < 256"
  shows "isIP (''::ffff:'' @ dotted a b c d) = 6"
proof -
  have plain: "CHR '':'' \<notin> set (dotted a b c d)" "CHR ''%'' \<notin> set (dotted a b c d)"
    using dotted_chars by (fastforce simp: isDigit_def)+
  obtain t where "splitOn CHR ''.'' (''::ffff:'' @ dotted a b c d) = (''::ffff:'' @ decimal a) # t"
    by (simp add: dotted_def splitOn_append digits_plain isDigit_def)
  then have no4: "\<not> isIPv4 (''::ffff:'' @ dotted a b c d)"
    by (simp add: isIPv4_def isOctet_def isDigit_def)
  have body: "takeWhile (\<lambda>x. x \<noteq> CHR ''%'') (''::ffff:'' @ dotted a b c d) = ''::ffff:'' @ dotted a b c d"
      "dropWhile (\<lambda>x. x \<noteq> CHR ''%'') (''::ffff:'' @ dotted a b c d) = []"
    using plain(2) by (auto simp: takeWhile_eq_all_conv dropWhile_eq_Nil_conv)
  have "splitOn CHR '':'' (''ffff:'' @ dotted a b c d) = [''ffff'', dotted a b c d]"
    by (simp add: splitOn_plain plain)
  moreover have "\<not> isGroup (dotted a b c d)"
    by (auto simp: isGroup_def dotted_def isHexChar_def hexDigit_def)
  ultimately have "groupsWidth True (sideGroups (''ffff:'' @ dotted a b c d)) = Some 3"
    using dotted_isIPv4 [OF assms] by (simp add: sideGroups_def isGroup_def isHexChar_def hexDigit_def)
  then have "isIPv6 (''::ffff:'' @ dotted a b c d)"
    unfolding isIPv6_def Let_def body by (simp add: sideGroups_def)
  with no4 show ?thesis by (simp add: isIP_def)
qed

text \<open>
  C30: Of the addresses in dotted form exactly those of the blocks 0/8, 10/8, 127/8, 169.254/16, 172.16/12 and
  192.168/16 are private, and they are also when written as IPv4-mapped IPv6 addresses.
\<close>

theorem private_addresses:
  assumes "a < 256" "b < 256" "c < 256" "d < 256"
  shows "isPrivateAddress (dotted a b c d) = (a \<in> {0, 10, 127} \<or> (a, b) \<in> {(169, 254), (192, 168)} \<or> (a = 172 \<and> b \<in> {16..31}))
    \<and> isPrivateAddress (''::ffff:'' @ dotted a b c d) = isPrivateAddress (dotted a b c d)"
proof -
  have head: "normalizeHostname (''::ffff:'' @ dotted a b c d) = ''::ffff:'' @ dotted a b c d"
    by (rule normalize_plain) simp
  have lower: "map lowerChar (''::ffff:'' @ dotted a b c d) = ''::ffff:'' @ dotted a b c d"
    by (simp add: dotted_lower) (simp add: lowerChar_def)
  have "isPrivateAddress (''::ffff:'' @ dotted a b c d) = isPrivateAddress (dotted a b c d)"
    unfolding isPrivateAddress.simps [of "''::ffff:'' @ dotted a b c d"] head lower Let_def mapped_isIP [OF assms]
    by (simp add: startsWith_def dotted_def)
  then show ?thesis using private_dotted [OF assms] by (auto simp: privateOctets_def)
qed

section \<open>The object store\<close>

text \<open>What was put is found again under its reference, and stays so whatever is put later.\<close>

lemma putObject_kept: "files e = Some c \<Longrightarrow> snd (putObject sha torn bytes files) e = Some c"
  by (auto simp: putObject_def Let_def split: option.split sum.split)

lemma object_roundtrip:
  assumes "putObject sha torn bytes files = (Inr r, files')" and "sha256DigestSchema (sha bytes)"
  shows "\<exists>b. readObject sha r files' = Inr b \<and> sha b = sha bytes \<and> (files (sha bytes) = None \<longrightarrow> b = bytes)"
proof (cases "files (sha bytes)")
  case None
  with assms(1) have "r = toRawArtifactReference (sha bytes)" "files' (sha bytes) = Some bytes"
    by (auto simp: putObject_def Let_def split: option.splits)
  with assms(2) show ?thesis by (simp add: readObject_def readVerifiedRawArtifact_def toRawArtifactReference_def)
next
  case (Some b)
  with assms(1) have "r = toRawArtifactReference (sha bytes)" "files' = files" "sha b = sha bytes"
    by (auto simp: putObject_def Let_def readVerifiedRawArtifact_def split: if_splits)
  with Some assms(2) show ?thesis by (simp add: readObject_def readVerifiedRawArtifact_def toRawArtifactReference_def)
qed

lemma readObject_verified: "readObject sha r files = Inr b \<Longrightarrow> sha b = raw_artifact.digest r"
  by (auto simp: readObject_def readVerifiedRawArtifact_def split: if_splits option.splits)

section \<open>Evidence\<close>


section \<open>Retrieval\<close>

lemma loadDocuments_ids: "fst (loadDocuments rt eids s) = Inr ds \<Longrightarrow> map rdDocument ds = eids"
proof (induction eids arbitrary: ds s)
  case Nil
  then show ?case by (simp add: done_with_def)
next
  case (Cons eid eids)
  then show ?case
    by (auto simp: io_simps split: option.splits sum.splits prod.splits) (metis Cons.IH fst_conv)
qed

lemma rerankedResults_bounds:
  "length (rerankedResults ds k rs) \<le> nat k \<and> fst ` set (rerankedResults ds k rs) \<subseteq> rdDocument ` set ds"
  by (auto simp: rerankedResults_def dest!: in_set_takeD)

lemma search_retrieved:
  assumes "fst (search rt q k s) = Inr (Retrieved rs)"
  obtains m v n candidates ds where "validQuery q k"
    "rtNearest rt n \<lparr>queryLimit = \<lfloor>k\<rfloor> * 2, queryModel = m, queryVector = map Some v\<rparr> = Some candidates"
    "map rdDocument (ds :: rerank_document list) = map snd candidates" "length rs \<le> nat \<lfloor>k\<rfloor>" "fst ` set rs \<subseteq> rdDocument ` set ds"
proof -
  have valid: "validQuery q k" using assms by (auto simp: search_def throw_def split: if_splits)
  obtain em s1 where em: "embedText rt q s = (em, s1)" by fastforce
  then obtain m v where "em = Inr (Some (m, v))"
    using assms valid by (auto simp: search_def and_then_def done_with_def split: sum.splits option.splits)
  note em = em [unfolded this]
  obtain candidates where near:
      "rtNearest rt (calls s1) \<lparr>queryLimit = \<lfloor>k\<rfloor> * 2, queryModel = m, queryVector = map Some v\<rparr> = Some candidates"
    using assms valid em by (auto simp: search_def and_then_def call_port_def split: option.splits)
  define s2 where "s2 = s1\<lparr>calls := Suc (calls s1)\<rparr>"
  obtain x s3 where docs: "loadDocuments rt (map snd candidates) s2 = (x, s3)" by fastforce
  have rest: "search rt q k s = and_then (loadDocuments rt (map snd candidates)) (rerank rt q \<lfloor>k\<rfloor>) s2"
    using valid em near by (simp add: search_def and_then_def call_port_def s2_def)
  obtain ds where ds: "x = Inr ds"
    using assms docs unfolding rest by (auto simp: and_then_def split: sum.splits)
  have "fst (rerank rt q \<lfloor>k\<rfloor> ds s3) = Inr (Retrieved rs)"
    using assms docs ds unfolding rest by (simp add: and_then_def)
  then obtain rankings where "rs = rerankedResults ds \<lfloor>k\<rfloor> rankings"
    by (auto simp: rerank_def io_simps split: option.splits sum.splits local_result.splits local_output.splits)
  then have bounds: "length rs \<le> nat \<lfloor>k\<rfloor>" "fst ` set rs \<subseteq> rdDocument ` set ds"
    using rerankedResults_bounds [of ds "\<lfloor>k\<rfloor>" rankings] by simp_all
  have "map rdDocument ds = map snd candidates"
    using loadDocuments_ids [of rt "map snd candidates" s2 ds] docs ds by simp
  from that [OF valid near this bounds] show ?thesis .
qed

text \<open>
  C22: Over the evidence index, a search returns at most \<open>topK\<close> results, and each is evidence that the index holds,
  embedded by one model, whatever the embedding and reranking services answer.
\<close>

theorem search_within_index:
  assumes "fst (search (onIndex distanceOf d rt) q k s) = Inr (Retrieved rs)"
  shows "of_nat (length rs) \<le> k
     \<and> (\<exists>m. fst ` set rs \<subseteq> ixEvidence ` set (filter (\<lambda>r. ixModel r = m) (evidenceRows d)))"
proof -
  obtain m v n candidates ds where found: "validQuery q k"
      "rtNearest (onIndex distanceOf d rt) n \<lparr>queryLimit = \<lfloor>k\<rfloor> * 2, queryModel = m, queryVector = map Some v\<rparr> = Some candidates"
      "map rdDocument (ds :: rerank_document list) = map snd candidates" "length rs \<le> nat \<lfloor>k\<rfloor>" "fst ` set rs \<subseteq> rdDocument ` set ds"
    by (rule search_retrieved [OF assms])
  have "k = of_int \<lfloor>k\<rfloor>" "0 < k" using found(1) by (auto simp: validQuery_def)
  then have "of_nat (nat \<lfloor>k\<rfloor>) = k" by simp
  with found(4) have "of_nat (length rs) \<le> k" by (metis of_nat_le_iff)
  moreover have "rdDocument ` set ds \<subseteq> ixEvidence ` set (filter (\<lambda>r. ixModel r = m) (evidenceRows d))"
  proof -
    have "set (map snd candidates) \<subseteq> ixEvidence ` set (filter (\<lambda>r. ixModel r = m) (evidenceRows d))"
      using found(2)
      by (auto simp: onIndex_def indexNearest_def nearest_def Let_def comparableRows_def toEvidenceIndexRecord_def
          split: sum.splits if_splits dest!: in_set_takeD)
    then show ?thesis using arg_cong [OF found(3), of set] by simp
  qed
  ultimately show ?thesis using found(5) by (meson order_trans)
qed

end
