(* ===== verification/CM_Ingestion_Witnesses.thy ===== *)
theory CM_Ingestion_Witnesses
  imports CM_Retrieval_Facts CM_Gate_Facts
begin

text \<open>Concrete inputs on which the properties of ingestion, retrieval and the local services apply, and what they miss.\<close>

section \<open>A page that is collected\<close>

definition samplePolicy :: collect_policy where
  "samplePolicy = \<lparr>allowedMediaTypes = [''text/html''], maxBytes = 1000\<rparr>"

definition sampleResponse :: http_response where
  "sampleResponse = \<lparr>hrOk = True, hrStatus = 200, hrUrl = ''https://shop.test/a'',
     hrContentType = Some ''text/html; charset=utf-8'', hrContentLength = None, hrBody = Some ''<p>32 GB</p>''\<rparr>"

definition sampleDigest :: string where
  "sampleDigest = replicate 64 CHR ''a''"

definition sampleRaw :: raw_artifact where
  "sampleRaw = toRawArtifactReference sampleDigest"

definition sampleConnector :: "http_response \<Rightarrow> connector" where
  "sampleConnector r = \<lparr>cnFetch = (\<lambda>_ _. Some r), cnPut = (\<lambda>_ _. Some sampleRaw), cnNow = (\<lambda>_. 0),
     cnDurationMs = (\<lambda>_. 5), cnNumber = (\<lambda>_. None)\<rparr>"

definition sampleSource :: public_source where
  "sampleSource = \<lparr>psSource = ''source-1'', psTitle = ''Shop'', psUrl = ''https://shop.test/a''\<rparr>"

definition sampleIngest :: "http_response \<Rightarrow> ingest_options" where
  "sampleIngest r = \<lparr>approvedSourceUrls = [''https://shop.test/a''], collectionPolicy = samplePolicy,
     ingestConnector = sampleConnector r, ingestEgress = sampleEgressOptions, nextGapId = (\<lambda>_. ''gap-1''),
     resolveHost = (\<lambda>_ _. Some [''8.8.8.8'']),
     parseUrl = (\<lambda>u. Some \<lparr>upHref = u, upProtocol = ''https:'', upHostname = ''shop.test''\<rparr>)\<rparr>"

definition sampleIngestInput :: ingest_input where
  "sampleIngestInput = \<lparr>inCorrelation = ''correlation-1'', inTask = ''task-1'', inOperation = ''operation-1'',
     inSource = sampleSource, inUser = ''user-1''\<rparr>"

definition sampleFacts :: source_facts where
  "sampleFacts = \<lparr>sfCapturedAt = toISOString 0, sfMediaType = ''text/html'', sfSource = ''source-1'', sfTitle = ''Shop'',
     sfUrl = ''https://shop.test/a''\<rparr>"

lemma sample_host:
  "normalizeHostname ''shop.test'' = ''shop.test''" "isIP ''shop.test'' = 0" "isPrivateAddress ''8.8.8.8'' = False"
  "isLocalHostname ''shop.test'' = False" "toUpperCase ''GET'' = ''GET''"
  "responseMediaType sampleResponse = Some ''text/html''"
  by code_simp+

lemmas sample_ingest_simps = sampleIngest_def sampleIngestInput_def sampleSource_def sampleConnector_def samplePolicy_def
  ingest_def resolvedAddresses_def addressesBlocked_def guardedCollect_def executeEgress_def recordEgress_def ingestRequest_def
  effectiveOperation_def evaluateRiskPolicy_def sampleEgressOptions_def collect_def collectResponse_def collectBody_def
  declaredTooLarge_def io_simps Let_def sample_host

lemma sample_collected:
  "fst (ingest (sampleIngest sampleResponse) sampleIngestInput (fresh_run 0)) =
     Inr (Collected sampleFacts sampleRaw \<lparr>cmBytes = 12, cmDurationMs = 5\<rparr>)"
  by (simp add: sample_ingest_simps sampleFacts_def) (simp add: sampleResponse_def io_simps)

lemma collected_within_policy_witness:
  "\<exists>bytes. Performed (StoredRaw bytes) \<in> set (trace (snd (ingest (sampleIngest sampleResponse) sampleIngestInput (fresh_run 0))))
     \<and> collectedFrom (sampleConnector sampleResponse) samplePolicy sampleSource bytes sampleFacts sampleRaw
         \<lparr>cmBytes = 12, cmDurationMs = 5\<rparr>"
  using collected_within_policy [OF sample_collected]
  by (simp add: sampleIngest_def sampleIngestInput_def)

text \<open>
  When the body of an admitted page cannot be read, the failure is thrown through the egress guard and out of
  ingestion: there is no evidence gap, though the page was fetched.
\<close>

theorem lost_body_leaves_no_gap:
  "fst (ingest (sampleIngest (sampleResponse\<lparr>hrBody := None\<rparr>)) sampleIngestInput (fresh_run 0)) = Inl ()"
proof -
  have "responseMediaType (sampleResponse\<lparr>hrBody := None\<rparr>) = Some ''text/html''" by code_simp
  then show ?thesis
    by (simp add: sample_ingest_simps) (simp add: sampleResponse_def io_simps)
qed

section \<open>Addresses and objects\<close>

lemma private_addresses_witness:
  "isPrivateAddress (dotted 172 16 0 1) \<and> isPrivateAddress (''::ffff:'' @ dotted 172 16 0 1)"
  using private_addresses [of 172 16 0 1] by simp

text \<open>
  The loopback address spelled out, the shared address space of carriers and an IPv4 loopback address behind NAT64
  are taken for public.
\<close>

theorem internal_addresses_admitted:
  "\<not> isPrivateAddress ''0:0:0:0:0:0:0:1'' \<and> \<not> isPrivateAddress ''100.64.0.1'' \<and> \<not> isPrivateAddress ''64:ff9b::7f00:1''"
  by code_simp

text \<open>A write that fails half way leaves a file under the digest of the bytes; they can never be stored again.\<close>

theorem torn_write_blocks_object:
  assumes "files (sha bytes) = None" and "sha part \<noteq> sha bytes"
  shows "putObject sha torn bytes (snd (putObject sha (Some (Some part)) bytes files)) =
    (Inl ObjectCorrupted, snd (putObject sha (Some (Some part)) bytes files))"
  using assms by (simp add: putObject_def Let_def readVerifiedRawArtifact_def)

section \<open>Evidence and retrieval\<close>

definition parsedResult :: local_result where
  "parsedResult = LocalSucceeded ''parse-1'' (ParserOutput ''html-1'' ''32 GB'' 1)"

definition embeddedResult :: local_result where
  "embeddedResult = LocalSucceeded ''embed-1'' (EmbeddingOutput ''model-1'' 1 [[1]])"

definition rankedResult :: local_result where
  "rankedResult = LocalSucceeded ''rank-1'' (RerankerOutput ''model-2'' [(''evidence-1'', 1), (''evidence-9'', 1)])"

text \<open>Typing by name: three values that stand for the answers of the three services.\<close>

definition namedShape :: "local_result zod_shape" where
  "namedShape = \<lparr>typedValue = (\<lambda>j. if j = JStr ''parsed'' then Inr parsedResult
       else if j = JStr ''embedded'' then Inr embeddedResult
       else if j = JStr ''ranked'' then Inr rankedResult else Inl []),
     refinementPaths = (\<lambda>_. [])\<rparr>"

lemma meaningful_samples:
  "list_all meaningfulTextSchema [''parse-1'', ''html-1'', ''32 GB'', ''embed-1'', ''model-1'', ''rank-1'', ''model-2'',
     ''evidence-1'', ''evidence-9'', ''Shop'', ''request-1'', ''M'', ''Hello'']"
  by code_simp

lemma named_decodes:
  "decodeLocalServiceResultV1 namedShape (JStr ''parsed'') = Inr parsedResult"
  "decodeLocalServiceResultV1 namedShape (JStr ''embedded'') = Inr embeddedResult"
  "decodeLocalServiceResultV1 namedShape (JStr ''ranked'') = Inr rankedResult"
  using meaningful_samples
  by (simp_all add: decodeLocalServiceResultV1_Inr_iff namedShape_def jhas_def parsedResult_def embeddedResult_def
      rankedResult_def localServiceResultSchema_def successfulResultSchema_def dimensionIssues_def)

definition sampleGenerator :: generator where
  "sampleGenerator = \<lparr>gnShape = namedShape, gnRead = (\<lambda>_ _. Some ''<p>32 GB</p>''), gnParse = (\<lambda>_ _. Some (JStr ''parsed'')),
     gnEvidenceId = (\<lambda>_. ''evidence-1''), gnGapId = (\<lambda>_. ''gap-1''), gnRequestId = (\<lambda>_. ''parse-1''),
     gnBase64 = (\<lambda>_. ''PHA+''), gnSha256 = (\<lambda>_. sampleDigest)\<rparr>"

definition anyFormat :: zod_formats where
  "anyFormat = \<lparr>isoDatetime = (\<lambda>_. True), zodUrl = (\<lambda>_. True)\<rparr>"

lemma sampleDigest_ok: "sha256DigestSchema sampleDigest"
  by (simp add: sha256DigestSchema_def sampleDigest_def hexDigit_def list_all_iff)


definition sampleRetrieval :: retrieval where
  "sampleRetrieval = \<lparr>rtShape = namedShape, rtEmbed = (\<lambda>_ _. Some (JStr ''embedded'')),
     rtRerank = (\<lambda>_ _. Some (JStr ''ranked'')), rtSave = (\<lambda>_ _ _. Some ()), rtNearest = (\<lambda>_ _. None),
     rtExcerpt = (\<lambda>_ _. Some ''32 GB''), rtEmbeddingId = (\<lambda>_. ''embed-1''), rtRerankerId = (\<lambda>_. ''rank-1'')\<rparr>"

definition indexedRow :: indexed_evidence where
  "indexedRow = \<lparr>ixEvidence = ''evidence-1'', ixTask = ''task-1'', ixCapturedAt = 0, ixValidUntil = 1, ixSection = ''body'',
     ixField = ''text'', ixSourceId = ''source-1'', ixTitle = ''Shop'', ixUrl = ''https://shop.test/a'',
     ixExcerptDigest = sampleDigest, ixParserVersion = ''html-1'', ixRawArtifact = sampleRaw, ixModel = ''model-1'', ixVector = [1]\<rparr>"

lemma search_within_index_witness:
  "of_nat (length [(''evidence-1'', 1 :: rat)]) \<le> (2 :: rat)
   \<and> (\<exists>m. {''evidence-1''} \<subseteq> ixEvidence ` set (filter (\<lambda>r. ixModel r = m) [indexedRow]))"
proof -
  have "trim ''32 GB'' \<noteq> []" by code_simp
  moreover have "assertQuery \<lparr>queryLimit = 4, queryModel = ''model-1'', queryVector = [Some 1]\<rparr>"
    using meaningful_samples by (simp add: assertQuery_def)
  ultimately have "fst (search (onIndex (\<lambda>_ _. 0) (emptyDatabase\<lparr>evidenceRows := [indexedRow]\<rparr>) sampleRetrieval) ''32 GB'' 2 (fresh_run 0)) =
      Inr (Retrieved [(''evidence-1'', 1)])"
    by (simp add: search_def validQuery_def embedText_def io_simps onIndex_def sampleRetrieval_def named_decodes embeddedResult_def
        indexNearest_def nearest_def comparableRows_def indexedRow_def toEvidenceIndexRecord_def Let_def rerank_def
        rankedResult_def rerankedResults_def List.map_filter_def)
  from search_within_index [OF this] show ?thesis by simp
qed

section \<open>Local services\<close>

definition chatTarget :: local_target where
  "chatTarget = \<lparr>ltService = ''qwen-model'', ltPort = MODEL_PROVIDER, ltBaseUrl = ''http://model.test'', ltModel = Some ''M'',
     ltProtocol = OPENAI_CHAT_COMPLETIONS, ltTimeoutMs = 1000, ltMaxInputBytes = None, ltCapabilities = [], ltLimitations = []\<rparr>"

definition chatRequest :: local_request where
  "chatRequest = \<lparr>lrRequest = ''request-1'', lrInput = ModelInput [(ChatUser, ''Hello'')] 10\<rparr>"

definition chatPayload :: json where
  "chatPayload = JObj [(''model'', JStr ''M''), (''choices'', JArr [JObj [(''message'', JObj [(''content'', JStr ''Hello'')])]])]"

definition chatResult :: local_result where
  "chatResult = LocalSucceeded ''request-1'' (ModelOutput ''M'' ''Hello'')"

definition chatShape :: "local_result zod_shape" where
  "chatShape = \<lparr>typedValue = (\<lambda>j. if j = mapSuccessfulResponse chatTarget chatRequest chatPayload then Inr chatResult else Inl []),
     refinementPaths = (\<lambda>_. [])\<rparr>"

definition chatClient :: local_client where
  "chatClient = \<lparr>clientShape = chatShape, clientBytes = (\<lambda>_. 10), clientFromBase64 = id,
     clientFetch = (\<lambda>_. FetchAnswered 200 (Some chatPayload))\<rparr>"

lemma chat_mapped:
  "mapSuccessfulResponse chatTarget chatRequest chatPayload =
     withOutput chatRequest (JObj [(''model'', JStr ''M''), (''text'', JStr ''Hello'')])"
  by (simp add: mapSuccessfulResponse_def chatTarget_def chatPayload_def isRecord_def answersModel_def modelJson_def jget_def
      readChatText_def firstElement_def Let_def)

lemma chat_fields:
  "lrRequest chatRequest = ''request-1''" "requestPort chatRequest = MODEL_PROVIDER" "ltPort chatTarget = MODEL_PROVIDER"
  "ltMaxInputBytes chatTarget = None" "\<exists>u. buildUpstreamRequest f chatTarget chatRequest = Some u"
  by (simp_all add: chatRequest_def chatTarget_def buildUpstreamRequest_def)

lemma chat_faithful: "faithfulShape chatShape"
proof -
  have "resultMatches (mapSuccessfulResponse chatTarget chatRequest chatPayload) chatResult"
    by (simp add: chat_mapped resultMatches_def outputMatches_def chatResult_def chat_fields) (simp add: jget_def)
  then show ?thesis by (simp add: faithfulShape_def chatShape_def)
qed

lemma chat_answered: "executeLocalServiceRequest chatClient chatTarget chatRequest = chatResult"
proof -
  have "jhas (withOutput chatRequest out) ''contractVersion''" "jget (withOutput chatRequest out) ''contractVersion'' = JStr ''1.0''" for out
    by (simp_all add: withOutput_def jhas_def jget_def)
  then have "decodeLocalServiceResultV1 chatShape (mapSuccessfulResponse chatTarget chatRequest chatPayload) = Inr chatResult"
    using meaningful_samples
    by (simp add: decodeLocalServiceResultV1_Inr_iff chat_mapped)
      (simp add: chatShape_def chat_mapped chatResult_def localServiceResultSchema_def successfulResultSchema_def dimensionIssues_def)
  moreover obtain u where "buildUpstreamRequest id chatTarget chatRequest = Some u" using chat_fields(5) by blast
  ultimately show ?thesis
    by (simp add: executeLocalServiceRequest_def chatClient_def Let_def chat_fields)
qed

lemma local_service_answer_witness: "answersRequest chatTarget chatRequest chatResult"
  using local_service_answer [of chatClient chatRequest chatTarget] chat_faithful meaningful_samples
  by (simp add: chat_answered) (simp add: chatClient_def chatRequest_def)

definition emptyEnvironment :: configuration_env where
  "emptyEnvironment = \<lparr>cfVariable = (\<lambda>_. None), cfNumber = (\<lambda>_. None), cfUrl = (\<lambda>u. Some (''http:'', u))\<rparr>"

definition failingSmoke :: smoke_env where
  "failingSmoke = \<lparr>seJpeg = ''AAAA'', seHtml = ''AAAA'', sePdf = ''AAAA'', seDigest = (\<lambda>_. ''''), seMonotonic = (\<lambda>_. 0), seNow = 0,
     seExecute = (\<lambda>_ t r. localFailure t (lrRequest r) LS_TIMEOUT ''timed out'')\<rparr>"

lemma empty_loads: "\<exists>ts. loadLocalServiceConfiguration emptyEnvironment = Inr ts"
proof -
  have texts: "list_all (\<lambda>s. trim s \<noteq> []) [''http://192.168.121.32:6013/v1'', ''Qwen3.8-27B'', ''http://192.168.121.33:8008/v1'',
      ''Qwen3-Embedding-4B'', ''http://192.168.121.33:8012/v1'', ''Qwen3-Reranker-8B'', ''http://192.168.121.33:18080/v1'',
      ''PaddleOCR-VL-1.6-0.9B'', ''http://192.168.121.33:8000'', ''http://127.0.0.1:3300/v1'']"
    by code_simp
  then show ?thesis
    by (simp add: loadLocalServiceConfiguration_def emptyEnvironment_def readPositiveInteger_def serviceEntries_def readTarget_def
        readBaseUrl_def readMeaningfulText_def readModel_def Let_def)
qed

lemma smoke_opens_gate_witness:
  "\<exists>ts rep. runLocalServiceSmoke failingSmoke ts = Inr rep \<and> map ssService (srServices rep) = requiredServices
     \<and> grStatus (serviceGate (smokeInput rep)) = GATE_FAILED"
proof -
  obtain ts where ts: "loadLocalServiceConfiguration emptyEnvironment = Inr ts" using empty_loads by blast
  obtain rep where rep: "runLocalServiceSmoke failingSmoke ts = Inr rep" "map ssService (srServices rep) = requiredServices"
      "(grStatus (serviceGate (smokeInput rep)) = GATE_PASSED) = list_all (\<lambda>(k, t). calledOk failingSmoke k t) (enumerate 0 ts)"
    using smoke_opens_gate [OF ts, of failingSmoke] by blast
  have "ts \<noteq> []" using configured_services [OF ts] by (auto simp: requiredServices_def)
  then have "\<not> list_all (\<lambda>(k, t). calledOk failingSmoke k t) (enumerate 0 ts)"
    by (cases ts) (simp_all add: calledOk_def failingSmoke_def localFailure_def Let_def)
  with rep have "grStatus (serviceGate (smokeInput rep)) = GATE_FAILED"
    by (cases "grStatus (serviceGate (smokeInput rep))") simp_all
  with rep show ?thesis by blast
qed

end
