(* ===== verification/Spec2Isabelle.thy ===== *)
theory Spec2Isabelle
  imports CM_Store_Witnesses CM_Source_Witnesses CM_Conversation_Witnesses CM_Identity_Witnesses CM_Ingestion_Witnesses
begin

text \<open>
  A verification of ChoiceMind: a service in which a user states what to buy, a runtime researches candidates, and
  the answer (buy if the price holds, gather more information, ...) must rest on evidence that the user can check.

  \<^bold>\<open>The program.\<close> The packages under src/packages are libraries over PostgreSQL tables; the programs under src/apps
  wire them together. A user talks to a conversation (packages/conversation), whose turns add up to a requirement.
  A requirement is submitted to the task store (packages/task-persistence), which keeps submissions, operations, agent
  runs and their events, and announces new operations through an outbox. A worker claims an operation under a lease and
  lets the orchestrator's executor (apps/orchestrator) run it; the result is decoded with the decision contract
  (packages/contracts), which rejects every result whose selection, conditions or eliminations are not supported by
  trusted evidence. Research jobs on sources run beside it: source-research keeps the jobs, source-access the accounts at
  the sources, the security package the vault of credentials and the guard of everything that leaves, and
  apps/source-worker connects the three. identity-access holds the accounts, sessions and invitations of the users.

  \<^bold>\<open>Theories and code.\<close> The names of definitions are those of the source; a suffix or a longer name marks a clash.
  \<^item> CM_Prelude, CM_Json, CM_Time, CM_Effects: what the components use of the language (loops over arrays with an
    index, untyped values, dates and ISO texts, promises that call ports which may fail), and the locales below.
  \<^item> packages/contracts/src/decision/v1. CM_Contracts: the types of index.ts. CM_Schemas: schemas.ts.
    CM_Decision_Basis: decision-basis.ts. CM_Invariants: invariants.ts. CM_Canonical: canonical-json.ts and cursor.ts.
    CM_Decoders: the entry points of index.ts and errors.ts. Facts: CM_Basis_Facts, CM_Result_Facts, CM_Decoder_Facts.
  \<^item> apps/orchestrator. CM_Fixture: synthetic-laptop-fixture.ts. CM_Executor: executor.ts, the port and the internal
    route. Facts: CM_Fixture_Facts, CM_Executor_Facts, CM_Witnesses.
  \<^item> packages/security. CM_Security, CM_Security_Facts; CM_Stored_Vault is the vault on the task store.
  \<^item> packages/task-persistence. CM_Store: migration.ts and the shared transactions. CM_Recovery_Store, CM_Task_Store and
    CM_Task_Worker: the three groups of operations of index.ts. CM_Delivery: publisher.ts, event-publisher.ts,
    the worker's runOnce and the subscriber. CM_Evidence_Index: evidence-index.ts. Facts: CM_Store_Facts (the invariant and the
    relation \<open>evolves\<close>), CM_Task_Facts and CM_Worker_Facts (each operation evolves), CM_Task_System (the step relation),
    CM_Task_Properties, CM_Row_Types, CM_Task_Leases, CM_Task_Access, CM_Content_Facts, CM_Delivery_Facts, CM_Store_Witnesses.
  \<^item> packages/source-research: CM_Source_Research, CM_Research_Facts, CM_Research_Properties. packages/source-access:
    CM_Source_Access, CM_Source_Access_Facts. apps/source-worker: CM_Source_Worker, CM_Source_Worker_Facts. CM_Source_Witnesses.
  \<^item> packages/conversation: CM_Conversation, CM_Conversation_Facts (what a list of turns means), CM_Conversation_Steps
    (each operation on the tables is one on the turns), CM_Conversation_Properties, CM_Conversation_Witnesses.
  \<^item> packages/identity-access: CM_Identity (operations), CM_Identity_Access (the module's dispatch, queries and the
    lifecycle worker), CM_Identity_Facts (every command is a sequence of a dozen effects), CM_Identity_System (the invariant
    and the step relation), CM_Identity_Properties, CM_Identity_Login, CM_Identity_Witnesses.
  \<^item> packages/evidence-ingestion: CM_Evidence_Ingestion (addresses, object store, connector, ingestion), CM_Evidence_Retrieval
    (generator, index and search). Facts: CM_Ingestion_Facts, CM_Retrieval_Facts. packages/contracts/src/local-services/v1 and
    packages/local-services: CM_Local_Services (contract and client), CM_Local_Configuration (configuration, smoke run).
    packages/p0-gold-gate: CM_Gold_Gate. Facts: CM_Local_Facts, CM_Gate_Facts. CM_Ingestion_Witnesses for all of them.
  \<^bold>\<open>Interfaces.\<close> \<open>step_invariant\<close> and \<open>step_stable\<close> (CM_Prelude) are the contracts of a system of steps: an invariant that
  holds at the start and is kept, a fact that is never lost; every component with a step relation interprets them.
  \<open>contract_decoder\<close> (CM_Decoder_Facts) is the contract of a decoder, interpreted by each entry point. Properties at
  the top level rest on the interpretations.

  \<^bold>\<open>What is shown.\<close>
  \<^item> The contract: an accepted bundle selects only a listed candidate within the budget whose price and must-haves rest on
    live, trusted, cited evidence; eliminations are proven; the assessments are the canonical ones; an accepted success
    never exceeds what it may promise; resuming is allowed exactly on sound facts; decoders return acceptable values only.
  \<^item> The executor: one attempt per request at a time, one final outcome; its results satisfy the contract except where a
    finding says so.
  \<^item> The task store: histories without gaps, append-only, typed rows, leases that exclude, idempotent submission,
    isolation of owners, complete paging, a purge that leaves nothing, an outbox that is worked off; runs of the
    worker are sequences of store operations.
  \<^item> Sources: evidence once per job, exclusive leases, bounded attempts; a login replaces one credential; a revoked
    account is not used; secrets reach authorised operations only and never without an audit.
  \<^item> Conversations: the tables refine the list of accepted turns; a turn is taken once; owners are isolated.
  \<^item> Identities: somebody administers the system; accounts change only on the word of somebody entitled; closed sessions
    stay closed; deletions happen when due and leave nothing; password checks are bounded in rate.
  \<^item> Public pages: nothing is fetched but approved pages of public hosts after their egress record, evidence made of them
    satisfies the contract, a search finds what the index holds; the local services answer within their contract whatever
    the upstream does; the P0 gate passes exactly on what it requires.
  \<^bold>\<open>How the code is modelled.\<close>
  \<^item> A table is the list of its rows in insertion order; constraints are checked where an insert or update can violate them. A
    transaction is a function of the tables: it commits or leaves them as they were. Transactions that lock the rows they decide on
    are atomic; where the code does not lock, a parameter \<open>race\<close> (or \<open>woMeanwhile\<close>) stands for what other connections commit in
    between. ORDER BY on texts is bytewise, ties keep the order of the table unless the code names a further key.
  \<^item> Asynchronous programs are step relations (executor, subscriber, stores) or traces of port calls (security). What is
    interleaved is explicit, so a property of every reachable state holds for every interleaving of the steps.
  \<^item> Errors are values: sums of an error datatype and the result, one branch for each throw and early return.
  \<^item> Strings are lists of characters U+0000 to U+00FF (texts stored by PostgreSQL without U+0000); the Chinese literals of the
    source are given in English. Issue paths are lists of segments, joined only by the source. Fields with a single
    literal value (contractType, contractVersion, ...) are omitted from records. Numbers are \<open>int\<close>, \<open>nat\<close> or \<open>rat\<close> as the
    contract bounds them; columns of 32 bits are checked where they can overflow.
  \<^item> Parameters: zod's typing of untyped values and its formats, JSON.stringify of a primitive and jsonb, AES-GCM, SHA-256, scrypt,
    base64url, the clock, uuids and random secrets, collations, URL parsing, Redis, pgvector's distance, the runtime behind the
    port, adapters of sources and handlers of events. What is relied on of them is a hypothesis of the theorem that does.
  \<^item> Bounds: loops are structural recursions, so no fuel is needed. The version scan is bounded by the source's depth of
    32, attempts by its 5, password checks by its 5 and 30 seconds, deletions by its 7 days.

  \<^bold>\<open>Not modelled.\<close> The migrations (SQL sent in order), opening and closing of pools, signals and polling loops of the
  processes, the web application (user interface), the adapter that drives the CoreMind child process, and the
  compatibility scripts (build tooling). The HTTP routes of the API are not modelled yet.
  A crash between the vault and the commit of source access, and a login that reads an account while its password is changed (the
  code locks the name, not the account) are outside the atomic transactions of the model.
\<close>

end
